(* ===== verification/Prelude.thy ===== *)
theory Prelude
  imports Main "HOL-Library.Word" "HOL-Library.Monad_Syntax"
begin

text \<open>
  Shared ground of the development: the C integer types of the firmware, the traces of
  accesses a driver makes to memory-mapped registers, and the generic lemmas that the
  component theories use.

  A device driver is judged by the accesses it makes. The state of every component extends
  the record \<open>mach\<close>, whose one field is the list of the accesses made so far, newest first.
  What a read returns is decided by the peripheral and by the world outside, which are not part
  of the sources: the parameter \<open>hw\<close> of the definitions gives the value read as a function of
  the whole history of accesses, so one \<open>hw\<close> is one possible behaviour of the hardware and a
  theorem that is stated for every \<open>hw\<close> holds for all of them. A busy-wait loop may never
  end: such a function returns \<open>None\<close> when it does not.
\<close>

unbundle bit_operations_syntax

type_synonym u8 = "8 word"
type_synonym u16 = "16 word"
type_synonym u32 = "32 word"

named_theorems driver_defs "definitions of straight-line register code"
named_theorems io_simps "effect of register code on the trace and on the rest of the state"

section \<open>Peripherals, accesses and traces\<close>

text \<open>
  A register is a peripheral and a byte offset, as the headers under
  \<^verbatim>\<open>src/asf/sam/utils/cmsis/sam3u/include/component\<close> give it. \<open>FLASH_MEM\<close> is the
  internal flash seen as memory, with its addresses as offsets; \<open>AT a\<close> is whatever answers at a
  base address \<open>a\<close> that the code computes.
\<close>

datatype periph = PIOA | PIOB | AT u32 | USART0 | USART1 | USART2 | USART3 | TWI0 | TWI1
  | TC0 | PWM | PMC | EFC0 | EFC1 | WDT | UDPHS | SUPC | RSTC | NVIC | SCB | FLASH_MEM

text \<open>
  \<open>Wfi\<close>, \<open>Wfe\<close> and \<open>Nops n\<close> are instructions that wait, \<open>Cpsid\<close> and
  \<open>Cpsie\<close> mask and unmask interrupts; \<open>Delay n\<close> is a call of the
  delay loop; \<open>Oob a\<close> is an access outside the object that the pointer \<open>a\<close> names, after which the
  model makes no claim; \<open>Call n\<close> is a call of a function that is given from outside.
  Objects in memory that a pointer can name; a pointer is an object and a byte offset in it.
  \<open>O_stack bs\<close> is a local variable or array that holds the bytes \<open>bs\<close> while a DMA channel
  reads it.
\<close>

datatype obj = O_v1_adc_conf | O_i1_adc_conf | O_v2_adc_conf | O_i2_adc_conf | O_da | O_db
  | O_packets_in | O_packets_out | O_flash_table | O_ret_data | O_hwversion | O_fwversion
  | O_msft_compatible | O_msft_string | O_stack "8 word list"
  | O_device_status | O_ep_status | O_num_configuration | O_iface_setting
  | O_ep_job | O_langid_desc | O_string_desc | O_dev_desc | O_qual_desc | O_conf_fs | O_conf_hs | O_null

type_synonym ptr = "obj \<times> nat"

datatype event =
    Wr periph nat u32
  | WrP periph nat ptr
  | Rd periph nat
  | Delay u32
  | Oob ptr
  | Wfi
  | Wfe
  | Nops nat
  | Cpsid
  | Cpsie
  | Call nat

type_synonym hw = "event list \<Rightarrow> periph \<Rightarrow> nat \<Rightarrow> u32"

record mach =
  trace :: "event list"

definition wr :: "periph \<Rightarrow> nat \<Rightarrow> u32 \<Rightarrow> 'z mach_scheme \<Rightarrow> 'z mach_scheme" where
  "wr p r v s = trace_update (\<lambda>t. Wr p r v # t) s"

definition wrp :: "periph \<Rightarrow> nat \<Rightarrow> ptr \<Rightarrow> 'z mach_scheme \<Rightarrow> 'z mach_scheme" where
  "wrp p r a s = trace_update (\<lambda>t. WrP p r a # t) s"

definition rd :: "hw \<Rightarrow> periph \<Rightarrow> nat \<Rightarrow> 'z mach_scheme \<Rightarrow> u32 \<times> 'z mach_scheme" where
  "rd hw p r s = (hw (trace s) p r, trace_update (\<lambda>t. Rd p r # t) s)"

definition delay_cycles :: "u32 \<Rightarrow> 'z mach_scheme \<Rightarrow> 'z mach_scheme" where
  "delay_cycles n s = trace_update (\<lambda>t. Delay n # t) s"

definition oob :: "ptr \<Rightarrow> 'z mach_scheme \<Rightarrow> 'z mach_scheme" where
  "oob a s = trace_update (\<lambda>t. Oob a # t) s"

lemmas [driver_defs] = wr_def wrp_def rd_def delay_cycles_def oob_def Let_def

section \<open>Read-modify-write\<close>

definition rmw :: "hw \<Rightarrow> periph \<Rightarrow> nat \<Rightarrow> (u32 \<Rightarrow> u32) \<Rightarrow> 'z mach_scheme \<Rightarrow> 'z mach_scheme" where
  "rmw hw p r f s = (let (v, s) = rd hw p r s in wr p r (f v) s)"

lemmas [driver_defs] = rmw_def

section \<open>Single bits of a word\<close>

lemma and_exp_eq_0_iff [simp]: "w AND 2 ^ n = 0 \<longleftrightarrow> \<not> bit w n" for w :: "'a::len word"
  using bit_iff_and_push_bit_not_eq_0 [of w n] by (simp add: push_bit_of_1)

lemma exp_and_eq_0_iff [simp]: "2 ^ n AND w = 0 \<longleftrightarrow> \<not> bit w n" for w :: "'a::len word"
  using and_exp_eq_0_iff [of w n] by (simp add: and.commute)

lemma and_not_disjoint: "m AND k = 0 \<Longrightarrow> (x AND NOT k) AND m = x AND m" for x m k :: "'a::len word"
  by (auto simp: bit_eq_iff bit_simps)

section \<open>Counting with words\<close>

lemma unat_pred [simp]: "unat (w - 1) = unat w - 1" if "w \<noteq> 0" for w :: "'a::len word"
  using that by (simp add: unat_minus_one)

lemma unat_pred_less [simp]: "unat w - Suc 0 < unat w \<longleftrightarrow> w \<noteq> 0" for w :: "'a::len word"
  by (auto simp: unat_gt_0)

lemma unat_succ: "unat (w + 1) = Suc (unat w)" if "w < v" for w v :: "'a::len word"
proof -
  have "unat w + 1 < 2 ^ LENGTH('a)"
    using that unsigned_less [of v, where ?'a = nat]
    by (simp add: word_less_nat_alt del: unsigned_less)
  then show ?thesis by (simp add: unat_word_ariths)
qed

section \<open>Registers seen through a trace\<close>

text \<open>
  A status word of which one register sets bits (\<open>rs\<close>) and another clears them
  (\<open>rc\<close>), and a read/write register: the value that follows from the writes made so far,
  starting from a reset value.
\<close>

primrec status_of :: "nat \<Rightarrow> nat \<Rightarrow> periph \<Rightarrow> event list \<Rightarrow> u32" where
  "status_of rs rc p [] = 0"
| "status_of rs rc p (e # tr) =
     (case e of
        Wr q r v \<Rightarrow>
          if q = p \<and> r = rs then status_of rs rc p tr OR v
          else if q = p \<and> r = rc then status_of rs rc p tr AND NOT v
          else status_of rs rc p tr
      | _ \<Rightarrow> status_of rs rc p tr)"

primrec reg_of :: "periph \<Rightarrow> nat \<Rightarrow> u32 \<Rightarrow> event list \<Rightarrow> u32" where
  "reg_of p r v0 [] = v0"
| "reg_of p r v0 (e # tr) =
     (case e of
        Wr q r' v \<Rightarrow> if q = p \<and> r' = r then v else reg_of p r v0 tr
      | _ \<Rightarrow> reg_of p r v0 tr)"

lemma reg_of_reads [simp]: "reg_of p r v0 (replicate n (Rd q x) @ tr) = reg_of p r v0 tr"
  by (induction n) simp_all

lemma status_of_reads [simp]: "status_of rs rc p (replicate n (Rd q x) @ tr) = status_of rs rc p tr"
  by (induction n) simp_all

section \<open>Straight-line register code\<close>

text \<open>
  Everything such code does is to extend the trace. The locale states that contract for one
  operation; what follows from it (the accesses already made stay, nothing else in the state
  changes, composition keeps the contract) is proved once here.
\<close>

locale io_op =
  fixes f :: "'z mach_scheme \<Rightarrow> 'z mach_scheme"
  assumes extends: "\<exists>es. f s = s\<lparr>trace := es @ trace s\<rparr>"
begin

lemma more_kept: "mach.more (f s) = mach.more s"
  using extends [of s] by auto

lemma history_kept: "\<exists>es. trace (f s) = es @ trace s"
  using extends [of s] by auto

lemma events_kept: "set (trace s) \<subseteq> set (trace (f s))"
  using extends [of s] by auto

end

named_theorems io_ops "operations known to be straight-line register code"

lemma io_opI: "(\<And>s. f s = s\<lparr>trace := g s @ trace s\<rparr>) \<Longrightarrow> io_op f"
  unfolding io_op_def by blast

lemma io_op_id [io_ops]: "io_op (\<lambda>s. s)"
  by (rule io_opI [of _ "\<lambda>_. []"]) simp

lemma io_op_comp [io_ops]:
  assumes "io_op f" and "io_op g"
  shows "io_op (\<lambda>s. g (f s))"
proof
  fix s
  obtain es where es: "f s = s\<lparr>trace := es @ trace s\<rparr>"
    using io_op.extends [OF assms(1)] by blast
  obtain fs where fs: "g (f s) = (f s)\<lparr>trace := fs @ trace (f s)\<rparr>"
    using io_op.extends [OF assms(2)] by blast
  show "\<exists>es. g (f s) = s\<lparr>trace := es @ trace s\<rparr>"
    by (rule exI [of _ "fs @ es"]) (use fs in \<open>simp add: es\<close>)
qed

lemma io_op_if [io_ops]: "io_op f \<Longrightarrow> io_op g \<Longrightarrow> io_op (\<lambda>s. if b then f s else g s)"
  by (simp add: io_op_def)

interpretation wr: io_op "wr p r v"
  by (rule io_opI [of _ "\<lambda>_. [Wr p r v]"]) (simp add: wr_def)

interpretation wrp: io_op "wrp p r a"
  by (rule io_opI [of _ "\<lambda>_. [WrP p r a]"]) (simp add: wrp_def)

interpretation delay_cycles: io_op "delay_cycles n"
  by (rule io_opI [of _ "\<lambda>_. [Delay n]"]) (simp add: delay_cycles_def)

interpretation rmw: io_op "rmw hw p r f"
  by (rule io_opI [of _ "\<lambda>s. [Wr p r (f (hw (trace s) p r)), Rd p r]"])
    (simp add: rmw_def rd_def wr_def)

lemmas [io_ops] = wr.io_op_axioms wrp.io_op_axioms delay_cycles.io_op_axioms rmw.io_op_axioms

section \<open>Busy-wait loops\<close>

text \<open>
  Read a register until the bits \<open>m\<close> of the value read are \<open>v\<close>; the result is the last value
  read. \<open>None\<close> is a loop that never ends.
\<close>

partial_function (option) poll ::
  "hw \<Rightarrow> periph \<Rightarrow> nat \<Rightarrow> u32 \<Rightarrow> u32 \<Rightarrow> 'z mach_scheme \<Rightarrow> (u32 \<times> 'z mach_scheme) option" where
  "poll hw p r m v s =
     (if fst (rd hw p r s) AND m = v then Some (rd hw p r s)
      else poll hw p r m v (snd (rd hw p r s)))"

text \<open>The loop ends if some read, after finitely many, shows the bits waited for.\<close>

definition ready_after :: "hw \<Rightarrow> periph \<Rightarrow> nat \<Rightarrow> u32 \<Rightarrow> u32 \<Rightarrow> nat \<Rightarrow> event list \<Rightarrow> bool" where
  "ready_after hw p r m v k tr \<longleftrightarrow>
     hw (replicate k (Rd p r) @ tr) p r AND m = v \<and>
     (\<forall>i < k. hw (replicate i (Rd p r) @ tr) p r AND m \<noteq> v)"

lemma poll_ready:
  "ready_after hw p r m v k (trace s) \<Longrightarrow>
     poll hw p r m v s =
       Some (hw (replicate k (Rd p r) @ trace s) p r,
             trace_update (\<lambda>t. replicate (Suc k) (Rd p r) @ t) s)"
proof (induction k arbitrary: s)
  case 0
  then show ?case by (simp add: poll.simps [of hw p r m v s] ready_after_def rd_def)
next
  case (Suc k)
  let ?s = "snd (rd hw p r s)"
  have t: "trace ?s = Rd p r # trace s" by (simp add: rd_def)
  have rep: "replicate i (Rd p r) @ Rd p r # tr = replicate (Suc i) (Rd p r) @ tr" for i and tr
    by (simp add: replicate_app_Cons_same)
  have "ready_after hw p r m v k (trace ?s)"
    using Suc.prems by (simp add: ready_after_def t rep del: replicate_Suc)
  from Suc.IH [OF this] have "poll hw p r m v ?s =
      Some (hw (replicate (Suc k) (Rd p r) @ trace s) p r,
            trace_update (\<lambda>u. replicate (Suc (Suc k)) (Rd p r) @ u) s)"
    by (simp add: t rep rd_def comp_def replicate_app_Cons_same)
  moreover have "fst (rd hw p r s) AND m \<noteq> v"
    using Suc.prems by (auto simp: ready_after_def rd_def)
  ultimately show ?case by (simp add: poll.simps [of hw p r m v s])
qed

lemma poll_Some:
  assumes "poll hw p r m v s = Some (x, s')"
  shows "x AND m = v \<and> (\<exists>n. s' = trace_update (\<lambda>t. replicate n (Rd p r) @ t) s)"
proof -
  define Q where "Q = (\<lambda>(hw :: hw) p r m v s (y :: u32 \<times> 'a mach_scheme).
    fst y AND m = v \<and> (\<exists>n. snd y = trace_update (\<lambda>t. replicate n (Rd p r) @ t) s))"
  have "Q hw p r m v s (x, s')"
  proof (rule poll.raw_induct [where P = Q, OF _ assms])
    fix f :: "hw \<Rightarrow> periph \<Rightarrow> nat \<Rightarrow> u32 \<Rightarrow> u32 \<Rightarrow> 'a mach_scheme \<Rightarrow> (u32 \<times> 'a mach_scheme) option"
    fix hw p r m v s y
    assume IH: "\<And>hw p r m v s y. f hw p r m v s = Some y \<Longrightarrow> Q hw p r m v s y"
      and eq: "(if fst (rd hw p r s) AND m = v then Some (rd hw p r s)
                else f hw p r m v (snd (rd hw p r s))) = Some y"
    show "Q hw p r m v s y"
    proof (cases "fst (rd hw p r s) AND m = v")
      case True
      with eq show ?thesis unfolding Q_def by (auto simp: rd_def intro!: exI [of _ 1])
    next
      case False
      with eq have "Q hw p r m v (snd (rd hw p r s)) y" by (auto intro: IH)
      then obtain n where "fst y AND m = v"
        "snd y = trace_update (\<lambda>t. replicate n (Rd p r) @ t) (trace_update (\<lambda>t. Rd p r # t) s)"
        by (auto simp: Q_def rd_def)
      then show ?thesis unfolding Q_def
        by (auto simp: comp_def replicate_app_Cons_same intro!: exI [of _ "Suc n"])
    qed
  qed
  then show ?thesis by (simp add: Q_def)
qed

end
