(* ===== verification/App_State.thy ===== *)
theory App_State
  imports Prelude
begin

text \<open>
  The global variables of the application, \<^verbatim>\<open>src/src/main.h\<close> and
  \<^verbatim>\<open>src/src/main.c\<close>, as a record that extends the trace of register accesses, and the
  completion callbacks of the bulk endpoints, which only change them. The packet buffers
  \<open>packets_in\<close> and \<open>packets_out\<close> are filled and read by DMA only, so the state holds no
  contents for them; pointers into them are values of the trace.
\<close>

datatype chan_mode = DISABLED | SVMI | SIMV

record app = mach +
  hwversion :: "u8 list"
  ma :: chan_mode
  mb :: chan_mode
  not_a_new_transfer :: u8
  v1_adc_conf :: u16
  i1_adc_conf :: u16
  v2_adc_conf :: u16
  i2_adc_conf :: u16
  da :: u8
  db :: u8
  frame_number :: u32
  flash_table :: "u8 list"
  serial_number :: "u8 list"
  slot_offset_in :: u8
  slot_offset_out :: u8
  packet_index_in :: u32
  packet_index_out :: u32
  packet_index_send_in :: u32
  packet_index_send_out :: u32
  start_frame :: u16
  send_in :: bool
  send_out :: bool
  sending_in :: bool
  sending_out :: bool
  sent_in :: bool
  sent_out :: bool
  current_chan :: bool
  reset :: bool
  main_b_vendor_enable :: bool
  start_timer :: bool
  ret_data :: "u8 list"

text \<open>\<^verbatim>\<open>char hwversion[2] = {'D', 0}\<close> and the other initialisers; \<open>def_data\<close> is never written.\<close>

definition app_init :: app where
  "app_init = \<lparr> trace = [], hwversion = [0x44, 0], ma = DISABLED, mb = DISABLED,
     not_a_new_transfer = 0, v1_adc_conf = 0x20F1, i1_adc_conf = 0x20F7, v2_adc_conf = 0x20F7,
     i2_adc_conf = 0x20F1, da = 0, db = 1, frame_number = 0, flash_table = replicate 256 0,
     serial_number = replicate 33 0, slot_offset_in = 0, slot_offset_out = 0,
     packet_index_in = 0, packet_index_out = 0, packet_index_send_in = 0,
     packet_index_send_out = 0, start_frame = 0, send_in = False, send_out = False,
     sending_in = False, sending_out = False, sent_in = False, sent_out = False,
     current_chan = False, reset = False, main_b_vendor_enable = False, start_timer = False,
     ret_data = replicate 64 0 \<rparr>"

definition def_data :: "u16 list" where
  "def_data = [26600, 0, 0, 0x30, 0x40]"

definition i0_dac :: nat where "i0_dac = 0"
definition p1_simv :: nat where "p1_simv = 3"
definition p2_simv :: nat where "p2_simv = 4"

section \<open>Sizes of the objects in RAM\<close>

fun obj_size :: "obj \<Rightarrow> nat" where
  "obj_size O_v1_adc_conf = 2"
| "obj_size O_i1_adc_conf = 2"
| "obj_size O_v2_adc_conf = 2"
| "obj_size O_i2_adc_conf = 2"
| "obj_size O_da = 1"
| "obj_size O_db = 1"
| "obj_size O_packets_in = 2 * (1024 + 1) * 2"
| "obj_size O_packets_out = 2 * 512 * 2"
| "obj_size O_flash_table = 256"
| "obj_size O_ret_data = 64"
| "obj_size O_hwversion = 2"
| "obj_size _ = 0"

definition in_bounds :: "ptr \<Rightarrow> nat \<Rightarrow> bool" where
  "in_bounds a n \<longleftrightarrow> snd a + n \<le> obj_size (fst a)"

section \<open>Callbacks of the bulk endpoints\<close>

datatype udd_ep_status_t = UDD_EP_TRANSFER_OK | UDD_EP_TRANSFER_ABORT

definition main_vendor_bulk_in_received :: "udd_ep_status_t \<Rightarrow> 'z app_scheme \<Rightarrow> 'z app_scheme" where
  "main_vendor_bulk_in_received status s =
     (if status \<noteq> UDD_EP_TRANSFER_OK then s else s\<lparr>sending_in := False\<rparr>)"

definition main_vendor_bulk_out_received :: "udd_ep_status_t \<Rightarrow> 'z app_scheme \<Rightarrow> 'z app_scheme" where
  "main_vendor_bulk_out_received status s =
     (if status \<noteq> UDD_EP_TRANSFER_OK then s else s\<lparr>sending_out := False\<rparr>)"

definition main_vendor_bulk_out_received_first ::
  "udd_ep_status_t \<Rightarrow> 'z app_scheme \<Rightarrow> 'z app_scheme" where
  "main_vendor_bulk_out_received_first status s =
     (if status \<noteq> UDD_EP_TRANSFER_OK then s
      else let s = (if \<not> sent_out s then s\<lparr>start_timer := True\<rparr> else s)
           in s\<lparr>sent_out := True, sending_out := False\<rparr>)"

end
