(* ===== verification/Pio.thy ===== *)
theory Pio
  imports Prelude
begin

text \<open>
  The parallel I/O driver, \<^verbatim>\<open>src/asf/sam/drivers/pio/pio.c\<close>, as compiled for the SAM3U:
  one definition per function, in the order of the file. The registers are the offsets of
  \<^verbatim>\<open>component_pio.h\<close>. A pin mask is a 32-bit word.

  The second half states what a sequence of register writes asks of the pins. The PIO
  controller keeps, for each status register, a bit per pin that one register sets and another
  clears; \<open>status_of\<close> of the prelude reads that bit word off a trace. The locale \<open>pio_hw\<close> says that reading
  the status register returns it.
\<close>

abbreviation (input) PIO_PER :: nat where "PIO_PER \<equiv> 0"
abbreviation (input) PIO_PDR :: nat where "PIO_PDR \<equiv> 4"
abbreviation (input) PIO_PSR :: nat where "PIO_PSR \<equiv> 8"
abbreviation (input) PIO_OER :: nat where "PIO_OER \<equiv> 16"
abbreviation (input) PIO_ODR :: nat where "PIO_ODR \<equiv> 20"
abbreviation (input) PIO_OSR :: nat where "PIO_OSR \<equiv> 24"
abbreviation (input) PIO_IFER :: nat where "PIO_IFER \<equiv> 32"
abbreviation (input) PIO_IFDR :: nat where "PIO_IFDR \<equiv> 36"
abbreviation (input) PIO_IFSR :: nat where "PIO_IFSR \<equiv> 40"
abbreviation (input) PIO_SODR :: nat where "PIO_SODR \<equiv> 48"
abbreviation (input) PIO_CODR :: nat where "PIO_CODR \<equiv> 52"
abbreviation (input) PIO_ODSR :: nat where "PIO_ODSR \<equiv> 56"
abbreviation (input) PIO_PDSR :: nat where "PIO_PDSR \<equiv> 60"
abbreviation (input) PIO_IER :: nat where "PIO_IER \<equiv> 64"
abbreviation (input) PIO_IDR :: nat where "PIO_IDR \<equiv> 68"
abbreviation (input) PIO_IMR :: nat where "PIO_IMR \<equiv> 72"
abbreviation (input) PIO_ISR :: nat where "PIO_ISR \<equiv> 76"
abbreviation (input) PIO_MDER :: nat where "PIO_MDER \<equiv> 80"
abbreviation (input) PIO_MDDR :: nat where "PIO_MDDR \<equiv> 84"
abbreviation (input) PIO_MDSR :: nat where "PIO_MDSR \<equiv> 88"
abbreviation (input) PIO_PUDR :: nat where "PIO_PUDR \<equiv> 96"
abbreviation (input) PIO_PUER :: nat where "PIO_PUER \<equiv> 100"
abbreviation (input) PIO_PUSR :: nat where "PIO_PUSR \<equiv> 104"
abbreviation (input) PIO_ABSR :: nat where "PIO_ABSR \<equiv> 112"
abbreviation (input) PIO_SCIFSR :: nat where "PIO_SCIFSR \<equiv> 128"
abbreviation (input) PIO_DIFSR :: nat where "PIO_DIFSR \<equiv> 132"
abbreviation (input) PIO_IFDGSR :: nat where "PIO_IFDGSR \<equiv> 136"
abbreviation (input) PIO_SCDR :: nat where "PIO_SCDR \<equiv> 140"
abbreviation (input) PIO_OWER :: nat where "PIO_OWER \<equiv> 160"
abbreviation (input) PIO_OWDR :: nat where "PIO_OWDR \<equiv> 164"
abbreviation (input) PIO_OWSR :: nat where "PIO_OWSR \<equiv> 168"
abbreviation (input) PIO_AIMER :: nat where "PIO_AIMER \<equiv> 176"
abbreviation (input) PIO_AIMDR :: nat where "PIO_AIMDR \<equiv> 180"
abbreviation (input) PIO_AIMMR :: nat where "PIO_AIMMR \<equiv> 184"
abbreviation (input) PIO_ESR :: nat where "PIO_ESR \<equiv> 192"
abbreviation (input) PIO_LSR :: nat where "PIO_LSR \<equiv> 196"
abbreviation (input) PIO_ELSR :: nat where "PIO_ELSR \<equiv> 200"
abbreviation (input) PIO_FELLSR :: nat where "PIO_FELLSR \<equiv> 208"
abbreviation (input) PIO_REHLSR :: nat where "PIO_REHLSR \<equiv> 212"
abbreviation (input) PIO_FRLHSR :: nat where "PIO_FRLHSR \<equiv> 216"
abbreviation (input) PIO_LOCKSR :: nat where "PIO_LOCKSR \<equiv> 224"
abbreviation (input) PIO_WPMR :: nat where "PIO_WPMR \<equiv> 228"
abbreviation (input) PIO_WPSR :: nat where "PIO_WPSR \<equiv> 232"

abbreviation (input) PIO_PULLUP :: u32 where "PIO_PULLUP \<equiv> 1"
abbreviation (input) PIO_DEGLITCH :: u32 where "PIO_DEGLITCH \<equiv> 2"
abbreviation (input) PIO_OPENDRAIN :: u32 where "PIO_OPENDRAIN \<equiv> 4"
abbreviation (input) PIO_DEBOUNCE :: u32 where "PIO_DEBOUNCE \<equiv> 8"
abbreviation (input) PIO_IT_AIME :: u32 where "PIO_IT_AIME \<equiv> 16"
abbreviation (input) PIO_IT_RE_OR_HL :: u32 where "PIO_IT_RE_OR_HL \<equiv> 32"
abbreviation (input) PIO_IT_EDGE :: u32 where "PIO_IT_EDGE \<equiv> 64"
abbreviation (input) PIO_DEFAULT :: u32 where "PIO_DEFAULT \<equiv> 0"
abbreviation (input) ID_PIOA :: u32 where "ID_PIOA \<equiv> 10"

datatype pio_type_t = PIO_NOT_A_PIN | PIO_PERIPH_A | PIO_PERIPH_B | PIO_INPUT
  | PIO_OUTPUT_0 | PIO_OUTPUT_1

section \<open>The driver\<close>

definition pio_pull_up :: "periph \<Rightarrow> u32 \<Rightarrow> u32 \<Rightarrow> 'z mach_scheme \<Rightarrow> 'z mach_scheme" where
  "pio_pull_up p ul_mask ul_pull_up_enable s =
     (if ul_pull_up_enable \<noteq> 0 then wr p PIO_PUER ul_mask s else wr p PIO_PUDR ul_mask s)"

definition pio_set_debounce_filter :: "periph \<Rightarrow> u32 \<Rightarrow> u32 \<Rightarrow> 'z mach_scheme \<Rightarrow> 'z mach_scheme" where
  "pio_set_debounce_filter p ul_mask ul_cut_off s =
     (let s = wr p PIO_DIFSR ul_mask s
      in wr p PIO_SCDR (0x3fff AND (32768 div (2 * ul_cut_off) - 1)) s)"

definition pio_set :: "periph \<Rightarrow> u32 \<Rightarrow> 'z mach_scheme \<Rightarrow> 'z mach_scheme" where
  "pio_set p ul_mask s = wr p PIO_SODR ul_mask s"

definition pio_clear :: "periph \<Rightarrow> u32 \<Rightarrow> 'z mach_scheme \<Rightarrow> 'z mach_scheme" where
  "pio_clear p ul_mask s = wr p PIO_CODR ul_mask s"

definition pio_get :: "hw \<Rightarrow> periph \<Rightarrow> pio_type_t \<Rightarrow> u32 \<Rightarrow> 'z mach_scheme \<Rightarrow> u32 \<times> 'z mach_scheme" where
  "pio_get hw p ul_type ul_mask s =
     (let (ul_reg, s) = (if ul_type = PIO_OUTPUT_0 \<or> ul_type = PIO_OUTPUT_1
                         then rd hw p PIO_ODSR s else rd hw p PIO_PDSR s)
      in (if ul_reg AND ul_mask = 0 then 0 else 1, s))"

definition pio_disable_interrupt :: "periph \<Rightarrow> u32 \<Rightarrow> 'z mach_scheme \<Rightarrow> 'z mach_scheme" where
  "pio_disable_interrupt p ul_mask s = wr p PIO_IDR ul_mask s"

definition pio_set_peripheral ::
  "hw \<Rightarrow> periph \<Rightarrow> pio_type_t \<Rightarrow> u32 \<Rightarrow> 'z mach_scheme \<Rightarrow> 'z mach_scheme" where
  "pio_set_peripheral hw p ul_type ul_mask s =
     (let s = wr p PIO_IDR ul_mask s in
      case ul_type of
        PIO_PERIPH_A \<Rightarrow>
          (let (ul_sr, s) = rd hw p PIO_ABSR s;
               s = rmw hw p PIO_ABSR (\<lambda>v. v AND (NOT ul_mask AND ul_sr)) s
           in wr p PIO_PDR ul_mask s)
      | PIO_PERIPH_B \<Rightarrow>
          (let (ul_sr, s) = rd hw p PIO_ABSR s;
               s = wr p PIO_ABSR (ul_mask OR ul_sr) s
           in wr p PIO_PDR ul_mask s)
      | _ \<Rightarrow> s)"

definition pio_set_input :: "periph \<Rightarrow> u32 \<Rightarrow> u32 \<Rightarrow> 'z mach_scheme \<Rightarrow> 'z mach_scheme" where
  "pio_set_input p ul_mask ul_attribute s =
     (let s = pio_disable_interrupt p ul_mask s;
          s = pio_pull_up p ul_mask (ul_attribute AND PIO_PULLUP) s;
          s = (if ul_attribute AND (PIO_DEGLITCH OR PIO_DEBOUNCE) \<noteq> 0
               then wr p PIO_IFER ul_mask s else wr p PIO_IFDR ul_mask s);
          s = (if ul_attribute AND PIO_DEGLITCH \<noteq> 0 then wr p PIO_SCIFSR ul_mask s
               else if ul_attribute AND PIO_DEBOUNCE \<noteq> 0 then wr p PIO_DIFSR ul_mask s else s);
          s = wr p PIO_ODR ul_mask s
      in wr p PIO_PER ul_mask s)"

definition pio_set_output ::
  "periph \<Rightarrow> u32 \<Rightarrow> u32 \<Rightarrow> u32 \<Rightarrow> u32 \<Rightarrow> 'z mach_scheme \<Rightarrow> 'z mach_scheme" where
  "pio_set_output p ul_mask ul_default_level ul_multidrive_enable ul_pull_up_enable s =
     (let s = pio_disable_interrupt p ul_mask s;
          s = pio_pull_up p ul_mask ul_pull_up_enable s;
          s = (if ul_multidrive_enable \<noteq> 0 then wr p PIO_MDER ul_mask s
               else wr p PIO_MDDR ul_mask s);
          s = (if ul_default_level \<noteq> 0 then wr p PIO_SODR ul_mask s
               else wr p PIO_CODR ul_mask s);
          s = wr p PIO_OER ul_mask s
      in wr p PIO_PER ul_mask s)"

definition pio_configure ::
  "hw \<Rightarrow> periph \<Rightarrow> pio_type_t \<Rightarrow> u32 \<Rightarrow> u32 \<Rightarrow> 'z mach_scheme \<Rightarrow> u32 \<times> 'z mach_scheme" where
  "pio_configure hw p ul_type ul_mask ul_attribute s =
     (if ul_type = PIO_PERIPH_A \<or> ul_type = PIO_PERIPH_B then
        (let s = pio_set_peripheral hw p ul_type ul_mask s
         in (1, pio_pull_up p ul_mask (ul_attribute AND PIO_PULLUP) s))
      else if ul_type = PIO_INPUT then (1, pio_set_input p ul_mask ul_attribute s)
      else if ul_type = PIO_OUTPUT_0 \<or> ul_type = PIO_OUTPUT_1 then
        (1, pio_set_output p ul_mask (if ul_type = PIO_OUTPUT_1 then 1 else 0)
              (if ul_attribute AND PIO_OPENDRAIN \<noteq> 0 then 1 else 0)
              (if ul_attribute AND PIO_PULLUP \<noteq> 0 then 1 else 0) s)
      else (0, s))"

definition pio_get_output_data_status ::
  "hw \<Rightarrow> periph \<Rightarrow> u32 \<Rightarrow> 'z mach_scheme \<Rightarrow> u32 \<times> 'z mach_scheme" where
  "pio_get_output_data_status hw p ul_mask s =
     (let (v, s) = rd hw p PIO_ODSR s in (if v AND ul_mask = 0 then 0 else 1, s))"

definition pio_set_multi_driver :: "periph \<Rightarrow> u32 \<Rightarrow> u32 \<Rightarrow> 'z mach_scheme \<Rightarrow> 'z mach_scheme" where
  "pio_set_multi_driver p ul_mask ul_multi_driver_enable s =
     (if ul_multi_driver_enable \<noteq> 0 then wr p PIO_MDER ul_mask s else wr p PIO_MDDR ul_mask s)"

definition pio_get_multi_driver_status :: "hw \<Rightarrow> periph \<Rightarrow> 'z mach_scheme \<Rightarrow> u32 \<times> 'z mach_scheme" where
  "pio_get_multi_driver_status hw p s = rd hw p PIO_MDSR s"

definition pio_enable_output_write :: "periph \<Rightarrow> u32 \<Rightarrow> 'z mach_scheme \<Rightarrow> 'z mach_scheme" where
  "pio_enable_output_write p ul_mask s = wr p PIO_OWER ul_mask s"

definition pio_disable_output_write :: "periph \<Rightarrow> u32 \<Rightarrow> 'z mach_scheme \<Rightarrow> 'z mach_scheme" where
  "pio_disable_output_write p ul_mask s = wr p PIO_OWDR ul_mask s"

definition pio_get_output_write_status :: "hw \<Rightarrow> periph \<Rightarrow> 'z mach_scheme \<Rightarrow> u32 \<times> 'z mach_scheme" where
  "pio_get_output_write_status hw p s = rd hw p PIO_OWSR s"

definition pio_sync_output_write :: "periph \<Rightarrow> u32 \<Rightarrow> 'z mach_scheme \<Rightarrow> 'z mach_scheme" where
  "pio_sync_output_write p ul_mask s = wr p PIO_ODSR ul_mask s"

definition pio_configure_interrupt :: "periph \<Rightarrow> u32 \<Rightarrow> u32 \<Rightarrow> 'z mach_scheme \<Rightarrow> 'z mach_scheme" where
  "pio_configure_interrupt p ul_mask ul_attr s =
     (if ul_attr AND PIO_IT_AIME \<noteq> 0 then
        (let s = wr p PIO_AIMER ul_mask s;
             s = (if ul_attr AND PIO_IT_RE_OR_HL \<noteq> 0 then wr p PIO_REHLSR ul_mask s
                  else wr p PIO_FELLSR ul_mask s)
         in if ul_attr AND PIO_IT_EDGE \<noteq> 0 then wr p PIO_ESR ul_mask s
            else wr p PIO_LSR ul_mask s)
      else wr p PIO_AIMDR ul_mask s)"

definition pio_enable_interrupt :: "hw \<Rightarrow> periph \<Rightarrow> u32 \<Rightarrow> 'z mach_scheme \<Rightarrow> 'z mach_scheme" where
  "pio_enable_interrupt hw p ul_mask s =
     (let (_, s) = rd hw p PIO_ISR s in wr p PIO_IER ul_mask s)"

definition pio_get_interrupt_status :: "hw \<Rightarrow> periph \<Rightarrow> 'z mach_scheme \<Rightarrow> u32 \<times> 'z mach_scheme" where
  "pio_get_interrupt_status hw p s = rd hw p PIO_ISR s"

definition pio_get_interrupt_mask :: "hw \<Rightarrow> periph \<Rightarrow> 'z mach_scheme \<Rightarrow> u32 \<times> 'z mach_scheme" where
  "pio_get_interrupt_mask hw p s = rd hw p PIO_IMR s"

definition pio_set_additional_interrupt_mode ::
  "periph \<Rightarrow> u32 \<Rightarrow> u32 \<Rightarrow> 'z mach_scheme \<Rightarrow> 'z mach_scheme" where
  "pio_set_additional_interrupt_mode p ul_mask ul_attribute s =
     (if ul_attribute AND PIO_IT_AIME \<noteq> 0 then
        (let s = wr p PIO_AIMER ul_mask s;
             s = (if ul_attribute AND PIO_IT_RE_OR_HL \<noteq> 0 then wr p PIO_REHLSR ul_mask s
                  else wr p PIO_FELLSR ul_mask s)
         in if ul_attribute AND PIO_IT_EDGE \<noteq> 0 then wr p PIO_ESR ul_mask s
            else wr p PIO_LSR ul_mask s)
      else wr p PIO_AIMDR ul_mask s)"

definition pio_set_writeprotect :: "periph \<Rightarrow> u32 \<Rightarrow> 'z mach_scheme \<Rightarrow> 'z mach_scheme" where
  "pio_set_writeprotect p ul_enable s = wr p PIO_WPMR (0x50494F00 OR ul_enable) s"

definition pio_get_writeprotect_status :: "hw \<Rightarrow> periph \<Rightarrow> 'z mach_scheme \<Rightarrow> u32 \<times> 'z mach_scheme" where
  "pio_get_writeprotect_status hw p s = rd hw p PIO_WPSR s"

text \<open>
  The group of a pin is an address computed from the pin number; on this part the addresses of
  groups 0 and 1 are PIOA and PIOB.
\<close>

definition pio_get_pin_group :: "u32 \<Rightarrow> periph" where
  "pio_get_pin_group ul_pin =
     (let a = 0x400E0C00 + 0x200 * drop_bit 5 ul_pin
      in if a = 0x400E0C00 then PIOA else if a = 0x400E0E00 then PIOB else AT a)"

definition pio_get_pin_group_id :: "u32 \<Rightarrow> u32" where
  "pio_get_pin_group_id ul_pin = ID_PIOA + drop_bit 5 ul_pin"

definition pio_get_pin_group_mask :: "u32 \<Rightarrow> u32" where
  "pio_get_pin_group_mask ul_pin = push_bit (unat (ul_pin AND 0x1F)) 1"

definition pio_get_pin_value :: "hw \<Rightarrow> u32 \<Rightarrow> 'z mach_scheme \<Rightarrow> u32 \<times> 'z mach_scheme" where
  "pio_get_pin_value hw ul_pin s =
     (let p = pio_get_pin_group ul_pin; (v, s) = rd hw p PIO_PDSR s
      in (drop_bit (unat (ul_pin AND 0x1F)) v AND 1, s))"

definition pio_set_pin_high :: "u32 \<Rightarrow> 'z mach_scheme \<Rightarrow> 'z mach_scheme" where
  "pio_set_pin_high ul_pin s =
     wr (pio_get_pin_group ul_pin) PIO_SODR (push_bit (unat (ul_pin AND 0x1F)) 1) s"

definition pio_set_pin_low :: "u32 \<Rightarrow> 'z mach_scheme \<Rightarrow> 'z mach_scheme" where
  "pio_set_pin_low ul_pin s =
     wr (pio_get_pin_group ul_pin) PIO_CODR (push_bit (unat (ul_pin AND 0x1F)) 1) s"

definition pio_toggle_pin :: "hw \<Rightarrow> u32 \<Rightarrow> 'z mach_scheme \<Rightarrow> 'z mach_scheme" where
  "pio_toggle_pin hw ul_pin s =
     (let p = pio_get_pin_group ul_pin; (v, s) = rd hw p PIO_ODSR s
      in if v AND push_bit (unat (ul_pin AND 0x1F)) 1 \<noteq> 0
         then wr p PIO_CODR (push_bit (unat (ul_pin AND 0x1F)) 1) s
         else wr p PIO_SODR (push_bit (unat (ul_pin AND 0x1F)) 1) s)"

definition pio_set_pin_group_high :: "periph \<Rightarrow> u32 \<Rightarrow> 'z mach_scheme \<Rightarrow> 'z mach_scheme" where
  "pio_set_pin_group_high p ul_mask s = wr p PIO_SODR ul_mask s"

definition pio_set_pin_group_low :: "periph \<Rightarrow> u32 \<Rightarrow> 'z mach_scheme \<Rightarrow> 'z mach_scheme" where
  "pio_set_pin_group_low p ul_mask s = wr p PIO_CODR ul_mask s"

definition pio_toggle_pin_group :: "hw \<Rightarrow> periph \<Rightarrow> u32 \<Rightarrow> 'z mach_scheme \<Rightarrow> 'z mach_scheme" where
  "pio_toggle_pin_group hw p ul_mask s =
     (let (v, s) = rd hw p PIO_ODSR s
      in if v AND ul_mask \<noteq> 0 then wr p PIO_CODR ul_mask s else wr p PIO_SODR ul_mask s)"

text \<open>\<open>PIO_TYPE_Msk\<close> is bits 27 to 30 of the flags word.\<close>

definition pio_configure_pin_group ::
  "hw \<Rightarrow> periph \<Rightarrow> u32 \<Rightarrow> u32 \<Rightarrow> 'z mach_scheme \<Rightarrow> u32 \<times> 'z mach_scheme" where
  "pio_configure_pin_group hw p ul_mask ul_flags s =
     (let ty = ul_flags AND push_bit 27 0xF in
      if ty = push_bit 27 1 then
        (1, pio_pull_up p ul_mask (ul_flags AND PIO_PULLUP)
              (pio_set_peripheral hw p PIO_PERIPH_A ul_mask s))
      else if ty = push_bit 27 2 then
        (1, pio_pull_up p ul_mask (ul_flags AND PIO_PULLUP)
              (pio_set_peripheral hw p PIO_PERIPH_B ul_mask s))
      else if ty = push_bit 27 5 then (1, pio_set_input p ul_mask ul_flags s)
      else if ty = push_bit 27 6 \<or> ty = push_bit 27 7 then
        (1, pio_set_output p ul_mask
              (if ul_flags AND push_bit 27 7 = push_bit 27 7 then 1 else 0)
              (if ul_flags AND PIO_OPENDRAIN \<noteq> 0 then 1 else 0)
              (if ul_flags AND PIO_PULLUP \<noteq> 0 then 1 else 0) s)
      else (0, s))"

definition pio_configure_pin :: "hw \<Rightarrow> u32 \<Rightarrow> u32 \<Rightarrow> 'z mach_scheme \<Rightarrow> u32 \<times> 'z mach_scheme" where
  "pio_configure_pin hw ul_pin ul_flags s =
     (let p = pio_get_pin_group ul_pin; ul_mask = push_bit (unat (ul_pin AND 0x1F)) 1;
          ty = ul_flags AND push_bit 27 0xF in
      if ty = push_bit 27 1 then
        (1, pio_pull_up p ul_mask (ul_flags AND PIO_PULLUP)
              (pio_set_peripheral hw p PIO_PERIPH_A ul_mask s))
      else if ty = push_bit 27 2 then
        (1, pio_pull_up p ul_mask (ul_flags AND PIO_PULLUP)
              (pio_set_peripheral hw p PIO_PERIPH_B ul_mask s))
      else if ty = push_bit 27 5 then (1, pio_set_input p ul_mask ul_flags s)
      else if ty = push_bit 27 6 \<or> ty = push_bit 27 7 then
        (1, pio_set_output p ul_mask
              (if ul_flags AND push_bit 27 7 = push_bit 27 7 then 1 else 0)
              (if ul_flags AND PIO_OPENDRAIN \<noteq> 0 then 1 else 0)
              (if ul_flags AND PIO_PULLUP \<noteq> 0 then 1 else 0) s)
      else (0, s))"

definition pio_enable_pin_interrupt :: "u32 \<Rightarrow> 'z mach_scheme \<Rightarrow> 'z mach_scheme" where
  "pio_enable_pin_interrupt ul_pin s =
     wr (pio_get_pin_group ul_pin) PIO_IER (push_bit (unat (ul_pin AND 0x1F)) 1) s"

definition pio_disable_pin_interrupt :: "u32 \<Rightarrow> 'z mach_scheme \<Rightarrow> 'z mach_scheme" where
  "pio_disable_pin_interrupt ul_pin s =
     wr (pio_get_pin_group ul_pin) PIO_IDR (push_bit (unat (ul_pin AND 0x1F)) 1) s"

lemmas pio_defs = pio_pull_up_def pio_set_def pio_clear_def pio_get_def pio_disable_interrupt_def
  pio_set_peripheral_def pio_set_input_def pio_set_output_def pio_configure_def
  pio_get_pin_value_def

section \<open>What a trace asks of the pins\<close>

text \<open>
  The status bits after a trace, each with its set and its clear register. The output data register can also be written directly
  (\<open>PIO_ODSR\<close>), which reaches the pins enabled in \<open>PIO_OWSR\<close>.
\<close>

abbreviation psr :: "periph \<Rightarrow> event list \<Rightarrow> u32" where "psr \<equiv> status_of PIO_PER PIO_PDR"
abbreviation osr :: "periph \<Rightarrow> event list \<Rightarrow> u32" where "osr \<equiv> status_of PIO_OER PIO_ODR"
abbreviation imr :: "periph \<Rightarrow> event list \<Rightarrow> u32" where "imr \<equiv> status_of PIO_IER PIO_IDR"
abbreviation mdsr :: "periph \<Rightarrow> event list \<Rightarrow> u32" where "mdsr \<equiv> status_of PIO_MDER PIO_MDDR"
abbreviation pusr :: "periph \<Rightarrow> event list \<Rightarrow> u32" where "pusr \<equiv> status_of PIO_PUER PIO_PUDR"
abbreviation owsr :: "periph \<Rightarrow> event list \<Rightarrow> u32" where "owsr \<equiv> status_of PIO_OWER PIO_OWDR"

primrec odsr :: "periph \<Rightarrow> event list \<Rightarrow> u32" where
  "odsr p [] = 0"
| "odsr p (e # tr) =
     (case e of
        Wr q r v \<Rightarrow>
          if q = p \<and> r = PIO_SODR then odsr p tr OR v
          else if q = p \<and> r = PIO_CODR then odsr p tr AND NOT v
          else if q = p \<and> r = PIO_ODSR
               then (v AND owsr p tr) OR (odsr p tr AND NOT (owsr p tr))
          else odsr p tr
      | _ \<Rightarrow> odsr p tr)"

text \<open>The behaviour of the controller that the driver reads back.\<close>

locale pio_hw =
  fixes hw :: hw
  assumes reads_odsr: "hw tr p PIO_ODSR = odsr p tr"
begin

lemma pio_get_output_data_status_level:
  "fst (pio_get_output_data_status hw p ul_mask s) = (if odsr p (trace s) AND ul_mask = 0 then 0 else 1)"
  by (simp add: pio_get_output_data_status_def rd_def reads_odsr)

lemma pio_toggle_pin_group_level:
  "odsr p (trace (pio_toggle_pin_group hw p ul_mask s)) =
     (if odsr p (trace s) AND ul_mask \<noteq> 0 then odsr p (trace s) AND NOT ul_mask
      else odsr p (trace s) OR ul_mask)"
  by (simp add: pio_toggle_pin_group_def rd_def wr_def reads_odsr)

lemma pio_toggle_pin_level:
  "odsr (pio_get_pin_group pin) (trace (pio_toggle_pin hw pin s)) =
     odsr (pio_get_pin_group pin) (trace s) XOR pio_get_pin_group_mask pin"
proof -
  define w where "w = odsr (pio_get_pin_group pin) (trace s)"
  define n where "n = unat (pin AND 0x1F)"
  have "odsr (pio_get_pin_group pin) (trace (pio_toggle_pin hw pin s)) =
      (if w AND push_bit n 1 \<noteq> 0 then w AND NOT (push_bit n 1) else w OR push_bit n 1)"
    by (simp add: pio_toggle_pin_def rd_def wr_def reads_odsr w_def n_def Let_def)
  also have "\<dots> = w XOR push_bit n 1"
    by (rule bit_word_eqI) (auto simp: bit_simps)
  finally show ?thesis by (simp add: w_def n_def pio_get_pin_group_mask_def)
qed

end

text \<open>A controller that behaves so, with every other register reading as zero.\<close>

definition pio_ref :: hw where
  "pio_ref tr p r = (if r = PIO_ODSR then odsr p tr else 0)"

interpretation pio_ref: pio_hw pio_ref
  by unfold_locales (simp add: pio_ref_def)

section \<open>Correctness of pin configuration\<close>

text \<open>
  After \<open>pio_set_output\<close> every pin of the mask is driven by the PIO controller with the
  requested level, drive and pull-up, its interrupt is masked, and no other pin is affected.
\<close>

definition pin_config :: "periph \<Rightarrow> event list \<Rightarrow> nat \<Rightarrow> bool list" where
  "pin_config p tr n =
     [bit (psr p tr) n, bit (osr p tr) n, bit (odsr p tr) n, bit (imr p tr) n,
      bit (mdsr p tr) n, bit (pusr p tr) n]"

lemma word_bit_length: "\<not> n < 32 \<Longrightarrow> \<not> bit (w :: u32) n"
  using bit_imp_le_length [of w n] by auto

text \<open>What \<open>pio_configure\<close> promises for a pin of the mask, and that it changes no other pin.\<close>

definition configured_pin :: "pio_type_t \<Rightarrow> u32 \<Rightarrow> bool list \<Rightarrow> bool list" where
  "configured_pin ty attr c =
     (case ty of
        PIO_NOT_A_PIN \<Rightarrow> c
      | PIO_INPUT \<Rightarrow> [True, False, c ! 2, False, c ! 4, attr AND PIO_PULLUP \<noteq> 0]
      | PIO_OUTPUT_0 \<Rightarrow> [True, True, False, False, attr AND PIO_OPENDRAIN \<noteq> 0, attr AND PIO_PULLUP \<noteq> 0]
      | PIO_OUTPUT_1 \<Rightarrow> [True, True, True, False, attr AND PIO_OPENDRAIN \<noteq> 0, attr AND PIO_PULLUP \<noteq> 0]
      | _ \<Rightarrow> [False, c ! 1, c ! 2, False, c ! 4, attr AND PIO_PULLUP \<noteq> 0])"

lemma pin_config_set_output:
  "n < 32 \<Longrightarrow> pin_config q (trace (pio_set_output p m lvl md pu s)) n =
     (if q = p \<and> bit m n then [True, True, lvl \<noteq> 0, False, md \<noteq> 0, pu \<noteq> 0]
      else pin_config q (trace s) n)"
  by (simp add: pin_config_def pio_set_output_def pio_disable_interrupt_def pio_pull_up_def
      wr_def Let_def bit_simps)

lemma pin_config_set_input:
  "n < 32 \<Longrightarrow> pin_config q (trace (pio_set_input p m attr s)) n =
     (if q = p \<and> bit m n then [True, False, bit (odsr q (trace s)) n, False,
         bit (mdsr q (trace s)) n, attr AND PIO_PULLUP \<noteq> 0]
      else pin_config q (trace s) n)"
  by (simp add: pin_config_def pio_set_input_def pio_disable_interrupt_def pio_pull_up_def
      wr_def Let_def bit_simps)

lemma pin_config_set_peripheral:
  "n < 32 \<Longrightarrow> ty = PIO_PERIPH_A \<or> ty = PIO_PERIPH_B \<Longrightarrow>
     pin_config q (trace (pio_pull_up p m b (pio_set_peripheral hw p ty m s))) n =
     (if q = p \<and> bit m n then [False, bit (osr q (trace s)) n, bit (odsr q (trace s)) n, False,
         bit (mdsr q (trace s)) n, b \<noteq> 0]
      else pin_config q (trace s) n)"
  by (elim disjE) (simp_all add: pin_config_def pio_set_peripheral_def pio_pull_up_def
      wr_def rd_def rmw_def Let_def bit_simps)

lemma pin_config_high: "\<not> n < 32 \<Longrightarrow> pin_config p tr n = replicate 6 False"
  by (simp add: pin_config_def word_bit_length eval_nat_numeral)


text \<open>
  \<open>pio_toggle_pin\<close> inverts the output of one pin and no other, and toggling it twice
  restores the output word, provided the controller shows in \<open>PIO_ODSR\<close> the level that
  follows from the writes made so far.
\<close>

theorem pio_toggle_pin_correct:
  assumes "\<And>tr p. hw tr p PIO_ODSR = odsr p tr"
  shows "odsr (pio_get_pin_group pin) (trace (pio_toggle_pin hw pin s)) =
      odsr (pio_get_pin_group pin) (trace s) XOR pio_get_pin_group_mask pin \<and>
    odsr (pio_get_pin_group pin) (trace (pio_toggle_pin hw pin (pio_toggle_pin hw pin s))) =
      odsr (pio_get_pin_group pin) (trace s)"
proof -
  have "pio_hw hw" by (rule pio_hw.intro) (rule assms)
  note t = pio_hw.pio_toggle_pin_level [OF this]
  show ?thesis by (simp add: t xor.assoc)
qed

theorem pio_toggle_pin_correct_witness:
  "odsr PIOB (trace (pio_toggle_pin pio_ref 33 (pio_toggle_pin pio_ref 33 \<lparr>trace = [Wr PIOB PIO_SODR 2]\<rparr>))) = 2"
  using pio_toggle_pin_correct [of pio_ref 33 "\<lparr>trace = [Wr PIOB PIO_SODR 2]\<rparr>", OF pio_ref.reads_odsr]
  by (simp add: pio_get_pin_group_def Let_def)

end
