(* ===== verification/Tc.thy ===== *)
theory Tc
  imports Prelude
begin

text \<open>
  The timer/counter driver, \<^verbatim>\<open>src/asf/sam/drivers/tc/tc.c\<close>, as compiled for the SAM3U.
  \<^verbatim>\<open>Assert\<close> is empty in this build (\<^verbatim>\<open>_ASSERT_ENABLE_\<close> is not defined), so the model
  has no checks of the channel number either. A channel's registers are 64 bytes apart.
  The pointers \<open>p_uldiv\<close> and \<open>p_ultcclks\<close> of \<open>tc_find_mck_divisor\<close> become its result.
\<close>

abbreviation (input) TC_CCR :: nat where "TC_CCR \<equiv> 0"
abbreviation (input) TC_CMR :: nat where "TC_CMR \<equiv> 4"
abbreviation (input) TC_CV :: nat where "TC_CV \<equiv> 0x10"
abbreviation (input) TC_RA :: nat where "TC_RA \<equiv> 0x14"
abbreviation (input) TC_RB :: nat where "TC_RB \<equiv> 0x18"
abbreviation (input) TC_RC :: nat where "TC_RC \<equiv> 0x1C"
abbreviation (input) TC_SR :: nat where "TC_SR \<equiv> 0x20"
abbreviation (input) TC_IER :: nat where "TC_IER \<equiv> 0x24"
abbreviation (input) TC_IDR :: nat where "TC_IDR \<equiv> 0x28"
abbreviation (input) TC_IMR :: nat where "TC_IMR \<equiv> 0x2C"
abbreviation (input) TC_CCR_CLKEN :: u32 where "TC_CCR_CLKEN \<equiv> 1"
abbreviation (input) TC_CCR_CLKDIS :: u32 where "TC_CCR_CLKDIS \<equiv> 2"
abbreviation (input) TC_CCR_SWTRG :: u32 where "TC_CCR_SWTRG \<equiv> 4"

definition TC_CHANNEL :: "u32 \<Rightarrow> nat \<Rightarrow> nat" where
  "TC_CHANNEL ul_channel r = 0x40 * unat ul_channel + r"

definition tc_init :: "hw \<Rightarrow> periph \<Rightarrow> u32 \<Rightarrow> u32 \<Rightarrow> 'z mach_scheme \<Rightarrow> 'z mach_scheme" where
  "tc_init hw p ul_channel ul_mode s =
     (let s = wr p (TC_CHANNEL ul_channel TC_CCR) TC_CCR_CLKDIS s;
          s = wr p (TC_CHANNEL ul_channel TC_IDR) 0xFFFFFFFF s;
          (_, s) = rd hw p (TC_CHANNEL ul_channel TC_SR) s
      in wr p (TC_CHANNEL ul_channel TC_CMR) ul_mode s)"

definition tc_sync_trigger :: "periph \<Rightarrow> 'z mach_scheme \<Rightarrow> 'z mach_scheme" where
  "tc_sync_trigger p s = wr p 0xC0 1 s"

definition tc_set_block_mode :: "periph \<Rightarrow> u32 \<Rightarrow> 'z mach_scheme \<Rightarrow> 'z mach_scheme" where
  "tc_set_block_mode p ul_blockmode s = wr p 0xC4 ul_blockmode s"

definition tc_start :: "periph \<Rightarrow> u32 \<Rightarrow> 'z mach_scheme \<Rightarrow> 'z mach_scheme" where
  "tc_start p ul_channel s =
     wr p (TC_CHANNEL ul_channel TC_CCR) (TC_CCR_CLKEN OR TC_CCR_SWTRG) s"

definition tc_stop :: "periph \<Rightarrow> u32 \<Rightarrow> 'z mach_scheme \<Rightarrow> 'z mach_scheme" where
  "tc_stop p ul_channel s = wr p (TC_CHANNEL ul_channel TC_CCR) TC_CCR_CLKDIS s"

definition tc_read_cv :: "hw \<Rightarrow> periph \<Rightarrow> u32 \<Rightarrow> 'z mach_scheme \<Rightarrow> u32 \<times> 'z mach_scheme" where
  "tc_read_cv hw p ul_channel s = rd hw p (TC_CHANNEL ul_channel TC_CV) s"

definition tc_read_ra :: "hw \<Rightarrow> periph \<Rightarrow> u32 \<Rightarrow> 'z mach_scheme \<Rightarrow> u32 \<times> 'z mach_scheme" where
  "tc_read_ra hw p ul_channel s = rd hw p (TC_CHANNEL ul_channel TC_RA) s"

definition tc_read_rb :: "hw \<Rightarrow> periph \<Rightarrow> u32 \<Rightarrow> 'z mach_scheme \<Rightarrow> u32 \<times> 'z mach_scheme" where
  "tc_read_rb hw p ul_channel s = rd hw p (TC_CHANNEL ul_channel TC_RB) s"

definition tc_read_rc :: "hw \<Rightarrow> periph \<Rightarrow> u32 \<Rightarrow> 'z mach_scheme \<Rightarrow> u32 \<times> 'z mach_scheme" where
  "tc_read_rc hw p ul_channel s = rd hw p (TC_CHANNEL ul_channel TC_RC) s"

definition tc_write_ra :: "periph \<Rightarrow> u32 \<Rightarrow> u32 \<Rightarrow> 'z mach_scheme \<Rightarrow> 'z mach_scheme" where
  "tc_write_ra p ul_channel ul_value s = wr p (TC_CHANNEL ul_channel TC_RA) ul_value s"

definition tc_write_rb :: "periph \<Rightarrow> u32 \<Rightarrow> u32 \<Rightarrow> 'z mach_scheme \<Rightarrow> 'z mach_scheme" where
  "tc_write_rb p ul_channel ul_value s = wr p (TC_CHANNEL ul_channel TC_RB) ul_value s"

definition tc_write_rc :: "periph \<Rightarrow> u32 \<Rightarrow> u32 \<Rightarrow> 'z mach_scheme \<Rightarrow> 'z mach_scheme" where
  "tc_write_rc p ul_channel ul_value s = wr p (TC_CHANNEL ul_channel TC_RC) ul_value s"

definition tc_enable_interrupt :: "periph \<Rightarrow> u32 \<Rightarrow> u32 \<Rightarrow> 'z mach_scheme \<Rightarrow> 'z mach_scheme" where
  "tc_enable_interrupt p ul_channel ul_sources s =
     wr p (TC_CHANNEL ul_channel TC_IER) ul_sources s"

definition tc_disable_interrupt :: "periph \<Rightarrow> u32 \<Rightarrow> u32 \<Rightarrow> 'z mach_scheme \<Rightarrow> 'z mach_scheme" where
  "tc_disable_interrupt p ul_channel ul_sources s =
     wr p (TC_CHANNEL ul_channel TC_IDR) ul_sources s"

definition tc_get_interrupt_mask ::
  "hw \<Rightarrow> periph \<Rightarrow> u32 \<Rightarrow> 'z mach_scheme \<Rightarrow> u32 \<times> 'z mach_scheme" where
  "tc_get_interrupt_mask hw p ul_channel s = rd hw p (TC_CHANNEL ul_channel TC_IMR) s"

definition tc_get_status :: "hw \<Rightarrow> periph \<Rightarrow> u32 \<Rightarrow> 'z mach_scheme \<Rightarrow> u32 \<times> 'z mach_scheme" where
  "tc_get_status hw p ul_channel s = rd hw p (TC_CHANNEL ul_channel TC_SR) s"

definition tc_enable_qdec_interrupt :: "periph \<Rightarrow> u32 \<Rightarrow> 'z mach_scheme \<Rightarrow> 'z mach_scheme" where
  "tc_enable_qdec_interrupt p ul_sources s = wr p 0xC8 ul_sources s"

definition tc_disable_qdec_interrupt :: "periph \<Rightarrow> u32 \<Rightarrow> 'z mach_scheme \<Rightarrow> 'z mach_scheme" where
  "tc_disable_qdec_interrupt p ul_sources s = wr p 0xCC ul_sources s"

definition tc_get_qdec_interrupt_mask :: "hw \<Rightarrow> periph \<Rightarrow> 'z mach_scheme \<Rightarrow> u32 \<times> 'z mach_scheme" where
  "tc_get_qdec_interrupt_mask hw p s = rd hw p 0xD0 s"

definition tc_get_qdec_interrupt_status ::
  "hw \<Rightarrow> periph \<Rightarrow> 'z mach_scheme \<Rightarrow> u32 \<times> 'z mach_scheme" where
  "tc_get_qdec_interrupt_status hw p s = rd hw p 0xD4 s"

section \<open>Finding a clock divisor\<close>

text \<open>
  The loop over the table of divisors: it gives up as soon as the frequency is too high for a
  divisor (the later ones are coarser), and stops at the first one whose lowest frequency is
  low enough. The result is the index reached.
\<close>

fun tc_find_index :: "u32 \<Rightarrow> u32 \<Rightarrow> u32 list \<Rightarrow> nat \<Rightarrow> nat option" where
  "tc_find_index ul_freq ul_mck [] i = None"
| "tc_find_index ul_freq ul_mck (d # ds) i =
     (let ul_high = ul_mck div d; ul_low = ul_high div 65536
      in if ul_freq > ul_high then None
         else if ul_freq \<ge> ul_low then Some i
         else tc_find_index ul_freq ul_mck ds (Suc i))"

definition tc_divisors :: "u32 \<Rightarrow> u32 list" where
  "tc_divisors ul_boardmck = [2, 8, 32, 128, ul_boardmck div 32768]"

definition tc_find_mck_divisor :: "u32 \<Rightarrow> u32 \<Rightarrow> u32 \<Rightarrow> (u32 \<times> nat) option" where
  "tc_find_mck_divisor ul_freq ul_mck ul_boardmck =
     (case tc_find_index ul_freq ul_mck (tc_divisors ul_boardmck) 0 of
        None \<Rightarrow> None
      | Some ul_index \<Rightarrow> Some (tc_divisors ul_boardmck ! ul_index, ul_index))"

text \<open>The frequencies a divisor can serve.\<close>

definition tc_serves :: "u32 \<Rightarrow> u32 \<Rightarrow> u32 \<Rightarrow> bool" where
  "tc_serves ul_freq ul_mck d \<longleftrightarrow>
     ul_mck div d div 65536 \<le> ul_freq \<and> ul_freq \<le> ul_mck div d"

lemma tc_find_index_Some:
  "tc_find_index f m ds i = Some j \<Longrightarrow>
     \<exists>k. j = i + k \<and> k < length ds \<and> tc_serves f m (ds ! k) \<and>
         (\<forall>l < k. \<not> tc_serves f m (ds ! l))"
proof (induction ds arbitrary: i)
  case Nil
  then show ?case by simp
next
  case (Cons d ds)
  show ?case
  proof (cases "f > m div d \<or> f \<ge> m div d div 65536")
    case True
    with Cons.prems show ?thesis
      by (intro exI [of _ 0]) (auto simp: tc_serves_def Let_def split: if_splits)
  next
    case False
    with Cons.prems have "tc_find_index f m ds (Suc i) = Some j" by (simp add: Let_def)
    from Cons.IH [OF this] obtain k where k: "j = Suc i + k" "k < length ds"
      "tc_serves f m (ds ! k)" "\<forall>l < k. \<not> tc_serves f m (ds ! l)" by blast
    have "\<not> tc_serves f m ((d # ds) ! l)" if "l < Suc k" for l
      using that False k(4) by (cases l) (auto simp: tc_serves_def)
    with k show ?thesis by (intro exI [of _ "Suc k"]) simp
  qed
qed

lemma tc_find_index_None:
  "tc_find_index f m ds i = None \<Longrightarrow> sorted ds \<Longrightarrow> 0 \<notin> set ds \<Longrightarrow> k < length ds \<Longrightarrow> \<not> tc_serves f m (ds ! k)"
proof (induction ds arbitrary: i k)
  case (Cons d ds)
  show ?case
  proof (cases "f > m div d")
    case True
    have "d \<le> (d # ds) ! k" using Cons.prems(2,4) by (cases k) (auto simp: sorted_wrt_nth_less)
    moreover have "0 < d" using Cons.prems(3) by (simp add: word_gt_0)
    ultimately have "m div (d # ds) ! k \<le> m div d"
      by (simp add: word_le_nat_alt unat_div div_le_mono2 unat_gt_0 word_less_nat_alt)
    then show ?thesis using True by (auto simp: tc_serves_def)
  next
    case False
    then have n: "tc_find_index f m ds (Suc i) = None" "\<not> tc_serves f m d"
      using Cons.prems(1) by (auto simp: Let_def tc_serves_def split: if_splits)
    show ?thesis using n Cons.IH [OF n(1)] Cons.prems(2-4) by (cases k) auto
  qed
qed simp

text \<open>
  \<^bold>\<open>C34\<close>. \<open>tc_find_mck_divisor\<close> is a correct and complete search: on a board whose slow-clock
  divisor \<open>boardmck / 32768\<close> is at least 128, it returns the first of the five divisors whose range of
  frequencies contains the one asked for, and fails only if no divisor serves it.
\<close>

theorem tc_find_mck_divisor_correct:
  assumes "4194304 \<le> boardmck"
  shows "tc_find_mck_divisor f m boardmck = Some (d, i) \<longleftrightarrow>
    i < 5 \<and> d = tc_divisors boardmck ! i \<and> tc_serves f m d \<and>
    (\<forall>l < i. \<not> tc_serves f m (tc_divisors boardmck ! l))"
proof -
  let ?ds = "tc_divisors boardmck"
  have "128 \<le> unat (boardmck div 32768)"
    using assms by (simp add: word_le_nat_alt unat_div)
  then have s: "sorted ?ds" "0 \<notin> set ?ds"
    by (auto simp: tc_divisors_def word_le_nat_alt simp del: unat_div)
  have l: "length ?ds = 5" by (simp add: tc_divisors_def)
  show ?thesis
  proof (cases "tc_find_index f m ?ds 0")
    case None
    then show ?thesis using tc_find_index_None [OF None s] l by (auto simp: tc_find_mck_divisor_def)
  next
    case (Some j)
    from tc_find_index_Some [OF this] have j: "j < 5" "tc_serves f m (?ds ! j)"
      "\<forall>l < j. \<not> tc_serves f m (?ds ! l)" using l by auto
    have "j = i" if "tc_serves f m (?ds ! i)" "\<forall>l < i. \<not> tc_serves f m (?ds ! l)"
      using that j by (metis linorder_neqE_nat)
    then show ?thesis using Some j by (auto simp: tc_find_mck_divisor_def)
  qed
qed

theorem tc_find_mck_divisor_correct_witness:
  "tc_find_mck_divisor 1000 96000000 96000000 = Some (2, 0) \<and> tc_serves 1000 96000000 2"
  using tc_find_mck_divisor_correct [of 96000000 1000 96000000 2 0]
  by (simp add: tc_divisors_def tc_serves_def)

end
