(* ===== verification/Sampling.thy ===== *)
theory Sampling
  imports App_State Pio Tc
begin

text \<open>
  The sampling interrupt, \<open>TC2_Handler\<close> of \<^verbatim>\<open>src/src/main.c\<close>. Timer channel 2 fires twice
  per slot: the first interrupt (channel A) starts the voltage conversions and channel A of the
  DAC, the second (channel B) the current conversions and channel B of the DAC, and moves to
  the next slot. A slot of an IN packet is four 16-bit words, a slot of an OUT packet two; a
  packet has 256 slots, and there are two packet buffers in each direction.

  The second half relates the handler to the stream it implements: slot \<open>m\<close> plays sample \<open>m\<close>
  of the OUT stream and records into sample \<open>m - 2\<close> of the IN stream (the converters deliver
  two slots late), where sample \<open>j\<close> of a stream lives in slot \<open>j mod 256\<close> of buffer
  \<open>(j div 256) mod 2\<close>.
\<close>

abbreviation (input) US_RPR :: nat where "US_RPR \<equiv> 0x100"
abbreviation (input) US_RCR :: nat where "US_RCR \<equiv> 0x104"
abbreviation (input) US_TPR :: nat where "US_TPR \<equiv> 0x108"
abbreviation (input) US_TCR :: nat where "US_TCR \<equiv> 0x10C"
abbreviation (input) US_TNPR :: nat where "US_TNPR \<equiv> 0x118"
abbreviation (input) US_TNCR :: nat where "US_TNCR \<equiv> 0x11C"
abbreviation (input) US_PTCR :: nat where "US_PTCR \<equiv> 0x120"

abbreviation (input) N_SYNC :: u32 where "N_SYNC \<equiv> 0x10000"

definition packets_in_at :: "u32 \<Rightarrow> nat \<Rightarrow> ptr" where
  "packets_in_at i k = (O_packets_in, 2 * (unat i * 1025 + k))"

definition packets_out_at :: "u32 \<Rightarrow> nat \<Rightarrow> ptr" where
  "packets_out_at i k = (O_packets_out, 2 * (unat i * 512 + k))"

text \<open>The two cases of the switch on the channel, and the inner switch on the slot.\<close>

definition TC2_case_A :: "'z app_scheme \<Rightarrow> 'z app_scheme" where
  "TC2_case_A s =
     (let s = wrp USART1 US_TPR (O_v1_adc_conf, 0) s;
          s = wrp USART1 US_RPR (packets_in_at (packet_index_in s) (unat (slot_offset_in s) * 4 + 0)) s;
          s = wrp USART2 US_TPR (O_v2_adc_conf, 0) s;
          s = wrp USART2 US_RPR (packets_in_at (packet_index_in s) (unat (slot_offset_in s) * 4 + 1)) s;
          s = wr USART1 US_RCR 2 s;
          s = wr USART1 US_TCR 2 s;
          s = wr USART2 US_RCR 2 s;
          s = wr USART2 US_TCR 2 s;
          s = wrp USART0 US_TPR (O_da, 0) s;
          s = wrp USART0 US_TNPR (packets_out_at (packet_index_out s) (unat (slot_offset_out s) * 2 + 0)) s;
          s = current_chan_update Not s;
          s = wr PIOA PIO_CODR N_SYNC s;
          s = wr USART0 US_TCR 1 s
      in wr USART0 US_TNCR 2 s)"

definition TC2_switch_slot :: "'z app_scheme \<Rightarrow> 'z app_scheme" where
  "TC2_switch_slot s =
     (if slot_offset_out s = 0 then
        s\<lparr>packet_index_send_in := packet_index_in s,
          packet_index_out := packet_index_out s XOR 1,
          send_in := True\<rparr>
      else if slot_offset_out s = 2 then
        s\<lparr>packet_index_in := packet_index_in s XOR 1\<rparr>
      else if slot_offset_out s = 4 then
        s\<lparr>slot_offset_out := slot_offset_out s - not_a_new_transfer s,
          slot_offset_in := slot_offset_in s - not_a_new_transfer s,
          not_a_new_transfer := 0\<rparr>
      else if slot_offset_out s = 127 then
        s\<lparr>packet_index_send_out := packet_index_out s XOR 1, send_out := True\<rparr>
      else s)"

definition TC2_case_B :: "'z app_scheme \<Rightarrow> 'z app_scheme" where
  "TC2_case_B s =
     (let s = wrp USART1 US_TPR (O_i1_adc_conf, 0) s;
          s = wrp USART1 US_RPR (packets_in_at (packet_index_in s) (unat (slot_offset_in s) * 4 + 3)) s;
          s = wrp USART2 US_TPR (O_i2_adc_conf, 0) s;
          s = wrp USART2 US_RPR (packets_in_at (packet_index_in s) (unat (slot_offset_in s) * 4 + 2)) s;
          s = wr USART1 US_TCR 2 s;
          s = wr USART1 US_RCR 2 s;
          s = wr USART2 US_TCR 2 s;
          s = wr USART2 US_RCR 2 s;
          s = wrp USART0 US_TPR (O_db, 0) s;
          s = wrp USART0 US_TNPR (packets_out_at (packet_index_out s) (unat (slot_offset_out s) * 2 + 1)) s;
          s = current_chan_update Not s;
          s = wr PIOA PIO_CODR N_SYNC s;
          s = wr USART0 US_TCR 1 s;
          s = wr USART0 US_TNCR 2 s;
          s = slot_offset_in_update (\<lambda>v. v + 1) s;
          s = slot_offset_out_update (\<lambda>v. v + 1) s
      in TC2_switch_slot s)"

definition TC2_Handler :: "hw \<Rightarrow> 'z app_scheme \<Rightarrow> 'z app_scheme" where
  "TC2_Handler hw s =
     (let (_, s) = rd hw TC0 (TC_CHANNEL 2 TC_SR) s;
          s = wr PIOA PIO_SODR N_SYNC s
      in if \<not> current_chan s then TC2_case_A s else TC2_case_B s)"

section \<open>The stream the handler implements\<close>

text \<open>
  \<open>at_slot m s\<close>: the handler is about to start slot \<open>m\<close> of the transfer. The IN packet last
  announced and the OUT packet last asked for are determined by \<open>m\<close> as well, from the first
  announcement on.
\<close>

definition at_slot :: "nat \<Rightarrow> 'z app_scheme \<Rightarrow> bool" where
  "at_slot m s \<longleftrightarrow>
     \<not> current_chan s \<and> not_a_new_transfer s = 0 \<and>
     slot_offset_out s = of_nat m \<and> slot_offset_in s = of_nat (m + 254) \<and>
     packet_index_out s = of_nat (m div 256 mod 2) \<and>
     packet_index_in s = of_nat (((m + 254) div 256 + 1) mod 2) \<and>
     (256 \<le> m \<longrightarrow> packet_index_send_in s = of_nat ((m div 256 + 1) mod 2)) \<and>
     (127 \<le> m \<longrightarrow> packet_index_send_out s = of_nat ((m + 129) div 256 mod 2))"

definition one_slot :: "hw \<Rightarrow> 'z app_scheme \<Rightarrow> 'z app_scheme" where
  "one_slot hw s = TC2_Handler hw (TC2_Handler hw s)"

lemma of_nat_u8_eq_iff: "of_nat n = (w :: u8) \<longleftrightarrow> n mod 256 = unat w"
  by (simp add: word_unat_eq_iff unat_of_nat)

lemma xor_1_of_bit: "of_nat (n mod 2) XOR 1 = (of_nat (Suc n mod 2) :: u32)"
  by (cases "even n") (simp_all add: mod_Suc odd_iff_mod_2_eq_one)

text \<open>
  What one slot does to the bookkeeping: the first interrupt only flips the channel, the second
  moves to the next slot.
\<close>

definition next_slot :: "'z app_scheme \<Rightarrow> 'z app_scheme" where
  "next_slot s = TC2_switch_slot
     (slot_offset_out_update (\<lambda>v. v + 1) (slot_offset_in_update (\<lambda>v. v + 1)
        (s\<lparr>current_chan := False\<rparr>)))"

lemma TC2_switch_slot_trace:
  "TC2_switch_slot (slot_offset_out_update f (slot_offset_in_update g (trace_update h s))) =
     trace_update h (TC2_switch_slot (slot_offset_out_update f (slot_offset_in_update g s)))"
  "current_chan s \<Longrightarrow>
   TC2_switch_slot (slot_offset_out_update f (slot_offset_in_update g
       (current_chan_update Not (trace_update h s)))) =
     trace_update h (TC2_switch_slot (slot_offset_out_update f (slot_offset_in_update g
       (s\<lparr>current_chan := False\<rparr>))))"
  by (simp_all add: TC2_switch_slot_def)

lemma next_slot_irrelevant [simp]:
  "next_slot (trace_update h s) = trace_update h (next_slot s)"
  "next_slot (s\<lparr>current_chan := b\<rparr>) = next_slot s"
  by (simp_all add: next_slot_def TC2_switch_slot_def)

definition events_A :: "'z app_scheme \<Rightarrow> event list" where
  "events_A s =
     [Wr USART0 US_TNCR 2, Wr USART0 US_TCR 1, Wr PIOA PIO_CODR N_SYNC,
      WrP USART0 US_TNPR (packets_out_at (packet_index_out s) (unat (slot_offset_out s) * 2)),
      WrP USART0 US_TPR (O_da, 0),
      Wr USART2 US_TCR 2, Wr USART2 US_RCR 2, Wr USART1 US_TCR 2, Wr USART1 US_RCR 2,
      WrP USART2 US_RPR (packets_in_at (packet_index_in s) (unat (slot_offset_in s) * 4 + 1)),
      WrP USART2 US_TPR (O_v2_adc_conf, 0),
      WrP USART1 US_RPR (packets_in_at (packet_index_in s) (unat (slot_offset_in s) * 4)),
      WrP USART1 US_TPR (O_v1_adc_conf, 0),
      Wr PIOA PIO_SODR N_SYNC, Rd TC0 (TC_CHANNEL 2 TC_SR)]"

definition events_B :: "'z app_scheme \<Rightarrow> event list" where
  "events_B s =
     [Wr USART0 US_TNCR 2, Wr USART0 US_TCR 1, Wr PIOA PIO_CODR N_SYNC,
      WrP USART0 US_TNPR (packets_out_at (packet_index_out s) (unat (slot_offset_out s) * 2 + 1)),
      WrP USART0 US_TPR (O_db, 0),
      Wr USART2 US_RCR 2, Wr USART2 US_TCR 2, Wr USART1 US_RCR 2, Wr USART1 US_TCR 2,
      WrP USART2 US_RPR (packets_in_at (packet_index_in s) (unat (slot_offset_in s) * 4 + 2)),
      WrP USART2 US_TPR (O_i2_adc_conf, 0),
      WrP USART1 US_RPR (packets_in_at (packet_index_in s) (unat (slot_offset_in s) * 4 + 3)),
      WrP USART1 US_TPR (O_i1_adc_conf, 0),
      Wr PIOA PIO_SODR N_SYNC, Rd TC0 (TC_CHANNEL 2 TC_SR)]"

lemma TC2_Handler_A:
  "\<not> current_chan s \<Longrightarrow>
     TC2_Handler hw s = trace_update (\<lambda>t. events_A s @ t) (s\<lparr>current_chan := True\<rparr>)"
  by (simp add: TC2_Handler_def TC2_case_A_def events_A_def rd_def wr_def wrp_def comp_def)

lemma TC2_Handler_B:
  assumes "current_chan s"
  shows "TC2_Handler hw s = trace_update (\<lambda>t. events_B s @ t) (next_slot s)"
  using assms
  by (simp add: TC2_Handler_def TC2_case_B_def events_B_def next_slot_def rd_def wr_def wrp_def
      comp_def TC2_switch_slot_trace)

lemma trace_next_slot [simp]: "trace (next_slot s) = trace s"
  by (simp add: next_slot_def TC2_switch_slot_def)

lemma events_B_irrelevant [simp]:
  "events_B (trace_update h s) = events_B s" "events_B (s\<lparr>current_chan := b\<rparr>) = events_B s"
  by (simp_all add: events_B_def)

lemma one_slot_eq:
  assumes "\<not> current_chan s"
  shows "one_slot hw s = trace_update (\<lambda>t. events_B s @ events_A s @ t) (next_slot s)"
  using assms by (simp add: one_slot_def TC2_Handler_A TC2_Handler_B comp_def)

text \<open>The arithmetic of slot numbers.\<close>

lemma slot_div:
  fixes m k :: nat
  assumes "k \<le> 256"
  shows "(m + k) div 256 = m div 256 + (if m mod 256 + k < 256 then 0 else 1)"
proof -
  have "(m + k) div 256 = (m mod 256 + k + 256 * (m div 256)) div 256" by simp
  also have "\<dots> = m div 256 + (m mod 256 + k) div 256" by (rule div_mult_self2) simp
  also have "(m mod 256 + k) div 256 = (if m mod 256 + k < 256 then 0 else 1)"
  proof -
    have "m mod 256 + k < 512" using assms by (simp add: add_less_le_mono [of _ 256 _ 256])
    then show ?thesis by (simp add: div_nat_eqI)
  qed
  finally show ?thesis .
qed

lemma slot_arith:
  fixes m :: nat
  shows "Suc m div 256 = (if Suc m mod 256 = 0 then Suc (m div 256) else m div 256)"
    and "(Suc m + 254) div 256 =
           (if Suc m mod 256 = 2 then Suc ((m + 254) div 256) else (m + 254) div 256)"
    and "(Suc m + 129) div 256 =
           (if Suc m mod 256 = 127 then Suc ((m + 129) div 256) else (m + 129) div 256)"
    and "Suc m mod 256 = 127 \<Longrightarrow> Suc ((m + 129) div 256) = Suc (m div 256)"
    and "Suc m mod 256 = 0 \<Longrightarrow> (m + 254) div 256 = Suc (m div 256)"
proof -
  define q r where "q = m div 256" and "r = m mod 256"
  have r: "r < 256" by (simp add: r_def)
  have a: "Suc m mod 256 = (if r = 255 then 0 else Suc r)"
    using r by (simp add: r_def mod_Suc)
  have b: "Suc m div 256 = (if r = 255 then Suc q else q)"
    by (simp add: r_def q_def div_Suc mod_Suc)
  have c1: "(m + 254) div 256 = q + (if r < 2 then 0 else 1)"
    using slot_div [of 254 m] by (auto simp: q_def r_def)
  have c2: "(Suc m + 254) div 256 = q + (if r < 1 then 0 else 1)"
    using slot_div [of 255 m] by (auto simp: q_def r_def)
  have c3: "(m + 129) div 256 = q + (if r < 127 then 0 else 1)"
    using slot_div [of 129 m] by (auto simp: q_def r_def)
  have c4: "(Suc m + 129) div 256 = q + (if r < 126 then 0 else 1)"
    using slot_div [of 130 m] by (auto simp: q_def r_def)
  note c = c1 c2 c3 c4
  have n: "m div 256 = q" by (simp add: q_def)
  show "Suc m div 256 = (if Suc m mod 256 = 0 then Suc (m div 256) else m div 256)"
    by (simp add: a b n)
  show "(Suc m + 254) div 256 =
      (if Suc m mod 256 = 2 then Suc ((m + 254) div 256) else (m + 254) div 256)"
    by (simp only: a c) simp
  show "(Suc m + 129) div 256 =
      (if Suc m mod 256 = 127 then Suc ((m + 129) div 256) else (m + 129) div 256)"
    by (simp only: a c) simp
  show "Suc m mod 256 = 127 \<Longrightarrow> Suc ((m + 129) div 256) = Suc (m div 256)"
    by (simp only: a c n) (simp split: if_splits)
  show "Suc m mod 256 = 0 \<Longrightarrow> (m + 254) div 256 = Suc (m div 256)"
    by (simp only: a c n) (simp split: if_splits)
qed

lemma u8_of_nat_cases:
  "(of_nat n = (0 :: u8)) = (n mod 256 = 0)" "(of_nat n = (2 :: u8)) = (n mod 256 = 2)"
  "(of_nat n = (4 :: u8)) = (n mod 256 = 4)" "(of_nat n = (127 :: u8)) = (n mod 256 = 127)"
  by (simp_all add: of_nat_u8_eq_iff)

lemma next_slot_fields:
  assumes "at_slot m s"
  shows "\<not> current_chan (next_slot s)" "not_a_new_transfer (next_slot s) = 0"
    "slot_offset_out (next_slot s) = of_nat (Suc m)"
    "slot_offset_in (next_slot s) = of_nat (Suc m + 254)"
    "packet_index_out (next_slot s) =
       (if Suc m mod 256 = 0 then packet_index_out s XOR 1 else packet_index_out s)"
    "packet_index_in (next_slot s) =
       (if Suc m mod 256 = 2 then packet_index_in s XOR 1 else packet_index_in s)"
    "packet_index_send_in (next_slot s) =
       (if Suc m mod 256 = 0 then packet_index_in s else packet_index_send_in s)"
    "packet_index_send_out (next_slot s) =
       (if Suc m mod 256 = 127 then packet_index_out s XOR 1 else packet_index_send_out s)"
    "send_in (next_slot s) = (Suc m mod 256 = 0 \<or> send_in s)"
    "send_out (next_slot s) = (Suc m mod 256 = 127 \<or> send_out s)"
proof -
  have k: "slot_offset_out s + 1 = of_nat (Suc m)" "slot_offset_in s + 1 = of_nat (Suc m + 254)"
    and z: "not_a_new_transfer s = 0"
    using assms by (simp_all add: at_slot_def)
  note defs = next_slot_def TC2_switch_slot_def k z u8_of_nat_cases
  show "\<not> current_chan (next_slot s)" by (simp add: defs del: of_nat_Suc of_nat_add)
  show "not_a_new_transfer (next_slot s) = 0" by (simp add: defs del: of_nat_Suc of_nat_add)
  show "slot_offset_out (next_slot s) = of_nat (Suc m)"
    by (simp add: defs del: of_nat_Suc of_nat_add)
  show "slot_offset_in (next_slot s) = of_nat (Suc m + 254)"
    by (simp add: defs del: of_nat_Suc of_nat_add)
  show "packet_index_out (next_slot s) =
       (if Suc m mod 256 = 0 then packet_index_out s XOR 1 else packet_index_out s)"
    by (simp add: defs del: of_nat_Suc of_nat_add)
  show "packet_index_in (next_slot s) =
       (if Suc m mod 256 = 2 then packet_index_in s XOR 1 else packet_index_in s)"
    by (simp add: defs del: of_nat_Suc of_nat_add)
  show "packet_index_send_in (next_slot s) =
       (if Suc m mod 256 = 0 then packet_index_in s else packet_index_send_in s)"
    by (simp add: defs del: of_nat_Suc of_nat_add)
  show "packet_index_send_out (next_slot s) =
       (if Suc m mod 256 = 127 then packet_index_out s XOR 1 else packet_index_send_out s)"
    by (simp add: defs del: of_nat_Suc of_nat_add)
  show "send_in (next_slot s) = (Suc m mod 256 = 0 \<or> send_in s)"
    by (simp add: defs del: of_nat_Suc of_nat_add)
  show "send_out (next_slot s) = (Suc m mod 256 = 127 \<or> send_out s)"
    by (simp add: defs del: of_nat_Suc of_nat_add)
qed

lemma at_slot_next:
  assumes "at_slot m s"
  shows "at_slot (Suc m) (next_slot s)"
proof -
  have s: "packet_index_out s = of_nat (m div 256 mod 2)"
    "packet_index_in s = of_nat (((m + 254) div 256 + 1) mod 2)"
    "256 \<le> m \<Longrightarrow> packet_index_send_in s = of_nat ((m div 256 + 1) mod 2)"
    "127 \<le> m \<Longrightarrow> packet_index_send_out s = of_nat ((m + 129) div 256 mod 2)"
    using assms by (simp_all add: at_slot_def)
  note f = next_slot_fields [OF assms]
  show ?thesis unfolding at_slot_def
  proof (intro conjI impI f(1-4))
    show "packet_index_out (next_slot s) = of_nat (Suc m div 256 mod 2)"
      by (simp only: f s slot_arith(1) xor_1_of_bit split: if_splits) simp
    show "packet_index_in (next_slot s) = of_nat (((Suc m + 254) div 256 + 1) mod 2)"
      by (simp only: f s slot_arith(2) xor_1_of_bit split: if_splits) simp
    show "packet_index_send_in (next_slot s) = of_nat ((Suc m div 256 + 1) mod 2)"
      if "256 \<le> Suc m"
    proof (cases "Suc m mod 256 = 0")
      case True
      then show ?thesis by (simp add: f s slot_arith(1) slot_arith(5))
    next
      case False
      with that have "256 \<le> m" by (cases "Suc m = 256") auto
      with False show ?thesis by (simp add: f s slot_arith(1))
    qed
    show "packet_index_send_out (next_slot s) = of_nat ((Suc m + 129) div 256 mod 2)"
      if "127 \<le> Suc m"
    proof (cases "Suc m mod 256 = 127")
      case True
      then show ?thesis by (simp only: f s slot_arith(3) slot_arith(4) xor_1_of_bit) simp
    next
      case False
      with that have "127 \<le> m" by (cases "Suc m = 127") auto
      with False show ?thesis by (simp only: f s slot_arith(3)) simp
    qed
  qed
qed

section \<open>DMA programming\<close>

text \<open>The pointers given to DMA channels by a list of events, oldest first.\<close>

primrec dma_pointers :: "event list \<Rightarrow> (periph \<times> nat \<times> ptr) list" where
  "dma_pointers [] = []"
| "dma_pointers (e # es) =
     dma_pointers es @ (case e of WrP p r a \<Rightarrow> [(p, r, a)] | _ \<Rightarrow> [])"

primrec last_wr :: "periph \<Rightarrow> nat \<Rightarrow> event list \<Rightarrow> u32 option" where
  "last_wr p r [] = None"
| "last_wr p r (e # es) =
     (case e of Wr q k v \<Rightarrow> if q = p \<and> k = r then Some v else last_wr p r es
      | _ \<Rightarrow> last_wr p r es)"

text \<open>
  A pointer register of a peripheral DMA channel is followed by its counter register. Every
  pointer is given together with a count that stays inside the object it points to (the USARTs
  run in 8-bit mode, so the count is in bytes).
\<close>

definition pdc_safe :: "event list \<Rightarrow> bool" where
  "pdc_safe es \<longleftrightarrow>
     (\<forall>(p, r, a) \<in> set (dma_pointers es).
        case last_wr p (r + 4) es of None \<Rightarrow> False | Some n \<Rightarrow> in_bounds a (unat n))"

definition idx_ok :: "'z app_scheme \<Rightarrow> bool" where
  "idx_ok s \<longleftrightarrow> packet_index_in s \<le> 1 \<and> packet_index_out s \<le> 1 \<and>
     packet_index_send_in s \<le> 1 \<and> packet_index_send_out s \<le> 1"

lemma xor_1_le_1: "(w :: u32) \<le> 1 \<Longrightarrow> w XOR 1 \<le> 1"
proof -
  assume "w \<le> 1"
  then have "w = 0 \<or> w = 1" by (metis le_less word_le_sub1 word_less_1 word_not_simps(1) diff_self verit_la_disequality)
  then show ?thesis by auto
qed

lemma slot_in_bounds:
  fixes w :: u8 and i :: u32
  assumes "i \<le> 1"
  shows "k < 4 \<Longrightarrow> in_bounds (packets_in_at i (unat w * 4 + k)) 2"
    and "k < 2 \<Longrightarrow> in_bounds (packets_out_at i (unat w * 2 + k)) 2"
proof -
  have i: "unat i \<le> 1" using assms by (simp add: word_le_nat_alt)
  have w: "unat w < 256" using unsigned_less [of w] by simp
  show "k < 4 \<Longrightarrow> in_bounds (packets_in_at i (unat w * 4 + k)) 2"
    using i w by (simp add: in_bounds_def packets_in_at_def)
  show "k < 2 \<Longrightarrow> in_bounds (packets_out_at i (unat w * 2 + k)) 2"
    using i w by (simp add: in_bounds_def packets_out_at_def)
qed

lemma pdc_safe_events:
  assumes "packet_index_in s \<le> 1" and "packet_index_out s \<le> 1"
  shows "pdc_safe (events_A s)" and "pdc_safe (events_B s)"
  using slot_in_bounds(1) [OF assms(1), of 0 "slot_offset_in s"]
    slot_in_bounds(1) [OF assms(1), of 1 "slot_offset_in s"]
    slot_in_bounds(1) [OF assms(1), of 2 "slot_offset_in s"]
    slot_in_bounds(1) [OF assms(1), of 3 "slot_offset_in s"]
    slot_in_bounds(2) [OF assms(2), of 0 "slot_offset_out s"]
    slot_in_bounds(2) [OF assms(2), of 1 "slot_offset_out s"]
  by (simp_all add: pdc_safe_def events_A_def events_B_def in_bounds_def)

lemma next_slot_idx_ok: "idx_ok s \<Longrightarrow> idx_ok (next_slot s)"
  by (simp add: idx_ok_def next_slot_def TC2_switch_slot_def xor_1_le_1)

text \<open>Sample \<open>j\<close> of a stream, channel word \<open>c\<close> of the slot.\<close>

definition in_sample :: "nat \<Rightarrow> nat \<Rightarrow> ptr" where
  "in_sample j c = (O_packets_in, 2 * (j div 256 mod 2 * 1025 + (j mod 256 * 4 + c)))"

definition out_sample :: "nat \<Rightarrow> nat \<Rightarrow> ptr" where
  "out_sample j c = (O_packets_out, 2 * (j div 256 mod 2 * 512 + (j mod 256 * 2 + c)))"

lemma at_slot_pointers:
  assumes "at_slot (j + 2) s"
  shows "packets_in_at (packet_index_in s) (unat (slot_offset_in s) * 4 + c) = in_sample j c"
    and "packets_out_at (packet_index_out s) (unat (slot_offset_out s) * 2 + c) = out_sample (j + 2) c"
proof -
  have "packet_index_in s = of_nat (((j + 2 + 254) div 256 + 1) mod 2)"
    "slot_offset_in s = of_nat (j + 2 + 254)"
    "packet_index_out s = of_nat ((j + 2) div 256 mod 2)" "slot_offset_out s = of_nat (j + 2)"
    using assms by (simp_all add: at_slot_def)
  moreover have "((j + 2 + 254) div 256 + 1) mod 2 = j div 256 mod 2"
    by (simp add: div_add_self1)
  moreover have "unat (of_nat (n mod 2) :: u32) = n mod 2" for n
    by (simp add: unat_of_nat)
  moreover have "unat (of_nat n :: u8) = n mod 256" for n by (simp add: unat_of_nat)
  moreover have "(j + 2 + 254) mod 256 = j mod 256" by simp
  ultimately show
    "packets_in_at (packet_index_in s) (unat (slot_offset_in s) * 4 + c) = in_sample j c"
    "packets_out_at (packet_index_out s) (unat (slot_offset_out s) * 2 + c) = out_sample (j + 2) c"
    by (simp_all only: packets_in_at_def packets_out_at_def in_sample_def out_sample_def)
qed

section \<open>From the start of a transfer\<close>

text \<open>
  The state a start request leaves (request \<open>0xC5\<close> of \<open>main_setup_handle\<close>). The first four
  slots are played and then taken back, so that the converters have settled.
\<close>

definition configured :: "'z app_scheme \<Rightarrow> bool" where
  "configured s \<longleftrightarrow> \<not> current_chan s \<and> not_a_new_transfer s = 4 \<and>
     slot_offset_in s = 254 \<and> slot_offset_out s = 0 \<and> packet_index_in s = 0 \<and>
     packet_index_out s = 0 \<and> packet_index_send_in s = 0 \<and> packet_index_send_out s = 0"

lemma funpow_one_slot:
  "\<not> current_chan s \<Longrightarrow>
     \<exists>es. (one_slot hw ^^ n) s = trace_update (\<lambda>t. es @ t) ((next_slot ^^ n) s) \<and>
          \<not> current_chan ((next_slot ^^ n) s)"
proof (induction n)
  case 0
  show ?case by (rule exI [of _ "[]"]) (use 0 in simp)
next
  case (Suc n)
  then obtain es where IH: "(one_slot hw ^^ n) s = trace_update (\<lambda>t. es @ t) ((next_slot ^^ n) s)"
    "\<not> current_chan ((next_slot ^^ n) s)" by blast
  have c: "\<not> current_chan (next_slot u)" for u :: "'a app_scheme"
    by (simp add: next_slot_def TC2_switch_slot_def)
  let ?u = "trace_update (\<lambda>t. es @ t) ((next_slot ^^ n) s)"
  show ?case
    by (rule exI [of _ "events_B ?u @ events_A ?u @ es"])
      (use IH c in \<open>simp add: one_slot_eq comp_def\<close>)
qed

lemma at_slot_trace [simp]: "at_slot m (trace_update f s) = at_slot m s"
  by (simp add: at_slot_def)

text \<open>The first four slots, one after the other.\<close>

definition priming :: "u8 \<Rightarrow> 'z app_scheme \<Rightarrow> bool" where
  "priming k s \<longleftrightarrow> \<not> current_chan s \<and> not_a_new_transfer s = 4 \<and>
     slot_offset_in s = 254 + k \<and> slot_offset_out s = k \<and>
     packet_index_in s = (if k < 2 then 0 else 1) \<and> packet_index_out s = 0 \<and>
     packet_index_send_in s = 0 \<and> packet_index_send_out s = 0"

lemma priming_steps:
  "priming 0 s \<Longrightarrow> priming 1 (next_slot s)" "priming 1 s \<Longrightarrow> priming 2 (next_slot s)"
  "priming 2 s \<Longrightarrow> priming 3 (next_slot s)" "priming 3 s \<Longrightarrow> at_slot 0 (next_slot s)"
  by (simp_all add: priming_def at_slot_def next_slot_def TC2_switch_slot_def)

lemma configured_primes:
  assumes "configured s"
  shows "at_slot 0 ((next_slot ^^ 4) s)"
proof -
  have "priming 0 s" using assms by (simp add: configured_def priming_def)
  then have "at_slot 0 (next_slot (next_slot (next_slot (next_slot s))))"
    by (intro priming_steps)
  then show ?thesis by (simp add: numeral_eq_Suc)
qed

lemma at_slot_run: "at_slot m s \<Longrightarrow> at_slot (m + n) ((next_slot ^^ n) s)"
  by (induction n) (auto dest: at_slot_next)

lemma configured_run:
  assumes "configured s"
  shows "at_slot m ((one_slot hw ^^ (m + 4)) s)"
proof -
  have "\<not> current_chan s" using assms by (simp add: configured_def)
  then obtain es where es:
    "(one_slot hw ^^ (m + 4)) s = trace_update (\<lambda>t. es @ t) ((next_slot ^^ (m + 4)) s)"
    using funpow_one_slot by blast
  have "at_slot (0 + m) ((next_slot ^^ m) ((next_slot ^^ 4) s))"
    using configured_primes [OF assms] by (rule at_slot_run)
  then have "at_slot m ((next_slot ^^ (m + 4)) s)" by (simp add: funpow_add)
  then show ?thesis by (simp add: es)
qed

section \<open>Properties\<close>

text \<open>
  \<^bold>\<open>C2\<close>. Sampling streams. Once the four settling slots of a transfer are over, the two
  interrupts of slot \<open>j + 2\<close> give the DMA channels exactly the addresses of sample \<open>j + 2\<close> of
  the OUT stream (both DAC channels) and of sample \<open>j\<close> of the IN stream (voltage A, voltage B,
  current B, current A), for every \<open>j\<close>: no sample is skipped, repeated or misplaced, and the
  two buffers of each direction are used in turn.
\<close>

theorem sampling_streams:
  assumes "configured s" and "t = (one_slot hw ^^ (j + 2 + 4)) s"
  shows "\<exists>es. trace (one_slot hw t) = es @ trace t \<and>
    dma_pointers es =
      [(USART1, US_TPR, (O_v1_adc_conf, 0)), (USART1, US_RPR, in_sample j 0),
       (USART2, US_TPR, (O_v2_adc_conf, 0)), (USART2, US_RPR, in_sample j 1),
       (USART0, US_TPR, (O_da, 0)), (USART0, US_TNPR, out_sample (j + 2) 0),
       (USART1, US_TPR, (O_i1_adc_conf, 0)), (USART1, US_RPR, in_sample j 3),
       (USART2, US_TPR, (O_i2_adc_conf, 0)), (USART2, US_RPR, in_sample j 2),
       (USART0, US_TPR, (O_db, 0)), (USART0, US_TNPR, out_sample (j + 2) 1)]"
proof -
  have a: "at_slot (j + 2) t" using assms configured_run by blast
  then have c: "\<not> current_chan t" by (simp add: at_slot_def)
  note p = at_slot_pointers(1) [OF a, of 0, unfolded add_0_right]
    at_slot_pointers(2) [OF a, of 0, unfolded add_0_right]
  have "dma_pointers (events_B t @ events_A t) =
      [(USART1, US_TPR, (O_v1_adc_conf, 0)), (USART1, US_RPR, in_sample j 0),
       (USART2, US_TPR, (O_v2_adc_conf, 0)), (USART2, US_RPR, in_sample j 1),
       (USART0, US_TPR, (O_da, 0)), (USART0, US_TNPR, out_sample (j + 2) 0),
       (USART1, US_TPR, (O_i1_adc_conf, 0)), (USART1, US_RPR, in_sample j 3),
       (USART2, US_TPR, (O_i2_adc_conf, 0)), (USART2, US_RPR, in_sample j 2),
       (USART0, US_TPR, (O_db, 0)), (USART0, US_TNPR, out_sample (j + 2) 1)]"
    unfolding events_A_def events_B_def at_slot_pointers [OF a] p by simp
  then show ?thesis
    by (intro exI [of _ "events_B t @ events_A t"]) (simp add: one_slot_eq [OF c])
qed

definition configured_init :: app where
  "configured_init = app_init\<lparr>not_a_new_transfer := 4, slot_offset_in := 254\<rparr>"

lemma configured_init: "configured configured_init"
  by (simp add: configured_init_def configured_def app_init_def)

theorem sampling_streams_witness:
  "configured configured_init \<and>
   (\<exists>es. trace (one_slot (\<lambda>_ _ _. 0) ((one_slot (\<lambda>_ _ _. 0) ^^ 6) configured_init)) =
      es @ trace ((one_slot (\<lambda>_ _ _. 0) ^^ 6) configured_init) \<and>
      (USART1, US_RPR, (O_packets_in, 0)) \<in> set (dma_pointers es))"
  using configured_init
    sampling_streams [OF configured_init refl, of "\<lambda>_ _ _. 0" 0]
  by (auto simp: in_sample_def)

text \<open>
  \<^bold>\<open>C9\<close>. Double buffering. At every slot after the first packet, from its third slot on the
  buffer being recorded is not the one that was announced to the host, and from slot 127 on the
  buffer that the host was asked to fill is not the one being played; in the first two slots
  the recorder is still completing the announced buffer.
\<close>

theorem sampling_double_buffer:
  assumes "configured s" and "t = (one_slot hw ^^ (m + 4)) s" and "256 \<le> m"
  shows "(packet_index_in t \<noteq> packet_index_send_in t \<longleftrightarrow> 2 \<le> m mod 256) \<and>
    (packet_index_out t \<noteq> packet_index_send_out t \<longleftrightarrow> 127 \<le> m mod 256)"
proof -
  have "at_slot m t" using assms configured_run by blast
  then have i: "packet_index_in t = of_nat (((m + 254) div 256 + 1) mod 2)"
    "packet_index_send_in t = of_nat ((m div 256 + 1) mod 2)"
    "packet_index_out t = of_nat (m div 256 mod 2)"
    "packet_index_send_out t = of_nat ((m + 129) div 256 mod 2)"
    using assms(3) by (simp_all add: at_slot_def)
  have d: "(m + 254) div 256 = (if m mod 256 < 2 then m div 256 else Suc (m div 256))"
    "(m + 129) div 256 = (if m mod 256 < 127 then m div 256 else Suc (m div 256))"
    using slot_div [of 254 m] slot_div [of 129 m] by auto
  have e: "of_nat (a mod 2) \<noteq> (of_nat (b mod 2) :: u32) \<longleftrightarrow> a mod 2 \<noteq> b mod 2" for a b
    by (auto simp: word_unat_eq_iff unat_of_nat)
  show ?thesis unfolding i e d by (simp add: mod_Suc)
qed

theorem sampling_double_buffer_witness:
  "configured configured_init \<and>
   (let t = (one_slot (\<lambda>_ _ _. 0) ^^ 387) configured_init
    in packet_index_in t \<noteq> packet_index_send_in t \<and> packet_index_out t \<noteq> packet_index_send_out t)"
  using configured_init sampling_double_buffer [OF configured_init refl, of 383 "\<lambda>_ _ _. 0"]
  by simp

text \<open>
  \<^bold>\<open>C11\<close>. Packet events. A slot raises \<open>send_in\<close> exactly when it is the last of an OUT
  packet, and then names the buffer of the IN packet with the same number; it raises
  \<open>send_out\<close> exactly when slot 126 ends, and then names the buffer of the next OUT packet.
\<close>

theorem sampling_packet_events:
  assumes "configured s" and "t = (one_slot hw ^^ (m + 4)) s"
  shows "(send_in (one_slot hw t) \<longleftrightarrow> send_in t \<or> Suc m mod 256 = 0) \<and>
    (Suc m mod 256 = 0 \<longrightarrow> packet_index_send_in (one_slot hw t) = of_nat (m div 256 mod 2)) \<and>
    (send_out (one_slot hw t) \<longleftrightarrow> send_out t \<or> Suc m mod 256 = 127) \<and>
    (Suc m mod 256 = 127 \<longrightarrow>
       packet_index_send_out (one_slot hw t) = of_nat (Suc (m div 256) mod 2))"
proof -
  have a: "at_slot m t" using assms configured_run by blast
  then have o1: "one_slot hw t = trace_update (\<lambda>u. events_B t @ events_A t @ u) (next_slot t)"
    by (simp add: one_slot_eq at_slot_def)
  have i: "packet_index_in t = of_nat (((m + 254) div 256 + 1) mod 2)"
    "packet_index_out t = of_nat (m div 256 mod 2)"
    using a by (simp_all add: at_slot_def)
  show ?thesis
    unfolding o1 using next_slot_fields(7-10) [OF a]
    by (auto simp: i slot_arith(5) xor_1_of_bit)
qed

theorem sampling_packet_events_witness:
  "configured configured_init \<and>
   send_in (one_slot (\<lambda>_ _ _. 0) ((one_slot (\<lambda>_ _ _. 0) ^^ 259) configured_init))"
  using configured_init sampling_packet_events [OF configured_init refl, of "\<lambda>_ _ _. 0" 255]
  by simp

text \<open>
  Memory safety of the sampling interrupt. In any state whose buffer numbers are 0 or
  1, whatever the slot counters hold, every pointer the interrupt gives to a DMA channel comes
  with a count that stays inside its object, and the buffer numbers are 0 or 1 afterwards.
\<close>

theorem TC2_Handler_memory_safe:
  assumes "idx_ok s"
  shows "\<exists>es. trace (TC2_Handler hw s) = es @ trace s \<and> pdc_safe es \<and> idx_ok (TC2_Handler hw s)"
proof (cases "current_chan s")
  case True
  moreover have "pdc_safe (events_B s)" using assms by (simp add: idx_ok_def pdc_safe_events)
  moreover have "idx_ok (next_slot s)" using assms by (rule next_slot_idx_ok)
  ultimately show ?thesis
    by (intro exI [of _ "events_B s"]) (simp add: TC2_Handler_B idx_ok_def)
next
  case False
  moreover have "pdc_safe (events_A s)" using assms by (simp add: idx_ok_def pdc_safe_events)
  ultimately show ?thesis using assms
    by (intro exI [of _ "events_A s"]) (simp add: TC2_Handler_A idx_ok_def)
qed

theorem TC2_Handler_memory_safe_witness:
  "idx_ok app_init \<and>
   (\<exists>es. trace (TC2_Handler (\<lambda>_ _ _. 0) app_init) = es @ trace app_init \<and> pdc_safe es)"
proof -
  have i: "idx_ok app_init" by (simp add: idx_ok_def app_init_def)
  show ?thesis using i TC2_Handler_memory_safe [OF i, of "\<lambda>_ _ _. 0"] by blast
qed

end
