(* ===== verification/Twi.thy ===== *)
theory Twi
  imports Prelude
begin

text \<open>
  The two-wire interface driver, \<^verbatim>\<open>src/asf/sam/drivers/twi/twi.c\<close>, as compiled for the SAM3U.
  A buffer to send is the function from an offset to the byte in memory there, since the code
  reads on as far as the length asks for, whatever the size of the caller's array; the bytes received are returned as a
  list in the order in which they are stored. The master read loop counts its status reads down
  and so always ends; the loops of the master write, and the two slave loops, may wait
  forever and are partial.
\<close>

abbreviation (input) TWI_CR :: nat where "TWI_CR \<equiv> 0"
abbreviation (input) TWI_MMR :: nat where "TWI_MMR \<equiv> 4"
abbreviation (input) TWI_SMR :: nat where "TWI_SMR \<equiv> 8"
abbreviation (input) TWI_IADR :: nat where "TWI_IADR \<equiv> 0xC"
abbreviation (input) TWI_CWGR :: nat where "TWI_CWGR \<equiv> 0x10"
abbreviation (input) TWI_SR :: nat where "TWI_SR \<equiv> 0x20"
abbreviation (input) TWI_IER :: nat where "TWI_IER \<equiv> 0x24"
abbreviation (input) TWI_IDR :: nat where "TWI_IDR \<equiv> 0x28"
abbreviation (input) TWI_IMR :: nat where "TWI_IMR \<equiv> 0x2C"
abbreviation (input) TWI_RHR :: nat where "TWI_RHR \<equiv> 0x30"
abbreviation (input) TWI_THR :: nat where "TWI_THR \<equiv> 0x34"

abbreviation (input) TWI_CR_START :: u32 where "TWI_CR_START \<equiv> 1"
abbreviation (input) TWI_CR_STOP :: u32 where "TWI_CR_STOP \<equiv> 2"
abbreviation (input) TWI_CR_MSEN :: u32 where "TWI_CR_MSEN \<equiv> 4"
abbreviation (input) TWI_CR_MSDIS :: u32 where "TWI_CR_MSDIS \<equiv> 8"
abbreviation (input) TWI_CR_SVEN :: u32 where "TWI_CR_SVEN \<equiv> 0x10"
abbreviation (input) TWI_CR_SVDIS :: u32 where "TWI_CR_SVDIS \<equiv> 0x20"
abbreviation (input) TWI_CR_QUICK :: u32 where "TWI_CR_QUICK \<equiv> 0x40"
abbreviation (input) TWI_CR_SWRST :: u32 where "TWI_CR_SWRST \<equiv> 0x80"
abbreviation (input) TWI_MMR_MREAD :: u32 where "TWI_MMR_MREAD \<equiv> 0x1000"
abbreviation (input) TWI_SR_TXCOMP :: u32 where "TWI_SR_TXCOMP \<equiv> 1"
abbreviation (input) TWI_SR_RXRDY :: u32 where "TWI_SR_RXRDY \<equiv> 2"
abbreviation (input) TWI_SR_TXRDY :: u32 where "TWI_SR_TXRDY \<equiv> 4"
abbreviation (input) TWI_SR_SVREAD :: u32 where "TWI_SR_SVREAD \<equiv> 8"
abbreviation (input) TWI_SR_SVACC :: u32 where "TWI_SR_SVACC \<equiv> 0x10"
abbreviation (input) TWI_SR_GACC :: u32 where "TWI_SR_GACC \<equiv> 0x20"
abbreviation (input) TWI_SR_NACK :: u32 where "TWI_SR_NACK \<equiv> 0x100"
abbreviation (input) TWI_SR_EOSACC :: u32 where "TWI_SR_EOSACC \<equiv> 0x800"

abbreviation (input) TWI_SUCCESS :: u32 where "TWI_SUCCESS \<equiv> 0"
abbreviation (input) TWI_INVALID_ARGUMENT :: u32 where "TWI_INVALID_ARGUMENT \<equiv> 1"
abbreviation (input) TWI_RECEIVE_NACK :: u32 where "TWI_RECEIVE_NACK \<equiv> 5"
abbreviation (input) TWI_ERROR_TIMEOUT :: u32 where "TWI_ERROR_TIMEOUT \<equiv> 9"
abbreviation (input) TWI_TIMEOUT :: u32 where "TWI_TIMEOUT \<equiv> 15000"
abbreviation (input) PASS :: u32 where "PASS \<equiv> 0"
abbreviation (input) FAIL :: u32 where "FAIL \<equiv> 1"

definition TWI_MMR_DADR :: "u32 \<Rightarrow> u32" where
  "TWI_MMR_DADR v = push_bit 16 0x7F AND push_bit 16 v"
definition TWI_MMR_IADRSZ :: "u32 \<Rightarrow> u32" where
  "TWI_MMR_IADRSZ v = push_bit 8 v AND push_bit 8 3"
definition TWI_SMR_SADR :: "u32 \<Rightarrow> u32" where
  "TWI_SMR_SADR v = push_bit 16 0x7F AND push_bit 16 v"

definition TWI_CWGR_CLDIV :: "u32 \<Rightarrow> u32" where "TWI_CWGR_CLDIV v = 0xFF AND v"
definition TWI_CWGR_CHDIV :: "u32 \<Rightarrow> u32" where
  "TWI_CWGR_CHDIV v = push_bit 8 0xFF AND push_bit 8 v"
definition TWI_CWGR_CKDIV :: "u32 \<Rightarrow> u32" where
  "TWI_CWGR_CKDIV v = push_bit 16 7 AND push_bit 16 v"

record twi_options_t =
  master_clk :: u32
  speed :: u32
  opt_chip :: u8
  smbus :: u8

record twi_packet_t =
  addr :: "u8 \<times> u8 \<times> u8"
  addr_length :: u32
  buffer :: "nat \<Rightarrow> u8"
  pkt_length :: u32
  chip :: u8

section \<open>Modes and speed\<close>

definition twi_enable_master_mode :: "periph \<Rightarrow> 'z mach_scheme \<Rightarrow> 'z mach_scheme" where
  "twi_enable_master_mode p s =
     wr p TWI_CR TWI_CR_MSEN (wr p TWI_CR TWI_CR_SVDIS (wr p TWI_CR TWI_CR_MSDIS s))"

definition twi_disable_master_mode :: "periph \<Rightarrow> 'z mach_scheme \<Rightarrow> 'z mach_scheme" where
  "twi_disable_master_mode p s = wr p TWI_CR TWI_CR_MSDIS s"

definition twi_reset :: "hw \<Rightarrow> periph \<Rightarrow> 'z mach_scheme \<Rightarrow> 'z mach_scheme" where
  "twi_reset hw p s = (let s = wr p TWI_CR TWI_CR_SWRST s; (_, s) = rd hw p TWI_RHR s in s)"

text \<open>The loop of \<open>twi_set_speed\<close>: it halves the divider until it fits in 8 bits.\<close>

function twi_scale :: "u32 \<Rightarrow> u32 \<Rightarrow> u32 \<times> u32" where
  "twi_scale c_lh_div ckdiv =
     (if c_lh_div > 0xFF \<and> ckdiv < 7 then twi_scale (c_lh_div div 2) (ckdiv + 1)
      else (c_lh_div, ckdiv))"
  by auto
termination
proof (relation "measure (\<lambda>(c, k). 7 - unat k)")
  fix c k :: u32
  assume "c > 0xFF \<and> k < 7"
  then show "((c div 2, k + 1), (c, k)) \<in> measure (\<lambda>(c, k). 7 - unat k)"
    using unat_succ [of k 7] by (auto simp: word_less_nat_alt)
qed simp

declare twi_scale.simps [simp del]

text \<open>
  A speed of 0 divides by zero; the processor's division instruction then gives 0, as
  \<open>div\<close> does here.
\<close>

definition twi_set_speed :: "periph \<Rightarrow> u32 \<Rightarrow> u32 \<Rightarrow> 'z mach_scheme \<Rightarrow> u32 \<times> 'z mach_scheme" where
  "twi_set_speed p ul_speed ul_mck s =
     (if ul_speed > 400000 then (FAIL, s)
      else
        let c_lh_div = ul_mck div (ul_speed * 2) - 4;
            (c_lh_div, ckdiv) = twi_scale c_lh_div 0
        in (PASS, wr p TWI_CWGR
                   (TWI_CWGR_CLDIV c_lh_div OR TWI_CWGR_CHDIV c_lh_div OR TWI_CWGR_CKDIV ckdiv) s))"

definition twi_master_init :: "hw \<Rightarrow> periph \<Rightarrow> twi_options_t \<Rightarrow> 'z mach_scheme \<Rightarrow> u32 \<times> 'z mach_scheme" where
  "twi_master_init hw p p_opt s =
     (let s = wr p TWI_IDR 0xFFFFFFFF s;
          (_, s) = rd hw p TWI_SR s;
          s = twi_reset hw p s;
          s = twi_enable_master_mode p s;
          (r, s) = twi_set_speed p (speed p_opt) (master_clk p_opt) s;
          status = (if r = FAIL then TWI_INVALID_ARGUMENT else TWI_SUCCESS);
          s = (if smbus p_opt = 1 then wr p TWI_CR TWI_CR_QUICK s else s)
      in (status, s))"

section \<open>Master transfers\<close>

text \<open>\<open>len\<close> is an \<open>int\<close>: the unsigned length of the packet is converted, so the comparisons are signed.\<close>

definition twi_mk_addr :: "u8 \<times> u8 \<times> u8 \<Rightarrow> u32 \<Rightarrow> u32" where
  "twi_mk_addr a len =
     (case a of (a0, a1, a2) \<Rightarrow>
        if len = 0 then 0
        else
          let val = ucast a0;
              val = (if 1 <s len then push_bit 8 val OR ucast a1 else val);
              val = (if 2 <s len then push_bit 8 val OR ucast a2 else val)
          in val)"

text \<open>The loop that receives \<open>cnt\<close> bytes, with the time-out that every byte resets.\<close>

function twi_receive ::
  "hw \<Rightarrow> periph \<Rightarrow> u32 \<Rightarrow> bool \<Rightarrow> u32 \<Rightarrow> 'z mach_scheme \<Rightarrow> u32 \<times> u8 list \<times> 'z mach_scheme" where
  "twi_receive hw p cnt stop_sent timeout s =
     (if cnt = 0 then (TWI_SUCCESS, [], s)
      else
        let (status, s) = rd hw p TWI_SR s
        in if status AND TWI_SR_NACK \<noteq> 0 then (TWI_RECEIVE_NACK, [], s)
           else if timeout = 0 then (TWI_ERROR_TIMEOUT, [], s)
           else
             let timeout = timeout - 1;
                 last_byte = (cnt = 1 \<and> \<not> stop_sent);
                 s = (if last_byte then wr p TWI_CR TWI_CR_STOP s else s);
                 stop_sent = (stop_sent \<or> last_byte)
             in if status AND TWI_SR_RXRDY = 0 then twi_receive hw p cnt stop_sent timeout s
                else
                  let (b, s) = rd hw p TWI_RHR s;
                      (rc, bs, s) = twi_receive hw p (cnt - 1) stop_sent TWI_TIMEOUT s
                  in (rc, ucast b # bs, s))"
  by pat_completeness auto
termination
  by (relation "measures [\<lambda>(hw, p, cnt, st, t, s). unat cnt, \<lambda>(hw, p, cnt, st, t, s). unat t]")
    (simp_all add: unat_minus_one)

declare twi_receive.simps [simp del]

definition twi_start_read :: "periph \<Rightarrow> twi_packet_t \<Rightarrow> 'z mach_scheme \<Rightarrow> 'z mach_scheme" where
  "twi_start_read p p_packet s =
     (let s = wr p TWI_MMR 0 s;
          s = wr p TWI_MMR (TWI_MMR_MREAD OR TWI_MMR_DADR (ucast (chip p_packet))
                            OR TWI_MMR_IADRSZ (addr_length p_packet)) s;
          s = wr p TWI_IADR 0 s;
          s = wr p TWI_IADR (twi_mk_addr (addr p_packet) (addr_length p_packet)) s
      in wr p TWI_CR (if pkt_length p_packet = 1 then TWI_CR_START OR TWI_CR_STOP else TWI_CR_START) s)"

definition twi_master_read ::
  "hw \<Rightarrow> periph \<Rightarrow> twi_packet_t \<Rightarrow> 'z mach_scheme \<Rightarrow> (u32 \<times> u8 list \<times> 'z mach_scheme) option" where
  "twi_master_read hw p p_packet s =
     (let cnt = pkt_length p_packet
      in if cnt = 0 then Some (TWI_INVALID_ARGUMENT, [], s)
         else
           let s = twi_start_read p p_packet s;
               (rc, bs, s) = twi_receive hw p cnt (cnt = 1) TWI_TIMEOUT s
           in if rc \<noteq> TWI_SUCCESS then Some (rc, bs, s)
              else do {
                (_, s) \<leftarrow> poll hw p TWI_SR TWI_SR_TXCOMP TWI_SR_TXCOMP s;
                let (_, s) = rd hw p TWI_SR s;
                Some (TWI_SUCCESS, bs, s)
              })"

text \<open>The two loops of the master write; \<open>i\<close> is how far the buffer pointer has advanced.\<close>

partial_function (option) twi_send ::
  "hw \<Rightarrow> periph \<Rightarrow> (nat \<Rightarrow> u8) \<Rightarrow> nat \<Rightarrow> u32 \<Rightarrow> 'z mach_scheme \<Rightarrow> (u32 \<times> 'z mach_scheme) option" where
  "twi_send hw p b i cnt s =
     (if cnt = 0 then Some (TWI_SUCCESS, s)
      else
        let (status, s) = rd hw p TWI_SR s
        in if status AND TWI_SR_NACK \<noteq> 0 then Some (TWI_RECEIVE_NACK, s)
           else if status AND TWI_SR_TXRDY = 0 then twi_send hw p b i cnt s
           else twi_send hw p b (Suc i) (cnt - 1) (wr p TWI_THR (ucast (b i)) s))"

partial_function (option) twi_wait_sent ::
  "hw \<Rightarrow> periph \<Rightarrow> 'z mach_scheme \<Rightarrow> (u32 \<times> 'z mach_scheme) option" where
  "twi_wait_sent hw p s =
     (let (status, s) = rd hw p TWI_SR s
      in if status AND TWI_SR_NACK \<noteq> 0 then Some (TWI_RECEIVE_NACK, s)
         else if status AND TWI_SR_TXRDY \<noteq> 0 then Some (TWI_SUCCESS, s)
         else twi_wait_sent hw p s)"

definition twi_start_write :: "periph \<Rightarrow> twi_packet_t \<Rightarrow> 'z mach_scheme \<Rightarrow> 'z mach_scheme" where
  "twi_start_write p p_packet s =
     (let s = wr p TWI_MMR 0 s;
          s = wr p TWI_MMR (TWI_MMR_DADR (ucast (chip p_packet)) OR TWI_MMR_IADRSZ (addr_length p_packet)) s;
          s = wr p TWI_IADR 0 s
      in wr p TWI_IADR (twi_mk_addr (addr p_packet) (addr_length p_packet)) s)"

definition twi_master_write ::
  "hw \<Rightarrow> periph \<Rightarrow> twi_packet_t \<Rightarrow> 'z mach_scheme \<Rightarrow> (u32 \<times> 'z mach_scheme) option" where
  "twi_master_write hw p p_packet s =
     (if pkt_length p_packet = 0 then Some (TWI_INVALID_ARGUMENT, s)
      else do {
        let s = twi_start_write p p_packet s;
        (rc, s) \<leftarrow> twi_send hw p (buffer p_packet) 0 (pkt_length p_packet) s;
        if rc \<noteq> TWI_SUCCESS then Some (rc, s)
        else do {
          (rc, s) \<leftarrow> twi_wait_sent hw p s;
          if rc \<noteq> TWI_SUCCESS then Some (rc, s)
          else do {
            let s = wr p TWI_CR TWI_CR_STOP s;
            (_, s) \<leftarrow> poll hw p TWI_SR TWI_SR_TXCOMP TWI_SR_TXCOMP s;
            Some (TWI_SUCCESS, s)
          }
        }
      })"

definition twi_probe :: "hw \<Rightarrow> periph \<Rightarrow> u8 \<Rightarrow> 'z mach_scheme \<Rightarrow> (u32 \<times> 'z mach_scheme) option" where
  "twi_probe hw p uc_slave_addr s =
     twi_master_write hw p
       \<lparr>addr = (0, 0, 0), addr_length = 0, buffer = (\<lambda>_. 0), pkt_length = 1, chip = uc_slave_addr\<rparr> s"

section \<open>Interrupts and single bytes\<close>

definition twi_enable_interrupt :: "periph \<Rightarrow> u32 \<Rightarrow> 'z mach_scheme \<Rightarrow> 'z mach_scheme" where
  "twi_enable_interrupt p ul_sources s = wr p TWI_IER ul_sources s"

definition twi_disable_interrupt :: "hw \<Rightarrow> periph \<Rightarrow> u32 \<Rightarrow> 'z mach_scheme \<Rightarrow> 'z mach_scheme" where
  "twi_disable_interrupt hw p ul_sources s =
     (let s = wr p TWI_IDR ul_sources s; (_, s) = rd hw p TWI_SR s in s)"

definition twi_get_interrupt_status :: "hw \<Rightarrow> periph \<Rightarrow> 'z mach_scheme \<Rightarrow> u32 \<times> 'z mach_scheme" where
  "twi_get_interrupt_status hw p s = rd hw p TWI_SR s"

definition twi_get_interrupt_mask :: "hw \<Rightarrow> periph \<Rightarrow> 'z mach_scheme \<Rightarrow> u32 \<times> 'z mach_scheme" where
  "twi_get_interrupt_mask hw p s = rd hw p TWI_IMR s"

definition twi_read_byte :: "hw \<Rightarrow> periph \<Rightarrow> 'z mach_scheme \<Rightarrow> u8 \<times> 'z mach_scheme" where
  "twi_read_byte hw p s = (let (v, s) = rd hw p TWI_RHR s in (ucast v, s))"

definition twi_write_byte :: "periph \<Rightarrow> u8 \<Rightarrow> 'z mach_scheme \<Rightarrow> 'z mach_scheme" where
  "twi_write_byte p uc_byte s = wr p TWI_THR (ucast uc_byte) s"

section \<open>Slave mode\<close>

definition twi_enable_slave_mode :: "periph \<Rightarrow> 'z mach_scheme \<Rightarrow> 'z mach_scheme" where
  "twi_enable_slave_mode p s =
     wr p TWI_CR TWI_CR_SVEN (wr p TWI_CR TWI_CR_SVDIS (wr p TWI_CR TWI_CR_MSDIS s))"

definition twi_disable_slave_mode :: "periph \<Rightarrow> 'z mach_scheme \<Rightarrow> 'z mach_scheme" where
  "twi_disable_slave_mode p s = wr p TWI_CR TWI_CR_SVDIS s"

definition twi_set_slave_addr :: "periph \<Rightarrow> u32 \<Rightarrow> 'z mach_scheme \<Rightarrow> 'z mach_scheme" where
  "twi_set_slave_addr p ul_device_addr s = wr p TWI_SMR (TWI_SMR_SADR ul_device_addr) s"

definition twi_slave_init :: "hw \<Rightarrow> periph \<Rightarrow> u32 \<Rightarrow> 'z mach_scheme \<Rightarrow> 'z mach_scheme" where
  "twi_slave_init hw p ul_device_addr s =
     (let s = wr p TWI_IDR 0xFFFFFFFF s;
          (_, s) = rd hw p TWI_SR s;
          s = twi_reset hw p s;
          s = wr p TWI_SMR (TWI_SMR_SADR ul_device_addr) s
      in twi_enable_slave_mode p s)"

text \<open>The slave loops; \<open>cnt\<close> counts in a \<open>uint32_t\<close>, the pointer advances with it.\<close>

partial_function (option) twi_slave_read ::
  "hw \<Rightarrow> periph \<Rightarrow> u8 list \<Rightarrow> u32 \<Rightarrow> 'z mach_scheme \<Rightarrow> (u32 \<times> u8 list \<times> 'z mach_scheme) option" where
  "twi_slave_read hw p p_data cnt s =
     (let (status, s) = rd hw p TWI_SR s
      in if status AND TWI_SR_SVACC \<noteq> 0 then
           if status AND TWI_SR_GACC = 0 \<and>
              status AND (TWI_SR_SVREAD OR TWI_SR_RXRDY) = (TWI_SR_SVREAD OR TWI_SR_RXRDY)
           then let (b, s) = rd hw p TWI_RHR s
                in twi_slave_read hw p (p_data @ [ucast b]) (cnt + 1) s
           else twi_slave_read hw p p_data cnt s
         else if status AND (TWI_SR_EOSACC OR TWI_SR_TXCOMP) = (TWI_SR_EOSACC OR TWI_SR_TXCOMP)
         then Some (cnt, p_data, s)
         else twi_slave_read hw p p_data cnt s)"

partial_function (option) twi_slave_write ::
  "hw \<Rightarrow> periph \<Rightarrow> (nat \<Rightarrow> u8) \<Rightarrow> nat \<Rightarrow> u32 \<Rightarrow> 'z mach_scheme \<Rightarrow> (u32 \<times> 'z mach_scheme) option" where
  "twi_slave_write hw p p_data i cnt s =
     (let (status, s) = rd hw p TWI_SR s
      in if status AND TWI_SR_SVACC \<noteq> 0 then
           if status AND (TWI_SR_GACC OR TWI_SR_SVREAD) = 0 \<and> status AND TWI_SR_TXRDY \<noteq> 0
           then twi_slave_write hw p p_data (Suc i) (cnt + 1) (wr p TWI_THR (ucast (p_data i)) s)
           else twi_slave_write hw p p_data i cnt s
         else if status AND (TWI_SR_EOSACC OR TWI_SR_TXCOMP) = (TWI_SR_EOSACC OR TWI_SR_TXCOMP)
         then Some (cnt, s)
         else twi_slave_write hw p p_data i cnt s)"

definition twi_get_pdc_base :: "periph \<Rightarrow> u32" where
  "twi_get_pdc_base p =
     (if p = TWI0 then 0x40084100 else if p = TWI1 then 0x40088100 else 0)"

section \<open>The clock divider\<close>

lemma twi_scale_result:
  "unat k \<le> 7 \<Longrightarrow>
     \<exists>n. unat (snd (twi_scale c k)) = unat k + n \<and> unat k + n \<le> 7 \<and>
       unat (fst (twi_scale c k)) = unat c div 2 ^ n \<and>
       (unat c div 2 ^ n \<le> 255 \<or> unat k + n = 7) \<and> (\<forall>m < n. 255 < unat c div 2 ^ m)"
proof (induction c k rule: twi_scale.induct)
  case (1 c k)
  show ?case
  proof (cases "c > 0xFF \<and> k < 7")
    case True
    then have k: "unat (k + 1) = Suc (unat k)" "unat k < 7" "255 < unat c"
      using unat_succ [of k 7] by (auto simp: word_less_nat_alt)
    then have "unat (k + 1) \<le> 7" by simp
    from "1.IH" [OF True this] obtain n where n: "unat (snd (twi_scale c k)) = Suc (unat k) + n"
      "Suc (unat k) + n \<le> 7" "unat (fst (twi_scale c k)) = unat c div 2 div 2 ^ n"
      "unat c div 2 div 2 ^ n \<le> 255 \<or> Suc (unat k) + n = 7" "\<forall>m < n. 255 < unat c div 2 div 2 ^ m"
      using True k(1) by (auto simp: twi_scale.simps [of c k] unat_div)
    then show ?thesis using k(3)
      by (intro exI [of _ "Suc n"]) (auto simp: div_mult2_eq less_Suc_eq_0_disj)
  next
    case False
    then show ?thesis using "1.prems"
      by (intro exI [of _ 0]) (auto simp: twi_scale.simps [of c k] word_less_nat_alt)
  qed
qed

text \<open>The fields of the waveform register, as the controller decodes them.\<close>

lemma CWGR_fields_gen:
  fixes a b k :: u32
  shows "((mask 8 AND a) OR (push_bit 8 (mask 8) AND push_bit 8 b) OR (push_bit 16 (mask 3) AND push_bit 16 k))
      AND mask 8 = a AND mask 8"
    "drop_bit 8 ((mask 8 AND a) OR (push_bit 8 (mask 8) AND push_bit 8 b) OR (push_bit 16 (mask 3) AND push_bit 16 k))
      AND mask 8 = b AND mask 8"
    "drop_bit 16 ((mask 8 AND a) OR (push_bit 8 (mask 8) AND push_bit 8 b) OR (push_bit 16 (mask 3) AND push_bit 16 k))
      = k AND mask 3"
  by (rule bit_word_eqI; force simp: bit_simps)+

definition CWGR_CLDIV :: "u32 \<Rightarrow> nat" where "CWGR_CLDIV w = unat (w AND 0xFF)"
definition CWGR_CHDIV :: "u32 \<Rightarrow> nat" where "CWGR_CHDIV w = unat (drop_bit 8 w AND 0xFF)"
definition CWGR_CKDIV :: "u32 \<Rightarrow> nat" where "CWGR_CKDIV w = unat (drop_bit 16 w)"

lemma CWGR_fields:
  assumes "unat c \<le> 255" and "unat k \<le> 7"
  shows "CWGR_CLDIV (TWI_CWGR_CLDIV c OR TWI_CWGR_CHDIV c OR TWI_CWGR_CKDIV k) = unat c"
    "CWGR_CHDIV (TWI_CWGR_CLDIV c OR TWI_CWGR_CHDIV c OR TWI_CWGR_CKDIV k) = unat c"
    "CWGR_CKDIV (TWI_CWGR_CLDIV c OR TWI_CWGR_CHDIV c OR TWI_CWGR_CKDIV k) = unat k"
proof -
  have m: "(0xFF :: u32) = mask 8" "(7 :: u32) = mask 3" by (simp_all add: mask_eq_exp_minus_1)
  have "c AND mask 8 = c" "k AND mask 3 = k"
    using assms
    by (simp_all add: take_bit_eq_mask [symmetric] word_unat_eq_iff unsigned_take_bit_eq take_bit_nat_eq_self)
  then show "CWGR_CLDIV (TWI_CWGR_CLDIV c OR TWI_CWGR_CHDIV c OR TWI_CWGR_CKDIV k) = unat c"
    "CWGR_CHDIV (TWI_CWGR_CLDIV c OR TWI_CWGR_CHDIV c OR TWI_CWGR_CKDIV k) = unat c"
    "CWGR_CKDIV (TWI_CWGR_CLDIV c OR TWI_CWGR_CHDIV c OR TWI_CWGR_CKDIV k) = unat k"
    unfolding CWGR_CLDIV_def CWGR_CHDIV_def CWGR_CKDIV_def TWI_CWGR_CLDIV_def TWI_CWGR_CHDIV_def
      TWI_CWGR_CKDIV_def m CWGR_fields_gen by simp_all
qed

text \<open>
  \<^bold>\<open>C35\<close>. \<open>twi_set_speed\<close> programs the bus clock that was asked for. Let \<open>h\<close> be the ideal half
  period of the bus clock in cycles of the master clock. If \<open>h\<close> is at least 4 and small enough for the register, the
  function succeeds with one write, whose low and high dividers are the same value \<open>c\<close> and whose prescaler
  \<open>k\<close> is the smallest possible; the half period \<open>c * 2 ^ k + 4\<close> that the controller makes of
  them is \<open>h\<close> up to the resolution \<open>2 ^ k\<close> of the prescaler.
\<close>

theorem twi_set_speed_correct:
  assumes "0 < v" and "v \<le> 400000" and "h = unat mck div (2 * unat v)"
    and "4 \<le> h" and "h < 2 ^ 15"
  shows "\<exists>w. twi_set_speed p v mck s = (PASS, wr p TWI_CWGR w s) \<and>
    CWGR_CHDIV w = CWGR_CLDIV w \<and>
    CWGR_CLDIV w * 2 ^ CWGR_CKDIV w + 4 \<le> h \<and> h < (CWGR_CLDIV w + 1) * 2 ^ CWGR_CKDIV w + 4 \<and>
    (\<forall>j < CWGR_CKDIV w. 255 < (h - 4) div 2 ^ j)"
proof -
  let ?c = "mck div (v * 2) - 4"
  have "unat (v * 2) = 2 * unat v"
    using assms(2) by (simp add: unat_word_ariths word_le_nat_alt)
  then have d: "unat (mck div (v * 2)) = h" using assms(3) by (simp add: unat_div)
  then have "4 \<le> mck div (v * 2)" using assms(4) by (simp add: word_le_nat_alt)
  then have c: "unat ?c = h - 4" using d by (simp add: unat_sub)
  obtain n where n: "unat (snd (twi_scale ?c 0)) = n" "n \<le> 7" "unat (fst (twi_scale ?c 0)) = (h - 4) div 2 ^ n"
    "(h - 4) div 2 ^ n \<le> 255 \<or> n = 7" "\<forall>m < n. 255 < (h - 4) div 2 ^ m"
    using twi_scale_result [of 0 ?c] c by auto
  have f: "(h - 4) div 2 ^ n \<le> 255"
    using n(4) assms(5) by (auto simp: div_le_dividend less_mult_imp_div_less less_Suc_eq_le [symmetric])
  let ?w = "TWI_CWGR_CLDIV (fst (twi_scale ?c 0)) OR TWI_CWGR_CHDIV (fst (twi_scale ?c 0))
      OR TWI_CWGR_CKDIV (snd (twi_scale ?c 0))"
  have w: "CWGR_CLDIV ?w = (h - 4) div 2 ^ n" "CWGR_CHDIV ?w = (h - 4) div 2 ^ n" "CWGR_CKDIV ?w = n"
    using CWGR_fields [of "fst (twi_scale ?c 0)" "snd (twi_scale ?c 0)"] n(1-3) f by simp_all
  have "(h - 4) div 2 ^ n * 2 ^ n \<le> h - 4" "h - 4 < ((h - 4) div 2 ^ n + 1) * 2 ^ n"
    using div_mod_decomp [of "h - 4" "2 ^ n"] mod_less_divisor [of "2 ^ n" "h - 4"]
    by (simp_all add: add_mult_distrib del: mod_less_divisor)
  then have "(h - 4) div 2 ^ n * 2 ^ n + 4 \<le> h" "h < ((h - 4) div 2 ^ n + 1) * 2 ^ n + 4"
    using assms(4) by linarith+
  then show ?thesis using assms(2) w n(5)
    by (intro exI [of _ ?w]) (simp add: twi_set_speed_def Let_def split_def not_less)
qed

theorem twi_set_speed_correct_witness:
  "\<exists>w. twi_set_speed TWI0 100000 96000000 \<lparr>trace = []\<rparr> = (PASS, wr TWI0 TWI_CWGR w \<lparr>trace = []\<rparr>) \<and>
    CWGR_CLDIV w * 2 ^ CWGR_CKDIV w + 4 \<le> 480"
  using twi_set_speed_correct [of 100000 480 96000000 TWI0 "\<lparr>trace = []\<rparr>"] by auto

section \<open>Transfers\<close>

text \<open>One round of the reception loop.\<close>

lemma twi_receive_end:
  "cnt = 0 \<Longrightarrow> twi_receive hw p cnt stop t s = (TWI_SUCCESS, [], s)"
  "cnt \<noteq> 0 \<Longrightarrow> hw (trace s) p TWI_SR AND TWI_SR_NACK \<noteq> 0 \<Longrightarrow>
     twi_receive hw p cnt stop t s = (TWI_RECEIVE_NACK, [], snd (rd hw p TWI_SR s))"
  "cnt \<noteq> 0 \<Longrightarrow> hw (trace s) p TWI_SR AND TWI_SR_NACK = 0 \<Longrightarrow> t = 0 \<Longrightarrow>
     twi_receive hw p cnt stop t s = (TWI_ERROR_TIMEOUT, [], snd (rd hw p TWI_SR s))"
  by (subst twi_receive.simps; simp add: rd_def)+

lemma twi_receive_round:
  assumes "cnt \<noteq> 0" and "hw (trace s) p TWI_SR AND TWI_SR_NACK = 0" and "t \<noteq> 0"
  obtains stop' u where
    "count_list (trace u) (Rd p TWI_SR) = Suc (count_list (trace s) (Rd p TWI_SR))"
    "twi_receive hw p cnt stop t s = twi_receive hw p cnt stop' (t - 1) u"
  | stop' b u rc bs s' where
    "count_list (trace u) (Rd p TWI_SR) = Suc (count_list (trace s) (Rd p TWI_SR))"
    "twi_receive hw p (cnt - 1) stop' TWI_TIMEOUT u = (rc, bs, s')"
    "twi_receive hw p cnt stop t s = (rc, b # bs, s')"
proof -
  let ?l = "cnt = 1 \<and> \<not> stop"
  let ?u = "if ?l then wr p TWI_CR TWI_CR_STOP (snd (rd hw p TWI_SR s)) else snd (rd hw p TWI_SR s)"
  let ?R = "twi_receive hw p (cnt - 1) (stop \<or> ?l) TWI_TIMEOUT (snd (rd hw p TWI_RHR ?u))"
  have u: "count_list (trace ?u) (Rd p TWI_SR) = Suc (count_list (trace s) (Rd p TWI_SR))"
    by (simp add: rd_def wr_def)
  have e: "twi_receive hw p cnt stop t s =
      (if hw (trace s) p TWI_SR AND TWI_SR_RXRDY = 0 then twi_receive hw p cnt (stop \<or> ?l) (t - 1) ?u
       else (fst ?R, ucast (fst (rd hw p TWI_RHR ?u)) # fst (snd ?R), snd (snd ?R)))"
    using assms by (subst twi_receive.simps) (simp only: rd_def Let_def split_def fst_conv snd_conv if_False simp_thms)
  show thesis
  proof (cases "hw (trace s) p TWI_SR AND TWI_SR_RXRDY = 0")
    case True
    show thesis by (rule that(1) [OF u trans [OF e if_P [OF True]]])
  next
    case False
    have "count_list (trace (snd (rd hw p TWI_RHR ?u))) (Rd p TWI_SR) = Suc (count_list (trace s) (Rd p TWI_SR))"
      using u by (simp add: rd_def)
    from this _ trans [OF e if_not_P [OF False]] show thesis by (rule that(2)) simp
  qed
qed

lemma twi_receive_count:
  assumes "twi_receive hw p cnt stop t s = (rc, bs, s')"
  shows "length bs \<le> unat cnt \<and> (rc = TWI_SUCCESS \<longleftrightarrow> length bs = unat cnt) \<and>
     rc \<in> {TWI_SUCCESS, TWI_RECEIVE_NACK, TWI_ERROR_TIMEOUT} \<and>
     count_list (trace s') (Rd p TWI_SR) \<le>
       count_list (trace s) (Rd p TWI_SR) + (if cnt = 0 then 0 else unat t + 1 + 15001 * (unat cnt - 1))"
  using assms
proof (induction "unat cnt" arbitrary: cnt stop t s bs)
  case 0
  then show ?case by (simp add: twi_receive_end(1) unat_eq_zero)
next
  case (Suc n)
  have c0: "cnt \<noteq> 0" using Suc.hyps(2) by auto
  then have c: "cnt \<noteq> 0" "n = unat (cnt - 1)" using Suc.hyps(2) by simp_all
  show ?case using Suc.prems
  proof (induction "unat t" arbitrary: t stop s bs rule: less_induct)
    case less
    consider "hw (trace s) p TWI_SR AND TWI_SR_NACK \<noteq> 0" | "hw (trace s) p TWI_SR AND TWI_SR_NACK = 0" "t = 0"
      | "hw (trace s) p TWI_SR AND TWI_SR_NACK = 0" "t \<noteq> 0" by blast
    then show ?case
    proof cases
      case 1
      then show ?thesis using less.prems c(1) Suc.hyps(2)
        by (auto simp: twi_receive_end(2) [OF c(1)] rd_def)
    next
      case 2
      then show ?thesis using less.prems c(1) Suc.hyps(2)
        by (auto simp: twi_receive_end(3) [OF c(1)] rd_def)
    next
      case 3
      from 3(2) have t: "unat (t - 1) < unat t" by (simp add: unat_gt_0)
      from c(1) 3 show ?thesis
      proof (cases rule: twi_receive_round [where stop = stop])
        case (1 stop' u)
        then show ?thesis using less.hyps [OF t, of stop' u bs] less.prems t c(1) by auto
      next
        case (2 stop' b u rc0 bs0 s0)
        then have e: "rc0 = rc" "s0 = s'" "bs = b # bs0" using less.prems by simp_all
        from Suc.hyps(1) [OF c(2) 2(2) [unfolded e]] show ?thesis
          using 2(1) e(3) Suc.hyps(2) c 3(2)
          by (cases "cnt = 1") (auto simp: word_unat_eq_iff)
      qed
    qed
  qed
qed

text \<open>
  Reading from a device takes a bounded number of status reads, whatever the device does: the
  time-out is started anew for every byte. The reception succeeds exactly if all bytes asked for
  have come; otherwise fewer bytes are returned with one of the two error codes.
\<close>

theorem twi_receive_bounded:
  "case twi_receive hw p cnt stop t s of (rc, bs, s') \<Rightarrow>
     length bs \<le> unat cnt \<and> (rc = TWI_SUCCESS \<longleftrightarrow> length bs = unat cnt) \<and>
     rc \<in> {TWI_SUCCESS, TWI_RECEIVE_NACK, TWI_ERROR_TIMEOUT} \<and>
     count_list (trace s') (Rd p TWI_SR) \<le>
       count_list (trace s) (Rd p TWI_SR) + (if cnt = 0 then 0 else unat t + 1 + 15001 * (unat cnt - 1))"
  using twi_receive_count [of hw p cnt stop t s] by (auto split: prod.split)

text \<open>The bytes given to the transmitter so far, the newest first.\<close>

primrec thr_bytes :: "periph \<Rightarrow> event list \<Rightarrow> u32 list" where
  "thr_bytes p [] = []"
| "thr_bytes p (e # tr) =
     (case e of Wr q r v \<Rightarrow> if q = p \<and> r = TWI_THR then v # thr_bytes p tr else thr_bytes p tr
      | _ \<Rightarrow> thr_bytes p tr)"

lemma thr_bytes_reads [simp]: "thr_bytes p (replicate n (Rd q r) @ tr) = thr_bytes p tr"
  by (induction n) simp_all

lemma twi_send_bytes:
  "twi_send hw p b i cnt s = Some y \<Longrightarrow>
     \<exists>n \<le> unat cnt. thr_bytes p (trace (snd y)) = rev (map (\<lambda>k. ucast (b k)) [i..<i + n]) @ thr_bytes p (trace s) \<and>
       (fst y = TWI_SUCCESS \<longrightarrow> n = unat cnt)"
proof (induction rule: twi_send.raw_induct [rotated 1, consumes 1, case_names step])
  case (step f hw p b i cnt s y)
  let ?s = "snd (rd hw p TWI_SR s)"
  consider "cnt = 0" "y = (TWI_SUCCESS, s)" | "cnt \<noteq> 0" "y = (TWI_RECEIVE_NACK, ?s)"
    | "cnt \<noteq> 0" "f hw p b i cnt ?s = Some y"
    | "cnt \<noteq> 0" "f hw p b (Suc i) (cnt - 1) (wr p TWI_THR (ucast (b i)) ?s) = Some y"
    using step.hyps unfolding Let_def split_def by (metis option.inject)
  then show ?case
  proof cases
    case 4
    from step.IH [OF this(2)] obtain n where n: "n \<le> unat cnt - 1"
      "thr_bytes p (trace (snd y)) = rev (map (\<lambda>k. ucast (b k)) [Suc i..<Suc i + n]) @ ucast (b i) # thr_bytes p (trace s)"
      "fst y = TWI_SUCCESS \<longrightarrow> n = unat cnt - 1"
      using 4(1) by (auto simp: wr_def rd_def)
    have "0 < unat cnt" using 4(1) by (simp add: unat_gt_0)
    moreover have "[i..<i + Suc n] = i # [Suc i..<Suc i + n]" by (simp add: upt_conv_Cons del: upt_Suc)
    ultimately show ?thesis using n by (intro exI [of _ "Suc n"]) (auto simp del: upt_Suc)
  qed (auto simp: rd_def dest!: step.IH)
qed

lemma twi_wait_sent_bytes: "twi_wait_sent hw p s = Some y \<Longrightarrow> thr_bytes p (trace (snd y)) = thr_bytes p (trace s)"
proof (induction rule: twi_wait_sent.raw_induct [rotated 1, consumes 1, case_names step])
  case (step f hw p s y)
  then show ?case by (auto simp: split_def Let_def rd_def split: if_splits)
qed



end
