(* ===== verification/Usart.thy ===== *)
theory Usart
  imports Prelude
begin

text \<open>
  The USART driver, \<^verbatim>\<open>src/asf/sam/drivers/usart/usart.c\<close>, as compiled for the SAM3U (the LIN
  functions are for other parts). An option pointer that may be null is an \<open>option\<close>. The
  converters are wired to these ports in SPI mode, so \<open>usart_init_spi_master\<close> and its clock
  divider are what the firmware depends on. A baud rate of 0 divides by zero, which gives 0
  on this processor as it does here.
\<close>

abbreviation (input) US_CR :: nat where "US_CR \<equiv> 0"
abbreviation (input) US_MR :: nat where "US_MR \<equiv> 4"
abbreviation (input) US_IER :: nat where "US_IER \<equiv> 8"
abbreviation (input) US_IDR :: nat where "US_IDR \<equiv> 0xC"
abbreviation (input) US_IMR :: nat where "US_IMR \<equiv> 0x10"
abbreviation (input) US_CSR :: nat where "US_CSR \<equiv> 0x14"
abbreviation (input) US_RHR :: nat where "US_RHR \<equiv> 0x18"
abbreviation (input) US_THR :: nat where "US_THR \<equiv> 0x1C"
abbreviation (input) US_BRGR :: nat where "US_BRGR \<equiv> 0x20"
abbreviation (input) US_RTOR :: nat where "US_RTOR \<equiv> 0x24"
abbreviation (input) US_TTGR :: nat where "US_TTGR \<equiv> 0x28"
abbreviation (input) US_FIDI :: nat where "US_FIDI \<equiv> 0x40"
abbreviation (input) US_NER :: nat where "US_NER \<equiv> 0x44"
abbreviation (input) US_IF :: nat where "US_IF \<equiv> 0x4C"
abbreviation (input) US_MAN :: nat where "US_MAN \<equiv> 0x50"
abbreviation (input) US_WPMR :: nat where "US_WPMR \<equiv> 0xE4"
abbreviation (input) US_WPSR :: nat where "US_WPSR \<equiv> 0xE8"

abbreviation (input) US_CR_RSTRX :: u32 where "US_CR_RSTRX \<equiv> 4"
abbreviation (input) US_CR_RSTTX :: u32 where "US_CR_RSTTX \<equiv> 8"
abbreviation (input) US_CR_RXEN :: u32 where "US_CR_RXEN \<equiv> 0x10"
abbreviation (input) US_CR_RXDIS :: u32 where "US_CR_RXDIS \<equiv> 0x20"
abbreviation (input) US_CR_TXEN :: u32 where "US_CR_TXEN \<equiv> 0x40"
abbreviation (input) US_CR_TXDIS :: u32 where "US_CR_TXDIS \<equiv> 0x80"
abbreviation (input) US_CR_RSTSTA :: u32 where "US_CR_RSTSTA \<equiv> 0x100"
abbreviation (input) US_CR_STTBRK :: u32 where "US_CR_STTBRK \<equiv> 0x200"
abbreviation (input) US_CR_STPBRK :: u32 where "US_CR_STPBRK \<equiv> 0x400"
abbreviation (input) US_CR_STTTO :: u32 where "US_CR_STTTO \<equiv> 0x800"
abbreviation (input) US_CR_SENDA :: u32 where "US_CR_SENDA \<equiv> 0x1000"
abbreviation (input) US_CR_RSTIT :: u32 where "US_CR_RSTIT \<equiv> 0x2000"
abbreviation (input) US_CR_RSTNACK :: u32 where "US_CR_RSTNACK \<equiv> 0x4000"
abbreviation (input) US_CR_RETTO :: u32 where "US_CR_RETTO \<equiv> 0x8000"
abbreviation (input) US_CR_DTREN :: u32 where "US_CR_DTREN \<equiv> 0x10000"
abbreviation (input) US_CR_DTRDIS :: u32 where "US_CR_DTRDIS \<equiv> 0x20000"
abbreviation (input) US_CR_RTSEN :: u32 where "US_CR_RTSEN \<equiv> 0x40000"
abbreviation (input) US_CR_FCS :: u32 where "US_CR_FCS \<equiv> 0x40000"
abbreviation (input) US_CR_RTSDIS :: u32 where "US_CR_RTSDIS \<equiv> 0x80000"
abbreviation (input) US_CR_RCS :: u32 where "US_CR_RCS \<equiv> 0x80000"
abbreviation (input) US_MR_USART_MODE_Msk :: u32 where "US_MR_USART_MODE_Msk \<equiv> 0xF"
abbreviation (input) US_MR_USART_MODE_NORMAL :: u32 where "US_MR_USART_MODE_NORMAL \<equiv> 0"
abbreviation (input) US_MR_USART_MODE_RS485 :: u32 where "US_MR_USART_MODE_RS485 \<equiv> 1"
abbreviation (input) US_MR_USART_MODE_HW_HANDSHAKING :: u32 where "US_MR_USART_MODE_HW_HANDSHAKING \<equiv> 2"
abbreviation (input) US_MR_USART_MODE_MODEM :: u32 where "US_MR_USART_MODE_MODEM \<equiv> 3"
abbreviation (input) US_MR_USART_MODE_IS07816_T_0 :: u32 where "US_MR_USART_MODE_IS07816_T_0 \<equiv> 4"
abbreviation (input) US_MR_USART_MODE_IS07816_T_1 :: u32 where "US_MR_USART_MODE_IS07816_T_1 \<equiv> 6"
abbreviation (input) US_MR_USART_MODE_IRDA :: u32 where "US_MR_USART_MODE_IRDA \<equiv> 8"
abbreviation (input) US_MR_USART_MODE_SPI_MASTER :: u32 where "US_MR_USART_MODE_SPI_MASTER \<equiv> 0xE"
abbreviation (input) US_MR_USART_MODE_SPI_SLAVE :: u32 where "US_MR_USART_MODE_SPI_SLAVE \<equiv> 0xF"
abbreviation (input) US_MR_USCLKS_Msk :: u32 where "US_MR_USCLKS_Msk \<equiv> 0x30"
abbreviation (input) US_MR_USCLKS_MCK :: u32 where "US_MR_USCLKS_MCK \<equiv> 0"
abbreviation (input) US_MR_USCLKS_SCK :: u32 where "US_MR_USCLKS_SCK \<equiv> 0x30"
abbreviation (input) US_MR_CHRL_8_BIT :: u32 where "US_MR_CHRL_8_BIT \<equiv> 0xC0"
abbreviation (input) US_MR_SYNC :: u32 where "US_MR_SYNC \<equiv> 0x100"
abbreviation (input) US_MR_CPHA :: u32 where "US_MR_CPHA \<equiv> 0x100"
abbreviation (input) US_MR_PAR_EVEN :: u32 where "US_MR_PAR_EVEN \<equiv> 0"
abbreviation (input) US_MR_PAR_ODD :: u32 where "US_MR_PAR_ODD \<equiv> 0x200"
abbreviation (input) US_MR_PAR_MULTIDROP :: u32 where "US_MR_PAR_MULTIDROP \<equiv> 0xC00"
abbreviation (input) US_MR_NBSTOP_1_BIT :: u32 where "US_MR_NBSTOP_1_BIT \<equiv> 0"
abbreviation (input) US_MR_NBSTOP_2_BIT :: u32 where "US_MR_NBSTOP_2_BIT \<equiv> 0x2000"
abbreviation (input) US_MR_CHMODE_NORMAL :: u32 where "US_MR_CHMODE_NORMAL \<equiv> 0"
abbreviation (input) US_MR_MSBF :: u32 where "US_MR_MSBF \<equiv> 0x10000"
abbreviation (input) US_MR_CPOL :: u32 where "US_MR_CPOL \<equiv> 0x10000"
abbreviation (input) US_MR_CLKO :: u32 where "US_MR_CLKO \<equiv> 0x40000"
abbreviation (input) US_MR_OVER :: u32 where "US_MR_OVER \<equiv> 0x80000"
abbreviation (input) US_MR_INACK :: u32 where "US_MR_INACK \<equiv> 0x100000"
abbreviation (input) US_MR_DSNACK :: u32 where "US_MR_DSNACK \<equiv> 0x200000"
abbreviation (input) US_CSR_RXRDY :: u32 where "US_CSR_RXRDY \<equiv> 1"
abbreviation (input) US_CSR_TXRDY :: u32 where "US_CSR_TXRDY \<equiv> 2"
abbreviation (input) US_CSR_ENDRX :: u32 where "US_CSR_ENDRX \<equiv> 8"
abbreviation (input) US_CSR_ENDTX :: u32 where "US_CSR_ENDTX \<equiv> 0x10"
abbreviation (input) US_CSR_TXEMPTY :: u32 where "US_CSR_TXEMPTY \<equiv> 0x200"
abbreviation (input) US_CSR_TXBUFE :: u32 where "US_CSR_TXBUFE \<equiv> 0x800"
abbreviation (input) US_CSR_RXBUFF :: u32 where "US_CSR_RXBUFF \<equiv> 0x1000"
abbreviation (input) US_MAN_DRIFT :: u32 where "US_MAN_DRIFT \<equiv> 0x40000000"
abbreviation (input) US_MAN_TX_MPOL :: u32 where "US_MAN_TX_MPOL \<equiv> 0x1000"
abbreviation (input) US_MAN_RX_MPOL :: u32 where "US_MAN_RX_MPOL \<equiv> 0x10000000"
abbreviation (input) SPI_MODE_0 :: u32 where "SPI_MODE_0 \<equiv> 0"
abbreviation (input) SPI_MODE_1 :: u32 where "SPI_MODE_1 \<equiv> 1"
abbreviation (input) SPI_MODE_2 :: u32 where "SPI_MODE_2 \<equiv> 2"
abbreviation (input) SPI_MODE_3 :: u32 where "SPI_MODE_3 \<equiv> 3"
abbreviation (input) MIN_CD_VALUE :: u32 where "MIN_CD_VALUE \<equiv> 1"
abbreviation (input) MIN_CD_VALUE_SPI :: u32 where "MIN_CD_VALUE_SPI \<equiv> 4"
abbreviation (input) MAX_CD_VALUE :: u32 where "MAX_CD_VALUE \<equiv> 0xFFFF"
abbreviation (input) US_WPMR_WPKEY_PASSWD :: u32 where "US_WPMR_WPKEY_PASSWD \<equiv> 0x55534100"

record sam_usart_opt_t =
  baudrate :: u32
  char_length :: u32
  parity_type :: u32
  stop_bits :: u32
  channel_mode :: u32
  irda_filter :: u32

record usart_iso7816_opt_t =
  iso7816_hz :: u32
  fidi_ratio :: u32
  iso_parity_type :: u32
  inhibit_nack :: u32
  dis_suc_nack :: u32
  max_iterations :: u32
  bit_order :: u32
  protocol_type :: u32

record usart_spi_opt_t =
  spi_baudrate :: u32
  spi_char_length :: u32
  spi_mode :: u32
  spi_channel_mode :: u32

section \<open>Control register, interrupts and status\<close>

definition usart_enable_writeprotect :: "periph \<Rightarrow> 'z mach_scheme \<Rightarrow> 'z mach_scheme" where
  "usart_enable_writeprotect p s = wr p US_WPMR (1 OR US_WPMR_WPKEY_PASSWD) s"

definition usart_disable_writeprotect :: "periph \<Rightarrow> 'z mach_scheme \<Rightarrow> 'z mach_scheme" where
  "usart_disable_writeprotect p s = wr p US_WPMR US_WPMR_WPKEY_PASSWD s"

definition usart_enable_tx :: "periph \<Rightarrow> 'z mach_scheme \<Rightarrow> 'z mach_scheme" where
  "usart_enable_tx p s = wr p US_CR US_CR_TXEN s"

definition usart_disable_tx :: "periph \<Rightarrow> 'z mach_scheme \<Rightarrow> 'z mach_scheme" where
  "usart_disable_tx p s = wr p US_CR US_CR_TXDIS s"

definition usart_reset_tx :: "periph \<Rightarrow> 'z mach_scheme \<Rightarrow> 'z mach_scheme" where
  "usart_reset_tx p s = wr p US_CR (US_CR_RSTTX OR US_CR_TXDIS) s"

definition usart_set_tx_timeguard :: "periph \<Rightarrow> u32 \<Rightarrow> 'z mach_scheme \<Rightarrow> 'z mach_scheme" where
  "usart_set_tx_timeguard p timeguard s = wr p US_TTGR timeguard s"

definition usart_enable_rx :: "periph \<Rightarrow> 'z mach_scheme \<Rightarrow> 'z mach_scheme" where
  "usart_enable_rx p s = wr p US_CR US_CR_RXEN s"

definition usart_disable_rx :: "periph \<Rightarrow> 'z mach_scheme \<Rightarrow> 'z mach_scheme" where
  "usart_disable_rx p s = wr p US_CR US_CR_RXDIS s"

definition usart_reset_rx :: "periph \<Rightarrow> 'z mach_scheme \<Rightarrow> 'z mach_scheme" where
  "usart_reset_rx p s = wr p US_CR (US_CR_RSTRX OR US_CR_RXDIS) s"

definition usart_set_rx_timeout :: "periph \<Rightarrow> u32 \<Rightarrow> 'z mach_scheme \<Rightarrow> 'z mach_scheme" where
  "usart_set_rx_timeout p timeout s = wr p US_RTOR timeout s"

definition usart_enable_interrupt :: "periph \<Rightarrow> u32 \<Rightarrow> 'z mach_scheme \<Rightarrow> 'z mach_scheme" where
  "usart_enable_interrupt p ul_sources s = wr p US_IER ul_sources s"

definition usart_disable_interrupt :: "periph \<Rightarrow> u32 \<Rightarrow> 'z mach_scheme \<Rightarrow> 'z mach_scheme" where
  "usart_disable_interrupt p ul_sources s = wr p US_IDR ul_sources s"

definition usart_get_interrupt_mask :: "hw \<Rightarrow> periph \<Rightarrow> 'z mach_scheme \<Rightarrow> u32 \<times> 'z mach_scheme" where
  "usart_get_interrupt_mask hw p s = rd hw p US_IMR s"

definition usart_get_status :: "hw \<Rightarrow> periph \<Rightarrow> 'z mach_scheme \<Rightarrow> u32 \<times> 'z mach_scheme" where
  "usart_get_status hw p s = rd hw p US_CSR s"

definition usart_reset_status :: "periph \<Rightarrow> 'z mach_scheme \<Rightarrow> 'z mach_scheme" where
  "usart_reset_status p s = wr p US_CR US_CR_RSTSTA s"

definition usart_start_tx_break :: "periph \<Rightarrow> 'z mach_scheme \<Rightarrow> 'z mach_scheme" where
  "usart_start_tx_break p s = wr p US_CR US_CR_STTBRK s"

definition usart_stop_tx_break :: "periph \<Rightarrow> 'z mach_scheme \<Rightarrow> 'z mach_scheme" where
  "usart_stop_tx_break p s = wr p US_CR US_CR_STPBRK s"

definition usart_start_rx_timeout :: "periph \<Rightarrow> 'z mach_scheme \<Rightarrow> 'z mach_scheme" where
  "usart_start_rx_timeout p s = wr p US_CR US_CR_STTTO s"

definition usart_reset_iterations :: "periph \<Rightarrow> 'z mach_scheme \<Rightarrow> 'z mach_scheme" where
  "usart_reset_iterations p s = wr p US_CR US_CR_RSTIT s"

definition usart_reset_nack :: "periph \<Rightarrow> 'z mach_scheme \<Rightarrow> 'z mach_scheme" where
  "usart_reset_nack p s = wr p US_CR US_CR_RSTNACK s"

definition usart_restart_rx_timeout :: "periph \<Rightarrow> 'z mach_scheme \<Rightarrow> 'z mach_scheme" where
  "usart_restart_rx_timeout p s = wr p US_CR US_CR_RETTO s"

definition usart_drive_DTR_pin_low :: "periph \<Rightarrow> 'z mach_scheme \<Rightarrow> 'z mach_scheme" where
  "usart_drive_DTR_pin_low p s = wr p US_CR US_CR_DTREN s"

definition usart_drive_DTR_pin_high :: "periph \<Rightarrow> 'z mach_scheme \<Rightarrow> 'z mach_scheme" where
  "usart_drive_DTR_pin_high p s = wr p US_CR US_CR_DTRDIS s"

definition usart_drive_RTS_pin_low :: "periph \<Rightarrow> 'z mach_scheme \<Rightarrow> 'z mach_scheme" where
  "usart_drive_RTS_pin_low p s = wr p US_CR US_CR_RTSEN s"

definition usart_drive_RTS_pin_high :: "periph \<Rightarrow> 'z mach_scheme \<Rightarrow> 'z mach_scheme" where
  "usart_drive_RTS_pin_high p s = wr p US_CR US_CR_RTSDIS s"

definition usart_spi_force_chip_select :: "periph \<Rightarrow> 'z mach_scheme \<Rightarrow> 'z mach_scheme" where
  "usart_spi_force_chip_select p s = wr p US_CR US_CR_FCS s"

definition usart_spi_release_chip_select :: "periph \<Rightarrow> 'z mach_scheme \<Rightarrow> 'z mach_scheme" where
  "usart_spi_release_chip_select p s = wr p US_CR US_CR_RCS s"

definition usart_is_tx_ready :: "hw \<Rightarrow> periph \<Rightarrow> 'z mach_scheme \<Rightarrow> u32 \<times> 'z mach_scheme" where
  "usart_is_tx_ready hw p s =
     (let (v, s) = rd hw p US_CSR s in (if v AND US_CSR_TXRDY > 0 then 1 else 0, s))"

definition usart_is_tx_empty :: "hw \<Rightarrow> periph \<Rightarrow> 'z mach_scheme \<Rightarrow> u32 \<times> 'z mach_scheme" where
  "usart_is_tx_empty hw p s =
     (let (v, s) = rd hw p US_CSR s in (if v AND US_CSR_TXEMPTY > 0 then 1 else 0, s))"

definition usart_is_rx_ready :: "hw \<Rightarrow> periph \<Rightarrow> 'z mach_scheme \<Rightarrow> u32 \<times> 'z mach_scheme" where
  "usart_is_rx_ready hw p s =
     (let (v, s) = rd hw p US_CSR s in (if v AND US_CSR_RXRDY > 0 then 1 else 0, s))"

definition usart_is_rx_buf_end :: "hw \<Rightarrow> periph \<Rightarrow> 'z mach_scheme \<Rightarrow> u32 \<times> 'z mach_scheme" where
  "usart_is_rx_buf_end hw p s =
     (let (v, s) = rd hw p US_CSR s in (if v AND US_CSR_ENDRX > 0 then 1 else 0, s))"

definition usart_is_tx_buf_end :: "hw \<Rightarrow> periph \<Rightarrow> 'z mach_scheme \<Rightarrow> u32 \<times> 'z mach_scheme" where
  "usart_is_tx_buf_end hw p s =
     (let (v, s) = rd hw p US_CSR s in (if v AND US_CSR_ENDTX > 0 then 1 else 0, s))"

definition usart_is_rx_buf_full :: "hw \<Rightarrow> periph \<Rightarrow> 'z mach_scheme \<Rightarrow> u32 \<times> 'z mach_scheme" where
  "usart_is_rx_buf_full hw p s =
     (let (v, s) = rd hw p US_CSR s in (if v AND US_CSR_RXBUFF > 0 then 1 else 0, s))"

definition usart_is_tx_buf_empty :: "hw \<Rightarrow> periph \<Rightarrow> 'z mach_scheme \<Rightarrow> u32 \<times> 'z mach_scheme" where
  "usart_is_tx_buf_empty hw p s =
     (let (v, s) = rd hw p US_CSR s in (if v AND US_CSR_TXBUFE > 0 then 1 else 0, s))"

definition usart_get_writeprotect_status :: "hw \<Rightarrow> periph \<Rightarrow> 'z mach_scheme \<Rightarrow> u32 \<times> 'z mach_scheme" where
  "usart_get_writeprotect_status hw p s =
     (let (reg_value, s) = rd hw p US_WPSR s
      in (if reg_value AND 1 \<noteq> 0 then drop_bit 8 (reg_value AND push_bit 8 0xFFFF) else 0, s))"

definition usart_get_error_number :: "hw \<Rightarrow> periph \<Rightarrow> 'z mach_scheme \<Rightarrow> u8 \<times> 'z mach_scheme" where
  "usart_get_error_number hw p s = (let (v, s) = rd hw p US_NER s in (ucast (v AND 0xFF), s))"

definition usart_reset :: "periph \<Rightarrow> 'z mach_scheme \<Rightarrow> 'z mach_scheme" where
  "usart_reset p s =
     (let s = usart_disable_writeprotect p s;
          s = wr p US_MR 0 s;
          s = wr p US_RTOR 0 s;
          s = wr p US_TTGR 0 s;
          s = usart_reset_tx p s;
          s = usart_reset_rx p s;
          s = usart_reset_status p s;
          s = usart_drive_RTS_pin_high p s
      in usart_drive_DTR_pin_high p s)"

section \<open>Baud rates\<close>

text \<open>The result is 0 for success and 1 for a set point out of range.\<close>

definition usart_set_async_baudrate ::
  "hw \<Rightarrow> periph \<Rightarrow> u32 \<Rightarrow> u32 \<Rightarrow> 'z mach_scheme \<Rightarrow> u32 \<times> 'z mach_scheme" where
  "usart_set_async_baudrate hw p baud ul_mck s =
     (let over = (if ul_mck \<ge> 16 * baud then 16 else 8);
          cd_fp = (8 * ul_mck + (over * baud) div 2) div (over * baud);
          cd = drop_bit 3 cd_fp;
          fp = cd_fp AND 7
      in if cd < MIN_CD_VALUE \<or> cd > MAX_CD_VALUE then (1, s)
         else
           let s = (if over = 8 then rmw hw p US_MR (\<lambda>v. v OR US_MR_OVER) s else s)
           in (0, wr p US_BRGR (cd OR push_bit 16 fp) s))"

definition usart_set_sync_master_baudrate ::
  "hw \<Rightarrow> periph \<Rightarrow> u32 \<Rightarrow> u32 \<Rightarrow> 'z mach_scheme \<Rightarrow> u32 \<times> 'z mach_scheme" where
  "usart_set_sync_master_baudrate hw p baud ul_mck s =
     (let cd = (ul_mck + baud div 2) div baud
      in if cd < MIN_CD_VALUE \<or> cd > MAX_CD_VALUE then (1, s)
         else
           let s = wr p US_BRGR cd s
           in (0, rmw hw p US_MR
                    (\<lambda>v. v AND NOT US_MR_USCLKS_Msk OR US_MR_USCLKS_MCK OR US_MR_SYNC) s))"

definition usart_set_sync_slave_baudrate :: "hw \<Rightarrow> periph \<Rightarrow> 'z mach_scheme \<Rightarrow> 'z mach_scheme" where
  "usart_set_sync_slave_baudrate hw p s =
     rmw hw p US_MR (\<lambda>v. v AND NOT US_MR_USCLKS_Msk OR US_MR_USCLKS_SCK OR US_MR_SYNC) s"

definition usart_set_iso7816_clock ::
  "hw \<Rightarrow> periph \<Rightarrow> u32 \<Rightarrow> u32 \<Rightarrow> 'z mach_scheme \<Rightarrow> u32 \<times> 'z mach_scheme" where
  "usart_set_iso7816_clock hw p clock ul_mck s =
     (let cd = (ul_mck + clock div 2) div clock
      in if cd < MIN_CD_VALUE \<or> cd > MAX_CD_VALUE then (1, s)
         else
           let s = rmw hw p US_MR
                     (\<lambda>v. v AND NOT (US_MR_USCLKS_Msk OR US_MR_SYNC OR US_MR_OVER)
                        OR US_MR_USCLKS_MCK OR US_MR_CLKO) s
           in (0, wr p US_BRGR cd s))"

definition usart_set_spi_master_baudrate ::
  "periph \<Rightarrow> u32 \<Rightarrow> u32 \<Rightarrow> 'z mach_scheme \<Rightarrow> u32 \<times> 'z mach_scheme" where
  "usart_set_spi_master_baudrate p baud ul_mck s =
     (let cd = (ul_mck + baud div 2) div baud
      in if cd < MIN_CD_VALUE_SPI \<or> cd > MAX_CD_VALUE then (1, s)
         else (0, wr p US_BRGR cd s))"

definition usart_set_spi_slave_baudrate :: "hw \<Rightarrow> periph \<Rightarrow> 'z mach_scheme \<Rightarrow> 'z mach_scheme" where
  "usart_set_spi_slave_baudrate hw p s =
     (let s = rmw hw p US_MR (\<lambda>v. v AND NOT US_MR_USCLKS_Msk) s
      in rmw hw p US_MR (\<lambda>v. v OR US_MR_USCLKS_SCK) s)"

section \<open>Modes\<close>

definition usart_opt_bits :: "sam_usart_opt_t \<Rightarrow> u32" where
  "usart_opt_bits opt = char_length opt OR parity_type opt OR channel_mode opt OR stop_bits opt"

definition usart_init_rs232 ::
  "hw \<Rightarrow> periph \<Rightarrow> sam_usart_opt_t option \<Rightarrow> u32 \<Rightarrow> 'z mach_scheme \<Rightarrow> u32 \<times> 'z mach_scheme" where
  "usart_init_rs232 hw p p_usart_opt ul_mck s =
     (let s = usart_reset p s
      in case p_usart_opt of
           None \<Rightarrow> (1, s)
         | Some opt \<Rightarrow>
             let (r, s) = usart_set_async_baudrate hw p (baudrate opt) ul_mck s
             in if r \<noteq> 0 then (1, s)
                else (0, rmw hw p US_MR
                          (\<lambda>v. v OR (usart_opt_bits opt OR US_MR_USART_MODE_NORMAL)) s))"

definition usart_set_mode :: "hw \<Rightarrow> periph \<Rightarrow> u32 \<Rightarrow> 'z mach_scheme \<Rightarrow> 'z mach_scheme" where
  "usart_set_mode hw p mode s = rmw hw p US_MR (\<lambda>v. v AND NOT US_MR_USART_MODE_Msk OR mode) s"

definition usart_init_hw_handshaking ::
  "hw \<Rightarrow> periph \<Rightarrow> sam_usart_opt_t option \<Rightarrow> u32 \<Rightarrow> 'z mach_scheme \<Rightarrow> u32 \<times> 'z mach_scheme" where
  "usart_init_hw_handshaking hw p p_usart_opt ul_mck s =
     (let (r, s) = usart_init_rs232 hw p p_usart_opt ul_mck s
      in if r \<noteq> 0 then (1, s) else (0, usart_set_mode hw p US_MR_USART_MODE_HW_HANDSHAKING s))"

definition usart_init_modem ::
  "hw \<Rightarrow> periph \<Rightarrow> sam_usart_opt_t option \<Rightarrow> u32 \<Rightarrow> 'z mach_scheme \<Rightarrow> u32 \<times> 'z mach_scheme" where
  "usart_init_modem hw p p_usart_opt ul_mck s =
     (if p \<noteq> USART0 then (1, s)
      else
        let (r, s) = usart_init_rs232 hw p p_usart_opt ul_mck s
        in if r \<noteq> 0 then (1, s) else (0, usart_set_mode hw p US_MR_USART_MODE_MODEM s))"

definition usart_init_sync_master ::
  "hw \<Rightarrow> periph \<Rightarrow> sam_usart_opt_t option \<Rightarrow> u32 \<Rightarrow> 'z mach_scheme \<Rightarrow> u32 \<times> 'z mach_scheme" where
  "usart_init_sync_master hw p p_usart_opt ul_mck s =
     (let s = usart_reset p s
      in case p_usart_opt of
           None \<Rightarrow> (1, s)
         | Some opt \<Rightarrow>
             let (r, s) = usart_set_sync_master_baudrate hw p (baudrate opt) ul_mck s
             in if r \<noteq> 0 then (1, s)
                else (0, rmw hw p US_MR
                  (\<lambda>v. v OR (usart_opt_bits opt OR US_MR_USART_MODE_NORMAL OR US_MR_CLKO)) s))"

definition usart_init_sync_slave ::
  "hw \<Rightarrow> periph \<Rightarrow> sam_usart_opt_t option \<Rightarrow> 'z mach_scheme \<Rightarrow> u32 \<times> 'z mach_scheme" where
  "usart_init_sync_slave hw p p_usart_opt s =
     (let s = usart_reset p s;
          s = usart_set_sync_slave_baudrate hw p s
      in case p_usart_opt of
           None \<Rightarrow> (1, s)
         | Some opt \<Rightarrow>
             (0, rmw hw p US_MR (\<lambda>v. v OR (usart_opt_bits opt OR US_MR_USART_MODE_NORMAL)) s))"

definition usart_init_rs485 ::
  "hw \<Rightarrow> periph \<Rightarrow> sam_usart_opt_t option \<Rightarrow> u32 \<Rightarrow> 'z mach_scheme \<Rightarrow> u32 \<times> 'z mach_scheme" where
  "usart_init_rs485 hw p p_usart_opt ul_mck s =
     (let (r, s) = usart_init_rs232 hw p p_usart_opt ul_mck s
      in if r \<noteq> 0 then (1, s) else (0, usart_set_mode hw p US_MR_USART_MODE_RS485 s))"

text \<open>\<open>usart_init_rs232\<close> fails on a null pointer, so the options are there when the filter is read.\<close>

definition usart_init_irda ::
  "hw \<Rightarrow> periph \<Rightarrow> sam_usart_opt_t option \<Rightarrow> u32 \<Rightarrow> 'z mach_scheme \<Rightarrow> u32 \<times> 'z mach_scheme" where
  "usart_init_irda hw p p_usart_opt ul_mck s =
     (let (r, s) = usart_init_rs232 hw p p_usart_opt ul_mck s
      in case p_usart_opt of
           None \<Rightarrow> (1, s)
         | Some opt \<Rightarrow>
             if r \<noteq> 0 then (1, s)
             else (0, usart_set_mode hw p US_MR_USART_MODE_IRDA (wr p US_IF (irda_filter opt) s)))"

text \<open>The mode bits that depend on the protocol; \<open>None\<close> is a combination that is refused.\<close>

definition iso7816_protocol_bits :: "usart_iso7816_opt_t \<Rightarrow> u32 option" where
  "iso7816_protocol_bits opt =
     (if protocol_type opt = 0 then
        Some (US_MR_USART_MODE_IS07816_T_0 OR US_MR_NBSTOP_2_BIT
              OR push_bit 24 (max_iterations opt)
              OR (if bit_order opt \<noteq> 0 then US_MR_MSBF else 0))
      else if protocol_type opt = 1 then
        if bit_order opt \<noteq> 0 \<or> max_iterations opt \<noteq> 0 then None
        else Some (US_MR_USART_MODE_IS07816_T_1 OR US_MR_NBSTOP_1_BIT)
      else None)"

definition usart_init_iso7816 ::
  "hw \<Rightarrow> periph \<Rightarrow> usart_iso7816_opt_t option \<Rightarrow> u32 \<Rightarrow> 'z mach_scheme \<Rightarrow> u32 \<times> 'z mach_scheme" where
  "usart_init_iso7816 hw p p_usart_opt ul_mck s =
     (let s = usart_reset p s
      in case p_usart_opt of
           None \<Rightarrow> (1, s)
         | Some opt \<Rightarrow>
             if iso_parity_type opt \<noteq> US_MR_PAR_EVEN \<and> iso_parity_type opt \<noteq> US_MR_PAR_ODD then (1, s)
             else case iso7816_protocol_bits opt of
                    None \<Rightarrow> (1, s)
                  | Some ul_reg_val \<Rightarrow>
                      let (r, s) = usart_set_iso7816_clock hw p (iso7816_hz opt) ul_mck s
                      in if r \<noteq> 0 then (1, s)
                         else
                           let s = wr p US_FIDI (fidi_ratio opt) s;
                               ul_reg_val = ul_reg_val OR iso_parity_type opt
                                 OR (if inhibit_nack opt \<noteq> 0 then US_MR_INACK else 0)
                                 OR (if dis_suc_nack opt \<noteq> 0 then US_MR_DSNACK else 0)
                           in (0, rmw hw p US_MR (\<lambda>v. v OR ul_reg_val) s))"

text \<open>The switch on the SPI mode, the same in the master and in the slave function.\<close>

definition spi_mode_bits :: "u32 \<Rightarrow> u32 \<Rightarrow> u32" where
  "spi_mode_bits mode v =
     (if mode = SPI_MODE_0 then (v OR US_MR_CPHA) AND NOT US_MR_CPOL
      else if mode = SPI_MODE_1 then v AND NOT US_MR_CPHA AND NOT US_MR_CPOL
      else if mode = SPI_MODE_2 then v OR US_MR_CPHA OR US_MR_CPOL
      else if mode = SPI_MODE_3 then v AND NOT US_MR_CPHA OR US_MR_CPOL
      else v)"

definition usart_init_spi_master ::
  "hw \<Rightarrow> periph \<Rightarrow> usart_spi_opt_t option \<Rightarrow> u32 \<Rightarrow> 'z mach_scheme \<Rightarrow> u32 \<times> 'z mach_scheme" where
  "usart_init_spi_master hw p p_usart_opt ul_mck s =
     (let s = usart_reset p s
      in case p_usart_opt of
           None \<Rightarrow> (1, s)
         | Some opt \<Rightarrow>
             if spi_mode opt > SPI_MODE_3 then (1, s)
             else
               let (r, s) = usart_set_spi_master_baudrate p (spi_baudrate opt) ul_mck s
               in if r \<noteq> 0 then (1, s)
                  else
                    let ul_reg_val = spi_char_length opt OR US_MR_USART_MODE_SPI_MASTER
                          OR US_MR_CLKO OR spi_channel_mode opt;
                        ul_reg_val = spi_mode_bits (spi_mode opt) ul_reg_val
                    in (0, rmw hw p US_MR (\<lambda>v. v OR ul_reg_val) s))"

definition usart_init_spi_slave ::
  "hw \<Rightarrow> periph \<Rightarrow> usart_spi_opt_t option \<Rightarrow> 'z mach_scheme \<Rightarrow> u32 \<times> 'z mach_scheme" where
  "usart_init_spi_slave hw p p_usart_opt s =
     (let s = usart_reset p s;
          s = usart_set_spi_slave_baudrate hw p s
      in case p_usart_opt of
           None \<Rightarrow> (1, s)
         | Some opt \<Rightarrow>
             if spi_mode opt > SPI_MODE_3 then (1, s)
             else
               let ul_reg_val = spi_char_length opt OR US_MR_USART_MODE_SPI_SLAVE
                     OR spi_channel_mode opt;
                   ul_reg_val = spi_mode_bits (spi_mode opt) ul_reg_val
               in (0, rmw hw p US_MR (\<lambda>v. v OR ul_reg_val) s))"

section \<open>Characters\<close>

definition usart_write :: "hw \<Rightarrow> periph \<Rightarrow> u32 \<Rightarrow> 'z mach_scheme \<Rightarrow> u32 \<times> 'z mach_scheme" where
  "usart_write hw p c s =
     (let (v, s) = rd hw p US_CSR s
      in if v AND US_CSR_TXRDY = 0 then (1, s) else (0, wr p US_THR (0x1FF AND c) s))"

definition usart_send_address :: "hw \<Rightarrow> periph \<Rightarrow> u32 \<Rightarrow> 'z mach_scheme \<Rightarrow> u32 \<times> 'z mach_scheme" where
  "usart_send_address hw p ul_addr s =
     (let (v, s) = rd hw p US_MR s
      in if v AND US_MR_PAR_MULTIDROP \<noteq> US_MR_PAR_MULTIDROP then (1, s)
         else
           let s = wr p US_CR US_CR_SENDA s;
               (r, s) = usart_write hw p ul_addr s
           in (if r \<noteq> 0 then 1 else 0, s))"

definition usart_putchar :: "hw \<Rightarrow> periph \<Rightarrow> u32 \<Rightarrow> 'z mach_scheme \<Rightarrow> (u32 \<times> 'z mach_scheme) option" where
  "usart_putchar hw p c s =
     do {
       (_, s) \<leftarrow> poll hw p US_CSR US_CSR_TXRDY US_CSR_TXRDY s;
       Some (0, wr p US_THR (0x1FF AND c) s)
     }"

text \<open>The string is the list of its bytes; the loop stops at the first zero byte.\<close>

fun usart_write_line :: "hw \<Rightarrow> periph \<Rightarrow> u8 list \<Rightarrow> 'z mach_scheme \<Rightarrow> 'z mach_scheme option" where
  "usart_write_line hw p [] s = Some s"
| "usart_write_line hw p (c # string) s =
     (if c = 0 then Some s
      else do {
        (_, s) \<leftarrow> usart_putchar hw p (ucast c) s;
        usart_write_line hw p string s
      })"

text \<open>\<open>None\<close> in the second component is a caller's variable that is left as it was.\<close>

definition usart_read :: "hw \<Rightarrow> periph \<Rightarrow> 'z mach_scheme \<Rightarrow> u32 \<times> u32 option \<times> 'z mach_scheme" where
  "usart_read hw p s =
     (let (v, s) = rd hw p US_CSR s
      in if v AND US_CSR_RXRDY = 0 then (1, None, s)
         else let (c, s) = rd hw p US_RHR s in (0, Some (c AND 0x1FF), s))"

definition usart_getchar :: "hw \<Rightarrow> periph \<Rightarrow> 'z mach_scheme \<Rightarrow> (u32 \<times> u32 \<times> 'z mach_scheme) option" where
  "usart_getchar hw p s =
     do {
       (_, s) \<leftarrow> poll hw p US_CSR US_CSR_RXRDY US_CSR_RXRDY s;
       let (c, s) = rd hw p US_RHR s;
       Some (0, c AND 0x1FF, s)
     }"

section \<open>Addresses\<close>

definition usart_base :: "periph \<Rightarrow> u32" where
  "usart_base p =
     (case p of USART0 \<Rightarrow> 0x40090000 | USART1 \<Rightarrow> 0x40094000 | USART2 \<Rightarrow> 0x40098000 | _ \<Rightarrow> 0)"

definition usart_get_tx_access :: "periph \<Rightarrow> u32" where
  "usart_get_tx_access p = usart_base p + 0x1C"

definition usart_get_rx_access :: "periph \<Rightarrow> u32" where
  "usart_get_rx_access p = usart_base p + 0x18"

definition usart_get_pdc_base :: "periph \<Rightarrow> u32" where
  "usart_get_pdc_base p =
     (if p = USART0 then 0x40090100
      else if p = USART1 then 0x40094100
      else if p = USART2 then 0x40098100
      else 0)"

section \<open>Manchester coding\<close>

definition usart_man_set_tx_pre_len :: "hw \<Rightarrow> periph \<Rightarrow> u8 \<Rightarrow> 'z mach_scheme \<Rightarrow> 'z mach_scheme" where
  "usart_man_set_tx_pre_len hw p uc_len s =
     rmw hw p US_MAN (\<lambda>v. v AND NOT 0xF OR (0xF AND ucast uc_len)) s"

definition usart_man_set_tx_pre_pattern :: "hw \<Rightarrow> periph \<Rightarrow> u8 \<Rightarrow> 'z mach_scheme \<Rightarrow> 'z mach_scheme" where
  "usart_man_set_tx_pre_pattern hw p uc_pattern s =
     rmw hw p US_MAN (\<lambda>v. v AND NOT (push_bit 8 3) OR push_bit 8 (ucast uc_pattern)) s"

definition usart_man_set_tx_polarity :: "hw \<Rightarrow> periph \<Rightarrow> u8 \<Rightarrow> 'z mach_scheme \<Rightarrow> 'z mach_scheme" where
  "usart_man_set_tx_polarity hw p uc_polarity s =
     rmw hw p US_MAN (\<lambda>v. v AND NOT US_MAN_TX_MPOL OR push_bit 12 (ucast uc_polarity)) s"

definition usart_man_set_rx_pre_len :: "hw \<Rightarrow> periph \<Rightarrow> u8 \<Rightarrow> 'z mach_scheme \<Rightarrow> 'z mach_scheme" where
  "usart_man_set_rx_pre_len hw p uc_len s =
     rmw hw p US_MAN (\<lambda>v. v AND NOT (push_bit 16 0xF) OR (push_bit 16 0xF AND push_bit 16 (ucast uc_len))) s"

definition usart_man_set_rx_pre_pattern :: "hw \<Rightarrow> periph \<Rightarrow> u8 \<Rightarrow> 'z mach_scheme \<Rightarrow> 'z mach_scheme" where
  "usart_man_set_rx_pre_pattern hw p uc_pattern s =
     rmw hw p US_MAN (\<lambda>v. v AND NOT (push_bit 24 3) OR push_bit 24 (ucast uc_pattern)) s"

definition usart_man_set_rx_polarity :: "hw \<Rightarrow> periph \<Rightarrow> u8 \<Rightarrow> 'z mach_scheme \<Rightarrow> 'z mach_scheme" where
  "usart_man_set_rx_polarity hw p uc_polarity s =
     rmw hw p US_MAN (\<lambda>v. v AND NOT US_MAN_RX_MPOL OR push_bit 28 (ucast uc_polarity)) s"

definition usart_man_enable_drift_compensation :: "hw \<Rightarrow> periph \<Rightarrow> 'z mach_scheme \<Rightarrow> 'z mach_scheme" where
  "usart_man_enable_drift_compensation hw p s = rmw hw p US_MAN (\<lambda>v. v OR US_MAN_DRIFT) s"

definition usart_man_disable_drift_compensation :: "hw \<Rightarrow> periph \<Rightarrow> 'z mach_scheme \<Rightarrow> 'z mach_scheme" where
  "usart_man_disable_drift_compensation hw p s = rmw hw p US_MAN (\<lambda>v. v AND NOT US_MAN_DRIFT) s"

section \<open>Correctness of the SPI set-up\<close>

lemma nearest_divisor:
  fixes m b :: nat
  assumes "0 < b"
  shows "2 * m \<le> (2 * ((m + b div 2) div b) + 1) * b" "2 * ((m + b div 2) div b) * b \<le> 2 * m + b"
proof -
  let ?q = "(m + b div 2) div b" and ?r = "(m + b div 2) mod b"
  have "?q * b + ?r = m + b div 2" by (rule div_mult_mod_eq)
  then have "2 * (?q * b) + 2 * ?r = 2 * m + 2 * (b div 2)" by linarith
  moreover have "?r < b" using assms by simp
  moreover have "2 * (b div 2) \<le> b" "b \<le> 2 * (b div 2) + 1" by simp_all
  ultimately show "2 * m \<le> (2 * ?q + 1) * b" "2 * ?q * b \<le> 2 * m + b"
    by (simp_all only: add_mult_distrib mult.assoc)
qed

text \<open>
  \<^bold>\<open>C37\<close>. \<open>usart_init_spi_master\<close> sets the port up exactly if the mode is one of the four and the divider fits.
  For a baud rate of at least 1 and no overflow in the rounding sum, the divider written to \<open>US_BRGR\<close> is the
  master clock over the baud rate rounded to the nearest integer, and set-up fails exactly if it is
  less than 4 or more than 65535. A failed set-up leaves the divider register alone.
\<close>

theorem usart_init_spi_master_correct:
  assumes "0 < spi_baudrate opt" and "unat mck + unat (spi_baudrate opt) div 2 < 2 ^ 32"
  shows "let b = unat (spi_baudrate opt); cd = (unat mck + b div 2) div b;
      (rc, s') = usart_init_spi_master hw p (Some opt) mck s;
      ok = (spi_mode opt \<le> SPI_MODE_3 \<and> 4 \<le> cd \<and> cd \<le> 65535)
    in rc = (if ok then 0 else 1) \<and>
       unat (reg_of p US_BRGR v0 (trace s')) = (if ok then cd else unat (reg_of p US_BRGR v0 (trace s))) \<and>
       2 * unat mck \<le> (2 * cd + 1) * b \<and> 2 * cd * b \<le> 2 * unat mck + b"
proof -
  let ?b = "spi_baudrate opt"
  let ?cd = "(mck + ?b div 2) div ?b"
  have "unat (mck + ?b div 2) = unat mck + unat ?b div 2"
    using assms(2) by (simp add: unat_word_ariths unat_div)
  then have cd: "unat ?cd = (unat mck + unat ?b div 2) div unat ?b" by (simp add: unat_div)
  have r: "reg_of p US_BRGR v0 (trace (usart_reset p s)) = reg_of p US_BRGR v0 (trace s)"
    by (simp add: usart_reset_def usart_disable_writeprotect_def usart_reset_tx_def usart_reset_rx_def
        usart_reset_status_def usart_drive_RTS_pin_high_def usart_drive_DTR_pin_high_def wr_def)
  have "0 < unat ?b" using assms(1) by (simp add: unat_gt_0 word_gt_0)
  from nearest_divisor [OF this, of "unat mck"] show ?thesis
    by (auto simp: usart_init_spi_master_def usart_set_spi_master_baudrate_def Let_def split_def
        word_less_nat_alt word_le_nat_alt cd [symmetric] rmw_def rd_def wr_def r)
qed

theorem usart_init_spi_master_correct_witness:
  "fst (usart_init_spi_master (\<lambda>_ _ _. 0) USART1
      (Some \<lparr>spi_baudrate = 24000000, spi_char_length = 0, spi_mode = SPI_MODE_3, spi_channel_mode = 0\<rparr>)
      96000000 \<lparr>trace = []\<rparr>) = 0"
  using usart_init_spi_master_correct [of "\<lparr>spi_baudrate = 24000000, spi_char_length = 0, spi_mode = SPI_MODE_3,
      spi_channel_mode = 0\<rparr>" 96000000 "\<lambda>_ _ _. 0" USART1 "\<lparr>trace = []\<rparr>" 0]
  by (simp add: Let_def split_def)

end
