(* ===== verification/Wdt.thy ===== *)
theory Wdt
  imports Prelude
begin

text \<open>
  The watchdog driver, \<^verbatim>\<open>src/asf/sam/drivers/wdt/wdt.c\<close>. The watchdog counts down from
  \<open>WDV\<close> in units of 128 slow-clock cycles.
\<close>

definition WDT_INVALID_ARGUMENT :: u32 where "WDT_INVALID_ARGUMENT = 0xFFFF"

definition WDT_MR_WDV :: "u32 \<Rightarrow> u32" where "WDT_MR_WDV v = 0xFFF AND v"

definition WDT_MR_WDD :: "u32 \<Rightarrow> u32" where "WDT_MR_WDD v = push_bit 16 0xFFF AND push_bit 16 v"

definition wdt_get_timeout_value :: "u32 \<Rightarrow> u32 \<Rightarrow> u32" where
  "wdt_get_timeout_value ul_us ul_sclk =
     (let mn = 128 * 1000000 div ul_sclk; mx = mn * 4095
      in if ul_us < mn \<or> ul_us > mx then WDT_INVALID_ARGUMENT else WDT_MR_WDV (ul_us div mn))"

definition wdt_init :: "periph \<Rightarrow> u32 \<Rightarrow> u16 \<Rightarrow> u16 \<Rightarrow> 'z mach_scheme \<Rightarrow> 'z mach_scheme" where
  "wdt_init p ul_mode us_counter us_delta s =
     wr p 4 (ul_mode OR WDT_MR_WDV (ucast us_counter) OR WDT_MR_WDD (ucast us_delta)) s"

definition wdt_disable :: "periph \<Rightarrow> 'z mach_scheme \<Rightarrow> 'z mach_scheme" where
  "wdt_disable p s = wr p 4 0x8000 s"

definition wdt_restart :: "periph \<Rightarrow> 'z mach_scheme \<Rightarrow> 'z mach_scheme" where
  "wdt_restart p s = (if p = WDT then wr p 0 (0xA5000000 OR 1) s else s)"

definition wdt_get_status :: "hw \<Rightarrow> periph \<Rightarrow> 'z mach_scheme \<Rightarrow> u32 \<times> 'z mach_scheme" where
  "wdt_get_status hw p s = rd hw p 8 s"

definition wdt_get_us_timeout_period ::
  "hw \<Rightarrow> periph \<Rightarrow> u32 \<Rightarrow> 'z mach_scheme \<Rightarrow> u32 \<times> 'z mach_scheme" where
  "wdt_get_us_timeout_period hw p ul_sclk s =
     (let (v, s) = rd hw p 4 s in (WDT_MR_WDV v * 128 div ul_sclk * 1000000, s))"

section \<open>The time-out value\<close>

text \<open>
  \<open>wdt_get_timeout_value\<close> converts a time in microseconds to counts of 128 slow-clock
  cycles. For a slow clock between 128 Hz and 128 MHz no intermediate product overflows: with
  \<open>u = 128000000 div sclk\<close> microseconds per count, a time of less than one count or more than 4095 is
  refused, and otherwise the value fits the 12-bit field and is the time rounded down.
\<close>

theorem wdt_get_timeout_value_bounds:
  assumes "128 \<le> unat sclk" and "unat sclk \<le> 128000000"
  shows "let u = 128000000 div unat sclk; v = wdt_get_timeout_value us sclk
    in if unat us < u \<or> 4095 * u < unat us then v = WDT_INVALID_ARGUMENT
       else unat v = unat us div u \<and> 1 \<le> unat v \<and> unat v \<le> 4095"
proof -
  define u where "u = 128000000 div unat sclk"
  have u: "1 \<le> u" "u \<le> 1000000"
    using assms div_le_mono2 [of 128 "unat sclk" 128000000]
    by (simp_all add: u_def less_eq_div_iff_mult_less_eq)
  have mn: "unat (128 * 1000000 div sclk) = u" by (simp add: u_def unat_div)
  have mx: "unat (128 * 1000000 div sclk * 4095) = u * 4095"
    using u mn by (simp add: unat_word_ariths(2))
  have q: "unat us div u < 4096" "1 \<le> unat us div u" if "u \<le> unat us" "unat us \<le> 4095 * u"
    using that u by (simp_all add: less_eq_div_iff_mult_less_eq div_less_iff_less_mult)
  have "unat (WDT_MR_WDV (us div (128 * 1000000 div sclk))) = unat us div u"
    if "u \<le> unat us" "unat us \<le> 4095 * u"
  proof -
    have "WDT_MR_WDV w = take_bit 12 w" for w
      by (simp add: WDT_MR_WDV_def take_bit_eq_mask mask_eq_exp_minus_1 and.commute)
    then show ?thesis using q [OF that] mn
      by (simp add: unsigned_take_bit_eq unat_div take_bit_nat_eq_self)
  qed
  then show ?thesis using q mx mn
    by (auto simp: u_def [symmetric] wdt_get_timeout_value_def Let_def word_less_nat_alt mult.commute
        less_Suc_eq_le [symmetric] simp del: unat_div)
qed

theorem wdt_get_timeout_value_bounds_witness:
  "unat (wdt_get_timeout_value 1000000 32768) = 256"
  using wdt_get_timeout_value_bounds [of 32768 1000000] by (simp add: Let_def)

end
