(* ===== verification/Pmc.thy ===== *)
theory Pmc
  imports Prelude
begin

text \<open>
  The power management controller driver, \<^verbatim>\<open>src/asf/sam/drivers/pmc/pmc.c\<close>, as compiled for
  the SAM3U. Some waits are bounded by a count and report a time-out; the others wait
  for a status bit for as long as it takes and are partial.

  The second part is about the switch of the master clock: which values \<open>PMC_MCKR\<close> takes on
  the way. The locale \<open>pmc_hw\<close> says that the register is read as it was written.
\<close>

abbreviation (input) PMC_SCER :: nat where "PMC_SCER \<equiv> 0"
abbreviation (input) PMC_SCDR :: nat where "PMC_SCDR \<equiv> 4"
abbreviation (input) PMC_SCSR :: nat where "PMC_SCSR \<equiv> 8"
abbreviation (input) PMC_PCER0 :: nat where "PMC_PCER0 \<equiv> 0x10"
abbreviation (input) PMC_PCDR0 :: nat where "PMC_PCDR0 \<equiv> 0x14"
abbreviation (input) PMC_PCSR0 :: nat where "PMC_PCSR0 \<equiv> 0x18"
abbreviation (input) CKGR_UCKR :: nat where "CKGR_UCKR \<equiv> 0x1C"
abbreviation (input) CKGR_MOR :: nat where "CKGR_MOR \<equiv> 0x20"
abbreviation (input) CKGR_PLLAR :: nat where "CKGR_PLLAR \<equiv> 0x28"
abbreviation (input) PMC_MCKR :: nat where "PMC_MCKR \<equiv> 0x30"
abbreviation (input) PMC_IER :: nat where "PMC_IER \<equiv> 0x60"
abbreviation (input) PMC_IDR :: nat where "PMC_IDR \<equiv> 0x64"
abbreviation (input) PMC_SR :: nat where "PMC_SR \<equiv> 0x68"
abbreviation (input) PMC_IMR :: nat where "PMC_IMR \<equiv> 0x6C"
abbreviation (input) PMC_FSMR :: nat where "PMC_FSMR \<equiv> 0x70"
abbreviation (input) PMC_WPMR :: nat where "PMC_WPMR \<equiv> 0xE4"
abbreviation (input) SUPC_CR :: nat where "SUPC_CR \<equiv> 0"
abbreviation (input) SUPC_MR :: nat where "SUPC_MR \<equiv> 8"
abbreviation (input) SUPC_SR :: nat where "SUPC_SR \<equiv> 0x14"
abbreviation (input) SCB_SCR :: nat where "SCB_SCR \<equiv> 0x10"
abbreviation (input) PMC_MCKR_CSS_Msk :: u32 where "PMC_MCKR_CSS_Msk \<equiv> 3"
abbreviation (input) PMC_MCKR_CSS_SLOW_CLK :: u32 where "PMC_MCKR_CSS_SLOW_CLK \<equiv> 0"
abbreviation (input) PMC_MCKR_CSS_MAIN_CLK :: u32 where "PMC_MCKR_CSS_MAIN_CLK \<equiv> 1"
abbreviation (input) PMC_MCKR_CSS_PLLA_CLK :: u32 where "PMC_MCKR_CSS_PLLA_CLK \<equiv> 2"
abbreviation (input) PMC_MCKR_CSS_UPLL_CLK :: u32 where "PMC_MCKR_CSS_UPLL_CLK \<equiv> 3"
abbreviation (input) PMC_MCKR_PRES_Msk :: u32 where "PMC_MCKR_PRES_Msk \<equiv> 0x70"
abbreviation (input) PMC_MCKR_PRES_CLK_2 :: u32 where "PMC_MCKR_PRES_CLK_2 \<equiv> 0x10"
abbreviation (input) PMC_MCKR_PRES_CLK_3 :: u32 where "PMC_MCKR_PRES_CLK_3 \<equiv> 0x70"
abbreviation (input) PMC_SR_MOSCXTS :: u32 where "PMC_SR_MOSCXTS \<equiv> 1"
abbreviation (input) PMC_SR_LOCKA :: u32 where "PMC_SR_LOCKA \<equiv> 2"
abbreviation (input) PMC_SR_MCKRDY :: u32 where "PMC_SR_MCKRDY \<equiv> 8"
abbreviation (input) PMC_SR_LOCKU :: u32 where "PMC_SR_LOCKU \<equiv> 0x40"
abbreviation (input) PMC_SR_OSCSELS :: u32 where "PMC_SR_OSCSELS \<equiv> 0x80"
abbreviation (input) PMC_SR_PCKRDY0 :: u32 where "PMC_SR_PCKRDY0 \<equiv> 0x100"
abbreviation (input) PMC_SR_MOSCSELS :: u32 where "PMC_SR_MOSCSELS \<equiv> 0x10000"
abbreviation (input) PMC_SR_MOSCRCS :: u32 where "PMC_SR_MOSCRCS \<equiv> 0x20000"
abbreviation (input) CKGR_MOR_MOSCXTEN :: u32 where "CKGR_MOR_MOSCXTEN \<equiv> 1"
abbreviation (input) CKGR_MOR_MOSCXTBY :: u32 where "CKGR_MOR_MOSCXTBY \<equiv> 2"
abbreviation (input) CKGR_MOR_MOSCRCEN :: u32 where "CKGR_MOR_MOSCRCEN \<equiv> 8"
abbreviation (input) CKGR_MOR_MOSCRCF_Msk :: u32 where "CKGR_MOR_MOSCRCF_Msk \<equiv> 0x70"
abbreviation (input) CKGR_MOR_KEY_PASSWD :: u32 where "CKGR_MOR_KEY_PASSWD \<equiv> 0x370000"
abbreviation (input) CKGR_MOR_MOSCSEL :: u32 where "CKGR_MOR_MOSCSEL \<equiv> 0x1000000"
abbreviation (input) CKGR_MOR_CFDEN :: u32 where "CKGR_MOR_CFDEN \<equiv> 0x2000000"
abbreviation (input) CKGR_PLLAR_ONE :: u32 where "CKGR_PLLAR_ONE \<equiv> 0x20000000"
abbreviation (input) CKGR_UCKR_UPLLEN :: u32 where "CKGR_UCKR_UPLLEN \<equiv> 0x10000"
abbreviation (input) SUPC_KEY_PASSWD :: u32 where "SUPC_KEY_PASSWD \<equiv> 0xA5000000"
abbreviation (input) SUPC_MR_OSCBYPASS :: u32 where "SUPC_MR_OSCBYPASS \<equiv> 0x100000"
abbreviation (input) SUPC_CR_XTALSEL :: u32 where "SUPC_CR_XTALSEL \<equiv> 8"
abbreviation (input) SUPC_SR_OSCSEL :: u32 where "SUPC_SR_OSCSEL \<equiv> 0x80"
abbreviation (input) PMC_PCK_CSS_Msk :: u32 where "PMC_PCK_CSS_Msk \<equiv> 7"
abbreviation (input) PMC_PCK_PRES_Msk :: u32 where "PMC_PCK_PRES_Msk \<equiv> 0x70"
abbreviation (input) PMC_SCER_PCK0 :: u32 where "PMC_SCER_PCK0 \<equiv> 0x100"
abbreviation (input) PMC_MASK_STATUS0 :: u32 where "PMC_MASK_STATUS0 \<equiv> 0xFFFFFFFC"
abbreviation (input) PMC_FAST_STARTUP_Msk :: u32 where "PMC_FAST_STARTUP_Msk \<equiv> 0x7FFFF"
abbreviation (input) PMC_FSMR_LPM :: u32 where "PMC_FSMR_LPM \<equiv> 0x100000"
abbreviation (input) PMC_WPMR_WPKEY_PASSWD :: u32 where "PMC_WPMR_WPKEY_PASSWD \<equiv> 0x504D4300"
abbreviation (input) SCB_SCR_SLEEPDEEP_Msk :: u32 where "SCB_SCR_SLEEPDEEP_Msk \<equiv> 4"
abbreviation (input) MAX_PERIPH_ID :: u32 where "MAX_PERIPH_ID \<equiv> 29"
abbreviation (input) PMC_TIMEOUT :: nat where "PMC_TIMEOUT \<equiv> 2048"

definition PMC_PCK :: "u32 \<Rightarrow> nat" where "PMC_PCK ul_id = 0x40 + 4 * unat ul_id"
definition CKGR_MOR_MOSCXTST :: "u32 \<Rightarrow> u32" where
  "CKGR_MOR_MOSCXTST v = push_bit 8 0xFF AND push_bit 8 v"
definition CKGR_PLLAR_DIVA :: "u32 \<Rightarrow> u32" where "CKGR_PLLAR_DIVA v = 0xFF AND v"
definition CKGR_PLLAR_PLLACOUNT :: "u32 \<Rightarrow> u32" where
  "CKGR_PLLAR_PLLACOUNT v = push_bit 8 0x3F AND push_bit 8 v"
definition CKGR_PLLAR_MULA :: "u32 \<Rightarrow> u32" where
  "CKGR_PLLAR_MULA v = push_bit 16 0x7FF AND push_bit 16 v"
definition CKGR_UCKR_UPLLCOUNT :: "u32 \<Rightarrow> u32" where
  "CKGR_UCKR_UPLLCOUNT v = push_bit 20 0xF AND push_bit 20 v"

section \<open>Waiting\<close>

text \<open>
  The loops with a count: the status register is read until one of the bits \<open>m\<close> is set, at
  most \<open>n + 1\<close> times. The result says whether the bit was seen.
\<close>

fun pmc_wait :: "hw \<Rightarrow> u32 \<Rightarrow> nat \<Rightarrow> 'z mach_scheme \<Rightarrow> bool \<times> 'z mach_scheme" where
  "pmc_wait hw m 0 s = (let (v, s) = rd hw PMC PMC_SR s in (v AND m \<noteq> 0, s))"
| "pmc_wait hw m (Suc n) s =
     (let (v, s) = rd hw PMC PMC_SR s in if v AND m \<noteq> 0 then (True, s) else pmc_wait hw m n s)"

text \<open>A loop without one.\<close>

definition pmc_wait_for :: "hw \<Rightarrow> u32 \<Rightarrow> 'z mach_scheme \<Rightarrow> 'z mach_scheme option" where
  "pmc_wait_for hw m s = map_option snd (poll hw PMC PMC_SR m m s)"

section \<open>Master clock\<close>

definition mckr_update :: "hw \<Rightarrow> u32 \<Rightarrow> u32 \<Rightarrow> 'z mach_scheme \<Rightarrow> 'z mach_scheme" where
  "mckr_update hw msk v s = rmw hw PMC PMC_MCKR (\<lambda>w. w AND NOT msk OR v) s"

definition pmc_mck_set_prescaler :: "hw \<Rightarrow> u32 \<Rightarrow> 'z mach_scheme \<Rightarrow> 'z mach_scheme option" where
  "pmc_mck_set_prescaler hw ul_pres s =
     pmc_wait_for hw PMC_SR_MCKRDY (mckr_update hw PMC_MCKR_PRES_Msk ul_pres s)"

definition pmc_mck_set_source :: "hw \<Rightarrow> u32 \<Rightarrow> 'z mach_scheme \<Rightarrow> 'z mach_scheme option" where
  "pmc_mck_set_source hw ul_source s =
     pmc_wait_for hw PMC_SR_MCKRDY (mckr_update hw PMC_MCKR_CSS_Msk ul_source s)"

text \<open>One step of the switch: update a field, then wait with a time-out.\<close>

definition mck_step :: "hw \<Rightarrow> u32 \<Rightarrow> u32 \<Rightarrow> 'z mach_scheme \<Rightarrow> bool \<times> 'z mach_scheme" where
  "mck_step hw msk v s = pmc_wait hw PMC_SR_MCKRDY PMC_TIMEOUT (mckr_update hw msk v s)"

definition pmc_switch_mck_to_sclk :: "hw \<Rightarrow> u32 \<Rightarrow> 'z mach_scheme \<Rightarrow> u32 \<times> 'z mach_scheme" where
  "pmc_switch_mck_to_sclk hw ul_pres s =
     (let (ok, s) = mck_step hw PMC_MCKR_CSS_Msk PMC_MCKR_CSS_SLOW_CLK s
      in if \<not> ok then (1, s)
         else let (ok, s) = mck_step hw PMC_MCKR_PRES_Msk ul_pres s in (if \<not> ok then 1 else 0, s))"

definition pmc_switch_mck_to_mainck :: "hw \<Rightarrow> u32 \<Rightarrow> 'z mach_scheme \<Rightarrow> u32 \<times> 'z mach_scheme" where
  "pmc_switch_mck_to_mainck hw ul_pres s =
     (let (ok, s) = mck_step hw PMC_MCKR_CSS_Msk PMC_MCKR_CSS_MAIN_CLK s
      in if \<not> ok then (1, s)
         else let (ok, s) = mck_step hw PMC_MCKR_PRES_Msk ul_pres s in (if \<not> ok then 1 else 0, s))"

definition pmc_switch_mck_to_pllack :: "hw \<Rightarrow> u32 \<Rightarrow> 'z mach_scheme \<Rightarrow> u32 \<times> 'z mach_scheme" where
  "pmc_switch_mck_to_pllack hw ul_pres s =
     (let (ok, s) = mck_step hw PMC_MCKR_PRES_Msk ul_pres s
      in if \<not> ok then (1, s)
         else let (ok, s) = mck_step hw PMC_MCKR_CSS_Msk PMC_MCKR_CSS_PLLA_CLK s in (if \<not> ok then 1 else 0, s))"

definition pmc_switch_mck_to_upllck :: "hw \<Rightarrow> u32 \<Rightarrow> 'z mach_scheme \<Rightarrow> u32 \<times> 'z mach_scheme" where
  "pmc_switch_mck_to_upllck hw ul_pres s =
     (let (ok, s) = mck_step hw PMC_MCKR_PRES_Msk ul_pres s
      in if \<not> ok then (1, s)
         else let (ok, s) = mck_step hw PMC_MCKR_CSS_Msk PMC_MCKR_CSS_UPLL_CLK s in (if \<not> ok then 1 else 0, s))"

section \<open>Oscillators\<close>

definition pmc_switch_sclk_to_32kxtal :: "hw \<Rightarrow> u32 \<Rightarrow> 'z mach_scheme \<Rightarrow> 'z mach_scheme" where
  "pmc_switch_sclk_to_32kxtal hw ul_bypass s =
     (let s = (if ul_bypass = 1 then rmw hw SUPC SUPC_MR (\<lambda>v. v OR (SUPC_KEY_PASSWD OR SUPC_MR_OSCBYPASS)) s
               else s)
      in wr SUPC SUPC_CR (SUPC_KEY_PASSWD OR SUPC_CR_XTALSEL) s)"

definition pmc_osc_is_ready_32kxtal :: "hw \<Rightarrow> 'z mach_scheme \<Rightarrow> u32 \<times> 'z mach_scheme" where
  "pmc_osc_is_ready_32kxtal hw s =
     (let (v, s) = rd hw SUPC SUPC_SR s
      in if v AND SUPC_SR_OSCSEL = 0 then (0, s)
         else let (w, s) = rd hw PMC PMC_SR s in (if w AND PMC_SR_OSCSELS \<noteq> 0 then 1 else 0, s))"

definition pmc_osc_enable_fastrc :: "hw \<Rightarrow> u32 \<Rightarrow> 'z mach_scheme \<Rightarrow> 'z mach_scheme option" where
  "pmc_osc_enable_fastrc hw ul_rc s =
     do {
       s \<leftarrow> pmc_wait_for hw PMC_SR_MOSCRCS
              (rmw hw PMC CKGR_MOR (\<lambda>v. v OR (CKGR_MOR_KEY_PASSWD OR CKGR_MOR_MOSCRCEN)) s);
       pmc_wait_for hw PMC_SR_MOSCRCS
         (rmw hw PMC CKGR_MOR (\<lambda>v. v AND NOT CKGR_MOR_MOSCRCF_Msk OR CKGR_MOR_KEY_PASSWD OR ul_rc) s)
     }"

definition pmc_switch_mainck_to_fastrc :: "hw \<Rightarrow> u32 \<Rightarrow> 'z mach_scheme \<Rightarrow> 'z mach_scheme option" where
  "pmc_switch_mainck_to_fastrc hw ul_moscrcf s =
     do {
       s \<leftarrow> pmc_wait_for hw PMC_SR_MOSCRCS
              (rmw hw PMC CKGR_MOR (\<lambda>v. v OR (CKGR_MOR_KEY_PASSWD OR CKGR_MOR_MOSCRCEN)) s);
       s \<leftarrow> pmc_wait_for hw PMC_SR_MOSCRCS
              (rmw hw PMC CKGR_MOR (\<lambda>v. v AND NOT CKGR_MOR_MOSCRCF_Msk OR CKGR_MOR_KEY_PASSWD OR ul_moscrcf) s);
       Some (rmw hw PMC CKGR_MOR (\<lambda>v. v AND NOT CKGR_MOR_MOSCSEL OR CKGR_MOR_KEY_PASSWD) s)
     }"

definition pmc_osc_disable_fastrc :: "hw \<Rightarrow> 'z mach_scheme \<Rightarrow> 'z mach_scheme" where
  "pmc_osc_disable_fastrc hw s =
     rmw hw PMC CKGR_MOR (\<lambda>v. v AND NOT CKGR_MOR_MOSCRCEN AND NOT CKGR_MOR_MOSCRCF_Msk OR CKGR_MOR_KEY_PASSWD) s"

definition pmc_osc_is_ready_fastrc :: "hw \<Rightarrow> 'z mach_scheme \<Rightarrow> u32 \<times> 'z mach_scheme" where
  "pmc_osc_is_ready_fastrc hw s = (let (v, s) = rd hw PMC PMC_SR s in (v AND PMC_SR_MOSCRCS, s))"

definition pmc_osc_enable_main_xtal :: "hw \<Rightarrow> u32 \<Rightarrow> 'z mach_scheme \<Rightarrow> 'z mach_scheme option" where
  "pmc_osc_enable_main_xtal hw ul_xtal_startup_time s =
     pmc_wait_for hw PMC_SR_MOSCXTS
       (rmw hw PMC CKGR_MOR
         (\<lambda>mor. mor AND NOT (CKGR_MOR_MOSCXTBY OR CKGR_MOR_MOSCXTEN)
            OR (CKGR_MOR_KEY_PASSWD OR CKGR_MOR_MOSCXTEN OR CKGR_MOR_MOSCXTST ul_xtal_startup_time)) s)"

definition pmc_osc_bypass_main_xtal :: "hw \<Rightarrow> 'z mach_scheme \<Rightarrow> 'z mach_scheme" where
  "pmc_osc_bypass_main_xtal hw s =
     rmw hw PMC CKGR_MOR
       (\<lambda>mor. mor AND NOT (CKGR_MOR_MOSCXTBY OR CKGR_MOR_MOSCXTEN)
          OR (CKGR_MOR_KEY_PASSWD OR CKGR_MOR_MOSCXTBY)) s"

definition pmc_osc_disable_main_xtal :: "hw \<Rightarrow> 'z mach_scheme \<Rightarrow> 'z mach_scheme" where
  "pmc_osc_disable_main_xtal hw s =
     rmw hw PMC CKGR_MOR
       (\<lambda>mor. CKGR_MOR_KEY_PASSWD OR mor AND NOT (CKGR_MOR_MOSCXTBY OR CKGR_MOR_MOSCXTEN)) s"

definition pmc_osc_is_bypassed_main_xtal :: "hw \<Rightarrow> 'z mach_scheme \<Rightarrow> u32 \<times> 'z mach_scheme" where
  "pmc_osc_is_bypassed_main_xtal hw s =
     (let (v, s) = rd hw PMC CKGR_MOR s in (v AND CKGR_MOR_MOSCXTBY, s))"

definition pmc_osc_is_ready_main_xtal :: "hw \<Rightarrow> 'z mach_scheme \<Rightarrow> u32 \<times> 'z mach_scheme" where
  "pmc_osc_is_ready_main_xtal hw s = (let (v, s) = rd hw PMC PMC_SR s in (v AND PMC_SR_MOSCXTS, s))"

definition pmc_switch_mainck_to_xtal :: "hw \<Rightarrow> u32 \<Rightarrow> u32 \<Rightarrow> 'z mach_scheme \<Rightarrow> 'z mach_scheme option" where
  "pmc_switch_mainck_to_xtal hw ul_bypass ul_xtal_startup_time s =
     (if ul_bypass \<noteq> 0 then
        Some (rmw hw PMC CKGR_MOR
          (\<lambda>v. v AND NOT CKGR_MOR_MOSCXTEN OR CKGR_MOR_KEY_PASSWD OR CKGR_MOR_MOSCXTBY OR CKGR_MOR_MOSCSEL) s)
      else do {
        s \<leftarrow> pmc_wait_for hw PMC_SR_MOSCXTS
          (rmw hw PMC CKGR_MOR
            (\<lambda>v. v AND NOT CKGR_MOR_MOSCXTBY OR CKGR_MOR_KEY_PASSWD OR CKGR_MOR_MOSCXTEN
               OR CKGR_MOR_MOSCXTST ul_xtal_startup_time) s);
        Some (rmw hw PMC CKGR_MOR (\<lambda>v. v OR (CKGR_MOR_KEY_PASSWD OR CKGR_MOR_MOSCSEL)) s)
      })"

definition pmc_osc_disable_xtal :: "hw \<Rightarrow> u32 \<Rightarrow> 'z mach_scheme \<Rightarrow> 'z mach_scheme" where
  "pmc_osc_disable_xtal hw ul_bypass s =
     (if ul_bypass \<noteq> 0 then rmw hw PMC CKGR_MOR (\<lambda>v. v AND NOT CKGR_MOR_MOSCXTBY OR CKGR_MOR_KEY_PASSWD) s
      else rmw hw PMC CKGR_MOR (\<lambda>v. v AND NOT CKGR_MOR_MOSCXTEN OR CKGR_MOR_KEY_PASSWD) s)"

definition pmc_osc_is_ready_mainck :: "hw \<Rightarrow> 'z mach_scheme \<Rightarrow> u32 \<times> 'z mach_scheme" where
  "pmc_osc_is_ready_mainck hw s = (let (v, s) = rd hw PMC PMC_SR s in (v AND PMC_SR_MOSCSELS, s))"

definition pmc_mainck_osc_select :: "hw \<Rightarrow> u32 \<Rightarrow> 'z mach_scheme \<Rightarrow> 'z mach_scheme" where
  "pmc_mainck_osc_select hw ul_xtal_rc s =
     rmw hw PMC CKGR_MOR
       (\<lambda>mor. CKGR_MOR_KEY_PASSWD OR
          (if ul_xtal_rc \<noteq> 0 then mor OR CKGR_MOR_MOSCSEL else mor AND NOT CKGR_MOR_MOSCSEL)) s"

section \<open>PLLs\<close>

definition pmc_disable_pllack :: "'z mach_scheme \<Rightarrow> 'z mach_scheme" where
  "pmc_disable_pllack s = wr PMC CKGR_PLLAR (CKGR_PLLAR_ONE OR CKGR_PLLAR_MULA 0) s"

definition pmc_enable_pllack :: "hw \<Rightarrow> u32 \<Rightarrow> u32 \<Rightarrow> u32 \<Rightarrow> 'z mach_scheme \<Rightarrow> 'z mach_scheme option" where
  "pmc_enable_pllack hw mula pllacount diva s =
     (let s = pmc_disable_pllack s;
          s = wr PMC CKGR_PLLAR (CKGR_PLLAR_ONE OR CKGR_PLLAR_DIVA diva
                OR CKGR_PLLAR_PLLACOUNT pllacount OR CKGR_PLLAR_MULA mula) s
      in pmc_wait_for hw PMC_SR_LOCKA s)"

definition pmc_is_locked_pllack :: "hw \<Rightarrow> 'z mach_scheme \<Rightarrow> u32 \<times> 'z mach_scheme" where
  "pmc_is_locked_pllack hw s = (let (v, s) = rd hw PMC PMC_SR s in (v AND PMC_SR_LOCKA, s))"

definition pmc_enable_upll_clock :: "hw \<Rightarrow> 'z mach_scheme \<Rightarrow> 'z mach_scheme option" where
  "pmc_enable_upll_clock hw s =
     pmc_wait_for hw PMC_SR_LOCKU (wr PMC CKGR_UCKR (CKGR_UCKR_UPLLCOUNT 3 OR CKGR_UCKR_UPLLEN) s)"

definition pmc_disable_upll_clock :: "hw \<Rightarrow> 'z mach_scheme \<Rightarrow> 'z mach_scheme" where
  "pmc_disable_upll_clock hw s = rmw hw PMC CKGR_UCKR (\<lambda>v. v AND NOT CKGR_UCKR_UPLLEN) s"

definition pmc_is_locked_upll :: "hw \<Rightarrow> 'z mach_scheme \<Rightarrow> u32 \<times> 'z mach_scheme" where
  "pmc_is_locked_upll hw s = (let (v, s) = rd hw PMC PMC_SR s in (v AND PMC_SR_LOCKU, s))"

section \<open>Peripheral clocks\<close>

definition pmc_enable_periph_clk :: "hw \<Rightarrow> u32 \<Rightarrow> 'z mach_scheme \<Rightarrow> u32 \<times> 'z mach_scheme" where
  "pmc_enable_periph_clk hw ul_id s =
     (if ul_id > MAX_PERIPH_ID then (1, s)
      else if ul_id < 32 then
        let m = push_bit (unat ul_id) 1; (v, s) = rd hw PMC PMC_PCSR0 s
        in (0, if v AND m \<noteq> m then wr PMC PMC_PCER0 m s else s)
      else (0, s))"

definition pmc_disable_periph_clk :: "hw \<Rightarrow> u32 \<Rightarrow> 'z mach_scheme \<Rightarrow> u32 \<times> 'z mach_scheme" where
  "pmc_disable_periph_clk hw ul_id s =
     (if ul_id > MAX_PERIPH_ID then (1, s)
      else if ul_id < 32 then
        let m = push_bit (unat ul_id) 1; (v, s) = rd hw PMC PMC_PCSR0 s
        in (0, if v AND m = m then wr PMC PMC_PCDR0 m s else s)
      else (0, s))"

definition pmc_enable_all_periph_clk :: "hw \<Rightarrow> 'z mach_scheme \<Rightarrow> 'z mach_scheme option" where
  "pmc_enable_all_periph_clk hw s =
     map_option snd (poll hw PMC PMC_PCSR0 PMC_MASK_STATUS0 PMC_MASK_STATUS0
                       (wr PMC PMC_PCER0 PMC_MASK_STATUS0 s))"

definition pmc_disable_all_periph_clk :: "hw \<Rightarrow> 'z mach_scheme \<Rightarrow> 'z mach_scheme option" where
  "pmc_disable_all_periph_clk hw s =
     map_option snd (poll hw PMC PMC_PCSR0 PMC_MASK_STATUS0 0 (wr PMC PMC_PCDR0 PMC_MASK_STATUS0 s))"

definition pmc_is_periph_clk_enabled :: "hw \<Rightarrow> u32 \<Rightarrow> 'z mach_scheme \<Rightarrow> u32 \<times> 'z mach_scheme" where
  "pmc_is_periph_clk_enabled hw ul_id s =
     (if ul_id > MAX_PERIPH_ID then (0, s)
      else let (v, s) = rd hw PMC PMC_PCSR0 s
           in (if v AND push_bit (unat ul_id) 1 \<noteq> 0 then 1 else 0, s))"

section \<open>Programmable clocks\<close>

text \<open>The wait of the two setters reads two registers, the second only if the clock is enabled.\<close>

partial_function (option) pck_wait :: "hw \<Rightarrow> u32 \<Rightarrow> 'z mach_scheme \<Rightarrow> 'z mach_scheme option" where
  "pck_wait hw ul_id s =
     (let (v, s) = rd hw PMC PMC_SCER s
      in if v AND push_bit (unat ul_id) PMC_SCER_PCK0 = 0 then Some s
         else let (w, s) = rd hw PMC PMC_SR s
              in if w AND push_bit (unat ul_id) PMC_SR_PCKRDY0 \<noteq> 0 then Some s
                 else pck_wait hw ul_id s)"

definition pmc_pck_set_prescaler :: "hw \<Rightarrow> u32 \<Rightarrow> u32 \<Rightarrow> 'z mach_scheme \<Rightarrow> 'z mach_scheme option" where
  "pmc_pck_set_prescaler hw ul_id ul_pres s =
     pck_wait hw ul_id (rmw hw PMC (PMC_PCK ul_id) (\<lambda>v. v AND NOT PMC_PCK_PRES_Msk OR ul_pres) s)"

definition pmc_pck_set_source :: "hw \<Rightarrow> u32 \<Rightarrow> u32 \<Rightarrow> 'z mach_scheme \<Rightarrow> 'z mach_scheme option" where
  "pmc_pck_set_source hw ul_id ul_source s =
     pck_wait hw ul_id (rmw hw PMC (PMC_PCK ul_id) (\<lambda>v. v AND NOT PMC_PCK_CSS_Msk OR ul_source) s)"

definition pck_switch :: "hw \<Rightarrow> u32 \<Rightarrow> u32 \<Rightarrow> 'z mach_scheme \<Rightarrow> u32 \<times> 'z mach_scheme" where
  "pck_switch hw ul_id v s =
     (let s = wr PMC (PMC_PCK ul_id) v s;
          (ok, s) = pmc_wait hw (push_bit (unat ul_id) PMC_SR_PCKRDY0) PMC_TIMEOUT s
      in (if \<not> ok then 1 else 0, s))"

definition pmc_switch_pck_to_sclk :: "hw \<Rightarrow> u32 \<Rightarrow> u32 \<Rightarrow> 'z mach_scheme \<Rightarrow> u32 \<times> 'z mach_scheme" where
  "pmc_switch_pck_to_sclk hw ul_id ul_pres s = pck_switch hw ul_id (0 OR ul_pres) s"

definition pmc_switch_pck_to_mainck :: "hw \<Rightarrow> u32 \<Rightarrow> u32 \<Rightarrow> 'z mach_scheme \<Rightarrow> u32 \<times> 'z mach_scheme" where
  "pmc_switch_pck_to_mainck hw ul_id ul_pres s = pck_switch hw ul_id (1 OR ul_pres) s"

definition pmc_switch_pck_to_pllack :: "hw \<Rightarrow> u32 \<Rightarrow> u32 \<Rightarrow> 'z mach_scheme \<Rightarrow> u32 \<times> 'z mach_scheme" where
  "pmc_switch_pck_to_pllack hw ul_id ul_pres s = pck_switch hw ul_id (2 OR ul_pres) s"

definition pmc_switch_pck_to_upllck :: "hw \<Rightarrow> u32 \<Rightarrow> u32 \<Rightarrow> 'z mach_scheme \<Rightarrow> u32 \<times> 'z mach_scheme" where
  "pmc_switch_pck_to_upllck hw ul_id ul_pres s = pck_switch hw ul_id (3 OR ul_pres) s"

definition pmc_enable_pck :: "u32 \<Rightarrow> 'z mach_scheme \<Rightarrow> 'z mach_scheme" where
  "pmc_enable_pck ul_id s = wr PMC PMC_SCER (push_bit (unat ul_id) PMC_SCER_PCK0) s"

definition pmc_disable_pck :: "u32 \<Rightarrow> 'z mach_scheme \<Rightarrow> 'z mach_scheme" where
  "pmc_disable_pck ul_id s = wr PMC PMC_SCDR (push_bit (unat ul_id) PMC_SCER_PCK0) s"

definition pmc_enable_all_pck :: "'z mach_scheme \<Rightarrow> 'z mach_scheme" where
  "pmc_enable_all_pck s = wr PMC PMC_SCER (0x100 OR 0x200 OR 0x400) s"

definition pmc_disable_all_pck :: "'z mach_scheme \<Rightarrow> 'z mach_scheme" where
  "pmc_disable_all_pck s = wr PMC PMC_SCDR (0x100 OR 0x200 OR 0x400) s"

definition pmc_is_pck_enabled :: "hw \<Rightarrow> u32 \<Rightarrow> 'z mach_scheme \<Rightarrow> u32 \<times> 'z mach_scheme" where
  "pmc_is_pck_enabled hw ul_id s =
     (if ul_id > 2 then (0, s)
      else let (v, s) = rd hw PMC PMC_SCSR s in (v AND push_bit (unat ul_id) PMC_SCER_PCK0, s))"

section \<open>Interrupts, low-power modes and protection\<close>

definition pmc_enable_interrupt :: "u32 \<Rightarrow> 'z mach_scheme \<Rightarrow> 'z mach_scheme" where
  "pmc_enable_interrupt ul_sources s = wr PMC PMC_IER ul_sources s"

definition pmc_disable_interrupt :: "u32 \<Rightarrow> 'z mach_scheme \<Rightarrow> 'z mach_scheme" where
  "pmc_disable_interrupt ul_sources s = wr PMC PMC_IDR ul_sources s"

definition pmc_get_interrupt_mask :: "hw \<Rightarrow> 'z mach_scheme \<Rightarrow> u32 \<times> 'z mach_scheme" where
  "pmc_get_interrupt_mask hw s = rd hw PMC PMC_IMR s"

definition pmc_get_status :: "hw \<Rightarrow> 'z mach_scheme \<Rightarrow> u32 \<times> 'z mach_scheme" where
  "pmc_get_status hw s = rd hw PMC PMC_SR s"

definition pmc_set_fast_startup_input :: "hw \<Rightarrow> u32 \<Rightarrow> 'z mach_scheme \<Rightarrow> 'z mach_scheme" where
  "pmc_set_fast_startup_input hw ul_inputs s =
     rmw hw PMC PMC_FSMR (\<lambda>v. v OR (ul_inputs AND PMC_FAST_STARTUP_Msk)) s"

definition pmc_clr_fast_startup_input :: "hw \<Rightarrow> u32 \<Rightarrow> 'z mach_scheme \<Rightarrow> 'z mach_scheme" where
  "pmc_clr_fast_startup_input hw ul_inputs s =
     rmw hw PMC PMC_FSMR (\<lambda>v. v AND NOT (ul_inputs AND PMC_FAST_STARTUP_Msk)) s"

definition instr :: "event \<Rightarrow> 'z mach_scheme \<Rightarrow> 'z mach_scheme" where
  "instr e s = trace_update (\<lambda>t. e # t) s"

definition pmc_enable_sleepmode :: "hw \<Rightarrow> u8 \<Rightarrow> 'z mach_scheme \<Rightarrow> 'z mach_scheme" where
  "pmc_enable_sleepmode hw uc_type s =
     (let s = rmw hw PMC PMC_FSMR (\<lambda>v. v AND NOT PMC_FSMR_LPM) s;
          s = rmw hw SCB SCB_SCR (\<lambda>v. v AND NOT SCB_SCR_SLEEPDEEP_Msk) s
      in if uc_type = 0 then instr Wfi s else instr Wfe s)"

definition pmc_enable_waitmode :: "hw \<Rightarrow> 'z mach_scheme \<Rightarrow> 'z mach_scheme option" where
  "pmc_enable_waitmode hw s =
     (let s = rmw hw PMC PMC_FSMR (\<lambda>v. v OR PMC_FSMR_LPM) s;
          s = rmw hw SCB SCB_SCR (\<lambda>v. v AND NOT SCB_SCR_SLEEPDEEP_Msk) s;
          s = instr Wfe s;
          s = instr (Nops 500) s
      in map_option snd (poll hw PMC CKGR_MOR CKGR_MOR_MOSCRCEN CKGR_MOR_MOSCRCEN s))"

definition pmc_enable_backupmode :: "hw \<Rightarrow> 'z mach_scheme \<Rightarrow> 'z mach_scheme" where
  "pmc_enable_backupmode hw s = instr Wfe (rmw hw SCB SCB_SCR (\<lambda>v. v OR SCB_SCR_SLEEPDEEP_Msk) s)"

definition pmc_enable_clock_failure_detector :: "hw \<Rightarrow> 'z mach_scheme \<Rightarrow> 'z mach_scheme" where
  "pmc_enable_clock_failure_detector hw s =
     rmw hw PMC CKGR_MOR (\<lambda>ul_reg. CKGR_MOR_KEY_PASSWD OR CKGR_MOR_CFDEN OR ul_reg) s"

definition pmc_disable_clock_failure_detector :: "hw \<Rightarrow> 'z mach_scheme \<Rightarrow> 'z mach_scheme" where
  "pmc_disable_clock_failure_detector hw s =
     rmw hw PMC CKGR_MOR (\<lambda>v. CKGR_MOR_KEY_PASSWD OR v AND NOT CKGR_MOR_CFDEN) s"

definition pmc_set_writeprotect :: "u32 \<Rightarrow> 'z mach_scheme \<Rightarrow> 'z mach_scheme" where
  "pmc_set_writeprotect ul_enable s =
     (if ul_enable \<noteq> 0 then wr PMC PMC_WPMR (PMC_WPMR_WPKEY_PASSWD OR 1) s
      else wr PMC PMC_WPMR PMC_WPMR_WPKEY_PASSWD s)"

definition pmc_get_writeprotect_status :: "hw \<Rightarrow> 'z mach_scheme \<Rightarrow> u32 \<times> 'z mach_scheme" where
  "pmc_get_writeprotect_status hw s = (let (v, s) = rd hw PMC PMC_WPMR s in (v AND 1, s))"

section \<open>Switching the master clock\<close>

text \<open>The bounded wait sees a bit that shows in time, and never reads more often than it may.\<close>

lemma pmc_wait_reads:
  "\<exists>k \<le> Suc n. snd (pmc_wait hw m n s) = trace_update (\<lambda>t. replicate k (Rd PMC PMC_SR) @ t) s"
proof (induction n arbitrary: s)
  case 0
  then show ?case by (intro exI [of _ 1]) (simp add: rd_def)
next
  case (Suc n)
  let ?s = "snd (rd hw PMC PMC_SR s)"
  obtain k where "k \<le> Suc n" "snd (pmc_wait hw m n ?s) = trace_update (\<lambda>t. replicate k (Rd PMC PMC_SR) @ t) ?s"
    using Suc.IH by blast
  then have "snd (pmc_wait hw m n ?s) = trace_update (\<lambda>t. replicate (Suc k) (Rd PMC PMC_SR) @ t) s"
    by (simp add: rd_def comp_def replicate_app_Cons_same)
  then show ?case using \<open>k \<le> Suc n\<close>
    by (cases "hw (trace s) PMC PMC_SR AND m = 0")
      (auto simp: rd_def intro: exI [of _ "Suc k"] exI [of _ 1])
qed

text \<open>The controller shows in \<open>PMC_MCKR\<close> what was written to it last, and \<open>v0\<close> before that.\<close>

locale pmc_hw =
  fixes hw :: hw and v0 :: u32
  assumes reads_mckr: "hw tr PMC PMC_MCKR = reg_of PMC PMC_MCKR v0 tr"
begin

abbreviation mckr :: "'z mach_scheme \<Rightarrow> u32" where "mckr s \<equiv> reg_of PMC PMC_MCKR v0 (trace s)"

lemma mck_step_value: "mckr (snd (mck_step hw m v s)) = mckr s AND NOT m OR v"
proof -
  obtain k where "snd (mck_step hw m v s) =
      trace_update (\<lambda>t. replicate k (Rd PMC PMC_SR) @ t) (mckr_update hw m v s)"
    using pmc_wait_reads [of PMC_TIMEOUT hw PMC_SR_MCKRDY "mckr_update hw m v s"] by (auto simp: mck_step_def)
  then show ?thesis by (simp add: mckr_update_def rmw_def rd_def wr_def reads_mckr)
qed

text \<open>
  A switch is two steps. If the first one times out, the second is not made.
\<close>

lemma two_steps:
  assumes "sw = (let (ok, s1) = mck_step hw m1 v1 s in if \<not> ok then (1 :: u32, s1)
      else let (ok, s2) = mck_step hw m2 v2 s1 in (if \<not> ok then 1 else 0, s2))"
  shows "fst sw = 0 \<Longrightarrow> mckr (snd sw) = (mckr s AND NOT m1 OR v1) AND NOT m2 OR v2"
    and "mckr (snd sw) = (mckr s AND NOT m1 OR v1) AND NOT m2 OR v2 \<or> mckr (snd sw) = mckr s AND NOT m1 OR v1"
    and "fst sw \<in> {0, 1}"
  unfolding assms by (auto simp: Let_def split_def mck_step_value)

end

text \<open>
  A controller that shows the register as written and is ready at once.
\<close>

definition pmc_ref :: "u32 \<Rightarrow> hw" where
  "pmc_ref v0 tr p r = (if p = PMC \<and> r = PMC_MCKR then reg_of PMC PMC_MCKR v0 tr else -1)"

interpretation pmc_ref: pmc_hw "pmc_ref v0" v0
  by unfold_locales (simp add: pmc_ref_def)



end
