(* ===== verification/Efc.thy ===== *)
theory Efc
  imports Prelude
begin

text \<open>
  The flash controller driver, \<^verbatim>\<open>src/asf/sam/drivers/efc/efc.c\<close>, as compiled for the
  SAM3U2, which has one controller. A command is written with its key and argument to
  \<open>EEFC_FCR\<close>; the driver then waits for the ready bit of \<open>EEFC_FSR\<close>, so a function that
  issues a command is partial.
\<close>

abbreviation (input) EEFC_FMR :: nat where "EEFC_FMR \<equiv> 0"
abbreviation (input) EEFC_FCR :: nat where "EEFC_FCR \<equiv> 4"
abbreviation (input) EEFC_FSR :: nat where "EEFC_FSR \<equiv> 8"
abbreviation (input) EEFC_FRR :: nat where "EEFC_FRR \<equiv> 0xC"

abbreviation (input) EFC_FCMD_GETD :: u32 where "EFC_FCMD_GETD \<equiv> 0"
abbreviation (input) EFC_FCMD_WP :: u32 where "EFC_FCMD_WP \<equiv> 1"
abbreviation (input) EFC_FCMD_EWP :: u32 where "EFC_FCMD_EWP \<equiv> 3"
abbreviation (input) EFC_FCMD_EA :: u32 where "EFC_FCMD_EA \<equiv> 5"
abbreviation (input) EFC_FCMD_SLB :: u32 where "EFC_FCMD_SLB \<equiv> 8"
abbreviation (input) EFC_FCMD_CLB :: u32 where "EFC_FCMD_CLB \<equiv> 9"
abbreviation (input) EFC_FCMD_GLB :: u32 where "EFC_FCMD_GLB \<equiv> 0xA"
abbreviation (input) EFC_FCMD_SGPB :: u32 where "EFC_FCMD_SGPB \<equiv> 0xB"
abbreviation (input) EFC_FCMD_CGPB :: u32 where "EFC_FCMD_CGPB \<equiv> 0xC"
abbreviation (input) EFC_FCMD_GGPB :: u32 where "EFC_FCMD_GGPB \<equiv> 0xD"
abbreviation (input) EFC_FCMD_STUI :: u32 where "EFC_FCMD_STUI \<equiv> 0xE"
abbreviation (input) EFC_FCMD_SPUI :: u32 where "EFC_FCMD_SPUI \<equiv> 0xF"

abbreviation (input) EEFC_FSR_FRDY :: u32 where "EEFC_FSR_FRDY \<equiv> 1"
abbreviation (input) EEFC_ERROR_FLAGS :: u32 where "EEFC_ERROR_FLAGS \<equiv> 6"
abbreviation (input) EFC_RC_OK :: u32 where "EFC_RC_OK \<equiv> 0"
abbreviation (input) EFC_RC_INVALID :: u32 where "EFC_RC_INVALID \<equiv> 2"
abbreviation (input) EFC_RC_NOT_SUPPORT :: u32 where "EFC_RC_NOT_SUPPORT \<equiv> 0xFFFFFFFF"

definition EEFC_FMR_FWS :: "u32 \<Rightarrow> u32" where
  "EEFC_FMR_FWS v = push_bit 8 0xF AND push_bit 8 v"

definition EEFC_FCR_word :: "u32 \<Rightarrow> u32 \<Rightarrow> u32" where
  "EEFC_FCR_word ul_argument ul_command =
     push_bit 24 0x5A OR (push_bit 8 0xFFFF AND push_bit 8 ul_argument) OR (0xFF AND ul_command)"

definition efc_write_fmr :: "periph \<Rightarrow> u32 \<Rightarrow> 'z mach_scheme \<Rightarrow> 'z mach_scheme" where
  "efc_write_fmr p ul_fmr s = wr p EEFC_FMR ul_fmr s"

definition efc_perform_fcr ::
  "hw \<Rightarrow> periph \<Rightarrow> u32 \<Rightarrow> 'z mach_scheme \<Rightarrow> (u32 \<times> 'z mach_scheme) option" where
  "efc_perform_fcr hw p ul_fcr s =
     do {
       let s = wr p EEFC_FCR ul_fcr s;
       (ul_status, s) \<leftarrow> poll hw p EEFC_FSR EEFC_FSR_FRDY EEFC_FSR_FRDY s;
       Some (ul_status AND EEFC_ERROR_FLAGS, s)
     }"

definition efc_init :: "periph \<Rightarrow> u32 \<Rightarrow> u32 \<Rightarrow> 'z mach_scheme \<Rightarrow> u32 \<times> 'z mach_scheme" where
  "efc_init p ul_access_mode ul_fws s =
     (EFC_RC_OK, efc_write_fmr p (ul_access_mode OR EEFC_FMR_FWS ul_fws) s)"

definition efc_enable_frdy_interrupt :: "hw \<Rightarrow> periph \<Rightarrow> 'z mach_scheme \<Rightarrow> 'z mach_scheme" where
  "efc_enable_frdy_interrupt hw p s =
     (let (ul_fmr, s) = rd hw p EEFC_FMR s in efc_write_fmr p (ul_fmr OR 1) s)"

definition efc_disable_frdy_interrupt :: "hw \<Rightarrow> periph \<Rightarrow> 'z mach_scheme \<Rightarrow> 'z mach_scheme" where
  "efc_disable_frdy_interrupt hw p s =
     (let (ul_fmr, s) = rd hw p EEFC_FMR s in efc_write_fmr p (ul_fmr AND NOT 1) s)"

text \<open>\<open>EEFC_FMR_FAM\<close> is bit 24, the wait states are bits 8 to 11.\<close>

definition efc_set_flash_access_mode :: "hw \<Rightarrow> periph \<Rightarrow> u32 \<Rightarrow> 'z mach_scheme \<Rightarrow> 'z mach_scheme" where
  "efc_set_flash_access_mode hw p ul_mode s =
     (let (v, s) = rd hw p EEFC_FMR s; ul_fmr = v AND NOT (push_bit 24 1)
      in efc_write_fmr p (ul_fmr OR ul_mode) s)"

definition efc_get_flash_access_mode :: "hw \<Rightarrow> periph \<Rightarrow> 'z mach_scheme \<Rightarrow> u32 \<times> 'z mach_scheme" where
  "efc_get_flash_access_mode hw p s =
     (let (v, s) = rd hw p EEFC_FMR s in (v AND push_bit 24 1, s))"

definition efc_set_wait_state :: "hw \<Rightarrow> periph \<Rightarrow> u32 \<Rightarrow> 'z mach_scheme \<Rightarrow> 'z mach_scheme" where
  "efc_set_wait_state hw p ul_fws s =
     (let (v, s) = rd hw p EEFC_FMR s; ul_fmr = v AND NOT (push_bit 8 0xF)
      in efc_write_fmr p (ul_fmr OR EEFC_FMR_FWS ul_fws) s)"

definition efc_get_wait_state :: "hw \<Rightarrow> periph \<Rightarrow> 'z mach_scheme \<Rightarrow> u32 \<times> 'z mach_scheme" where
  "efc_get_wait_state hw p s =
     (let (v, s) = rd hw p EEFC_FMR s in (drop_bit 8 (v AND push_bit 8 0xF), s))"

definition efc_perform_command ::
  "hw \<Rightarrow> periph \<Rightarrow> u32 \<Rightarrow> u32 \<Rightarrow> 'z mach_scheme \<Rightarrow> (u32 \<times> 'z mach_scheme) option" where
  "efc_perform_command hw p ul_command ul_argument s =
     (if ul_command = EFC_FCMD_STUI \<or> ul_command = EFC_FCMD_SPUI then Some (EFC_RC_NOT_SUPPORT, s)
      else efc_perform_fcr hw p (EEFC_FCR_word ul_argument ul_command) s)"

definition efc_get_status :: "hw \<Rightarrow> periph \<Rightarrow> 'z mach_scheme \<Rightarrow> u32 \<times> 'z mach_scheme" where
  "efc_get_status hw p s = rd hw p EEFC_FSR s"

definition efc_get_result :: "hw \<Rightarrow> periph \<Rightarrow> 'z mach_scheme \<Rightarrow> u32 \<times> 'z mach_scheme" where
  "efc_get_result hw p s = rd hw p EEFC_FRR s"

text \<open>
  Words read from the flash, seen as memory at \<open>IFLASH0_ADDR\<close>. The buffer pointer is the
  address of an array of the caller, so the test for a null pointer always succeeds and the
  words read are the result.
\<close>

fun read_words :: "hw \<Rightarrow> nat \<Rightarrow> nat \<Rightarrow> 'z mach_scheme \<Rightarrow> u32 list \<times> 'z mach_scheme" where
  "read_words hw a 0 s = ([], s)"
| "read_words hw a (Suc n) s =
     (let (v, s) = rd hw FLASH_MEM a s; (vs, s) = read_words hw (a + 4) n s in (v # vs, s))"

definition efc_perform_read_sequence ::
  "hw \<Rightarrow> periph \<Rightarrow> u32 \<Rightarrow> u32 \<Rightarrow> u32 \<Rightarrow> 'z mach_scheme \<Rightarrow> (u32 \<times> u32 list \<times> 'z mach_scheme) option" where
  "efc_perform_read_sequence hw p ul_cmd_st ul_cmd_sp ul_size s =
     do {
       let s = rmw hw p EEFC_FMR (\<lambda>v. v OR push_bit 16 1) s;
       let s = wr p EEFC_FCR (EEFC_FCR_word 0 ul_cmd_st) s;
       (ul_status, s) \<leftarrow> poll hw p EEFC_FSR EEFC_FSR_FRDY 0 s;
       let (p_ul_buf, s) = read_words hw 0x80000 (unat ul_size) s;
       let s = wr p EEFC_FCR (EEFC_FCR_word 0 ul_cmd_sp) s;
       (ul_status, s) \<leftarrow> poll hw p EEFC_FSR EEFC_FSR_FRDY EEFC_FSR_FRDY s;
       let s = rmw hw p EEFC_FMR (\<lambda>v. v AND NOT (push_bit 16 1)) s;
       Some (EFC_RC_OK, p_ul_buf, s)
     }"

section \<open>The command word\<close>

text \<open>The fields of a command word, as the controller decodes them.\<close>

definition FCR_FCMD :: "u32 \<Rightarrow> u32" where "FCR_FCMD w = w AND 0xFF"
definition FCR_FARG :: "u32 \<Rightarrow> u32" where "FCR_FARG w = drop_bit 8 w AND 0xFFFF"
definition FCR_FKEY :: "u32 \<Rightarrow> u32" where "FCR_FKEY w = drop_bit 24 w"

lemma FCR_fields_gen:
  fixes k a c :: u32
  shows "(push_bit 24 k OR (push_bit 8 (mask 16) AND push_bit 8 a) OR (mask 8 AND c)) AND mask 8 =
      c AND mask 8"
    "drop_bit 8 (push_bit 24 k OR (push_bit 8 (mask 16) AND push_bit 8 a) OR (mask 8 AND c))
      AND mask 16 = a AND mask 16"
    "drop_bit 24 (push_bit 24 k OR (push_bit 8 (mask 16) AND push_bit 8 a) OR (mask 8 AND c)) =
      k AND mask 8"
  by (rule bit_word_eqI; force simp: bit_simps)+

lemma masks: "(0xFF :: u32) = mask 8" "(0xFFFF :: u32) = mask 16"
  by (simp_all add: mask_eq_exp_minus_1)

lemma FCR_fields:
  "FCR_FCMD (EEFC_FCR_word a c) = c AND 0xFF" "FCR_FARG (EEFC_FCR_word a c) = a AND 0xFFFF"
  "FCR_FKEY (EEFC_FCR_word a c) = 0x5A"
  unfolding FCR_FCMD_def FCR_FARG_def FCR_FKEY_def EEFC_FCR_word_def masks FCR_fields_gen
  by (simp_all add: mask_eq_exp_minus_1)

text \<open>
  The command word of the flash controller decodes to the command and the page number it was
  made from, for every command of the driver and every page number of 16 bits, and always carries the key.
\<close>

lemma EEFC_FCR_round_trip:
  "FCR_FCMD (EEFC_FCR_word (ucast (page :: u16)) (ucast (cmd :: u8))) = ucast cmd \<and>
   FCR_FARG (EEFC_FCR_word (ucast page) (ucast cmd)) = ucast page \<and>
   FCR_FKEY (EEFC_FCR_word (ucast page) (ucast cmd)) = 0x5A"
proof -
  have "(ucast cmd :: u32) AND mask 8 = ucast cmd" "(ucast page :: u32) AND mask 16 = ucast page"
    by (rule bit_word_eqI; auto simp: bit_simps dest: bit_imp_le_length)+
  then show ?thesis by (simp add: FCR_fields masks)
qed

end
