(* ===== verification/Clock.thy ===== *)
theory Clock
  imports Pmc Efc
begin

text \<open>
  The clock service: \<^verbatim>\<open>osc.h\<close>, \<^verbatim>\<open>pll.h\<close>, \<^verbatim>\<open>sysclk.h\<close> and
  \<^verbatim>\<open>sysclk.c\<close> under \<^verbatim>\<open>src/asf/common/services/clock\<close>, with the clock functions of
  \<^verbatim>\<open>system_sam3u.c\<close> that they call. The configuration symbols are those of
  \<^verbatim>\<open>src/src/conf_clock.h\<close> and \<^verbatim>\<open>src/src/conf_board.h\<close>. The variable
  \<open>SystemCoreClock\<close> is written and never read, so the functions that update it return its new
  value.
\<close>

abbreviation (input) OSC_SLCK_32K_RC :: u32 where "OSC_SLCK_32K_RC \<equiv> 0"
abbreviation (input) OSC_SLCK_32K_XTAL :: u32 where "OSC_SLCK_32K_XTAL \<equiv> 1"
abbreviation (input) OSC_SLCK_32K_BYPASS :: u32 where "OSC_SLCK_32K_BYPASS \<equiv> 2"
abbreviation (input) OSC_MAINCK_4M_RC :: u32 where "OSC_MAINCK_4M_RC \<equiv> 3"
abbreviation (input) OSC_MAINCK_8M_RC :: u32 where "OSC_MAINCK_8M_RC \<equiv> 4"
abbreviation (input) OSC_MAINCK_12M_RC :: u32 where "OSC_MAINCK_12M_RC \<equiv> 5"
abbreviation (input) OSC_MAINCK_XTAL :: u32 where "OSC_MAINCK_XTAL \<equiv> 6"
abbreviation (input) OSC_MAINCK_BYPASS :: u32 where "OSC_MAINCK_BYPASS \<equiv> 7"
abbreviation (input) SYSCLK_SRC_PLLACK :: u32 where "SYSCLK_SRC_PLLACK \<equiv> 8"
abbreviation (input) SYSCLK_SRC_UPLLCK :: u32 where "SYSCLK_SRC_UPLLCK \<equiv> 9"

abbreviation (input) CHIP_FREQ_SLCK_RC :: u32 where "CHIP_FREQ_SLCK_RC \<equiv> 32000"
abbreviation (input) CHIP_FREQ_XTAL_32K :: u32 where "CHIP_FREQ_XTAL_32K \<equiv> 32768"
abbreviation (input) CHIP_FREQ_XTAL_12M :: u32 where "CHIP_FREQ_XTAL_12M \<equiv> 12000000"
abbreviation (input) CHIP_FREQ_MAINCK_RC_4MHZ :: u32 where "CHIP_FREQ_MAINCK_RC_4MHZ \<equiv> 4000000"
abbreviation (input) CHIP_FREQ_CPU_MAX :: u32 where "CHIP_FREQ_CPU_MAX \<equiv> 96000000"

abbreviation (input) CONFIG_SYSCLK_SOURCE :: u32 where "CONFIG_SYSCLK_SOURCE \<equiv> SYSCLK_SRC_PLLACK"
abbreviation (input) CONFIG_SYSCLK_PRES :: u32 where "CONFIG_SYSCLK_PRES \<equiv> PMC_MCKR_PRES_CLK_2"
abbreviation (input) CONFIG_PLL0_SOURCE :: u32 where "CONFIG_PLL0_SOURCE \<equiv> OSC_MAINCK_XTAL"
abbreviation (input) CONFIG_PLL0_MUL :: u32 where "CONFIG_PLL0_MUL \<equiv> 16"
abbreviation (input) CONFIG_PLL0_DIV :: u32 where "CONFIG_PLL0_DIV \<equiv> 1"
abbreviation (input) CONFIG_PLL1_SOURCE :: u32 where "CONFIG_PLL1_SOURCE \<equiv> OSC_MAINCK_XTAL"
abbreviation (input) PLL_COUNT :: u32 where "PLL_COUNT \<equiv> 0x3F"

definition F_CPU :: u32 where "F_CPU = 16 * 12000000 div 2"

section \<open>Oscillators\<close>

definition pmc_us_to_moscxtst :: "u32 \<Rightarrow> u32 \<Rightarrow> u32" where
  "pmc_us_to_moscxtst startup_us slowck_freq =
     (if startup_us * slowck_freq div 8 div 1000000 < 0x100
      then startup_us * slowck_freq div 8 div 1000000 else 0xFF)"

definition osc_enable :: "hw \<Rightarrow> u32 \<Rightarrow> 'z mach_scheme \<Rightarrow> 'z mach_scheme option" where
  "osc_enable hw ul_id s =
     (if ul_id = OSC_SLCK_32K_RC then Some s
      else if ul_id = OSC_SLCK_32K_XTAL then Some (pmc_switch_sclk_to_32kxtal hw 0 s)
      else if ul_id = OSC_SLCK_32K_BYPASS then Some (pmc_switch_sclk_to_32kxtal hw 1 s)
      else if ul_id = OSC_MAINCK_4M_RC then pmc_osc_enable_fastrc hw 0 s
      else if ul_id = OSC_MAINCK_8M_RC then pmc_osc_enable_fastrc hw 0x10 s
      else if ul_id = OSC_MAINCK_12M_RC then pmc_osc_enable_fastrc hw 0x20 s
      else if ul_id = OSC_MAINCK_XTAL
        then pmc_osc_enable_main_xtal hw (pmc_us_to_moscxtst 15625 CHIP_FREQ_SLCK_RC) s
      else if ul_id = OSC_MAINCK_BYPASS then Some (pmc_osc_bypass_main_xtal hw s)
      else Some s)"

definition osc_disable :: "hw \<Rightarrow> u32 \<Rightarrow> 'z mach_scheme \<Rightarrow> 'z mach_scheme" where
  "osc_disable hw ul_id s =
     (if ul_id = OSC_SLCK_32K_RC \<or> ul_id = OSC_SLCK_32K_XTAL \<or> ul_id = OSC_SLCK_32K_BYPASS then s
      else if ul_id = OSC_MAINCK_4M_RC \<or> ul_id = OSC_MAINCK_8M_RC \<or> ul_id = OSC_MAINCK_12M_RC
        then pmc_osc_disable_fastrc hw s
      else if ul_id = OSC_MAINCK_XTAL then pmc_osc_disable_xtal hw 0 s
      else if ul_id = OSC_MAINCK_BYPASS then pmc_osc_disable_xtal hw 1 s
      else s)"

definition osc_is_ready :: "hw \<Rightarrow> u32 \<Rightarrow> 'z mach_scheme \<Rightarrow> bool \<times> 'z mach_scheme" where
  "osc_is_ready hw ul_id s =
     (if ul_id = OSC_SLCK_32K_RC then (True, s)
      else if ul_id = OSC_SLCK_32K_XTAL \<or> ul_id = OSC_SLCK_32K_BYPASS
        then let (v, s) = pmc_osc_is_ready_32kxtal hw s in (v \<noteq> 0, s)
      else if ul_id = OSC_MAINCK_4M_RC \<or> ul_id = OSC_MAINCK_8M_RC \<or> ul_id = OSC_MAINCK_12M_RC
        then let (v, s) = pmc_osc_is_ready_fastrc hw s in (v \<noteq> 0, s)
      else if ul_id = OSC_MAINCK_XTAL \<or> ul_id = OSC_MAINCK_BYPASS
        then let (v, s) = pmc_osc_is_ready_main_xtal hw s in (v \<noteq> 0, s)
      else (False, s))"

definition osc_get_rate :: "u32 \<Rightarrow> u32" where
  "osc_get_rate ul_id =
     (if ul_id = OSC_SLCK_32K_RC then CHIP_FREQ_SLCK_RC
      else if ul_id = OSC_SLCK_32K_XTAL then 32768
      else if ul_id = OSC_SLCK_32K_BYPASS then 32768
      else if ul_id = OSC_MAINCK_4M_RC then 4000000
      else if ul_id = OSC_MAINCK_8M_RC then 8000000
      else if ul_id = OSC_MAINCK_12M_RC then 12000000
      else if ul_id = OSC_MAINCK_XTAL then 12000000
      else if ul_id = OSC_MAINCK_BYPASS then 12000000
      else 0)"

partial_function (option) osc_wait_ready :: "hw \<Rightarrow> u32 \<Rightarrow> 'z mach_scheme \<Rightarrow> 'z mach_scheme option" where
  "osc_wait_ready hw ident s =
     (let (ready, s) = osc_is_ready hw ident s in if ready then Some s else osc_wait_ready hw ident s)"

section \<open>PLLs\<close>

text \<open>The word \<open>ctrl\<close> of \<open>struct pll_config\<close>; the frequency checks are assertions.\<close>

definition pll_config_init :: "u32 \<Rightarrow> u32 \<Rightarrow> u32" where
  "pll_config_init ul_div ul_mul =
     (if ul_div = 0 \<and> ul_mul = 0 then CKGR_UCKR_UPLLCOUNT PLL_COUNT
      else CKGR_PLLAR_MULA (ul_mul - 1) OR CKGR_PLLAR_DIVA ul_div OR CKGR_PLLAR_PLLACOUNT PLL_COUNT)"

definition pll_config_read :: "hw \<Rightarrow> u32 \<Rightarrow> 'z mach_scheme \<Rightarrow> u32 \<times> 'z mach_scheme" where
  "pll_config_read hw ul_pll_id s =
     (if ul_pll_id = 0 then rd hw PMC CKGR_PLLAR s else rd hw PMC CKGR_UCKR s)"

definition pll_config_write :: "u32 \<Rightarrow> u32 \<Rightarrow> 'z mach_scheme \<Rightarrow> 'z mach_scheme" where
  "pll_config_write ctrl ul_pll_id s =
     (if ul_pll_id = 0 then wr PMC CKGR_PLLAR (CKGR_PLLAR_ONE OR ctrl) (pmc_disable_pllack s)
      else wr PMC CKGR_UCKR ctrl s)"

definition pll_enable :: "u32 \<Rightarrow> u32 \<Rightarrow> 'z mach_scheme \<Rightarrow> 'z mach_scheme" where
  "pll_enable ctrl ul_pll_id s =
     (if ul_pll_id = 0 then wr PMC CKGR_PLLAR (CKGR_PLLAR_ONE OR ctrl) (pmc_disable_pllack s)
      else wr PMC CKGR_UCKR (ctrl OR CKGR_UCKR_UPLLEN) s)"

definition pll_disable :: "hw \<Rightarrow> u32 \<Rightarrow> 'z mach_scheme \<Rightarrow> 'z mach_scheme" where
  "pll_disable hw ul_pll_id s =
     (if ul_pll_id = 0 then pmc_disable_pllack s
      else rmw hw PMC CKGR_UCKR (\<lambda>v. v AND NOT CKGR_UCKR_UPLLEN) s)"

definition pll_is_locked :: "hw \<Rightarrow> u32 \<Rightarrow> 'z mach_scheme \<Rightarrow> u32 \<times> 'z mach_scheme" where
  "pll_is_locked hw ul_pll_id s =
     (if ul_pll_id = 0 then pmc_is_locked_pllack hw s else pmc_is_locked_upll hw s)"

definition pll_enable_source :: "hw \<Rightarrow> u32 \<Rightarrow> 'z mach_scheme \<Rightarrow> 'z mach_scheme option" where
  "pll_enable_source hw e_src s =
     (if OSC_MAINCK_4M_RC \<le> e_src \<and> e_src \<le> OSC_MAINCK_BYPASS
      then do { s \<leftarrow> osc_enable hw e_src s; osc_wait_ready hw e_src s }
      else Some s)"

partial_function (option) pll_wait_for_lock :: "hw \<Rightarrow> u32 \<Rightarrow> 'z mach_scheme \<Rightarrow> 'z mach_scheme option" where
  "pll_wait_for_lock hw pll_id s =
     (let (v, s) = pll_is_locked hw pll_id s in if v \<noteq> 0 then Some s else pll_wait_for_lock hw pll_id s)"

text \<open>\<open>while (!pmc_osc_is_ready_mainck())\<close>\<close>

partial_function (option) wait_mainck :: "hw \<Rightarrow> 'z mach_scheme \<Rightarrow> 'z mach_scheme option" where
  "wait_mainck hw s =
     (let (v, s) = pmc_osc_is_ready_mainck hw s in if v \<noteq> 0 then Some s else wait_mainck hw s)"

text \<open>
  Select the source of the main clock for the PLL. \<open>CONFIG_PLL1_SOURCE\<close> is defined, so the
  crystal is left on in the first case.
\<close>

definition select_mainck :: "hw \<Rightarrow> u32 \<Rightarrow> 'z mach_scheme \<Rightarrow> 'z mach_scheme option" where
  "select_mainck hw src s =
     (if src = OSC_MAINCK_4M_RC \<or> src = OSC_MAINCK_8M_RC \<or> src = OSC_MAINCK_12M_RC
      then wait_mainck hw (pmc_mainck_osc_select hw 0 s)
      else if src = OSC_MAINCK_XTAL \<or> src = OSC_MAINCK_BYPASS
      then wait_mainck hw (pmc_mainck_osc_select hw CKGR_MOR_MOSCSEL s)
      else Some s)"

definition pll_enable_config_defaults :: "hw \<Rightarrow> u32 \<Rightarrow> 'z mach_scheme \<Rightarrow> 'z mach_scheme option" where
  "pll_enable_config_defaults hw ul_pll_id s =
     (let (locked, s) = pll_is_locked hw ul_pll_id s
      in if locked \<noteq> 0 then Some s
         else if ul_pll_id = 0 then
           do {
             s \<leftarrow> pll_enable_source hw CONFIG_PLL0_SOURCE s;
             s \<leftarrow> select_mainck hw CONFIG_PLL0_SOURCE s;
             pll_wait_for_lock hw 0 (pll_enable (pll_config_init CONFIG_PLL0_DIV CONFIG_PLL0_MUL) 0 s)
           }
         else
           do {
             let (bypassed, s) = pmc_osc_is_bypassed_main_xtal hw s;
             s \<leftarrow> (if bypassed \<noteq> 0 then Some s else pll_enable_source hw CONFIG_PLL1_SOURCE s);
             pll_wait_for_lock hw ul_pll_id (pll_enable (pll_config_init 0 0) ul_pll_id s)
           })"

section \<open>Rates\<close>

definition sysclk_get_main_hz :: u32 where
  "sysclk_get_main_hz =
     (if CONFIG_SYSCLK_SOURCE < SYSCLK_SRC_PLLACK then osc_get_rate CONFIG_SYSCLK_SOURCE
      else if CONFIG_SYSCLK_SOURCE = SYSCLK_SRC_PLLACK
      then osc_get_rate CONFIG_PLL0_SOURCE * CONFIG_PLL0_MUL div CONFIG_PLL0_DIV
      else if CONFIG_SYSCLK_SOURCE = SYSCLK_SRC_UPLLCK then 480000000
      else 0)"

definition sysclk_get_cpu_hz :: u32 where
  "sysclk_get_cpu_hz =
     sysclk_get_main_hz div
       (if CONFIG_SYSCLK_PRES = PMC_MCKR_PRES_CLK_3 then 3
        else push_bit (unat (drop_bit 4 CONFIG_SYSCLK_PRES)) 1)"

definition sysclk_get_peripheral_hz :: u32 where
  "sysclk_get_peripheral_hz =
     sysclk_get_main_hz div
       (if CONFIG_SYSCLK_PRES = PMC_MCKR_PRES_CLK_3 then 3
        else push_bit (unat (drop_bit 4 CONFIG_SYSCLK_PRES)) 1)"

text \<open>The frequency of the main clock as the code reads it back from the oscillator register.\<close>

definition read_mainck_hz :: "hw \<Rightarrow> 'z mach_scheme \<Rightarrow> u32 \<times> 'z mach_scheme" where
  "read_mainck_hz hw s =
     (let (mor, s) = rd hw PMC CKGR_MOR s
      in if mor AND CKGR_MOR_MOSCSEL \<noteq> 0 then (CHIP_FREQ_XTAL_12M, s)
         else let (mor, s) = rd hw PMC CKGR_MOR s; f = mor AND CKGR_MOR_MOSCRCF_Msk
              in (if f = 0x10 then CHIP_FREQ_MAINCK_RC_4MHZ * 2
                  else if f = 0x20 then CHIP_FREQ_MAINCK_RC_4MHZ * 3
                  else CHIP_FREQ_MAINCK_RC_4MHZ, s))"

definition read_source_hz :: "hw \<Rightarrow> 'z mach_scheme \<Rightarrow> u32 \<times> 'z mach_scheme" where
  "read_source_hz hw s =
     (let (mckr, s) = rd hw PMC PMC_MCKR s; css = mckr AND PMC_MCKR_CSS_Msk
      in if css = PMC_MCKR_CSS_SLOW_CLK then
           let (sr, s) = rd hw SUPC SUPC_SR s
           in (if sr AND SUPC_SR_OSCSEL \<noteq> 0 then CHIP_FREQ_XTAL_32K else CHIP_FREQ_SLCK_RC, s)
         else if css = PMC_MCKR_CSS_MAIN_CLK then read_mainck_hz hw s
         else
           let (f, s) = read_mainck_hz hw s;
               (mckr, s) = rd hw PMC PMC_MCKR s
           in if mckr AND PMC_MCKR_CSS_Msk = PMC_MCKR_CSS_PLLA_CLK then
                let (pll, s) = rd hw PMC CKGR_PLLAR s;
                    f = f * (drop_bit 16 (pll AND push_bit 16 0x7FF) + 1);
                    (pll, s) = rd hw PMC CKGR_PLLAR s
                in (f div (pll AND 0xFF), s)
              else (480000000 div 2, s))"

definition SystemCoreClockUpdate :: "hw \<Rightarrow> 'z mach_scheme \<Rightarrow> u32 \<times> 'z mach_scheme" where
  "SystemCoreClockUpdate hw s =
     (let (f, s) = read_source_hz hw s;
          (mckr, s) = rd hw PMC PMC_MCKR s
      in if mckr AND PMC_MCKR_PRES_Msk = PMC_MCKR_PRES_CLK_3 then (f div 3, s)
         else let (mckr, s) = rd hw PMC PMC_MCKR s
              in (drop_bit (unat (drop_bit 4 (mckr AND PMC_MCKR_PRES_Msk))) f, s))"

definition flash_wait_states :: "u32 \<Rightarrow> u32" where
  "flash_wait_states ul_clk =
     (if ul_clk < 24000000 then 0 else if ul_clk < 40000000 then 1
      else if ul_clk < 72000000 then 2 else if ul_clk < 84000000 then 3 else 4)"

definition system_init_flash :: "u32 \<Rightarrow> 'z mach_scheme \<Rightarrow> 'z mach_scheme" where
  "system_init_flash ul_clk s =
     wr EFC1 EEFC_FMR (EEFC_FMR_FWS (flash_wait_states ul_clk))
       (wr EFC0 EEFC_FMR (EEFC_FMR_FWS (flash_wait_states ul_clk)) s)"

text \<open>\<open>SystemInit\<close> runs before \<open>main\<close>, from the reset handler.\<close>

abbreviation (input) SYS_BOARD_PLLAR :: u32 where
  "SYS_BOARD_PLLAR \<equiv> CKGR_PLLAR_ONE OR CKGR_PLLAR_MULA 0xF OR CKGR_PLLAR_PLLACOUNT 0x3F OR CKGR_PLLAR_DIVA 1"
abbreviation (input) SYS_BOARD_MCKR :: u32 where
  "SYS_BOARD_MCKR \<equiv> PMC_MCKR_PRES_CLK_2 OR PMC_MCKR_CSS_PLLA_CLK"

definition SystemInit :: "hw \<Rightarrow> 'z mach_scheme \<Rightarrow> (u32 \<times> 'z mach_scheme) option" where
  "SystemInit hw s =
     do {
       let s = wr EFC0 EEFC_FMR (EEFC_FMR_FWS 4) s;
       let s = wr EFC1 EEFC_FMR (EEFC_FMR_FWS 4) s;
       let (mor, s) = rd hw PMC CKGR_MOR s;
       s \<leftarrow> (if mor AND CKGR_MOR_MOSCSEL = 0
             then pmc_wait_for hw PMC_SR_MOSCXTS
                    (wr PMC CKGR_MOR (CKGR_MOR_KEY_PASSWD OR CKGR_MOR_MOSCXTST 8 OR CKGR_MOR_MOSCRCEN
                                      OR CKGR_MOR_MOSCXTEN) s)
             else Some s);
       s \<leftarrow> pmc_wait_for hw PMC_SR_MOSCSELS
              (wr PMC CKGR_MOR (CKGR_MOR_KEY_PASSWD OR CKGR_MOR_MOSCXTST 8 OR CKGR_MOR_MOSCRCEN
                                OR CKGR_MOR_MOSCXTEN OR CKGR_MOR_MOSCSEL) s);
       s \<leftarrow> pmc_wait_for hw PMC_SR_MCKRDY (mckr_update hw PMC_MCKR_CSS_Msk PMC_MCKR_CSS_MAIN_CLK s);
       s \<leftarrow> pmc_wait_for hw PMC_SR_LOCKA (wr PMC CKGR_PLLAR SYS_BOARD_PLLAR s);
       s \<leftarrow> pmc_wait_for hw PMC_SR_MCKRDY
              (wr PMC PMC_MCKR (SYS_BOARD_MCKR AND NOT PMC_MCKR_CSS_Msk OR PMC_MCKR_CSS_MAIN_CLK) s);
       s \<leftarrow> pmc_wait_for hw PMC_SR_MCKRDY (wr PMC PMC_MCKR SYS_BOARD_MCKR s);
       Some (CHIP_FREQ_CPU_MAX, s)
     }"

section \<open>The system clock\<close>

definition sysclk_set_prescalers :: "hw \<Rightarrow> u32 \<Rightarrow> 'z mach_scheme \<Rightarrow> (u32 \<times> 'z mach_scheme) option" where
  "sysclk_set_prescalers hw ul_pres s =
     do { s \<leftarrow> pmc_mck_set_prescaler hw ul_pres s; Some (SystemCoreClockUpdate hw s) }"

definition sysclk_set_source :: "hw \<Rightarrow> u32 \<Rightarrow> 'z mach_scheme \<Rightarrow> (u32 \<times> 'z mach_scheme) option" where
  "sysclk_set_source hw ul_src s =
     do {
       s \<leftarrow> (if ul_src \<le> OSC_SLCK_32K_BYPASS then pmc_mck_set_source hw PMC_MCKR_CSS_SLOW_CLK s
             else if ul_src \<le> OSC_MAINCK_BYPASS then pmc_mck_set_source hw PMC_MCKR_CSS_MAIN_CLK s
             else if ul_src = SYSCLK_SRC_PLLACK then pmc_mck_set_source hw PMC_MCKR_CSS_PLLA_CLK s
             else if ul_src = SYSCLK_SRC_UPLLCK then pmc_mck_set_source hw PMC_MCKR_CSS_UPLL_CLK s
             else Some s);
       Some (SystemCoreClockUpdate hw s)
     }"

definition sysclk_enable_usb :: "hw \<Rightarrow> 'z mach_scheme \<Rightarrow> 'z mach_scheme option" where
  "sysclk_enable_usb hw s =
     do {
       s \<leftarrow> pll_enable_source hw CONFIG_PLL1_SOURCE s;
       pll_wait_for_lock hw 1 (pll_enable (pll_config_init 0 0) 1 s)
     }"

definition sysclk_disable_usb :: "hw \<Rightarrow> 'z mach_scheme \<Rightarrow> 'z mach_scheme" where
  "sysclk_disable_usb hw s =
     (if CONFIG_SYSCLK_SOURCE \<noteq> SYSCLK_SRC_UPLLCK then pll_disable hw 1 s else s)"

text \<open>
  The chain of \<open>sysclk_init\<close> over the configured source. The results of the bounded switches
  are discarded, as in the code.
\<close>

definition sysclk_switch :: "hw \<Rightarrow> u32 \<Rightarrow> 'z mach_scheme \<Rightarrow> 'z mach_scheme option" where
  "sysclk_switch hw src s =
     (if src \<le> OSC_SLCK_32K_BYPASS then
        do {
          s \<leftarrow> osc_enable hw src s;
          s \<leftarrow> osc_wait_ready hw src s;
          Some (snd (pmc_switch_mck_to_sclk hw CONFIG_SYSCLK_PRES s))
        }
      else if src = OSC_MAINCK_4M_RC then Some s
      else if src \<le> OSC_MAINCK_BYPASS then
        do {
          s \<leftarrow> osc_enable hw src s;
          s \<leftarrow> osc_wait_ready hw src s;
          Some (snd (pmc_switch_mck_to_mainck hw CONFIG_SYSCLK_PRES s))
        }
      else if src = SYSCLK_SRC_PLLACK then
        do {
          s \<leftarrow> pll_enable_source hw CONFIG_PLL0_SOURCE s;
          s \<leftarrow> select_mainck hw CONFIG_PLL0_SOURCE s;
          s \<leftarrow> pll_wait_for_lock hw 0 (pll_enable (pll_config_init CONFIG_PLL0_DIV CONFIG_PLL0_MUL) 0 s);
          Some (snd (pmc_switch_mck_to_pllack hw CONFIG_SYSCLK_PRES s))
        }
      else if src = SYSCLK_SRC_UPLLCK then
        do {
          s \<leftarrow> pll_enable_source hw CONFIG_PLL1_SOURCE s;
          s \<leftarrow> pll_wait_for_lock hw 1 (pll_enable (pll_config_init 0 0) 1 s);
          Some (snd (pmc_switch_mck_to_upllck hw CONFIG_SYSCLK_PRES s))
        }
      else Some s)"

definition sysclk_init :: "hw \<Rightarrow> 'z mach_scheme \<Rightarrow> (u32 \<times> 'z mach_scheme) option" where
  "sysclk_init hw s =
     do {
       let s = system_init_flash CHIP_FREQ_CPU_MAX s;
       s \<leftarrow> sysclk_switch hw CONFIG_SYSCLK_SOURCE s;
       let (SystemCoreClock, s) = SystemCoreClockUpdate hw s;
       Some (SystemCoreClock, system_init_flash sysclk_get_cpu_hz s)
     }"

section \<open>The clock after start-up\<close>

text \<open>Waiting writes no register.\<close>

lemma reg_pmc_wait_for: "pmc_wait_for hw m s = Some s' \<Longrightarrow> reg_of p r v (trace s') = reg_of p r v (trace s)"
  by (auto simp: pmc_wait_for_def dest!: poll_Some)

lemma reg_osc_wait_ready: "osc_wait_ready hw i s = Some s' \<Longrightarrow> reg_of p r v (trace s') = reg_of p r v (trace s)"
proof (induction rule: osc_wait_ready.raw_induct [rotated 1, consumes 1, case_names step])
  case (step f hw i s s')
  have "reg_of p r v (trace (snd (osc_is_ready hw i s))) = reg_of p r v (trace s)"
    by (simp add: osc_is_ready_def pmc_osc_is_ready_32kxtal_def pmc_osc_is_ready_fastrc_def
        pmc_osc_is_ready_main_xtal_def rd_def Let_def)
  then show ?case using step by (auto simp: split_def Let_def split: if_splits)
qed

lemma reg_pll_wait: "pll_wait_for_lock hw i s = Some s' \<Longrightarrow> reg_of p r v (trace s') = reg_of p r v (trace s)"
proof (induction rule: pll_wait_for_lock.raw_induct [rotated 1, consumes 1, case_names step])
  case (step f hw i s s')
  then show ?case
    by (auto simp: split_def Let_def pll_is_locked_def pmc_is_locked_pllack_def pmc_is_locked_upll_def rd_def
        split: if_splits)
qed

lemma reg_wait_mainck: "wait_mainck hw s = Some s' \<Longrightarrow> reg_of p r v (trace s') = reg_of p r v (trace s)"
proof (induction rule: wait_mainck.raw_induct [rotated 1, consumes 1, case_names step])
  case (step f hw s s')
  then show ?case by (auto simp: split_def Let_def pmc_osc_is_ready_mainck_def rd_def split: if_splits)
qed

lemma pmc_wait_True:
  "k \<le> n \<Longrightarrow> hw (replicate k (Rd PMC PMC_SR) @ trace s) PMC PMC_SR AND m \<noteq> 0 \<Longrightarrow> fst (pmc_wait hw m n s)"
proof (induction n arbitrary: s k)
  case 0
  then show ?case by (simp add: rd_def)
next
  case (Suc n)
  show ?case
  proof (cases k)
    case 0
    then show ?thesis using Suc.prems by (simp add: rd_def)
  next
    case (Suc j)
    then have "fst (pmc_wait hw m n (snd (rd hw PMC PMC_SR s)))"
      using Suc.prems by (intro Suc.IH [of j]) (simp_all add: rd_def replicate_app_Cons_same)
    then show ?thesis by (simp add: rd_def Let_def split_def)
  qed
qed

text \<open>The clock controller that the start-up code relies on.\<close>

definition clock_registers :: "hw \<Rightarrow> u32 \<Rightarrow> u32 \<Rightarrow> u32 \<Rightarrow> bool" where
  "clock_registers hw mckr0 mor0 pll0 \<longleftrightarrow>
     (\<forall>tr. hw tr PMC PMC_MCKR = reg_of PMC PMC_MCKR mckr0 tr \<and> hw tr PMC CKGR_MOR = reg_of PMC CKGR_MOR mor0 tr \<and>
        hw tr PMC CKGR_PLLAR = reg_of PMC CKGR_PLLAR pll0 tr \<and>
        (\<exists>k \<le> PMC_TIMEOUT. hw (replicate k (Rd PMC PMC_SR) @ tr) PMC PMC_SR AND PMC_SR_MCKRDY \<noteq> 0))"

lemma mck_step_ready:
  assumes "clock_registers hw v1 v2 v3"
  shows "\<exists>k. mck_step hw m v s =
    (True, trace_update (\<lambda>t. replicate k (Rd PMC PMC_SR) @ Wr PMC PMC_MCKR (reg_of PMC PMC_MCKR v1 (trace s) AND NOT m OR v)
              # Rd PMC PMC_MCKR # t) s)"
proof -
  let ?u = "mckr_update hw m v s"
  have u: "?u = trace_update (\<lambda>t. Wr PMC PMC_MCKR (reg_of PMC PMC_MCKR v1 (trace s) AND NOT m OR v) # Rd PMC PMC_MCKR # t) s"
    using assms by (simp add: mckr_update_def rmw_def rd_def wr_def clock_registers_def comp_def)
  have "fst (mck_step hw m v s)"
    using assms pmc_wait_True [of _ PMC_TIMEOUT hw ?u PMC_SR_MCKRDY] by (auto simp: mck_step_def clock_registers_def)
  moreover obtain k where "snd (mck_step hw m v s) = trace_update (\<lambda>t. replicate k (Rd PMC PMC_SR) @ t) ?u"
    using pmc_wait_reads [of PMC_TIMEOUT hw PMC_SR_MCKRDY ?u] by (auto simp: mck_step_def)
  ultimately show ?thesis by (intro exI [of _ k] prod_eqI) (simp_all add: u comp_def)
qed

lemma switch_pllack_ready:
  assumes "clock_registers hw v1 v2 v3" and "s' = snd (pmc_switch_mck_to_pllack hw pres s)"
  shows "reg_of PMC PMC_MCKR v1 (trace s') = (reg_of PMC PMC_MCKR v1 (trace s) AND NOT 0x70 OR pres) AND NOT 3 OR 2"
    "reg_of PMC CKGR_MOR v2 (trace s') = reg_of PMC CKGR_MOR v2 (trace s)"
    "reg_of PMC CKGR_PLLAR v3 (trace s') = reg_of PMC CKGR_PLLAR v3 (trace s)"
    "reg_of EFC0 EEFC_FMR v4 (trace s') = reg_of EFC0 EEFC_FMR v4 (trace s)"
proof -
  obtain k where 1: "mck_step hw PMC_MCKR_PRES_Msk pres s =
    (True, trace_update (\<lambda>t. replicate k (Rd PMC PMC_SR) @ Wr PMC PMC_MCKR (reg_of PMC PMC_MCKR v1 (trace s) AND NOT 0x70 OR pres)
              # Rd PMC PMC_MCKR # t) s)"
    using mck_step_ready [OF assms(1)] by blast
  let ?s = "snd (mck_step hw PMC_MCKR_PRES_Msk pres s)"
  obtain j where 2: "mck_step hw PMC_MCKR_CSS_Msk PMC_MCKR_CSS_PLLA_CLK ?s =
    (True, trace_update (\<lambda>t. replicate j (Rd PMC PMC_SR) @ Wr PMC PMC_MCKR (reg_of PMC PMC_MCKR v1 (trace ?s) AND NOT 3 OR 2)
              # Rd PMC PMC_MCKR # t) ?s)"
    using mck_step_ready [OF assms(1)] by blast
  show "reg_of PMC PMC_MCKR v1 (trace s') = (reg_of PMC PMC_MCKR v1 (trace s) AND NOT 0x70 OR pres) AND NOT 3 OR 2"
    "reg_of PMC CKGR_MOR v2 (trace s') = reg_of PMC CKGR_MOR v2 (trace s)"
    "reg_of PMC CKGR_PLLAR v3 (trace s') = reg_of PMC CKGR_PLLAR v3 (trace s)"
    "reg_of EFC0 EEFC_FMR v4 (trace s') = reg_of EFC0 EEFC_FMR v4 (trace s)"
    using 2 unfolding assms(2) by (simp_all add: pmc_switch_mck_to_pllack_def 1)
qed

lemma mckr_fields:
  fixes m :: u32
  shows "((m AND NOT 0x70 OR 0x10) AND NOT 3 OR 2) AND 3 = 2"
    "((m AND NOT 0x70 OR 0x10) AND NOT 3 OR 2) AND 0x70 = 0x10"
  by (simp_all add: bit.conj_disj_distrib2 and.assoc)

lemma pllar_fields:
  "(CKGR_PLLAR_ONE OR pll_config_init 1 16) AND push_bit 16 0x7FF = 0xF0000"
  "(CKGR_PLLAR_ONE OR pll_config_init 1 16) AND 0xFF = 1"
  by (simp_all add: pll_config_init_def CKGR_PLLAR_MULA_def CKGR_PLLAR_DIVA_def CKGR_PLLAR_PLLACOUNT_def)

lemma clock_update_96:
  assumes "clock_registers hw v1 v2 v3"
    and "reg_of PMC CKGR_MOR v2 (trace s) AND CKGR_MOR_MOSCSEL \<noteq> 0"
    and "reg_of PMC CKGR_PLLAR v3 (trace s) AND push_bit 16 0x7FF = 0xF0000"
    and "reg_of PMC CKGR_PLLAR v3 (trace s) AND 0xFF = 1"
    and "reg_of PMC PMC_MCKR v1 (trace s) AND 3 = 2" and "reg_of PMC PMC_MCKR v1 (trace s) AND 0x70 = 0x10"
  shows "fst (SystemCoreClockUpdate hw s) = F_CPU"
proof -
  have d: "drop_bit 16 w AND 0x7FF = drop_bit 16 (w AND push_bit 16 0x7FF)"
    "drop_bit 4 w AND 7 = drop_bit 4 (w AND 0x70)" for w :: u32 by simp_all
  have "drop_bit 16 (reg_of PMC CKGR_PLLAR v3 (trace s)) AND 0x7FF = 15"
    "drop_bit 4 (reg_of PMC PMC_MCKR v1 (trace s)) AND 7 = 1"
    unfolding d assms by simp_all
  then show ?thesis using assms
    by (simp add: SystemCoreClockUpdate_def read_source_hz_def read_mainck_hz_def rd_def Let_def
        clock_registers_def F_CPU_def)
qed

text \<open>
  \<^bold>\<open>C21\<close>. If \<open>sysclk_init\<close> returns, the processor runs at the frequency all delays and serial clocks of the
  program are computed from: the crystal drives the PLL, which multiplies by 16, and the prescaler divides by 2; the
  frequency the code reads back from the registers, the one computed from the configuration and
  \<open>F_CPU\<close> are all 96 MHz. The flash is left with the four wait states that this frequency
  needs. The clock registers are assumed to read back as written and the master clock to become ready
  within the time-out.
\<close>

theorem sysclk_init_rate:
  assumes "clock_registers hw v1 v2 v3" and "sysclk_init hw s = Some (f, s')"
  shows "f = F_CPU \<and> F_CPU = 96000000 \<and> sysclk_get_cpu_hz = F_CPU \<and>
    reg_of EFC0 EEFC_FMR v4 (trace s') = EEFC_FMR_FWS 4 \<and>
    reg_of EFC1 EEFC_FMR v4 (trace s') = EEFC_FMR_FWS (flash_wait_states F_CPU)"
proof -
  have cpu: "sysclk_get_cpu_hz = 96000000" "F_CPU = 96000000"
    by (simp_all add: sysclk_get_cpu_hz_def sysclk_get_main_hz_def osc_get_rate_def F_CPU_def)
  let ?s0 = "system_init_flash CHIP_FREQ_CPU_MAX s"
  obtain a b c d where "osc_enable hw 6 ?s0 = Some a" "osc_wait_ready hw 6 a = Some b"
    and c: "wait_mainck hw (pmc_mainck_osc_select hw CKGR_MOR_MOSCSEL b) = Some c"
    and d: "pll_wait_for_lock hw 0 (pll_enable (pll_config_init 1 16) 0 c) = Some d"
    and e: "f = fst (SystemCoreClockUpdate hw (snd (pmc_switch_mck_to_pllack hw 0x10 d)))"
      "s' = system_init_flash sysclk_get_cpu_hz
              (snd (SystemCoreClockUpdate hw (snd (pmc_switch_mck_to_pllack hw 0x10 d))))"
    using assms(2)
    by (auto simp: sysclk_init_def sysclk_switch_def pll_enable_source_def select_mainck_def Let_def
        split_def bind_eq_Some_conv)
  let ?e = "snd (pmc_switch_mck_to_pllack hw 0x10 d)"
  note sw = switch_pllack_ready [OF assms(1) refl [of ?e]]
  have "reg_of PMC CKGR_MOR v2 (trace ?e) AND CKGR_MOR_MOSCSEL \<noteq> 0"
    using reg_wait_mainck [OF c] reg_pll_wait [OF d] sw(2)
    by (simp add: pll_enable_def pmc_disable_pllack_def pmc_mainck_osc_select_def rmw_def rd_def wr_def
        bit.conj_disj_distrib2)
  moreover have "reg_of PMC CKGR_PLLAR v3 (trace ?e) = CKGR_PLLAR_ONE OR pll_config_init 1 16"
    using reg_pll_wait [OF d] sw(3) by (simp add: pll_enable_def wr_def)
  ultimately have "f = F_CPU" unfolding e(1) using sw(1)
    by (intro clock_update_96 [OF assms(1)]) (simp_all only: pllar_fields mckr_fields simp_thms not_False_eq_True)
  then show ?thesis
    by (simp add: e(2) cpu system_init_flash_def wr_def flash_wait_states_def)
qed

text \<open>A controller whose status bits are all set and whose three clock registers read back.\<close>

definition clock_ref :: hw where
  "clock_ref tr p r =
     (if p = PMC \<and> (r = PMC_MCKR \<or> r = CKGR_MOR \<or> r = CKGR_PLLAR) then reg_of PMC r 0 tr else -1)"

lemma clock_ref_registers: "clock_registers clock_ref 0 0 0"
  by (auto simp: clock_registers_def clock_ref_def)

lemma clock_ref_returns: "\<exists>y. sysclk_init clock_ref s = Some y"
proof -
  have "osc_wait_ready clock_ref 6 s = Some (snd (rd clock_ref PMC PMC_SR s))" for s :: "'a mach_scheme"
    by (subst osc_wait_ready.simps)
      (simp add: osc_is_ready_def pmc_osc_is_ready_main_xtal_def rd_def clock_ref_def)
  moreover have "wait_mainck clock_ref s = Some (snd (rd clock_ref PMC PMC_SR s))" for s :: "'a mach_scheme"
    by (subst wait_mainck.simps) (simp add: pmc_osc_is_ready_mainck_def rd_def clock_ref_def)
  moreover have "pll_wait_for_lock clock_ref 0 s = Some (snd (rd clock_ref PMC PMC_SR s))" for s :: "'a mach_scheme"
    by (subst pll_wait_for_lock.simps) (simp add: pll_is_locked_def pmc_is_locked_pllack_def rd_def clock_ref_def)
  moreover have "pmc_wait_for clock_ref 1 s = Some (snd (rd clock_ref PMC PMC_SR s))" for s :: "'a mach_scheme"
    by (simp add: pmc_wait_for_def poll.simps rd_def clock_ref_def)
  ultimately show ?thesis
    by (simp add: sysclk_init_def sysclk_switch_def pll_enable_source_def osc_enable_def
        pmc_osc_enable_main_xtal_def select_mainck_def Let_def split_def)
qed

theorem sysclk_init_rate_witness: "\<exists>s'. sysclk_init clock_ref \<lparr>trace = []\<rparr> = Some (96000000, s')"
proof -
  obtain f s' where "sysclk_init clock_ref \<lparr>trace = []\<rparr> = Some (f, s')" using clock_ref_returns by fast
  moreover from sysclk_init_rate [OF clock_ref_registers this, of 0] have "f = 96000000" by simp
  ultimately show ?thesis by blast
qed

end
