(* ===== verification/Flash_Efc.thy ===== *)
theory Flash_Efc
  imports Clock
begin

text \<open>
  The flash service, \<^verbatim>\<open>src/asf/sam/services/flash_efc/flash_efc.c\<close>, as compiled for the
  SAM3U2: 128 KiB of flash at \<open>0x80000\<close> in pages of 256 bytes and lock regions of 8 KiB, one
  controller, two GPNVM bits. Results passed through pointers become part of the result; the
  caller's buffer in RAM is a list of bytes.

  \<open>flash_write\<close> copies each page that it touches into a buffer, replaces the bytes to write,
  stores the buffer word by word into the page latch and commands the controller to erase and
  write the page. What that leaves in the flash is the subject of \<^verbatim>\<open>Flash_Image\<close>.
\<close>

abbreviation (input) EFC :: periph where "EFC \<equiv> EFC0"
abbreviation (input) IFLASH_ADDR :: u32 where "IFLASH_ADDR \<equiv> 0x80000"
abbreviation (input) IFLASH_LOCK_REGION_SIZE :: u32 where "IFLASH_LOCK_REGION_SIZE \<equiv> 8192"
abbreviation (input) GPNVM_NUM_MAX :: u32 where "GPNVM_NUM_MAX \<equiv> 2"
abbreviation (input) FLASH_RC_OK :: u32 where "FLASH_RC_OK \<equiv> 0"
abbreviation (input) FLASH_RC_YES :: u32 where "FLASH_RC_YES \<equiv> 1"
abbreviation (input) FLASH_RC_NO :: u32 where "FLASH_RC_NO \<equiv> 0"
abbreviation (input) FLASH_RC_ERROR :: u32 where "FLASH_RC_ERROR \<equiv> 0x10"
abbreviation (input) FLASH_RC_INVALID :: u32 where "FLASH_RC_INVALID \<equiv> 0x11"

section \<open>Addresses\<close>

definition translate_address :: "u32 \<Rightarrow> periph \<times> u16 \<times> u16" where
  "translate_address ul_addr =
     (EFC, ucast ((ul_addr - IFLASH_ADDR) div 256), ucast ((ul_addr - IFLASH_ADDR) mod 256))"

definition compute_address :: "periph \<Rightarrow> u16 \<Rightarrow> u16 \<Rightarrow> u32" where
  "compute_address p us_page us_offset = IFLASH_ADDR + ucast us_page * 256 + ucast us_offset"

definition compute_lock_range :: "u32 \<Rightarrow> u32 \<Rightarrow> u32 \<times> u32" where
  "compute_lock_range ul_start ul_end =
     (ul_start - ul_start mod IFLASH_LOCK_REGION_SIZE,
      ul_end - ul_end mod IFLASH_LOCK_REGION_SIZE + IFLASH_LOCK_REGION_SIZE - 1)"

section \<open>Wait states and descriptor\<close>

definition flash_init :: "u32 \<Rightarrow> u32 \<Rightarrow> 'z mach_scheme \<Rightarrow> u32 \<times> 'z mach_scheme" where
  "flash_init ul_mode ul_fws s = (let (_, s) = efc_init EFC ul_mode ul_fws s in (FLASH_RC_OK, s))"

definition flash_set_wait_state :: "hw \<Rightarrow> u32 \<Rightarrow> u32 \<Rightarrow> 'z mach_scheme \<Rightarrow> u32 \<times> 'z mach_scheme" where
  "flash_set_wait_state hw ul_address ul_fws s =
     (let (p_efc, _, _) = translate_address ul_address
      in (FLASH_RC_OK, efc_set_wait_state hw p_efc ul_fws s))"

definition flash_set_wait_state_adaptively ::
  "hw \<Rightarrow> u32 \<Rightarrow> 'z mach_scheme \<Rightarrow> u32 \<times> 'z mach_scheme" where
  "flash_set_wait_state_adaptively hw ul_address s =
     (let clock = sysclk_get_cpu_hz; (p_efc, _, _) = translate_address ul_address
      in (FLASH_RC_OK,
          if clock < 24000000 then efc_set_wait_state hw p_efc 0 s
          else if clock < 40000000 then efc_set_wait_state hw p_efc 1 s
          else if clock < 72000000 then efc_set_wait_state hw p_efc 2 s
          else if clock < 84000000 then efc_set_wait_state hw p_efc 3 s
          else efc_set_wait_state hw p_efc 4 s))"

definition flash_get_wait_state :: "hw \<Rightarrow> u32 \<Rightarrow> 'z mach_scheme \<Rightarrow> u32 \<times> 'z mach_scheme" where
  "flash_get_wait_state hw ul_address s =
     (let (p_efc, _, _) = translate_address ul_address in efc_get_wait_state hw p_efc s)"

text \<open>The loop of \<open>flash_get_descriptor\<close>, with the room left in the caller's array.\<close>

fun read_descriptor ::
  "hw \<Rightarrow> periph \<Rightarrow> nat \<Rightarrow> 'z mach_scheme \<Rightarrow> u32 list \<times> 'z mach_scheme" where
  "read_descriptor hw p 0 s = (let (_, s) = efc_get_result hw p s in ([], s))"
| "read_descriptor hw p (Suc n) s =
     (let (ul_tmp, s) = efc_get_result hw p s
      in if ul_tmp \<noteq> 0 then let (ds, s) = read_descriptor hw p n s in (ul_tmp # ds, s)
         else ([], s))"

definition flash_get_descriptor ::
  "hw \<Rightarrow> u32 \<Rightarrow> u32 \<Rightarrow> 'z mach_scheme \<Rightarrow> (nat \<times> u32 list \<times> 'z mach_scheme) option" where
  "flash_get_descriptor hw ul_address ul_size s =
     do {
       let (p_efc, _, _) = translate_address ul_address;
       (rc, s) \<leftarrow> efc_perform_command hw p_efc EFC_FCMD_GETD 0 s;
       if rc \<noteq> FLASH_RC_OK then Some (0, [], s)
       else let (ds, s) = read_descriptor hw p_efc (unat ul_size) s in Some (length ds, ds, s)
     }"

definition flash_get_page_count :: "u32 list \<Rightarrow> u32" where
  "flash_get_page_count d = d ! 1 div d ! 2"

definition flash_get_page_count_per_region :: "u32 list \<Rightarrow> u32" where
  "flash_get_page_count_per_region d = d ! 4 div d ! 2"

definition flash_get_region_count :: "u32 list \<Rightarrow> u32" where
  "flash_get_region_count d = d ! 3"

definition flash_erase_all :: "hw \<Rightarrow> u32 \<Rightarrow> 'z mach_scheme \<Rightarrow> (u32 \<times> 'z mach_scheme) option" where
  "flash_erase_all hw ul_address s =
     do {
       let (p_efc, _, _) = translate_address ul_address;
       (rc, s) \<leftarrow> efc_perform_command hw p_efc EFC_FCMD_EA 0 s;
       Some (if rc \<noteq> EFC_RC_OK then FLASH_RC_ERROR else FLASH_RC_OK, s)
     }"

section \<open>Writing\<close>

text \<open>
  \<open>memcpy\<close> from the flash reads byte after byte. A 32-bit access at an address is the four
  bytes from there on, lowest first, so a byte is the low byte of the access at its address.
\<close>

fun read_bytes :: "hw \<Rightarrow> nat \<Rightarrow> nat \<Rightarrow> 'z mach_scheme \<Rightarrow> u8 list \<times> 'z mach_scheme" where
  "read_bytes hw a 0 s = ([], s)"
| "read_bytes hw a (Suc n) s =
     (let (v, s) = rd hw FLASH_MEM a s; (bs, s) = read_bytes hw (Suc a) n s in (ucast v # bs, s))"

definition word_le :: "u8 \<Rightarrow> u8 \<Rightarrow> u8 \<Rightarrow> u8 \<Rightarrow> u32" where
  "word_le b0 b1 b2 b3 =
     ucast b0 OR push_bit 8 (ucast b1) OR push_bit 16 (ucast b2) OR push_bit 24 (ucast b3)"

fun write_words :: "nat \<Rightarrow> u8 list \<Rightarrow> 'z mach_scheme \<Rightarrow> 'z mach_scheme" where
  "write_words a (b0 # b1 # b2 # b3 # bs) s =
     write_words (a + 4) bs (wr FLASH_MEM a (word_le b0 b1 b2 b3) s)"
| "write_words a _ s = s"

text \<open>
  The loop over the pages. It returns 0 when every byte is written, or the error of the first
  command that fails. \<open>p_buffer\<close> is the caller's data from the pointer on.
\<close>

partial_function (option) flash_write_loop ::
  "hw \<Rightarrow> periph \<Rightarrow> u16 \<Rightarrow> u16 \<Rightarrow> u8 list \<Rightarrow> u32 \<Rightarrow> u32 \<Rightarrow> 'z mach_scheme \<Rightarrow> (u32 \<times> 'z mach_scheme) option"
where
  "flash_write_loop hw p us_page us_offset p_buffer ul_size ul_erase_flag s =
     (if ul_size = 0 then Some (0, s)
      else
        let writeSize = min (256 - ucast us_offset) ul_size;
            ul_page_addr = compute_address p us_page 0;
            us_padding = 256 - us_offset - ucast writeSize;
            (pre, s) = read_bytes hw (unat ul_page_addr) (unat us_offset) s;
            (post, s) = read_bytes hw (unat (ul_page_addr + ucast us_offset + writeSize))
                          (unat us_padding) s;
            gs_ul_page_buffer = pre @ take (unat writeSize) p_buffer @ post;
            s = write_words (unat ul_page_addr) gs_ul_page_buffer s
        in do {
             (ul_error, s) \<leftarrow> efc_perform_command hw p
                (if ul_erase_flag \<noteq> 0 then EFC_FCMD_EWP else EFC_FCMD_WP) (ucast us_page) s;
             if ul_error \<noteq> 0 then Some (ul_error, s)
             else flash_write_loop hw p (us_page + 1) 0 (drop (unat writeSize) p_buffer)
                    (ul_size - writeSize) ul_erase_flag s
           })"

definition flash_write ::
  "hw \<Rightarrow> u32 \<Rightarrow> u8 list \<Rightarrow> u32 \<Rightarrow> u32 \<Rightarrow> 'z mach_scheme \<Rightarrow> (u32 \<times> 'z mach_scheme) option" where
  "flash_write hw ul_address p_buffer ul_size ul_erase_flag s =
     do {
       let (p_efc, us_page, us_offset) = translate_address ul_address;
       let (ul_fws_temp, s) = efc_get_wait_state hw p_efc s;
       let s = efc_set_wait_state hw p_efc 6 s;
       (ul_error, s) \<leftarrow> flash_write_loop hw p_efc us_page us_offset p_buffer ul_size ul_erase_flag s;
       if ul_error \<noteq> 0 then Some (ul_error, s)
       else Some (FLASH_RC_OK, efc_set_wait_state hw p_efc ul_fws_temp s)
     }"

section \<open>Locking\<close>

text \<open>The loops of \<open>flash_lock\<close> and \<open>flash_unlock\<close> differ in the command only.\<close>

partial_function (option) lock_loop ::
  "hw \<Rightarrow> periph \<Rightarrow> u32 \<Rightarrow> u16 \<Rightarrow> u16 \<Rightarrow> 'z mach_scheme \<Rightarrow> (u32 \<times> 'z mach_scheme) option" where
  "lock_loop hw p ul_command us_start_page us_end_page s =
     (if us_start_page < us_end_page then
        do {
          (ul_error, s) \<leftarrow> efc_perform_command hw p ul_command (ucast us_start_page) s;
          if ul_error \<noteq> 0 then Some (ul_error, s)
          else lock_loop hw p ul_command (us_start_page + 32) us_end_page s
        }
      else Some (FLASH_RC_OK, s))"

definition flash_lock :: "hw \<Rightarrow> u32 \<Rightarrow> u32 \<Rightarrow> 'z mach_scheme \<Rightarrow> (u32 \<times> 'z mach_scheme) option" where
  "flash_lock hw ul_start ul_end s =
     (let (ul_actual_start, ul_actual_end) = compute_lock_range ul_start ul_end;
          (p_efc, us_start_page, _) = translate_address ul_actual_start;
          (_, us_end_page, _) = translate_address ul_actual_end
      in lock_loop hw p_efc EFC_FCMD_SLB us_start_page us_end_page s)"

definition flash_unlock :: "hw \<Rightarrow> u32 \<Rightarrow> u32 \<Rightarrow> 'z mach_scheme \<Rightarrow> (u32 \<times> 'z mach_scheme) option" where
  "flash_unlock hw ul_start ul_end s =
     (let (ul_actual_start, ul_actual_end) = compute_lock_range ul_start ul_end;
          (p_efc, us_start_page, _) = translate_address ul_actual_start;
          (_, us_end_page, _) = translate_address ul_actual_end
      in lock_loop hw p_efc EFC_FCMD_CLB us_start_page us_end_page s)"

text \<open>
  \<open>flash_is_locked\<close> reads the lock bits 32 at a time: it skips to the word that holds the first
  region, and then counts the set bits of the regions asked for.
\<close>

partial_function (option) skip_lock_words ::
  "hw \<Rightarrow> periph \<Rightarrow> u8 \<Rightarrow> u32 \<Rightarrow> u32 \<Rightarrow> 'z mach_scheme \<Rightarrow> (u32 \<times> u32 \<times> 'z mach_scheme) option" where
  "skip_lock_words hw p uc_start_region ul_status ul_count s =
     (if ul_count \<le> ucast uc_start_region \<and> ucast uc_start_region < ul_count + 32
      then Some (ul_status, ul_count, s)
      else let (ul_status, s) = efc_get_result hw p s
           in skip_lock_words hw p uc_start_region ul_status (ul_count + 32) s)"

fun count_locked ::
  "hw \<Rightarrow> periph \<Rightarrow> nat \<Rightarrow> u32 \<Rightarrow> nat \<Rightarrow> u32 \<Rightarrow> 'z mach_scheme \<Rightarrow> u32 \<times> 'z mach_scheme" where
  "count_locked hw p 0 ul_status ul_bit n s = (n, s)"
| "count_locked hw p (Suc ul_count) ul_status ul_bit n s =
     (let n = (if bit ul_status ul_bit then n + 1 else n)
      in if Suc ul_bit = 32 then
           let (ul_status, s) = efc_get_result hw p s
           in count_locked hw p ul_count ul_status 0 n s
         else count_locked hw p ul_count ul_status (Suc ul_bit) n s)"

definition flash_is_locked :: "hw \<Rightarrow> u32 \<Rightarrow> u32 \<Rightarrow> 'z mach_scheme \<Rightarrow> (u32 \<times> 'z mach_scheme) option" where
  "flash_is_locked hw ul_start ul_end s =
     do {
       let (p_efc, us_start_page, _) = translate_address ul_start;
       let (_, us_end_page, _) = translate_address ul_end;
       let uc_start_region = ucast (us_start_page div 32);
       let uc_end_region = (ucast (us_end_page div 32) :: u8);
       (ul_error, s) \<leftarrow> efc_perform_command hw p_efc EFC_FCMD_GLB 0 s;
       if ul_error \<noteq> 0 then Some (ul_error, s)
       else do {
         let (ul_status, s) = efc_get_result hw p_efc s;
         (ul_status, ul_count, s) \<leftarrow> skip_lock_words hw p_efc uc_start_region ul_status 0 s;
         let ul_bit = (ucast uc_start_region :: u32) - ul_count;
         let ul_count = (ucast uc_end_region :: u32) - ucast uc_start_region + 1;
         Some (count_locked hw p_efc (unat ul_count) ul_status (unat ul_bit) 0 s)
       }
     }"

section \<open>GPNVM bits\<close>

definition flash_is_gpnvm_set :: "hw \<Rightarrow> u32 \<Rightarrow> 'z mach_scheme \<Rightarrow> (u32 \<times> 'z mach_scheme) option" where
  "flash_is_gpnvm_set hw ul_gpnvm s =
     (if ul_gpnvm \<ge> GPNVM_NUM_MAX then Some (FLASH_RC_INVALID, s)
      else do {
        (rc, s) \<leftarrow> efc_perform_command hw EFC EFC_FCMD_GGPB 0 s;
        if rc \<noteq> EFC_RC_OK then Some (FLASH_RC_ERROR, s)
        else let (ul_gpnvm_bits, s) = efc_get_result hw EFC s
             in if ul_gpnvm_bits AND push_bit (unat ul_gpnvm) 1 \<noteq> 0 then Some (FLASH_RC_YES, s)
                else Some (FLASH_RC_NO, s)
      })"

definition flash_set_gpnvm :: "hw \<Rightarrow> u32 \<Rightarrow> 'z mach_scheme \<Rightarrow> (u32 \<times> 'z mach_scheme) option" where
  "flash_set_gpnvm hw ul_gpnvm s =
     (if ul_gpnvm \<ge> GPNVM_NUM_MAX then Some (FLASH_RC_INVALID, s)
      else do {
        (rc, s) \<leftarrow> flash_is_gpnvm_set hw ul_gpnvm s;
        if rc = FLASH_RC_YES then Some (FLASH_RC_OK, s)
        else do {
          (rc, s) \<leftarrow> efc_perform_command hw EFC EFC_FCMD_SGPB ul_gpnvm s;
          Some (if rc = EFC_RC_OK then FLASH_RC_OK else FLASH_RC_ERROR, s)
        }
      })"

definition flash_clear_gpnvm :: "hw \<Rightarrow> u32 \<Rightarrow> 'z mach_scheme \<Rightarrow> (u32 \<times> 'z mach_scheme) option" where
  "flash_clear_gpnvm hw ul_gpnvm s =
     (if ul_gpnvm \<ge> GPNVM_NUM_MAX then Some (FLASH_RC_INVALID, s)
      else do {
        (rc, s) \<leftarrow> flash_is_gpnvm_set hw ul_gpnvm s;
        if rc = FLASH_RC_NO then Some (FLASH_RC_OK, s)
        else do {
          (rc, s) \<leftarrow> efc_perform_command hw EFC EFC_FCMD_CGPB ul_gpnvm s;
          Some (if rc = EFC_RC_OK then FLASH_RC_OK else FLASH_RC_ERROR, s)
        }
      })"

definition flash_enable_security_bit :: "hw \<Rightarrow> 'z mach_scheme \<Rightarrow> (u32 \<times> 'z mach_scheme) option" where
  "flash_enable_security_bit hw s = flash_set_gpnvm hw 0 s"

definition flash_is_security_bit_enabled :: "hw \<Rightarrow> 'z mach_scheme \<Rightarrow> (u32 \<times> 'z mach_scheme) option" where
  "flash_is_security_bit_enabled hw s = flash_is_gpnvm_set hw 0 s"

definition flash_read_unique_id ::
  "hw \<Rightarrow> u32 \<Rightarrow> 'z mach_scheme \<Rightarrow> (u32 \<times> u32 list \<times> 'z mach_scheme) option" where
  "flash_read_unique_id hw ul_size s =
     do {
       (rc, uid_buf, s) \<leftarrow> efc_perform_read_sequence hw EFC EFC_FCMD_STUI EFC_FCMD_SPUI 4 s;
       if rc \<noteq> FLASH_RC_OK then Some (FLASH_RC_ERROR, [], s)
       else let ul_size = (if ul_size > 4 then 4 else ul_size)
            in Some (FLASH_RC_OK, take (unat ul_size) uid_buf, s)
     }"

end
