(* ===== verification/Front_End.thy ===== *)
theory Front_End
  imports Sampling Twi Usart Wdt Flash_Efc
begin

text \<open>
  The board functions of \<^verbatim>\<open>src/src/main.c\<close>: the digital potentiometers, the hot-swap
  controller, the DAC and the ADC, the mode of the two channels, the calibration table in the
  flash, the serial number, and the set-up of the peripherals. The functions that wait for a
  peripheral are partial. A local variable that the C code leaves uninitialised is a parameter
  (\<open>chip0\<close>, \<open>junk\<close>, \<open>uid0\<close>): the theorems hold for every value of it.

  The bytes a receive DMA channel has stored in memory come from the outside like the
  value of a register: \<open>dma_byte hw tr p i\<close> is byte \<open>i\<close> of the last transfer of port \<open>p\<close>.
\<close>

abbreviation (input) CNV :: u32 where "CNV \<equiv> 0x80000000"
abbreviation (input) N_LDAC :: u32 where "N_LDAC \<equiv> 0x40000000"
abbreviation (input) N_CLR :: u32 where "N_CLR \<equiv> 0x8000"
abbreviation (input) PWR :: u32 where "PWR \<equiv> 0x20000"
abbreviation (input) PIN :: "nat \<Rightarrow> u32" where "PIN n \<equiv> push_bit n 1"

text \<open>
  The delay loop of \<^verbatim>\<open>cycle_counter.c\<close>, three instructions of assembly: a barrier, \<open>SUBS R0, R0, #1\<close> and a
  branch back while the result is not 0. Its value is the number of rounds. In the trace a delay is
  one event.
\<close>

function portable_delay_cycles :: "u32 \<Rightarrow> nat" where
  "portable_delay_cycles R0 =
     (let R0 = R0 - 1 in if R0 \<noteq> 0 then Suc (portable_delay_cycles R0) else 1)"
  by pat_completeness auto
termination
proof (relation "measure (\<lambda>n :: u32. if n = 0 then 2 ^ 32 else unat n)")
  fix R0 x :: u32
  assume "x = R0 - 1" and "x \<noteq> 0"
  then show "(x, R0) \<in> measure (\<lambda>n :: u32. if n = 0 then 2 ^ 32 else unat n)"
    using unsigned_less [of x] by (auto simp: unat_gt_0)
qed simp

declare portable_delay_cycles.simps [simp del]

definition cpu_us_2_cy :: "nat \<Rightarrow> u32" where
  "cpu_us_2_cy us = of_nat ((us * unat F_CPU + (14000000 - 1)) div 14000000)"

definition cpu_ms_2_cy :: "nat \<Rightarrow> u32" where
  "cpu_ms_2_cy ms = of_nat ((ms * unat F_CPU + (14000 - 1)) div 14000)"

definition cpu_delay_us :: "nat \<Rightarrow> 'z mach_scheme \<Rightarrow> 'z mach_scheme" where
  "cpu_delay_us us s = delay_cycles (cpu_us_2_cy us) s"

definition cpu_delay_ms :: "nat \<Rightarrow> 'z mach_scheme \<Rightarrow> 'z mach_scheme" where
  "cpu_delay_ms ms s = delay_cycles (cpu_ms_2_cy ms) s"

definition SWAP16 :: "u16 \<Rightarrow> u16" where
  "SWAP16 x = drop_bit 8 (x AND 0xFF00) OR push_bit 8 (x AND 0x00FF)"

definition bytes_le16 :: "u16 \<Rightarrow> u8 list" where
  "bytes_le16 x = [ucast x, ucast (drop_bit 8 x)]"

definition dma_byte :: "hw \<Rightarrow> event list \<Rightarrow> periph \<Rightarrow> nat \<Rightarrow> u8" where
  "dma_byte hw tr p i = ucast (hw tr p (0x1000 + i))"

section \<open>Devices on the two-wire bus\<close>

definition write_ad5122 ::
  "hw \<Rightarrow> u8 \<Rightarrow> u32 \<Rightarrow> u8 \<Rightarrow> u8 \<Rightarrow> 'z mach_scheme \<Rightarrow> 'z mach_scheme option" where
  "write_ad5122 hw chip0 ch r1 r2 s =
     do {
       let c = (if ch = 0 then 0x2f else if ch = 1 then 0x23 else chip0);
       (_, s) \<leftarrow> twi_master_write hw TWI0
          \<lparr>addr = (0x10, 0, 0), addr_length = 1, buffer = (\<lambda>_. r1 AND 0x7F), pkt_length = 1, chip = c\<rparr> s;
       (_, s) \<leftarrow> twi_master_write hw TWI0
          \<lparr>addr = (0x11, 0, 0), addr_length = 1, buffer = (\<lambda>_. r2 AND 0x7F), pkt_length = 1, chip = c\<rparr> s;
       Some s
     }"

definition adm1177_chip :: "'z app_scheme \<Rightarrow> u8" where
  "adm1177_chip s = (if hwversion s ! 0 = 0x44 then 0x58 else 0x72)"

definition write_adm1177 :: "hw \<Rightarrow> (nat \<Rightarrow> u8) \<Rightarrow> u8 \<Rightarrow> 'z app_scheme \<Rightarrow> 'z app_scheme option" where
  "write_adm1177 hw b ct s =
     map_option snd (twi_master_write hw TWI0
       \<lparr>addr = (0, 0, 0), addr_length = 0, buffer = b, pkt_length = ucast ct, chip = adm1177_chip s\<rparr> s)"

text \<open>The bytes read are the result; the caller stores them.\<close>

definition read_adm1177 :: "hw \<Rightarrow> u8 \<Rightarrow> 'z app_scheme \<Rightarrow> (u8 list \<times> 'z app_scheme) option" where
  "read_adm1177 hw ct s =
     map_option snd (twi_master_read hw TWI0
       \<lparr>addr = (0, 0, 0), addr_length = 0, buffer = (\<lambda>_. 0), pkt_length = ucast ct, chip = adm1177_chip s\<rparr> s)"

section \<open>Converters\<close>

definition write_ad5663 :: "hw \<Rightarrow> u8 \<Rightarrow> u16 \<Rightarrow> 'z mach_scheme \<Rightarrow> 'z mach_scheme option" where
  "write_ad5663 hw conf data s =
     do {
       let s = wrp USART0 US_TPR (O_stack [conf], 0) s;
       let s = wrp USART0 US_TNPR (O_stack (bytes_le16 data), 0) s;
       let s = pio_clear PIOA N_SYNC s;
       let s = cpu_delay_us 10 s;
       let s = wr USART0 US_TCR 1 s;
       let s = wr USART0 US_TNCR 2 s;
       (_, s) \<leftarrow> poll hw USART0 US_CSR US_CSR_TXEMPTY US_CSR_TXEMPTY s;
       let s = cpu_delay_us 100 s;
       Some (pio_set PIOA N_SYNC s)
     }"

text \<open>One conversion: pulse \<open>CNV\<close>, then exchange two bytes with the converter of channel \<open>ch\<close>.\<close>

definition ad7682_port :: "u8 \<Rightarrow> periph" where
  "ad7682_port ch = (if ch = 0 then USART1 else USART2)"

definition ad7682_convert ::
  "hw \<Rightarrow> u8 \<Rightarrow> u8 list \<Rightarrow> ptr \<Rightarrow> 'z mach_scheme \<Rightarrow> 'z mach_scheme option" where
  "ad7682_convert hw ch cfg data s =
     do {
       let s = wr PIOA PIO_SODR CNV s;
       let s = cpu_delay_us 1 s;
       let s = wr PIOA PIO_CODR CNV s;
       let s = cpu_delay_us 2 s;
       let p = ad7682_port ch;
       let s = wrp p US_TPR (O_stack cfg, 0) s;
       let s = wrp p US_RPR data s;
       let s = wr p US_RCR 2 s;
       let s = wr p US_TCR 2 s;
       (_, s) \<leftarrow> poll hw p US_CSR US_CSR_ENDRX US_CSR_ENDRX s;
       Some s
     }"

text \<open>The result includes the two bytes that the last transfer left in \<open>data\<close>.\<close>

definition get_sample_ad7682 ::
  "hw \<Rightarrow> u8 \<Rightarrow> u8 list \<Rightarrow> ptr \<Rightarrow> 'z mach_scheme \<Rightarrow> (u8 list \<times> 'z mach_scheme) option" where
  "get_sample_ad7682 hw ch cfg data s =
     do {
       let s = snd (pio_configure hw PIOA PIO_OUTPUT_0 CNV PIO_DEFAULT s);
       s \<leftarrow> ad7682_convert hw ch cfg data s;
       s \<leftarrow> ad7682_convert hw ch cfg data s;
       s \<leftarrow> ad7682_convert hw ch cfg data s;
       let bs = [dma_byte hw (trace s) (ad7682_port ch) 0, dma_byte hw (trace s) (ad7682_port ch) 1];
       Some (bs, snd (pio_configure hw PIOA PIO_PERIPH_B CNV PIO_DEFAULT s))
     }"

section \<open>Channel modes\<close>

text \<open>The pins of a channel: mode switch, feedback and output switch, and its DAC command.\<close>

definition set_mode_pins :: "u32 \<Rightarrow> u32 \<Rightarrow> u32 \<Rightarrow> bool \<Rightarrow> bool \<Rightarrow> 'z mach_scheme \<Rightarrow> 'z mach_scheme" where
  "set_mode_pins sw fb out simv off s =
     (let s = (if simv then pio_set PIOB sw s else pio_clear PIOB sw s);
          s = pio_clear PIOB fb s
      in if off then pio_set PIOB out s else pio_clear PIOB out s)"

definition set_mode :: "hw \<Rightarrow> u32 \<Rightarrow> u32 \<Rightarrow> 'z app_scheme \<Rightarrow> 'z app_scheme option" where
  "set_mode hw chan m s =
     (if chan = 0 then
        if m = 0 then
          write_ad5663 hw 0 (SWAP16 (def_data ! i0_dac))
            (set_mode_pins (PIN 19) (PIN 2) (PIN 3) True True (s\<lparr>ma := DISABLED\<rparr>))
        else if m = 1 then Some (set_mode_pins (PIN 19) (PIN 2) (PIN 3) False False (s\<lparr>ma := SVMI\<rparr>))
        else if m = 2 then Some (set_mode_pins (PIN 19) (PIN 2) (PIN 3) True False (s\<lparr>ma := SIMV\<rparr>))
        else Some s
      else if chan = 1 then
        if m = 0 then
          write_ad5663 hw 1 (SWAP16 (def_data ! i0_dac))
            (set_mode_pins (PIN 20) (PIN 7) (PIN 8) True True (s\<lparr>mb := DISABLED\<rparr>))
        else if m = 1 then Some (set_mode_pins (PIN 20) (PIN 7) (PIN 8) False False (s\<lparr>mb := SVMI\<rparr>))
        else if m = 2 then Some (set_mode_pins (PIN 20) (PIN 7) (PIN 8) True False (s\<lparr>mb := SIMV\<rparr>))
        else Some s
      else Some s)"

section \<open>Hardware revision, calibration table and serial number\<close>

definition get_hwversion :: "hw \<Rightarrow> 'z app_scheme \<Rightarrow> 'z app_scheme" where
  "get_hwversion hw s =
     (let s = snd (pmc_enable_periph_clk hw 11 s);
          s = pio_set_input PIOB (PIN 21) PIO_PULLUP s;
          s = pio_set_input PIOB (PIN 22) PIO_PULLUP s;
          s = pio_set_input PIOB (PIN 23) PIO_PULLUP s;
          (pin_value, s) = pio_get_pin_value hw 53 s
      in if pin_value = 0 then hwversion_update (\<lambda>h. h[0 := 0x46]) s else s)"

abbreviation (input) FLASH_TABLE_BASE :: u32 where "FLASH_TABLE_BASE \<equiv> 0x9FF00"

definition read_flash_table :: "hw \<Rightarrow> 'z app_scheme \<Rightarrow> 'z app_scheme" where
  "read_flash_table hw s =
     (let (bs, s) = read_bytes hw (unat FLASH_TABLE_BASE) 256 s in s\<lparr>flash_table := bs\<rparr>)"

definition bytes_le32 :: "u32 \<Rightarrow> u8 list" where
  "bytes_le32 w = [ucast w, ucast (drop_bit 8 w), ucast (drop_bit 16 w), ucast (drop_bit 24 w)]"

definition hex_digit :: "u8 \<Rightarrow> u8" where
  "hex_digit d = (if d < 10 then 0x30 + d else 0x41 + (d - 10))"

definition custom_serial_valid :: "u8 list \<Rightarrow> bool" where
  "custom_serial_valid t \<longleftrightarrow>
     push_bit 24 (ucast (t ! 220)) OR push_bit 16 (ucast (t ! 221))
     OR push_bit 8 (ucast (t ! 222)) OR ucast (t ! 223) = (0x01ee02dd :: u32)"

text \<open>The two loops write the first 32 characters and leave the last one as it is.\<close>

definition serial_of_uid :: "u8 list \<Rightarrow> u8 list" where
  "serial_of_uid uid =
     concat (map (\<lambda>i. [hex_digit (drop_bit 4 (uid ! i AND 0xF0)), hex_digit (uid ! i AND 0x0F)]) [0..<16])"

definition init_build_usb_serial_number :: "hw \<Rightarrow> u32 list \<Rightarrow> 'z app_scheme \<Rightarrow> 'z app_scheme option" where
  "init_build_usb_serial_number hw uid0 s =
     do {
       (rc, ws, s) \<leftarrow> flash_read_unique_id hw 4 s;
       let uid = concat (map bytes_le32 (if rc = FLASH_RC_OK then ws else uid0));
       Some (serial_number_update
         (\<lambda>n. (if custom_serial_valid (flash_table s) then take 32 (drop 224 (flash_table s))
               else serial_of_uid uid) @ drop 32 n) s)
     }"

definition store_flash_table :: "hw \<Rightarrow> u32 list \<Rightarrow> 'z app_scheme \<Rightarrow> 'z app_scheme option" where
  "store_flash_table hw uid0 s =
     do {
       let (ret, s) = flash_init 0 6 s;
       if ret \<noteq> FLASH_RC_OK then Some s
       else do {
         (ret, s) \<leftarrow> flash_unlock hw FLASH_TABLE_BASE (FLASH_TABLE_BASE + 256 - 1) s;
         if ret \<noteq> FLASH_RC_OK then Some s
         else do {
           (ret, s) \<leftarrow> flash_write hw FLASH_TABLE_BASE (flash_table s) 256 1 s;
           if ret \<noteq> FLASH_RC_OK then Some s
           else do {
             (ret, s) \<leftarrow> flash_lock hw FLASH_TABLE_BASE (FLASH_TABLE_BASE + 256 - 1) s;
             if ret \<noteq> FLASH_RC_OK then Some s
             else init_build_usb_serial_number hw uid0 s
           }
         }
       }
     }"

section \<open>Set-up\<close>

definition USART_SPI_ADC :: usart_spi_opt_t where
  "USART_SPI_ADC = \<lparr>spi_baudrate = 24000000, spi_char_length = US_MR_CHRL_8_BIT,
     spi_mode = SPI_MODE_3, spi_channel_mode = US_MR_CHMODE_NORMAL OR US_MR_INACK\<rparr>"

definition USART_SPI_DAC :: usart_spi_opt_t where
  "USART_SPI_DAC = \<lparr>spi_baudrate = 24000000, spi_char_length = US_MR_CHRL_8_BIT,
     spi_mode = SPI_MODE_1, spi_channel_mode = US_MR_CHMODE_NORMAL\<rparr>"

definition TWIM_CONFIG :: twi_options_t where
  "TWIM_CONFIG = \<lparr>master_clk = F_CPU, speed = 100000, opt_chip = 0, smbus = 0\<rparr>"

fun enable_clocks :: "hw \<Rightarrow> u32 list \<Rightarrow> 'z mach_scheme \<Rightarrow> 'z mach_scheme" where
  "enable_clocks hw [] s = s"
| "enable_clocks hw (i # is) s = enable_clocks hw is (snd (pmc_enable_periph_clk hw i s))"

fun configure_pins :: "hw \<Rightarrow> (periph \<times> pio_type_t \<times> u32) list \<Rightarrow> 'z mach_scheme \<Rightarrow> 'z mach_scheme" where
  "configure_pins hw [] s = s"
| "configure_pins hw ((p, ty, m) # cs) s =
     configure_pins hw cs (snd (pio_configure hw p ty m PIO_DEFAULT s))"

text \<open>The pin configurations of \<open>init_hardware\<close> after the LEDs, in their order.\<close>

definition board_pins :: "(periph \<times> pio_type_t \<times> u32) list" where
  "board_pins =
    [(PIOB, PIO_OUTPUT_1, PWR), (PIOA, PIO_PERIPH_A, PIN 9), (PIOA, PIO_PERIPH_A, PIN 10),
     (PIOA, PIO_PERIPH_B, N_LDAC), (PIOA, PIO_OUTPUT_1, N_CLR), (PIOA, PIO_OUTPUT_1, N_SYNC),
     (PIOA, PIO_PERIPH_A, PIN 17), (PIOA, PIO_PERIPH_A, PIN 18),
     (PIOA, PIO_PERIPH_A, PIN 21), (PIOA, PIO_PERIPH_A, PIN 20), (PIOA, PIO_PERIPH_B, PIN 24),
     (PIOA, PIO_PERIPH_B, CNV),
     (PIOA, PIO_PERIPH_A, PIN 22), (PIOA, PIO_PERIPH_A, PIN 23), (PIOA, PIO_PERIPH_B, PIN 25),
     (PIOB, PIO_OUTPUT_1, PIN 19), (PIOB, PIO_OUTPUT_1, PIN 20),
     (PIOB, PIO_OUTPUT_1, PIN 0), (PIOB, PIO_OUTPUT_1, PIN 5),
     (PIOB, PIO_OUTPUT_1, PIN 1), (PIOB, PIO_OUTPUT_1, PIN 6),
     (PIOB, PIO_OUTPUT_0, PIN 2), (PIOB, PIO_OUTPUT_0, PIN 7),
     (PIOB, PIO_OUTPUT_1, PIN 3), (PIOB, PIO_OUTPUT_1, PIN 8)]"

definition init_leds :: "'z app_scheme \<Rightarrow> 'z app_scheme" where
  "init_leds s =
     (if hwversion s ! 0 = 0x44 then
        pio_set_output PIOA (PIN 28) 1 0 0
          (pio_set_output PIOA (PIN 29) 0 0 0 (pio_set_output PIOB (PIN 15) 1 0 0 s))
      else
        pio_set_output PIOA (PIN 0) 0 0 0
          (pio_set_output PIOA (PIN 2) 1 0 0 (pio_set_output PIOA (PIN 1) 1 0 0 s)))"

definition init_serial_ports :: "hw \<Rightarrow> 'z mach_scheme \<Rightarrow> 'z mach_scheme" where
  "init_serial_ports hw s =
     (let s = snd (usart_init_spi_master hw USART0 (Some USART_SPI_DAC) F_CPU s);
          s = usart_enable_tx USART0 s;
          s = snd (usart_init_spi_master hw USART1 (Some USART_SPI_ADC) F_CPU s);
          s = usart_enable_tx USART1 s;
          s = usart_enable_rx USART1 s;
          s = snd (usart_init_spi_master hw USART2 (Some USART_SPI_ADC) F_CPU s);
          s = usart_enable_tx USART2 s;
          s = usart_enable_rx USART2 s;
          s = wr USART0 US_PTCR 0x100 s;
          s = wr USART1 US_PTCR (0x100 OR 1) s;
          s = wr USART2 US_PTCR (0x100 OR 1) s;
          s = twi_reset hw TWI0 s;
          s = twi_enable_master_mode TWI0 s
      in snd (twi_master_init hw TWI0 TWIM_CONFIG s))"

text \<open>\<open>NVIC_SetPriority\<close> writes a priority byte, \<open>NVIC_EnableIRQ\<close> a set-enable bit.\<close>

definition init_sample_timer :: "hw \<Rightarrow> 'z mach_scheme \<Rightarrow> 'z mach_scheme" where
  "init_sample_timer hw s =
     (let s = tc_init hw TC0 2 (0 OR 0x4000 OR 0x8000 OR 0x10000 OR 0x80000 OR 0x1000000 OR 0x8000000 OR 0x400) s;
          s = tc_enable_interrupt TC0 2 0x10 s;
          s = wr NVIC (0x300 + 24) 0 s
      in wr NVIC 0 (PIN 24) s)"

definition init_hardware :: "hw \<Rightarrow> u8 \<Rightarrow> 'z app_scheme \<Rightarrow> 'z app_scheme option" where
  "init_hardware hw junk s =
     do {
       let s = enable_clocks hw [10, 11, 18, 13, 14, 15, 22, 23, 24] s;
       let s = configure_pins hw [(PIOA, PIO_INPUT, 0x0F), (PIOA, PIO_INPUT, 0xF0)] s;
       let s = init_leds s;
       let s = configure_pins hw board_pins s;
       let s = init_serial_ports hw s;
       let s = init_sample_timer hw s;
       let s = cpu_delay_ms 500 s;
       (_, s) \<leftarrow> get_sample_ad7682 hw 0 [0xF1, junk] (O_stack [], 0) s;
       (_, s) \<leftarrow> get_sample_ad7682 hw 1 [0xF7, junk] (O_stack [], 0) s;
       write_ad5663 hw 0xFF 0xFFFF s
     }"

definition config_hardware :: "hw \<Rightarrow> 'z app_scheme \<Rightarrow> 'z app_scheme option" where
  "config_hardware hw s =
     do {
       s \<leftarrow> write_adm1177 hw (\<lambda>i. if i = 0 then 0x40 else 0) 1 s;
       s \<leftarrow> write_adm1177 hw (\<lambda>i. if i = 0 then 0x81 else 0x14) 2 s;
       write_ad5663 hw 0xFF 0xFFFF (cpu_delay_us 100 s)
     }"

section \<open>Delays\<close>

lemma portable_delay_rounds: "portable_delay_cycles n = (if n = 0 then 2 ^ 32 else unat n)"
proof (induction n rule: portable_delay_cycles.induct)
  case (1 n)
  show ?case
  proof (cases "n = 0")
    case True
    have "unat (- 1 :: u32) = 2 ^ 32 - 1" by (simp add: unsigned_minus_1_eq_mask mask_eq_exp_minus_1)
    then show ?thesis using 1 True by (subst portable_delay_cycles.simps) simp
  next
    case False
    show ?thesis
    proof (cases "n = 1")
      case False
      then have "n - 1 \<noteq> 0" by simp
      then show ?thesis using 1 \<open>n \<noteq> 0\<close> by (subst portable_delay_cycles.simps) (simp add: unat_gt_0)
    qed (simp add: portable_delay_cycles.simps)
  qed
qed

text \<open>
  \<^bold>\<open>C32\<close>. The delay loop ends, and a delay is never too short: for a delay of \<open>us\<close> microseconds, of up to ten
  minutes, the number of rounds that the loop makes, at 14 cycles a round, is the least that lasts as
  long as asked for at the frequency the processor runs at. A delay of 0 is the exception: the
  counter wraps around, and the loop makes \<open>2 ^ 32\<close> rounds.
\<close>

theorem cpu_delay_us_bounds:
  assumes "us \<le> 600000000"
  shows "let rounds = portable_delay_cycles (cpu_us_2_cy us) in
    if us = 0 then rounds = 2 ^ 32
    else us * unat F_CPU \<le> rounds * 14 * 1000000 \<and> rounds * 14 * 1000000 < us * unat F_CPU + 14 * 1000000"
proof -
  let ?x = "us * 96000000 + 13999999"
  have "?x div 14000000 < 2 ^ 32" using assms by simp
  then have c: "unat (cpu_us_2_cy us) = ?x div 14000000"
    by (simp add: cpu_us_2_cy_def F_CPU_def unat_of_nat)
  have "?x div 14000000 * 14000000 + ?x mod 14000000 = ?x" by (rule div_mult_mod_eq)
  moreover have "?x mod 14000000 < 14000000" by simp
  moreover have f: "unat F_CPU = 96000000" by (simp add: F_CPU_def)
  ultimately have b: "us * unat F_CPU \<le> unat (cpu_us_2_cy us) * 14 * 1000000 \<and>
      unat (cpu_us_2_cy us) * 14 * 1000000 < us * unat F_CPU + 14 * 1000000"
    unfolding c f by linarith
  show ?thesis
  proof (cases "us = 0")
    case False
    then have "cpu_us_2_cy us \<noteq> 0" using b f by auto
    then show ?thesis using b False by (simp add: portable_delay_rounds)
  qed (simp add: portable_delay_rounds cpu_us_2_cy_def)
qed

theorem cpu_delay_us_bounds_witness: "10 * unat F_CPU \<le> portable_delay_cycles (cpu_us_2_cy 10) * 14 * 1000000"
  using cpu_delay_us_bounds [of 10] by (simp add: Let_def)

section \<open>Channel modes\<close>

lemma pins_bit:
  assumes "a < 32" and "b < 32" and "c < 32" and "a \<noteq> b" and "a \<noteq> c" and "b \<noteq> c"
  shows "bit (odsr PIOB (trace (set_mode_pins (PIN a) (PIN b) (PIN c) simv off s))) n =
    (if n = a then simv else if n = b then False else if n = c then off else bit (odsr PIOB (trace s)) n)"
proof -
  have n: "bit (odsr PIOB (trace s)) n \<Longrightarrow> n < 32" using bit_imp_le_length by force
  have q: "odsr PIOB (trace (set_mode_pins u v w simv off s)) =
    (let x = (if simv then odsr PIOB (trace s) OR u else odsr PIOB (trace s) AND NOT u) AND NOT v
     in if off then x OR w else x AND NOT w)" for u v w
    by (simp add: set_mode_pins_def pio_set_def pio_clear_def wr_def Let_def)
  show ?thesis
    using assms n unfolding q Let_def
    by (cases simv; cases off) (auto simp: bit_simps)
qed

lemmas channel_pins = pins_bit [of 19 2 3, simplified] pins_bit [of 20 7 8, simplified]

lemma set_mode_pins_more [simp]: "ma (set_mode_pins u v w x y s) = ma s" "mb (set_mode_pins u v w x y s) = mb s"
  by (simp_all add: set_mode_pins_def pio_set_def pio_clear_def wr_def Let_def)

lemma write_ad5663_keeps:
  assumes "write_ad5663 hw c d s = Some s'"
  shows "odsr PIOB (trace s') = odsr PIOB (trace s)" "mach.more s' = mach.more s"
proof -
  have r: "odsr PIOB (replicate n (Rd USART0 US_CSR) @ tr) = odsr PIOB tr" for n tr
    by (induction n) simp_all
  show "odsr PIOB (trace s') = odsr PIOB (trace s)" "mach.more s' = mach.more s"
    using assms
    by (auto simp: write_ad5663_def Let_def pio_clear_def pio_set_def cpu_delay_us_def delay_cycles_def
        wr_def wrp_def bind_eq_Some_conv r dest!: poll_Some)
qed

text \<open>The pins of the channels, and the mode that a number stands for.\<close>

definition mode_pins :: "u32 \<Rightarrow> nat \<times> nat \<times> nat" where
  "mode_pins chan = (if chan = 0 then (19, 2, 3) else (20, 7, 8))"

definition mode_known :: "u32 \<Rightarrow> u32 \<Rightarrow> bool" where
  "mode_known chan m \<longleftrightarrow> chan \<in> {0, 1} \<and> m \<in> {0, 1, 2}"

definition mode_of :: "u32 \<Rightarrow> chan_mode" where
  "mode_of m = (if m = 0 then DISABLED else if m = 1 then SVMI else SIMV)"

text \<open>
  \<^bold>\<open>C30\<close>. \<open>set_mode\<close> switches a channel as asked and nothing else. For channel 0 or 1 and mode 0, 1 or 2 the
  mode switch of the channel is open unless the mode is 1, its feedback pin is low, its output switch is off
  exactly in mode 0, and the mode is recorded; every other pin of the port, and the other channel, stay as
  they were. For any other channel or mode nothing changes at all.
\<close>

theorem set_mode_correct:
  assumes "set_mode hw chan m s = Some s'"
  shows "case mode_pins chan of (sw, fb, out) \<Rightarrow>
    (\<forall>n. bit (odsr PIOB (trace s')) n \<longleftrightarrow>
       (if mode_known chan m \<and> n = sw then m \<noteq> 1
        else if mode_known chan m \<and> n = fb then False
        else if mode_known chan m \<and> n = out then m = 0
        else bit (odsr PIOB (trace s)) n)) \<and>
    ma s' = (if mode_known chan m \<and> chan = 0 then mode_of m else ma s) \<and>
    mb s' = (if mode_known chan m \<and> chan = 1 then mode_of m else mb s) \<and>
    (\<not> mode_known chan m \<longrightarrow> s' = s)"
proof -
  have more: "ma t' = ma t \<and> mb t' = mb t" if "mach.more t' = mach.more t" for t t' :: "'a app_scheme"
    using that by (cases t; cases t') simp
  have w: "odsr PIOB (trace t') = odsr PIOB (trace t) \<and> ma t' = ma t \<and> mb t' = mb t"
    if "write_ad5663 hw c d t = Some t'" for c d and t t' :: "'a app_scheme"
    using write_ad5663_keeps(1) [OF that] more [OF write_ad5663_keeps(2) [OF that]] by blast
  consider (a) "chan = 0" "m \<in> {0, 1, 2}" | (b) "chan = 1" "m \<in> {0, 1, 2}" | (none) "\<not> mode_known chan m"
    by (auto simp: mode_known_def)
  then show ?thesis
  proof cases
    case a
    let ?t = "set_mode_pins (PIN 19) (PIN 2) (PIN 3) (m \<noteq> 1) (m = 0) (s\<lparr>ma := mode_of m\<rparr>)"
    have "odsr PIOB (trace s') = odsr PIOB (trace ?t) \<and> ma s' = ma ?t \<and> mb s' = mb ?t"
      using assms a by (elim insertE) (auto simp: set_mode_def mode_of_def dest!: w)
    then show ?thesis using a by (simp add: channel_pins mode_known_def mode_pins_def)
  next
    case b
    let ?t = "set_mode_pins (PIN 20) (PIN 7) (PIN 8) (m \<noteq> 1) (m = 0) (s\<lparr>mb := mode_of m\<rparr>)"
    have "odsr PIOB (trace s') = odsr PIOB (trace ?t) \<and> ma s' = ma ?t \<and> mb s' = mb ?t"
      using assms b by (elim insertE) (auto simp: set_mode_def mode_of_def dest!: w)
    then show ?thesis using b by (simp add: channel_pins mode_known_def mode_pins_def)
  next
    case none
    then have "s' = s" using assms by (auto simp: set_mode_def mode_known_def split: if_splits)
    then show ?thesis using none by (simp add: split_def)
  qed
qed

theorem set_mode_correct_witness:
  "\<exists>s'. set_mode (\<lambda>_ _ _. 0) 1 2 app_init = Some s' \<and> mb s' = SIMV \<and> ma s' = ma app_init"
  using set_mode_correct [of "\<lambda>_ _ _. 0" 1 2 app_init]
  by (simp add: set_mode_def mode_pins_def mode_known_def mode_of_def)

section \<open>The serial number\<close>

text \<open>Reading hexadecimal digits back, two to a byte.\<close>

definition hex_value :: "u8 \<Rightarrow> u8" where
  "hex_value c = (if c < 0x41 then c - 0x30 else c - 0x41 + 10)"

fun unhex :: "u8 list \<Rightarrow> u8 list" where
  "unhex (h # l # cs) = (push_bit 4 (hex_value h) OR hex_value l) # unhex cs"
| "unhex _ = []"

definition is_hex :: "u8 \<Rightarrow> bool" where
  "is_hex c \<longleftrightarrow> 0x30 \<le> c \<and> c \<le> 0x39 \<or> 0x41 \<le> c \<and> c \<le> 0x46"

lemma hex_digit_value:
  assumes "d < 16"
  shows "hex_value (hex_digit d) = d" "is_hex (hex_digit d)"
proof -
  have "unat d < 16" using assms by (simp add: word_less_nat_alt)
  then have "unat d \<in> {0, 1, 2, 3, 4, 5, 6, 7, 8, 9, 10, 11, 12, 13, 14, 15}"
    unfolding insert_iff empty_iff by presburger
  then have "d \<in> {0, 1, 2, 3, 4, 5, 6, 7, 8, 9, 10, 11, 12, 13, 14, 15}" by (auto simp: word_unat_eq_iff)
  then show "hex_value (hex_digit d) = d" "is_hex (hex_digit d)"
    by (auto simp: hex_value_def hex_digit_def is_hex_def)
qed

lemma nibbles:
  fixes b :: u8
  shows "drop_bit 4 (b AND 0xF0) < 16" "b AND 0x0F < 16" "push_bit 4 (drop_bit 4 (b AND 0xF0)) OR (b AND 0x0F) = b"
proof -
  have m: "(0x0F :: u8) = mask 4" "(0xF0 :: u8) = push_bit 4 (mask 4)" by (simp_all add: mask_eq_exp_minus_1)
  have "drop_bit 4 (b AND 0xF0) = drop_bit 4 b" unfolding m
    by (rule bit_word_eqI) (auto simp: bit_simps dest: bit_imp_le_length)
  moreover have "unat b < 256" using unsigned_less [of b, where ?'a = nat] by simp
  ultimately show "drop_bit 4 (b AND 0xF0) < 16"
    by (simp add: drop_bit_eq_div word_less_nat_alt unat_div)
  have "b AND 0x0F = take_bit 4 b" unfolding m by (simp add: take_bit_eq_mask)
  then show "b AND 0x0F < 16" by (simp add: take_bit_eq_mod word_less_nat_alt unat_mod)
  show "push_bit 4 (drop_bit 4 (b AND 0xF0)) OR (b AND 0x0F) = b" unfolding m
    by (rule bit_word_eqI) (auto simp: bit_simps dest: bit_imp_le_length)
qed

lemma unhex_hex:
  "unhex (concat (map (\<lambda>b. [hex_digit (drop_bit 4 (b AND 0xF0)), hex_digit (b AND 0x0F)]) bs)) = bs"
proof (induction bs)
  case (Cons b bs)
  show ?case
    by (simp only: list.map concat.simps append.simps unhex.simps hex_digit_value [OF nibbles(1)]
        hex_digit_value [OF nibbles(2)] nibbles(3) Cons.IH)
qed simp

text \<open>
  \<^bold>\<open>C31\<close>. The serial number made from the unique identifier of the chip is readable and does not lose
  anything: for the 16 bytes of the identifier it has 32 characters, all of them upper-case hexadecimal digits, and
  reading them back gives the identifier, so different chips have different serial numbers.
\<close>

theorem serial_of_uid_round_trip:
  assumes "length uid = 16"
  shows "unhex (serial_of_uid uid) = uid \<and> length (serial_of_uid uid) = 32 \<and> list_all is_hex (serial_of_uid uid)"
proof -
  let ?g = "\<lambda>b. [hex_digit (drop_bit 4 (b AND 0xF0)), hex_digit (b AND 0x0F)]"
  have "map (\<lambda>i. ?g (uid ! i)) [0..<length uid] = map ?g uid" by (rule nth_equalityI) simp_all
  then have s: "serial_of_uid uid = concat (map ?g uid)" using assms unfolding serial_of_uid_def by simp
  have h: "is_hex (hex_digit (drop_bit 4 (b AND 0xF0)))" "is_hex (hex_digit (b AND 0x0F))" for b
    by (rule hex_digit_value(2) [OF nibbles(1)], rule hex_digit_value(2) [OF nibbles(2)])
  have "length (concat (map ?g bs)) = 2 * length bs" "list_all is_hex (concat (map ?g bs))" for bs
    by (induction bs) (simp_all only: list.map concat.simps append.simps list.size list.pred_inject h, simp_all)
  then show ?thesis unfolding s using unhex_hex assms by simp
qed

theorem serial_of_uid_round_trip_witness:
  "unhex (serial_of_uid [0x1A, 2, 3, 4, 5, 6, 7, 8, 9, 10, 11, 12, 13, 14, 15, 0xFF]) =
     [0x1A, 2, 3, 4, 5, 6, 7, 8, 9, 10, 11, 12, 13, 14, 15, 0xFF]"
  using serial_of_uid_round_trip [of "[0x1A, 2, 3, 4, 5, 6, 7, 8, 9, 10, 11, 12, 13, 14, 15, 0xFF]"]
  by (simp del: unhex.simps)

end
