(* ===== verification/Usb_State.thy ===== *)
theory Usb_State
  imports Front_End
begin

text \<open>
  The global variables of the USB stack (\<^verbatim>\<open>udphs_device.c\<close>, \<^verbatim>\<open>udc.c\<close>,
  \<^verbatim>\<open>udi_vendor.c\<close>), as a record that extends the application's, and the register
  macros of \<^verbatim>\<open>src/asf/sam/drivers/udphs/udphs_device.h\<close> over which the driver is written.

  Function pointers are values of a datatype with one constructor per function that the
  firmware stores in them. \<open>over_under_run\<close> is a null pointer throughout this firmware:
  no function is ever assigned to it. The model keeps the tests on it; \<open>Some b\<close> stands for a
  function that supplies no new buffer and returns \<open>b\<close>. Interrupts are masked around some
  short sequences of the driver; a handler of the model runs to completion, so the
  masking has no counterpart.
\<close>

datatype trans_callback = CB_null | CB_bulk_in_received | CB_bulk_out_received
  | CB_bulk_out_received_first | CB_ext nat

datatype ctrl_callback = CC_null | CC_store_flash_table | CC_udc_valid_address
  | CC_test_mode_j | CC_test_mode_k | CC_test_mode_se0_nak | CC_test_mode_packet

datatype udd_ctrl_ep_state_t = UDD_EPCTRL_SETUP | UDD_EPCTRL_DATA_OUT | UDD_EPCTRL_DATA_IN
  | UDD_EPCTRL_HANDSHAKE_WAIT_IN_ZLP | UDD_EPCTRL_HANDSHAKE_WAIT_OUT_ZLP | UDD_EPCTRL_STALL_REQ

datatype usb_speed = FullSpeed | HighSpeed

record udd_ep_job_t =
  call_trans :: trans_callback
  buf :: ptr
  buf_size :: u32
  buf_cnt :: u32
  buf_load :: u32
  busy :: bool
  b_shortpacket :: bool
  stall_requested :: bool

record usb_setup_req_t =
  bmRequestType :: u8
  bRequest :: u8
  wValue :: u16
  wIndex :: u16
  wLength :: u16

record usb = app +
  udd_ep_job :: "udd_ep_job_t list"
  req :: usb_setup_req_t
  payload :: ptr
  payload_size :: u16
  callback :: ctrl_callback
  over_under_run :: "bool option"
  udd_ep_control_state :: udd_ctrl_ep_state_t
  udd_ctrl_prev_payload_buf_cnt :: u16
  udd_ctrl_payload_buf_cnt :: u16
  in_sent_shortpacket :: bool
  udd_b_idle :: bool
  udc_device_status :: u16
  udc_ep_status :: u16
  udc_num_configuration :: u8
  udc_ptr_conf :: usb_speed
  udc_ptr_iface :: nat
  udc_iface_setting :: u8
  udi_vendor_alternate_setting :: u8
  conf_fs_type :: u8
  conf_hs_type :: u8
  udc_string_desc :: "u8 list"
  extra_strings_desc :: "u8 list"
  msft_compatible :: "u8 list"
  fwversion :: "u8 list"
  b_is_sleep_clock_used :: bool

definition job0 :: udd_ep_job_t where
  "job0 = \<lparr>call_trans = CB_null, buf = (O_null, 0), buf_size = 0, buf_cnt = 0, buf_load = 0,
     busy = False, b_shortpacket = False, stall_requested = False\<rparr>"

text \<open>The Windows compatible-ID descriptor: a header of 16 bytes and one function of 24.\<close>

definition msft_compatible_init :: "u8 list" where
  "msft_compatible_init =
     [40, 0, 0, 0, 0x00, 0x01, 0x04, 0x00, 1, 0, 0, 0, 0, 0, 0, 0,
      0, 0, 0x57, 0x49, 0x4E, 0x55, 0x53, 0x42, 0, 0, 0, 0, 0, 0, 0, 0, 0, 0,
      0, 0, 0, 0, 0, 0]"

text \<open>The version string is given by the build, with its terminating zero.\<close>

definition usb_init :: "u8 list \<Rightarrow> usb" where
  "usb_init fw = app.extend app_init
     \<lparr>udd_ep_job = [job0, job0],
      req = \<lparr>bmRequestType = 0, bRequest = 0, wValue = 0, wIndex = 0, wLength = 0\<rparr>,
      payload = (O_null, 0), payload_size = 0, callback = CC_null, over_under_run = None,
      udd_ep_control_state = UDD_EPCTRL_SETUP, udd_ctrl_prev_payload_buf_cnt = 0,
      udd_ctrl_payload_buf_cnt = 0, in_sent_shortpacket = False, udd_b_idle = False,
      udc_device_status = 0, udc_ep_status = 0, udc_num_configuration = 0,
      udc_ptr_conf = FullSpeed, udc_ptr_iface = 0, udc_iface_setting = 0,
      udi_vendor_alternate_setting = 0, conf_fs_type = 2, conf_hs_type = 2,
      udc_string_desc = [0, 3] @ replicate 66 0, extra_strings_desc = [0, 3] @ replicate 18 0,
      msft_compatible = msft_compatible_init, fwversion = fw, b_is_sleep_clock_used = False\<rparr>"

section \<open>Registers\<close>

abbreviation (input) UDPHS_CTRL :: nat where "UDPHS_CTRL \<equiv> 0"
abbreviation (input) UDPHS_FNUM :: nat where "UDPHS_FNUM \<equiv> 4"
abbreviation (input) UDPHS_IEN :: nat where "UDPHS_IEN \<equiv> 0x10"
abbreviation (input) UDPHS_INTSTA :: nat where "UDPHS_INTSTA \<equiv> 0x14"
abbreviation (input) UDPHS_CLRINT :: nat where "UDPHS_CLRINT \<equiv> 0x18"
abbreviation (input) UDPHS_TST :: nat where "UDPHS_TST \<equiv> 0xE0"

text \<open>\<open>EPT ep r\<close> is register \<open>r\<close> of an endpoint, \<open>DMA ep r\<close> of its DMA channel.\<close>

definition EPT :: "u8 \<Rightarrow> nat \<Rightarrow> nat" where "EPT ep r = 0x100 + 0x20 * unat ep + r"
definition DMA :: "u8 \<Rightarrow> nat \<Rightarrow> nat" where "DMA ep r = 0x300 + 0x10 * unat ep + r"

abbreviation (input) EPTCFG :: nat where "EPTCFG \<equiv> 0"
abbreviation (input) EPTCTLENB :: nat where "EPTCTLENB \<equiv> 4"
abbreviation (input) EPTCTLDIS :: nat where "EPTCTLDIS \<equiv> 8"
abbreviation (input) EPTCTL :: nat where "EPTCTL \<equiv> 0xC"
abbreviation (input) EPTSETSTA :: nat where "EPTSETSTA \<equiv> 0x14"
abbreviation (input) EPTCLRSTA :: nat where "EPTCLRSTA \<equiv> 0x18"
abbreviation (input) EPTSTA :: nat where "EPTSTA \<equiv> 0x1C"
abbreviation (input) DMAADDR :: nat where "DMAADDR \<equiv> 4"
abbreviation (input) DMACONTROL :: nat where "DMACONTROL \<equiv> 8"
abbreviation (input) DMASTATUS :: nat where "DMASTATUS \<equiv> 0xC"

abbreviation (input) EPT_ENABL :: u32 where "EPT_ENABL \<equiv> 1"
abbreviation (input) AUTO_VALID :: u32 where "AUTO_VALID \<equiv> 2"
abbreviation (input) FRCESTALL :: u32 where "FRCESTALL \<equiv> 0x20"
abbreviation (input) TOGGLESQ :: u32 where "TOGGLESQ \<equiv> 0x40"
abbreviation (input) RX_BK_RDY :: u32 where "RX_BK_RDY \<equiv> 0x200"
abbreviation (input) KILL_BANK :: u32 where "KILL_BANK \<equiv> 0x200"
abbreviation (input) TX_COMPLT :: u32 where "TX_COMPLT \<equiv> 0x400"
abbreviation (input) TX_PK_RDY :: u32 where "TX_PK_RDY \<equiv> 0x800"
abbreviation (input) RX_SETUP :: u32 where "RX_SETUP \<equiv> 0x1000"
abbreviation (input) STALL_SNT :: u32 where "STALL_SNT \<equiv> 0x2000"
abbreviation (input) NAK_IN :: u32 where "NAK_IN \<equiv> 0x4000"
abbreviation (input) NAK_OUT :: u32 where "NAK_OUT \<equiv> 0x8000"
abbreviation (input) BUSY_BANK :: u32 where "BUSY_BANK \<equiv> 0x40000"
abbreviation (input) BUSY_BANK_STA_Msk :: u32 where "BUSY_BANK_STA_Msk \<equiv> 0xC0000"
abbreviation (input) BYTE_COUNT_Msk :: u32 where "BYTE_COUNT_Msk \<equiv> 0x7FF00000"
abbreviation (input) EPT_SIZE_Msk :: u32 where "EPT_SIZE_Msk \<equiv> 7"
abbreviation (input) EPT_DIR :: u32 where "EPT_DIR \<equiv> 8"
abbreviation (input) EPT_TYPE_Msk :: u32 where "EPT_TYPE_Msk \<equiv> 0x30"
abbreviation (input) BK_NUMBER_Msk :: u32 where "BK_NUMBER_Msk \<equiv> 0xC0"
abbreviation (input) NB_TRANS_Msk :: u32 where "NB_TRANS_Msk \<equiv> 0x300"
abbreviation (input) EPT_MAPD :: u32 where "EPT_MAPD \<equiv> 0x80000000"

abbreviation (input) USB_EP_DIR_IN :: u8 where "USB_EP_DIR_IN \<equiv> 0x80"
abbreviation (input) USB_EP_ADDR_MASK :: u8 where "USB_EP_ADDR_MASK \<equiv> 0x0F"
abbreviation (input) USB_DEVICE_MAX_EP :: u8 where "USB_DEVICE_MAX_EP \<equiv> 2"
abbreviation (input) UDI_VENDOR_EP_BULK_IN :: u8 where "UDI_VENDOR_EP_BULK_IN \<equiv> 0x81"
abbreviation (input) UDI_VENDOR_EP_BULK_OUT :: u8 where "UDI_VENDOR_EP_BULK_OUT \<equiv> 2"

section \<open>Bit macros\<close>

definition Tst_bits :: "hw \<Rightarrow> nat \<Rightarrow> u32 \<Rightarrow> 'z mach_scheme \<Rightarrow> bool \<times> 'z mach_scheme" where
  "Tst_bits hw r m s = (let (v, s) = rd hw UDPHS r s in (v AND m \<noteq> 0, s))"

definition Set_bits :: "hw \<Rightarrow> nat \<Rightarrow> u32 \<Rightarrow> 'z mach_scheme \<Rightarrow> 'z mach_scheme" where
  "Set_bits hw r m s = rmw hw UDPHS r (\<lambda>v. v OR m) s"

definition Clr_bits :: "hw \<Rightarrow> nat \<Rightarrow> u32 \<Rightarrow> 'z mach_scheme \<Rightarrow> 'z mach_scheme" where
  "Clr_bits hw r m s = rmw hw UDPHS r (\<lambda>v. v AND NOT m) s"

definition Wr_bits :: "hw \<Rightarrow> nat \<Rightarrow> u32 \<Rightarrow> u32 \<Rightarrow> 'z mach_scheme \<Rightarrow> 'z mach_scheme" where
  "Wr_bits hw r m bits s = rmw hw UDPHS r (\<lambda>v. v AND NOT m OR bits AND m) s"

text \<open>The bit-field macros shift by the position of the mask, which is given here.\<close>

definition Rd_bitfield :: "hw \<Rightarrow> nat \<Rightarrow> u32 \<Rightarrow> nat \<Rightarrow> 'z mach_scheme \<Rightarrow> u32 \<times> 'z mach_scheme" where
  "Rd_bitfield hw r m pos s = (let (v, s) = rd hw UDPHS r s in (drop_bit pos (v AND m), s))"

definition Wr_bitfield :: "hw \<Rightarrow> nat \<Rightarrow> u32 \<Rightarrow> nat \<Rightarrow> u32 \<Rightarrow> 'z mach_scheme \<Rightarrow> 'z mach_scheme" where
  "Wr_bitfield hw r m pos x s = Wr_bits hw r m (push_bit pos x) s"

abbreviation (input) ept_wr :: "u8 \<Rightarrow> nat \<Rightarrow> u32 \<Rightarrow> 'z mach_scheme \<Rightarrow> 'z mach_scheme" where
  "ept_wr ep r v s \<equiv> wr UDPHS (EPT ep r) v s"

definition Is_udd_endpoint_enabled :: "hw \<Rightarrow> u8 \<Rightarrow> 'z mach_scheme \<Rightarrow> bool \<times> 'z mach_scheme" where
  "Is_udd_endpoint_enabled hw ep s = Tst_bits hw (EPT ep EPTCTL) EPT_ENABL s"

definition Is_udd_endpoint_stall_requested :: "hw \<Rightarrow> u8 \<Rightarrow> 'z mach_scheme \<Rightarrow> bool \<times> 'z mach_scheme" where
  "Is_udd_endpoint_stall_requested hw ep s = Tst_bits hw (EPT ep EPTSTA) FRCESTALL s"

definition Is_udd_endpoint_in :: "hw \<Rightarrow> u8 \<Rightarrow> 'z mach_scheme \<Rightarrow> bool \<times> 'z mach_scheme" where
  "Is_udd_endpoint_in hw ep s = Tst_bits hw (EPT ep EPTCFG) EPT_DIR s"

definition udd_nb_busy_bank :: "hw \<Rightarrow> u8 \<Rightarrow> 'z mach_scheme \<Rightarrow> u32 \<times> 'z mach_scheme" where
  "udd_nb_busy_bank hw ep s = Rd_bitfield hw (EPT ep EPTSTA) BUSY_BANK_STA_Msk 18 s"

definition udd_get_endpoint_size :: "hw \<Rightarrow> u8 \<Rightarrow> 'z mach_scheme \<Rightarrow> u32 \<times> 'z mach_scheme" where
  "udd_get_endpoint_size hw ep s =
     (let (v, s) = Rd_bitfield hw (EPT ep EPTCFG) EPT_SIZE_Msk 0 s in (push_bit (unat v) 8, s))"

definition udd_enable_endpoint_interrupt :: "hw \<Rightarrow> u8 \<Rightarrow> 'z mach_scheme \<Rightarrow> 'z mach_scheme" where
  "udd_enable_endpoint_interrupt hw ep s = Set_bits hw UDPHS_IEN (push_bit (8 + unat ep) 1) s"

definition udd_disable_endpoint_interrupt :: "hw \<Rightarrow> u8 \<Rightarrow> 'z mach_scheme \<Rightarrow> 'z mach_scheme" where
  "udd_disable_endpoint_interrupt hw ep s = Clr_bits hw UDPHS_IEN (push_bit (8 + unat ep) 1) s"

definition udd_enable_endpoint_bank_autoswitch :: "hw \<Rightarrow> u8 \<Rightarrow> 'z mach_scheme \<Rightarrow> 'z mach_scheme" where
  "udd_enable_endpoint_bank_autoswitch hw ep s = Set_bits hw (EPT ep EPTCTLENB) AUTO_VALID s"

definition udd_disable_endpoint_bank_autoswitch :: "hw \<Rightarrow> u8 \<Rightarrow> 'z mach_scheme \<Rightarrow> 'z mach_scheme" where
  "udd_disable_endpoint_bank_autoswitch hw ep s = Clr_bits hw (EPT ep EPTCTLDIS) AUTO_VALID s"

text \<open>
  The size code of an endpoint. \<open>clz\<close> is the processor's count of leading zeros.
\<close>

definition clz :: "u32 \<Rightarrow> nat" where
  "clz w = length (takeWhile (\<lambda>i. \<not> bit w i) (rev [0..<32]))"

definition udd_format_endpoint_size :: "u32 \<Rightarrow> u32" where
  "udd_format_endpoint_size sz =
     32 - of_nat (clz (push_bit 1 (min (max sz 8) 1024) - 1)) - 1 - 3"

definition udd_configure_endpoint ::
  "hw \<Rightarrow> u8 \<Rightarrow> u32 \<Rightarrow> u32 \<Rightarrow> u32 \<Rightarrow> u32 \<Rightarrow> u32 \<Rightarrow> 'z mach_scheme \<Rightarrow> 'z mach_scheme" where
  "udd_configure_endpoint hw ep type dir sz bank nb_trans s =
     Wr_bits hw (EPT ep EPTCFG)
       (EPT_TYPE_Msk OR EPT_DIR OR EPT_SIZE_Msk OR BK_NUMBER_Msk OR NB_TRANS_Msk)
       ((push_bit 4 type AND EPT_TYPE_Msk) OR (push_bit 3 dir AND EPT_DIR)
        OR udd_format_endpoint_size sz
        OR (push_bit 6 bank AND BK_NUMBER_Msk) OR (push_bit 8 nb_trans AND NB_TRANS_Msk)) s"

definition udd_configure_endpoint_bank :: "hw \<Rightarrow> u8 \<Rightarrow> u32 \<Rightarrow> 'z mach_scheme \<Rightarrow> 'z mach_scheme" where
  "udd_configure_endpoint_bank hw ep bank s = Wr_bitfield hw (EPT ep EPTCFG) BK_NUMBER_Msk 6 bank s"

end
