(* ===== verification/Udphs_Macros.thy ===== *)
theory Udphs_Macros
  imports Usb_State
begin

text \<open>
  The register macros of \<^verbatim>\<open>src/asf/sam/drivers/udphs/udphs_device.h\<close>, by which the USB
  device driver names what it does to the controller. They are abbreviations, one per macro, over the bit
  macros of \<open>Usb_State\<close>, which has those that are definitions. The macros for the VBus pin are left out: the board
  has none. \<open>udd_control_direction\<close> names a variable that it does not have, so it has no meaning of its own.
\<close>

section \<open>Bits\<close>

abbreviation (input) EPT_DISABL :: u32 where "EPT_DISABL \<equiv> 0x1"
abbreviation (input) DET_SUSPD :: u32 where "DET_SUSPD \<equiv> 2"
abbreviation (input) SPEED_CFG_Msk :: u32 where "SPEED_CFG_Msk \<equiv> 3"
abbreviation (input) MICRO_SOF :: u32 where "MICRO_SOF \<equiv> 4"
abbreviation (input) TST_J :: u32 where "TST_J \<equiv> 4"
abbreviation (input) MICRO_FRAME_NUM_Msk :: u32 where "MICRO_FRAME_NUM_Msk \<equiv> 7"
abbreviation (input) INTDIS_DMA :: u32 where "INTDIS_DMA \<equiv> 8"
abbreviation (input) INT_SOF :: u32 where "INT_SOF \<equiv> 8"
abbreviation (input) TST_K :: u32 where "TST_K \<equiv> 8"
abbreviation (input) ENDRESET :: u32 where "ENDRESET \<equiv> 0x10"
abbreviation (input) NYET_DIS :: u32 where "NYET_DIS \<equiv> 0x10"
abbreviation (input) TST_PKT :: u32 where "TST_PKT \<equiv> 0x10"
abbreviation (input) WAKE_UP :: u32 where "WAKE_UP \<equiv> 0x20"
abbreviation (input) ENDOFRSM :: u32 where "ENDOFRSM \<equiv> 0x40"
abbreviation (input) DEV_ADDR_Msk :: u32 where "DEV_ADDR_Msk \<equiv> 0x7F"
abbreviation (input) FADDR_EN :: u32 where "FADDR_EN \<equiv> 0x80"
abbreviation (input) UPSTR_RES :: u32 where "UPSTR_RES \<equiv> 0x80"
abbreviation (input) TOGGLESQ_STA_Msk :: u32 where "TOGGLESQ_STA_Msk \<equiv> 0xC0"
abbreviation (input) EN_UDPHS :: u32 where "EN_UDPHS \<equiv> 0x100"
abbreviation (input) ERR_OVFLW :: u32 where "ERR_OVFLW \<equiv> 0x100"
abbreviation (input) DETACH :: u32 where "DETACH \<equiv> 0x200"
abbreviation (input) REWAKEUP :: u32 where "REWAKEUP \<equiv> 0x400"
abbreviation (input) ERR_TRANS :: u32 where "ERR_TRANS \<equiv> 0x800"
abbreviation (input) PULLD_DIS :: u32 where "PULLD_DIS \<equiv> 0x800"
abbreviation (input) ERR_FL_ISO :: u32 where "ERR_FL_ISO \<equiv> 0x1000"
abbreviation (input) ERR_CRISO :: u32 where "ERR_CRISO \<equiv> 0x2000"
abbreviation (input) ERR_NBTRA :: u32 where "ERR_NBTRA \<equiv> 0x2000"
abbreviation (input) FRAME_NUMBER_Msk :: u32 where "FRAME_NUMBER_Msk \<equiv> push_bit 3 0x7FF"
abbreviation (input) ERR_FLUSH :: u32 where "ERR_FLUSH \<equiv> 0x4000"
abbreviation (input) CONTROL_DIR_Msk :: u32 where "CONTROL_DIR_Msk \<equiv> 0x30000"
abbreviation (input) CURRENT_BANK_Msk :: u32 where "CURRENT_BANK_Msk \<equiv> 0x30000"
abbreviation (input) FNUM_ERR :: u32 where "FNUM_ERR \<equiv> 0x80000000"
abbreviation (input) SHRT_PCKT :: u32 where "SHRT_PCKT \<equiv> 0x80000000"
abbreviation (input) END_TR_EN :: u32 where "END_TR_EN \<equiv> 4"
abbreviation (input) END_B_EN :: u32 where "END_B_EN \<equiv> 8"
abbreviation (input) END_TR_IT :: u32 where "END_TR_IT \<equiv> 0x10"
abbreviation (input) END_BUFFIT :: u32 where "END_BUFFIT \<equiv> 0x20"
abbreviation (input) CHANN_ENB :: u32 where "CHANN_ENB \<equiv> 1"
abbreviation (input) LDNXT_DSC :: u32 where "LDNXT_DSC \<equiv> 2"
abbreviation (input) END_TR_ST :: u32 where "END_TR_ST \<equiv> 0x10"
abbreviation (input) UDD_ENDPOINT_MAX_TRANS :: u32 where "UDD_ENDPOINT_MAX_TRANS \<equiv> 0x10000"

section \<open>Speed and test modes\<close>

abbreviation (input) udd_get_endpoint_max_nbr :: nat where "udd_get_endpoint_max_nbr \<equiv> 6"

abbreviation (input) MAX_PEP_NB :: nat where "MAX_PEP_NB \<equiv> udd_get_endpoint_max_nbr + 1"

definition udd_get_endpoint_bank_max_nbr :: "u8 \<Rightarrow> u32" where
  "udd_get_endpoint_bank_max_nbr ep = (if ep = 0 then 1 else if ep \<le> 2 then 2 else 3)"

definition udd_get_endpoint_size_max :: "u8 \<Rightarrow> u32" where
  "udd_get_endpoint_size_max ep = (if ep = 0 then 64 else if ep \<le> 2 then 512 else if ep \<le> 4 then 64 else 1024)"

abbreviation (input) Is_udd_endpoint_high_bw_supported :: "u8 \<Rightarrow> bool" where
  "Is_udd_endpoint_high_bw_supported ep \<equiv> ep \<noteq> 0 \<and> ep \<noteq> 3 \<and> ep \<noteq> 4"

abbreviation (input) udd_high_speed_enable where
  "udd_high_speed_enable hw s \<equiv> Wr_bitfield hw UDPHS_TST SPEED_CFG_Msk 0 0 s"

abbreviation (input) udd_high_speed_disable where
  "udd_high_speed_disable hw s \<equiv> Wr_bitfield hw UDPHS_TST SPEED_CFG_Msk 0 3 s"

abbreviation (input) udd_enable_hs_test_mode_j where
  "udd_enable_hs_test_mode_j hw s \<equiv> Set_bits hw UDPHS_TST TST_J s"

abbreviation (input) udd_enable_hs_test_mode_k where
  "udd_enable_hs_test_mode_k hw s \<equiv> Set_bits hw UDPHS_TST TST_K s"

abbreviation (input) udd_enable_hs_test_mode_packet where
  "udd_enable_hs_test_mode_packet hw s \<equiv> Set_bits hw UDPHS_TST TST_PKT s"

section \<open>The bus\<close>

abbreviation (input) udd_detach_device where
  "udd_detach_device hw s \<equiv> Clr_bits hw UDPHS_CTRL PULLD_DIS (Set_bits hw UDPHS_CTRL DETACH s)"

abbreviation (input) udd_attach_device where
  "udd_attach_device hw s \<equiv> Clr_bits hw UDPHS_CTRL DETACH (Set_bits hw UDPHS_CTRL PULLD_DIS s)"

abbreviation (input) udd_enable_periph where "udd_enable_periph hw s \<equiv> Set_bits hw UDPHS_CTRL EN_UDPHS s"

abbreviation (input) udd_disable_periph where
  "udd_disable_periph hw s \<equiv> Clr_bits hw UDPHS_CTRL EN_UDPHS s"

abbreviation (input) Is_udd_periph_enabled where
  "Is_udd_periph_enabled hw s \<equiv> Tst_bits hw UDPHS_CTRL EN_UDPHS s"

abbreviation (input) Is_udd_detached where "Is_udd_detached hw s \<equiv> Tst_bits hw UDPHS_CTRL DETACH s"

abbreviation (input) udd_initiate_remote_wake_up where
  "udd_initiate_remote_wake_up hw s \<equiv> Set_bits hw UDPHS_CTRL REWAKEUP s"

abbreviation (input) Is_udd_pending_remote_wake_up where
  "Is_udd_pending_remote_wake_up hw s \<equiv> Tst_bits hw UDPHS_CTRL REWAKEUP s"

abbreviation (input) udd_enable_remote_wake_up_interrupt where
  "udd_enable_remote_wake_up_interrupt hw s \<equiv> Set_bits hw UDPHS_IEN UPSTR_RES s"

abbreviation (input) udd_disable_remote_wake_up_interrupt where
  "udd_disable_remote_wake_up_interrupt hw s \<equiv> Clr_bits hw UDPHS_IEN UPSTR_RES s"

abbreviation (input) Is_udd_remote_wake_up_interrupt_enabled where
  "Is_udd_remote_wake_up_interrupt_enabled hw s \<equiv> Tst_bits hw UDPHS_IEN UPSTR_RES s"

abbreviation (input) udd_ack_remote_wake_up_start where
  "udd_ack_remote_wake_up_start s \<equiv> wr UDPHS UDPHS_CLRINT UPSTR_RES s"

abbreviation (input) Is_udd_remote_wake_up_start where
  "Is_udd_remote_wake_up_start hw s \<equiv> Tst_bits hw UDPHS_INTSTA UPSTR_RES s"

abbreviation (input) udd_enable_resume_interrupt where
  "udd_enable_resume_interrupt hw s \<equiv> Set_bits hw UDPHS_IEN ENDOFRSM s"

abbreviation (input) udd_disable_resume_interrupt where
  "udd_disable_resume_interrupt hw s \<equiv> Clr_bits hw UDPHS_IEN ENDOFRSM s"

abbreviation (input) Is_udd_resume_interrupt_enabled where
  "Is_udd_resume_interrupt_enabled hw s \<equiv> Tst_bits hw UDPHS_IEN ENDOFRSM s"

abbreviation (input) udd_ack_resume where "udd_ack_resume s \<equiv> wr UDPHS UDPHS_CLRINT ENDOFRSM s"

abbreviation (input) Is_udd_resume where "Is_udd_resume hw s \<equiv> Tst_bits hw UDPHS_INTSTA ENDOFRSM s"

abbreviation (input) udd_enable_wake_up_interrupt where
  "udd_enable_wake_up_interrupt hw s \<equiv> Set_bits hw UDPHS_IEN WAKE_UP s"

abbreviation (input) udd_disable_wake_up_interrupt where
  "udd_disable_wake_up_interrupt hw s \<equiv> Clr_bits hw UDPHS_IEN WAKE_UP s"

abbreviation (input) Is_udd_wake_up_interrupt_enabled where
  "Is_udd_wake_up_interrupt_enabled hw s \<equiv> Tst_bits hw UDPHS_IEN WAKE_UP s"

abbreviation (input) udd_ack_wake_up where "udd_ack_wake_up s \<equiv> wr UDPHS UDPHS_CLRINT WAKE_UP s"

abbreviation (input) Is_udd_wake_up where "Is_udd_wake_up hw s \<equiv> Tst_bits hw UDPHS_INTSTA WAKE_UP s"

abbreviation (input) udd_enable_reset_interrupt where
  "udd_enable_reset_interrupt hw s \<equiv> Set_bits hw UDPHS_IEN ENDRESET s"

abbreviation (input) udd_disable_reset_interrupt where
  "udd_disable_reset_interrupt hw s \<equiv> Clr_bits hw UDPHS_IEN ENDRESET s"

abbreviation (input) Is_udd_reset_interrupt_enabled where
  "Is_udd_reset_interrupt_enabled hw s \<equiv> Tst_bits hw UDPHS_IEN ENDRESET s"

abbreviation (input) udd_ack_reset where "udd_ack_reset s \<equiv> wr UDPHS UDPHS_CLRINT ENDRESET s"

abbreviation (input) Is_udd_reset where "Is_udd_reset hw s \<equiv> Tst_bits hw UDPHS_INTSTA ENDRESET s"

abbreviation (input) udd_enable_sof_interrupt where
  "udd_enable_sof_interrupt hw s \<equiv> Set_bits hw UDPHS_IEN INT_SOF s"

abbreviation (input) udd_disable_sof_interrupt where
  "udd_disable_sof_interrupt hw s \<equiv> Clr_bits hw UDPHS_IEN INT_SOF s"

abbreviation (input) Is_udd_sof_interrupt_enabled where
  "Is_udd_sof_interrupt_enabled hw s \<equiv> Tst_bits hw UDPHS_IEN INT_SOF s"

abbreviation (input) udd_ack_sof where "udd_ack_sof s \<equiv> wr UDPHS UDPHS_CLRINT INT_SOF s"

abbreviation (input) Is_udd_sof where "Is_udd_sof hw s \<equiv> Tst_bits hw UDPHS_INTSTA INT_SOF s"

abbreviation (input) udd_frame_number where
  "udd_frame_number hw s \<equiv> Rd_bitfield hw UDPHS_FNUM FRAME_NUMBER_Msk 3 s"

abbreviation (input) Is_udd_frame_number_crc_error where
  "Is_udd_frame_number_crc_error hw s \<equiv> Tst_bits hw UDPHS_FNUM FNUM_ERR s"

abbreviation (input) udd_enable_msof_interrupt where
  "udd_enable_msof_interrupt hw s \<equiv> Set_bits hw UDPHS_IEN MICRO_SOF s"

abbreviation (input) udd_disable_msof_interrupt where
  "udd_disable_msof_interrupt hw s \<equiv> Clr_bits hw UDPHS_IEN MICRO_SOF s"

abbreviation (input) Is_udd_msof_interrupt_enabled where
  "Is_udd_msof_interrupt_enabled hw s \<equiv> Tst_bits hw UDPHS_IEN MICRO_SOF s"

abbreviation (input) udd_ack_msof where "udd_ack_msof s \<equiv> wr UDPHS UDPHS_CLRINT MICRO_SOF s"

abbreviation (input) Is_udd_msof where "Is_udd_msof hw s \<equiv> Tst_bits hw UDPHS_INTSTA MICRO_SOF s"

abbreviation (input) udd_micro_frame_number where
  "udd_micro_frame_number hw s \<equiv> Rd_bitfield hw UDPHS_FNUM MICRO_FRAME_NUM_Msk 0 s"

abbreviation (input) udd_enable_suspend_interrupt where
  "udd_enable_suspend_interrupt hw s \<equiv> Set_bits hw UDPHS_IEN DET_SUSPD s"

abbreviation (input) udd_disable_suspend_interrupt where
  "udd_disable_suspend_interrupt hw s \<equiv> Clr_bits hw UDPHS_IEN DET_SUSPD s"

abbreviation (input) Is_udd_suspend_interrupt_enabled where
  "Is_udd_suspend_interrupt_enabled hw s \<equiv> Tst_bits hw UDPHS_IEN DET_SUSPD s"

abbreviation (input) udd_ack_suspend where "udd_ack_suspend s \<equiv> wr UDPHS UDPHS_CLRINT DET_SUSPD s"

abbreviation (input) Is_udd_suspend where "Is_udd_suspend hw s \<equiv> Tst_bits hw UDPHS_INTSTA DET_SUSPD s"

abbreviation (input) udd_enable_address where
  "udd_enable_address hw s \<equiv> Set_bits hw UDPHS_CTRL FADDR_EN s"

abbreviation (input) udd_disable_address where
  "udd_disable_address hw s \<equiv> Clr_bits hw UDPHS_CTRL FADDR_EN s"

abbreviation (input) Is_udd_address_enabled where
  "Is_udd_address_enabled hw s \<equiv> Tst_bits hw UDPHS_CTRL FADDR_EN s"

abbreviation (input) udd_configure_address where
  "udd_configure_address hw address s \<equiv> Wr_bitfield hw UDPHS_CTRL DEV_ADDR_Msk 0 address s"

abbreviation (input) udd_get_configured_address where
  "udd_get_configured_address hw s \<equiv> Rd_bitfield hw UDPHS_CTRL DEV_ADDR_Msk 0 s"

section \<open>Endpoint configuration\<close>

abbreviation (input) udd_configure_endpoint_size where
  "udd_configure_endpoint_size hw ep sz s \<equiv>
     Wr_bitfield hw (EPT ep EPTCFG) EPT_SIZE_Msk 0 (udd_format_endpoint_size sz) s"

abbreviation (input) UDPHS_EPTRST :: nat where "UDPHS_EPTRST \<equiv> 0x1C"

abbreviation (input) udd_reset_endpoint where
  "udd_reset_endpoint hw ep s \<equiv>
     Clr_bits hw UDPHS_EPTRST (push_bit (unat ep) 1) (Set_bits hw UDPHS_EPTRST (push_bit (unat ep) 1) s)"

abbreviation (input) udd_enable_endpoint where
  "udd_enable_endpoint ep s \<equiv> wr UDPHS (EPT ep EPTCTLENB) EPT_ENABL s"

abbreviation (input) udd_disable_endpoint where
  "udd_disable_endpoint ep s \<equiv> wr UDPHS (EPT ep EPTCTLDIS) EPT_DISABL s"

abbreviation (input) udd_configure_endpoint_type where
  "udd_configure_endpoint_type hw ep type s \<equiv> Wr_bitfield hw (EPT ep EPTCFG) EPT_TYPE_Msk 4 type s"

abbreviation (input) udd_get_endpoint_type where
  "udd_get_endpoint_type hw ep s \<equiv> Rd_bitfield hw (EPT ep EPTCFG) EPT_TYPE_Msk 4 s"

abbreviation (input) Is_udd_endpoint_bank_autoswitch_enabled where
  "Is_udd_endpoint_bank_autoswitch_enabled hw ep s \<equiv> Tst_bits hw (EPT ep EPTCTL) AUTO_VALID s"

abbreviation (input) udd_configure_endpoint_direction where
  "udd_configure_endpoint_direction hw ep dir s \<equiv> Wr_bitfield hw (EPT ep EPTCFG) EPT_DIR 3 dir s"

abbreviation (input) udd_get_endpoint_direction where
  "udd_get_endpoint_direction hw ep s \<equiv> Rd_bitfield hw (EPT ep EPTCFG) EPT_DIR 3 s"

abbreviation (input) udd_get_endpoint_bank where
  "udd_get_endpoint_bank hw ep s \<equiv> Rd_bitfield hw (EPT ep EPTCFG) BK_NUMBER_Msk 6 s"

abbreviation (input) udd_configure_endpoint_nb_tran where
  "udd_configure_endpoint_nb_tran hw ep nb s \<equiv> Wr_bitfield hw (EPT ep EPTCFG) NB_TRANS_Msk 8 nb s"

abbreviation (input) udd_get_endpoint_nb_tran where
  "udd_get_endpoint_nb_tran hw ep s \<equiv> Rd_bitfield hw (EPT ep EPTCFG) NB_TRANS_Msk 8 s"

abbreviation (input) Is_udd_endpoint_mapped where
  "Is_udd_endpoint_mapped hw ep s \<equiv> Tst_bits hw (EPT ep EPTCFG) EPT_MAPD s"

section \<open>The status word of an endpoint\<close>

abbreviation (input) udd_get_endpoint_status where
  "udd_get_endpoint_status hw ep s \<equiv> rd hw UDPHS (EPT ep EPTSTA) s"

abbreviation (input) Is_udd_endpoint_status_err_flow where
  "Is_udd_endpoint_status_err_flow status \<equiv> status AND ERR_FL_ISO \<noteq> 0"

abbreviation (input) udd_reset_data_toggle where
  "udd_reset_data_toggle ep s \<equiv> wr UDPHS (EPT ep EPTCLRSTA) TOGGLESQ s"

abbreviation (input) udd_data_toggle where
  "udd_data_toggle hw ep s \<equiv> Rd_bitfield hw (EPT ep EPTSTA) TOGGLESQ_STA_Msk 6 s"

abbreviation (input) udd_get_endpoint_status_byte_count where
  "udd_get_endpoint_status_byte_count status \<equiv> drop_bit 20 (status AND BYTE_COUNT_Msk)"

abbreviation (input) udd_get_endpoint_status_nb_busy_bank where
  "udd_get_endpoint_status_nb_busy_bank status \<equiv> drop_bit 18 (status AND BUSY_BANK_STA_Msk)"

abbreviation (input) udd_get_endpoint_status_current_bank where
  "udd_get_endpoint_status_current_bank status \<equiv> drop_bit 16 (status AND CURRENT_BANK_Msk)"

abbreviation (input) udd_get_endpoint_status_control_dir where
  "udd_get_endpoint_status_control_dir status \<equiv> drop_bit 16 (status AND CONTROL_DIR_Msk)"

abbreviation (input) udd_get_endpoint_status_data_toggle where
  "udd_get_endpoint_status_data_toggle status \<equiv> drop_bit 6 (status AND TOGGLESQ_STA_Msk)"

abbreviation (input) Is_udd_endpoint_status_stall_requested where
  "Is_udd_endpoint_status_stall_requested status \<equiv> status AND FRCESTALL \<noteq> 0"

abbreviation (input) Is_udd_endpoint_status_overflow where
  "Is_udd_endpoint_status_overflow status \<equiv> status AND ERR_OVFLW \<noteq> 0"

abbreviation (input) Is_udd_endpoint_status_out_received where
  "Is_udd_endpoint_status_out_received status \<equiv> status AND RX_BK_RDY \<noteq> 0"

abbreviation (input) Is_udd_endpoint_status_kill_bank where
  "Is_udd_endpoint_status_kill_bank status \<equiv> status AND KILL_BANK \<noteq> 0"

abbreviation (input) Is_udd_endpoint_status_in_sent where
  "Is_udd_endpoint_status_in_sent status \<equiv> status AND TX_COMPLT \<noteq> 0"

abbreviation (input) Is_udd_endpoint_status_tx_pkt_ready where
  "Is_udd_endpoint_status_tx_pkt_ready status \<equiv> status AND TX_PK_RDY \<noteq> 0"

abbreviation (input) Is_udd_endpoint_status_err_trans where
  "Is_udd_endpoint_status_err_trans status \<equiv> status AND ERR_TRANS \<noteq> 0"

abbreviation (input) Is_udd_endpoint_status_setup_received where
  "Is_udd_endpoint_status_setup_received status \<equiv> status AND RX_SETUP \<noteq> 0"

abbreviation (input) Is_udd_endpoint_status_stall where
  "Is_udd_endpoint_status_stall status \<equiv> status AND STALL_SNT \<noteq> 0"

abbreviation (input) Is_udd_endpoint_status_crc_err where
  "Is_udd_endpoint_status_crc_err status \<equiv> status AND ERR_CRISO \<noteq> 0"

section \<open>Endpoint events\<close>

abbreviation (input) Is_udd_endpoint_status_nb_tran where
  "Is_udd_endpoint_status_nb_tran status \<equiv> status AND ERR_NBTRA \<noteq> 0"

abbreviation (input) Is_udd_endpoint_status_nak_in where
  "Is_udd_endpoint_status_nak_in status \<equiv> status AND NAK_IN \<noteq> 0"

abbreviation (input) Is_udd_endpoint_status_flush_error where
  "Is_udd_endpoint_status_flush_error status \<equiv> status AND ERR_FLUSH \<noteq> 0"

abbreviation (input) Is_udd_endpoint_status_nak_out where
  "Is_udd_endpoint_status_nak_out status \<equiv> status AND NAK_OUT \<noteq> 0"

abbreviation (input) Is_udd_endpoint_status_short_packet where
  "Is_udd_endpoint_status_short_packet status \<equiv> status AND SHRT_PCKT \<noteq> 0"

abbreviation (input) Is_udd_endpoint_interrupt_enabled where
  "Is_udd_endpoint_interrupt_enabled hw ep s \<equiv> Tst_bits hw UDPHS_IEN (push_bit (8 + unat ep) 1) s"

abbreviation (input) Is_udd_endpoint_interrupt where
  "Is_udd_endpoint_interrupt hw ep s \<equiv> Tst_bits hw UDPHS_INTSTA (push_bit (8 + unat ep) 1) s"

abbreviation (input) udd_enable_stall_handshake where
  "udd_enable_stall_handshake ep s \<equiv> wr UDPHS (EPT ep EPTSETSTA) FRCESTALL s"

abbreviation (input) udd_disable_stall_handshake where
  "udd_disable_stall_handshake ep s \<equiv> wr UDPHS (EPT ep EPTCLRSTA) FRCESTALL s"

abbreviation (input) Is_udd_stall where "Is_udd_stall hw ep s \<equiv> Tst_bits hw (EPT ep EPTSTA) STALL_SNT s"

abbreviation (input) udd_ack_stall where "udd_ack_stall ep s \<equiv> wr UDPHS (EPT ep EPTCLRSTA) STALL_SNT s"

abbreviation (input) udd_enable_stall_interrupt where
  "udd_enable_stall_interrupt ep s \<equiv> wr UDPHS (EPT ep EPTCTLENB) STALL_SNT s"

abbreviation (input) udd_disable_stall_interrupt where
  "udd_disable_stall_interrupt ep s \<equiv> wr UDPHS (EPT ep EPTCTLDIS) STALL_SNT s"

abbreviation (input) Is_udd_stall_interrupt_enabled where
  "Is_udd_stall_interrupt_enabled hw ep s \<equiv> Tst_bits hw (EPT ep EPTCTL) STALL_SNT s"

abbreviation (input) Is_udd_nak_out where
  "Is_udd_nak_out hw ep s \<equiv> Tst_bits hw (EPT ep EPTSTA) NAK_OUT s"

abbreviation (input) udd_ack_nak_out where "udd_ack_nak_out ep s \<equiv> wr UDPHS (EPT ep EPTCLRSTA) NAK_OUT s"

abbreviation (input) udd_enable_nak_out_interrupt where
  "udd_enable_nak_out_interrupt ep s \<equiv> wr UDPHS (EPT ep EPTCTLENB) NAK_OUT s"

abbreviation (input) udd_disable_nak_out_interrupt where
  "udd_disable_nak_out_interrupt ep s \<equiv> wr UDPHS (EPT ep EPTCTLDIS) NAK_OUT s"

abbreviation (input) Is_udd_nak_out_interrupt_enabled where
  "Is_udd_nak_out_interrupt_enabled hw ep s \<equiv> Tst_bits hw (EPT ep EPTCTL) NAK_OUT s"

abbreviation (input) Is_udd_nak_in where "Is_udd_nak_in hw ep s \<equiv> Tst_bits hw (EPT ep EPTSTA) NAK_IN s"

abbreviation (input) udd_ack_nak_in where "udd_ack_nak_in ep s \<equiv> wr UDPHS (EPT ep EPTCLRSTA) NAK_IN s"

abbreviation (input) udd_enable_nak_in_interrupt where
  "udd_enable_nak_in_interrupt ep s \<equiv> wr UDPHS (EPT ep EPTCTLENB) NAK_IN s"

abbreviation (input) udd_disable_nak_in_interrupt where
  "udd_disable_nak_in_interrupt ep s \<equiv> wr UDPHS (EPT ep EPTCTLDIS) NAK_IN s"

abbreviation (input) Is_udd_nak_in_interrupt_enabled where
  "Is_udd_nak_in_interrupt_enabled hw ep s \<equiv> Tst_bits hw (EPT ep EPTCTL) NAK_IN s"

abbreviation (input) udd_disable_nyet where
  "udd_disable_nyet ep s \<equiv> wr UDPHS (EPT ep EPTCTLENB) NYET_DIS s"

abbreviation (input) udd_enable_nyet where
  "udd_enable_nyet ep s \<equiv> wr UDPHS (EPT ep EPTCTLDIS) NYET_DIS s"

abbreviation (input) Is_udd_nyet_disabled where
  "Is_udd_nyet_disabled hw ep s \<equiv> Tst_bits hw (EPT ep EPTCTL) NYET_DIS s"

abbreviation (input) udd_ack_errflow_interrupt where
  "udd_ack_errflow_interrupt ep s \<equiv> wr UDPHS (EPT ep EPTCLRSTA) ERR_FL_ISO s"

abbreviation (input) Is_udd_errflow where
  "Is_udd_errflow hw ep s \<equiv> Tst_bits hw (EPT ep EPTSTA) ERR_FL_ISO s"

abbreviation (input) udd_enable_errflow_interrupt where
  "udd_enable_errflow_interrupt ep s \<equiv> wr UDPHS (EPT ep EPTCTLENB) ERR_FL_ISO s"

abbreviation (input) udd_disable_errflow_interrupt where
  "udd_disable_errflow_interrupt ep s \<equiv> wr UDPHS (EPT ep EPTCTLDIS) ERR_FL_ISO s"

abbreviation (input) Is_udd_errflow_interrupt_enabled where
  "Is_udd_errflow_interrupt_enabled hw ep s \<equiv> Tst_bits hw (EPT ep EPTCTL) ERR_FL_ISO s"

abbreviation (input) udd_ack_errtran_interrupt where
  "udd_ack_errtran_interrupt ep s \<equiv> wr UDPHS (EPT ep EPTCLRSTA) ERR_TRANS s"

abbreviation (input) Is_udd_errtran where
  "Is_udd_errtran hw ep s \<equiv> Tst_bits hw (EPT ep EPTSTA) ERR_TRANS s"

abbreviation (input) udd_enable_errtran_interrupt where
  "udd_enable_errtran_interrupt ep s \<equiv> wr UDPHS (EPT ep EPTCTLENB) ERR_TRANS s"

abbreviation (input) udd_disable_errtran_interrupt where
  "udd_disable_errtran_interrupt ep s \<equiv> wr UDPHS (EPT ep EPTCTLDIS) ERR_TRANS s"

abbreviation (input) Is_udd_errtran_interrupt_enabled where
  "Is_udd_errtran_interrupt_enabled hw ep s \<equiv> Tst_bits hw (EPT ep EPTCTL) ERR_TRANS s"

abbreviation (input) Is_udd_crc_error where
  "Is_udd_crc_error hw ep s \<equiv> Tst_bits hw (EPT ep EPTSTA) ERR_CRISO s"

abbreviation (input) udd_ack_crc_error where
  "udd_ack_crc_error ep s \<equiv> wr UDPHS (EPT ep EPTCLRSTA) ERR_CRISO s"

abbreviation (input) udd_enable_crc_error_interrupt where
  "udd_enable_crc_error_interrupt ep s \<equiv> wr UDPHS (EPT ep EPTCTLENB) ERR_CRISO s"

abbreviation (input) udd_disable_crc_error_interrupt where
  "udd_disable_crc_error_interrupt ep s \<equiv> wr UDPHS (EPT ep EPTCTLDIS) ERR_CRISO s"

abbreviation (input) Is_udd_crc_error_interrupt_enabled where
  "Is_udd_crc_error_interrupt_enabled hw ep s \<equiv> Tst_bits hw (EPT ep EPTCTL) ERR_CRISO s"

abbreviation (input) Is_udd_nb_tran where
  "Is_udd_nb_tran hw ep s \<equiv> Tst_bits hw (EPT ep EPTSTA) ERR_NBTRA s"

abbreviation (input) udd_ack_nb_tran where
  "udd_ack_nb_tran ep s \<equiv> wr UDPHS (EPT ep EPTCLRSTA) ERR_NBTRA s"

abbreviation (input) udd_enable_nb_tran_interrupt where
  "udd_enable_nb_tran_interrupt ep s \<equiv> wr UDPHS (EPT ep EPTCTLENB) ERR_NBTRA s"

abbreviation (input) udd_disable_nb_tran_interrupt where
  "udd_disable_nb_tran_interrupt ep s \<equiv> wr UDPHS (EPT ep EPTCTLDIS) ERR_NBTRA s"

abbreviation (input) Is_udd_nb_tran_interrupt_enabled where
  "Is_udd_nb_tran_interrupt_enabled hw ep s \<equiv> Tst_bits hw (EPT ep EPTCTL) ERR_NBTRA s"

abbreviation (input) udd_ack_flush_error_interrupt where
  "udd_ack_flush_error_interrupt ep s \<equiv> wr UDPHS (EPT ep EPTCLRSTA) ERR_FLUSH s"

abbreviation (input) Is_udd_flush_error where
  "Is_udd_flush_error hw ep s \<equiv> Tst_bits hw (EPT ep EPTSTA) ERR_FLUSH s"

abbreviation (input) udd_enable_flush_error_interrupt where
  "udd_enable_flush_error_interrupt ep s \<equiv> wr UDPHS (EPT ep EPTCTLENB) ERR_FLUSH s"

abbreviation (input) udd_disable_flush_error_interrupt where
  "udd_disable_flush_error_interrupt ep s \<equiv> wr UDPHS (EPT ep EPTCTLDIS) ERR_FLUSH s"

abbreviation (input) Is_udd_flush_error_interrupt_enabled where
  "Is_udd_flush_error_interrupt_enabled hw ep s \<equiv> Tst_bits hw (EPT ep EPTCTL) ERR_FLUSH s"

abbreviation (input) udd_raise_tx_pkt_ready where
  "udd_raise_tx_pkt_ready ep s \<equiv> wr UDPHS (EPT ep EPTSETSTA) TX_PK_RDY s"

abbreviation (input) Is_udd_tx_pkt_ready where
  "Is_udd_tx_pkt_ready hw ep s \<equiv> Tst_bits hw (EPT ep EPTSTA) TX_PK_RDY s"

abbreviation (input) udd_enable_tx_pkt_ready_interrupt where
  "udd_enable_tx_pkt_ready_interrupt ep s \<equiv> wr UDPHS (EPT ep EPTCTLENB) TX_PK_RDY s"

abbreviation (input) udd_disable_tx_pkt_ready_interrupt where
  "udd_disable_tx_pkt_ready_interrupt ep s \<equiv> wr UDPHS (EPT ep EPTCTLDIS) TX_PK_RDY s"

abbreviation (input) Is_udd_tx_pkt_ready_interrupt_enabled where
  "Is_udd_tx_pkt_ready_interrupt_enabled hw ep s \<equiv> Tst_bits hw (EPT ep EPTCTL) TX_PK_RDY s"

abbreviation (input) udd_ack_tx_complt where
  "udd_ack_tx_complt ep s \<equiv> wr UDPHS (EPT ep EPTCLRSTA) TX_COMPLT s"

abbreviation (input) Is_udd_tx_complt where
  "Is_udd_tx_complt hw ep s \<equiv> Tst_bits hw (EPT ep EPTSTA) TX_COMPLT s"

abbreviation (input) udd_enable_tx_complt_interrupt where
  "udd_enable_tx_complt_interrupt ep s \<equiv> wr UDPHS (EPT ep EPTCTLENB) TX_COMPLT s"

abbreviation (input) udd_disable_tx_complt_interrupt where
  "udd_disable_tx_complt_interrupt ep s \<equiv> wr UDPHS (EPT ep EPTCTLDIS) TX_COMPLT s"

abbreviation (input) Is_udd_tx_complt_interrupt_enabled where
  "Is_udd_tx_complt_interrupt_enabled hw ep s \<equiv> Tst_bits hw (EPT ep EPTCTL) TX_COMPLT s"

abbreviation (input) udd_current_bank where
  "udd_current_bank hw ep s \<equiv> Rd_bitfield hw (EPT ep EPTSTA) CURRENT_BANK_Msk 16 s"

abbreviation (input) udd_kill_last_in_bank where
  "udd_kill_last_in_bank ep s \<equiv> wr UDPHS (EPT ep EPTSETSTA) KILL_BANK s"

abbreviation (input) Is_udd_kill_last where
  "Is_udd_kill_last hw ep s \<equiv> Tst_bits hw (EPT ep EPTSTA) KILL_BANK s"

abbreviation (input) udd_enable_bank_interrupt where
  "udd_enable_bank_interrupt ep s \<equiv> wr UDPHS (EPT ep EPTCTLENB) BUSY_BANK s"

abbreviation (input) udd_disable_bank_interrupt where
  "udd_disable_bank_interrupt ep s \<equiv> wr UDPHS (EPT ep EPTCTLDIS) BUSY_BANK s"

abbreviation (input) Is_udd_bank_interrupt_enabled where
  "Is_udd_bank_interrupt_enabled hw ep s \<equiv> Tst_bits hw (EPT ep EPTCTL) BUSY_BANK s"

abbreviation (input) Is_udd_short_packet where
  "Is_udd_short_packet hw ep s \<equiv> Tst_bits hw (EPT ep EPTSTA) SHRT_PCKT s"

abbreviation (input) udd_enable_short_packet_interrupt where
  "udd_enable_short_packet_interrupt ep s \<equiv> wr UDPHS (EPT ep EPTCTLENB) SHRT_PCKT s"

abbreviation (input) udd_disable_short_packet_interrupt where
  "udd_disable_short_packet_interrupt ep s \<equiv> wr UDPHS (EPT ep EPTCTLDIS) SHRT_PCKT s"

abbreviation (input) Is_udd_short_packet_interrupt_enabled where
  "Is_udd_short_packet_interrupt_enabled hw ep s \<equiv> Tst_bits hw (EPT ep EPTCTL) SHRT_PCKT s"

abbreviation (input) Is_udd_setup_received where
  "Is_udd_setup_received hw ep s \<equiv> Tst_bits hw (EPT ep EPTSTA) RX_SETUP s"

abbreviation (input) udd_ack_setup_received where
  "udd_ack_setup_received ep s \<equiv> wr UDPHS (EPT ep EPTCLRSTA) RX_SETUP s"

abbreviation (input) udd_enable_setup_received_interrupt where
  "udd_enable_setup_received_interrupt ep s \<equiv> wr UDPHS (EPT ep EPTCTLENB) RX_SETUP s"

abbreviation (input) udd_disable_setup_received_interrupt where
  "udd_disable_setup_received_interrupt ep s \<equiv> wr UDPHS (EPT ep EPTCTLDIS) RX_SETUP s"

abbreviation (input) Is_udd_setup_received_interrupt_enabled where
  "Is_udd_setup_received_interrupt_enabled hw ep s \<equiv> Tst_bits hw (EPT ep EPTCTL) RX_SETUP s"

abbreviation (input) Is_udd_out_received where
  "Is_udd_out_received hw ep s \<equiv> Tst_bits hw (EPT ep EPTSTA) RX_BK_RDY s"

abbreviation (input) udd_ack_out_received where
  "udd_ack_out_received ep s \<equiv> wr UDPHS (EPT ep EPTCLRSTA) RX_BK_RDY s"

abbreviation (input) udd_enable_out_received_interrupt where
  "udd_enable_out_received_interrupt ep s \<equiv> wr UDPHS (EPT ep EPTCTLENB) RX_BK_RDY s"

abbreviation (input) udd_disable_out_received_interrupt where
  "udd_disable_out_received_interrupt ep s \<equiv> wr UDPHS (EPT ep EPTCTLDIS) RX_BK_RDY s"

abbreviation (input) Is_udd_out_received_interrupt_enabled where
  "Is_udd_out_received_interrupt_enabled hw ep s \<equiv> Tst_bits hw (EPT ep EPTCTL) RX_BK_RDY s"

abbreviation (input) Is_udd_in_send where
  "Is_udd_in_send hw ep s \<equiv> Tst_bits hw (EPT ep EPTSTA) TX_COMPLT s"

abbreviation (input) udd_ack_in_send where
  "udd_ack_in_send ep s \<equiv> wr UDPHS (EPT ep EPTCLRSTA) TX_COMPLT s"

abbreviation (input) udd_enable_in_send_interrupt where
  "udd_enable_in_send_interrupt ep s \<equiv> wr UDPHS (EPT ep EPTCTLENB) TX_COMPLT s"

abbreviation (input) udd_disable_in_send_interrupt where
  "udd_disable_in_send_interrupt ep s \<equiv> wr UDPHS (EPT ep EPTCTLDIS) TX_COMPLT s"

abbreviation (input) Is_udd_in_send_interrupt_enabled where
  "Is_udd_in_send_interrupt_enabled hw ep s \<equiv> Tst_bits hw (EPT ep EPTCTL) TX_COMPLT s"

abbreviation (input) udd_enable_endpoint_int_dis_hdma_req where
  "udd_enable_endpoint_int_dis_hdma_req ep s \<equiv> wr UDPHS (EPT ep EPTCTLENB) INTDIS_DMA s"

abbreviation (input) udd_disable_endpoint_int_dis_hdma_req where
  "udd_disable_endpoint_int_dis_hdma_req ep s \<equiv> wr UDPHS (EPT ep EPTCTLDIS) INTDIS_DMA s"

abbreviation (input) Is_udd_endpoint_int_dis_hdma_req_enabled where
  "Is_udd_endpoint_int_dis_hdma_req_enabled hw ep s \<equiv> Tst_bits hw (EPT ep EPTCTL) INTDIS_DMA s"

abbreviation (input) Is_udd_endpoint_dma_interrupt where
  "Is_udd_endpoint_dma_interrupt hw ep s \<equiv> Tst_bits hw UDPHS_INTSTA (push_bit (24 + unat ep) 1) s"

abbreviation (input) udd_enable_endpoint_dma_interrupt where
  "udd_enable_endpoint_dma_interrupt hw ep s \<equiv> Set_bits hw UDPHS_IEN (push_bit (24 + unat ep) 1) s"

abbreviation (input) udd_disable_endpoint_dma_interrupt where
  "udd_disable_endpoint_dma_interrupt hw ep s \<equiv> Clr_bits hw UDPHS_IEN (push_bit (24 + unat ep) 1) s"

abbreviation (input) Is_udd_endpoint_dma_interrupt_enabled where
  "Is_udd_endpoint_dma_interrupt_enabled hw ep s \<equiv> Tst_bits hw UDPHS_IEN (push_bit (24 + unat ep) 1) s"

section \<open>DMA channels\<close>

abbreviation (input) UDD_ENDPOINT_DMA_STOP_NOW :: u32 where "UDD_ENDPOINT_DMA_STOP_NOW \<equiv> 0"

abbreviation (input) UDD_ENDPOINT_DMA_RUN_AND_STOP :: u32 where "UDD_ENDPOINT_DMA_RUN_AND_STOP \<equiv> CHANN_ENB"

abbreviation (input) UDD_ENDPOINT_DMA_LOAD_NEXT_DESC :: u32 where
  "UDD_ENDPOINT_DMA_LOAD_NEXT_DESC \<equiv> LDNXT_DSC"

abbreviation (input) UDD_ENDPOINT_DMA_RUN_AND_LINK :: u32 where
  "UDD_ENDPOINT_DMA_RUN_AND_LINK \<equiv> CHANN_ENB OR LDNXT_DSC"

abbreviation (input) udd_endpoint_dma_set_control where
  "udd_endpoint_dma_set_control ep desc s \<equiv> wr UDPHS (DMA ep DMACONTROL) desc s"

abbreviation (input) udd_endpoint_dma_get_control where
  "udd_endpoint_dma_get_control hw ep s \<equiv> rd hw UDPHS (DMA ep DMACONTROL) s"

abbreviation (input) udd_endpoint_dma_set_addr where
  "udd_endpoint_dma_set_addr ep add s \<equiv> wrp UDPHS (DMA ep DMAADDR) add s"

abbreviation (input) udd_endpoint_dma_get_status where
  "udd_endpoint_dma_get_status hw ep s \<equiv> rd hw UDPHS (DMA ep DMASTATUS) s"

end
