(* ===== verification/Udd_Ep.thy ===== *)
theory Udd_Ep
  imports Udphs_Macros
begin

text \<open>
  The bulk endpoints of the USB device driver, \<^verbatim>\<open>src/asf/sam/drivers/udphs/udphs_device.c\<close>:
  one job per endpoint, run by the DMA channel of the endpoint. The device has the endpoints 1
  (bulk IN) and 2 (bulk OUT). The code reads and writes \<open>udd_ep_job[ep - 1]\<close> without looking at
  \<open>ep = 0\<close>, and in some functions without any check: an access outside the array is
  recorded as \<open>Oob\<close> in the trace, and the model goes on with an idle job.
\<close>

section \<open>The job table\<close>

definition job_ok :: "u8 \<Rightarrow> bool" where
  "job_ok ep \<longleftrightarrow> 1 \<le> ep \<and> ep \<le> USB_DEVICE_MAX_EP"

definition get_job :: "u8 \<Rightarrow> 'z usb_scheme \<Rightarrow> udd_ep_job_t \<times> 'z usb_scheme" where
  "get_job ep s =
     (if job_ok ep then (udd_ep_job s ! (unat ep - 1), s) else (job0, oob (O_ep_job, unat ep) s))"

definition upd_job :: "u8 \<Rightarrow> (udd_ep_job_t \<Rightarrow> udd_ep_job_t) \<Rightarrow> 'z usb_scheme \<Rightarrow> 'z usb_scheme" where
  "upd_job ep f s =
     (if job_ok ep
      then udd_ep_job_update (\<lambda>js. js[unat ep - 1 := f (js ! (unat ep - 1))]) s
      else oob (O_ep_job, unat ep) s)"

text \<open>A call through the pointer of a job; the callbacks do not use the size or the endpoint.\<close>

definition run_callback :: "trans_callback \<Rightarrow> udd_ep_status_t \<Rightarrow> 'z usb_scheme \<Rightarrow> 'z usb_scheme" where
  "run_callback cb status s =
     (case cb of
        CB_null \<Rightarrow> s
      | CB_bulk_in_received \<Rightarrow> main_vendor_bulk_in_received status s
      | CB_bulk_out_received \<Rightarrow> main_vendor_bulk_out_received status s
      | CB_bulk_out_received_first \<Rightarrow> main_vendor_bulk_out_received_first status s
      | CB_ext n \<Rightarrow> instr (Call n) s)"

definition udd_ep_job_table_reset :: "'z usb_scheme \<Rightarrow> 'z usb_scheme" where
  "udd_ep_job_table_reset s =
     udd_ep_job_update (map (\<lambda>j. j\<lparr>busy := False, stall_requested := False\<rparr>)) s"

definition udd_ep_finish_job :: "hw \<Rightarrow> u8 \<Rightarrow> bool \<Rightarrow> 'z usb_scheme \<Rightarrow> 'z usb_scheme" where
  "udd_ep_finish_job hw ep b_abort s =
     (let (j, s) = get_job ep s
      in if \<not> busy j then s
         else
           let s = upd_job ep (busy_update (\<lambda>_. False)) s
           in if call_trans j = CB_null then s
              else
                let (_, s) = Is_udd_endpoint_in hw ep s
                in run_callback (call_trans j)
                     (if b_abort then UDD_EP_TRANSFER_ABORT else UDD_EP_TRANSFER_OK) s)"

definition udd_ep_job_table_kill :: "hw \<Rightarrow> 'z usb_scheme \<Rightarrow> 'z usb_scheme" where
  "udd_ep_job_table_kill hw s = udd_ep_finish_job hw 2 True (udd_ep_finish_job hw 1 True s)"

definition udd_ep_abort_job :: "hw \<Rightarrow> u8 \<Rightarrow> 'z usb_scheme \<Rightarrow> 'z usb_scheme" where
  "udd_ep_abort_job hw ep s = udd_ep_finish_job hw (ep AND USB_EP_ADDR_MASK) True s"

section \<open>Transfers\<close>


definition BUFF_LENGTH :: "u32 \<Rightarrow> u32" where
  "BUFF_LENGTH v = push_bit 16 0xFFFF AND push_bit 16 v"

definition next_trans :: "udd_ep_job_t \<Rightarrow> u32" where
  "next_trans j = min UDD_ENDPOINT_MAX_TRANS (buf_size j - buf_cnt j)"

text \<open>
  The DMA control word for the next part of a job. An IN transfer that does not end with a
  full packet sends its short packet itself, and needs no zero-length packet after it.
\<close>

definition dma_ctrl :: "hw \<Rightarrow> u8 \<Rightarrow> 'z usb_scheme \<Rightarrow> u32 \<times> 'z usb_scheme" where
  "dma_ctrl hw ep s =
     (let (j, s) = get_job ep s;
          n = next_trans j;
          ctrl = (if UDD_ENDPOINT_MAX_TRANS < buf_size j - buf_cnt j then BUFF_LENGTH 0 else BUFF_LENGTH n);
          (dir_in, s) = Is_udd_endpoint_in hw ep s
      in if dir_in then
           let (sz, s) = udd_get_endpoint_size hw ep s
           in if n mod sz \<noteq> 0
              then (ctrl OR END_B_EN, upd_job ep (b_shortpacket_update (\<lambda>_. False)) s)
              else (ctrl, s)
         else
           let (ty, s) = udd_get_endpoint_type hw ep s
           in if ty \<noteq> 1 then (ctrl OR (END_TR_IT OR END_TR_EN), s)
              else let (sz, s) = udd_get_endpoint_size hw ep s
                   in (if n \<le> sz then ctrl OR (END_TR_IT OR END_TR_EN) else ctrl, s))"

text \<open>Start the DMA for the next part; \<open>False\<close> when a zero-length packet has ended the transfer.\<close>

definition dma_start :: "hw \<Rightarrow> u8 \<Rightarrow> 'z usb_scheme \<Rightarrow> bool \<times> 'z usb_scheme" where
  "dma_start hw ep s =
     (let (j, _) = get_job ep s;
          (ctrl, s) = dma_ctrl hw ep s;
          s = udd_endpoint_dma_set_addr ep (fst (buf j), snd (buf j) + unat (buf_cnt j)) s;
          ctrl = ctrl OR (END_BUFFIT OR CHANN_ENB);
          (st, s) = udd_endpoint_dma_get_status hw ep s
      in if st AND END_TR_ST = 0 then
           let s = udd_endpoint_dma_set_control ep ctrl s;
               s = upd_job ep (\<lambda>k. k\<lparr>buf_cnt := buf_cnt k + next_trans j, buf_load := next_trans j\<rparr>) s
           in (True, udd_enable_endpoint_dma_interrupt hw ep s)
         else (False, s))"

definition trans_end :: "hw \<Rightarrow> u8 \<Rightarrow> 'z usb_scheme \<Rightarrow> 'z usb_scheme" where
  "trans_end hw ep s =
     (let (dir_in, s) = Is_udd_endpoint_in hw ep s;
          (j, s) = get_job ep s
      in if dir_in \<and> b_shortpacket j
         then udd_enable_endpoint_interrupt hw ep (udd_enable_tx_pkt_ready_interrupt ep s)
         else udd_ep_finish_job hw ep False s)"

definition udd_ep_trans_done :: "hw \<Rightarrow> u8 \<Rightarrow> 'z usb_scheme \<Rightarrow> 'z usb_scheme" where
  "udd_ep_trans_done hw ep s =
     (let (j, s) = get_job ep s
      in if \<not> busy j then s
         else if buf_cnt j \<noteq> buf_size j then
           let (started, s) = dma_start hw ep s
           in if started then s
              else trans_end hw ep (upd_job ep (\<lambda>k. k\<lparr>buf_size := buf_cnt k\<rparr>) s)
         else trans_end hw ep s)"

definition udd_ep_run ::
  "hw \<Rightarrow> u8 \<Rightarrow> bool \<Rightarrow> ptr \<Rightarrow> u32 \<Rightarrow> trans_callback \<Rightarrow> 'z usb_scheme \<Rightarrow> bool \<times> 'z usb_scheme" where
  "udd_ep_run hw ep shortpacket b sz cb s =
     (let ep = ep AND USB_EP_ADDR_MASK
      in if USB_DEVICE_MAX_EP < ep then (False, s)
         else
           let (enabled, s) = Is_udd_endpoint_enabled hw ep s
           in if \<not> enabled then (False, s)
              else
                let (stalled, s) = Is_udd_endpoint_stall_requested hw ep s
                in if stalled then (False, s)
                   else
                     let (j, s) = get_job ep s
                     in if stall_requested j \<or> busy j then (False, s)
                        else
                          let s = upd_job ep
                                (\<lambda>k. k\<lparr>busy := True, buf := b, buf_size := sz, buf_cnt := 0, buf_load := 0,
                                       call_trans := cb, b_shortpacket := shortpacket \<or> sz = 0\<rparr>) s
                          in (True, udd_ep_trans_done hw ep s))"

text \<open>Kill the banks of an IN endpoint one by one, each time waiting for the kill to be done.\<close>

partial_function (option) kill_banks :: "hw \<Rightarrow> u8 \<Rightarrow> 'z mach_scheme \<Rightarrow> 'z mach_scheme option" where
  "kill_banks hw ep s =
     (let (n, s) = udd_nb_busy_bank hw ep s
      in if n = 0 then Some s
         else do {
           (_, s) \<leftarrow> poll hw UDPHS (EPT ep EPTSTA) KILL_BANK 0 (udd_kill_last_in_bank ep s);
           kill_banks hw ep s
         })"

definition udd_ep_abort :: "hw \<Rightarrow> u8 \<Rightarrow> 'z usb_scheme \<Rightarrow> 'z usb_scheme option" where
  "udd_ep_abort hw ep s =
     do {
       let ep_index = ep AND USB_EP_ADDR_MASK;
       let s = udd_endpoint_dma_set_control ep_index UDD_ENDPOINT_DMA_STOP_NOW s;
       s \<leftarrow> (if ep AND USB_EP_DIR_IN \<noteq> 0 then kill_banks hw ep_index s else Some s);
       Some (udd_ep_abort_job hw ep s)
     }"

section \<open>Halt\<close>

definition udd_ep_is_halted :: "hw \<Rightarrow> u8 \<Rightarrow> 'z usb_scheme \<Rightarrow> bool \<times> 'z usb_scheme" where
  "udd_ep_is_halted hw ep s =
     (let ep_index = ep AND USB_EP_ADDR_MASK;
          (stalled, s) = Is_udd_endpoint_stall_requested hw ep_index s
      in if stalled then (True, s)
         else let (j, s) = get_job ep_index s in (stall_requested j, s))"

definition udd_ep_set_halt :: "hw \<Rightarrow> u8 \<Rightarrow> 'z usb_scheme \<Rightarrow> bool \<times> 'z usb_scheme" where
  "udd_ep_set_halt hw ep s =
     (let ep_index = ep AND USB_EP_ADDR_MASK
      in if USB_DEVICE_MAX_EP < ep_index then (False, s)
         else
           let (stalled, s) = Is_udd_endpoint_stall_requested hw ep_index s
           in if stalled then (True, s)
              else
                let (j, s) = get_job ep_index s
                in if stall_requested j then (True, s)
                   else if busy j then (False, s)
                   else
                     let (n, s) = (if ep AND USB_EP_DIR_IN \<noteq> 0 then udd_nb_busy_bank hw ep_index s else (0, s))
                     in if ep AND USB_EP_DIR_IN \<noteq> 0 \<and> n \<noteq> 0 then
                          let s = upd_job ep_index (stall_requested_update (\<lambda>_. True)) s;
                              s = udd_enable_bank_interrupt ep_index s
                          in (True, udd_enable_endpoint_interrupt hw ep_index s)
                        else
                          let s = udd_disable_endpoint_bank_autoswitch hw ep_index s;
                              s = udd_ack_stall ep_index s
                          in (True, udd_enable_stall_handshake ep_index s))"

definition clear_stall_request :: "hw \<Rightarrow> u8 \<Rightarrow> 'z usb_scheme \<Rightarrow> bool \<times> 'z usb_scheme" where
  "clear_stall_request hw ep s =
     (let (j, s) = get_job ep s
      in if stall_requested j then
           let s = upd_job ep (stall_requested_update (\<lambda>_. False)) s;
               s = udd_disable_bank_interrupt ep s
           in (True, udd_disable_endpoint_interrupt hw ep s)
         else (False, s))"

definition clear_stall :: "hw \<Rightarrow> u8 \<Rightarrow> 'z usb_scheme \<Rightarrow> bool \<times> 'z usb_scheme" where
  "clear_stall hw ep s =
     (let (stalled, s) = Is_udd_endpoint_stall_requested hw ep s
      in if stalled then
           let (sent, s) = Is_udd_stall hw ep s;
               s = (if sent then udd_reset_data_toggle ep (udd_ack_stall ep s) else s);
               s = udd_disable_stall_handshake ep s
           in (True, udd_enable_endpoint_bank_autoswitch hw ep s)
         else (False, s))"

text \<open>
  A busy job on a halted endpoint was registered by \<open>udd_ep_wait_stall_clear\<close>; its pointer is
  then \<open>call_nohalt\<close>, the other member of the union.
\<close>

definition udd_ep_clear_halt :: "hw \<Rightarrow> u8 \<Rightarrow> 'z usb_scheme \<Rightarrow> bool \<times> 'z usb_scheme" where
  "udd_ep_clear_halt hw ep s =
     (let ep = ep AND USB_EP_ADDR_MASK
      in if USB_DEVICE_MAX_EP < ep then (False, s)
         else
           let (c1, s) = clear_stall_request hw ep s;
               (c2, s) = clear_stall hw ep s
           in if \<not> c1 \<and> \<not> c2 then (True, s)
              else
                let (j, s) = get_job ep s
                in (True, if busy j
                          then run_callback (call_trans j) UDD_EP_TRANSFER_OK
                                 (upd_job ep (busy_update (\<lambda>_. False)) s)
                          else s))"

definition udd_ep_wait_stall_clear ::
  "hw \<Rightarrow> u8 \<Rightarrow> trans_callback \<Rightarrow> 'z usb_scheme \<Rightarrow> bool \<times> 'z usb_scheme" where
  "udd_ep_wait_stall_clear hw ep cb s =
     (let ep = ep AND USB_EP_ADDR_MASK
      in if USB_DEVICE_MAX_EP < ep then (False, s)
         else
           let (enabled, s) = Is_udd_endpoint_enabled hw ep s
           in if \<not> enabled then (False, s)
              else
                let (j, s) = get_job ep s
                in if busy j then (False, s)
                   else
                     let (stalled, s) = Is_udd_endpoint_stall_requested hw ep s
                     in if stalled \<or> stall_requested j
                        then (True, upd_job ep (\<lambda>k. k\<lparr>busy := True, call_trans := cb\<rparr>) s)
                        else (True, run_callback cb UDD_EP_TRANSFER_OK s))"

section \<open>Allocation\<close>

definition udd_ep_free :: "hw \<Rightarrow> u8 \<Rightarrow> 'z usb_scheme \<Rightarrow> 'z usb_scheme" where
  "udd_ep_free hw ep s =
     (let ep_index = ep AND USB_EP_ADDR_MASK
      in if USB_DEVICE_MAX_EP < ep_index then s
         else
           let s = udd_disable_endpoint ep_index s;
               s = udd_configure_endpoint_bank hw ep_index 0 s;
               s = udd_ep_abort_job hw ep s
           in upd_job ep_index (stall_requested_update (\<lambda>_. False)) s)"

text \<open>
  Allocation takes the endpoints above out of the packet memory and puts them back. The first
  loop counts an unsigned byte down to \<open>ep\<close>, and would not end for endpoint 0. It collects the
  number of banks of each endpoint, two bits each.
\<close>

partial_function (option) unalloc_eps ::
  "hw \<Rightarrow> u8 \<Rightarrow> u8 \<Rightarrow> u16 \<Rightarrow> 'z mach_scheme \<Rightarrow> (u16 \<times> 'z mach_scheme) option" where
  "unalloc_eps hw ep i ep_allocated s =
     (if i \<ge> ep then
        let (enabled, s) = Is_udd_endpoint_enabled hw i s
        in if enabled then
             let (bank, s) = udd_get_endpoint_bank hw i s;
                 ep_allocated = ep_allocated OR push_bit (unat i * 2) (ucast bank);
                 s = udd_disable_endpoint i s;
                 s = udd_configure_endpoint_bank hw i 0 s
             in unalloc_eps hw ep (i - 1) ep_allocated s
           else unalloc_eps hw ep (i - 1) ep_allocated s
      else Some (ep_allocated, s))"

text \<open>One round of the second loop: \<open>None\<close> goes on with the next endpoint, \<open>Some b\<close> returns \<open>b\<close>.\<close>

definition realloc_ep :: "hw \<Rightarrow> u16 \<Rightarrow> u8 \<Rightarrow> 'z usb_scheme \<Rightarrow> bool option \<times> 'z usb_scheme" where
  "realloc_ep hw ep_allocated i s =
     (let (j, s) = get_job i s;
          bank = ucast (drop_bit (unat i * 2) ep_allocated) AND 3
      in if bank = 0 then (None, s)
         else
           let s = upd_job i (busy_update (\<lambda>_. False)) s;
               s = udd_configure_endpoint_bank hw i bank s;
               s = udd_enable_endpoint i s;
               (mapped, s) = Is_udd_endpoint_mapped hw i s
           in if \<not> mapped then
                if call_trans j = CB_null then (Some False, s)
                else let (_, s) = Is_udd_endpoint_in hw i s
                     in (Some False, run_callback (call_trans j) UDD_EP_TRANSFER_ABORT s)
              else
                let s = udd_enable_endpoint_bank_autoswitch hw i s
                in if busy j then
                     let c = buf_cnt j - buf_load j;
                         s = upd_job i (buf_cnt_update (\<lambda>_. c)) s;
                         (ok, s) = udd_ep_run hw i (b_shortpacket j)
                                     (fst (buf j), snd (buf j) + unat c) (buf_size j - c) (call_trans j) s
                     in (if ok then None else Some False, s)
                   else (None, s))"

fun realloc_eps :: "hw \<Rightarrow> u16 \<Rightarrow> u8 list \<Rightarrow> 'z usb_scheme \<Rightarrow> bool \<times> 'z usb_scheme" where
  "realloc_eps hw ep_allocated [] s = (True, s)"
| "realloc_eps hw ep_allocated (i # is) s =
     (case realloc_ep hw ep_allocated i s of
        (Some b, s) \<Rightarrow> (b, s)
      | (None, s) \<Rightarrow> realloc_eps hw ep_allocated is s)"

text \<open>The number of banks for the type of endpoint; \<open>None\<close> is a control endpoint, refused.\<close>

definition nb_bank :: "u8 \<Rightarrow> u32 option" where
  "nb_bank bmAttributes =
     (let t = bmAttributes AND 3
      in if t = 1 then Some 2 else if t = 3 then Some 1 else if t = 2 then Some 2 else None)"

definition udd_ep_alloc :: "hw \<Rightarrow> u8 \<Rightarrow> u8 \<Rightarrow> u16 \<Rightarrow> 'z usb_scheme \<Rightarrow> (bool \<times> 'z usb_scheme) option" where
  "udd_ep_alloc hw ep bmAttributes MaxEndpointSize s =
     (let b_dir_in = (ep AND USB_EP_DIR_IN \<noteq> 0);
          ep = ep AND USB_EP_ADDR_MASK
      in if ep > USB_DEVICE_MAX_EP then Some (False, s)
         else
           let (enabled, s) = Is_udd_endpoint_enabled hw ep s
           in if enabled then Some (False, s)
              else case nb_bank bmAttributes of
                     None \<Rightarrow> Some (False, s)
                   | Some bank \<Rightarrow>
                       let b_iso_hbw = (bmAttributes AND 3 = 1 \<and> Is_udd_endpoint_high_bw_supported ep);
                           m = MaxEndpointSize AND push_bit 11 3;
                           nb_tran = (if m = push_bit 11 1 then 2 else if m = push_bit 11 2 then 3 else 1);
                           sz = (if b_iso_hbw then MaxEndpointSize AND NOT (push_bit 11 3) else MaxEndpointSize)
                       in if \<not> b_iso_hbw \<and> m \<noteq> 0 then Some (False, s)
                          else
                            let s = udd_configure_endpoint hw ep (ucast bmAttributes) (if b_dir_in then 1 else 0)
                                      (ucast sz) bank (if b_iso_hbw then nb_tran else 0) s;
                                (mapped, s) = Is_udd_endpoint_mapped hw ep s
                            in if \<not> mapped then Some (False, s)
                               else do {
                                 let s = udd_enable_endpoint ep s;
                                 (ep_allocated, s) \<leftarrow> unalloc_eps hw ep USB_DEVICE_MAX_EP 0 s;
                                 Some (realloc_eps hw ep_allocated (map of_nat [unat ep..<3]) s)
                               })"

section \<open>Endpoint interrupts\<close>

definition dma_interrupt :: "hw \<Rightarrow> u8 \<Rightarrow> 'z usb_scheme \<Rightarrow> 'z usb_scheme" where
  "dma_interrupt hw ep s =
     (let (st, s) = udd_endpoint_dma_get_status hw ep s
      in if st AND CHANN_ENB \<noteq> 0 then s
         else
           let s = udd_disable_endpoint_dma_interrupt hw ep s;
               (st, s) = udd_endpoint_dma_get_status hw ep s;
               nb_remaining = drop_bit 16 (st AND push_bit 16 0xFFFF);
               s = (if nb_remaining \<noteq> 0
                    then upd_job ep (\<lambda>k. k\<lparr>buf_cnt := buf_cnt k - nb_remaining,
                                           buf_size := buf_cnt k - nb_remaining\<rparr>) s
                    else s)
           in udd_ep_trans_done hw ep s)"

text \<open>The events of one endpoint; the first component says whether one was handled.\<close>

definition ep_events :: "hw \<Rightarrow> u8 \<Rightarrow> 'z usb_scheme \<Rightarrow> bool \<times> 'z usb_scheme" where
  "ep_events hw ep s =
     (let (e, s) = Is_udd_endpoint_dma_interrupt_enabled hw ep s;
          (d, s) = (if e then Is_udd_endpoint_dma_interrupt hw ep s else (False, s))
      in if d then (True, dma_interrupt hw ep s)
         else
           let (e, s) = Is_udd_endpoint_interrupt_enabled hw ep s
           in if \<not> e then (False, s)
              else
                let (t, s) = Is_udd_tx_pkt_ready_interrupt_enabled hw ep s;
                    (r, s) = (if t then Is_udd_tx_pkt_ready hw ep s else (True, s))
                in if t \<and> \<not> r then
                     let s = udd_disable_tx_pkt_ready_interrupt ep s;
                         s = udd_raise_tx_pkt_ready ep s
                     in (True, udd_ep_finish_job hw ep False s)
                   else
                     let (b, s) = Is_udd_bank_interrupt_enabled hw ep s;
                         (n, s) = (if b then udd_nb_busy_bank hw ep s else (1, s))
                     in if b \<and> n = 0 then
                          let s = udd_disable_bank_interrupt ep s;
                              s = udd_disable_endpoint_interrupt hw ep s;
                              s = upd_job ep (stall_requested_update (\<lambda>_. False)) s;
                              s = udd_disable_endpoint_bank_autoswitch hw ep s;
                              s = udd_enable_stall_handshake ep s
                          in (True, udd_reset_data_toggle ep s)
                        else (False, s))"

definition udd_ep_interrupt :: "hw \<Rightarrow> 'z usb_scheme \<Rightarrow> bool \<times> 'z usb_scheme" where
  "udd_ep_interrupt hw s =
     (let (d, s) = ep_events hw 1 s in if d then (True, s) else ep_events hw 2 s)"

end
