(* ===== verification/Udi_Vendor.thy ===== *)
theory Udi_Vendor
  imports Udd_Ep
begin

text \<open>
  The vendor interface, \<^verbatim>\<open>udi_vendor.c\<close>, with the descriptors of
  \<^verbatim>\<open>udi_vendor_desc.c\<close> as the bytes that the host reads, and the application's
  part of it in \<^verbatim>\<open>src/src/main.c\<close>. There is one interface with two alternate settings: 0
  has no endpoints, 1 has the bulk IN and the bulk OUT endpoint.
\<close>

section \<open>Descriptors\<close>

definition udc_device_desc :: "u8 list" where
  "udc_device_desc =
     [18, 1, 0x00, 0x02, 0, 0, 0, 64, 0x4B, 0x06, 0x4C, 0x78, 0x00, 0x01, 1, 2, 3, 1]"

definition udc_device_qual :: "u8 list" where
  "udc_device_qual = [10, 6, 0x00, 0x02, 0, 0, 0, 64, 1, 0]"

text \<open>The interface descriptors: \<open>lo\<close> and \<open>hi\<close> are the bytes of the bulk packet size.\<close>

definition udi_vendor_desc :: "u8 \<Rightarrow> u8 \<Rightarrow> u8 list" where
  "udi_vendor_desc lo hi =
     [9, 4, 0, 0, 0, 0xFF, 0xFF, 0xFF, 0,
      9, 4, 0, 1, 2, 0xFF, 0xFF, 0xFF, 0,
      7, 5, 0x81, 2, lo, hi, 0,
      7, 5, 0x02, 2, lo, hi, 0]"

text \<open>
  The type byte of a configuration descriptor is written when the host asks for it, so it is
  part of the state; the rest is constant.
\<close>

definition udc_desc :: "u8 \<Rightarrow> u8 \<Rightarrow> u8 \<Rightarrow> u8 list" where
  "udc_desc ty lo hi = [9, ty, 41, 0, 1, 1, 0, 0x80, 250] @ udi_vendor_desc lo hi"

definition udc_desc_fs :: "'z usb_scheme \<Rightarrow> u8 list" where
  "udc_desc_fs s = udc_desc (conf_fs_type s) 64 0"

definition udc_desc_hs :: "'z usb_scheme \<Rightarrow> u8 list" where
  "udc_desc_hs s = udc_desc (conf_hs_type s) 0 2"

text \<open>The descriptor of the current configuration, and the current interface in it.\<close>

definition conf_desc :: "'z usb_scheme \<Rightarrow> u8 list" where
  "conf_desc s = (case udc_ptr_conf s of FullSpeed \<Rightarrow> udc_desc_fs s | HighSpeed \<Rightarrow> udc_desc_hs s)"

definition udc_get_interface_desc :: "'z usb_scheme \<Rightarrow> u8 list" where
  "udc_get_interface_desc s = take 9 (drop (udc_ptr_iface s) (conf_desc s))"

section \<open>The request at hand\<close>

definition Udd_setup_is_in :: "'z usb_scheme \<Rightarrow> bool" where
  "Udd_setup_is_in s \<longleftrightarrow> bmRequestType (req s) AND 0x80 = 0x80"

definition Udd_setup_is_out :: "'z usb_scheme \<Rightarrow> bool" where
  "Udd_setup_is_out s \<longleftrightarrow> bmRequestType (req s) AND 0x80 = 0"

definition Udd_setup_type :: "'z usb_scheme \<Rightarrow> u8" where
  "Udd_setup_type s = bmRequestType (req s) AND 0x60"

definition Udd_setup_recipient :: "'z usb_scheme \<Rightarrow> u8" where
  "Udd_setup_recipient s = bmRequestType (req s) AND 0x1F"

abbreviation (input) USB_REQ_TYPE_STANDARD :: u8 where "USB_REQ_TYPE_STANDARD \<equiv> 0"
abbreviation (input) USB_REQ_TYPE_VENDOR :: u8 where "USB_REQ_TYPE_VENDOR \<equiv> 0x40"
abbreviation (input) USB_REQ_RECIP_DEVICE :: u8 where "USB_REQ_RECIP_DEVICE \<equiv> 0"
abbreviation (input) USB_REQ_RECIP_INTERFACE :: u8 where "USB_REQ_RECIP_INTERFACE \<equiv> 1"
abbreviation (input) USB_REQ_RECIP_ENDPOINT :: u8 where "USB_REQ_RECIP_ENDPOINT \<equiv> 2"

section \<open>The interface\<close>

definition main_vendor_enable :: "'z app_scheme \<Rightarrow> bool \<times> 'z app_scheme" where
  "main_vendor_enable s =
     (True, main_vendor_bulk_in_received UDD_EP_TRANSFER_OK (s\<lparr>main_b_vendor_enable := True\<rparr>))"

definition main_vendor_disable :: "'z app_scheme \<Rightarrow> 'z app_scheme" where
  "main_vendor_disable s = s\<lparr>main_b_vendor_enable := False\<rparr>"

definition udi_vendor_enable :: "'z usb_scheme \<Rightarrow> bool \<times> 'z usb_scheme" where
  "udi_vendor_enable s =
     (let s = s\<lparr>udi_vendor_alternate_setting := udc_get_interface_desc s ! 3\<rparr>
      in if udi_vendor_alternate_setting s = 1 then main_vendor_enable s else (True, s))"

definition udi_vendor_disable :: "'z usb_scheme \<Rightarrow> 'z usb_scheme" where
  "udi_vendor_disable s = (if udi_vendor_alternate_setting s = 1 then main_vendor_disable s else s)"

text \<open>The two set-up hooks of the interface are configured as the constant \<open>false\<close>.\<close>

abbreviation (input) UDI_VENDOR_SETUP_IN_RECEIVED :: bool where "UDI_VENDOR_SETUP_IN_RECEIVED \<equiv> False"
abbreviation (input) UDI_VENDOR_SETUP_OUT_RECEIVED :: bool where "UDI_VENDOR_SETUP_OUT_RECEIVED \<equiv> False"

definition udi_vendor_setup :: "'z usb_scheme \<Rightarrow> bool" where
  "udi_vendor_setup s =
     (if Udd_setup_is_in s \<and> Udd_setup_type s = USB_REQ_TYPE_VENDOR \<and> bRequest (req s) = 0
      then UDI_VENDOR_SETUP_IN_RECEIVED
      else if Udd_setup_is_out s \<and> Udd_setup_type s = USB_REQ_TYPE_VENDOR \<and> bRequest (req s) = 0
              \<and> wLength (req s) \<noteq> 0
      then UDI_VENDOR_SETUP_OUT_RECEIVED
      else False)"

definition udi_vendor_getsetting :: "'z usb_scheme \<Rightarrow> u8" where
  "udi_vendor_getsetting s = udi_vendor_alternate_setting s"

definition udi_vendor_bulk_in_run ::
  "hw \<Rightarrow> ptr \<Rightarrow> u32 \<Rightarrow> trans_callback \<Rightarrow> 'z usb_scheme \<Rightarrow> bool \<times> 'z usb_scheme" where
  "udi_vendor_bulk_in_run hw b sz cb s = udd_ep_run hw UDI_VENDOR_EP_BULK_IN False b sz cb s"

definition udi_vendor_bulk_out_run ::
  "hw \<Rightarrow> ptr \<Rightarrow> u32 \<Rightarrow> trans_callback \<Rightarrow> 'z usb_scheme \<Rightarrow> bool \<times> 'z usb_scheme" where
  "udi_vendor_bulk_out_run hw b sz cb s = udd_ep_run hw UDI_VENDOR_EP_BULK_OUT False b sz cb s"

end
