(* ===== verification/Udd_Dev.thy ===== *)
theory Udd_Dev
  imports Udi_Vendor
begin

text \<open>
  The device side of \<^verbatim>\<open>src/asf/sam/drivers/udphs/udphs_device.c\<close>: switching the USB
  hardware on and off, attaching to the bus, the device address, the frame number and the test
  modes. The sleep manager is not part of the build, so only the flag \<open>udd_b_idle\<close> is left of
  \<open>udd_sleep_mode\<close>; there is no pin for VBus.
\<close>

abbreviation (input) ID_UDPHS :: u32 where "ID_UDPHS \<equiv> 29"
abbreviation (input) PMC_FSMR_USBAL :: u32 where "PMC_FSMR_USBAL \<equiv> 0x40000"

definition udd_sleep_mode :: "bool \<Rightarrow> 'z usb_scheme \<Rightarrow> 'z usb_scheme" where
  "udd_sleep_mode b_idle s = s\<lparr>udd_b_idle := b_idle\<rparr>"

definition udd_enable_periph_ck :: "hw \<Rightarrow> 'z mach_scheme \<Rightarrow> 'z mach_scheme" where
  "udd_enable_periph_ck hw s = snd (pmc_enable_periph_clk hw ID_UDPHS s)"

definition udd_disable_periph_ck :: "hw \<Rightarrow> 'z mach_scheme \<Rightarrow> 'z mach_scheme" where
  "udd_disable_periph_ck hw s = snd (pmc_disable_periph_clk hw ID_UDPHS s)"

definition Is_udd_full_speed_mode :: "hw \<Rightarrow> 'z mach_scheme \<Rightarrow> bool \<times> 'z mach_scheme" where
  "Is_udd_full_speed_mode hw s = (let (b, s) = Tst_bits hw UDPHS_INTSTA 1 s in (\<not> b, s))"

definition udd_attach :: "hw \<Rightarrow> 'z usb_scheme \<Rightarrow> 'z usb_scheme" where
  "udd_attach hw s =
     (let s = udd_sleep_mode True s;
          s = udd_enable_periph_ck hw s;
          s = udd_attach_device hw s;
          s = udd_enable_reset_interrupt hw s;
          s = udd_enable_suspend_interrupt hw s;
          s = udd_enable_wake_up_interrupt hw s;
          s = udd_enable_sof_interrupt hw s;
          s = udd_enable_msof_interrupt hw s;
          s = udd_ack_sof s;
          s = udd_ack_msof s;
          s = udd_ack_reset s;
          s = udd_ack_suspend s;
          s = udd_ack_wake_up s
      in udd_disable_periph_ck hw s)"

definition udd_detach :: "hw \<Rightarrow> 'z usb_scheme \<Rightarrow> 'z usb_scheme" where
  "udd_detach hw s =
     (let s = udd_enable_periph_ck hw s;
          s = udd_detach_device hw s;
          s = udd_disable_periph_ck hw s
      in udd_sleep_mode False s)"

text \<open>Interrupt 29 with priority 1: the priority is in the upper four bits of its byte.\<close>

definition udd_enable :: "hw \<Rightarrow> 'z usb_scheme \<Rightarrow> 'z usb_scheme option" where
  "udd_enable hw s =
     do {
       s \<leftarrow> sysclk_enable_usb hw s;
       let s = udd_enable_periph_ck hw s;
       let s = udd_enable_periph hw s;
       let s = wr NVIC (0x300 + 29) 0x10 s;
       let s = wr NVIC 0 (PIN 29) s;
       let s = udd_ep_job_table_reset s;
       let s = udd_high_speed_enable hw s;
       let s = pmc_set_fast_startup_input hw PMC_FSMR_USBAL s;
       let s = s\<lparr>udd_b_idle := False\<rparr>;
       Some (udd_attach hw s)
     }"

definition udd_disable :: "hw \<Rightarrow> 'z usb_scheme \<Rightarrow> 'z usb_scheme" where
  "udd_disable hw s =
     (let s = udd_disable_periph hw s;
          s = sysclk_disable_usb hw s;
          s = snd (pmc_disable_periph_clk hw ID_UDPHS s)
      in udd_sleep_mode False s)"

definition udd_include_vbus_monitoring :: bool where
  "udd_include_vbus_monitoring = False"

definition udd_is_high_speed :: "hw \<Rightarrow> 'z mach_scheme \<Rightarrow> bool \<times> 'z mach_scheme" where
  "udd_is_high_speed hw s = (let (b, s) = Is_udd_full_speed_mode hw s in (\<not> b, s))"

definition udd_set_address :: "hw \<Rightarrow> u8 \<Rightarrow> 'z mach_scheme \<Rightarrow> 'z mach_scheme" where
  "udd_set_address hw address s =
     (let s = udd_disable_address hw s;
          s = udd_configure_address hw (ucast address) s
      in udd_enable_address hw s)"

definition udd_getaddress :: "hw \<Rightarrow> 'z mach_scheme \<Rightarrow> u8 \<times> 'z mach_scheme" where
  "udd_getaddress hw s = (let (v, s) = udd_get_configured_address hw s in (ucast v, s))"

definition udd_get_frame_number :: "hw \<Rightarrow> 'z mach_scheme \<Rightarrow> u16 \<times> 'z mach_scheme" where
  "udd_get_frame_number hw s =
     (let (v, s) = udd_frame_number hw s in (ucast v, s))"

definition udd_get_micro_frame_number :: "hw \<Rightarrow> 'z mach_scheme \<Rightarrow> u16 \<times> 'z mach_scheme" where
  "udd_get_micro_frame_number hw s =
     (let (v, s) = udd_micro_frame_number hw s in (ucast v, s))"

definition udd_send_remotewakeup :: "hw \<Rightarrow> 'z usb_scheme \<Rightarrow> 'z usb_scheme" where
  "udd_send_remotewakeup hw s =
     (if \<not> udd_b_idle s
      then udd_initiate_remote_wake_up hw (udd_enable_periph_ck hw (udd_sleep_mode True s))
      else s)"

definition udd_set_setup_payload :: "ptr \<Rightarrow> u16 \<Rightarrow> 'z usb_scheme \<Rightarrow> 'z usb_scheme" where
  "udd_set_setup_payload p n s = s\<lparr>payload := p, payload_size := n\<rparr>"

section \<open>Test modes\<close>

text \<open>The packet memory of the endpoints, seen as memory at \<open>UDPHS_RAM_ADDR\<close>, 64 KiB each.\<close>

abbreviation (input) UDPHS_RAM :: periph where "UDPHS_RAM \<equiv> AT 0x20180000"

fun fifo_write :: "nat \<Rightarrow> u8 list \<Rightarrow> 'z mach_scheme \<Rightarrow> 'z mach_scheme" where
  "fifo_write a [] s = s"
| "fifo_write a (b # bs) s = fifo_write (Suc a) bs (wr UDPHS_RAM a (ucast b) s)"

definition test_packet :: "u8 list" where
  "test_packet = replicate 9 0x00 @ replicate 8 0xAA @ replicate 8 0xEE
     @ [0xFE, 0xFF, 0xFF, 0xFF, 0xFF, 0xFF, 0xFF, 0xFF, 0xFF, 0xFF, 0xFF, 0xFF]
     @ [0x7F, 0xBF, 0xDF, 0xEF, 0xF7, 0xFB, 0xFD]
     @ [0xFC, 0x7E, 0xBF, 0xDF, 0xEF, 0xF7, 0xFB, 0xFD, 0x7E]"

definition udd_enable_hs_test_mode :: "hw \<Rightarrow> 'z mach_scheme \<Rightarrow> 'z mach_scheme" where
  "udd_enable_hs_test_mode hw s = Wr_bitfield hw UDPHS_TST 3 0 2 s"

definition udd_test_mode_j :: "hw \<Rightarrow> 'z mach_scheme \<Rightarrow> 'z mach_scheme" where
  "udd_test_mode_j hw s = udd_enable_hs_test_mode_j hw (udd_enable_hs_test_mode hw s)"

definition udd_test_mode_k :: "hw \<Rightarrow> 'z mach_scheme \<Rightarrow> 'z mach_scheme" where
  "udd_test_mode_k hw s = udd_enable_hs_test_mode_k hw (udd_enable_hs_test_mode hw s)"

definition udd_test_mode_se0_nak :: "hw \<Rightarrow> 'z mach_scheme \<Rightarrow> 'z mach_scheme" where
  "udd_test_mode_se0_nak hw s = udd_enable_hs_test_mode hw s"

definition udd_test_mode_packet :: "hw \<Rightarrow> 'z mach_scheme \<Rightarrow> 'z mach_scheme" where
  "udd_test_mode_packet hw s =
     (let s = udd_disable_endpoint 0 s;
          s = udd_configure_endpoint hw 0 2 1 64 1 0 s;
          s = udd_enable_endpoint 0 s;
          s = udd_enable_hs_test_mode hw s;
          s = udd_enable_hs_test_mode_packet hw s;
          s = fifo_write 0 test_packet s;
          s = udd_ack_in_send 0 s
      in udd_raise_tx_pkt_ready 0 s)"

end
