(* ===== verification/Vendor_Requests.thy ===== *)
theory Vendor_Requests
  imports Udd_Dev
begin

text \<open>
  The application's side of the control endpoint, \<^verbatim>\<open>main_setup_handle\<close>,
  \<^verbatim>\<open>msft_string_handle\<close> and \<^verbatim>\<open>main_sof_action\<close> of \<^verbatim>\<open>src/src/main.c\<close>: the
  requests with which the host reads and writes the calibration table, moves pins,
  sets the modes of the channels and starts and stops the sampling.

  A local variable that the code leaves uninitialised holds whatever the memory held:
  \<open>uninit hw s i\<close>.
\<close>

definition uninit :: "hw \<Rightarrow> 'z mach_scheme \<Rightarrow> nat \<Rightarrow> u32" where
  "uninit hw s i = hw (trace s) (AT 0x20000000) i"

section \<open>Requests\<close>

text \<open>How a case of the switch ends: with \<open>return\<close>, or with \<open>break\<close> and \<open>ptr\<close> and \<open>size\<close>.\<close>

datatype setup_result = Return bool | Break ptr u16

abbreviation (input) no_data :: setup_result where "no_data \<equiv> Break (O_null, 0) 0"

definition setup_info :: "'z usb_scheme \<Rightarrow> setup_result" where
  "setup_info s =
     (if wIndex (req s) = 0 then Break (O_hwversion, 0) 2
      else if wIndex (req s) = 1 then Break (O_fwversion, 0) (of_nat (length (fwversion s)))
      else no_data)"

definition setup_flash_write :: "nat \<Rightarrow> 'z usb_scheme \<Rightarrow> 'z usb_scheme" where
  "setup_flash_write base s =
     s\<lparr>payload_size := wLength (req s), payload := (O_flash_table, base + unat (wIndex (req s))),
       callback := CC_store_flash_table, over_under_run := None\<rparr>"

definition led_level :: "u16 \<Rightarrow> u16 \<Rightarrow> u32" where
  "led_level state b = (if state AND b \<noteq> 0 then 0 else 1)"

definition setup_leds :: "'z usb_scheme \<Rightarrow> 'z usb_scheme" where
  "setup_leds s =
     (let state = wValue (req s) AND 7
      in if hwversion s ! 0 = 0x44 then
           pio_set_output PIOA (PIN 28) (led_level state 1) 0 0
             (pio_set_output PIOA (PIN 29) (led_level state 2) 0 0
               (pio_set_output PIOB (PIN 15) (led_level state 4) 0 0 s))
         else
           pio_set_output PIOA (PIN 0) (led_level state 1) 0 0
             (pio_set_output PIOA (PIN 2) (led_level state 2) 0 0
               (pio_set_output PIOA (PIN 1) (led_level state 4) 0 0 s)))"

text \<open>Bytes stored from the start of \<open>ret_data\<close> on, which has 64 of them.\<close>

definition store_ret_data :: "u8 list \<Rightarrow> 'z usb_scheme \<Rightarrow> 'z usb_scheme" where
  "store_ret_data bs s =
     (let s = ret_data_update (\<lambda>d. take 64 (bs @ drop (length bs) d)) s
      in if length bs \<le> 64 then s else oob (O_ret_data, 64) s)"

definition setup_adm1177 :: "hw \<Rightarrow> 'z usb_scheme \<Rightarrow> (setup_result \<times> 'z usb_scheme) option" where
  "setup_adm1177 hw s =
     do {
       let n = wIndex (req s) AND 0xFF;
       (bs, s) \<leftarrow> read_adm1177 hw (ucast n) s;
       Some (Break (O_ret_data, 0) n, store_ret_data bs s)
     }"

definition setup_temperature :: "hw \<Rightarrow> 'z usb_scheme \<Rightarrow> (setup_result \<times> 'z usb_scheme) option" where
  "setup_temperature hw s =
     do {
       let ch = (ucast (wValue (req s) AND 1) :: u8);
       (bs, s) \<leftarrow> get_sample_ad7682 hw ch [0xB1, 0x20] (O_ret_data, 0) s;
       let s = store_ret_data bs s;
       (bs, s) \<leftarrow> get_sample_ad7682 hw ch [0xB1, 0x20] (O_ret_data, 0) s;
       let s = store_ret_data bs s;
       (_, s) \<leftarrow> get_sample_ad7682 hw ch [if ch = 0 then 0xF1 else 0xF7, 0x20] (O_stack [], 0) s;
       Some (Break (O_ret_data, 0) 2, s)
     }"

definition setup_pio :: "u16 \<Rightarrow> periph" where
  "setup_pio v = (if v > 0x1F then PIOB else PIOA)"

definition setup_pin :: "u16 \<Rightarrow> u32" where
  "setup_pin v = push_bit (unat (v AND 0x1F)) 1"

definition setup_pin_input :: "hw \<Rightarrow> 'z usb_scheme \<Rightarrow> 'z usb_scheme" where
  "setup_pin_input hw s =
     (let v = wValue (req s);
          s = pio_set_input (setup_pio v) (setup_pin v) 0 s;
          (x, s) = pio_get_pin_value hw (ucast (v AND 0xFF)) s
      in store_ret_data [ucast x] s)"

definition setup_sampling :: "hw \<Rightarrow> 'z usb_scheme \<Rightarrow> 'z usb_scheme option" where
  "setup_sampling hw s =
     (if wValue (req s) < 1 then Some (tc_stop TC0 2 s)
      else do {
        let s = s\<lparr>not_a_new_transfer := 4\<rparr>;
        s \<leftarrow> udd_ep_abort hw UDI_VENDOR_EP_BULK_IN s;
        s \<leftarrow> udd_ep_abort hw UDI_VENDOR_EP_BULK_OUT s;
        let s = s\<lparr>current_chan := False, sent_in := False, sending_in := False, send_in := False,
                  slot_offset_in := 254, slot_offset_out := 0, packet_index_in := 0,
                  packet_index_out := 0, packet_index_send_out := 0, packet_index_send_in := 0\<rparr>;
        let s = tc_write_ra TC0 2 10 s;
        let s = tc_write_rb TC0 2 (ucast (wValue (req s)) - 30) s;
        let s = tc_write_rc TC0 2 (ucast (wValue (req s))) s;
        let s = s\<lparr>start_frame := wIndex (req s), sent_out := False, sending_out := True, send_out := False\<rparr>;
        Some (snd (udi_vendor_bulk_out_run hw (packets_out_at (packet_index_send_out s) 0) 1024
                     CB_bulk_out_received_first s))
      })"

text \<open>The length of the descriptor is read from its first field.\<close>

definition dwLength :: "u8 list \<Rightarrow> u32" where
  "dwLength m = word_le (m ! 0) (m ! 1) (m ! 2) (m ! 3)"

definition setup_msft :: "'z usb_scheme \<Rightarrow> setup_result" where
  "setup_msft s =
     (if wIndex (req s) = 4
      then Break (O_msft_compatible, 0)
             (if ucast (wLength (req s)) > dwLength (msft_compatible s)
              then ucast (dwLength (msft_compatible s)) else wLength (req s))
      else Return False)"

text \<open>The requests that set a variable and send nothing.\<close>

definition setup_vars :: "'z usb_scheme \<Rightarrow> 'z usb_scheme" where
  "setup_vars s =
     (let r = bRequest (req s); v = wValue (req s)
      in if r = 0x20 then s\<lparr>v1_adc_conf := v\<rparr>
         else if r = 0x21 then s\<lparr>i1_adc_conf := v\<rparr>
         else if r = 0x22 then s\<lparr>v2_adc_conf := v\<rparr>
         else if r = 0x23 then s\<lparr>i2_adc_conf := v\<rparr>
         else if r = 0x24 then s\<lparr>da := ucast v\<rparr>
         else if r = 0x25 then s\<lparr>db := ucast v\<rparr>
         else s)"

text \<open>The switch over the requests; a request that is not listed ends it at once.\<close>

definition vendor_request :: "hw \<Rightarrow> 'z usb_scheme \<Rightarrow> (setup_result \<times> 'z usb_scheme) option" where
  "vendor_request hw s =
     (let r = bRequest (req s); v = wValue (req s); i = wIndex (req s)
      in if r = 0x00 then Some (setup_info s, s)
         else if r = 0x01 then Some (Break (O_flash_table, unat i) (wLength (req s)), s)
         else if r = 0x02 then Some (Return True, setup_flash_write 0 s)
         else if r = 0x03 then Some (Return True, setup_leds s)
         else if r = 0x05 then Some (Return True, setup_flash_write 220 s)
         else if r = 0x17 then setup_adm1177 hw s
         else if r = 0x19 then setup_temperature hw s
         else if 0x20 \<le> r \<and> r \<le> 0x25 then Some (no_data, setup_vars s)
         else if r = 0x50 then Some (no_data, pio_set_output (setup_pio v) (setup_pin v) 0 0 0 s)
         else if r = 0x51 then Some (no_data, pio_set_output (setup_pio v) (setup_pin v) 1 0 0 s)
         else if r = 0x91 then Some (Break (O_ret_data, 0) 1, setup_pin_input hw s)
         else if r = 0x53 then
           map_option (Pair no_data) (set_mode hw (ucast (v AND 0xF)) (ucast (i AND 0xF)) s)
         else if r = 0x59 then
           map_option (Pair no_data)
             (write_ad5122 hw (ucast (uninit hw s 0)) (ucast (v AND 0xF))
                (ucast (drop_bit 8 (i AND 0xFF00))) (ucast (i AND 0xFF)) s)
         else if r = 0xBB then
           do { (_, s) \<leftarrow> flash_clear_gpnvm hw 1 s; Some (no_data, s\<lparr>reset := True\<rparr>) }
         else if r = 0xCC then map_option (Pair no_data) (config_hardware hw s)
         else if r = 0x6F then
           Some (Break (O_ret_data, 0) 2,
                 store_ret_data [ucast (frame_number s AND 0xFF), ucast (drop_bit 8 (frame_number s))] s)
         else if r = 0xC5 then map_option (Pair no_data) (setup_sampling hw s)
         else if r = 0x30 then Some (setup_msft s, s)
         else Some (no_data, s))"

definition main_setup_handle :: "hw \<Rightarrow> 'z usb_scheme \<Rightarrow> (bool \<times> 'z usb_scheme) option" where
  "main_setup_handle hw s =
     do {
       (r, s) \<leftarrow> (if Udd_setup_type s = USB_REQ_TYPE_VENDOR then vendor_request hw s
                  else Some (no_data, s));
       Some (case r of
           Return b \<Rightarrow> (b, s)
         | Break p n \<Rightarrow>
             (True, if n = 0 then s\<lparr>payload_size := n, callback := CC_null, over_under_run := None\<rparr>
                    else s\<lparr>payload_size := n, payload := p\<rparr>))
     }"

section \<open>The string for Windows\<close>

definition udi_msft_magic :: "u8 list" where
  "udi_msft_magic = [0x4D, 0x53, 0x46, 0x54, 0x31, 0x30, 0x30, 0x30]"

definition msft_string_handle :: "'z usb_scheme \<Rightarrow> bool \<times> 'z usb_scheme" where
  "msft_string_handle s =
     (if wValue (req s) AND 0xFF = 0xEE then
        let s = extra_strings_desc_update
              (\<lambda>d. [18, d ! 1] @ concat (map (\<lambda>c. [c, 0]) udi_msft_magic) @ drop 18 d) s;
            s = s\<lparr>payload_size := 18, payload := (O_msft_string, 0)\<rparr>
        in (True, if payload_size s > wLength (req s) then s\<lparr>payload_size := wLength (req s)\<rparr> else s)
      else (False, s))"

section \<open>Start of frame\<close>

definition main_sof_action :: "hw \<Rightarrow> 'z app_scheme \<Rightarrow> 'z app_scheme" where
  "main_sof_action hw s =
     (let (f, s) = rd hw UDPHS UDPHS_FNUM s;
          s = s\<lparr>frame_number := f\<rparr>
      in if start_timer s \<and> (frame_number s = ucast (start_frame s) \<or> start_frame s = 0)
         then (tc_start TC0 2 s)\<lparr>start_timer := False\<rparr> else s)"

end
