(* ===== verification/Udc.thy ===== *)
theory Udc
  imports Vendor_Requests
begin

text \<open>
  The USB device core, \<^verbatim>\<open>src/asf/common/services/usb/udc/udc.c\<close>: the configuration and the
  interfaces, the standard requests, and \<open>udc_process_setup\<close>, which offers a set-up packet
  to the core, to the interface and at last to the application. Descriptors are lists of
  bytes and pointers into them are offsets. A descriptor of length 0 would keep a search from
  ending, so the searches are partial. Remote wake-up and the BOS descriptor are not
  configured.
\<close>

abbreviation (input) USB_DT_INTERFACE :: u8 where "USB_DT_INTERFACE \<equiv> 4"
abbreviation (input) USB_DT_ENDPOINT :: u8 where "USB_DT_ENDPOINT \<equiv> 5"

section \<open>Searching the configuration descriptor\<close>

definition udc_get_eof_conf :: "'z usb_scheme \<Rightarrow> nat" where
  "udc_get_eof_conf s = unat (conf_desc s ! 2) + 256 * unat (conf_desc s ! 3)"

partial_function (option) next_desc :: "u8 list \<Rightarrow> nat \<Rightarrow> u8 \<Rightarrow> nat \<Rightarrow> nat option option" where
  "next_desc d eof desc_id p =
     (if p < eof then
        if d ! (p + 1) = USB_DT_INTERFACE then Some None
        else if d ! (p + 1) = desc_id then Some (Some p)
        else next_desc d eof desc_id (p + unat (d ! p))
      else Some None)"

definition udc_next_desc_in_iface :: "nat \<Rightarrow> u8 \<Rightarrow> 'z usb_scheme \<Rightarrow> nat option option" where
  "udc_next_desc_in_iface p desc_id s =
     next_desc (conf_desc s) (udc_get_eof_conf s) desc_id (p + unat (conf_desc s ! p))"

partial_function (option) find_iface :: "u8 list \<Rightarrow> nat \<Rightarrow> u8 \<Rightarrow> u8 \<Rightarrow> nat \<Rightarrow> (bool \<times> nat) option" where
  "find_iface d eof iface_num setting_num p =
     (if p < eof then
        if d ! (p + 1) = USB_DT_INTERFACE \<and> d ! (p + 2) = iface_num \<and> d ! (p + 3) = setting_num
        then Some (True, p)
        else find_iface d eof iface_num setting_num (p + unat (d ! p))
      else Some (False, p))"

definition udc_update_iface_desc :: "u8 \<Rightarrow> u8 \<Rightarrow> 'z usb_scheme \<Rightarrow> (bool \<times> 'z usb_scheme) option" where
  "udc_update_iface_desc iface_num setting_num s =
     (if udc_num_configuration s = 0 \<or> iface_num \<ge> conf_desc s ! 4 then Some (False, s)
      else do {
        (found, p) \<leftarrow> find_iface (conf_desc s) (udc_get_eof_conf s) iface_num setting_num 0;
        Some (found, s\<lparr>udc_ptr_iface := p\<rparr>)
      })"

section \<open>Interfaces\<close>

text \<open>\<open>udi_apis\<close> has one entry, the vendor interface.\<close>

partial_function (option) free_eps :: "hw \<Rightarrow> nat \<Rightarrow> 'z usb_scheme \<Rightarrow> 'z usb_scheme option" where
  "free_eps hw p s =
     do {
       n \<leftarrow> udc_next_desc_in_iface p USB_DT_ENDPOINT s;
       case n of
         None \<Rightarrow> Some s
       | Some q \<Rightarrow> free_eps hw q (udd_ep_free hw (conf_desc s ! (q + 2)) s)
     }"

definition udc_iface_disable :: "hw \<Rightarrow> u8 \<Rightarrow> 'z usb_scheme \<Rightarrow> (bool \<times> 'z usb_scheme) option" where
  "udc_iface_disable hw iface_num s =
     do {
       (found, s) \<leftarrow> udc_update_iface_desc iface_num 0 s;
       if \<not> found then Some (False, s)
       else do {
         (found, s) \<leftarrow> udc_update_iface_desc iface_num (udi_vendor_getsetting s) s;
         if \<not> found then Some (False, s)
         else do {
           s \<leftarrow> free_eps hw (udc_ptr_iface s) s;
           Some (True, udi_vendor_disable s)
         }
       }
     }"

partial_function (option) alloc_eps :: "hw \<Rightarrow> nat \<Rightarrow> 'z usb_scheme \<Rightarrow> (bool \<times> 'z usb_scheme) option" where
  "alloc_eps hw p s =
     do {
       n \<leftarrow> udc_next_desc_in_iface p USB_DT_ENDPOINT s;
       case n of
         None \<Rightarrow> Some (True, s)
       | Some q \<Rightarrow>
           do {
             (ok, s') \<leftarrow> udd_ep_alloc hw (conf_desc s ! (q + 2)) (conf_desc s ! (q + 3))
                (ucast (conf_desc s ! (q + 4)) OR push_bit 8 (ucast (conf_desc s ! (q + 5)))) s;
             if \<not> ok then Some (False, s') else alloc_eps hw q s'
           }
     }"

definition udc_iface_enable :: "hw \<Rightarrow> u8 \<Rightarrow> u8 \<Rightarrow> 'z usb_scheme \<Rightarrow> (bool \<times> 'z usb_scheme) option" where
  "udc_iface_enable hw iface_num setting_num s =
     do {
       (found, s) \<leftarrow> udc_update_iface_desc iface_num setting_num s;
       if \<not> found then Some (False, s)
       else do {
         (ok, s) \<leftarrow> alloc_eps hw (udc_ptr_iface s) s;
         if \<not> ok then Some (False, s) else Some (udi_vendor_enable s)
       }
     }"

fun disable_ifaces :: "hw \<Rightarrow> u8 list \<Rightarrow> 'z usb_scheme \<Rightarrow> 'z usb_scheme option" where
  "disable_ifaces hw [] s = Some s"
| "disable_ifaces hw (i # is) s =
     do { (_, s) \<leftarrow> udc_iface_disable hw i s; disable_ifaces hw is s }"

fun enable_ifaces :: "hw \<Rightarrow> u8 list \<Rightarrow> 'z usb_scheme \<Rightarrow> (bool \<times> 'z usb_scheme) option" where
  "enable_ifaces hw [] s = Some (True, s)"
| "enable_ifaces hw (i # is) s =
     do { (ok, s) \<leftarrow> udc_iface_enable hw i 0 s;
          if \<not> ok then Some (False, s) else enable_ifaces hw is s }"

definition ifaces :: "'z usb_scheme \<Rightarrow> u8 list" where
  "ifaces s = map of_nat [0..<unat (conf_desc s ! 4)]"

definition udc_reset :: "hw \<Rightarrow> 'z usb_scheme \<Rightarrow> 'z usb_scheme option" where
  "udc_reset hw s =
     do {
       s \<leftarrow> (if udc_num_configuration s \<noteq> 0 then disable_ifaces hw (ifaces s) s else Some s);
       Some (s\<lparr>udc_num_configuration := 0, udc_device_status := 0\<rparr>)
     }"

definition udc_start :: "hw \<Rightarrow> 'z usb_scheme \<Rightarrow> 'z usb_scheme option" where
  "udc_start hw s = udd_enable hw s"

definition udc_stop :: "hw \<Rightarrow> 'z usb_scheme \<Rightarrow> 'z usb_scheme option" where
  "udc_stop hw s = udc_reset hw (udd_disable hw s)"

text \<open>The vendor interface has no function for the start of a frame.\<close>

definition udc_sof_notify :: "'z usb_scheme \<Rightarrow> 'z usb_scheme" where
  "udc_sof_notify s = s"

section \<open>Standard requests\<close>

text \<open>Each returns whether it accepts the request.\<close>

definition udc_req_std_dev_get_status :: "'z usb_scheme \<Rightarrow> bool \<times> 'z usb_scheme" where
  "udc_req_std_dev_get_status s =
     (if wLength (req s) \<noteq> 2 then (False, s)
      else (True, udd_set_setup_payload (O_device_status, 0) 2 s))"

definition udc_req_std_ep_get_status :: "hw \<Rightarrow> 'z usb_scheme \<Rightarrow> bool \<times> 'z usb_scheme" where
  "udc_req_std_ep_get_status hw s =
     (if wLength (req s) \<noteq> 2 then (False, s)
      else let (h, s) = udd_ep_is_halted hw (ucast (wIndex (req s) AND 0xFF)) s
           in (True, udd_set_setup_payload (O_ep_status, 0) 2 (s\<lparr>udc_ep_status := if h then 1 else 0\<rparr>)))"

definition udc_req_std_dev_clear_feature :: "'z usb_scheme \<Rightarrow> bool \<times> 'z usb_scheme" where
  "udc_req_std_dev_clear_feature s =
     (if wLength (req s) \<noteq> 0 then (False, s)
      else if wValue (req s) = 1 then (True, udc_device_status_update (\<lambda>v. v AND NOT 2) s)
      else (False, s))"

definition udc_req_std_ep_clear_feature :: "hw \<Rightarrow> 'z usb_scheme \<Rightarrow> bool \<times> 'z usb_scheme" where
  "udc_req_std_ep_clear_feature hw s =
     (if wLength (req s) \<noteq> 0 then (False, s)
      else if wValue (req s) = 0 then udd_ep_clear_halt hw (ucast (wIndex (req s) AND 0xFF)) s
      else (False, s))"

definition udc_req_std_dev_set_feature :: "hw \<Rightarrow> 'z usb_scheme \<Rightarrow> (bool \<times> 'z usb_scheme) option" where
  "udc_req_std_dev_set_feature hw s =
     (if wLength (req s) \<noteq> 0 then Some (False, s)
      else if wValue (req s) = 2 then
        let (hs, s) = udd_is_high_speed hw s
        in if \<not> hs then Some (False, s)
           else if wIndex (req s) AND 0xFF \<noteq> 0 then Some (False, s)
           else do {
             s \<leftarrow> udc_reset hw s;
             let t = drop_bit 8 (wIndex (req s)) AND 0xFF;
             Some (if t = 1 then (True, s\<lparr>callback := CC_test_mode_j\<rparr>)
                   else if t = 2 then (True, s\<lparr>callback := CC_test_mode_k\<rparr>)
                   else if t = 3 then (True, s\<lparr>callback := CC_test_mode_se0_nak\<rparr>)
                   else if t = 4 then (True, s\<lparr>callback := CC_test_mode_packet\<rparr>)
                   else (False, s))
           }
      else Some (False, s))"

definition udc_req_std_ep_set_feature :: "hw \<Rightarrow> 'z usb_scheme \<Rightarrow> (bool \<times> 'z usb_scheme) option" where
  "udc_req_std_ep_set_feature hw s =
     (if wLength (req s) \<noteq> 0 then Some (False, s)
      else if wValue (req s) = 0 then
        do {
          s \<leftarrow> udd_ep_abort hw (ucast (wIndex (req s) AND 0xFF)) s;
          Some (udd_ep_set_halt hw (ucast (wIndex (req s) AND 0xFF)) s)
        }
      else Some (False, s))"

definition udc_valid_address :: "hw \<Rightarrow> 'z usb_scheme \<Rightarrow> 'z usb_scheme" where
  "udc_valid_address hw s = udd_set_address hw (ucast (wValue (req s) AND 0x7F)) s"

definition udc_req_std_dev_set_address :: "'z usb_scheme \<Rightarrow> bool \<times> 'z usb_scheme" where
  "udc_req_std_dev_set_address s =
     (if wLength (req s) \<noteq> 0 then (False, s) else (True, s\<lparr>callback := CC_udc_valid_address\<rparr>))"

definition udc_string_manufacturer_name :: "u8 list" where
  "udc_string_manufacturer_name =
     [0x41, 0x6E, 0x61, 0x6C, 0x6F, 0x67, 0x20, 0x44, 0x65, 0x76, 0x69, 0x63, 0x65, 0x73, 0x2C, 0x20,
      0x49, 0x6E, 0x63, 0x2E]"

definition udc_string_product_name :: "u8 list" where
  "udc_string_product_name = [0x41, 0x44, 0x41, 0x4C, 0x4D, 0x31, 0x30, 0x30, 0x30]"

definition set_string :: "u8 list \<Rightarrow> 'z usb_scheme \<Rightarrow> 'z usb_scheme" where
  "set_string str s =
     (let n = 2 + 2 * length str
      in udd_set_setup_payload (O_string_desc, 0) (of_nat n)
           (udc_string_desc_update
              (\<lambda>d. [of_nat n, d ! 1] @ concat (map (\<lambda>c. [c, 0]) str) @ drop n d) s))"

definition udc_req_std_dev_get_str_desc :: "'z usb_scheme \<Rightarrow> bool \<times> 'z usb_scheme" where
  "udc_req_std_dev_get_str_desc s =
     (let i = wValue (req s) AND 0xFF
      in if i = 0 then (True, udd_set_setup_payload (O_langid_desc, 0) 4 s)
         else if i = 1 then (True, set_string udc_string_manufacturer_name s)
         else if i = 2 then (True, set_string udc_string_product_name s)
         else if i = 3 then (True, set_string (serial_number s) s)
         else msft_string_handle s)"

text \<open>The two configuration descriptors; their first byte to change is the type.\<close>

definition get_conf_desc :: "bool \<Rightarrow> u8 \<Rightarrow> u8 \<Rightarrow> 'z usb_scheme \<Rightarrow> bool \<times> 'z usb_scheme" where
  "get_conf_desc hs conf_num ty s =
     (if conf_num \<ge> 1 then (False, s)
      else if hs then (True, (udd_set_setup_payload (O_conf_hs, 0) 41 s)\<lparr>conf_hs_type := ty\<rparr>)
      else (True, (udd_set_setup_payload (O_conf_fs, 0) 41 s)\<lparr>conf_fs_type := ty\<rparr>))"

definition get_desc :: "hw \<Rightarrow> 'z usb_scheme \<Rightarrow> bool \<times> 'z usb_scheme" where
  "get_desc hw s =
     (let conf_num = (ucast (wValue (req s) AND 0xFF) :: u8);
          id = (ucast (drop_bit 8 (wValue (req s))) :: u8)
      in if id = 1 then
           let (_, s) = udd_is_high_speed hw s in (True, udd_set_setup_payload (O_dev_desc, 0) 18 s)
         else if id = 2 then
           let (hs, s) = udd_is_high_speed hw s in get_conf_desc hs conf_num 2 s
         else if id = 6 then (True, udd_set_setup_payload (O_qual_desc, 0) 10 s)
         else if id = 7 then
           let (hs, s) = udd_is_high_speed hw s in get_conf_desc (\<not> hs) conf_num 7 s
         else if id = 15 then (False, s)
         else if id = 3 then udc_req_std_dev_get_str_desc s
         else (False, s))"

definition udc_req_std_dev_get_descriptor :: "hw \<Rightarrow> 'z usb_scheme \<Rightarrow> bool \<times> 'z usb_scheme" where
  "udc_req_std_dev_get_descriptor hw s =
     (let (ok, s) = get_desc hw s
      in if \<not> ok then (False, s)
         else (True, if wLength (req s) < payload_size s then s\<lparr>payload_size := wLength (req s)\<rparr> else s))"

definition udc_req_std_dev_get_configuration :: "'z usb_scheme \<Rightarrow> bool \<times> 'z usb_scheme" where
  "udc_req_std_dev_get_configuration s =
     (if wLength (req s) \<noteq> 1 then (False, s)
      else (True, udd_set_setup_payload (O_num_configuration, 0) 1 s))"

definition udc_req_std_dev_set_configuration ::
  "hw \<Rightarrow> 'z usb_scheme \<Rightarrow> (bool \<times> 'z usb_scheme) option" where
  "udc_req_std_dev_set_configuration hw s =
     (if wLength (req s) \<noteq> 0 then Some (False, s)
      else
        let (address, s) = udd_getaddress hw s
        in if address = 0 then Some (False, s)
           else
             let (hs, s) = udd_is_high_speed hw s
             in if wValue (req s) AND 0xFF > 1 then Some (False, s)
                else do {
                  s \<leftarrow> udc_reset hw s;
                  let s = s\<lparr>udc_num_configuration := ucast (wValue (req s) AND 0xFF)\<rparr>;
                  if udc_num_configuration s = 0 then Some (True, s)
                  else
                    let (hs, s) = udd_is_high_speed hw s;
                        s = s\<lparr>udc_ptr_conf := if hs then HighSpeed else FullSpeed\<rparr>
                    in enable_ifaces hw (ifaces s) s
                })"

definition udc_req_std_iface_get_setting :: "'z usb_scheme \<Rightarrow> (bool \<times> 'z usb_scheme) option" where
  "udc_req_std_iface_get_setting s =
     (if wLength (req s) \<noteq> 1 \<or> udc_num_configuration s = 0 then Some (False, s)
      else
        let iface_num = ucast (wIndex (req s) AND 0xFF)
        in if iface_num \<ge> conf_desc s ! 4 then Some (False, s)
           else do {
             (found, s) \<leftarrow> udc_update_iface_desc iface_num 0 s;
             if \<not> found then Some (False, s)
             else Some (True, udd_set_setup_payload (O_iface_setting, 0) 1
                                (s\<lparr>udc_iface_setting := udi_vendor_getsetting s\<rparr>))
           })"

definition udc_req_std_iface_set_setting :: "hw \<Rightarrow> 'z usb_scheme \<Rightarrow> (bool \<times> 'z usb_scheme) option" where
  "udc_req_std_iface_set_setting hw s =
     (if wLength (req s) \<noteq> 0 \<or> udc_num_configuration s = 0 then Some (False, s)
      else
        let iface_num = ucast (wIndex (req s) AND 0xFF);
            setting_num = ucast (wValue (req s) AND 0xFF)
        in do {
             (ok, s) \<leftarrow> udc_iface_disable hw iface_num s;
             if \<not> ok then Some (False, s) else udc_iface_enable hw iface_num setting_num s
           })"

definition reqstd_in :: "hw \<Rightarrow> 'z usb_scheme \<Rightarrow> (bool \<times> 'z usb_scheme) option" where
  "reqstd_in hw s =
     (let r = bRequest (req s); t = Udd_setup_recipient s
      in if wLength (req s) = 0 then Some (False, s)
         else if t = USB_REQ_RECIP_DEVICE \<and> r = 0 then Some (udc_req_std_dev_get_status s)
         else if t = USB_REQ_RECIP_DEVICE \<and> r = 6 then Some (udc_req_std_dev_get_descriptor hw s)
         else if t = USB_REQ_RECIP_DEVICE \<and> r = 8 then Some (udc_req_std_dev_get_configuration s)
         else if t = USB_REQ_RECIP_INTERFACE \<and> r = 10 then udc_req_std_iface_get_setting s
         else if t = USB_REQ_RECIP_ENDPOINT \<and> r = 0 then Some (udc_req_std_ep_get_status hw s)
         else Some (False, s))"

definition reqstd_out :: "hw \<Rightarrow> 'z usb_scheme \<Rightarrow> (bool \<times> 'z usb_scheme) option" where
  "reqstd_out hw s =
     (let r = bRequest (req s); t = Udd_setup_recipient s
      in if t = USB_REQ_RECIP_DEVICE \<and> r = 5 then Some (udc_req_std_dev_set_address s)
         else if t = USB_REQ_RECIP_DEVICE \<and> r = 1 then Some (udc_req_std_dev_clear_feature s)
         else if t = USB_REQ_RECIP_DEVICE \<and> r = 3 then udc_req_std_dev_set_feature hw s
         else if t = USB_REQ_RECIP_DEVICE \<and> r = 9 then udc_req_std_dev_set_configuration hw s
         else if t = USB_REQ_RECIP_INTERFACE \<and> r = 11 then udc_req_std_iface_set_setting hw s
         else if t = USB_REQ_RECIP_ENDPOINT \<and> r = 1 then Some (udc_req_std_ep_clear_feature hw s)
         else if t = USB_REQ_RECIP_ENDPOINT \<and> r = 3 then udc_req_std_ep_set_feature hw s
         else Some (False, s))"

definition udc_reqstd :: "hw \<Rightarrow> 'z usb_scheme \<Rightarrow> (bool \<times> 'z usb_scheme) option" where
  "udc_reqstd hw s = (if Udd_setup_is_in s then reqstd_in hw s else reqstd_out hw s)"

section \<open>Dispatch\<close>

definition udc_req_iface :: "'z usb_scheme \<Rightarrow> (bool \<times> 'z usb_scheme) option" where
  "udc_req_iface s =
     (if udc_num_configuration s = 0 then Some (False, s)
      else
        let iface_num = ucast (wIndex (req s) AND 0xFF)
        in if iface_num \<ge> conf_desc s ! 4 then Some (False, s)
           else do {
             (found, s) \<leftarrow> udc_update_iface_desc iface_num 0 s;
             if \<not> found then Some (False, s)
             else do {
               (found, s) \<leftarrow> udc_update_iface_desc iface_num (udi_vendor_getsetting s) s;
               if \<not> found then Some (False, s) else Some (udi_vendor_setup s, s)
             }
           })"

fun req_ep_ifaces :: "u8 list \<Rightarrow> 'z usb_scheme \<Rightarrow> (bool \<times> 'z usb_scheme) option" where
  "req_ep_ifaces [] s = Some (False, s)"
| "req_ep_ifaces (i # is) s =
     do {
       (found, s) \<leftarrow> udc_update_iface_desc i (udi_vendor_getsetting s) s;
       if \<not> found then Some (False, s)
       else if udi_vendor_setup s then Some (True, s)
       else req_ep_ifaces is s
     }"

definition udc_req_ep :: "'z usb_scheme \<Rightarrow> (bool \<times> 'z usb_scheme) option" where
  "udc_req_ep s =
     (if udc_num_configuration s = 0 then Some (False, s) else req_ep_ifaces (ifaces s) s)"

text \<open>Try a stage; only when it declines, the next one is tried.\<close>

definition or_else ::
  "(bool \<times> 's) option \<Rightarrow> ('s \<Rightarrow> (bool \<times> 's) option) \<Rightarrow> (bool \<times> 's) option" where
  "or_else x f = do { (ok, s) \<leftarrow> x; if ok then Some (True, s) else f s }"

definition udc_process_setup :: "hw \<Rightarrow> 'z usb_scheme \<Rightarrow> (bool \<times> 'z usb_scheme) option" where
  "udc_process_setup hw s =
     (let s = s\<lparr>payload_size := 0, callback := CC_null, over_under_run := None\<rparr>
      in if Udd_setup_is_in s \<and> wLength (req s) = 0 then Some (False, s)
         else
           or_else (if Udd_setup_type s = USB_REQ_TYPE_STANDARD then udc_reqstd hw s else Some (False, s))
             (\<lambda>s. or_else
               (if Udd_setup_recipient s = USB_REQ_RECIP_INTERFACE then udc_req_iface s else Some (False, s))
               (\<lambda>s. or_else
                 (if Udd_setup_recipient s = USB_REQ_RECIP_ENDPOINT then udc_req_ep s else Some (False, s))
                 (main_setup_handle hw))))"

end
