(* ===== verification/Udd_Ctrl.thy ===== *)
theory Udd_Ctrl
  imports Udc
begin

text \<open>
  The control endpoint of \<^verbatim>\<open>src/asf/sam/drivers/udphs/udphs_device.c\<close>: the state machine that
  takes a set-up packet through its data and handshake phases, and the interrupt handler of
  the USB controller. The data of a control transfer are copied byte by byte between the packet
  memory and the object that \<open>payload\<close> points to; an access outside that object, or a store
  to one that is constant, is recorded as \<open>Oob\<close>.
\<close>

section \<open>Memory that a control transfer reads and writes\<close>

definition bytes16 :: "u16 \<Rightarrow> u8 list" where
  "bytes16 w = [ucast w, ucast (drop_bit 8 w)]"

definition obj_bytes :: "obj \<Rightarrow> 'z usb_scheme \<Rightarrow> u8 list" where
  "obj_bytes b s =
     (case b of
        O_flash_table \<Rightarrow> flash_table s
      | O_ret_data \<Rightarrow> ret_data s
      | O_hwversion \<Rightarrow> hwversion s
      | O_fwversion \<Rightarrow> fwversion s
      | O_msft_compatible \<Rightarrow> msft_compatible s
      | O_msft_string \<Rightarrow> extra_strings_desc s
      | O_device_status \<Rightarrow> bytes16 (udc_device_status s)
      | O_ep_status \<Rightarrow> bytes16 (udc_ep_status s)
      | O_num_configuration \<Rightarrow> [udc_num_configuration s]
      | O_iface_setting \<Rightarrow> [udc_iface_setting s]
      | O_langid_desc \<Rightarrow> [4, 3, 0x09, 0x04]
      | O_string_desc \<Rightarrow> udc_string_desc s
      | O_dev_desc \<Rightarrow> udc_device_desc
      | O_qual_desc \<Rightarrow> udc_device_qual
      | O_conf_fs \<Rightarrow> udc_desc_fs s
      | O_conf_hs \<Rightarrow> udc_desc_hs s
      | _ \<Rightarrow> [])"

definition load_byte :: "hw \<Rightarrow> ptr \<Rightarrow> 'z usb_scheme \<Rightarrow> u8 \<times> 'z usb_scheme" where
  "load_byte hw p s =
     (if snd p < length (obj_bytes (fst p) s) then (obj_bytes (fst p) s ! snd p, s)
      else (ucast (uninit hw s (snd p)), oob p s))"

definition store_byte :: "ptr \<Rightarrow> u8 \<Rightarrow> 'z usb_scheme \<Rightarrow> 'z usb_scheme" where
  "store_byte p b s =
     (if snd p \<ge> length (obj_bytes (fst p) s) then oob p s
      else case fst p of
             O_flash_table \<Rightarrow> flash_table_update (\<lambda>d. d[snd p := b]) s
           | O_ret_data \<Rightarrow> ret_data_update (\<lambda>d. d[snd p := b]) s
           | O_hwversion \<Rightarrow> hwversion_update (\<lambda>d. d[snd p := b]) s
           | O_msft_compatible \<Rightarrow> msft_compatible_update (\<lambda>d. d[snd p := b]) s
           | _ \<Rightarrow> oob p s)"

text \<open>The copying loops: \<open>n\<close> bytes from the pointer on, at offset \<open>a\<close> of the packet memory.\<close>

fun copy_in :: "hw \<Rightarrow> ptr \<Rightarrow> nat \<Rightarrow> nat \<Rightarrow> 'z usb_scheme \<Rightarrow> 'z usb_scheme" where
  "copy_in hw p a 0 s = s"
| "copy_in hw p a (Suc n) s =
     (let (b, s) = load_byte hw p s
      in copy_in hw (fst p, Suc (snd p)) (Suc a) n (wr UDPHS_RAM a (ucast b) s))"

fun copy_out :: "hw \<Rightarrow> ptr \<Rightarrow> nat \<Rightarrow> nat \<Rightarrow> 'z usb_scheme \<Rightarrow> 'z usb_scheme" where
  "copy_out hw p a 0 s = s"
| "copy_out hw p a (Suc n) s =
     (let (v, s) = rd hw UDPHS_RAM a s
      in copy_out hw (fst p, Suc (snd p)) (Suc a) n (store_byte p (ucast v) s))"

fun fifo_read :: "hw \<Rightarrow> nat \<Rightarrow> nat \<Rightarrow> 'z mach_scheme \<Rightarrow> u8 list \<times> 'z mach_scheme" where
  "fifo_read hw a 0 s = ([], s)"
| "fifo_read hw a (Suc n) s =
     (let (v, s) = rd hw UDPHS_RAM a s; (bs, s) = fifo_read hw (Suc a) n s in (ucast v # bs, s))"

section \<open>Phases\<close>

definition udd_reset_ep_ctrl :: "hw \<Rightarrow> 'z usb_scheme \<Rightarrow> 'z usb_scheme" where
  "udd_reset_ep_ctrl hw s =
     (let s = udd_configure_address hw 0 s;
          s = udd_enable_address hw s;
          s = udd_configure_endpoint hw 0 0 0 64 1 0 s;
          s = udd_enable_endpoint 0 s;
          s = udd_enable_setup_received_interrupt 0 s;
          s = udd_enable_out_received_interrupt 0 s
      in udd_enable_endpoint_interrupt hw 0 s)"

definition udd_ctrl_init :: "'z usb_scheme \<Rightarrow> 'z usb_scheme" where
  "udd_ctrl_init s =
     (udd_ack_out_received 0 (udd_disable_in_send_interrupt 0 s))
       \<lparr>callback := CC_null, over_under_run := None, payload_size := 0,
        udd_ep_control_state := UDD_EPCTRL_SETUP\<rparr>"

definition udd_ctrl_stall_data :: "'z usb_scheme \<Rightarrow> 'z usb_scheme" where
  "udd_ctrl_stall_data s =
     udd_enable_stall_handshake 0 (s\<lparr>udd_ep_control_state := UDD_EPCTRL_STALL_REQ\<rparr>)"

definition udd_ctrl_send_zlp_in :: "'z usb_scheme \<Rightarrow> 'z usb_scheme" where
  "udd_ctrl_send_zlp_in s =
     (let s = s\<lparr>udd_ep_control_state := UDD_EPCTRL_HANDSHAKE_WAIT_IN_ZLP\<rparr>;
          s = udd_ack_in_send 0 s;
          s = udd_raise_tx_pkt_ready 0 s;
          s = udd_enable_in_send_interrupt 0 s;
          s = udd_ack_nak_out 0 s
      in udd_enable_nak_out_interrupt 0 s)"

definition udd_ctrl_send_zlp_out :: "'z usb_scheme \<Rightarrow> 'z usb_scheme" where
  "udd_ctrl_send_zlp_out s =
     (let s = s\<lparr>udd_ep_control_state := UDD_EPCTRL_HANDSHAKE_WAIT_OUT_ZLP\<rparr>;
          s = udd_ack_nak_in 0 s
      in udd_enable_nak_in_interrupt 0 s)"

definition udd_ctrl_endofrequest :: "hw \<Rightarrow> 'z usb_scheme \<Rightarrow> 'z usb_scheme option" where
  "udd_ctrl_endofrequest hw s =
     (case callback s of
        CC_null \<Rightarrow> Some s
      | CC_store_flash_table \<Rightarrow> store_flash_table hw (map (uninit hw s) [0..<4]) s
      | CC_udc_valid_address \<Rightarrow> Some (udc_valid_address hw s)
      | CC_test_mode_j \<Rightarrow> Some (udd_test_mode_j hw s)
      | CC_test_mode_k \<Rightarrow> Some (udd_test_mode_k hw s)
      | CC_test_mode_se0_nak \<Rightarrow> Some (udd_test_mode_se0_nak hw s)
      | CC_test_mode_packet \<Rightarrow> Some (udd_test_mode_packet hw s))"

text \<open>The part of \<open>udd_ctrl_in_sent\<close> that sends the next packet of at most 64 bytes.\<close>

definition send_packet :: "hw \<Rightarrow> u16 \<Rightarrow> 'z usb_scheme \<Rightarrow> 'z usb_scheme" where
  "send_packet hw nb_remain s =
     (let n = (if nb_remain \<ge> 64 then 64 else nb_remain);
          s = s\<lparr>in_sent_shortpacket := \<not> nb_remain \<ge> 64\<rparr>;
          (out, s) = Is_udd_out_received hw 0 s
      in if out then s\<lparr>udd_ep_control_state := UDD_EPCTRL_HANDSHAKE_WAIT_OUT_ZLP\<rparr>
         else
           let s = copy_in hw (fst (payload s), snd (payload s) + unat (udd_ctrl_payload_buf_cnt s)) 0 (unat n) s;
               s = udd_ctrl_payload_buf_cnt_update (\<lambda>c. c + n) s;
               s = udd_ack_in_send 0 s;
               s = udd_raise_tx_pkt_ready 0 s
           in udd_enable_in_send_interrupt 0 s)"

definition udd_ctrl_in_sent :: "hw \<Rightarrow> 'z usb_scheme \<Rightarrow> 'z usb_scheme option" where
  "udd_ctrl_in_sent hw s =
     (let s = udd_disable_in_send_interrupt 0 s
      in if udd_ep_control_state s = UDD_EPCTRL_HANDSHAKE_WAIT_IN_ZLP
         then map_option udd_ctrl_init (udd_ctrl_endofrequest hw s)
         else
           let nb_remain = payload_size s - udd_ctrl_payload_buf_cnt s
           in if nb_remain = 0 then
                let s = s\<lparr>udd_ctrl_prev_payload_buf_cnt :=
                            udd_ctrl_prev_payload_buf_cnt s + udd_ctrl_payload_buf_cnt s\<rparr>
                in Some (if wLength (req s) = udd_ctrl_prev_payload_buf_cnt s \<or> in_sent_shortpacket s
                         then udd_ctrl_send_zlp_out s
                         else if over_under_run s = Some True
                         then send_packet hw (payload_size s) (s\<lparr>udd_ctrl_payload_buf_cnt := 0\<rparr>)
                         else send_packet hw 0 s)
              else Some (send_packet hw nb_remain s))"

definition req_of_bytes :: "u8 list \<Rightarrow> usb_setup_req_t" where
  "req_of_bytes bs =
     \<lparr>bmRequestType = bs ! 0, bRequest = bs ! 1,
      wValue = ucast (bs ! 2) OR push_bit 8 (ucast (bs ! 3)),
      wIndex = ucast (bs ! 4) OR push_bit 8 (ucast (bs ! 5)),
      wLength = ucast (bs ! 6) OR push_bit 8 (ucast (bs ! 7))\<rparr>"

definition udd_byte_count :: "hw \<Rightarrow> u8 \<Rightarrow> 'z mach_scheme \<Rightarrow> u32 \<times> 'z mach_scheme" where
  "udd_byte_count hw ep s = Rd_bitfield hw (EPT ep EPTSTA) BYTE_COUNT_Msk 20 s"

text \<open>What follows an accepted request: the data phase, or the handshake at once.\<close>

definition start_data_phase :: "hw \<Rightarrow> 'z usb_scheme \<Rightarrow> 'z usb_scheme option" where
  "start_data_phase hw s =
     (if Udd_setup_is_in s then
        udd_ctrl_in_sent hw
          (s\<lparr>udd_ctrl_prev_payload_buf_cnt := 0, udd_ctrl_payload_buf_cnt := 0,
             udd_ep_control_state := UDD_EPCTRL_DATA_IN\<rparr>)
      else if wLength (req s) = 0 then Some (udd_ctrl_send_zlp_in s)
      else
        let s = s\<lparr>udd_ctrl_prev_payload_buf_cnt := 0, udd_ctrl_payload_buf_cnt := 0,
                  udd_ep_control_state := UDD_EPCTRL_DATA_OUT\<rparr>;
            s = udd_ack_nak_in 0 s
        in Some (udd_enable_nak_in_interrupt 0 s))"

definition udd_ctrl_setup_received :: "hw \<Rightarrow> 'z usb_scheme \<Rightarrow> 'z usb_scheme option" where
  "udd_ctrl_setup_received hw s =
     do {
       s \<leftarrow> (if udd_ep_control_state s \<noteq> UDD_EPCTRL_SETUP
             then map_option udd_ctrl_init (udd_ctrl_endofrequest hw s) else Some s);
       let (n, s) = udd_byte_count hw 0 s;
       if n \<noteq> 8 then Some (udd_ack_setup_received 0 (udd_ctrl_stall_data s))
       else do {
         let (bs, s) = fifo_read hw 0 8 s;
         (ok, s) \<leftarrow> udc_process_setup hw (s\<lparr>req := req_of_bytes bs\<rparr>);
         if \<not> ok then Some (udd_ack_setup_received 0 (udd_ctrl_stall_data s))
         else start_data_phase hw (udd_ack_setup_received 0 s)
       }
     }"

text \<open>
  \<open>udd_ctrl_out_received\<close>: the copying loop counts in a byte, and would not end for more than
  255 bytes.
\<close>

definition out_data_done :: "hw \<Rightarrow> u16 \<Rightarrow> 'z usb_scheme \<Rightarrow> 'z usb_scheme" where
  "out_data_done hw nb_data s =
     (if nb_data \<noteq> 64 \<or> unat (wLength (req s)) \<le>
           unat (udd_ctrl_prev_payload_buf_cnt s) + unat (udd_ctrl_payload_buf_cnt s) then
        let s = s\<lparr>payload_size := udd_ctrl_payload_buf_cnt s\<rparr>
        in if over_under_run s = Some False
           then udd_ack_out_received 0 (udd_ctrl_stall_data s)
           else udd_ctrl_send_zlp_in (udd_ack_out_received 0 s)
      else if payload_size s = udd_ctrl_payload_buf_cnt s \<and> over_under_run s \<noteq> Some True
      then udd_ack_out_received 0 (udd_ctrl_stall_data s)
      else
        let s = (if payload_size s = udd_ctrl_payload_buf_cnt s
                 then s\<lparr>udd_ctrl_prev_payload_buf_cnt :=
                          udd_ctrl_prev_payload_buf_cnt s + udd_ctrl_payload_buf_cnt s,
                        udd_ctrl_payload_buf_cnt := 0\<rparr>
                 else s);
            s = udd_ack_out_received 0 s;
            s = udd_ack_nak_in 0 s
        in udd_enable_nak_in_interrupt 0 s)"

definition udd_ctrl_out_received :: "hw \<Rightarrow> 'z usb_scheme \<Rightarrow> 'z usb_scheme option" where
  "udd_ctrl_out_received hw s =
     (if udd_ep_control_state s \<noteq> UDD_EPCTRL_DATA_OUT then
        if udd_ep_control_state s = UDD_EPCTRL_DATA_IN
           \<or> udd_ep_control_state s = UDD_EPCTRL_HANDSHAKE_WAIT_OUT_ZLP
        then map_option udd_ctrl_init (udd_ctrl_endofrequest hw s)
        else Some (udd_ctrl_init (udd_ctrl_stall_data s))
      else
        let (n, s) = udd_byte_count hw 0 s;
            nb_data = (ucast n :: u16);
            nb_data = (if unat (payload_size s) < unat (udd_ctrl_payload_buf_cnt s) + unat nb_data
                       then payload_size s - udd_ctrl_payload_buf_cnt s else nb_data)
        in if nb_data > 255 then None
           else
             let s = copy_out hw (fst (payload s), snd (payload s) + unat (udd_ctrl_payload_buf_cnt s)) 0
                       (unat nb_data) s;
                 s = udd_ctrl_payload_buf_cnt_update (\<lambda>c. c + nb_data) s
             in Some (out_data_done hw nb_data s))"

definition udd_ctrl_underflow :: "hw \<Rightarrow> 'z usb_scheme \<Rightarrow> 'z usb_scheme" where
  "udd_ctrl_underflow hw s =
     (let (out, s) = Is_udd_out_received hw 0 s
      in if out then s
         else if udd_ep_control_state s = UDD_EPCTRL_DATA_OUT then udd_ctrl_send_zlp_in s
         else if udd_ep_control_state s = UDD_EPCTRL_HANDSHAKE_WAIT_OUT_ZLP
         then udd_enable_stall_handshake 0 s
         else s)"

definition udd_ctrl_overflow :: "hw \<Rightarrow> 'z usb_scheme \<Rightarrow> 'z usb_scheme" where
  "udd_ctrl_overflow hw s =
     (let (sent, s) = Is_udd_in_send hw 0 s
      in if sent then s
         else if udd_ep_control_state s = UDD_EPCTRL_HANDSHAKE_WAIT_IN_ZLP
         then udd_enable_stall_handshake 0 s
         else s)"

section \<open>Interrupts\<close>

text \<open>The events that are not a packet; the first component says whether one was handled.\<close>

definition ctrl_naks :: "hw \<Rightarrow> u32 \<Rightarrow> 'z usb_scheme \<Rightarrow> bool \<times> 'z usb_scheme" where
  "ctrl_naks hw status s =
     (let s = (if Is_udd_endpoint_status_stall status then udd_ack_stall 0 s else s)
      in if Is_udd_endpoint_status_nak_out status
         then (True, udd_ctrl_overflow hw (udd_ack_nak_out 0 s))
         else if Is_udd_endpoint_status_nak_in status
         then (True, udd_ctrl_underflow hw (udd_ack_nak_in 0 s))
         else (False, s))"

definition udd_ctrl_interrupt :: "hw \<Rightarrow> 'z usb_scheme \<Rightarrow> (bool \<times> 'z usb_scheme) option" where
  "udd_ctrl_interrupt hw s =
     (let (status, s) = udd_get_endpoint_status hw 0 s;
          (i, s) = Tst_bits hw UDPHS_INTSTA 0x100 s
      in if \<not> i then Some (False, s)
         else
           let s = udd_disable_nak_in_interrupt 0 s;
               s = udd_disable_nak_out_interrupt 0 s
           in if Is_udd_endpoint_status_setup_received status then map_option (Pair True) (udd_ctrl_setup_received hw s)
              else
                let (e, s) = (if Is_udd_endpoint_status_in_sent status then Is_udd_in_send_interrupt_enabled hw 0 s
                              else (False, s))
                in if e then map_option (Pair True) (udd_ctrl_in_sent hw s)
                   else if Is_udd_endpoint_status_out_received status
                   then map_option (Pair True) (udd_ctrl_out_received hw s)
                   else Some (ctrl_naks hw status s))"

text \<open>The events of the bus: reset, suspend and wake-up.\<close>

definition bus_reset :: "hw \<Rightarrow> 'z usb_scheme \<Rightarrow> 'z usb_scheme option" where
  "bus_reset hw s =
     do {
       let s = udd_ack_reset s;
       let s = udd_ep_job_table_kill hw s;
       s \<leftarrow> udc_reset hw s;
       let s = udd_reset_ep_ctrl hw s;
       let s = udd_ctrl_init s;
       let s = udd_enable_sof_interrupt hw s;
       let s = udd_enable_msof_interrupt hw s;
       Some (udd_enable_suspend_interrupt hw s)
     }"

definition bus_suspend :: "hw \<Rightarrow> 'z usb_scheme \<Rightarrow> 'z usb_scheme" where
  "bus_suspend hw s =
     (let s = udd_ack_wake_up s;
          s = udd_disable_suspend_interrupt hw s;
          s = udd_enable_wake_up_interrupt hw s;
          s = udd_ack_suspend s;
          s = udd_disable_periph_ck hw s
      in udd_sleep_mode False s)"

definition bus_wake_up :: "hw \<Rightarrow> 'z usb_scheme \<Rightarrow> 'z usb_scheme" where
  "bus_wake_up hw s =
     (let s = udd_sleep_mode True s;
          s = udd_ack_suspend s;
          s = udd_ack_wake_up s;
          s = udd_disable_wake_up_interrupt hw s;
          s = udd_enable_suspend_interrupt hw s;
          s = udd_enable_sof_interrupt hw s
      in udd_enable_msof_interrupt hw s)"

definition bus_events :: "hw \<Rightarrow> 'z usb_scheme \<Rightarrow> 'z usb_scheme option" where
  "bus_events hw s =
     (let (rst, s) = Is_udd_reset hw s
      in if rst then bus_reset hw s
         else
           let (e, s) = Is_udd_suspend_interrupt_enabled hw s;
               (susp, s) = (if e then Is_udd_suspend hw s else (False, s))
           in if susp then Some (bus_suspend hw s)
              else
                let (wake, s) = Is_udd_wake_up hw s
                in Some (if wake then bus_wake_up hw s else s))"

text \<open>The handler, \<open>ISR(UDD_USB_INT_FUN)\<close>.\<close>

definition UDPHS_Handler :: "hw \<Rightarrow> 'z usb_scheme \<Rightarrow> 'z usb_scheme option" where
  "UDPHS_Handler hw s =
     (let s = udd_enable_periph_ck hw s;
          (susp, s) = (if b_is_sleep_clock_used s then Is_udd_suspend hw s else (True, s))
      in if \<not> susp then Some (instr Cpsid s)
         else
           let (sof, s) = Is_udd_sof hw s
           in if sof then
                let s = udd_ack_sof s;
                    (fs, s) = Is_udd_full_speed_mode hw s;
                    s = (if fs then udc_sof_notify s else s)
                in Some (main_sof_action hw s)
              else
                let (msof, s) = Is_udd_msof hw s
                in if msof then Some (udc_sof_notify (udd_ack_msof s))
                   else do {
                     (done, s) \<leftarrow> udd_ctrl_interrupt hw s;
                     if done then Some s
                     else
                       let (done, s) = udd_ep_interrupt hw s
                       in if done then Some s else bus_events hw s
                   })"

end
