(* ===== verification/Frame.thy ===== *)
theory Frame
  imports Udd_Ctrl
begin

text \<open>
  What driver code leaves alone. \<open>frame s\<close> is the state without the accesses that only move
  numbers: the variables of the program, and the pointers handed to DMA channels. Code that
  only reads and writes registers keeps the frame; the lemmas here say so for every driver
  function that the application and the USB stack call, in the order of the theories. The
  total functions are rewrite rules (\<open>frame_simps\<close>), the partial ones destruction rules
  (\<open>frameD\<close>).
\<close>

named_theorems frame_simps "register code keeps the frame"
named_theorems frameD "partial register code keeps the frame"

primrec pointers :: "event list \<Rightarrow> (periph \<times> nat \<times> ptr) list" where
  "pointers [] = []"
| "pointers (e # es) = (case e of WrP p r a \<Rightarrow> [(p, r, a)] | _ \<Rightarrow> []) @ pointers es"

lemma pointers_append [simp]: "pointers (es @ fs) = pointers es @ pointers fs"
  by (induction es) simp_all

lemma pointers_reads [simp]: "pointers (replicate n (Rd p r)) = []"
  by (induction n) simp_all

definition frame :: "'z mach_scheme \<Rightarrow> 'z \<times> (periph \<times> nat \<times> ptr) list" where
  "frame s = (mach.more s, pointers (trace s))"

lemma frame_wr [frame_simps]: "frame (wr p r v s) = frame s"
  by (simp add: frame_def wr_def)

lemma frame_rd [frame_simps]: "frame (snd (rd hw p r s)) = frame s"
  by (simp add: frame_def rd_def)

lemma frame_rmw [frame_simps]: "frame (rmw hw p r f s) = frame s"
  by (simp add: rmw_def split_def Let_def frame_simps)

lemma frame_delay [frame_simps]: "frame (delay_cycles n s) = frame s"
  by (simp add: frame_def delay_cycles_def)

lemma frame_oob [frame_simps]: "frame (oob a s) = frame s"
  by (simp add: frame_def oob_def)

lemma frame_poll [frameD]: "poll hw p r m v s = Some (x, s') \<Longrightarrow> frame s' = frame s"
  by (drule poll_Some) (auto simp: frame_def)

lemma frame_instr [frame_simps]: "(\<And>p r a. e \<noteq> WrP p r a) \<Longrightarrow> frame (instr e s) = frame s"
  by (cases e) (auto simp: frame_def instr_def)

lemmas frame_unfold = Let_def split_def

lemma bind_SomeE: "x \<bind> g = Some z \<Longrightarrow> (\<And>y. x = Some y \<Longrightarrow> g y = Some z \<Longrightarrow> P) \<Longrightarrow> P"
  by (cases x) simp_all

section \<open>Pins, timer, watchdog\<close>

lemma frame_pio [frame_simps]:
  "frame (pio_pull_up p m b s) = frame s" "frame (pio_set p m s) = frame s"
  "frame (pio_clear p m s) = frame s" "frame (pio_disable_interrupt p m s) = frame s"
  by (simp_all add: pio_pull_up_def pio_set_def pio_clear_def pio_disable_interrupt_def frame_simps)

lemma frame_pio_dirs [frame_simps]:
  "frame (pio_set_input p m a s) = frame s" "frame (pio_set_output p m l d u s) = frame s"
  "frame (pio_set_peripheral hw p t m s) = frame s"
  "frame (snd (pio_get_pin_value hw i s)) = frame s"
  by (simp_all add: pio_set_input_def pio_set_output_def pio_set_peripheral_def
      pio_get_pin_value_def frame_unfold frame_simps split: pio_type_t.split)

lemma frame_pio_configure [frame_simps]: "frame (snd (pio_configure hw p t m a s)) = frame s"
  by (simp add: pio_configure_def frame_unfold frame_simps)

lemma frame_tc [frame_simps]:
  "frame (tc_init hw p c m s) = frame s" "frame (tc_start p c s) = frame s"
  "frame (tc_stop p c s) = frame s" "frame (tc_write_ra p c v s) = frame s"
  "frame (tc_write_rb p c v s) = frame s" "frame (tc_write_rc p c v s) = frame s"
  "frame (tc_enable_interrupt p c v s) = frame s"
  by (simp_all add: tc_init_def tc_start_def tc_stop_def tc_write_ra_def tc_write_rb_def
      tc_write_rc_def tc_enable_interrupt_def frame_unfold frame_simps)

lemma frame_wdt [frame_simps]:
  "frame (wdt_init p m c d s) = frame s" "frame (wdt_restart p s) = frame s"
  by (simp_all add: wdt_init_def wdt_restart_def frame_simps)

section \<open>Two-wire interface\<close>

lemma frame_twi [frame_simps]:
  "frame (twi_reset hw p s) = frame s" "frame (twi_enable_master_mode p s) = frame s"
  "frame (snd (twi_set_speed p v m s)) = frame s"
  "frame (twi_start_read p k s) = frame s" "frame (twi_start_write p k s) = frame s"
  by (simp_all add: twi_reset_def twi_enable_master_mode_def twi_set_speed_def twi_start_read_def
      twi_start_write_def frame_unfold frame_simps)

lemma frame_twi_master_init [frame_simps]: "frame (snd (twi_master_init hw p k s)) = frame s"
  by (simp add: twi_master_init_def frame_unfold frame_simps)

lemma frame_twi_receive [frame_simps]:
  "frame (snd (snd (twi_receive hw p cnt st t s))) = frame s"
proof (induction hw p cnt st t s rule: twi_receive.induct)
  case (1 hw p cnt st t s)
  note IH = "1.IH"(1) [OF _ refl surjective_pairing [symmetric] _ _ refl refl refl refl]
    "1.IH"(2) [OF _ refl surjective_pairing [symmetric] _ _ refl refl refl refl _ refl
      surjective_pairing [symmetric]]
  show ?case
    by (subst twi_receive.simps) (simp add: split_def Let_def frame_simps IH)
qed

lemma frame_twi_send [frameD]: "twi_send hw p b i cnt s = Some y \<Longrightarrow> frame (snd y) = frame s"
proof (induction rule: twi_send.raw_induct [rotated 1, consumes 1, case_names step])
  case (step f hw p b i cnt s y)
  then show ?case by (auto simp: split_def Let_def frame_simps split: if_splits)
qed


lemma frame_twi_wait_sent [frameD]: "twi_wait_sent hw p s = Some y \<Longrightarrow> frame (snd y) = frame s"
proof (induction rule: twi_wait_sent.raw_induct [rotated 1, consumes 1, case_names step])
  case (step f hw p s y)
  then show ?case by (auto simp: split_def Let_def frame_simps split: if_splits)
qed

lemma frame_twi_master_write [frameD]: "twi_master_write hw p k s = Some y \<Longrightarrow> frame (snd y) = frame s"
  by (auto simp: twi_master_write_def frame_unfold frame_simps split: if_splits elim!: bind_SomeE dest!: frameD)

lemma frame_twi_master_read [frameD]:
  "twi_master_read hw p k s = Some y \<Longrightarrow> frame (snd (snd y)) = frame s"
  by (auto simp: twi_master_read_def frame_unfold frame_simps split: if_splits elim!: bind_SomeE dest!: frameD)

section \<open>Serial ports\<close>

lemma frame_usart [frame_simps]:
  "frame (usart_enable_tx p s) = frame s" "frame (usart_enable_rx p s) = frame s"
  "frame (usart_reset p s) = frame s"
  by (simp_all add: usart_enable_tx_def usart_enable_rx_def usart_reset_def
      usart_disable_writeprotect_def usart_reset_tx_def usart_reset_rx_def usart_reset_status_def
      usart_drive_RTS_pin_high_def usart_drive_DTR_pin_high_def frame_simps)

lemma frame_usart_spi [frame_simps]: "frame (snd (usart_init_spi_master hw p opt m s)) = frame s"
  by (simp add: usart_init_spi_master_def usart_set_spi_master_baudrate_def frame_unfold frame_simps
      split: option.split)

section \<open>Flash controller\<close>

lemma frame_efc [frame_simps]:
  "frame (efc_write_fmr p v s) = frame s" "frame (snd (efc_init p m w s)) = frame s"
  "frame (efc_set_wait_state hw p w s) = frame s" "frame (snd (efc_get_wait_state hw p s)) = frame s"
  "frame (snd (efc_get_result hw p s)) = frame s"
  by (simp_all add: efc_write_fmr_def efc_init_def efc_set_wait_state_def efc_get_wait_state_def
      efc_get_result_def frame_unfold frame_simps)

lemma frame_efc_command [frameD]: "efc_perform_command hw p c a s = Some y \<Longrightarrow> frame (snd y) = frame s"
  by (auto simp: efc_perform_command_def efc_perform_fcr_def frame_unfold frame_simps
      split: if_splits elim!: bind_SomeE dest!: frameD)

lemma frame_read_words [frame_simps]: "frame (snd (read_words hw a n s)) = frame s"
  by (induction n arbitrary: a s) (simp_all add: frame_unfold frame_simps)

lemma frame_read_bytes [frame_simps]: "frame (snd (read_bytes hw a n s)) = frame s"
  by (induction n arbitrary: a s) (simp_all add: frame_unfold frame_simps)

lemma frame_write_words [frame_simps]: "frame (write_words a bs s) = frame s"
  by (induction a bs s rule: write_words.induct) (simp_all add: frame_simps)

lemma frame_efc_sequence [frameD]:
  "efc_perform_read_sequence hw p c d n s = Some y \<Longrightarrow> frame (snd (snd y)) = frame s"
  by (auto simp: efc_perform_read_sequence_def frame_unfold frame_simps elim!: bind_SomeE dest!: frameD)

lemma frame_flash_write_loop [frameD]:
  "flash_write_loop hw p pg off b n e s = Some y \<Longrightarrow> frame (snd y) = frame s"
proof (induction rule: flash_write_loop.raw_induct [rotated 1, consumes 1, case_names step])
  case (step f hw p pg off b n e s y)
  then show ?case
    by (auto simp: frame_unfold frame_simps split: if_splits elim!: bind_SomeE dest!: frameD step.IH)
qed

lemma frame_lock_loop [frameD]: "lock_loop hw p c a e s = Some y \<Longrightarrow> frame (snd y) = frame s"
proof (induction rule: lock_loop.raw_induct [rotated 1, consumes 1, case_names step])
  case (step f hw p c a e s y)
  then show ?case by (auto simp: frame_unfold frame_simps split: if_splits elim!: bind_SomeE dest!: frameD step.IH)
qed

lemma frame_flash_init [frame_simps]: "frame (snd (flash_init m w s)) = frame s"
  by (simp add: flash_init_def frame_unfold frame_simps)

lemma frame_flash [frameD]:
  "flash_write hw a b n e s = Some y \<Longrightarrow> frame (snd y) = frame s"
  "flash_lock hw a c s = Some y \<Longrightarrow> frame (snd y) = frame s"
  "flash_unlock hw a c s = Some y \<Longrightarrow> frame (snd y) = frame s"
  "flash_is_gpnvm_set hw g s = Some y \<Longrightarrow> frame (snd y) = frame s"
  "flash_read_unique_id hw n s = Some z \<Longrightarrow> frame (snd (snd z)) = frame s"
  by (auto simp: flash_write_def flash_lock_def flash_unlock_def flash_is_gpnvm_set_def
      flash_read_unique_id_def frame_unfold frame_simps split: if_splits elim!: bind_SomeE dest!: frameD)

lemma frame_flash_gpnvm [frameD]: "flash_clear_gpnvm hw g s = Some y \<Longrightarrow> frame (snd y) = frame s"
  by (auto simp: flash_clear_gpnvm_def frame_unfold frame_simps split: if_splits elim!: bind_SomeE dest!: frameD)


section \<open>Clocks\<close>

lemma frame_pmc_wait [frame_simps]: "frame (snd (pmc_wait hw m n s)) = frame s"
  by (induction n arbitrary: s) (simp_all add: frame_unfold frame_simps)

lemma frame_pmc_wait_for [frameD]: "pmc_wait_for hw m s = Some s' \<Longrightarrow> frame s' = frame s"
  by (auto simp: pmc_wait_for_def elim!: bind_SomeE dest!: frameD)

lemma frame_mck [frame_simps]:
  "frame (mckr_update hw m v s) = frame s" "frame (snd (mck_step hw m v s)) = frame s"
  by (simp_all add: mckr_update_def mck_step_def frame_simps)

lemma frame_pmc [frame_simps]:
  "frame (snd (pmc_switch_mck_to_sclk hw v s)) = frame s"
  "frame (snd (pmc_switch_mck_to_mainck hw v s)) = frame s"
  "frame (snd (pmc_switch_mck_to_pllack hw v s)) = frame s"
  "frame (snd (pmc_switch_mck_to_upllck hw v s)) = frame s"
  "frame (pmc_switch_sclk_to_32kxtal hw v s) = frame s"
  "frame (pmc_osc_bypass_main_xtal hw s) = frame s"
  "frame (pmc_mainck_osc_select hw v s) = frame s"
  "frame (pmc_disable_pllack s) = frame s"
  "frame (snd (pmc_enable_periph_clk hw v s)) = frame s"
  "frame (snd (pmc_disable_periph_clk hw v s)) = frame s"
  "frame (pmc_set_fast_startup_input hw v s) = frame s"
  by (simp_all add: pmc_switch_mck_to_sclk_def pmc_switch_mck_to_mainck_def
      pmc_switch_mck_to_pllack_def pmc_switch_mck_to_upllck_def pmc_switch_sclk_to_32kxtal_def
      pmc_osc_bypass_main_xtal_def pmc_mainck_osc_select_def pmc_disable_pllack_def
      pmc_enable_periph_clk_def pmc_disable_periph_clk_def pmc_set_fast_startup_input_def
      frame_unfold frame_simps)

lemma frame_osc [frame_simps]:
  "frame (snd (osc_is_ready hw v s)) = frame s" "frame (snd (pll_is_locked hw v s)) = frame s"
  "frame (snd (pmc_osc_is_ready_mainck hw s)) = frame s" "frame (pll_enable c v s) = frame s"
  "frame (pll_disable hw v s) = frame s"
  by (simp_all add: osc_is_ready_def pll_is_locked_def pmc_osc_is_ready_mainck_def pll_enable_def
      pll_disable_def pmc_osc_is_ready_32kxtal_def pmc_osc_is_ready_fastrc_def
      pmc_osc_is_ready_main_xtal_def pmc_is_locked_pllack_def pmc_is_locked_upll_def
      frame_unfold frame_simps)

lemma frame_osc_enable [frameD]: "osc_enable hw v s = Some s' \<Longrightarrow> frame s' = frame s"
  by (auto simp: osc_enable_def pmc_osc_enable_fastrc_def pmc_osc_enable_main_xtal_def
      frame_unfold frame_simps split: if_splits elim!: bind_SomeE dest!: frameD)

lemma frame_osc_wait_ready [frameD]: "osc_wait_ready hw v s = Some s' \<Longrightarrow> frame s' = frame s"
proof (induction rule: osc_wait_ready.raw_induct [rotated 1, consumes 1, case_names step])
  case (step f hw v s s')
  then show ?case by (auto simp: split_def Let_def frame_simps split: if_splits)
qed

lemma frame_pll_wait_for_lock [frameD]: "pll_wait_for_lock hw v s = Some s' \<Longrightarrow> frame s' = frame s"
proof (induction rule: pll_wait_for_lock.raw_induct [rotated 1, consumes 1, case_names step])
  case (step f hw v s s')
  then show ?case by (auto simp: split_def Let_def frame_simps split: if_splits)
qed

lemma frame_wait_mainck [frameD]: "wait_mainck hw s = Some s' \<Longrightarrow> frame s' = frame s"
proof (induction rule: wait_mainck.raw_induct [rotated 1, consumes 1, case_names step])
  case (step f hw s s')
  then show ?case by (auto simp: split_def Let_def frame_simps split: if_splits)
qed

lemma frame_pll [frameD]:
  "pll_enable_source hw v s = Some s' \<Longrightarrow> frame s' = frame s"
  "select_mainck hw v s = Some s' \<Longrightarrow> frame s' = frame s"
  by (auto simp: pll_enable_source_def select_mainck_def frame_unfold frame_simps
      split: if_splits elim!: bind_SomeE dest!: frameD)

lemma frame_read_hz [frame_simps]:
  "frame (snd (read_mainck_hz hw s)) = frame s" "frame (snd (read_source_hz hw s)) = frame s"
  by (simp_all add: read_mainck_hz_def read_source_hz_def frame_unfold frame_simps)

lemma frame_sysclk [frame_simps]:
  "frame (snd (SystemCoreClockUpdate hw s)) = frame s" "frame (system_init_flash v s) = frame s"
  "frame (sysclk_disable_usb hw s) = frame s"
  by (simp_all add: SystemCoreClockUpdate_def system_init_flash_def sysclk_disable_usb_def
      frame_unfold frame_simps)

lemma frame_sysclk_switch [frameD]: "sysclk_switch hw v s = Some s' \<Longrightarrow> frame s' = frame s"
  by (auto simp: sysclk_switch_def frame_unfold frame_simps split: if_splits elim!: bind_SomeE dest!: frameD)

lemma frame_sysclk_init [frameD]:
  "sysclk_init hw s = Some y \<Longrightarrow> frame (snd y) = frame s"
  "sysclk_enable_usb hw s = Some s' \<Longrightarrow> frame s' = frame s"
  by (auto simp: sysclk_init_def sysclk_enable_usb_def frame_unfold frame_simps elim!: bind_SomeE dest!: frameD)

section \<open>USB controller registers\<close>

lemma frame_bits [frame_simps]:
  "frame (snd (Tst_bits hw r m s)) = frame s" "frame (Set_bits hw r m s) = frame s"
  "frame (Clr_bits hw r m s) = frame s" "frame (Wr_bits hw r m b s) = frame s"
  "frame (snd (Rd_bitfield hw r m k s)) = frame s" "frame (Wr_bitfield hw r m k v s) = frame s"
  by (simp_all add: Tst_bits_def Set_bits_def Clr_bits_def Wr_bits_def Rd_bitfield_def
      Wr_bitfield_def frame_unfold frame_simps)

lemma frame_endpoint [frame_simps]:
  "frame (snd (Is_udd_endpoint_enabled hw ep s)) = frame s"
  "frame (snd (Is_udd_endpoint_stall_requested hw ep s)) = frame s"
  "frame (snd (Is_udd_endpoint_in hw ep s)) = frame s"
  "frame (snd (udd_nb_busy_bank hw ep s)) = frame s"
  "frame (snd (udd_get_endpoint_size hw ep s)) = frame s"
  "frame (udd_enable_endpoint_interrupt hw ep s) = frame s"
  "frame (udd_disable_endpoint_interrupt hw ep s) = frame s"
  "frame (udd_enable_endpoint_bank_autoswitch hw ep s) = frame s"
  "frame (udd_disable_endpoint_bank_autoswitch hw ep s) = frame s"
  "frame (udd_configure_endpoint hw ep t d n b k s) = frame s"
  "frame (udd_configure_endpoint_bank hw ep b s) = frame s"
  by (simp_all add: Is_udd_endpoint_enabled_def Is_udd_endpoint_stall_requested_def
      Is_udd_endpoint_in_def udd_nb_busy_bank_def udd_get_endpoint_size_def
      udd_enable_endpoint_interrupt_def udd_disable_endpoint_interrupt_def
      udd_enable_endpoint_bank_autoswitch_def udd_disable_endpoint_bank_autoswitch_def
      udd_configure_endpoint_def udd_configure_endpoint_bank_def frame_unfold frame_simps)

lemma frame_kill_banks [frameD]: "kill_banks hw ep s = Some s' \<Longrightarrow> frame s' = frame s"
proof (induction rule: kill_banks.raw_induct [rotated 1, consumes 1, case_names step])
  case (step f hw ep s s')
  then show ?case by (auto simp: frame_unfold frame_simps split: if_splits elim!: bind_SomeE dest!: frameD step.IH)
qed

lemma frame_unalloc_eps [frameD]: "unalloc_eps hw ep i a s = Some y \<Longrightarrow> frame (snd y) = frame s"
proof (induction rule: unalloc_eps.raw_induct [rotated 1, consumes 1, case_names step])
  case (step f hw ep i a s y)
  then show ?case by (auto simp: frame_unfold frame_simps split: if_splits)
qed

lemma frame_udd [frame_simps]:
  "frame (udd_enable_periph_ck hw s) = frame s" "frame (udd_disable_periph_ck hw s) = frame s"
  "frame (snd (Is_udd_full_speed_mode hw s)) = frame s" "frame (snd (udd_is_high_speed hw s)) = frame s"
  "frame (udd_set_address hw a s) = frame s" "frame (snd (udd_getaddress hw s)) = frame s"
  "frame (snd (udd_byte_count hw ep s)) = frame s"
  by (simp_all add: udd_enable_periph_ck_def udd_disable_periph_ck_def Is_udd_full_speed_mode_def
      udd_is_high_speed_def udd_set_address_def udd_getaddress_def udd_byte_count_def
      frame_unfold frame_simps)

lemma frame_fifo [frame_simps]:
  "frame (fifo_write a bs s) = frame s" "frame (snd (fifo_read hw a n s)) = frame s"
proof -
  show "frame (fifo_write a bs s) = frame s"
    by (induction bs arbitrary: a s) (simp_all add: frame_simps)
  show "frame (snd (fifo_read hw a n s)) = frame s"
    by (induction n arbitrary: a s) (simp_all add: frame_unfold frame_simps)
qed

lemma frame_test_modes [frame_simps]:
  "frame (udd_test_mode_j hw s) = frame s" "frame (udd_test_mode_k hw s) = frame s"
  "frame (udd_test_mode_se0_nak hw s) = frame s" "frame (udd_test_mode_packet hw s) = frame s"
  by (simp_all add: udd_test_mode_j_def udd_test_mode_k_def udd_test_mode_se0_nak_def
      udd_test_mode_packet_def udd_enable_hs_test_mode_def frame_unfold frame_simps)

end
