(* ===== verification/Firmware.thy ===== *)
theory Firmware
  imports Udd_Ctrl
begin

text \<open>
  The whole program, \<open>main\<close> of \<^verbatim>\<open>src/src/main.c\<close>: the start-up, the main loop, and the two
  interrupt handlers that interrupt the loop at any point. A step of the relation is one
  statement of \<open>main\<close> or one run of a handler, so the reachable states include every
  interleaving of the loop with the interrupts. What the peripherals answer is a parameter that
  may change from step to step.
\<close>

section \<open>Start-up\<close>

definition main_init_board :: "hw \<Rightarrow> 'z usb_scheme \<Rightarrow> 'z usb_scheme option" where
  "main_init_board hw s =
     do {
       let s = instr Cpsie s;
       (_, s) \<leftarrow> sysclk_init hw s;
       let s = get_hwversion hw s;
       let s = read_flash_table hw s;
       s \<leftarrow> init_build_usb_serial_number hw (map (uninit hw s) [0..<4]) s;
       s \<leftarrow> init_hardware hw (ucast (uninit hw s 0)) s;
       let s = wdt_init WDT 0x2000 50 50 s;
       Some (cpu_delay_us 100 s)
     }"

definition main_init_usb :: "hw \<Rightarrow> 'z usb_scheme \<Rightarrow> 'z usb_scheme option" where
  "main_init_usb hw s =
     do {
       let s = udd_detach hw s;
       s \<leftarrow> udc_stop hw s;
       s \<leftarrow> udc_start hw s;
       let s = cpu_delay_us 10 s;
       Some (udd_attach hw s)
     }"

definition main_init :: "hw \<Rightarrow> 'z usb_scheme \<Rightarrow> 'z usb_scheme option" where
  "main_init hw s = do { s \<leftarrow> main_init_board hw s; main_init_usb hw s }"

section \<open>The rest of \<open>main\<close>\<close>

text \<open>
  After \<open>udc_attach\<close> the interrupts are on. \<open>pc\<close> says where \<open>main\<close> is: at one of the four
  statements that set the outputs to their defaults, at one of the three tests of the loop, or
  before one of the statements of a branch taken.
\<close>

datatype pc = Dac_a | Dac_b | Pot_a | Pot_b
  | Test_in | Clear_in | Mark_in | Run_in | Test_out | Clear_out | Mark_out | Run_out | Watchdog

definition main_pots :: "hw \<Rightarrow> u32 \<Rightarrow> 'z mach_scheme \<Rightarrow> 'z mach_scheme option" where
  "main_pots hw ch s =
     write_ad5122 hw 0 ch (ucast (def_data ! p1_simv)) (ucast (def_data ! p2_simv)) (cpu_delay_us 100 s)"

definition main_step :: "hw \<Rightarrow> pc \<Rightarrow> 'z usb_scheme \<Rightarrow> (pc \<times> 'z usb_scheme) option" where
  "main_step hw p s =
     (case p of
        Dac_a \<Rightarrow> map_option (Pair Dac_b) (write_ad5663 hw 0 (SWAP16 (def_data ! i0_dac)) s)
      | Dac_b \<Rightarrow> map_option (Pair Pot_a) (write_ad5663 hw 1 (SWAP16 (def_data ! i0_dac)) s)
      | Pot_a \<Rightarrow> map_option (Pair Pot_b) (main_pots hw 0 s)
      | Pot_b \<Rightarrow> map_option (\<lambda>s. (Test_in, cpu_delay_us 100 s)) (main_pots hw 1 s)
      | Test_in \<Rightarrow> Some (if \<not> sending_in s \<and> send_in s then Clear_in else Test_out, s)
      | Clear_in \<Rightarrow> Some (Mark_in, s\<lparr>send_in := False\<rparr>)
      | Mark_in \<Rightarrow> Some (Run_in, s\<lparr>sending_in := True\<rparr>)
      | Run_in \<Rightarrow>
          Some (Test_out, snd (udi_vendor_bulk_in_run hw (packets_in_at (packet_index_send_in s) 0) 2048
                                 CB_bulk_in_received s))
      | Test_out \<Rightarrow> Some (if \<not> sending_out s \<and> send_out s then Clear_out else Watchdog, s)
      | Clear_out \<Rightarrow> Some (Mark_out, s\<lparr>send_out := False\<rparr>)
      | Mark_out \<Rightarrow> Some (Run_out, s\<lparr>sending_out := True\<rparr>)
      | Run_out \<Rightarrow>
          Some (Watchdog, snd (udi_vendor_bulk_out_run hw (packets_out_at (packet_index_send_out s) 0) 1024
                                 CB_bulk_out_received s))
      | Watchdog \<Rightarrow> Some (Test_in, if \<not> reset s then wdt_restart WDT s else udd_detach hw s))"

section \<open>Steps and reachable states\<close>

inductive fw_step :: "pc \<times> 'z usb_scheme \<Rightarrow> pc \<times> 'z usb_scheme \<Rightarrow> bool" where
  main: "main_step hw p s = Some c \<Longrightarrow> fw_step (p, s) c"
| timer: "fw_step (p, s) (p, TC2_Handler hw s)"
| usb: "UDPHS_Handler hw s = Some s' \<Longrightarrow> fw_step (p, s) (p, s')"

inductive_cases fw_stepE: "fw_step c c'"
inductive_simps fw_step_simps: "fw_step (p, s) (p', s')"

inductive reachable :: "u8 list \<Rightarrow> pc \<times> usb \<Rightarrow> bool" for fw where
  start: "main_init hw (usb_init fw) = Some s \<Longrightarrow> reachable fw (Dac_a, s)"
| step: "reachable fw c \<Longrightarrow> fw_step c c' \<Longrightarrow> reachable fw c'"

end
