(* ===== verification/Safety.thy ===== *)
theory Safety
  imports Frame Firmware
begin

text \<open>
  Memory safety of the whole program. The invariant \<open>fw_inv\<close> bounds the buffer numbers, the
  lengths of the arrays and the jobs of the bulk endpoints, and says that every pointer ever
  handed to a DMA channel lies inside an object of the program. Each operation of the
  application and of the USB stack is shown to keep it, and so it holds in every reachable
  state, for every behaviour of the peripherals and of the host.
\<close>

named_theorems inv_intros "operations that keep the invariant"

section \<open>The invariant\<close>

definition ptr_ok :: "periph \<times> nat \<times> ptr \<Rightarrow> bool" where
  "ptr_ok e \<longleftrightarrow>
     (case e of (p, r, b, i) \<Rightarrow>
        (\<exists>bs. b = O_stack bs) \<and> p \<noteq> UDPHS \<or>
        i < obj_size b \<and>
        (p = UDPHS \<longrightarrow> r = DMA 1 DMAADDR \<and> b = O_packets_in \<or> r = DMA 2 DMAADDR \<and> b = O_packets_out))"

text \<open>A transfer in progress stays inside its buffer, and has some part of it loaded.\<close>

definition job_fits :: "obj \<Rightarrow> udd_ep_job_t \<Rightarrow> bool" where
  "job_fits b j \<longleftrightarrow> fst (buf j) = b \<and> snd (buf j) + unat (buf_size j) \<le> obj_size b \<and>
     buf_cnt j \<le> buf_size j \<and> buf_load j \<le> buf_cnt j"

definition job_safe :: "obj \<Rightarrow> udd_ep_job_t \<Rightarrow> bool" where
  "job_safe b j \<longleftrightarrow> \<not> b_shortpacket j \<and> (busy j \<longrightarrow> job_fits b j \<and> buf_load j \<noteq> 0)"

definition jobs_ok :: "udd_ep_job_t list \<Rightarrow> bool" where
  "jobs_ok js \<longleftrightarrow>
     (\<exists>j1 j2. js = [j1, j2] \<and> job_safe O_packets_in j1 \<and> job_safe O_packets_out j2)"

definition arrays_ok :: "'z usb_scheme \<Rightarrow> bool" where
  "arrays_ok s \<longleftrightarrow> length (hwversion s) = 2 \<and> length (flash_table s) = 256 \<and>
     length (serial_number s) = 33 \<and> length (ret_data s) = 64 \<and>
     length (udc_string_desc s) = 68 \<and> length (extra_strings_desc s) = 20 \<and>
     length (msft_compatible s) = 40"

definition fw_inv :: "'z usb_scheme \<Rightarrow> bool" where
  "fw_inv s \<longleftrightarrow> arrays_ok s \<and> idx_ok s \<and> jobs_ok (udd_ep_job s) \<and>
     udc_num_configuration s \<le> 1 \<and> udi_vendor_alternate_setting s \<le> 1 \<and>
     conf_fs_type s \<in> {2, 7} \<and> conf_hs_type s \<in> {2, 7} \<and>
     list_all ptr_ok (pointers (trace s))"

lemma frame_fields:
  assumes "frame s = frame t"
  shows "s = t\<lparr>trace := trace s\<rparr>" and "pointers (trace s) = pointers (trace t)"
  using assms by (cases s, cases t, simp add: frame_def)+

lemma fw_inv_frame: "frame s = frame t \<Longrightarrow> fw_inv s = fw_inv t"
proof -
  assume f: "frame s = frame t"
  have "fw_inv (t\<lparr>trace := trace s\<rparr>) = fw_inv t"
    using frame_fields(2) [OF f] by (simp add: fw_inv_def arrays_ok_def idx_ok_def)
  then show ?thesis using frame_fields(1) [OF f] by simp
qed

lemmas inv_simps = frame_simps [THEN fw_inv_frame]
lemmas invD = frameD [THEN fw_inv_frame]

text \<open>The same for single variables.\<close>

lemma var_frame:
  fixes s t :: "'z usb_scheme"
  assumes "frame s = frame t"
  shows "req s = req t" "udd_ep_job s = udd_ep_job t" "callback s = callback t"
    "payload s = payload t" "payload_size s = payload_size t" "packet_index_send_out s = packet_index_send_out t"
    "udc_num_configuration s = udc_num_configuration t" "flash_table s = flash_table t"
    "udi_vendor_alternate_setting s = udi_vendor_alternate_setting t"
    "udc_ptr_iface s = udc_ptr_iface t" "conf_desc s = conf_desc t"
proof -
  obtain x where s: "s = t\<lparr>trace := x\<rparr>" using frame_fields(1) [OF assms] by blast
  show "req s = req t" "udd_ep_job s = udd_ep_job t" "callback s = callback t"
    "payload s = payload t" "payload_size s = payload_size t" "packet_index_send_out s = packet_index_send_out t"
    "udc_num_configuration s = udc_num_configuration t" "flash_table s = flash_table t"
    "udi_vendor_alternate_setting s = udi_vendor_alternate_setting t"
    "udc_ptr_iface s = udc_ptr_iface t" "conf_desc s = conf_desc t"
    by (simp_all add: s conf_desc_def udc_desc_fs_def udc_desc_hs_def split: usb_speed.split)
qed

lemmas job_simps = frame_simps [THEN var_frame(2)]

section \<open>Jobs\<close>

lemma u8_1_2: "job_ok ep \<longleftrightarrow> ep = 1 \<or> ep = 2"
proof
  assume "job_ok ep"
  then have "1 \<le> unat ep \<and> unat ep \<le> 2" by (simp add: job_ok_def word_le_nat_alt)
  then have "unat ep = 1 \<or> unat ep = 2" by linarith
  then show "ep = 1 \<or> ep = 2" by (auto simp: word_unat_eq_iff)
qed (auto simp: job_ok_def)

lemma jobs_okE:
  assumes "jobs_ok js" obtains j1 j2 where "js = [j1, j2]" "job_safe O_packets_in j1" "job_safe O_packets_out j2"
  using assms by (auto simp: jobs_ok_def)

lemma jobs_update:
  "jobs_ok js \<Longrightarrow> job_ok ep \<Longrightarrow> (\<And>b j. job_safe b j \<Longrightarrow> job_safe b (f j)) \<Longrightarrow>
     jobs_ok (js[unat ep - 1 := f (js ! (unat ep - 1))])"
  by (auto simp: u8_1_2 jobs_ok_def)

lemma fw_inv_jobs: "fw_inv s \<Longrightarrow> jobs_ok (g (udd_ep_job s)) \<Longrightarrow> fw_inv (udd_ep_job_update g s)"
  by (simp add: fw_inv_def arrays_ok_def idx_ok_def)

lemma inv_upd_job:
  assumes "fw_inv s" and "\<And>b j. job_safe b j \<Longrightarrow> job_safe b (f j)"
  shows "fw_inv (upd_job ep f s)"
proof (cases "job_ok ep")
  case True
  have "jobs_ok (udd_ep_job s)" using assms(1) by (simp add: fw_inv_def)
  then show ?thesis using True assms
    unfolding upd_job_def by (simp only: if_True) (intro fw_inv_jobs jobs_update)
qed (use assms in \<open>simp add: upd_job_def inv_simps\<close>)

lemma inv_get_job [simp]: "fw_inv (snd (get_job ep s)) = fw_inv s"
  by (simp add: get_job_def inv_simps)

lemma inv_callbacks:
  "fw_inv (main_vendor_bulk_in_received st s) = fw_inv s"
  "fw_inv (main_vendor_bulk_out_received st s) = fw_inv s"
  "fw_inv (main_vendor_bulk_out_received_first st s) = fw_inv s"
  by (simp_all add: main_vendor_bulk_in_received_def main_vendor_bulk_out_received_def
      main_vendor_bulk_out_received_first_def Let_def fw_inv_def arrays_ok_def idx_ok_def)

lemma inv_run_callback [simp]: "fw_inv (run_callback cb st s) = fw_inv s"
  by (cases cb) (simp_all add: run_callback_def inv_callbacks inv_simps)

lemma job_safe_idle: "job_safe b j \<Longrightarrow> job_safe b (j\<lparr>busy := False\<rparr>)"
  by (simp add: job_safe_def)

lemma inv_finish_job: "fw_inv s \<Longrightarrow> fw_inv (udd_ep_finish_job hw ep ab s)"
  by (auto simp: udd_ep_finish_job_def Let_def split_def inv_simps intro!: inv_upd_job job_safe_idle)

lemma inv_job_table:
  "fw_inv s \<Longrightarrow> fw_inv (udd_ep_job_table_kill hw s)" "fw_inv s \<Longrightarrow> fw_inv (udd_ep_abort_job hw ep s)"
  "fw_inv s \<Longrightarrow> fw_inv (udd_ep_job_table_reset s)"
proof -
  show "fw_inv s \<Longrightarrow> fw_inv (udd_ep_job_table_kill hw s)" "fw_inv s \<Longrightarrow> fw_inv (udd_ep_abort_job hw ep s)"
    by (simp_all add: udd_ep_job_table_kill_def udd_ep_abort_job_def inv_finish_job)
  show "fw_inv (udd_ep_job_table_reset s)" if "fw_inv s"
  proof -
    have "jobs_ok (udd_ep_job s)" using that by (simp add: fw_inv_def)
    then have "jobs_ok (map (\<lambda>j. j\<lparr>busy := False, stall_requested := False\<rparr>) (udd_ep_job s))"
      by (auto simp: jobs_ok_def job_safe_def)
    then show ?thesis using that by (simp add: udd_ep_job_table_reset_def fw_inv_jobs)
  qed
qed


text \<open>
  Starting and continuing a transfer. Between these steps the job of the endpoint may have
  nothing loaded yet, so the invariant is stated without that job: \<open>inv_but ep s j\<close> is the
  invariant with the job of \<open>ep\<close> left open, and \<open>j\<close> is that job.
\<close>

definition job_obj :: "u8 \<Rightarrow> obj" where
  "job_obj ep = (if ep = 1 then O_packets_in else O_packets_out)"

definition inv_but :: "u8 \<Rightarrow> udd_ep_job_t \<Rightarrow> 'z usb_scheme \<Rightarrow> bool" where
  "inv_but ep j s \<longleftrightarrow> job_ok ep \<and> fw_inv (upd_job ep (busy_update (\<lambda>_. False)) s) \<and>
     get_job ep s = (j, s)"

lemma fw_inv_cases: "fw_inv s \<longleftrightarrow> fw_inv (s\<lparr>udd_ep_job := [job0, job0]\<rparr>) \<and> jobs_ok (udd_ep_job s)"
  by (auto simp: fw_inv_def arrays_ok_def idx_ok_def jobs_ok_def job_safe_def job0_def)

lemma inv_but_iff:
  "inv_but ep j s \<longleftrightarrow> job_ok ep \<and> fw_inv (s\<lparr>udd_ep_job := [job0, job0]\<rparr>) \<and> \<not> b_shortpacket j \<and>
     (\<exists>k. if ep = 1 then udd_ep_job s = [j, k] \<and> job_safe O_packets_out k
          else udd_ep_job s = [k, j] \<and> job_safe O_packets_in k)"
proof (cases "job_ok ep")
  case True
  then have "ep = 1 \<or> ep = 2" by (simp add: u8_1_2)
  then show ?thesis
    using fw_inv_cases [of "upd_job ep (busy_update (\<lambda>_. False)) s"] True
    by (cases "udd_ep_job s"; cases "tl (udd_ep_job s)")
       (auto simp: inv_but_def upd_job_def get_job_def jobs_ok_def job_safe_def)
qed (simp add: inv_but_def)

lemma inv_but_safe: "inv_but ep j s \<Longrightarrow> job_safe (job_obj ep) j \<Longrightarrow> fw_inv s"
  by (auto simp: inv_but_iff fw_inv_cases [of s] jobs_ok_def job_obj_def split: if_splits)

lemma inv_but_of: "fw_inv s \<Longrightarrow> job_ok ep \<Longrightarrow> inv_but ep (fst (get_job ep s)) s \<and> job_safe (job_obj ep) (fst (get_job ep s))"
  by (auto simp: inv_but_iff fw_inv_cases [of s] u8_1_2 jobs_ok_def job_obj_def get_job_def job_safe_def)

lemma inv_but_upd: "inv_but ep j s \<Longrightarrow> \<not> b_shortpacket (f j) \<Longrightarrow> inv_but ep (f j) (upd_job ep f s)"
  by (auto simp: inv_but_iff upd_job_def u8_1_2)

lemma inv_but_frame: "frame s = frame t \<Longrightarrow> inv_but ep j s = inv_but ep j t"
proof -
  assume f: "frame s = frame t"
  then obtain x where "s = t\<lparr>trace := x\<rparr>" "pointers x = pointers (trace t)"
    using frame_fields [OF f] by (metis mach.select_convs(1) mach.surjective mach.update_convs(1))
  then show ?thesis by (simp add: inv_but_iff fw_inv_def arrays_ok_def idx_ok_def)
qed

lemmas but_simps = frame_simps [THEN inv_but_frame]


lemma inv_butD:
  assumes "inv_but ep j s"
  shows "get_job ep s = (j, s)" "\<not> b_shortpacket j" "ep = 1 \<or> ep = 2"
  using assms by (simp add: inv_but_def, simp add: inv_but_iff, simp add: inv_but_def u8_1_2)

lemma inv_but_idle: "inv_but ep j s \<Longrightarrow> \<not> busy j \<Longrightarrow> fw_inv s"
  by (rule inv_but_safe) (auto simp: inv_but_iff job_safe_def)

lemma inv_but_finish: "inv_but ep j s \<Longrightarrow> fw_inv (udd_ep_finish_job hw ep ab s)"
  by (cases "busy j")
    (auto simp: udd_ep_finish_job_def inv_but_def Let_def split_def inv_simps
      intro: inv_but_idle [of ep j s, unfolded inv_but_def])

lemma inv_but_trans_end:
  assumes "inv_but ep j s"
  shows "fw_inv (trans_end hw ep s)"
proof -
  let ?t = "snd (Is_udd_endpoint_in hw ep s)"
  have b: "inv_but ep j ?t" using assms by (simp add: but_simps)
  then show ?thesis using inv_but_finish [OF b] inv_butD [OF b] by (simp add: trans_end_def Let_def split_def)
qed

lemma inv_but_dma_ctrl:
  fixes s :: "'z usb_scheme"
  assumes "inv_but ep j s"
  shows "inv_but ep j (snd (dma_ctrl hw ep s))"
proof -
  note g = inv_butD(1) [OF assms] and n = inv_butD(2) [OF assms]
  have e: "j\<lparr>b_shortpacket := False\<rparr> = j" using n by (cases j) simp
  have "inv_but ep j (upd_job ep (b_shortpacket_update (\<lambda>_. False)) t)" if "inv_but ep j t" for t :: "'z usb_scheme"
    using inv_but_upd [OF that, of "b_shortpacket_update (\<lambda>_. False)", unfolded e] n by blast
  then show ?thesis using assms by (simp add: dma_ctrl_def Let_def split_def g but_simps)
qed

lemma inv_but_wrp:
  assumes "inv_but ep j s" and "ptr_ok (p, r, a)"
  shows "inv_but ep j (wrp p r a s)"
  using assms by (auto simp: inv_but_iff fw_inv_def arrays_ok_def idx_ok_def wrp_def)

lemma next_trans_bounds:
  assumes "buf_cnt j < buf_size j"
  shows "next_trans j \<noteq> 0" "buf_cnt j + next_trans j \<le> buf_size j"
    "next_trans j \<le> buf_cnt j + next_trans j"
proof -
  let ?d = "buf_size j - buf_cnt j"
  have d: "unat ?d = unat (buf_size j) - unat (buf_cnt j)" "unat (buf_cnt j) < unat (buf_size j)"
    using assms by (simp_all add: unat_sub word_less_nat_alt less_imp_le)
  have n: "unat (next_trans j) \<le> unat ?d" by (simp add: next_trans_def word_le_nat_alt [symmetric])
  have "unat (buf_size j) < 2 ^ 32" using unsigned_less [of "buf_size j"] by simp
  then have s: "unat (buf_cnt j + next_trans j) = unat (buf_cnt j) + unat (next_trans j)"
    using n d by (simp add: unat_word_ariths)
  show "next_trans j \<noteq> 0"
    using d by (auto simp: next_trans_def min_def word_unat_eq_iff)
  show "buf_cnt j + next_trans j \<le> buf_size j" "next_trans j \<le> buf_cnt j + next_trans j"
    using n d s by (simp_all add: word_le_nat_alt)
qed

lemma dma_start_inv:
  assumes "inv_but ep j s" and "job_fits (job_obj ep) j" and "buf_cnt j \<noteq> buf_size j"
  shows "if fst (dma_start hw ep s) then fw_inv (snd (dma_start hw ep s))
         else inv_but ep j (snd (dma_start hw ep s))"
proof -
  have lt: "buf_cnt j < buf_size j" using assms by (simp add: job_fits_def order_less_le)
  note nb = next_trans_bounds [OF lt]
  note g = inv_butD(1) [OF assms(1)] and sp = inv_butD(2) [OF assms(1)] and ok = inv_butD(3) [OF assms(1)]
  let ?a = "(fst (buf j), snd (buf j) + unat (buf_cnt j))"
  have "ptr_ok (UDPHS, DMA ep DMAADDR, ?a)"
    using assms(2) lt ok by (auto simp: ptr_ok_def job_fits_def job_obj_def word_less_nat_alt)
  then have b: "inv_but ep j (wrp UDPHS (DMA ep DMAADDR) ?a (snd (dma_ctrl hw ep s)))"
    using inv_but_dma_ctrl [OF assms(1)] by (rule inv_but_wrp [rotated])
  let ?f = "\<lambda>k. k\<lparr>buf_cnt := buf_cnt k + next_trans j, buf_load := next_trans j\<rparr>"
  have "job_safe (job_obj ep) (?f j)"
    using assms(2) nb sp by (simp add: job_safe_def job_fits_def)
  then have f: "fw_inv (upd_job ep ?f t)" if "inv_but ep j t" for t
    using inv_but_safe [OF inv_but_upd [OF that, of ?f]] sp by simp
  show ?thesis using b
    by (simp add: dma_start_def Let_def split_def g inv_simps but_simps) (intro impI f, simp add: but_simps)
qed

lemma inv_but_trans_done:
  assumes "inv_but ep j s" and "busy j \<Longrightarrow> buf_cnt j = buf_size j \<or> job_fits (job_obj ep) j"
  shows "fw_inv (udd_ep_trans_done hw ep s)"
proof -
  note g = inv_butD(1) [OF assms(1)] and sp = inv_butD(2) [OF assms(1)]
  consider "\<not> busy j" | "busy j" "buf_cnt j = buf_size j" | "busy j" "buf_cnt j \<noteq> buf_size j" by blast
  then show ?thesis
  proof cases
    case 1
    then show ?thesis using inv_but_idle [OF assms(1)] by (simp add: udd_ep_trans_done_def g)
  next
    case 2
    then show ?thesis using inv_but_trans_end [OF assms(1)] by (simp add: udd_ep_trans_done_def g)
  next
    case 3
    let ?f = "\<lambda>k. k\<lparr>buf_size := buf_cnt k\<rparr>"
    have "fw_inv (trans_end hw ep (upd_job ep ?f t))" if "inv_but ep j t" for t
      using inv_but_trans_end [OF inv_but_upd [OF that, of ?f]] sp by simp
    then show ?thesis using 3 dma_start_inv [OF assms(1), of hw] assms(2)
      by (simp add: udd_ep_trans_done_def g split_def Let_def split: if_splits)
  qed
qed

lemma inv_trans_done:
  assumes "fw_inv s"
  shows "fw_inv (udd_ep_trans_done hw ep s)"
proof (cases "job_ok ep")
  case True
  let ?j = "fst (get_job ep s)"
  have "inv_but ep ?j s" "job_safe (job_obj ep) ?j" using inv_but_of [OF assms True] by simp_all
  then show ?thesis by (intro inv_but_trans_done [of ep ?j s]) (simp_all add: job_safe_def)
qed (use assms in \<open>simp add: udd_ep_trans_done_def get_job_def job0_def inv_simps\<close>)


lemma udd_ep_run_inv:
  fixes s :: "'z usb_scheme"
  assumes "fw_inv s" and "fst b = job_obj (ep AND 0xF)" and "snd b + unat sz \<le> obj_size (fst b)" and "sz \<noteq> 0"
  shows "fw_inv (snd (udd_ep_run hw ep False b sz cb s))"
proof -
  let ?ep = "ep AND 0xF"
  let ?f = "\<lambda>k. k\<lparr>busy := True, buf := b, buf_size := sz, buf_cnt := 0, buf_load := 0,
                   call_trans := cb, b_shortpacket := False \<or> sz = 0\<rparr>"
  have "fw_inv (udd_ep_trans_done hw ?ep (upd_job ?ep ?f t))" if "fw_inv t" for t :: "'z usb_scheme"
  proof (cases "job_ok ?ep")
    case True
    have "inv_but ?ep (?f (fst (get_job ?ep t))) (upd_job ?ep ?f t)"
      using inv_but_of [OF that True] assms(4) by (intro inv_but_upd) simp_all
    then show ?thesis
      by (rule inv_but_trans_done) (use assms in \<open>simp add: job_fits_def\<close>)
  qed (use that in \<open>simp add: upd_job_def inv_simps inv_trans_done\<close>)
  then show ?thesis using assms(1) by (simp add: udd_ep_run_def Let_def split_def inv_simps)
qed

lemma bulk_run_inv:
  assumes "fw_inv s"
  shows "i \<le> 1 \<Longrightarrow> fw_inv (snd (udi_vendor_bulk_in_run hw (packets_in_at i 0) 2048 cb s))"
    and "i \<le> 1 \<Longrightarrow> fw_inv (snd (udi_vendor_bulk_out_run hw (packets_out_at i 0) 1024 cb s))"
  using assms
  by (simp_all add: udi_vendor_bulk_in_run_def udi_vendor_bulk_out_run_def packets_in_at_def
      packets_out_at_def udd_ep_run_inv job_obj_def word_le_nat_alt)


section \<open>Endpoint operations\<close>

lemma job_safe_stall: "job_safe b j \<Longrightarrow> job_safe b (stall_requested_update f j)"
  by (simp add: job_safe_def job_fits_def)

lemma inv_stall [simp]: "fw_inv s \<Longrightarrow> fw_inv (upd_job ep (stall_requested_update f) s)"
  by (intro inv_upd_job job_safe_stall)

lemma inv_idle [simp]: "fw_inv s \<Longrightarrow> fw_inv (upd_job ep (busy_update (\<lambda>_. False)) s)"
  by (intro inv_upd_job job_safe_idle)

lemma inv_abort: "udd_ep_abort hw ep s = Some s' \<Longrightarrow> fw_inv s \<Longrightarrow> fw_inv s'"
  by (auto simp: udd_ep_abort_def Let_def inv_simps intro!: inv_job_table elim!: bind_SomeE
      split: if_splits dest!: invD)

lemma inv_halt:
  assumes "fw_inv s"
  shows "fw_inv (snd (udd_ep_is_halted hw ep s))" "fw_inv (snd (udd_ep_set_halt hw ep s))"
    "fw_inv (snd (udd_ep_clear_halt hw ep s))"
  using assms
  by (simp_all add: udd_ep_is_halted_def udd_ep_set_halt_def udd_ep_clear_halt_def
      clear_stall_request_def clear_stall_def Let_def split_def inv_simps)

lemma inv_free: "fw_inv s \<Longrightarrow> fw_inv (udd_ep_free hw ep s)"
  by (simp add: udd_ep_free_def Let_def inv_simps inv_job_table)

lemma realloc_run_inv:
  assumes "fw_inv s" and "job_safe b j" and "busy j" and "b = job_obj (i AND 0xF)"
  shows "fw_inv (snd (udd_ep_run hw i (b_shortpacket j)
     (fst (buf j), snd (buf j) + unat (buf_cnt j - buf_load j)) (buf_size j - (buf_cnt j - buf_load j))
     cb s))"
proof -
  have f: "fst (buf j) = b" "snd (buf j) + unat (buf_size j) \<le> obj_size b"
    "unat (buf_cnt j) \<le> unat (buf_size j)" "unat (buf_load j) \<le> unat (buf_cnt j)" "unat (buf_load j) \<noteq> 0"
    and sp: "b_shortpacket j = False"
    using assms(2,3) by (simp_all add: job_safe_def job_fits_def word_le_nat_alt unat_eq_0)
  have c: "unat (buf_cnt j - buf_load j) = unat (buf_cnt j) - unat (buf_load j)"
    using f by (simp add: unat_sub word_le_nat_alt)
  have d: "unat (buf_size j - (buf_cnt j - buf_load j)) = unat (buf_size j) - (unat (buf_cnt j) - unat (buf_load j))"
    using f c by (simp add: unat_sub word_le_nat_alt)
  have "buf_size j - (buf_cnt j - buf_load j) \<noteq> 0" using f c d by (auto simp: unat_eq_0 [symmetric])
  then show ?thesis unfolding sp using f c d assms by (intro udd_ep_run_inv) simp_all
qed

lemma upd_job_frame: "frame s = frame t \<Longrightarrow> fw_inv (upd_job ep f s) = fw_inv (upd_job ep f t)"
proof -
  assume f: "frame s = frame t"
  have "frame (upd_job ep f s) = frame (upd_job ep f t)"
    using frame_fields [OF f] by (cases s; cases t) (simp add: upd_job_def oob_def frame_def)
  then show ?thesis by (rule fw_inv_frame)
qed

lemmas upd_simps = frame_simps [THEN upd_job_frame]

lemma upd_job_eq:
  "job_ok ep \<Longrightarrow> upd_job ep f s =
     s\<lparr>udd_ep_job := (udd_ep_job s)[unat ep - 1 := f (udd_ep_job s ! (unat ep - 1))]\<rparr>"
  by (cases s) (simp add: upd_job_def)

lemma upd_job_twice:
  assumes "length (udd_ep_job s) = 2"
  shows "fw_inv (upd_job ep f (upd_job ep g s)) = fw_inv (upd_job ep (\<lambda>j. f (g j)) s)"
proof (cases "job_ok ep")
  case True
  then have "unat ep - 1 < length (udd_ep_job s)" using assms by (auto simp: u8_1_2)
  then have "upd_job ep f (upd_job ep g s) = upd_job ep (\<lambda>j. f (g j)) s"
    using True by (simp add: upd_job_eq)
  then show ?thesis by simp
qed (simp add: upd_job_def inv_simps)

lemma inv_idle_then:
  assumes "fw_inv s" and "\<And>j. b_shortpacket (f j) = b_shortpacket j" and "\<And>j. busy (f j) = busy j"
  shows "fw_inv (upd_job ep f (upd_job ep (busy_update (\<lambda>_. False)) s))"
proof -
  have "length (udd_ep_job s) = 2" using assms(1) by (auto simp: fw_inv_def jobs_ok_def)
  moreover have "fw_inv (upd_job ep (\<lambda>j. f (j\<lparr>busy := False\<rparr>)) s)"
    using assms by (intro inv_upd_job) (simp_all add: job_safe_def)
  ultimately show ?thesis by (simp add: upd_job_twice)
qed

lemma inv_realloc_ep:
  assumes "fw_inv s"
  shows "fw_inv (snd (realloc_ep hw a i s))"
proof -
  let ?j = "fst (get_job i s)"
  let ?c = "buf_cnt ?j - buf_load ?j"
  have j: "job_safe (job_obj (i AND 0xF)) ?j" if "busy ?j"
  proof -
    have "job_ok i" using that by (cases "job_ok i") (simp_all add: get_job_def job0_def)
    then show ?thesis using inv_but_of [OF assms, of i] by (auto simp: u8_1_2)
  qed
  have r: "fw_inv (snd (udd_ep_run hw i (b_shortpacket ?j) (fst (buf ?j), snd (buf ?j) + unat ?c)
      (buf_size ?j - ?c) cb t))" if "fw_inv t" "busy ?j" for cb and t :: "'a usb_scheme"
    using realloc_run_inv [OF that(1) j [OF that(2)] that(2) refl] .
  show ?thesis
    using assms
    by (auto simp: realloc_ep_def Let_def split_def inv_simps upd_simps intro!: r inv_idle_then)
qed


lemma inv_realloc_eps: "fw_inv s \<Longrightarrow> fw_inv (snd (realloc_eps hw a is s))"
proof (induction "is" arbitrary: s)
  case (Cons i "is")
  then show ?case using inv_realloc_ep [OF Cons.prems, of hw a i]
    by (auto split: prod.split option.split)
qed simp

lemma inv_alloc: "udd_ep_alloc hw ep att mx s = Some y \<Longrightarrow> fw_inv s \<Longrightarrow> fw_inv (snd y)"
  by (auto simp: udd_ep_alloc_def Let_def split_def inv_simps elim!: bind_SomeE
      split: if_splits option.splits intro!: inv_realloc_eps dest!: invD)

lemma inv_dma_interrupt:
  assumes "fw_inv s"
  shows "fw_inv (dma_interrupt hw ep s)"
proof (cases "job_ok ep")
  case True
  let ?f = "\<lambda>r k. k\<lparr>buf_cnt := buf_cnt k - r, buf_size := buf_cnt k - r\<rparr>"
  have "fw_inv (udd_ep_trans_done hw ep (upd_job ep (?f r) t))" if t: "fw_inv t" for r and t :: "'a usb_scheme"
  proof (rule inv_but_trans_done)
    show "inv_but ep (?f r (fst (get_job ep t))) (upd_job ep (?f r) t)"
      using inv_but_of [OF t True] by (intro inv_but_upd) (simp_all add: job_safe_def)
  qed simp
  then show ?thesis using assms
    by (auto simp: dma_interrupt_def Let_def split_def inv_simps inv_trans_done)
qed (use assms in \<open>simp add: dma_interrupt_def Let_def split_def inv_simps inv_trans_done upd_job_def\<close>)

lemma inv_ep_events: "fw_inv s \<Longrightarrow> fw_inv (snd (ep_events hw ep s))"
  by (simp add: ep_events_def Let_def split_def inv_simps inv_dma_interrupt inv_finish_job)

lemma inv_ep_interrupt: "fw_inv s \<Longrightarrow> fw_inv (snd (udd_ep_interrupt hw s))"
  by (simp add: udd_ep_interrupt_def Let_def split_def inv_ep_events)


section \<open>Variables\<close>

text \<open>Variables that the invariant does not mention, and arrays whose length stays.\<close>

lemma inv_vars [simp]:
  "fw_inv (ma_update f0 s) = fw_inv s" "fw_inv (mb_update f1 s) = fw_inv s"
  "fw_inv (not_a_new_transfer_update f2 s) = fw_inv s" "fw_inv (v1_adc_conf_update f3 s) = fw_inv s"
  "fw_inv (i1_adc_conf_update f4 s) = fw_inv s" "fw_inv (v2_adc_conf_update f5 s) = fw_inv s"
  "fw_inv (i2_adc_conf_update f6 s) = fw_inv s" "fw_inv (da_update f7 s) = fw_inv s"
  "fw_inv (db_update f8 s) = fw_inv s" "fw_inv (frame_number_update f9 s) = fw_inv s"
  "fw_inv (slot_offset_in_update f10 s) = fw_inv s" "fw_inv (slot_offset_out_update f11 s) = fw_inv s"
  "fw_inv (start_frame_update f12 s) = fw_inv s" "fw_inv (send_in_update f13 s) = fw_inv s"
  "fw_inv (send_out_update f14 s) = fw_inv s" "fw_inv (sending_in_update f15 s) = fw_inv s"
  "fw_inv (sending_out_update f16 s) = fw_inv s" "fw_inv (sent_in_update f17 s) = fw_inv s"
  "fw_inv (sent_out_update f18 s) = fw_inv s" "fw_inv (current_chan_update f19 s) = fw_inv s"
  "fw_inv (reset_update f20 s) = fw_inv s" "fw_inv (main_b_vendor_enable_update f21 s) = fw_inv s"
  "fw_inv (start_timer_update f22 s) = fw_inv s" "fw_inv (req_update f23 s) = fw_inv s"
  "fw_inv (payload_update f24 s) = fw_inv s" "fw_inv (payload_size_update f25 s) = fw_inv s"
  "fw_inv (callback_update f26 s) = fw_inv s" "fw_inv (over_under_run_update f27 s) = fw_inv s"
  "fw_inv (udd_ep_control_state_update f28 s) = fw_inv s" "fw_inv (udd_ctrl_prev_payload_buf_cnt_update f29 s) = fw_inv s"
  "fw_inv (udd_ctrl_payload_buf_cnt_update f30 s) = fw_inv s" "fw_inv (in_sent_shortpacket_update f31 s) = fw_inv s"
  "fw_inv (udd_b_idle_update f32 s) = fw_inv s" "fw_inv (udc_device_status_update f33 s) = fw_inv s"
  "fw_inv (udc_ep_status_update f34 s) = fw_inv s" "fw_inv (udc_ptr_conf_update f35 s) = fw_inv s"
  "fw_inv (udc_ptr_iface_update f36 s) = fw_inv s" "fw_inv (udc_iface_setting_update f37 s) = fw_inv s"
  by (simp_all add: fw_inv_def arrays_ok_def idx_ok_def)

lemma inv_arrays:
  assumes "fw_inv s"
  shows "length (f1 (flash_table s)) = 256 \<Longrightarrow> fw_inv (flash_table_update f1 s)"
    "length (f2 (ret_data s)) = 64 \<Longrightarrow> fw_inv (ret_data_update f2 s)"
    "length (f3 (hwversion s)) = 2 \<Longrightarrow> fw_inv (hwversion_update f3 s)"
    "length (f4 (serial_number s)) = 33 \<Longrightarrow> fw_inv (serial_number_update f4 s)"
    "length (f5 (udc_string_desc s)) = 68 \<Longrightarrow> fw_inv (udc_string_desc_update f5 s)"
    "length (f6 (extra_strings_desc s)) = 20 \<Longrightarrow> fw_inv (extra_strings_desc_update f6 s)"
    "length (f7 (msft_compatible s)) = 40 \<Longrightarrow> fw_inv (msft_compatible_update f7 s)"
  using assms by (simp_all add: fw_inv_def arrays_ok_def idx_ok_def)

lemma inv_lengths:
  assumes "fw_inv s"
  shows "length (flash_table s) = 256" "length (ret_data s) = 64" "length (hwversion s) = 2"
    "length (serial_number s) = 33" "length (udc_string_desc s) = 68"
    "length (extra_strings_desc s) = 20" "length (msft_compatible s) = 40"
  using assms by (simp_all add: fw_inv_def arrays_ok_def)

lemma inv_numbers:
  "fw_inv s \<Longrightarrow> g (udc_num_configuration s) \<le> 1 \<Longrightarrow> fw_inv (udc_num_configuration_update g s)"
  "fw_inv s \<Longrightarrow> h (udi_vendor_alternate_setting s) \<le> 1 \<Longrightarrow> fw_inv (udi_vendor_alternate_setting_update h s)"
  "fw_inv s \<Longrightarrow> t \<in> {2, 7} \<Longrightarrow> fw_inv (s\<lparr>conf_fs_type := t\<rparr>)"
  "fw_inv s \<Longrightarrow> t \<in> {2, 7} \<Longrightarrow> fw_inv (s\<lparr>conf_hs_type := t\<rparr>)"
  by (simp_all add: fw_inv_def arrays_ok_def idx_ok_def)

lemma inv_wrp: "ptr_ok (p, r, a) \<Longrightarrow> fw_inv (wrp p r a s) = fw_inv s"
  by (simp add: fw_inv_def arrays_ok_def idx_ok_def wrp_def)

section \<open>Board functions\<close>

lemma inv_cpu_delay [simp]: "fw_inv (cpu_delay_us n s) = fw_inv s" "fw_inv (cpu_delay_ms n s) = fw_inv s"
  by (simp_all add: cpu_delay_us_def cpu_delay_ms_def inv_simps)

lemma ptr_ok_stack: "p \<noteq> UDPHS \<Longrightarrow> ptr_ok (p, r, O_stack bs, i)"
  by (simp add: ptr_ok_def)

lemma inv_write_ad5663: "write_ad5663 hw c d s = Some s' \<Longrightarrow> fw_inv s \<Longrightarrow> fw_inv s'"
  by (auto simp: write_ad5663_def Let_def inv_simps inv_wrp ptr_ok_stack elim!: bind_SomeE dest!: invD)

lemma inv_ad7682_convert:
  assumes "ad7682_convert hw ch cfg d s = Some s'" and "fw_inv s" and "ptr_ok (USART1, 0, d)"
  shows "fw_inv s'"
proof -
  have "ptr_ok (ad7682_port ch, US_RPR, d)" "ad7682_port ch \<noteq> UDPHS"
    using assms(3) by (cases d, auto simp: ad7682_port_def ptr_ok_def)
  then show ?thesis using assms(1,2)
    by (auto simp: ad7682_convert_def Let_def inv_simps inv_wrp ptr_ok_stack elim!: bind_SomeE dest!: invD)
qed

lemma inv_get_sample:
  assumes "get_sample_ad7682 hw ch cfg d s = Some y" and "fw_inv s" and "ptr_ok (USART1, 0, d)"
  shows "fw_inv (snd y)"
  using assms
  by (auto simp: get_sample_ad7682_def Let_def inv_simps elim!: bind_SomeE
      dest!: inv_ad7682_convert)

lemma inv_twi:
  "write_ad5122 hw c ch a b s = Some s' \<Longrightarrow> fw_inv s \<Longrightarrow> fw_inv s'"
  "write_adm1177 hw bf ct s = Some s' \<Longrightarrow> fw_inv s \<Longrightarrow> fw_inv s'"
  "read_adm1177 hw ct s = Some y \<Longrightarrow> fw_inv s \<Longrightarrow> fw_inv (snd y)"
  by (auto simp: write_ad5122_def write_adm1177_def read_adm1177_def Let_def inv_simps
      elim!: bind_SomeE dest!: invD)

lemma inv_set_mode: "set_mode hw ch m s = Some s' \<Longrightarrow> fw_inv s \<Longrightarrow> fw_inv s'"
  by (auto simp: set_mode_def set_mode_pins_def Let_def inv_simps split: if_splits
      dest!: inv_write_ad5663)


lemma inv_get_hwversion: "fw_inv s \<Longrightarrow> fw_inv (get_hwversion hw s)"
  by (simp add: get_hwversion_def Let_def split_def inv_simps inv_arrays inv_lengths)

lemma length_read_bytes [simp]: "length (fst (read_bytes hw a n s)) = n"
  by (induction n arbitrary: a s) (simp_all add: Let_def split_def)

lemma inv_read_flash_table: "fw_inv s \<Longrightarrow> fw_inv (read_flash_table hw s)"
  by (simp add: read_flash_table_def Let_def split_def inv_simps inv_arrays)

lemma length_serial_of_uid [simp]: "length (serial_of_uid u) = 32"
  by (simp add: serial_of_uid_def length_concat comp_def sum_list_triv)

lemma inv_init_serial: "init_build_usb_serial_number hw u s = Some s' \<Longrightarrow> fw_inv s \<Longrightarrow> fw_inv s'"
  by (auto simp: init_build_usb_serial_number_def Let_def inv_lengths intro!: inv_arrays
      elim!: bind_SomeE dest!: invD)

lemma inv_store_flash_table: "store_flash_table hw u s = Some s' \<Longrightarrow> fw_inv s \<Longrightarrow> fw_inv s'"
  by (auto simp: store_flash_table_def Let_def split_def inv_simps split: if_splits
      elim!: bind_SomeE dest!: invD inv_init_serial)

lemma inv_set_up:
  "fw_inv (enable_clocks hw is s) = fw_inv s" "fw_inv (configure_pins hw cs s) = fw_inv s"
proof -
  show "fw_inv (enable_clocks hw is s) = fw_inv s"
    by (induction "is" arbitrary: s) (simp_all add: inv_simps)
  show "fw_inv (configure_pins hw cs s) = fw_inv s"
  proof (induction cs arbitrary: s)
    case (Cons c cs)
    then show ?case by (cases c) (simp add: inv_simps)
  qed simp
qed

lemma inv_init_parts:
  "fw_inv (init_leds s) = fw_inv s" "fw_inv (init_serial_ports hw s) = fw_inv s"
  "fw_inv (init_sample_timer hw s) = fw_inv s"
  by (simp_all add: init_leds_def init_serial_ports_def init_sample_timer_def Let_def inv_simps)

lemma inv_init_hardware: "init_hardware hw jk s = Some s' \<Longrightarrow> fw_inv s \<Longrightarrow> fw_inv s'"
  by (auto simp: init_hardware_def Let_def inv_simps inv_set_up inv_init_parts ptr_ok_stack
      elim!: bind_SomeE dest!: inv_get_sample inv_write_ad5663)

lemma inv_config_hardware: "config_hardware hw s = Some s' \<Longrightarrow> fw_inv s \<Longrightarrow> fw_inv s'"
  by (auto simp: config_hardware_def Let_def elim!: bind_SomeE dest!: inv_twi inv_write_ad5663)

section \<open>Vendor requests\<close>

lemma inv_store_ret_data: "fw_inv s \<Longrightarrow> fw_inv (store_ret_data bs s)"
  by (simp add: store_ret_data_def Let_def inv_simps inv_arrays inv_lengths)

lemma inv_setup_simple:
  "fw_inv (setup_flash_write b s) = fw_inv s" "fw_inv (setup_leds s) = fw_inv s"
  "fw_inv (setup_vars s) = fw_inv s"
  by (simp_all add: setup_flash_write_def setup_leds_def setup_vars_def Let_def inv_simps)

lemma inv_setup_pin_input: "fw_inv s \<Longrightarrow> fw_inv (setup_pin_input hw s)"
  by (simp add: setup_pin_input_def Let_def split_def inv_simps inv_store_ret_data)

lemma inv_setup_adm1177: "setup_adm1177 hw s = Some y \<Longrightarrow> fw_inv s \<Longrightarrow> fw_inv (snd y)"
  by (auto simp: setup_adm1177_def Let_def intro!: inv_store_ret_data elim!: bind_SomeE dest!: inv_twi)

lemma inv_setup_temperature: "setup_temperature hw s = Some y \<Longrightarrow> fw_inv s \<Longrightarrow> fw_inv (snd y)"
  by (auto simp: setup_temperature_def Let_def ptr_ok_def intro!: inv_store_ret_data elim!: bind_SomeE
      dest!: inv_get_sample)

lemma inv_indices:
  "fw_inv s \<Longrightarrow> i \<le> 1 \<Longrightarrow> fw_inv (s\<lparr>packet_index_in := i\<rparr>)"
  "fw_inv s \<Longrightarrow> i \<le> 1 \<Longrightarrow> fw_inv (s\<lparr>packet_index_out := i\<rparr>)"
  "fw_inv s \<Longrightarrow> i \<le> 1 \<Longrightarrow> fw_inv (s\<lparr>packet_index_send_in := i\<rparr>)"
  "fw_inv s \<Longrightarrow> i \<le> 1 \<Longrightarrow> fw_inv (s\<lparr>packet_index_send_out := i\<rparr>)"
  by (simp_all add: fw_inv_def arrays_ok_def idx_ok_def)

lemma inv_setup_sampling: "setup_sampling hw s = Some s' \<Longrightarrow> fw_inv s \<Longrightarrow> fw_inv s'"
  by (auto simp: setup_sampling_def Let_def inv_simps inv_indices frame_simps [THEN var_frame(6)]
      split: if_splits elim!: bind_SomeE dest!: inv_abort intro!: bulk_run_inv)

lemma inv_vendor_request: "vendor_request hw s = Some y \<Longrightarrow> fw_inv s \<Longrightarrow> fw_inv (snd y)"
  by (auto simp: vendor_request_def Let_def inv_simps inv_setup_simple inv_setup_pin_input
      inv_store_ret_data split: if_splits elim!: bind_SomeE
      dest!: inv_setup_adm1177 inv_setup_temperature inv_set_mode inv_twi invD inv_config_hardware
        inv_setup_sampling)

lemma inv_main_setup_handle: "main_setup_handle hw s = Some y \<Longrightarrow> fw_inv s \<Longrightarrow> fw_inv (snd y)"
  by (auto simp: main_setup_handle_def split: if_splits setup_result.splits elim!: bind_SomeE
      dest!: inv_vendor_request)

lemma inv_msft_string: "fw_inv s \<Longrightarrow> fw_inv (snd (msft_string_handle s))"
  by (simp add: msft_string_handle_def Let_def inv_arrays inv_lengths udi_msft_magic_def)

lemma inv_main_sof: "fw_inv (main_sof_action hw s) = fw_inv s"
  by (simp add: main_sof_action_def Let_def split_def inv_simps)


end
