(* ===== verification/Safety_Usb.thy ===== *)
theory Safety_Usb
  imports Safety
begin

text \<open>
  The invariant of the whole program, continued: the USB device core, the control endpoint,
  the interrupt handlers and the main loop, and the theorem that every reachable state is safe.
\<close>

section \<open>What the endpoint operations leave alone\<close>

text \<open>
  Operations on the bulk endpoints change the job table, and through the callbacks a few flags
  of the application; \<open>core s\<close> is the rest of the state.
\<close>

definition core :: "'z usb_scheme \<Rightarrow> 'z usb_scheme" where
  "core s = s\<lparr>trace := [], udd_ep_job := [], sending_in := False, sending_out := False,
     sent_out := False, start_timer := False\<rparr>"

lemma core_frame: "frame s = frame t \<Longrightarrow> core s = core t"
  using frame_fields(1) [of s t] by (cases s; cases t) (auto simp: core_def frame_def)

lemmas core_simps = frame_simps [THEN core_frame]
lemmas coreD = frameD [THEN core_frame]

lemma core_fields:
  assumes "core s = core t"
  shows "req s = req t" "payload s = payload t" "payload_size s = payload_size t"
    "callback s = callback t" "over_under_run s = over_under_run t" "udc_ptr_iface s = udc_ptr_iface t"
    "udc_num_configuration s = udc_num_configuration t" "conf_desc s = conf_desc t"
    "udi_vendor_alternate_setting s = udi_vendor_alternate_setting t"
    "udd_ep_control_state s = udd_ep_control_state t" "flash_table s = flash_table t"
    "current_chan s = current_chan t" "not_a_new_transfer s = not_a_new_transfer t"
    "slot_offset_in s = slot_offset_in t" "slot_offset_out s = slot_offset_out t"
    "packet_index_in s = packet_index_in t" "packet_index_out s = packet_index_out t"
    "packet_index_send_in s = packet_index_send_in t" "packet_index_send_out s = packet_index_send_out t"
proof -
  have e: "f (core s) = f (core t)" for f :: "'a usb_scheme \<Rightarrow> 'b" using assms by simp
  show "req s = req t" "payload s = payload t" "payload_size s = payload_size t"
    "callback s = callback t" "over_under_run s = over_under_run t" "udc_ptr_iface s = udc_ptr_iface t"
    "udc_num_configuration s = udc_num_configuration t"
    "udi_vendor_alternate_setting s = udi_vendor_alternate_setting t"
    "udd_ep_control_state s = udd_ep_control_state t" "flash_table s = flash_table t"
    "current_chan s = current_chan t" "not_a_new_transfer s = not_a_new_transfer t"
    "slot_offset_in s = slot_offset_in t" "slot_offset_out s = slot_offset_out t"
    "packet_index_in s = packet_index_in t" "packet_index_out s = packet_index_out t"
    "packet_index_send_in s = packet_index_send_in t" "packet_index_send_out s = packet_index_send_out t"
    using assms [THEN arg_cong, of req] assms [THEN arg_cong, of payload]
      assms [THEN arg_cong, of payload_size] assms [THEN arg_cong, of callback]
      assms [THEN arg_cong, of over_under_run] assms [THEN arg_cong, of udc_ptr_iface]
      assms [THEN arg_cong, of udc_num_configuration] assms [THEN arg_cong, of udi_vendor_alternate_setting]
      assms [THEN arg_cong, of udd_ep_control_state] assms [THEN arg_cong, of flash_table]
      assms [THEN arg_cong, of current_chan] assms [THEN arg_cong, of not_a_new_transfer]
      assms [THEN arg_cong, of slot_offset_in] assms [THEN arg_cong, of slot_offset_out]
      assms [THEN arg_cong, of packet_index_in] assms [THEN arg_cong, of packet_index_out]
      assms [THEN arg_cong, of packet_index_send_in] assms [THEN arg_cong, of packet_index_send_out]
    by (simp_all add: core_def)
  show "conf_desc s = conf_desc t"
    using assms [THEN arg_cong, of conf_desc]
    by (simp add: core_def conf_desc_def udc_desc_fs_def udc_desc_hs_def split: usb_speed.splits)
qed

lemma core_get_job [simp]: "core (snd (get_job ep s)) = core s"
  by (simp add: get_job_def core_simps)

lemma core_upd_job [simp]: "core (upd_job ep f s) = core s"
  by (simp add: upd_job_def core_simps) (simp add: core_def)

lemma core_callbacks [simp]:
  "core (main_vendor_bulk_in_received st s) = core s" "core (main_vendor_bulk_out_received st s) = core s"
  "core (main_vendor_bulk_out_received_first st s) = core s"
  by (simp_all add: main_vendor_bulk_in_received_def main_vendor_bulk_out_received_def
      main_vendor_bulk_out_received_first_def Let_def core_def)

lemma core_run_callback [simp]: "core (run_callback cb st s) = core s"
  by (cases cb) (simp_all add: run_callback_def core_simps)

lemma core_wrp [simp]: "core (wrp p r a s) = core s"
  by (simp add: core_def wrp_def)

lemma core_jobs [simp]:
  "core (udd_ep_finish_job hw ep ab s) = core s" "core (udd_ep_job_table_kill hw s) = core s"
  "core (udd_ep_abort_job hw ep s) = core s" "core (udd_ep_job_table_reset s) = core s"
proof -
  have f: "core (udd_ep_finish_job hw ep ab s) = core s" for hw ep ab and s :: "'a usb_scheme"
    by (simp add: udd_ep_finish_job_def Let_def split_def core_simps)
  show "core (udd_ep_finish_job hw ep ab s) = core s" by (rule f)
  show "core (udd_ep_job_table_kill hw s) = core s" "core (udd_ep_abort_job hw ep s) = core s"
    by (simp_all add: udd_ep_job_table_kill_def udd_ep_abort_job_def f)
  show "core (udd_ep_job_table_reset s) = core s" by (simp add: udd_ep_job_table_reset_def core_def)
qed

lemma core_transfers [simp]:
  "core (snd (dma_ctrl hw ep s)) = core s" "core (snd (dma_start hw ep s)) = core s"
  "core (trans_end hw ep s) = core s" "core (udd_ep_trans_done hw ep s) = core s"
  "core (snd (udd_ep_run hw ep sh b n cb s)) = core s"
proof -
  have c: "core (snd (dma_ctrl hw ep s)) = core s" for ep and s :: "'a usb_scheme"
    by (simp add: dma_ctrl_def Let_def split_def core_simps)
  have d: "core (snd (dma_start hw ep s)) = core s" for ep and s :: "'a usb_scheme"
    by (simp add: dma_start_def Let_def split_def core_simps c)
  have e: "core (trans_end hw ep s) = core s" for ep and s :: "'a usb_scheme"
    by (simp add: trans_end_def Let_def split_def core_simps)
  have t: "core (udd_ep_trans_done hw ep s) = core s" for ep and s :: "'a usb_scheme"
    by (simp add: udd_ep_trans_done_def Let_def split_def core_simps d e)
  show "core (snd (dma_ctrl hw ep s)) = core s" "core (snd (dma_start hw ep s)) = core s"
    "core (trans_end hw ep s) = core s" "core (udd_ep_trans_done hw ep s) = core s" by (fact c d e t)+
  show "core (snd (udd_ep_run hw ep sh b n cb s)) = core s"
    by (simp add: udd_ep_run_def Let_def split_def core_simps t)
qed

lemma core_abort: "udd_ep_abort hw ep s = Some s' \<Longrightarrow> core s' = core s"
  by (auto simp: udd_ep_abort_def Let_def core_simps elim!: bind_SomeE split: if_splits dest!: coreD)

lemma core_realloc [simp]: "core (snd (realloc_eps hw a is s)) = core s"
proof (induction "is" arbitrary: s)
  case (Cons i "is")
  have "core (snd (realloc_ep hw a i s)) = core s"
    by (simp add: realloc_ep_def Let_def split_def core_simps)
  then show ?case using Cons.IH by (auto split: prod.split option.split)
qed simp

lemma core_alloc: "udd_ep_alloc hw ep att mx s = Some y \<Longrightarrow> core (snd y) = core s"
  by (auto simp: udd_ep_alloc_def Let_def split_def core_simps elim!: bind_SomeE
      split: if_splits option.splits dest!: coreD)

lemma core_alloc_eps: "alloc_eps hw p s = Some y \<Longrightarrow> core (snd y) = core s"
proof (induction rule: alloc_eps.raw_induct [rotated 1, consumes 1, case_names step])
  case (step f hw p s y)
  from step.hyps show ?case
    by (auto elim!: bind_SomeE split: option.splits if_splits dest!: core_alloc step.IH)
qed

lemma core_free [simp]: "core (udd_ep_free hw ep s) = core s"
  by (simp add: udd_ep_free_def Let_def core_simps)

lemma core_free_eps: "free_eps hw p s = Some s' \<Longrightarrow> core s' = core s"
proof (induction rule: free_eps.raw_induct [rotated 1, consumes 1, case_names step])
  case (step f hw p s s')
  from step.hyps show ?case by (auto elim!: bind_SomeE split: option.splits dest!: step.IH)
qed

section \<open>The device core\<close>

lemma inv_device:
  "fw_inv (udd_sleep_mode b s) = fw_inv s" "fw_inv (udd_set_setup_payload p n s) = fw_inv s"
  "fw_inv (udd_attach hw s) = fw_inv s" "fw_inv (udd_detach hw s) = fw_inv s"
  "fw_inv (udd_disable hw s) = fw_inv s"
  by (simp_all add: udd_sleep_mode_def udd_set_setup_payload_def udd_attach_def udd_detach_def
      udd_disable_def Let_def inv_simps)

lemma inv_udd_enable: "udd_enable hw s = Some s' \<Longrightarrow> fw_inv s \<Longrightarrow> fw_inv s'"
  by (auto simp: udd_enable_def Let_def inv_simps inv_device inv_job_table elim!: bind_SomeE dest!: invD)

lemma inv_udi_vendor_disable [simp]: "fw_inv (udi_vendor_disable s) = fw_inv s"
  by (simp add: udi_vendor_disable_def main_vendor_disable_def)

text \<open>
  The configuration descriptor: its two interface descriptors are at offsets 9 and 18, and
  the searches through it end.
\<close>

lemma udc_desc_nth:
  "udc_desc ty lo hi ! 0 = 9" "udc_desc ty lo hi ! 1 = ty" "udc_desc ty lo hi ! 2 = 41"
  "udc_desc ty lo hi ! 3 = 0" "udc_desc ty lo hi ! 4 = 1"
  by (simp_all add: udc_desc_def)

lemma find_iface_eq:
  assumes "ty \<noteq> 4"
  shows "find_iface (udc_desc ty lo hi) 41 i a 0 =
    Some (if i = 0 \<and> a = 0 then (True, 9) else if i = 0 \<and> a = 1 then (True, 18) else (False, 41))"
proof -
  let ?f = "find_iface (udc_desc ty lo hi) 41 i a"
  have 1: "?f 41 = Some (False, 41)" by (subst find_iface.simps) simp
  have 2: "?f 34 = ?f 41" by (subst find_iface.simps) (simp add: udc_desc_def udi_vendor_desc_def)
  have 3: "?f 27 = ?f 34" by (subst find_iface.simps) (simp add: udc_desc_def udi_vendor_desc_def)
  have 4: "?f 18 = (if i = 0 \<and> a = 1 then Some (True, 18) else ?f 27)"
    by (subst find_iface.simps) (auto simp: udc_desc_def udi_vendor_desc_def)
  have 5: "?f 9 = (if i = 0 \<and> a = 0 then Some (True, 9) else ?f 18)"
    by (subst find_iface.simps) (auto simp: udc_desc_def udi_vendor_desc_def)
  have "?f 0 = ?f 9" using assms
    by (subst find_iface.simps) (simp add: udc_desc_def udi_vendor_desc_def)
  then show ?thesis by (simp add: 1 2 3 4 5)
qed

lemma conf_descE:
  assumes "fw_inv s" obtains ty lo hi where "ty \<noteq> 4" "conf_desc s = udc_desc ty lo hi"
proof -
  have "conf_fs_type s \<noteq> 4" "conf_hs_type s \<noteq> 4" using assms by (auto simp: fw_inv_def)
  then show ?thesis
    by (cases "udc_ptr_conf s") (auto simp: conf_desc_def udc_desc_fs_def udc_desc_hs_def intro: that)
qed

lemma udc_get_eof_conf_eq: "fw_inv s \<Longrightarrow> udc_get_eof_conf s = 41"
  by (erule conf_descE) (simp add: udc_get_eof_conf_def udc_desc_nth)

lemma ifaces_eq: "fw_inv s \<Longrightarrow> ifaces s = [0]"
  by (erule conf_descE) (simp add: ifaces_def udc_desc_nth)

definition iface_found :: "u8 \<Rightarrow> u8 \<Rightarrow> 'z usb_scheme \<Rightarrow> bool" where
  "iface_found i a s \<longleftrightarrow> udc_num_configuration s \<noteq> 0 \<and> i = 0 \<and> a \<le> 1"

lemma u8_lt1: "(i :: u8) < 1 \<longleftrightarrow> i = 0" "(i :: u8) \<le> 1 \<longleftrightarrow> i = 0 \<or> i = 1"
  by (auto simp: word_less_nat_alt word_le_nat_alt word_unat_eq_iff)

lemma udc_update_iface_eq:
  assumes "fw_inv s"
  shows "udc_update_iface_desc i a s =
    Some (if udc_num_configuration s = 0 \<or> i \<noteq> 0 then (False, s)
          else if a \<le> 1 then (True, s\<lparr>udc_ptr_iface := if a = 0 then 9 else 18\<rparr>)
          else (False, s\<lparr>udc_ptr_iface := 41\<rparr>))"
proof -
  from assms obtain ty lo hi where ty: "ty \<noteq> 4" and d: "conf_desc s = udc_desc ty lo hi"
    by (rule conf_descE)
  have "i \<ge> (1 :: u8) \<longleftrightarrow> i \<noteq> 0" using u8_lt1(1) [of i] by (simp add: not_less [symmetric])
  then show ?thesis
    by (auto simp: udc_update_iface_desc_def udc_get_eof_conf_eq [OF assms] d udc_desc_nth
        find_iface_eq [OF ty] u8_lt1)
qed

lemma inv_update_iface: "udc_update_iface_desc i a s = Some y \<Longrightarrow> fw_inv s \<Longrightarrow> fw_inv (snd y)"
  by (auto simp: udc_update_iface_eq split: if_splits)

lemma inv_free_eps: "free_eps hw p s = Some s' \<Longrightarrow> fw_inv s \<Longrightarrow> fw_inv s'"
proof (induction rule: free_eps.raw_induct [rotated 1, consumes 1, case_names step])
  case (step f hw p s s')
  from step.prems step.hyps show ?case
    by (auto elim!: bind_SomeE split: option.splits) (erule step.IH, erule inv_free)
qed

lemma inv_alloc_eps: "alloc_eps hw p s = Some y \<Longrightarrow> fw_inv s \<Longrightarrow> fw_inv (snd y)"
proof (induction rule: alloc_eps.raw_induct [rotated 1, consumes 1, case_names step])
  case (step f hw p s y)
  from step.prems step.hyps show ?case
    by (auto elim!: bind_SomeE split: option.splits if_splits dest!: inv_alloc) (erule step.IH)
qed

lemma inv_iface_disable: "udc_iface_disable hw i s = Some y \<Longrightarrow> fw_inv s \<Longrightarrow> fw_inv (snd y)"
  by (auto simp: udc_iface_disable_def elim!: bind_SomeE split: if_splits
      dest!: inv_update_iface inv_free_eps)

lemma iface_desc_setting:
  assumes "fw_inv s" and "core t = core (s\<lparr>udc_ptr_iface := if a = 0 then 9 else 18\<rparr>)" and "a \<le> 1"
  shows "udc_get_interface_desc t ! 3 = a"
proof -
  from assms(1) obtain ty lo hi where d: "conf_desc s = udc_desc ty lo hi" by (rule conf_descE)
  have "conf_desc t = conf_desc s" "udc_ptr_iface t = (if a = 0 then 9 else 18)"
    using core_fields(6,8) [OF assms(2)] by (simp_all add: conf_desc_def udc_desc_fs_def udc_desc_hs_def cong: usb_speed.case_cong)
  then show ?thesis using assms(3)
    by (auto simp: udc_get_interface_desc_def d udc_desc_def udi_vendor_desc_def u8_lt1)
qed

lemma inv_vendor_enable:
  assumes "fw_inv s" and "udc_get_interface_desc s ! 3 \<le> 1"
  shows "fw_inv (snd (udi_vendor_enable s))"
  using assms
  by (simp add: udi_vendor_enable_def main_vendor_enable_def Let_def inv_callbacks inv_numbers)

lemma inv_iface_enable:
  assumes "udc_iface_enable hw i a s = Some y" and "fw_inv s"
  shows "fw_inv (snd y)"
proof (cases "iface_found i a s")
  case True
  let ?s = "s\<lparr>udc_ptr_iface := if a = 0 then 9 else 18\<rparr>"
  have "udc_update_iface_desc i a s = Some (True, ?s)"
    using True by (simp add: udc_update_iface_eq [OF assms(2)] iface_found_def)
  then obtain ok t where t: "alloc_eps hw (udc_ptr_iface ?s) ?s = Some (ok, t)"
    and y: "y = (if ok then udi_vendor_enable t else (False, t))"
    using assms(1) by (auto simp: udc_iface_enable_def elim!: bind_SomeE split: if_splits)
  have "fw_inv t" using inv_alloc_eps [OF t] assms(2) by simp
  moreover have "udc_get_interface_desc t ! 3 = a"
    using core_alloc_eps [OF t] True by (intro iface_desc_setting [OF assms(2)]) (simp_all add: iface_found_def)
  ultimately show ?thesis using True y inv_vendor_enable [of t] by (simp add: iface_found_def)
next
  case False
  then show ?thesis using assms
    by (auto simp: udc_iface_enable_def udc_update_iface_eq iface_found_def split: if_splits)
qed

lemma inv_disable_ifaces: "disable_ifaces hw is s = Some s' \<Longrightarrow> fw_inv s \<Longrightarrow> fw_inv s'"
  by (induction "is" arbitrary: s) (auto elim!: bind_SomeE dest!: inv_iface_disable)

lemma inv_enable_ifaces: "enable_ifaces hw is s = Some y \<Longrightarrow> fw_inv s \<Longrightarrow> fw_inv (snd y)"
proof (induction "is" arbitrary: s)
  case (Cons i "is")
  then show ?case using inv_iface_enable [of hw i 0 s]
    by (auto elim!: bind_SomeE split: if_splits)
qed auto

lemma inv_udc_reset: "udc_reset hw s = Some s' \<Longrightarrow> fw_inv s \<Longrightarrow> fw_inv s'"
  by (auto simp: udc_reset_def elim!: bind_SomeE split: if_splits dest!: inv_disable_ifaces intro!: inv_numbers)

lemma req_iface_disable: "udc_iface_disable hw i s = Some y \<Longrightarrow> req (snd y) = req s"
  by (auto simp: udc_iface_disable_def udc_update_iface_desc_def udi_vendor_disable_def
      main_vendor_disable_def elim!: bind_SomeE split: if_splits dest!: core_free_eps [THEN core_fields(1)])

lemma req_disable_ifaces: "disable_ifaces hw is s = Some s' \<Longrightarrow> req s' = req s"
  by (induction "is" arbitrary: s) (auto elim!: bind_SomeE dest!: req_iface_disable)

lemma req_udc_reset: "udc_reset hw s = Some s' \<Longrightarrow> req s' = req s"
  by (auto simp: udc_reset_def elim!: bind_SomeE split: if_splits dest!: req_disable_ifaces)

section \<open>Standard requests\<close>

lemma length_wide: "length (concat (map (\<lambda>c. [c, 0]) str)) = 2 * length str"
  by (induction str) simp_all

lemma inv_set_string: "fw_inv s \<Longrightarrow> length str \<le> 33 \<Longrightarrow> fw_inv (set_string str s)"
  unfolding set_string_def Let_def
  by (simp add: inv_device length_wide, rule inv_arrays) (simp_all add: length_wide inv_lengths)

lemma inv_get_str_desc: "fw_inv s \<Longrightarrow> fw_inv (snd (udc_req_std_dev_get_str_desc s))"
  by (simp add: udc_req_std_dev_get_str_desc_def Let_def inv_device inv_set_string inv_lengths
      inv_msft_string udc_string_manufacturer_name_def udc_string_product_name_def)

lemma inv_get_desc: "fw_inv s \<Longrightarrow> fw_inv (snd (get_desc hw s))"
  by (simp add: get_desc_def get_conf_desc_def Let_def split_def inv_device inv_simps inv_get_str_desc
      inv_numbers)

lemma inv_std_dev:
  assumes "fw_inv s"
  shows "fw_inv (snd (udc_req_std_dev_get_status s))" "fw_inv (snd (udc_req_std_ep_get_status hw s))"
    "fw_inv (snd (udc_req_std_dev_clear_feature s))" "fw_inv (snd (udc_req_std_ep_clear_feature hw s))"
    "fw_inv (snd (udc_req_std_dev_set_address s))" "fw_inv (snd (udc_req_std_dev_get_descriptor hw s))"
    "fw_inv (snd (udc_req_std_dev_get_configuration s))"
  using assms inv_get_desc [OF assms, of hw]
  by (simp_all add: udc_req_std_dev_get_status_def udc_req_std_ep_get_status_def
      udc_req_std_dev_clear_feature_def udc_req_std_ep_clear_feature_def udc_req_std_dev_set_address_def
      udc_req_std_dev_get_descriptor_def udc_req_std_dev_get_configuration_def
      Let_def split_def inv_device inv_halt)

lemma inv_std_dev_partial:
  "udc_req_std_dev_set_feature hw s = Some y \<Longrightarrow> fw_inv s \<Longrightarrow> fw_inv (snd y)"
  "udc_req_std_ep_set_feature hw s = Some y \<Longrightarrow> fw_inv s \<Longrightarrow> fw_inv (snd y)"
  by (auto simp: udc_req_std_dev_set_feature_def udc_req_std_ep_set_feature_def Let_def split_def
      inv_simps inv_halt elim!: bind_SomeE split: if_splits dest!: inv_udc_reset inv_abort)

lemma u16_low_le1: "\<not> (1 < (v :: u16) AND 0xFF) \<Longrightarrow> (ucast (v AND 0xFF) :: u8) \<le> 1"
  by (simp add: not_less word_le_nat_alt unsigned_ucast_eq take_bit_nat_eq_self)

lemma inv_set_configuration:
  assumes "udc_req_std_dev_set_configuration hw s = Some y" and "fw_inv s"
  shows "fw_inv (snd y)"
proof -
  have r: "fw_inv t' \<and> req t' = req t" if "udc_reset hw t = Some t'" "fw_inv t" for t t' :: "'a usb_scheme"
    using inv_udc_reset [OF that] req_udc_reset [OF that(1)] by blast
  show ?thesis using assms
    by (auto simp: udc_req_std_dev_set_configuration_def Let_def split_def inv_simps inv_numbers
        frame_simps [THEN var_frame(1)] u16_low_le1
        elim!: bind_SomeE split: if_splits dest!: r inv_enable_ifaces)
qed

lemma inv_std_iface:
  "udc_req_std_iface_get_setting s = Some y \<Longrightarrow> fw_inv s \<Longrightarrow> fw_inv (snd y)"
  "udc_req_std_iface_set_setting hw s = Some y \<Longrightarrow> fw_inv s \<Longrightarrow> fw_inv (snd y)"
  by (auto simp: udc_req_std_iface_get_setting_def udc_req_std_iface_set_setting_def Let_def inv_device
      elim!: bind_SomeE split: if_splits dest!: inv_update_iface inv_iface_disable inv_iface_enable)

lemma inv_reqstd: "udc_reqstd hw s = Some y \<Longrightarrow> fw_inv s \<Longrightarrow> fw_inv (snd y)"
  by (auto simp: udc_reqstd_def reqstd_in_def reqstd_out_def Let_def inv_std_dev split: if_splits
      dest!: inv_std_dev_partial inv_set_configuration inv_std_iface)

lemma inv_req_iface: "udc_req_iface s = Some y \<Longrightarrow> fw_inv s \<Longrightarrow> fw_inv (snd y)"
  by (auto simp: udc_req_iface_def Let_def elim!: bind_SomeE split: if_splits dest!: inv_update_iface)

lemma inv_req_ep_ifaces: "req_ep_ifaces is s = Some y \<Longrightarrow> fw_inv s \<Longrightarrow> fw_inv (snd y)"
proof (induction "is" arbitrary: s)
  case (Cons i "is")
  then show ?case by (auto elim!: bind_SomeE split: if_splits dest!: inv_update_iface)
qed auto

lemma inv_or_else:
  assumes "or_else x f = Some y" and "\<And>z. x = Some z \<Longrightarrow> fw_inv (snd z)"
    and "\<And>s y. f s = Some y \<Longrightarrow> fw_inv s \<Longrightarrow> fw_inv (snd y)"
  shows "fw_inv (snd y)"
  using assms(1) assms(2) [of "the x"] assms(3)
  by (cases y) (auto simp: or_else_def elim!: bind_SomeE split: if_splits)

lemma inv_process_setup: "udc_process_setup hw s = Some y \<Longrightarrow> fw_inv s \<Longrightarrow> fw_inv (snd y)"
  by (auto simp: udc_process_setup_def udc_req_ep_def Let_def split: if_splits elim!: inv_or_else
      dest!: inv_reqstd inv_req_iface inv_req_ep_ifaces inv_main_setup_handle)

section \<open>The control endpoint\<close>

lemma inv_load_byte [simp]: "fw_inv (snd (load_byte hw p s)) = fw_inv s"
  by (simp add: load_byte_def inv_simps)

lemma inv_store_byte: "fw_inv s \<Longrightarrow> fw_inv (store_byte p b s)"
  by (cases "fst p") (simp_all add: store_byte_def inv_simps inv_arrays inv_lengths)

lemma inv_copy_in [simp]: "fw_inv (copy_in hw p a n s) = fw_inv s"
  by (induction n arbitrary: p a s) (simp_all add: Let_def split_def inv_simps)

lemma inv_copy_out: "fw_inv s \<Longrightarrow> fw_inv (copy_out hw p a n s)"
  by (induction n arbitrary: p a s) (simp_all add: Let_def split_def inv_simps inv_store_byte)

lemma inv_ctrl:
  "fw_inv (udd_reset_ep_ctrl hw s) = fw_inv s" "fw_inv (udd_ctrl_init s) = fw_inv s"
  "fw_inv (udd_ctrl_stall_data s) = fw_inv s" "fw_inv (udd_ctrl_send_zlp_in s) = fw_inv s"
  "fw_inv (udd_ctrl_send_zlp_out s) = fw_inv s" "fw_inv (udd_ctrl_underflow hw s) = fw_inv s"
  "fw_inv (udd_ctrl_overflow hw s) = fw_inv s" "fw_inv (send_packet hw k s) = fw_inv s"
  "fw_inv (out_data_done hw n s) = fw_inv s" "fw_inv (snd (ctrl_naks hw st s)) = fw_inv s"
proof -
  have z: "fw_inv (udd_ctrl_stall_data s) = fw_inv s" "fw_inv (udd_ctrl_send_zlp_in s) = fw_inv s"
    "fw_inv (udd_ctrl_send_zlp_out s) = fw_inv s" for s :: "'a usb_scheme"
    by (simp_all add: udd_ctrl_stall_data_def udd_ctrl_send_zlp_in_def udd_ctrl_send_zlp_out_def
        Let_def inv_simps)
  have n: "fw_inv (udd_ctrl_underflow hw s) = fw_inv s" "fw_inv (udd_ctrl_overflow hw s) = fw_inv s"
    for s :: "'a usb_scheme"
    by (simp_all add: udd_ctrl_underflow_def udd_ctrl_overflow_def Let_def split_def inv_simps z)
  show "fw_inv (udd_ctrl_stall_data s) = fw_inv s" "fw_inv (udd_ctrl_send_zlp_in s) = fw_inv s"
    "fw_inv (udd_ctrl_send_zlp_out s) = fw_inv s" "fw_inv (udd_ctrl_underflow hw s) = fw_inv s"
    "fw_inv (udd_ctrl_overflow hw s) = fw_inv s" by (fact z n)+
  show "fw_inv (udd_reset_ep_ctrl hw s) = fw_inv s" "fw_inv (udd_ctrl_init s) = fw_inv s"
    "fw_inv (send_packet hw k s) = fw_inv s" "fw_inv (out_data_done hw n s) = fw_inv s"
    "fw_inv (snd (ctrl_naks hw st s)) = fw_inv s"
    by (simp_all add: udd_reset_ep_ctrl_def udd_ctrl_init_def send_packet_def out_data_done_def
        ctrl_naks_def Let_def split_def inv_simps z n)
qed

lemma inv_endofrequest: "udd_ctrl_endofrequest hw s = Some s' \<Longrightarrow> fw_inv s \<Longrightarrow> fw_inv s'"
  by (auto simp: udd_ctrl_endofrequest_def udc_valid_address_def inv_simps split: ctrl_callback.splits
      dest!: inv_store_flash_table)

lemma inv_in_sent: "udd_ctrl_in_sent hw s = Some s' \<Longrightarrow> fw_inv s \<Longrightarrow> fw_inv s'"
  by (auto simp: udd_ctrl_in_sent_def Let_def inv_simps inv_ctrl split: if_splits dest!: inv_endofrequest)

lemma inv_start_data_phase: "start_data_phase hw s = Some s' \<Longrightarrow> fw_inv s \<Longrightarrow> fw_inv s'"
  by (auto simp: start_data_phase_def Let_def inv_simps inv_ctrl split: if_splits dest!: inv_in_sent)

lemma inv_setup_received: "udd_ctrl_setup_received hw s = Some s' \<Longrightarrow> fw_inv s \<Longrightarrow> fw_inv s'"
  by (auto simp: udd_ctrl_setup_received_def Let_def split_def inv_simps inv_ctrl elim!: bind_SomeE
      split: if_splits dest!: inv_endofrequest inv_process_setup inv_start_data_phase)

lemma inv_out_received: "udd_ctrl_out_received hw s = Some s' \<Longrightarrow> fw_inv s \<Longrightarrow> fw_inv s'"
  by (auto simp: udd_ctrl_out_received_def Let_def split_def inv_simps inv_ctrl inv_copy_out
      split: if_splits dest!: inv_endofrequest)

lemma inv_ctrl_interrupt: "udd_ctrl_interrupt hw s = Some y \<Longrightarrow> fw_inv s \<Longrightarrow> fw_inv (snd y)"
  by (auto simp: udd_ctrl_interrupt_def Let_def split_def inv_simps inv_ctrl split: if_splits
      dest!: inv_setup_received inv_in_sent inv_out_received)

section \<open>Interrupt handlers\<close>

lemma inv_bus_events: "bus_events hw s = Some s' \<Longrightarrow> fw_inv s \<Longrightarrow> fw_inv s'"
proof -
  have "fw_inv t'" if "bus_reset hw t = Some t'" "fw_inv t" for t t' :: "'a usb_scheme"
    using that by (auto simp: bus_reset_def Let_def inv_simps inv_ctrl inv_job_table elim!: bind_SomeE dest!: inv_udc_reset)
  then show "bus_events hw s = Some s' \<Longrightarrow> fw_inv s \<Longrightarrow> fw_inv s'"
    by (auto simp: bus_events_def bus_suspend_def bus_wake_up_def Let_def split_def inv_simps inv_device
        split: if_splits)
qed

lemma inv_UDPHS_Handler: "UDPHS_Handler hw s = Some s' \<Longrightarrow> fw_inv s \<Longrightarrow> fw_inv s'"
  by (auto simp: UDPHS_Handler_def udc_sof_notify_def Let_def split_def inv_simps inv_main_sof
      elim!: bind_SomeE split: if_splits dest!: inv_ctrl_interrupt inv_bus_events intro: inv_ep_interrupt)

lemma in_bounds_ptr_ok: "p \<noteq> UDPHS \<Longrightarrow> in_bounds a 2 \<Longrightarrow> ptr_ok (p, r, a)"
  by (cases a) (simp add: ptr_ok_def in_bounds_def)

lemma events_ptr_ok:
  assumes "idx_ok s"
  shows "list_all ptr_ok (pointers (events_A s))" "list_all ptr_ok (pointers (events_B s))"
proof -
  have i: "packet_index_in s \<le> 1" "packet_index_out s \<le> 1" using assms by (simp_all add: idx_ok_def)
  have b: "ptr_ok (p, r, packets_in_at (packet_index_in s) (unat (slot_offset_in s) * 4 + k))"
    if "p \<noteq> UDPHS" "k < 4" for p r k
    using slot_in_bounds(1) [OF i(1) that(2)] that(1) by (rule in_bounds_ptr_ok [rotated])
  have d: "ptr_ok (p, r, packets_out_at (packet_index_out s) (unat (slot_offset_out s) * 2 + k))"
    if "p \<noteq> UDPHS" "k < 2" for p r k
    using slot_in_bounds(2) [OF i(2) that(2)] that(1) by (rule in_bounds_ptr_ok [rotated])
  note z = b [of _ 0, unfolded add_0_right] d [of _ 0, unfolded add_0_right]
    b [of _ "Suc 0", unfolded add_Suc_right add_0_right]
    b [of _ "Suc (Suc 0)", unfolded add_Suc_right add_0_right] d [of _ "Suc 0", unfolded add_Suc_right add_0_right]
  have c: "ptr_ok (p, r, O_da, 0)" "ptr_ok (p, r, O_db, 0)" "ptr_ok (p, r, O_v1_adc_conf, 0)"
    "ptr_ok (p, r, O_v2_adc_conf, 0)" "ptr_ok (p, r, O_i1_adc_conf, 0)" "ptr_ok (p, r, O_i2_adc_conf, 0)"
    if "p \<noteq> UDPHS" for p r using that by (simp_all add: ptr_ok_def)
  show "list_all ptr_ok (pointers (events_A s))" "list_all ptr_ok (pointers (events_B s))"
    by (simp_all add: events_A_def events_B_def b d z c)
qed

lemma inv_TC2_Handler:
  assumes "fw_inv s"
  shows "fw_inv (TC2_Handler hw s)"
proof -
  have i: "idx_ok s" using assms by (simp add: fw_inv_def)
  show ?thesis
  proof (cases "current_chan s")
    case True
    have "fw_inv (next_slot s)" using assms next_slot_idx_ok [OF i]
      by (simp add: fw_inv_def arrays_ok_def next_slot_def TC2_switch_slot_def)
    then show ?thesis using events_ptr_ok(2) [OF i]
      by (simp add: TC2_Handler_B [OF True] fw_inv_def arrays_ok_def idx_ok_def)
  next
    case False
    then show ?thesis using assms events_ptr_ok(1) [OF i]
      by (simp add: TC2_Handler_A fw_inv_def arrays_ok_def idx_ok_def)
  qed
qed

section \<open>The main program\<close>

lemma inv_main_init_board: "main_init_board hw s = Some s' \<Longrightarrow> fw_inv s \<Longrightarrow> fw_inv s'"
  by (auto simp: main_init_board_def Let_def inv_simps inv_get_hwversion inv_read_flash_table elim!: bind_SomeE
      dest!: invD inv_init_serial inv_init_hardware)

lemma inv_main_init_usb: "main_init_usb hw s = Some s' \<Longrightarrow> fw_inv s \<Longrightarrow> fw_inv s'"
  by (auto simp: main_init_usb_def Let_def udc_stop_def udc_start_def inv_device elim!: bind_SomeE
      dest!: inv_udc_reset inv_udd_enable)

lemma inv_usb_init: "fw_inv (usb_init fw)"
  by (simp add: fw_inv_def usb_init_def arrays_ok_def idx_ok_def jobs_ok_def job_safe_def job0_def
      app_init_def app.defs msft_compatible_init_def)

lemma inv_main_step:
  assumes "main_step hw p s = Some c" and "fw_inv s"
  shows "fw_inv (snd c)"
proof -
  have "packet_index_send_in s \<le> 1" "packet_index_send_out s \<le> 1"
    using assms(2) by (simp_all add: fw_inv_def idx_ok_def)
  then show ?thesis using assms
    by (cases p) (auto simp: main_step_def main_pots_def inv_simps inv_device bulk_run_inv
        dest!: inv_write_ad5663 inv_twi)
qed

lemma inv_fw_step: "fw_step c c' \<Longrightarrow> fw_inv (snd c) \<Longrightarrow> fw_inv (snd c')"
  by (erule fw_stepE) (auto intro: inv_main_step inv_TC2_Handler inv_UDPHS_Handler)

lemma inv_reachable: "reachable fw c \<Longrightarrow> fw_inv (snd c)"
proof (induction rule: reachable.induct)
  case (start hw s)
  then show ?case
    by (auto simp: main_init_def elim!: bind_SomeE dest!: inv_main_init_board inv_main_init_usb
        intro: inv_usb_init)
qed (rule inv_fw_step)

end
