(* ===== verification/Liveness.thy ===== *)
theory Liveness
  imports Safety_Usb
begin

text \<open>
  The program does not hang. Many loops of the firmware wait for a peripheral. \<open>responsive hw\<close>
  collects what the data sheet promises about the bits they wait for; under it, the start-up
  ends, every statement of the main loop ends and every run of an interrupt handler ends.
\<close>

named_theorems live "operations that return"

declare not_None_eq [iff del]

section \<open>Peripherals that answer\<close>

definition answers :: "hw \<Rightarrow> periph \<Rightarrow> nat \<Rightarrow> (u32 \<Rightarrow> bool) \<Rightarrow> bool" where
  "answers hw p r P \<longleftrightarrow> (\<forall>tr. \<exists>k. P (hw (replicate k (Rd p r) @ tr) p r))"

text \<open>
  The flash controller becomes ready after a command; after the command that starts reading
  the unique identifier it becomes busy instead.
\<close>

definition flash_answers :: "hw \<Rightarrow> bool" where
  "flash_answers hw \<longleftrightarrow>
     (\<forall>w tr. \<exists>k. hw (replicate k (Rd EFC0 EEFC_FSR) @ Wr EFC0 EEFC_FCR w # tr) EFC0 EEFC_FSR AND EEFC_FSR_FRDY =
        (if FCR_FCMD w = EFC_FCMD_STUI then 0 else EEFC_FSR_FRDY))"

text \<open>A kill request ends, and then fewer banks of the endpoint are busy.\<close>

definition busy_banks :: "hw \<Rightarrow> u8 \<Rightarrow> event list \<Rightarrow> u32" where
  "busy_banks hw ep tr = drop_bit 18 (hw tr UDPHS (EPT ep EPTSTA) AND BUSY_BANK_STA_Msk)"

definition banks_killed :: "hw \<Rightarrow> bool" where
  "banks_killed hw \<longleftrightarrow>
     (\<forall>ep. answers hw UDPHS (EPT ep EPTSTA) (\<lambda>v. v AND KILL_BANK = 0)) \<and>
     (\<forall>ep tr k. busy_banks hw ep tr \<noteq> 0 \<longrightarrow>
        busy_banks hw ep (replicate k (Rd UDPHS (EPT ep EPTSTA)) @ Wr UDPHS (EPT ep EPTSETSTA) KILL_BANK
           # Rd UDPHS (EPT ep EPTSTA) # tr) < busy_banks hw ep tr)"

text \<open>A packet on the control endpoint has at most 64 bytes.\<close>

definition ctrl_packets_fit :: "hw \<Rightarrow> bool" where
  "ctrl_packets_fit hw \<longleftrightarrow> (\<forall>tr. drop_bit 20 (hw tr UDPHS (EPT 0 EPTSTA) AND BYTE_COUNT_Msk) \<le> 64)"

definition responsive :: "hw \<Rightarrow> bool" where
  "responsive hw \<longleftrightarrow>
     (\<forall>m \<in> {PMC_SR_MOSCXTS, PMC_SR_MOSCSELS, PMC_SR_LOCKA, PMC_SR_LOCKU}.
        answers hw PMC PMC_SR (\<lambda>v. v AND m = m)) \<and>
     answers hw USART0 US_CSR (\<lambda>v. v AND US_CSR_TXEMPTY = US_CSR_TXEMPTY) \<and>
     answers hw USART1 US_CSR (\<lambda>v. v AND US_CSR_ENDRX = US_CSR_ENDRX) \<and>
     answers hw USART2 US_CSR (\<lambda>v. v AND US_CSR_ENDRX = US_CSR_ENDRX) \<and>
     answers hw TWI0 TWI_SR (\<lambda>v. v AND TWI_SR_NACK \<noteq> 0 \<or> v AND TWI_SR_TXRDY \<noteq> 0) \<and>
     answers hw TWI0 TWI_SR (\<lambda>v. v AND TWI_SR_TXCOMP = TWI_SR_TXCOMP) \<and>
     flash_answers hw \<and> banks_killed hw \<and> ctrl_packets_fit hw"

section \<open>Waiting\<close>

lemma poll_live:
  assumes "\<exists>k. hw (replicate k (Rd p r) @ trace s) p r AND m = v"
  shows "poll hw p r m v s \<noteq> None"
proof -
  let ?Q = "\<lambda>k. hw (replicate k (Rd p r) @ trace s) p r AND m = v"
  have "?Q (LEAST k. ?Q k)" using assms by (rule LeastI_ex)
  moreover have "\<not> ?Q i" if "i < (LEAST k. ?Q k)" for i using that by (rule not_less_Least)
  ultimately have "ready_after hw p r m v (LEAST k. ?Q k) (trace s)"
    by (simp add: ready_after_def)
  then show ?thesis by (simp add: poll_ready)
qed

lemma poll_answers: "answers hw p r (\<lambda>w. w AND m = v) \<Longrightarrow> poll hw p r m v s \<noteq> None"
  by (rule poll_live) (simp add: answers_def)

text \<open>A loop that reads one register until its value satisfies \<open>P\<close>.\<close>

lemma wait_live:
  assumes stop: "\<And>s. P (hw (trace s) p r) \<Longrightarrow> f s \<noteq> None"
    and again: "\<And>s. \<not> P (hw (trace s) p r) \<Longrightarrow> f s = f (snd (rd hw p r s))"
    and a: "answers hw p r P"
  shows "f s \<noteq> None"
proof -
  obtain k where "P (hw (replicate k (Rd p r) @ trace s) p r)" using a by (auto simp: answers_def)
  then show ?thesis
  proof (induction k arbitrary: s)
    case 0
    then show ?case using stop by simp
  next
    case (Suc k)
    have "trace (snd (rd hw p r s)) = Rd p r # trace s" by (simp add: rd_def)
    then have "f (snd (rd hw p r s)) \<noteq> None"
      using Suc.prems by (intro Suc.IH) (simp add: replicate_app_Cons_same)
    then show ?case using stop again [of s] by (cases "P (hw (trace s) p r)") auto
  qed
qed

lemma wait_bit_live:
  assumes f: "\<And>s. f s = (if hw (trace s) p r AND m \<noteq> 0 then Some (snd (rd hw p r s)) else f (snd (rd hw p r s)))"
    and a: "answers hw p r (\<lambda>v. v AND m = m)" and "m \<noteq> 0"
  shows "f s \<noteq> None"
proof (rule wait_live)
  show "answers hw p r (\<lambda>v. v AND m \<noteq> 0)" using a \<open>m \<noteq> 0\<close> unfolding answers_def by metis
  show "f s \<noteq> None" if "hw (trace s) p r AND m \<noteq> 0" for s using f [of s] that by simp
  show "f s = f (snd (rd hw p r s))" if "\<not> hw (trace s) p r AND m \<noteq> 0" for s
    using that by (subst f) simp
qed

lemma bind_live: "x \<noteq> None \<Longrightarrow> (\<And>y. x = Some y \<Longrightarrow> g y \<noteq> None) \<Longrightarrow> x \<bind> g \<noteq> None"
  by (cases x) auto

lemmas live_unfold = Let_def split_def Option.bind_eq_None_conv

section \<open>Clocks\<close>

lemma responsive_pmc:
  assumes "responsive hw"
  shows "answers hw PMC PMC_SR (\<lambda>v. v AND PMC_SR_MOSCXTS = PMC_SR_MOSCXTS)"
    "answers hw PMC PMC_SR (\<lambda>v. v AND PMC_SR_MOSCSELS = PMC_SR_MOSCSELS)"
    "answers hw PMC PMC_SR (\<lambda>v. v AND PMC_SR_LOCKA = PMC_SR_LOCKA)"
    "answers hw PMC PMC_SR (\<lambda>v. v AND PMC_SR_LOCKU = PMC_SR_LOCKU)"
  using assms by (simp_all add: responsive_def)

lemma osc_wait_live [live]: "responsive hw \<Longrightarrow> osc_wait_ready hw OSC_MAINCK_XTAL s \<noteq> None"
  by (rule wait_bit_live [OF _ responsive_pmc(1)], subst osc_wait_ready.simps)
    (simp_all add: osc_is_ready_def pmc_osc_is_ready_main_xtal_def rd_def Let_def)

lemma pll_wait_live [live]:
  assumes "responsive hw"
  shows "pll_wait_for_lock hw i s \<noteq> None"
proof (cases "i = 0")
  case True
  show ?thesis unfolding True
    by (rule wait_bit_live [OF _ responsive_pmc(3) [OF assms]], subst pll_wait_for_lock.simps)
      (simp_all add: pll_is_locked_def pmc_is_locked_pllack_def rd_def Let_def)
next
  case False
  then show ?thesis
    by (intro wait_bit_live [OF _ responsive_pmc(4) [OF assms]], subst pll_wait_for_lock.simps)
      (simp_all add: pll_is_locked_def pmc_is_locked_upll_def rd_def Let_def)
qed

lemma wait_mainck_live [live]: "responsive hw \<Longrightarrow> wait_mainck hw s \<noteq> None"
  by (rule wait_bit_live [OF _ responsive_pmc(2)], subst wait_mainck.simps)
    (simp_all add: pmc_osc_is_ready_mainck_def rd_def Let_def)

lemma osc_enable_live [live]: "responsive hw \<Longrightarrow> osc_enable hw OSC_MAINCK_XTAL s \<noteq> None"
  unfolding osc_enable_def pmc_osc_enable_main_xtal_def pmc_wait_for_def
  using poll_answers [OF responsive_pmc(1), of hw] by simp

lemma clocks_live [live]:
  assumes "responsive hw"
  shows "sysclk_init hw s \<noteq> None" "sysclk_enable_usb hw s \<noteq> None"
  using assms
  by (simp_all add: sysclk_init_def sysclk_switch_def sysclk_enable_usb_def pll_enable_source_def
      select_mainck_def live_unfold live)

section \<open>Flash\<close>

lemma FCMD_small: "c AND 0xFF = c \<Longrightarrow> FCR_FCMD (EEFC_FCR_word a c) = c"
  by (simp add: FCR_fields)

lemma flash_poll_live:
  assumes "responsive hw" and "x = (if FCR_FCMD w = EFC_FCMD_STUI then 0 else EEFC_FSR_FRDY)"
  shows "poll hw EFC0 EEFC_FSR EEFC_FSR_FRDY x (wr EFC0 EEFC_FCR w s) \<noteq> None"
  by (rule poll_live) (use assms in \<open>simp add: responsive_def flash_answers_def wr_def\<close>)

lemma efc_command_live [live]:
  "responsive hw \<Longrightarrow> c AND 0xFF = c \<Longrightarrow> efc_perform_command hw EFC0 c a s \<noteq> None"
  by (simp add: efc_perform_command_def efc_perform_fcr_def live_unfold FCMD_small flash_poll_live
     )

lemma read_unique_id_live [live]: "responsive hw \<Longrightarrow> flash_read_unique_id hw n s \<noteq> None"
  by (simp add: flash_read_unique_id_def efc_perform_read_sequence_def live_unfold FCMD_small
      flash_poll_live)

lemma gpnvm_live [live]:
  assumes "responsive hw"
  shows "flash_is_gpnvm_set hw g s \<noteq> None" "flash_clear_gpnvm hw g s \<noteq> None"
  using assms by (simp_all add: flash_is_gpnvm_set_def flash_clear_gpnvm_def live_unfold live)

lemma flash_write_loop_live [live]:
  assumes "responsive hw" and "sz \<le> 256 - ucast off" and "off < 256"
  shows "flash_write_loop hw EFC0 page off bs sz e s \<noteq> None"
proof -
  have m: "min (256 - ucast off) sz = sz" using assms(2) by (simp add: min_def)
  have z: "flash_write_loop hw EFC0 (page + 1) 0 (drop (unat sz) bs) (sz - sz) e t \<noteq> None" for t :: "'a mach_scheme"
    by (subst flash_write_loop.simps) simp
  show ?thesis
    by (subst flash_write_loop.simps)
      (use assms(1) z in \<open>simp add: live_unfold live m\<close>)
qed

lemma lock_loop_live [live]:
  assumes "responsive hw" and "c AND 0xFF = c"
  shows "unat fin \<le> 0xFFC0 \<Longrightarrow> lock_loop hw EFC0 c page fin s \<noteq> None"
proof (induction "unat fin - unat page" arbitrary: page s rule: less_induct)
  case less
  show ?case
  proof (cases "page < fin")
    case True
    then have "unat page < unat fin" by (simp add: word_less_nat_alt)
    then have "unat (page + 32) = unat page + 32" using less.prems by (simp add: unat_word_ariths)
    then have "lock_loop hw EFC0 c (page + 32) fin t \<noteq> None" for t :: "'a mach_scheme"
      using \<open>unat page < unat fin\<close> less.prems by (intro less.hyps) simp_all
    then show ?thesis
      by (subst lock_loop.simps) (use assms in \<open>simp add: live_unfold live\<close>)
  qed (subst lock_loop.simps, simp)
qed

lemma flash_table_live [live]:
  assumes "responsive hw"
  shows "store_flash_table hw u s \<noteq> None" "init_build_usb_serial_number hw u s \<noteq> None"
proof -
  show i: "init_build_usb_serial_number hw u s \<noteq> None" for s :: "'a app_scheme"
    using assms by (simp add: init_build_usb_serial_number_def live_unfold live)
  have p: "fst (translate_address a) = EFC0" for a by (simp add: translate_address_def)
  have l: "flash_unlock hw 0x9FF00 0x9FFFF t \<noteq> None" "flash_lock hw 0x9FF00 0x9FFFF t \<noteq> None"
    "flash_write hw 0x9FF00 b 256 1 t \<noteq> None" for b and t :: "'a app_scheme"
    using assms
    by (simp_all add: flash_unlock_def flash_lock_def flash_write_def compute_lock_range_def
        translate_address_def live_unfold live)
  show "store_flash_table hw u s \<noteq> None"
    using l i by (simp add: store_flash_table_def live_unfold)
qed

section \<open>Board functions\<close>

lemma responsive_twi:
  assumes "responsive hw"
  shows "answers hw TWI0 TWI_SR (\<lambda>v. v AND TWI_SR_NACK \<noteq> 0 \<or> v AND TWI_SR_TXRDY \<noteq> 0)"
    "answers hw TWI0 TWI_SR (\<lambda>v. v AND TWI_SR_TXCOMP = TWI_SR_TXCOMP)"
  using assms by (simp_all add: responsive_def)

lemma twi_wait_sent_live [live]: "responsive hw \<Longrightarrow> twi_wait_sent hw TWI0 s \<noteq> None"
  by (rule wait_live [OF _ _ responsive_twi(1)]; (subst twi_wait_sent.simps)?)
    (simp_all add: rd_def Let_def)

lemma twi_send_live [live]:
  assumes "responsive hw"
  shows "twi_send hw TWI0 b i cnt s \<noteq> None"
proof (induction "unat cnt" arbitrary: i cnt s)
  case 0
  then show ?case by (subst twi_send.simps) (simp add: unat_eq_zero)
next
  case (Suc n)
  have c: "cnt \<noteq> 0" using Suc.hyps(2) by auto
  then have "n = unat (cnt - 1)" using Suc.hyps(2) by simp
  then have next_byte: "twi_send hw TWI0 b (Suc i) (cnt - 1) t \<noteq> None" for t :: "'a mach_scheme"
    by (rule Suc.hyps(1))
  show ?case
    by (rule wait_live [OF _ _ responsive_twi(1) [OF assms]]; (subst twi_send.simps)?)
      (use c next_byte in \<open>simp_all add: rd_def Let_def\<close>)
qed

lemma twi_live [live]:
  assumes "responsive hw"
  shows "twi_master_write hw TWI0 k s \<noteq> None" "twi_master_read hw TWI0 k s \<noteq> None"
  using assms
  by (simp_all add: twi_master_write_def twi_master_read_def live_unfold live
      poll_answers [OF responsive_twi(2)])

lemma twi_devices_live [live]:
  assumes "responsive hw"
  shows "write_ad5122 hw c ch a b s \<noteq> None" "write_adm1177 hw bs ct t \<noteq> None" "read_adm1177 hw ct t \<noteq> None"
  using assms
  by (simp_all add: write_ad5122_def write_adm1177_def read_adm1177_def live_unfold live)

lemma write_ad5663_live [live]: "responsive hw \<Longrightarrow> write_ad5663 hw c d s \<noteq> None"
  by (simp add: write_ad5663_def live_unfold poll_answers responsive_def)

lemma get_sample_live [live]: "responsive hw \<Longrightarrow> get_sample_ad7682 hw ch cfg d s \<noteq> None"
  by (simp add: get_sample_ad7682_def ad7682_convert_def ad7682_port_def live_unfold poll_answers
      responsive_def)

lemma board_live [live]:
  assumes "responsive hw"
  shows "set_mode hw ch m s \<noteq> None" "init_hardware hw j s \<noteq> None" "config_hardware hw s \<noteq> None"
  using assms
  by (simp_all add: set_mode_def init_hardware_def config_hardware_def live_unfold live)

section \<open>Endpoints\<close>

lemma kill_banks_live [live]:
  assumes "responsive hw"
  shows "kill_banks hw ep s \<noteq> None"
proof (induction "unat (busy_banks hw ep (trace s))" arbitrary: s rule: less_induct)
  case less
  have b: "banks_killed hw" using assms by (simp add: responsive_def)
  let ?w = "ept_wr ep EPTSETSTA KILL_BANK (snd (udd_nb_busy_bank hw ep s))"
  have n: "fst (udd_nb_busy_bank hw ep s) = busy_banks hw ep (trace s)"
    by (simp add: udd_nb_busy_bank_def Rd_bitfield_def rd_def busy_banks_def Let_def)
  have t: "trace ?w = Wr UDPHS (EPT ep EPTSETSTA) KILL_BANK # Rd UDPHS (EPT ep EPTSTA) # trace s"
    by (simp add: udd_nb_busy_bank_def Rd_bitfield_def rd_def wr_def Let_def)
  show ?case
  proof (cases "busy_banks hw ep (trace s) = 0")
    case True
    then show ?thesis using n by (subst kill_banks.simps) (simp add: split_def Let_def)
  next
    case False
    have "poll hw UDPHS (EPT ep EPTSTA) KILL_BANK 0 ?w \<noteq> None"
      using b by (intro poll_answers) (simp add: banks_killed_def)
    then obtain x u where p: "poll hw UDPHS (EPT ep EPTSTA) KILL_BANK 0 ?w = Some (x, u)"
      by (auto simp: not_None_eq)
    then obtain k where "u = trace_update (\<lambda>t. replicate k (Rd UDPHS (EPT ep EPTSTA)) @ t) ?w"
      by (auto dest!: poll_Some)
    then have "busy_banks hw ep (trace u) < busy_banks hw ep (trace s)"
      using b False t by (simp add: banks_killed_def)
    then have "kill_banks hw ep u \<noteq> None" by (intro less) (simp add: word_less_nat_alt)
    then show ?thesis using n False p by (subst kill_banks.simps) (simp add: split_def Let_def)
  qed
qed

lemma abort_live [live]: "responsive hw \<Longrightarrow> udd_ep_abort hw ep s \<noteq> None"
  by (simp add: udd_ep_abort_def live_unfold live)

lemma unalloc_eps_live:
  assumes "ep = 1 \<or> ep = 2"
  shows "unalloc_eps hw ep 2 a s \<noteq> None"
proof -
  have z: "unalloc_eps hw 1 0 a s \<noteq> None" "unalloc_eps hw 2 1 a s \<noteq> None" for a and s :: "'a mach_scheme"
    by (subst unalloc_eps.simps, simp add: word_le_nat_alt)+
  have o: "unalloc_eps hw 1 1 a s \<noteq> None" for a and s :: "'a mach_scheme"
    by (subst unalloc_eps.simps) (use z in \<open>simp add: split_def Let_def\<close>)
  show ?thesis using assms
    by (elim disjE) (hypsubst, subst unalloc_eps.simps, use z o in \<open>simp add: split_def Let_def\<close>)+
qed

lemma alloc_live:
  "ep AND 0xF = 1 \<or> ep AND 0xF = 2 \<Longrightarrow> udd_ep_alloc hw ep att mx s \<noteq> None"
  by (auto simp: udd_ep_alloc_def live_unfold unalloc_eps_live split: option.split)

section \<open>The device core\<close>

lemma udc_next_desc_eq:
  assumes "fw_inv s"
  shows "udc_next_desc_in_iface 9 USB_DT_ENDPOINT s = Some None"
    "udc_next_desc_in_iface 18 USB_DT_ENDPOINT s = Some (Some 27)"
    "udc_next_desc_in_iface 27 USB_DT_ENDPOINT s = Some (Some 34)"
    "udc_next_desc_in_iface 34 USB_DT_ENDPOINT s = Some None"
    and "conf_desc s ! 29 = 0x81" "conf_desc s ! 36 = 2"
proof -
  from assms obtain ty lo hi where "conf_desc s = udc_desc ty lo hi" by (rule conf_descE)
  note d = this udc_get_eof_conf_eq [OF assms] udc_next_desc_in_iface_def udc_desc_def udi_vendor_desc_def
  show "udc_next_desc_in_iface 9 USB_DT_ENDPOINT s = Some None"
    "udc_next_desc_in_iface 18 USB_DT_ENDPOINT s = Some (Some 27)"
    "udc_next_desc_in_iface 27 USB_DT_ENDPOINT s = Some (Some 34)"
    "udc_next_desc_in_iface 34 USB_DT_ENDPOINT s = Some None"
    by (simp_all add: d next_desc.simps [of _ 41 _ 18] next_desc.simps [of _ 41 _ 27]
        next_desc.simps [of _ 41 _ 34] next_desc.simps [of _ 41 _ 41])
  show "conf_desc s ! 29 = 0x81" "conf_desc s ! 36 = 2" by (simp_all add: d)
qed

lemma free_eps_live:
  assumes "fw_inv s"
  shows "free_eps hw 9 s \<noteq> None" "free_eps hw 18 s \<noteq> None"
proof -
  have a: "free_eps hw 34 t \<noteq> None" if "fw_inv t" for t :: "'a usb_scheme"
    by (subst free_eps.simps) (simp add: udc_next_desc_eq [OF that])
  have b: "free_eps hw 27 t \<noteq> None" if "fw_inv t" for t :: "'a usb_scheme"
    by (subst free_eps.simps) (use a inv_free [OF that] in \<open>simp add: udc_next_desc_eq [OF that]\<close>)
  show "free_eps hw 9 s \<noteq> None" by (subst free_eps.simps) (simp add: udc_next_desc_eq [OF assms])
  show "free_eps hw 18 s \<noteq> None"
    by (subst free_eps.simps) (use b inv_free [OF assms] in \<open>simp add: udc_next_desc_eq [OF assms]\<close>)
qed

lemma alloc_step_live:
  fixes s :: "'z usb_scheme"
  assumes "fw_inv s" and "udc_next_desc_in_iface p USB_DT_ENDPOINT s = Some (Some q)"
    and "conf_desc s ! (q + 2) \<in> {0x81, 2}" and "\<And>t :: 'z usb_scheme. fw_inv t \<Longrightarrow> alloc_eps hw q t \<noteq> None"
  shows "alloc_eps hw p s \<noteq> None"
proof -
  have "conf_desc s ! (q + 2) AND 0xF = 1 \<or> conf_desc s ! (q + 2) AND 0xF = 2" using assms(3) by auto
  then have "udd_ep_alloc hw (conf_desc s ! (q + 2)) (conf_desc s ! (q + 3))
      (ucast (conf_desc s ! (q + 4)) OR push_bit 8 (ucast (conf_desc s ! (q + 5)))) s \<noteq> None"
    by (rule alloc_live)
  then obtain ok t where t: "udd_ep_alloc hw (conf_desc s ! (q + 2)) (conf_desc s ! (q + 3))
      (ucast (conf_desc s ! (q + 4)) OR push_bit 8 (ucast (conf_desc s ! (q + 5)))) s = Some (ok, t)"
    by (metis option.exhaust surj_pair)
  then have "alloc_eps hw q t \<noteq> None" using inv_alloc [OF t assms(1)] assms(4) by simp
  then show ?thesis using t by (subst alloc_eps.simps) (simp add: assms(2))
qed

lemma alloc_eps_live:
  assumes "fw_inv s"
  shows "alloc_eps hw 9 s \<noteq> None" "alloc_eps hw 18 s \<noteq> None"
proof -
  show "alloc_eps hw 9 s \<noteq> None" by (subst alloc_eps.simps) (simp add: udc_next_desc_eq [OF assms])
  have a: "alloc_eps hw 34 t \<noteq> None" if "fw_inv t" for t :: "'a usb_scheme"
    by (subst alloc_eps.simps) (simp add: udc_next_desc_eq [OF that])
  have b: "alloc_eps hw 27 t \<noteq> None" if "fw_inv t" for t :: "'a usb_scheme"
    by (rule alloc_step_live [OF that udc_next_desc_eq(3) [OF that] _ a]) (simp add: udc_next_desc_eq [OF that])
  show "alloc_eps hw 18 s \<noteq> None"
    by (rule alloc_step_live [OF assms udc_next_desc_eq(2) [OF assms] _ b]) (simp add: udc_next_desc_eq [OF assms])
qed

text \<open>The device core returns in every state that satisfies the invariant.\<close>

lemma iface_disable_live:
  assumes "fw_inv s"
  shows "udc_iface_disable hw i s \<noteq> None"
  by (auto simp: udc_iface_disable_def udc_update_iface_eq assms live_unfold free_eps_live)

lemma iface_enable_live:
  assumes "fw_inv s"
  shows "udc_iface_enable hw i a s \<noteq> None"
  by (auto simp: udc_iface_enable_def udc_update_iface_eq assms live_unfold alloc_eps_live)

lemma disable_ifaces_live: "fw_inv s \<Longrightarrow> disable_ifaces hw is s \<noteq> None"
proof (induction "is" arbitrary: s)
  case (Cons i "is")
  show ?case unfolding disable_ifaces.simps
  proof (rule bind_live)
    fix y assume "udc_iface_disable hw i s = Some y"
    then have "fw_inv (snd y)" using Cons.prems by (rule inv_iface_disable)
    then show "(case y of (_, s) \<Rightarrow> disable_ifaces hw is s) \<noteq> None" by (simp add: split_def Cons.IH)
  qed (rule iface_disable_live [OF Cons.prems])
qed simp

lemma enable_ifaces_live: "fw_inv s \<Longrightarrow> enable_ifaces hw is s \<noteq> None"
proof (induction "is" arbitrary: s)
  case (Cons i "is")
  show ?case unfolding enable_ifaces.simps
  proof (rule bind_live)
    fix y assume "udc_iface_enable hw i 0 s = Some y"
    then have "fw_inv (snd y)" using Cons.prems by (rule inv_iface_enable)
    then show "(case y of (ok, s) \<Rightarrow> if \<not> ok then Some (False, s) else enable_ifaces hw is s) \<noteq> None"
      by (simp add: split_def Cons.IH)
  qed (rule iface_enable_live [OF Cons.prems])
qed simp

lemma udc_reset_live: "fw_inv s \<Longrightarrow> udc_reset hw s \<noteq> None"
  by (simp add: udc_reset_def live_unfold disable_ifaces_live)

lemma set_configuration_live:
  assumes "fw_inv s"
  shows "udc_req_std_dev_set_configuration hw s \<noteq> None"
proof -
  let ?t = "snd (udd_is_high_speed hw (snd (udd_getaddress hw s)))"
  have t: "fw_inv ?t" using assms by (simp add: inv_simps)
  show ?thesis
  proof (cases "wLength (req s) = 0 \<and> fst (udd_getaddress hw s) \<noteq> 0 \<and> \<not> 1 < wValue (req ?t) AND 0xFF")
    case True
    obtain u where u: "udc_reset hw ?t = Some u" using udc_reset_live [OF t] by (auto simp: not_None_eq)
    have "fw_inv (u\<lparr>udc_num_configuration := ucast (wValue (req u) AND 0xFF)\<rparr>)"
      using True inv_udc_reset [OF u t] req_udc_reset [OF u] by (simp add: inv_numbers u16_low_le1)
    then show ?thesis using True u
      by (simp add: udc_req_std_dev_set_configuration_def live_unfold enable_ifaces_live inv_simps)
  qed (auto simp: udc_req_std_dev_set_configuration_def Let_def split_def)
qed

lemma std_requests_live:
  assumes "fw_inv s" and "responsive hw"
  shows "udc_req_std_dev_set_feature hw s \<noteq> None" "udc_req_std_ep_set_feature hw s \<noteq> None"
    "udc_req_std_iface_get_setting s \<noteq> None"
  using assms
  by (simp_all add: udc_req_std_dev_set_feature_def udc_req_std_ep_set_feature_def
      udc_req_std_iface_get_setting_def live_unfold live inv_simps udc_reset_live udc_update_iface_eq)

lemma set_setting_live:
  assumes "fw_inv s"
  shows "udc_req_std_iface_set_setting hw s \<noteq> None"
proof -
  have "udc_iface_disable hw i s \<bind> (\<lambda>(ok, s). if \<not> ok then Some (False, s) else udc_iface_enable hw i a s) \<noteq> None"
    for i a
    by (rule bind_live [OF iface_disable_live [OF assms]])
      (auto simp: iface_enable_live split: prod.split dest!: inv_iface_disable [OF _ assms])
  then show ?thesis by (simp add: udc_req_std_iface_set_setting_def Let_def)
qed

lemma reqstd_live: "fw_inv s \<Longrightarrow> responsive hw \<Longrightarrow> udc_reqstd hw s \<noteq> None"
  by (simp add: udc_reqstd_def reqstd_in_def reqstd_out_def Let_def std_requests_live set_setting_live
      set_configuration_live)

lemma req_iface_live: "fw_inv s \<Longrightarrow> udc_req_iface s \<noteq> None" "fw_inv s \<Longrightarrow> udc_req_ep s \<noteq> None"
  by (simp_all add: udc_req_iface_def udc_req_ep_def ifaces_eq udc_update_iface_eq live_unfold)

lemma main_setup_handle_live: "responsive hw \<Longrightarrow> main_setup_handle hw s \<noteq> None"
proof -
  assume r: "responsive hw"
  have "setup_sampling hw s \<noteq> None" "setup_adm1177 hw s \<noteq> None" "setup_temperature hw s \<noteq> None"
    using r by (simp_all add: setup_sampling_def setup_adm1177_def setup_temperature_def live_unfold live)
  then have "vendor_request hw s \<noteq> None" using r
    by (simp add: vendor_request_def live_unfold live)
  then show ?thesis by (simp add: main_setup_handle_def live_unfold)
qed

lemma or_else_live:
  assumes "x \<noteq> None" and "\<And>z. x = Some z \<Longrightarrow> fw_inv (snd z)" and "\<And>s. fw_inv s \<Longrightarrow> f s \<noteq> None"
  shows "or_else x f \<noteq> None"
  unfolding or_else_def by (rule bind_live [OF assms(1)]) (use assms(2,3) in \<open>auto split: prod.split\<close>)

lemma process_setup_live:
  assumes "fw_inv s" and "responsive hw"
  shows "udc_process_setup hw s \<noteq> None"
proof -
  let ?s = "s\<lparr>payload_size := 0, callback := CC_null, over_under_run := None\<rparr>"
  have i: "fw_inv ?s" using assms(1) by simp
  have e: "or_else (if Udd_setup_recipient t = USB_REQ_RECIP_ENDPOINT then udc_req_ep t else Some (False, t))
      (main_setup_handle hw) \<noteq> None" if "fw_inv t" for t :: "'a usb_scheme"
    using that req_iface_live(2) [OF that]
    by (intro or_else_live main_setup_handle_live assms(2))
       (auto simp: udc_req_ep_def split: if_splits dest!: inv_req_ep_ifaces)
  have f: "or_else (if Udd_setup_recipient t = USB_REQ_RECIP_INTERFACE then udc_req_iface t else Some (False, t))
      (\<lambda>s. or_else (if Udd_setup_recipient s = USB_REQ_RECIP_ENDPOINT then udc_req_ep s else Some (False, s))
      (main_setup_handle hw)) \<noteq> None" if "fw_inv t" for t :: "'a usb_scheme"
    using that req_iface_live(1) [OF that]
    by (intro or_else_live e) (auto split: if_splits dest!: inv_req_iface)
  have g: "or_else (if Udd_setup_type ?s = USB_REQ_TYPE_STANDARD then udc_reqstd hw ?s else Some (False, ?s))
      (\<lambda>s. or_else (if Udd_setup_recipient s = USB_REQ_RECIP_INTERFACE then udc_req_iface s else Some (False, s))
      (\<lambda>s. or_else (if Udd_setup_recipient s = USB_REQ_RECIP_ENDPOINT then udc_req_ep s else Some (False, s))
      (main_setup_handle hw))) \<noteq> None"
    using i reqstd_live [OF i assms(2)] by (intro or_else_live f) (auto split: if_splits dest!: inv_reqstd)
  show ?thesis unfolding udc_process_setup_def Let_def using g by simp
qed

section \<open>The control endpoint\<close>

text \<open>
  During the OUT data phase, the bytes received so far fit into the payload. With packets of
  at most 64 bytes the copying loop then ends. \<open>out_ok\<close> says so; every step keeps it.
\<close>

definition out_ok :: "'z usb_scheme \<Rightarrow> bool" where
  "out_ok s \<longleftrightarrow> (udd_ep_control_state s = UDD_EPCTRL_DATA_OUT \<longrightarrow> udd_ctrl_payload_buf_cnt s \<le> payload_size s)"

lemma endofrequest_live [live]: "responsive hw \<Longrightarrow> udd_ctrl_endofrequest hw s \<noteq> None"
  by (simp add: udd_ctrl_endofrequest_def live split: ctrl_callback.split)

lemma in_sent_live [live]: "responsive hw \<Longrightarrow> udd_ctrl_in_sent hw s \<noteq> None"
  by (simp add: udd_ctrl_in_sent_def Let_def live)

lemma start_data_phase_live [live]: "responsive hw \<Longrightarrow> start_data_phase hw s \<noteq> None"
  by (simp add: start_data_phase_def Let_def live)

lemma setup_received_live:
  assumes "fw_inv s" and "responsive hw"
  shows "udd_ctrl_setup_received hw s \<noteq> None"
proof -
  let ?x = "if udd_ep_control_state s \<noteq> UDD_EPCTRL_SETUP
      then map_option udd_ctrl_init (udd_ctrl_endofrequest hw s) else Some s"
  have "?x \<noteq> None" using assms(2) by (simp add: live)
  then obtain t where t: "?x = Some t" by (auto simp: not_None_eq)
  have "fw_inv t" using t assms(1) by (auto simp: inv_ctrl split: if_splits dest!: inv_endofrequest)
  then have "udc_process_setup hw (u\<lparr>req := r\<rparr>) \<noteq> None"
    if "frame u = frame t" for r and u :: "'a usb_scheme"
    using assms(2) fw_inv_frame [OF that] by (intro process_setup_live) simp_all
  then show ?thesis using assms(2)
    by (simp add: udd_ctrl_setup_received_def t live_unfold live frame_simps)
qed

lemma out_ok_core:
  assumes "core s = core t"
  shows "out_ok s = out_ok t"
proof -
  have "udd_ctrl_payload_buf_cnt s = udd_ctrl_payload_buf_cnt t"
    using assms [THEN arg_cong, of udd_ctrl_payload_buf_cnt] by (simp add: core_def)
  then show ?thesis using core_fields [OF assms] by (simp add: out_ok_def)
qed

lemmas out_simps = core_simps [THEN out_ok_core]
lemmas outD = coreD [THEN out_ok_core]

lemma frame_copy_in [frame_simps]: "frame (copy_in hw p a n s) = frame s"
  by (induction n arbitrary: p a s) (simp_all add: Let_def split_def load_byte_def frame_simps)

lemma ctrl_vars_frame:
  fixes s t :: "'z usb_scheme"
  assumes "frame s = frame t"
  shows "udd_ep_control_state s = udd_ep_control_state t"
    "udd_ctrl_payload_buf_cnt s = udd_ctrl_payload_buf_cnt t" "payload_size s = payload_size t"
    "wLength (req s) = wLength (req t)" "over_under_run s = over_under_run t"
proof -
  obtain x where s: "s = t\<lparr>trace := x\<rparr>" using frame_fields(1) [OF assms] by blast
  show "udd_ep_control_state s = udd_ep_control_state t"
    "udd_ctrl_payload_buf_cnt s = udd_ctrl_payload_buf_cnt t" "payload_size s = payload_size t"
    "wLength (req s) = wLength (req t)" "over_under_run s = over_under_run t"
    by (simp_all add: s)
qed

lemmas ctrl_vars = frame_simps [THEN ctrl_vars_frame(1)] frame_simps [THEN ctrl_vars_frame(2)]
  frame_simps [THEN ctrl_vars_frame(3)]

lemma ctrl_vars_store:
  "udd_ep_control_state (store_byte p b s) = udd_ep_control_state s"
  "udd_ctrl_payload_buf_cnt (store_byte p b s) = udd_ctrl_payload_buf_cnt s"
  "payload_size (store_byte p b s) = payload_size s"
  by (cases "fst p"; simp add: store_byte_def ctrl_vars)+

lemma ctrl_vars_copy_out:
  "udd_ep_control_state (copy_out hw p a n s) = udd_ep_control_state s"
  "udd_ctrl_payload_buf_cnt (copy_out hw p a n s) = udd_ctrl_payload_buf_cnt s"
  "payload_size (copy_out hw p a n s) = payload_size s"
  by (induction n arbitrary: p a s) (simp_all add: Let_def split_def ctrl_vars ctrl_vars_store)

text \<open>The number of bytes that are copied: what was received, or what still fits.\<close>

definition out_count :: "u16 \<Rightarrow> u16 \<Rightarrow> u16 \<Rightarrow> u16" where
  "out_count sz cnt n = (if unat sz < unat cnt + unat n then sz - cnt else n)"

lemma out_count_fits:
  assumes "cnt \<le> sz"
  shows "cnt + out_count sz cnt n \<le> sz" "out_count sz cnt n \<le> n"
proof -
  have "unat cnt \<le> unat sz" using assms by (simp add: word_le_nat_alt)
  moreover have "unat sz < 65536" using unsigned_less [of sz] by simp
  ultimately have "unat (cnt + out_count sz cnt n) \<le> unat sz \<and> unat (out_count sz cnt n) \<le> unat n"
    using assms by (auto simp: out_count_def unat_sub unat_add_lem [THEN iffD1])
  then show "cnt + out_count sz cnt n \<le> sz" "out_count sz cnt n \<le> n"
    by (simp_all add: word_le_nat_alt)
qed

lemma byte_count_fits:
  assumes "ctrl_packets_fit hw"
  shows "(ucast (fst (udd_byte_count hw 0 s)) :: u16) \<le> 64"
proof -
  have "fst (udd_byte_count hw 0 s) \<le> 64" using assms
    by (simp add: ctrl_packets_fit_def udd_byte_count_def Rd_bitfield_def rd_def Let_def)
  then have "unat (fst (udd_byte_count hw 0 s)) \<le> 64" by (simp add: word_le_nat_alt)
  then show ?thesis by (simp add: word_le_nat_alt unsigned_ucast_eq take_bit_nat_eq_self)
qed

lemma out_received_live:
  assumes "out_ok s" and "responsive hw"
  shows "udd_ctrl_out_received hw s \<noteq> None"
proof (cases "udd_ep_control_state s = UDD_EPCTRL_DATA_OUT")
  case True
  let ?n = "out_count (payload_size s) (udd_ctrl_payload_buf_cnt s) (ucast (fst (udd_byte_count hw 0 s)))"
  have "?n \<le> ucast (fst (udd_byte_count hw 0 s))"
    using assms(1) True by (intro out_count_fits) (simp add: out_ok_def)
  also have "\<dots> \<le> 64" using assms(2) by (intro byte_count_fits) (simp add: responsive_def)
  finally have "\<not> 255 < ?n" by (simp add: word_le_nat_alt word_less_nat_alt)
  then show ?thesis using True
    by (auto simp: udd_ctrl_out_received_def Let_def split_def ctrl_vars out_count_def split: if_splits)
qed (use assms(2) in \<open>simp add: udd_ctrl_out_received_def live\<close>)

section \<open>Payload counters\<close>

lemma out_ok_idle [simp]: "udd_ep_control_state s \<noteq> UDD_EPCTRL_DATA_OUT \<Longrightarrow> out_ok s"
  by (simp add: out_ok_def)

lemma ctrl_state [simp]:
  "udd_ep_control_state (udd_ctrl_init s) = UDD_EPCTRL_SETUP"
  "udd_ep_control_state (udd_ctrl_stall_data s) = UDD_EPCTRL_STALL_REQ"
  "udd_ep_control_state (udd_ctrl_send_zlp_in s) = UDD_EPCTRL_HANDSHAKE_WAIT_IN_ZLP"
  "udd_ep_control_state (udd_ctrl_send_zlp_out s) = UDD_EPCTRL_HANDSHAKE_WAIT_OUT_ZLP"
  by (simp_all add: udd_ctrl_init_def udd_ctrl_stall_data_def udd_ctrl_send_zlp_in_def
      udd_ctrl_send_zlp_out_def Let_def ctrl_vars)

lemma out_ok_send_packet:
  assumes "udd_ep_control_state s = UDD_EPCTRL_DATA_OUT \<longrightarrow>
      unat (udd_ctrl_payload_buf_cnt s) + unat k \<le> unat (payload_size s)"
  shows "out_ok (send_packet hw k s)"
proof -
  have "unat (if 64 \<le> k then 64 else k) \<le> unat k" by (simp add: word_le_nat_alt)
  moreover have "unat (payload_size s) < 65536" using unsigned_less [of "payload_size s"] by simp
  ultimately have "udd_ctrl_payload_buf_cnt s + (if 64 \<le> k then 64 else k) \<le> payload_size s"
    if "udd_ep_control_state s = UDD_EPCTRL_DATA_OUT"
    using assms that by (simp only: word_le_nat_alt) (subst unat_add_lem [THEN iffD1]; simp)
  then show ?thesis
    by (simp add: send_packet_def Let_def split_def out_simps out_ok_def ctrl_vars)
qed

lemma out_ok_in_sent: "udd_ctrl_in_sent hw s = Some s' \<Longrightarrow> out_ok s \<Longrightarrow> out_ok s'"
  by (auto simp: udd_ctrl_in_sent_def Let_def ctrl_vars out_ok_def [of s] word_le_nat_alt unat_sub
      split: if_splits intro!: out_ok_send_packet)

lemma out_ok_setup_received: "udd_ctrl_setup_received hw s = Some s' \<Longrightarrow> out_ok s'"
  by (auto simp: udd_ctrl_setup_received_def start_data_phase_def Let_def split_def ctrl_vars out_ok_def [of "ept_wr _ _ _ _"]
      elim!: bind_SomeE split: if_splits dest!: out_ok_in_sent)

lemma out_ok_out_data_done:
  assumes "udd_ctrl_payload_buf_cnt s \<le> payload_size s"
  shows "out_ok (out_data_done hw n s)"
  using assms by (simp add: out_data_done_def Let_def out_simps out_ok_def ctrl_vars)

lemma out_ok_out_received:
  assumes "udd_ctrl_out_received hw s = Some s'" and "out_ok s"
  shows "out_ok s'"
proof (cases "udd_ep_control_state s = UDD_EPCTRL_DATA_OUT")
  case True
  let ?n = "out_count (payload_size s) (udd_ctrl_payload_buf_cnt s) (ucast (fst (udd_byte_count hw 0 s)))"
  have "udd_ctrl_payload_buf_cnt s + ?n \<le> payload_size s"
    using assms(2) True by (intro out_count_fits) (simp add: out_ok_def)
  then show ?thesis using True assms(1)
    by (auto simp: udd_ctrl_out_received_def Let_def split_def ctrl_vars ctrl_vars_copy_out out_count_def
        split: if_splits intro!: out_ok_out_data_done)
qed (use assms(1) in \<open>auto simp: udd_ctrl_out_received_def split: if_splits\<close>)

lemma out_ok_naks: "out_ok s \<Longrightarrow> out_ok (snd (ctrl_naks hw st s))"
  by (simp add: ctrl_naks_def udd_ctrl_overflow_def udd_ctrl_underflow_def Let_def split_def out_simps ctrl_vars)

lemma out_ok_ctrl_interrupt:
  "udd_ctrl_interrupt hw s = Some y \<Longrightarrow> out_ok s \<Longrightarrow> out_ok (snd y)"
  by (auto simp: udd_ctrl_interrupt_def Let_def split_def out_simps out_ok_naks split: if_splits
      dest!: out_ok_setup_received out_ok_in_sent out_ok_out_received)

lemma core_ep_interrupt: "core (snd (udd_ep_interrupt hw s)) = core s"
proof -
  have d: "core (dma_interrupt hw ep t) = core t" for ep and t :: "'a usb_scheme"
    by (simp add: dma_interrupt_def Let_def split_def core_simps)
  have "core (snd (ep_events hw ep t)) = core t" for ep and t :: "'a usb_scheme"
    by (simp only: ep_events_def Let_def split_def fst_conv snd_conv if_distrib [of snd] if_distrib [of core]
        core_simps core_upd_job core_jobs d if_cancel)
  then show ?thesis by (simp add: udd_ep_interrupt_def Let_def split_def)
qed

lemma out_ok_vars [simp]:
  "out_ok (udd_b_idle_update f s) = out_ok s" "out_ok (frame_number_update g s) = out_ok s"
  "out_ok (start_timer_update b s) = out_ok s" "out_ok (send_in_update b s) = out_ok s"
  "out_ok (send_out_update b s) = out_ok s" "out_ok (sending_in_update b s) = out_ok s"
  "out_ok (sending_out_update b s) = out_ok s" "out_ok (hwversion_update h s) = out_ok s"
  "out_ok (flash_table_update h s) = out_ok s" "out_ok (serial_number_update h s) = out_ok s"
  "out_ok (udc_ptr_iface_update k s) = out_ok s" "out_ok (reset_update b s) = out_ok s"
  "out_ok (udc_num_configuration_update n s) = out_ok s" "out_ok (udc_device_status_update v s) = out_ok s"
  by (simp_all add: out_ok_def)

lemma out_ok_bus_events: "bus_events hw s = Some s' \<Longrightarrow> out_ok s \<Longrightarrow> out_ok s'"
proof -
  have "out_ok t'" if "bus_reset hw t = Some t'" for t t' :: "'a usb_scheme"
    using that by (auto simp: bus_reset_def Let_def out_simps elim!: bind_SomeE)
  then show "bus_events hw s = Some s' \<Longrightarrow> out_ok s \<Longrightarrow> out_ok s'"
    by (auto simp: bus_events_def bus_suspend_def bus_wake_up_def udd_sleep_mode_def Let_def split_def
        out_simps split: if_splits)
qed

lemma out_ok_UDPHS_Handler: "UDPHS_Handler hw s = Some s' \<Longrightarrow> out_ok s \<Longrightarrow> out_ok s'"
  by (auto simp: UDPHS_Handler_def udc_sof_notify_def main_sof_action_def Let_def split_def out_simps
      core_ep_interrupt [THEN out_ok_core] elim!: bind_SomeE split: if_splits dest!: out_ok_ctrl_interrupt out_ok_bus_events)

lemma out_ok_wrp [simp]: "out_ok (wrp p r a s) = out_ok s"
  by (rule out_ok_core) simp

lemma out_ok_cpu_delay [simp]: "out_ok (cpu_delay_us n s) = out_ok s" "out_ok (cpu_delay_ms n s) = out_ok s"
  by (simp_all add: cpu_delay_us_def cpu_delay_ms_def out_simps)

lemma out_ok_write_ad5663: "write_ad5663 hw c d s = Some s' \<Longrightarrow> out_ok s' = out_ok s"
  by (auto simp: write_ad5663_def Let_def out_simps elim!: bind_SomeE dest!: outD)

lemma out_ok_main_pots: "main_pots hw ch s = Some s' \<Longrightarrow> out_ok s' = out_ok s"
  by (auto simp: main_pots_def write_ad5122_def Let_def out_simps elim!: bind_SomeE dest!: outD)

lemma out_ok_main_step: "main_step hw p s = Some c \<Longrightarrow> out_ok s \<Longrightarrow> out_ok (snd c)"
  by (cases p) (auto simp: main_step_def udi_vendor_bulk_in_run_def udi_vendor_bulk_out_run_def
      udd_detach_def udd_sleep_mode_def Let_def out_simps core_transfers [THEN out_ok_core] out_ok_write_ad5663 out_ok_main_pots)

lemma out_ok_TC2_Handler: "out_ok (TC2_Handler hw s) = out_ok s"
  by (cases "current_chan s")
    (simp_all add: TC2_Handler_A TC2_Handler_B next_slot_def TC2_switch_slot_def out_ok_def)

lemma out_ok_get_sample: "get_sample_ad7682 hw ch cfg d s = Some y \<Longrightarrow> out_ok (snd y) = out_ok s"
  by (auto simp: get_sample_ad7682_def ad7682_convert_def Let_def out_simps elim!: bind_SomeE dest!: outD)

lemma out_ok_set_up [simp]:
  "out_ok (enable_clocks hw is s) = out_ok s" "out_ok (configure_pins hw cs s) = out_ok s"
proof -
  show "out_ok (enable_clocks hw is s) = out_ok s"
    by (induction "is" arbitrary: s) (simp_all add: out_simps)
  show "out_ok (configure_pins hw cs s) = out_ok s"
  proof (induction cs arbitrary: s)
    case (Cons c cs)
    then show ?case by (cases c) (simp add: out_simps)
  qed simp
qed

lemma out_ok_init_parts [simp]:
  "out_ok (init_leds s) = out_ok s" "out_ok (init_serial_ports hw s) = out_ok s"
  "out_ok (init_sample_timer hw s) = out_ok s"
  by (simp_all add: init_leds_def init_serial_ports_def init_sample_timer_def Let_def out_simps)

lemma out_ok_init_hardware: "init_hardware hw j s = Some s' \<Longrightarrow> out_ok s' = out_ok s"
  by (auto simp: init_hardware_def Let_def out_simps simp del: enable_clocks.simps configure_pins.simps elim!: bind_SomeE dest!: out_ok_get_sample out_ok_write_ad5663)

lemma out_ok_main_init_board: "main_init_board hw s = Some s' \<Longrightarrow> out_ok s' = out_ok s"
  by (auto simp: main_init_board_def get_hwversion_def read_flash_table_def
      init_build_usb_serial_number_def Let_def split_def out_simps elim!: bind_SomeE split: if_splits
      dest!: outD out_ok_init_hardware)

lemma out_ok_udc_reset: "udc_reset hw s = Some s' \<Longrightarrow> out_ok s' = out_ok s"
proof -
  have d: "out_ok (snd y) = out_ok t" if "udc_iface_disable hw i t = Some y" for i y and t :: "'a usb_scheme"
    using that
    by (auto simp: udc_iface_disable_def udc_update_iface_desc_def udi_vendor_disable_def
        main_vendor_disable_def out_ok_def elim!: bind_SomeE split: if_splits
        dest!: core_free_eps [THEN out_ok_core, unfolded out_ok_def])
  have "disable_ifaces hw is t = Some t' \<Longrightarrow> out_ok t' = out_ok t" for "is" and t t' :: "'a usb_scheme"
    by (induction "is" arbitrary: t) (auto elim!: bind_SomeE dest!: d)
  then show "udc_reset hw s = Some s' \<Longrightarrow> out_ok s' = out_ok s"
    by (auto simp: udc_reset_def elim!: bind_SomeE split: if_splits)
qed

lemma out_ok_main_init_usb: "main_init_usb hw s = Some s' \<Longrightarrow> out_ok s' = out_ok s"
  by (auto simp: main_init_usb_def udc_stop_def udc_start_def udd_enable_def udd_disable_def udd_detach_def
      udd_attach_def udd_sleep_mode_def Let_def out_simps core_jobs [THEN out_ok_core]
      elim!: bind_SomeE dest!: outD out_ok_udc_reset)

lemma out_ok_reachable: "reachable fw c \<Longrightarrow> out_ok (snd c)"
proof (induction rule: reachable.induct)
  case (start hw s)
  have "out_ok (usb_init fw)" by (simp add: usb_init_def app.defs)
  with start show ?case
    by (auto simp: main_init_def elim!: bind_SomeE dest!: out_ok_main_init_board out_ok_main_init_usb)
next
  case (step c c')
  from step.hyps(2) step.IH show ?case
    by (cases rule: fw_stepE) (auto simp: out_ok_TC2_Handler intro: out_ok_main_step out_ok_UDPHS_Handler)
qed

section \<open>Handlers, start-up and the main loop\<close>

lemma bus_events_live:
  assumes "fw_inv s"
  shows "bus_events hw s \<noteq> None"
proof -
  have "bus_reset hw t \<noteq> None" if "fw_inv t" for t :: "'a usb_scheme"
    using that by (simp add: bus_reset_def live_unfold udc_reset_live inv_simps inv_job_table)
  then show ?thesis using assms by (simp add: bus_events_def Let_def split_def inv_simps)
qed

lemma ctrl_interrupt_live:
  assumes "fw_inv s" and "out_ok s" and "responsive hw"
  shows "udd_ctrl_interrupt hw s \<noteq> None"
  using assms
  by (simp add: udd_ctrl_interrupt_def Let_def split_def setup_received_live in_sent_live
      out_received_live inv_simps out_simps)

lemma UDPHS_Handler_live:
  assumes "fw_inv s" and "out_ok s" and "responsive hw"
  shows "UDPHS_Handler hw s \<noteq> None"
proof -
  have b: "(case y of (done, s) \<Rightarrow> if done then Some s
      else let (done, s) = udd_ep_interrupt hw s in if done then Some s else bus_events hw s) \<noteq> None"
    if "udd_ctrl_interrupt hw t = Some y" "fw_inv t" for y and t :: "'a usb_scheme"
    using inv_ctrl_interrupt [OF that] by (simp add: Let_def split_def bus_events_live inv_ep_interrupt)
  have "udd_ctrl_interrupt hw t \<bind> (\<lambda>(done, s). if done then Some s
      else let (done, s) = udd_ep_interrupt hw s in if done then Some s else bus_events hw s) \<noteq> None"
    if "fw_inv t" "out_ok t" for t :: "'a usb_scheme"
    using b that assms(3) by (intro bind_live ctrl_interrupt_live)
  then show ?thesis using assms(1,2)
    by (simp add: UDPHS_Handler_def Let_def split_def inv_simps out_simps)
qed

lemma main_step_live:
  assumes "responsive hw"
  shows "main_step hw p s \<noteq> None"
  using assms by (cases p) (simp_all add: main_step_def main_pots_def live)

lemma main_init_live:
  assumes "fw_inv s" and "responsive hw"
  shows "main_init hw s \<noteq> None"
proof -
  have b: "main_init_board hw s \<noteq> None" using assms(2) by (simp add: main_init_board_def live_unfold live)
  have "main_init_usb hw t \<noteq> None" if "fw_inv t" for t :: "'a usb_scheme"
    using that assms(2)
    by (simp add: main_init_usb_def udc_stop_def udc_start_def udd_enable_def live_unfold live
        udc_reset_live inv_device)
  then show ?thesis unfolding main_init_def using b inv_main_init_board [OF _ assms(1)]
    by (intro bind_live) blast+
qed

section \<open>A responsive machine\<close>

text \<open>
  A machine whose peripherals are always ready. The flash controller shows what its last command
  calls for; no bank of an endpoint is busy and no USB event is pending.
\<close>

definition ready_hw :: hw where
  "ready_hw tr p r =
     (if p = UDPHS then 0
      else if p = EFC0 \<and> r = EEFC_FSR
      then if FCR_FCMD (reg_of EFC0 EEFC_FCR 0 tr) = EFC_FCMD_STUI then 0 else EEFC_FSR_FRDY
      else -1)"

lemma responsive_ready: "responsive ready_hw"
  by (simp add: responsive_def answers_def flash_answers_def banks_killed_def busy_banks_def
      ctrl_packets_fit_def ready_hw_def)

declare not_None_eq [iff]

end
