(* ===== verification/Bulk_Transfer.thy ===== *)
theory Bulk_Transfer
  imports Liveness
begin

text \<open>
  What a bulk transfer does to the memory of the program. The DMA channel of an endpoint is
  loaded with one address and one length after the other; the loads that a trace contains are
  compared with a reference: the buffer cut into parts of at most 64 KiB, in order, none
  twice and none left out. The callback of the transfer runs when the last part is done, and
  not before.
\<close>

section \<open>Loads of a DMA channel\<close>

text \<open>The length field of the control word is 16 bits wide; zero stands for 64 KiB.\<close>

definition dma_length :: "u32 \<Rightarrow> nat" where
  "dma_length v = (if drop_bit 16 v = 0 then 65536 else unat (drop_bit 16 v))"

primrec dma_addr :: "u8 \<Rightarrow> event list \<Rightarrow> ptr" where
  "dma_addr ep [] = (O_null, 0)"
| "dma_addr ep (e # tr) =
     (case e of
        WrP p r a \<Rightarrow> if p = UDPHS \<and> r = DMA ep DMAADDR then a else dma_addr ep tr
      | _ \<Rightarrow> dma_addr ep tr)"

text \<open>A load: the control register is written with the channel enabled. Newest first.\<close>

primrec dma_loads :: "u8 \<Rightarrow> event list \<Rightarrow> (ptr \<times> nat) list" where
  "dma_loads ep [] = []"
| "dma_loads ep (e # tr) =
     (case e of
        Wr p r v \<Rightarrow>
          if p = UDPHS \<and> r = DMA ep DMACONTROL \<and> v AND CHANN_ENB \<noteq> 0
          then (dma_addr ep tr, dma_length v) # dma_loads ep tr else dma_loads ep tr
      | _ \<Rightarrow> dma_loads ep tr)"

text \<open>The reference: a buffer of \<open>n\<close> bytes in parts of at most 64 KiB.\<close>

function parts :: "ptr \<Rightarrow> nat \<Rightarrow> (ptr \<times> nat) list" where
  "parts a n = (if n = 0 then []
     else (a, min 65536 n) # parts (fst a, snd a + min 65536 n) (n - min 65536 n))"
  by pat_completeness auto
termination by (relation "measure snd") auto

declare parts.simps [simp del]

text \<open>The state apart from the accesses and from the jobs.\<close>

definition rest :: "'z usb_scheme \<Rightarrow> 'z usb_scheme" where
  "rest s = s\<lparr>trace := [], udd_ep_job := []\<rparr>"

text \<open>Every part is transferred: the channel has stopped, with nothing left in it.\<close>

definition dma_completes :: "hw \<Rightarrow> u8 \<Rightarrow> bool" where
  "dma_completes hw ep \<longleftrightarrow> (\<forall>tr. hw tr UDPHS (DMA ep DMASTATUS) = 0)"

named_theorems quiet "accesses that load no DMA channel"

lemma rest_frame: "frame s = frame t \<Longrightarrow> rest s = rest t"
  using frame_fields(1) [of s t] by (cases s; cases t) (auto simp: rest_def frame_def)

lemmas rest_simps = frame_simps [THEN rest_frame]

definition view :: "u8 \<Rightarrow> 'z usb_scheme \<Rightarrow> (ptr \<times> nat) list \<times> ptr \<times> udd_ep_job_t list \<times> 'z usb_scheme" where
  "view ep s = (dma_loads ep (trace s), dma_addr ep (trace s), udd_ep_job s, rest s)"

lemma view_wr [quiet]:
  "r \<noteq> DMA ep DMACONTROL \<Longrightarrow> view ep (wr UDPHS r v s) = view ep s"
  by (simp add: view_def wr_def rest_def)

lemma view_rd [quiet]: "view ep (snd (rd hw p r s)) = view ep s"
  by (simp add: view_def rd_def rest_def)

lemma view_rmw [quiet]:
  "r \<noteq> DMA ep DMACONTROL \<Longrightarrow> view ep (rmw hw UDPHS r f s) = view ep s"
  by (simp add: rmw_def Let_def split_def quiet)

lemma IEN_not_DMA [simp]: "UDPHS_IEN \<noteq> DMA ep r" "DMA ep DMAADDR \<noteq> DMA ep DMACONTROL"
  by (simp_all add: DMA_def)

lemma view_bits [quiet]:
  "view ep (snd (Tst_bits hw r m s)) = view ep s"
  "view ep (snd (Rd_bitfield hw r m k s)) = view ep s"
  "view ep (Set_bits hw UDPHS_IEN m s) = view ep s"
  "view ep (Clr_bits hw UDPHS_IEN m s) = view ep s"
  by (simp_all add: Tst_bits_def Rd_bitfield_def Set_bits_def Clr_bits_def Let_def split_def quiet)

lemma view_endpoint [quiet]:
  "view ep (snd (Is_udd_endpoint_enabled hw e s)) = view ep s"
  "view ep (snd (Is_udd_endpoint_stall_requested hw e s)) = view ep s"
  "view ep (snd (Is_udd_endpoint_in hw e s)) = view ep s"
  "view ep (snd (udd_get_endpoint_size hw e s)) = view ep s"
  by (simp_all add: Is_udd_endpoint_enabled_def Is_udd_endpoint_stall_requested_def Is_udd_endpoint_in_def
      udd_get_endpoint_size_def Let_def split_def quiet)

section \<open>One part\<close>

lemma view_job:
  assumes "view ep s = (ls, a, js, r)" and "job_ok ep"
  shows "get_job ep s = (js ! (unat ep - 1), s)"
    and "view ep (upd_job ep f s) = (ls, a, js[unat ep - 1 := f (js ! (unat ep - 1))], r)"
  using assms by (auto simp: view_def get_job_def upd_job_eq rest_def)

lemma view_get_job [quiet]: "job_ok ep \<Longrightarrow> view ep (snd (get_job ep s)) = view ep s"
  by (simp add: get_job_def)

text \<open>The transfer that \<open>udd_ep_run\<close> has set up, with \<open>c\<close> bytes handed out so far.\<close>

definition running :: "ptr \<Rightarrow> u32 \<Rightarrow> trans_callback \<Rightarrow> u32 \<Rightarrow> udd_ep_job_t \<Rightarrow> bool" where
  "running b sz cb c j \<longleftrightarrow> busy j \<and> buf j = b \<and> buf_size j = sz \<and> buf_cnt j = c \<and>
     call_trans j = cb \<and> \<not> b_shortpacket j"

lemma dma_ctrl_view:
  fixes s :: "'z usb_scheme"
  assumes "view ep s = (ls, a, js, r)" and "job_ok ep" and "length js = 2"
    and "\<not> b_shortpacket (js ! (unat ep - 1))"
  shows "view ep (snd (dma_ctrl hw ep s)) = (ls, a, js, r)"
    and "\<exists>x. x AND 0xFFFF0000 = 0 \<and> fst (dma_ctrl hw ep s) =
       BUFF_LENGTH (if UDD_ENDPOINT_MAX_TRANS < buf_size (js ! (unat ep - 1)) - buf_cnt (js ! (unat ep - 1))
         then 0 else next_trans (js ! (unat ep - 1))) OR x"
proof -
  let ?j = "js ! (unat ep - 1)"
  note g = view_job(1) [OF assms(1,2)]
  have e: "?j\<lparr>b_shortpacket := False\<rparr> = ?j" using assms(4) by (cases ?j) simp
  have u: "view ep (upd_job ep (b_shortpacket_update (\<lambda>_. False)) t) = (ls, a, js, r)"
    if "view ep t = (ls, a, js, r)" for t :: "'z usb_scheme"
    using view_job(2) [OF that assms(2), of "b_shortpacket_update (\<lambda>_. False)"] e by simp
  show "view ep (snd (dma_ctrl hw ep s)) = (ls, a, js, r)"
    using assms(1) by (simp add: dma_ctrl_def Let_def split_def g quiet u)
  have z: "\<exists>x. x AND 0xFFFF0000 = 0 \<and> w = w OR x" "\<exists>x. x AND 0xFFFF0000 = 0 \<and> w OR 8 = w OR x"
    "\<exists>x. x AND 0xFFFF0000 = 0 \<and> w OR 20 = w OR x" for w :: u32
    by (rule exI [of _ 0] exI [of _ 8] exI [of _ 20]; simp)+
  show "\<exists>x. x AND 0xFFFF0000 = 0 \<and> fst (dma_ctrl hw ep s) =
       BUFF_LENGTH (if UDD_ENDPOINT_MAX_TRANS < buf_size ?j - buf_cnt ?j then 0 else next_trans ?j) OR x"
    using z by (simp add: dma_ctrl_def Let_def split_def g)
qed

text \<open>The length that the hardware reads out of the control word is the length meant.\<close>

lemma dma_length_ctrl:
  fixes d x :: u32
  assumes "x AND 0xFFFF0000 = 0" and "d \<noteq> 0"
  shows "dma_length ((BUFF_LENGTH (if 0x10000 < d then 0 else min 0x10000 d) OR x) OR 0x21) = min 65536 (unat d)"
proof -
  let ?n = "if 0x10000 < d then 0 else min 0x10000 d"
  have x: "drop_bit 16 x = 0"
  proof (rule bit_word_eqI)
    fix k assume "k < LENGTH(32)"
    have "\<not> bit (x AND 0xFFFF0000) (16 + k)" using assms(1) by simp
    moreover have "(0xFFFF0000 :: u32) = push_bit 16 (mask 16)"
      by (simp add: mask_eq_exp_minus_1 push_bit_eq_mult)
    then have "bit (0xFFFF0000 :: u32) (16 + k) \<or> \<not> k < 16"
      by (simp only: bit_push_bit_iff bit_mask_iff) auto
    ultimately show "bit (drop_bit 16 x) k = bit 0 k"
      using bit_imp_le_length [of x "16 + k"] by (auto simp: bit_and_iff bit_drop_bit_eq)
  qed
  have m: "drop_bit 16 ((push_bit 16 0xFFFF AND push_bit 16 n OR x) OR 0x21) = n AND 0xFFFF" for n :: u32
  proof -
    have "drop_bit 16 (push_bit 16 (mask 16 AND n)) = n AND mask 16"
      by (rule bit_word_eqI) (auto simp: bit_simps)
    then have "drop_bit 16 (push_bit 16 (0xFFFF AND n)) = n AND 0xFFFF" by (simp add: mask_eq_exp_minus_1)
    then show ?thesis using x by (simp add: drop_bit_or push_bit_and [symmetric])
  qed
  have "unat (?n AND 0xFFFF) = (if unat d \<ge> 65536 then 0 else unat d)"
  proof -
    have "?n AND 0xFFFF = take_bit 16 ?n" by (simp add: take_bit_eq_mask mask_eq_exp_minus_1)
    then show ?thesis
      by (auto simp: word_less_nat_alt word_le_nat_alt min_def unsigned_take_bit_eq take_bit_nat_eq_self)
  qed
  then show ?thesis using assms(2) unfolding dma_length_def BUFF_LENGTH_def m
    by (auto simp: unat_eq_0 [symmetric])
qed

lemma dma_start_view:
  fixes s :: "'z usb_scheme"
  assumes v: "view ep s = (ls, a, js, r)" and ep: "job_ok ep" and l: "length js = 2"
    and j: "running b sz cb c (js ! (unat ep - 1))" and c: "c < sz" and d: "dma_completes hw ep"
  shows "fst (dma_start hw ep s)"
    and "\<exists>j'. running b sz cb (c + min 0x10000 (sz - c)) j' \<and>
       view ep (snd (dma_start hw ep s)) =
         (((fst b, snd b + unat c), min 65536 (unat (sz - c))) # ls, (fst b, snd b + unat c),
          js[unat ep - 1 := j'], r)"
proof -
  let ?a = "(fst b, snd b + unat c)" and ?n = "min 0x10000 (sz - c)"
  define k where "k = js ! (unat ep - 1)"
  define w where "w = fst (dma_ctrl hw ep s) OR (END_BUFFIT OR CHANN_ENB)"
  have n: "next_trans k = ?n" and bk: "buf k = b" "buf_cnt k = c" "buf_size k = sz"
    and sp: "\<not> b_shortpacket (js ! (unat ep - 1))"
    using j by (simp_all add: running_def next_trans_def k_def)
  have g: "get_job ep s = (k, s)" using view_job(1) [OF v ep] by (simp add: k_def)
  have st: "fst (rd hw UDPHS (DMA ep DMASTATUS) t) = 0" for t :: "'z usb_scheme"
    using d by (simp add: dma_completes_def rd_def)
  show "fst (dma_start hw ep s)" by (simp add: dma_start_def Let_def split_def g st)
  obtain x where x: "x AND 0xFFFF0000 = 0" "fst (dma_ctrl hw ep s) =
      BUFF_LENGTH (if 0x10000 < sz - c then 0 else ?n) OR x"
    using dma_ctrl_view(2) [OF v ep l sp, of hw] bk n unfolding k_def by metis
  have "sz - c \<noteq> 0" using c by auto
  then have len: "dma_length w = min 65536 (unat (sz - c))"
    using dma_length_ctrl [OF x(1)] by (simp add: w_def x(2) del: if_split)
  have enb: "w AND 1 \<noteq> 0"
    using and_exp_eq_0_iff [of w 0] by (simp add: w_def bit_or_iff)
  have p: "view ep (wrp UDPHS (DMA ep DMAADDR) ?a (snd (dma_ctrl hw ep s))) = (ls, ?a, js, r)"
    using dma_ctrl_view(1) [OF v ep l sp, of hw] by (simp add: view_def wrp_def rest_def)
  have e: "view ep (wr UDPHS (DMA ep DMACONTROL) w t) = ((?a, min 65536 (unat (sz - c))) # ls, ?a, js, r)"
    if "view ep t = (ls, ?a, js, r)" for t :: "'z usb_scheme"
    using that len enb by (simp add: view_def wr_def rest_def)
  let ?f = "\<lambda>k. k\<lparr>buf_cnt := buf_cnt k + ?n, buf_load := ?n\<rparr>"
  have u: "view ep (upd_job ep ?f (wr UDPHS (DMA ep DMACONTROL) w t)) =
      ((?a, min 65536 (unat (sz - c))) # ls, ?a, js[unat ep - 1 := ?f k], r)"
    if "view ep t = (ls, ?a, js, r)" for t :: "'z usb_scheme"
    using view_job(2) [OF e [OF that] ep, of ?f] by (simp add: k_def)
  have "running b sz cb (c + ?n) (?f k)" using j by (simp add: running_def k_def)
  moreover have "view ep (snd (dma_start hw ep s)) =
      ((?a, min 65536 (unat (sz - c))) # ls, ?a, js[unat ep - 1 := ?f k], r)"
    using p unfolding dma_start_def Let_def split_def g fst_conv snd_conv bk n st w_def [symmetric]
    by (simp add: quiet u bk del: One_nat_def)
  ultimately show "\<exists>j'. running b sz cb (c + ?n) j' \<and>
       view ep (snd (dma_start hw ep s)) = ((?a, min 65536 (unat (sz - c))) # ls, ?a, js[unat ep - 1 := j'], r)"
    by blast
qed

section \<open>The whole transfer\<close>

lemma rest_run_callback: "rest (run_callback cb st s) = rest (run_callback cb st t)" if "rest s = rest t"
  using that
  by (cases cb; cases s; cases t)
     (auto simp: rest_def run_callback_def main_vendor_bulk_in_received_def main_vendor_bulk_out_received_def
      main_vendor_bulk_out_received_first_def instr_def Let_def)

lemma view_run_callback:
  "view ep (run_callback cb st s) =
     (dma_loads ep (trace s), dma_addr ep (trace s), udd_ep_job s, rest (run_callback cb st s))"
  by (cases cb) (simp_all add: view_def run_callback_def main_vendor_bulk_in_received_def
      main_vendor_bulk_out_received_def main_vendor_bulk_out_received_first_def instr_def Let_def)

lemma rest_rest [simp]: "rest (rest s) = rest s"
  by (simp add: rest_def)

text \<open>The last part is done: the job is idle again and its callback has run.\<close>

lemma trans_end_view:
  fixes s :: "'z usb_scheme"
  assumes v: "view ep s = (ls, a, js, r)" and ep: "job_ok ep" and l: "length js = 2"
    and j: "running b sz cb c (js ! (unat ep - 1))"
  shows "\<exists>j'. \<not> busy j' \<and> view ep (trans_end hw ep s) =
    (ls, a, js[unat ep - 1 := j'], rest (run_callback cb UDD_EP_TRANSFER_OK r))"
proof -
  define k where "k = js ! (unat ep - 1)"
  have k: "busy k" "call_trans k = cb" "\<not> b_shortpacket k" using j by (simp_all add: running_def k_def)
  have g: "get_job ep t = (k, t)" if "view ep t = (ls, a, js, r)" for t :: "'z usb_scheme"
    using view_job(1) [OF that ep] by (simp add: k_def)
  let ?js = "js[unat ep - 1 := k\<lparr>busy := False\<rparr>]"
  have u: "view ep (upd_job ep (busy_update (\<lambda>_. False)) t) = (ls, a, ?js, r)"
    if "view ep t = (ls, a, js, r)" for t :: "'z usb_scheme"
    using view_job(2) [OF that ep, of "busy_update (\<lambda>_. False)"] by (simp add: k_def)
  have c: "view ep (run_callback cb UDD_EP_TRANSFER_OK t) = (ls, a, ?js, rest (run_callback cb UDD_EP_TRANSFER_OK r))"
    if "view ep t = (ls, a, ?js, r)" for t :: "'z usb_scheme"
  proof -
    have "rest t = rest r" using that by (auto simp: view_def)
    then show ?thesis using that rest_run_callback [of t r] by (simp add: view_run_callback) (simp add: view_def)
  qed
  have n: "rest (run_callback CB_null UDD_EP_TRANSFER_OK r) = r"
    using v by (auto simp: view_def run_callback_def)
  have "view ep (trans_end hw ep s) = (ls, a, ?js, rest (run_callback cb UDD_EP_TRANSFER_OK r))"
    unfolding trans_end_def udd_ep_finish_job_def Let_def split_def
    by (simp add: g v quiet k u c n del: One_nat_def)
  then show ?thesis by (intro exI [of _ "k\<lparr>busy := False\<rparr>"]) simp
qed

lemma trans_done_view:
  fixes s :: "'z usb_scheme"
  assumes v: "view ep s = (ls, a, js, r)" and ep: "job_ok ep" and l: "length js = 2"
    and j: "running b sz cb c (js ! (unat ep - 1))" and d: "dma_completes hw ep"
  shows "c < sz \<Longrightarrow> \<exists>a' j'. running b sz cb (c + min 0x10000 (sz - c)) j' \<and>
      view ep (udd_ep_trans_done hw ep s) =
        (((fst b, snd b + unat c), min 65536 (unat (sz - c))) # ls, a', js[unat ep - 1 := j'], r)"
    and "c = sz \<Longrightarrow> \<exists>j'. \<not> busy j' \<and> view ep (udd_ep_trans_done hw ep s) =
        (ls, a, js[unat ep - 1 := j'], rest (run_callback cb UDD_EP_TRANSFER_OK r))"
proof -
  note g = view_job(1) [OF v ep] and k = j [unfolded running_def]
  show "\<exists>a' j'. running b sz cb (c + min 0x10000 (sz - c)) j' \<and> view ep (udd_ep_trans_done hw ep s) =
        (((fst b, snd b + unat c), min 65536 (unat (sz - c))) # ls, a', js[unat ep - 1 := j'], r)" if "c < sz"
    using dma_start_view [OF v ep l j that d] k that
    by (simp only: udd_ep_trans_done_def g Let_def split_def fst_conv snd_conv) auto
  show "\<exists>j'. \<not> busy j' \<and> view ep (udd_ep_trans_done hw ep s) =
        (ls, a, js[unat ep - 1 := j'], rest (run_callback cb UDD_EP_TRANSFER_OK r))" if "c = sz"
    using trans_end_view [OF v ep l j, of hw] k that
    by (simp only: udd_ep_trans_done_def g Let_def split_def fst_conv snd_conv) simp
qed

text \<open>An interrupt of a channel that has stopped takes up the next part.\<close>

lemma dma_interrupt_view:
  fixes s :: "'z usb_scheme"
  assumes "dma_completes hw ep"
  obtains t where "dma_interrupt hw ep s = udd_ep_trans_done hw ep t" "view ep t = view ep s"
  using assms by (simp add: dma_interrupt_def rd_def dma_completes_def Let_def split_def view_bits(4) quiet)
    (metis view_bits(4) view_rd snd_conv rd_def)

definition part_count :: "nat \<Rightarrow> nat" where
  "part_count n = (n + 65535) div 65536"

lemma part_count_step: "n \<noteq> 0 \<Longrightarrow> part_count n = Suc (part_count (n - min 65536 n))"
  by (cases "n \<le> 65536") (auto simp: part_count_def le_div_geq)

lemma part_words:
  fixes c sz :: u32
  assumes "c < sz"
  shows "unat (c + min 0x10000 (sz - c)) = unat c + min 65536 (unat (sz - c))"
    and "c + min 0x10000 (sz - c) \<le> sz"
    and "unat (sz - (c + min 0x10000 (sz - c))) = unat (sz - c) - min 65536 (unat (sz - c))"
proof -
  have d: "unat (sz - c) = unat sz - unat c" "unat c < unat sz"
    using assms by (simp_all add: unat_sub word_less_nat_alt less_imp_le)
  have m: "unat (min 0x10000 (sz - c)) = min 65536 (unat (sz - c))"
    by (simp add: min_def word_le_nat_alt)
  have "unat sz < 2 ^ 32" using unsigned_less [of sz] by simp
  then show u: "unat (c + min 0x10000 (sz - c)) = unat c + min 65536 (unat (sz - c))"
    using d m by (simp add: unat_word_ariths)
  then show le: "c + min 0x10000 (sz - c) \<le> sz" using d by (simp add: word_le_nat_alt)
  show "unat (sz - (c + min 0x10000 (sz - c))) = unat (sz - c) - min 65536 (unat (sz - c))"
    using unat_sub [OF le] u d by simp
qed

lemma transfer_view:
  fixes s :: "'z usb_scheme"
  assumes "view ep s = (ls, a, js, r)" and "running b sz cb c (js ! (unat ep - 1))" and "c \<le> sz"
    and ep: "job_ok ep" and l: "length js = 2" and d: "dma_completes hw ep"
  shows "\<exists>a' j'. \<not> busy j' \<and>
      view ep ((dma_interrupt hw ep ^^ part_count (unat (sz - c))) (udd_ep_trans_done hw ep s)) =
        (rev (parts (fst b, snd b + unat c) (unat (sz - c))) @ ls, a', js[unat ep - 1 := j'],
         rest (run_callback cb UDD_EP_TRANSFER_OK r))
    \<and> (\<forall>i < part_count (unat (sz - c)). \<exists>ls a j.
         view ep ((dma_interrupt hw ep ^^ i) (udd_ep_trans_done hw ep s)) = (ls, a, js[unat ep - 1 := j], r) \<and>
         busy j)"
  using assms(1-3) l
proof (induction "unat (sz - c)" arbitrary: s c ls a js rule: less_induct)
  case less
  show ?case
  proof (cases "c = sz")
    case True
    then obtain j' where "\<not> busy j'" "view ep (udd_ep_trans_done hw ep s) =
        (ls, a, js[unat ep - 1 := j'], rest (run_callback cb UDD_EP_TRANSFER_OK r))"
      using trans_done_view(2) [OF less.prems(1) ep less.prems(4,2) d] by blast
    with True show ?thesis by (intro exI [of _ a] exI [of _ j']) (simp add: part_count_def parts.simps)
  next
    case False
    let ?m = "min 65536 (unat (sz - c))" and ?c = "c + min 0x10000 (sz - c)" and ?f = "dma_interrupt hw ep"
    have lt: "c < sz" using False less.prems(3) by simp
    then have nz: "unat (sz - c) \<noteq> 0" by (simp add: unat_eq_0)
    obtain a' j' where j': "running b sz cb ?c j'" "view ep (udd_ep_trans_done hw ep s) =
        (((fst b, snd b + unat c), ?m) # ls, a', js[unat ep - 1 := j'], r)"
      using trans_done_view(1) [OF less.prems(1) ep less.prems(4,2) d lt] by blast
    obtain t where t: "?f (udd_ep_trans_done hw ep s) = udd_ep_trans_done hw ep t"
        "view ep t = view ep (udd_ep_trans_done hw ep s)"
      using dma_interrupt_view [OF d] by metis
    have i: "unat ep - 1 < length js" using ep less.prems(4) by (auto simp: u8_1_2)
    have run: "running b sz cb ?c (js[unat ep - 1 := j'] ! (unat ep - 1))" using j'(1) i by simp
    have "unat (sz - ?c) < unat (sz - c)" using part_words(3) [OF lt] nz by simp
    from less.hyps [OF this t(2) [unfolded j'(2)] run part_words(2) [OF lt]] less.prems(4)
    have IH: "\<exists>a'' j''. \<not> busy j'' \<and> view ep ((?f ^^ part_count (unat (sz - ?c))) (udd_ep_trans_done hw ep t)) =
        (rev (parts (fst b, snd b + unat ?c) (unat (sz - ?c))) @ ((fst b, snd b + unat c), ?m) # ls, a'',
         js[unat ep - 1 := j''], rest (run_callback cb UDD_EP_TRANSFER_OK r)) \<and>
        (\<forall>i < part_count (unat (sz - ?c)). \<exists>ls a j. view ep ((?f ^^ i) (udd_ep_trans_done hw ep t)) =
           (ls, a, js[unat ep - 1 := j], r) \<and> busy j)"
      by (simp only: length_list_update list_update_overwrite)
    have k: "part_count (unat (sz - c)) = Suc (part_count (unat (sz - ?c)))"
      unfolding part_words(3) [OF lt] by (rule part_count_step [OF nz])
    have p: "parts (fst b, snd b + unat c) (unat (sz - c)) =
        ((fst b, snd b + unat c), ?m) # parts (fst b, snd b + unat ?c) (unat (sz - ?c))"
      using nz unfolding part_words [OF lt] by (subst parts.simps) (simp add: add.assoc)
    have z: "\<exists>ls a j. view ep (udd_ep_trans_done hw ep s) = (ls, a, js[unat ep - 1 := j], r) \<and> busy j"
      using j' unfolding running_def by blast
    show ?thesis using IH z unfolding k p
      by (simp add: funpow_Suc_right t(1) All_less_Suc2 del: funpow.simps One_nat_def)
  qed
qed

lemma udd_ep_run_view:
  fixes s :: "'z usb_scheme"
  assumes "udd_ep_run hw ep False b sz cb s = (True, t)" and "sz \<noteq> 0" and "job_ok (ep AND 0xF)"
    and "length (udd_ep_job s) = 2"
  obtains u j where "t = udd_ep_trans_done hw (ep AND 0xF) u" "running b sz cb 0 j"
    "view (ep AND 0xF) u = (dma_loads (ep AND 0xF) (trace s), dma_addr (ep AND 0xF) (trace s),
       (udd_ep_job s)[unat (ep AND 0xF) - 1 := j], rest s)"
proof -
  let ?e = "ep AND 0xF"
  let ?f = "\<lambda>k. k\<lparr>busy := True, buf := b, buf_size := sz, buf_cnt := 0, buf_load := 0, call_trans := cb,
      b_shortpacket := False \<or> sz = 0\<rparr>"
  obtain v where v: "t = udd_ep_trans_done hw ?e (upd_job ?e ?f v)" "view ?e v = view ?e s"
    using assms(1,3) unfolding udd_ep_run_def Let_def split_def
    by (auto simp: quiet split: if_splits)
  have "running b sz cb 0 (?f k)" for k using assms(2) by (simp add: running_def)
  moreover have "view ?e (upd_job ?e ?f v) = (dma_loads ?e (trace s), dma_addr ?e (trace s),
       (udd_ep_job s)[unat ?e - 1 := ?f (udd_ep_job s ! (unat ?e - 1))], rest s)"
    using v(2) by (intro view_job(2) [OF _ assms(3)]) (simp add: view_def)
  ultimately show ?thesis using v(1) that by blast
qed



end
