(* ===== verification/Start_Transfer.thy ===== *)
theory Start_Transfer
  imports Liveness
begin

text \<open>
  How the host starts the sampling: the vendor request \<open>0xC5\<close> of \<^verbatim>\<open>main_setup_handle\<close>, the first OUT
  packet, and the start of a frame. The request leaves the application in the state from which
  the stream theorems of the sampling interrupt start, and programs the timer.
\<close>

section \<open>Accesses to the timer\<close>

primrec timer_writes :: "event list \<Rightarrow> (nat \<times> u32) list" where
  "timer_writes [] = []"
| "timer_writes (e # tr) =
     (case e of Wr p r v \<Rightarrow> if p = TC0 then (r, v) # timer_writes tr else timer_writes tr
      | _ \<Rightarrow> timer_writes tr)"

definition tcw :: "'z mach_scheme \<Rightarrow> (nat \<times> u32) list" where
  "tcw s = timer_writes (trace s)"

named_theorems tcw_simps "code that leaves the timer alone"
named_theorems tcwD "partial code that leaves the timer alone"

lemma tcw_access [tcw_simps]:
  "p \<noteq> TC0 \<Longrightarrow> tcw (wr p r v s) = tcw s" "tcw (wrp p r a s) = tcw s" "tcw (snd (rd hw p r s)) = tcw s"
  "p \<noteq> TC0 \<Longrightarrow> tcw (rmw hw p r f s) = tcw s" "tcw (oob a s) = tcw s"
  by (simp_all add: tcw_def wr_def wrp_def rd_def rmw_def oob_def)

lemma tcw_poll [tcwD]: "poll hw p r m v s = Some (x, s') \<Longrightarrow> tcw s' = tcw s"
proof -
  assume "poll hw p r m v s = Some (x, s')"
  moreover have "timer_writes (replicate n (Rd p r) @ tr) = timer_writes tr" for n tr
    by (induction n) simp_all
  ultimately show ?thesis by (auto simp: tcw_def dest!: poll_Some)
qed

lemma tcw_bits [tcw_simps]:
  "tcw (snd (Tst_bits hw r m s)) = tcw s" "tcw (Set_bits hw r m s) = tcw s" "tcw (Clr_bits hw r m s) = tcw s"
  "tcw (snd (Rd_bitfield hw r m k s)) = tcw s"
  by (simp_all add: Tst_bits_def Set_bits_def Clr_bits_def Rd_bitfield_def Let_def split_def tcw_simps)

lemma tcw_endpoint [tcw_simps]:
  "tcw (snd (Is_udd_endpoint_enabled hw ep s)) = tcw s"
  "tcw (snd (Is_udd_endpoint_stall_requested hw ep s)) = tcw s"
  "tcw (snd (Is_udd_endpoint_in hw ep s)) = tcw s" "tcw (snd (udd_nb_busy_bank hw ep s)) = tcw s"
  "tcw (snd (udd_get_endpoint_size hw ep s)) = tcw s"
  "tcw (udd_enable_endpoint_interrupt hw ep s) = tcw s"
  by (simp_all add: Is_udd_endpoint_enabled_def Is_udd_endpoint_stall_requested_def Is_udd_endpoint_in_def
      udd_nb_busy_bank_def udd_get_endpoint_size_def udd_enable_endpoint_interrupt_def Let_def split_def tcw_simps)

lemma tcw_jobs [tcw_simps]:
  "tcw (snd (get_job ep s)) = tcw s" "tcw (upd_job ep f s) = tcw s" "tcw (run_callback cb st s) = tcw s"
proof -
  show "tcw (snd (get_job ep s)) = tcw s" by (simp add: get_job_def tcw_simps)
  show "tcw (upd_job ep f s) = tcw s" by (simp add: upd_job_def tcw_simps) (simp add: tcw_def)
  show "tcw (run_callback cb st s) = tcw s"
    by (cases cb) (simp_all add: tcw_def run_callback_def main_vendor_bulk_in_received_def
        main_vendor_bulk_out_received_def main_vendor_bulk_out_received_first_def instr_def Let_def)
qed

lemma tcw_transfers [tcw_simps]:
  "tcw (udd_ep_finish_job hw ep ab s) = tcw s" "tcw (snd (udd_ep_run hw ep sh b n cb s)) = tcw s"
proof -
  have f: "tcw (udd_ep_finish_job hw ep ab s) = tcw s" for ep ab and s :: "'a usb_scheme"
    by (simp add: udd_ep_finish_job_def Let_def split_def tcw_simps)
  have "tcw (snd (dma_ctrl hw ep s)) = tcw s" for ep and s :: "'a usb_scheme"
    by (simp add: dma_ctrl_def Let_def split_def tcw_simps)
  then have "tcw (snd (dma_start hw ep s)) = tcw s" for ep and s :: "'a usb_scheme"
    by (simp add: dma_start_def Let_def split_def tcw_simps)
  then have "tcw (udd_ep_trans_done hw ep s) = tcw s" for ep and s :: "'a usb_scheme"
    by (simp add: udd_ep_trans_done_def trans_end_def Let_def split_def tcw_simps f)
  then show "tcw (snd (udd_ep_run hw ep sh b n cb s)) = tcw s"
    by (simp add: udd_ep_run_def Let_def split_def tcw_simps)
  show "tcw (udd_ep_finish_job hw ep ab s) = tcw s" by (rule f)
qed

lemma tcw_kill_banks [tcwD]: "kill_banks hw ep s = Some s' \<Longrightarrow> tcw s' = tcw s"
proof (induction rule: kill_banks.raw_induct [rotated 1, consumes 1, case_names step])
  case (step f hw ep s s')
  then show ?case by (auto simp: Let_def split_def tcw_simps split: if_splits elim!: bind_SomeE dest!: tcwD step.IH)
qed

lemma tcw_abort [tcwD]: "udd_ep_abort hw ep s = Some s' \<Longrightarrow> tcw s' = tcw s"
  by (auto simp: udd_ep_abort_def udd_ep_abort_job_def Let_def tcw_simps elim!: bind_SomeE split: if_splits dest!: tcwD)

section \<open>The request\<close>

text \<open>The fields that the aborted transfers may change are all set afterwards.\<close>

lemma configured_core: "core s = core t \<Longrightarrow> configured s = configured t"
  using core_fields [of s t] by (simp add: configured_def)

lemma setup_sampling_state:
  assumes "setup_sampling hw s = Some t" and "wValue (req s) \<noteq> 0"
  shows "configured t" "tcw t = [(TC_CHANNEL 2 TC_RC, ucast (wValue (req s))),
      (TC_CHANNEL 2 TC_RB, ucast (wValue (req s)) - 30), (TC_CHANNEL 2 TC_RA, 10)] @ tcw s"
proof -
  obtain u v where u: "udd_ep_abort hw 0x81 (s\<lparr>not_a_new_transfer := 4\<rparr>) = Some u"
    and v: "udd_ep_abort hw 2 u = Some v"
    and t: "t = snd (udi_vendor_bulk_out_run hw (packets_out_at 0 0) 1024 CB_bulk_out_received_first
        ((tc_write_rc TC0 2 (ucast (wValue (req v))) (tc_write_rb TC0 2 (ucast (wValue (req v)) - 30)
           (tc_write_ra TC0 2 10 (v\<lparr>current_chan := False, sent_in := False, sending_in := False,
              send_in := False, slot_offset_in := 254, slot_offset_out := 0, packet_index_in := 0,
              packet_index_out := 0, packet_index_send_out := 0, packet_index_send_in := 0\<rparr>))))
          \<lparr>start_frame := wIndex (req v), sent_out := False, sending_out := True, send_out := False\<rparr>))"
    using assms by (auto simp: setup_sampling_def Let_def comp_def tc_write_ra_def tc_write_rb_def tc_write_rc_def wr_def
        elim!: bind_SomeE split: if_splits)
  have c: "core v = core (s\<lparr>not_a_new_transfer := 4\<rparr>)" using core_abort [OF u] core_abort [OF v] by simp
  have q: "req v = req s" "not_a_new_transfer v = 4" using core_fields [OF c] by simp_all
  show "configured t" unfolding t udi_vendor_bulk_out_run_def configured_core [OF core_transfers(5)]
    by (simp add: configured_def q tc_write_ra_def tc_write_rb_def tc_write_rc_def wr_def)
  have "tcw v = tcw s" using tcw_abort [OF u] tcw_abort [OF v] by (simp add: tcw_def)
  then show "tcw t = [(TC_CHANNEL 2 TC_RC, ucast (wValue (req s))),
      (TC_CHANNEL 2 TC_RB, ucast (wValue (req s)) - 30), (TC_CHANNEL 2 TC_RA, 10)] @ tcw s"
    unfolding t udi_vendor_bulk_out_run_def tcw_transfers(2)
    by (simp add: q tcw_def tc_write_ra_def tc_write_rb_def tc_write_rc_def wr_def)
qed

text \<open>
  \<^bold>\<open>C8\<close>. Starting a transfer. When the peripherals answer, the vendor request \<open>0xC5\<close> with a
  non-zero period is handled and accepted in every state: the transfers of the previous run
  are aborted and the application is then in the state from which the streams start (no slot
  played, both directions at buffer 0), whatever it was doing before. The timer is programmed
  with exactly the period the host asked for and with the two edges of the conversion signal,
  and is not started.\<close>

theorem start_request_configures:
  fixes s :: "'z usb_scheme"
  assumes "responsive hw" and "Udd_setup_type s = USB_REQ_TYPE_VENDOR" and "bRequest (req s) = 0xC5"
    and "wValue (req s) \<noteq> 0"
  shows "\<exists>t. main_setup_handle hw s = Some (True, t) \<and> configured t \<and>
    timer_writes (trace t) = [(TC_CHANNEL 2 TC_RC, ucast (wValue (req s))),
      (TC_CHANNEL 2 TC_RB, ucast (wValue (req s)) - 30), (TC_CHANNEL 2 TC_RA, 10)] @ timer_writes (trace s)"
proof -
  obtain u where u: "setup_sampling hw s = Some u"
    using main_setup_handle_live [OF assms(1), of s] assms(2,3)
    by (cases "setup_sampling hw s") (auto simp: main_setup_handle_def vendor_request_def)
  let ?t = "u\<lparr>payload_size := 0, callback := CC_null, over_under_run := None\<rparr>"
  have "main_setup_handle hw s = Some (True, ?t)"
    using assms(2,3) u by (simp add: main_setup_handle_def vendor_request_def)
  moreover note setup_sampling_state [OF u assms(4)]
  ultimately show ?thesis by (intro exI [of _ ?t]) (simp add: configured_def tcw_def)
qed

theorem start_request_configures_witness:
  "\<exists>t. main_setup_handle ready_hw ((usb_init [])\<lparr>req := \<lparr>bmRequestType = 0x40, bRequest = 0xC5,
       wValue = 500, wIndex = 0, wLength = 0\<rparr>\<rparr>) = Some (True, t) \<and> configured t \<and>
     timer_writes (trace t) = [(TC_CHANNEL 2 TC_RC, 500), (TC_CHANNEL 2 TC_RB, 470), (TC_CHANNEL 2 TC_RA, 10)]"
  using start_request_configures [OF responsive_ready, of "(usb_init [])\<lparr>req := \<lparr>bmRequestType = 0x40,
      bRequest = 0xC5, wValue = 500, wIndex = 0, wLength = 0\<rparr>\<rparr>"]
  by (simp add: Udd_setup_type_def usb_init_def app.defs app_init_def)

end
