(* ===== verification/Control_Transfer.thy ===== *)
theory Control_Transfer
  imports Liveness
begin

text \<open>
  Control transfers as the host sees them: the packets of the data phase of an IN request,
  compared with a reference that cuts the payload into packets of 64 bytes; the descriptors that
  the standard requests select; and the moment at which a new address becomes valid.
\<close>

section \<open>Packets on the control endpoint\<close>

text \<open>
  \<open>fifo\<close> is what has been written to the packet memory of endpoint 0 since the last packet
  was released, as addresses and bytes; \<open>in_packets\<close> are the packets released. Newest first.
\<close>

primrec fifo :: "event list \<Rightarrow> (nat \<times> u8) list" where
  "fifo [] = []"
| "fifo (e # tr) =
     (case e of
        Wr p r v \<Rightarrow>
          if p = UDPHS_RAM then (r, ucast v) # fifo tr
          else if p = UDPHS \<and> r = EPT 0 EPTSETSTA \<and> v AND TX_PK_RDY \<noteq> 0 then []
          else fifo tr
      | _ \<Rightarrow> fifo tr)"

primrec in_packets :: "event list \<Rightarrow> (nat \<times> u8) list list" where
  "in_packets [] = []"
| "in_packets (e # tr) =
     (case e of
        Wr p r v \<Rightarrow>
          if p = UDPHS \<and> r = EPT 0 EPTSETSTA \<and> v AND TX_PK_RDY \<noteq> 0 then rev (fifo tr) # in_packets tr
          else in_packets tr
      | _ \<Rightarrow> in_packets tr)"

text \<open>The reference: packets of 64 bytes, and an empty one if the last is full and more was asked for.\<close>

function chop :: "'a list \<Rightarrow> 'a list list" where
  "chop bs = (if bs = [] then [] else take 64 bs # chop (drop 64 bs))"
  by pat_completeness auto
termination by (relation "measure length") auto

declare chop.simps [simp del]

definition data_packets :: "nat \<Rightarrow> u8 list \<Rightarrow> u8 list list" where
  "data_packets len bs = chop bs @ (if length bs mod 64 = 0 \<and> len \<noteq> length bs then [[]] else [])"

text \<open>A packet is laid out from the start of the packet memory.\<close>

definition laid_out :: "u8 list \<Rightarrow> (nat \<times> u8) list" where
  "laid_out bs = enumerate 0 bs"

text \<open>The host takes every packet and does not end the data phase early.\<close>

definition host_listens :: "hw \<Rightarrow> bool" where
  "host_listens hw \<longleftrightarrow> (\<forall>tr. hw tr UDPHS (EPT 0 EPTSTA) AND RX_BK_RDY = 0)"

primrec packets_sent :: "hw \<Rightarrow> nat \<Rightarrow> 'z usb_scheme \<Rightarrow> 'z usb_scheme option" where
  "packets_sent hw 0 s = Some s"
| "packets_sent hw (Suc k) s = do { s \<leftarrow> udd_ctrl_in_sent hw s; packets_sent hw k s }"

section \<open>One packet\<close>

lemma obj_bytes_trace [simp]: "obj_bytes b (trace_update f s) = obj_bytes b s"
  by (cases b) (simp_all add: obj_bytes_def udc_desc_fs_def udc_desc_hs_def)

lemma copy_in_eq:
  "snd p + n \<le> length (obj_bytes (fst p) s) \<Longrightarrow>
   copy_in hw p a n s = trace_update (\<lambda>t. rev (map (\<lambda>i. Wr UDPHS_RAM (a + i) (ucast (obj_bytes (fst p) s ! (snd p + i)))) [0..<n]) @ t) s"
proof (induction n arbitrary: p a s)
  case (Suc n)
  have "[0..<Suc n] = 0 # map Suc [0..<n]" by (simp add: upt_conv_Cons map_Suc_upt del: upt_Suc)
  then show ?case using Suc.prems Suc.IH [of "(fst p, Suc (snd p))" "wr UDPHS_RAM a (ucast (obj_bytes (fst p) s ! snd p)) s" "Suc a"]
    by (simp add: load_byte_def wr_def comp_def del: upt_Suc)
qed simp

lemma fifo_copy:
  "fifo (rev (map (\<lambda>i. Wr UDPHS_RAM (0 + i) (ucast (f i :: u8))) [0..<n]) @ tr) =
     rev (enumerate 0 (map f [0..<n])) @ fifo tr"
  "in_packets (rev (map (\<lambda>i. Wr UDPHS_RAM (0 + i) (ucast (f i :: u8))) [0..<n]) @ tr) = in_packets tr"
proof -
  have "(ucast (ucast x :: u32) :: u8) = x" for x :: u8 by (rule bit_word_eqI) (simp add: bit_ucast_iff)
  then show "fifo (rev (map (\<lambda>i. Wr UDPHS_RAM (0 + i) (ucast (f i :: u8))) [0..<n]) @ tr) =
     rev (enumerate 0 (map f [0..<n])) @ fifo tr" by (induction n) (simp_all add: enumerate_append_eq)
  show "in_packets (rev (map (\<lambda>i. Wr UDPHS_RAM (0 + i) (ucast (f i :: u8))) [0..<n]) @ tr) = in_packets tr"
    by (induction n) simp_all
qed

lemma send_packet_effect:
  assumes "host_listens hw" and "fifo (trace s) = []"
    and m: "m = (if k \<ge> 64 then 64 else k)"
    and w: "snd (payload s) + unat (udd_ctrl_payload_buf_cnt s) + unat m \<le> length (obj_bytes (fst (payload s)) s)"
  shows "\<exists>tr. send_packet hw k s = s\<lparr>in_sent_shortpacket := \<not> k \<ge> 64,
      udd_ctrl_payload_buf_cnt := udd_ctrl_payload_buf_cnt s + m, trace := tr\<rparr> \<and> fifo tr = [] \<and>
    in_packets tr = laid_out (take (unat m) (drop (snd (payload s) + unat (udd_ctrl_payload_buf_cnt s))
       (obj_bytes (fst (payload s)) s))) # in_packets (trace s)"
proof -
  let ?b = "obj_bytes (fst (payload s)) s" and ?o = "snd (payload s) + unat (udd_ctrl_payload_buf_cnt s)"
  let ?es = "rev (map (\<lambda>i. Wr UDPHS_RAM (0 + i) (ucast (?b ! (?o + i)))) [0..<unat m])"
  let ?tr = "Wr UDPHS (EPT 0 EPTCTLENB) TX_COMPLT # Wr UDPHS (EPT 0 EPTSETSTA) TX_PK_RDY #
     Wr UDPHS (EPT 0 EPTCLRSTA) TX_COMPLT # ?es @ Rd UDPHS (EPT 0 EPTSTA) # trace s"
  have b: "obj_bytes b (in_sent_shortpacket_update f t) = obj_bytes b t" for b f and t :: "'a usb_scheme"
    by (cases b) (simp_all add: obj_bytes_def udc_desc_fs_def udc_desc_hs_def)
  have q: "hw tr UDPHS (EPT 0 EPTSTA) AND 0x200 = 0" for tr using assms(1) by (simp add: host_listens_def)
  have "send_packet hw k s = s\<lparr>in_sent_shortpacket := \<not> k \<ge> 64,
      udd_ctrl_payload_buf_cnt := udd_ctrl_payload_buf_cnt s + m, trace := ?tr\<rparr>"
    unfolding send_packet_def Let_def m [symmetric] using w
    by (simp add: Tst_bits_def rd_def split_def q wr_def copy_in_eq b comp_def)
  moreover have "take (unat m) (drop ?o ?b) = map (\<lambda>i. ?b ! (?o + i)) [0..<unat m]"
    using w by (intro nth_equalityI) simp_all
  moreover have "fifo ?tr = []" by (simp add: EPT_def)
  moreover have "in_packets ?tr = enumerate 0 (map (\<lambda>i. ?b ! (?o + i)) [0..<unat m]) # in_packets (trace s)"
    using fifo_copy [of "\<lambda>i. ?b ! (?o + i)" "unat m" "Rd UDPHS (EPT 0 EPTSTA) # trace s"] assms(2)
    by (simp add: EPT_def)
  ultimately show ?thesis by (intro exI [of _ ?tr]) (simp only: laid_out_def)
qed

section \<open>The data phase of an IN request\<close>

text \<open>\<open>c\<close> bytes of the payload have been sent, in full packets except for the last.\<close>

definition sending :: "u16 \<Rightarrow> 'z usb_scheme \<Rightarrow> bool" where
  "sending c s \<longleftrightarrow> udd_ep_control_state s = UDD_EPCTRL_DATA_IN \<and> over_under_run s = None \<and>
     udd_ctrl_prev_payload_buf_cnt s = 0 \<and> fifo (trace s) = [] \<and>
     udd_ctrl_payload_buf_cnt s = c \<and> c \<le> payload_size s \<and> payload_size s \<noteq> 0 \<and>
     snd (payload s) + unat (payload_size s) \<le> length (obj_bytes (fst (payload s)) s) \<and>
     (c \<noteq> 0 \<longrightarrow> in_sent_shortpacket s = (unat c mod 64 \<noteq> 0)) \<and>
     (unat c mod 64 \<noteq> 0 \<longrightarrow> c = payload_size s)"

definition payload_bytes :: "'z usb_scheme \<Rightarrow> u8 list" where
  "payload_bytes s = take (unat (payload_size s)) (drop (snd (payload s)) (obj_bytes (fst (payload s)) s))"

lemma quiet_wr:
  "fifo (Wr UDPHS (EPT 0 r) v # tr) = fifo tr" "in_packets (Wr UDPHS (EPT 0 r) v # tr) = in_packets tr"
  if "r \<noteq> EPTSETSTA" using that by (simp_all add: EPT_def)

lemma obj_bytes_vars [simp]:
  "obj_bytes b (in_sent_shortpacket_update f s) = obj_bytes b s"
  "obj_bytes b (udd_ctrl_payload_buf_cnt_update g s) = obj_bytes b s"
  "obj_bytes b (udd_ctrl_prev_payload_buf_cnt_update g s) = obj_bytes b s"
  by (cases b; simp add: obj_bytes_def udc_desc_fs_def udc_desc_hs_def)+

lemma in_sent_end:
  assumes "udd_ep_control_state s = UDD_EPCTRL_DATA_IN" and "payload_size s = udd_ctrl_payload_buf_cnt s"
    and "wLength (req s) = udd_ctrl_prev_payload_buf_cnt s + udd_ctrl_payload_buf_cnt s \<or> in_sent_shortpacket s"
  shows "\<exists>t. udd_ctrl_in_sent hw s = Some t \<and> in_packets (trace t) = in_packets (trace s) \<and>
     udd_ep_control_state t = UDD_EPCTRL_HANDSHAKE_WAIT_OUT_ZLP"
  using assms by (simp add: udd_ctrl_in_sent_def Let_def wr_def udd_ctrl_send_zlp_out_def quiet_wr)

lemma next_count:
  fixes c n :: u16
  assumes "c < n" and "m = (if n - c \<ge> 64 then 64 else n - c)"
  shows "unat c < unat n" "unat (n - c) = unat n - unat c" "unat m = min 64 (unat n - unat c)"
    "unat (c + m) = min (unat c + 64) (unat n)"
proof -
  show l: "unat c < unat n" using assms(1) by (simp add: word_less_nat_alt)
  show d: "unat (n - c) = unat n - unat c" using assms(1) by (simp add: unat_sub less_imp_le)
  then show m: "unat m = min 64 (unat n - unat c)" by (auto simp: assms(2) word_le_nat_alt)
  have "unat n < 65536" using unsigned_less [of n] by simp
  then show "unat (c + m) = min (unat c + 64) (unat n)" using l m by (simp add: unat_word_ariths)
qed

lemma in_sent_more:
  assumes "sending c s" and "c < payload_size s" and "host_listens hw"
    and m: "m = (if payload_size s - c \<ge> 64 then 64 else payload_size s - c)"
  shows "\<exists>t. udd_ctrl_in_sent hw s = Some t \<and> sending (c + m) t \<and> payload_bytes t = payload_bytes s \<and>
     req t = req s \<and> payload_size t = payload_size s \<and>
     in_packets (trace t) = laid_out (take 64 (drop (unat c) (payload_bytes s))) # in_packets (trace s)"
proof -
  let ?n = "payload_size s" and ?b = "obj_bytes (fst (payload s)) s"
  let ?s = "wr UDPHS (EPT 0 EPTCTLDIS) TX_COMPLT s"
  note a = assms(1) [unfolded sending_def]
  note d = next_count(2,1) [OF assms(2) m] and m' = next_count(3) [OF assms(2) m]
  have cm: "unat (c + m) = unat c + unat m" using next_count(4) [OF assms(2) m] d m' by simp
  have "?n - c \<noteq> 0" using assms(2) by auto
  then have e: "udd_ctrl_in_sent hw s = Some (send_packet hw (?n - c) ?s)"
    using a by (simp add: udd_ctrl_in_sent_def Let_def wr_def)
  have last: "\<not> 64 \<le> unat ?n - unat c \<longrightarrow> 64 dvd unat c \<longrightarrow> 0 < unat ?n mod 64"
  proof (intro impI)
    assume r: "\<not> 64 \<le> unat ?n - unat c" and "64 dvd unat c"
    then obtain q where q: "unat c = 64 * q" by blast
    have "unat ?n = 64 * q + (unat ?n - unat c)" using d(2) q by simp
    then have "unat ?n mod 64 = (unat ?n - unat c) mod 64" by (metis mod_mult_self4)
    then show "0 < unat ?n mod 64" using r d(2) by simp
  qed
  have cs: "udd_ctrl_payload_buf_cnt s = c" using a by simp
  have f: "fifo (trace ?s) = []" using a by (simp add: wr_def quiet_wr)
  have w: "snd (payload ?s) + unat (udd_ctrl_payload_buf_cnt ?s) + unat m \<le> length (obj_bytes (fst (payload ?s)) ?s)"
    using a d m' cs by (auto simp: wr_def min_def)
  obtain tr where tr: "send_packet hw (?n - c) ?s = ?s\<lparr>in_sent_shortpacket := \<not> ?n - c \<ge> 64,
      udd_ctrl_payload_buf_cnt := c + m, trace := tr\<rparr>" "fifo tr = []"
    "in_packets tr = laid_out (take (unat m) (drop (snd (payload s) + unat c) ?b)) # in_packets (trace s)"
    using send_packet_effect [OF assms(3) f m w] cs by (auto simp: wr_def quiet_wr)
  have "take (unat m) (drop (snd (payload s) + unat c) ?b) = take 64 (drop (unat c) (payload_bytes s))"
    using m' by (simp add: payload_bytes_def drop_take add.commute)
  moreover have "sending (c + m) (?s\<lparr>in_sent_shortpacket := \<not> ?n - c \<ge> 64,
      udd_ctrl_payload_buf_cnt := c + m, trace := tr\<rparr>)"
    using a tr(2) d m' cm last by (auto simp: sending_def wr_def word_le_nat_alt word_unat_eq_iff min_def split: if_splits)
  ultimately show ?thesis using e tr by (simp add: payload_bytes_def wr_def)
qed

lemma in_sent_zlp:
  assumes "sending c s" and "c = payload_size s" and "host_listens hw"
    and "unat c mod 64 = 0" and "wLength (req s) \<noteq> c"
  shows "\<exists>t. packets_sent hw 2 s = Some t \<and> udd_ep_control_state t = UDD_EPCTRL_HANDSHAKE_WAIT_OUT_ZLP \<and>
     in_packets (trace t) = laid_out [] # in_packets (trace s)"
proof -
  let ?s = "(wr UDPHS (EPT 0 EPTCTLDIS) TX_COMPLT s)\<lparr>udd_ctrl_prev_payload_buf_cnt := c\<rparr>"
  note a = assms(1) [unfolded sending_def]
  have c: "udd_ctrl_payload_buf_cnt s = c" "c \<noteq> 0" using a assms(2) by simp_all
  have e: "udd_ctrl_in_sent hw s = Some (send_packet hw 0 ?s)"
    using a assms by (simp add: udd_ctrl_in_sent_def Let_def wr_def)
  have f: "fifo (trace ?s) = []" using a by (simp add: wr_def quiet_wr)
  have w: "snd (payload ?s) + unat (udd_ctrl_payload_buf_cnt ?s) + unat (0 :: u16) \<le> length (obj_bytes (fst (payload ?s)) ?s)"
    using a assms(2) by (simp add: wr_def)
  have z: "(0 :: u16) = (if 64 \<le> (0 :: u16) then 64 else 0)" by simp
  obtain tr where tr: "send_packet hw 0 ?s = ?s\<lparr>in_sent_shortpacket := True, udd_ctrl_payload_buf_cnt := c, trace := tr\<rparr>"
    "in_packets tr = laid_out [] # in_packets (trace s)"
    using send_packet_effect [OF assms(3) f z w] c by (auto simp: wr_def quiet_wr)
  let ?t = "?s\<lparr>in_sent_shortpacket := True, udd_ctrl_payload_buf_cnt := c, trace := tr\<rparr>"
  have "udd_ep_control_state ?t = UDD_EPCTRL_DATA_IN" "payload_size ?t = udd_ctrl_payload_buf_cnt ?t"
    using a assms(2) by (simp_all add: wr_def)
  from in_sent_end [OF this, of hw] show ?thesis
    using e tr by (auto simp: numeral_2_eq_2)
qed

lemma payload_bytes_length:
  "sending c s \<Longrightarrow> length (payload_bytes s) = unat (payload_size s)"
  by (auto simp: sending_def payload_bytes_def)

lemma sending_run:
  assumes "sending c s" and "host_listens hw"
    and "ps = chop (drop (unat c) (payload_bytes s)) @
      (if unat (payload_size s) mod 64 = 0 \<and> wLength (req s) \<noteq> payload_size s then [[]] else [])"
  shows "\<exists>t. packets_sent hw (length ps + 1) s = Some t \<and>
     udd_ep_control_state t = UDD_EPCTRL_HANDSHAKE_WAIT_OUT_ZLP \<and>
     in_packets (trace t) = rev (map laid_out ps) @ in_packets (trace s)"
  using assms(1,3)
proof (induction "unat (payload_size s) - unat c" arbitrary: s c ps rule: less_induct)
  case less
  let ?n = "payload_size s"
  note a = less.prems(1) [unfolded sending_def] and len = payload_bytes_length [OF less.prems(1)]
  show ?case
  proof (cases "c = ?n")
    case True
    then have p: "ps = (if unat c mod 64 = 0 \<and> wLength (req s) \<noteq> c then [[]] else [])"
      using less.prems(2) len by (simp add: chop.simps)
    show ?thesis
    proof (cases "unat c mod 64 = 0 \<and> wLength (req s) \<noteq> c")
      case True
      then show ?thesis using in_sent_zlp [OF less.prems(1) \<open>c = ?n\<close> assms(2)] by (auto simp: p numeral_2_eq_2)
    next
      case False
      have c: "udd_ctrl_payload_buf_cnt s = c" "?n = c" "c \<noteq> 0" using a True by simp_all
      have "wLength (req s) = udd_ctrl_prev_payload_buf_cnt s + udd_ctrl_payload_buf_cnt s \<or> in_sent_shortpacket s"
        using False a c by auto
      from in_sent_end [OF _ _ this, of hw] show ?thesis using a c False p by auto
    qed
  next
    case False
    moreover have "c \<le> ?n" using a by blast
    ultimately have lt: "c < ?n" by simp
    define m where "m = (if ?n - c \<ge> 64 then 64 else ?n - c)"
    obtain t where t: "udd_ctrl_in_sent hw s = Some t" "sending (c + m) t" "payload_bytes t = payload_bytes s"
      "req t = req s" "payload_size t = ?n"
      "in_packets (trace t) = laid_out (take 64 (drop (unat c) (payload_bytes s))) # in_packets (trace s)"
      using in_sent_more [OF less.prems(1) lt assms(2) m_def] by blast
    note cm = next_count(4,1) [OF lt m_def]
    let ?q = "chop (drop (unat (c + m)) (payload_bytes t)) @
      (if unat (payload_size t) mod 64 = 0 \<and> wLength (req t) \<noteq> payload_size t then [[]] else [])"
    have "drop (unat (c + m)) (payload_bytes s) = drop (64 + unat c) (payload_bytes s)"
      using cm len by (simp add: min_def add.commute)
    then have q: "ps = take 64 (drop (unat c) (payload_bytes s)) # ?q"
      using less.prems(2) len cm(2) t by (subst (asm) chop.simps) simp
    have "unat (payload_size t) - unat (c + m) < unat ?n - unat c" using cm t(5) by auto
    from less.hyps [OF this t(2) refl] show ?thesis using t q by auto
  qed
qed

text \<open>
  \<^bold>\<open>C6\<close>. The data phase of an IN request. For a request with a payload that lies inside its
  object, and a host that takes every packet: the packets released are exactly the payload cut
  into packets of 64 bytes, each laid out from the start of the packet memory, followed by one
  empty packet if the last is full and the host had asked for another number of bytes. One
  interrupt after the last packet the endpoint waits for the status stage.\<close>

theorem control_in_data_phase:
  assumes "Udd_setup_is_in s" and "host_listens hw" and "over_under_run s = None" and "fifo (trace s) = []"
    and "payload_size s \<noteq> 0"
    and "snd (payload s) + unat (payload_size s) \<le> length (obj_bytes (fst (payload s)) s)"
    and "ps = data_packets (unat (wLength (req s))) (payload_bytes s)"
  shows "\<exists>t. start_data_phase hw s \<bind> packets_sent hw (length ps) = Some t \<and>
     udd_ep_control_state t = UDD_EPCTRL_HANDSHAKE_WAIT_OUT_ZLP \<and>
     in_packets (trace t) = rev (map laid_out ps) @ in_packets (trace s)"
proof -
  let ?s = "s\<lparr>udd_ctrl_prev_payload_buf_cnt := 0, udd_ctrl_payload_buf_cnt := 0,
             udd_ep_control_state := UDD_EPCTRL_DATA_IN\<rparr>"
  have b: "obj_bytes b ?s = obj_bytes b s" for b
    by (cases b) (simp_all add: obj_bytes_def udc_desc_fs_def udc_desc_hs_def)
  have p: "sending 0 ?s" "payload_bytes ?s = payload_bytes s"
    using assms(3-6) by (simp_all add: sending_def payload_bytes_def b)
  have "length (payload_bytes s) = unat (payload_size s)" using payload_bytes_length [OF p(1)] p(2) by simp
  then have "ps = chop (drop (unat (0 :: u16)) (payload_bytes ?s)) @
      (if unat (payload_size ?s) mod 64 = 0 \<and> wLength (req ?s) \<noteq> payload_size ?s then [[]] else [])"
    unfolding assms(7) data_packets_def p(2) by (simp add: word_unat_eq_iff)
  from sending_run [OF p(1) assms(2) this] show ?thesis
    using assms(1) by (simp add: start_data_phase_def)
qed

theorem control_in_data_phase_witness:
  "\<exists>t. start_data_phase (\<lambda>_ _ _. 0) ((usb_init [])\<lparr>req := \<lparr>bmRequestType = 0x80, bRequest = 6, wValue = 0x100,
       wIndex = 0, wLength = 64\<rparr>, payload := (O_dev_desc, 0), payload_size := 18\<rparr>) \<bind> packets_sent (\<lambda>_ _ _. 0) 1 = Some t \<and>
     in_packets (trace t) = [laid_out udc_device_desc]"
proof -
  let ?s = "(usb_init [])\<lparr>req := \<lparr>bmRequestType = 0x80, bRequest = 6, wValue = 0x100,
       wIndex = 0, wLength = 64\<rparr>, payload := (O_dev_desc, 0), payload_size := 18\<rparr>"
  have b: "payload_bytes ?s = udc_device_desc"
    by (simp add: payload_bytes_def obj_bytes_def udc_device_desc_def)
  have p: "data_packets 64 udc_device_desc = [udc_device_desc]"
    by (simp add: data_packets_def udc_device_desc_def chop.simps)
  show ?thesis
    using control_in_data_phase [of ?s "\<lambda>_ _ _. 0" "[udc_device_desc]"] b p
    by (auto simp: Udd_setup_is_in_def host_listens_def usb_init_def app.defs app_init_def obj_bytes_def udc_device_desc_def)
qed

section \<open>Descriptors\<close>

text \<open>The descriptors the device has, by the value of the request, its speed and its serial number.\<close>

definition string_descriptor :: "u8 list \<Rightarrow> u8 list" where
  "string_descriptor str = [of_nat (2 + 2 * length str), 3] @ concat (map (\<lambda>c. [c, 0]) str)"

definition conf_descriptor :: "bool \<Rightarrow> u8 \<Rightarrow> u8 list" where
  "conf_descriptor hs ty = (if hs then udc_desc ty 0 2 else udc_desc ty 64 0)"

definition descriptor :: "bool \<Rightarrow> u16 \<Rightarrow> u8 list \<Rightarrow> u8 list option" where
  "descriptor hs v serial =
     (let kind = drop_bit 8 v; i = v AND 0xFF
      in if kind = 1 then Some udc_device_desc
         else if kind = 2 then if i = 0 then Some (conf_descriptor hs 2) else None
         else if kind = 3 then
           if i = 0 then Some [4, 3, 0x09, 0x04]
           else if i = 1 then Some (string_descriptor udc_string_manufacturer_name)
           else if i = 2 then Some (string_descriptor udc_string_product_name)
           else if i = 3 then Some (string_descriptor serial)
           else if i = 0xEE then Some (string_descriptor udi_msft_magic)
           else None
         else if kind = 6 then Some udc_device_qual
         else if kind = 7 then if i = 0 then Some (conf_descriptor (\<not> hs) 7) else None
         else None)"

lemma payload_bytes_full:
  assumes "payload_size s = of_nat n" and "n < 65536" and "snd (payload s) = 0"
    and "take n (obj_bytes (fst (payload s)) s) = bs"
  shows "payload_bytes s = bs"
  using assms by (simp add: payload_bytes_def unat_of_nat)

lemma set_string_bytes:
  assumes "udc_string_desc s ! 1 = 3" and "length str < 1000"
  shows "payload_bytes (set_string str s) = string_descriptor str"
    "payload_size (set_string str s) = of_nat (length (string_descriptor str))"
proof -
  have l: "length (concat (map (\<lambda>c. [c, 0]) str)) = 2 * length str" by (induction str) simp_all
  show "payload_bytes (set_string str s) = string_descriptor str"
    by (rule payload_bytes_full [of _ "2 + 2 * length str"])
      (use assms l in \<open>simp_all add: set_string_def Let_def udd_set_setup_payload_def obj_bytes_def string_descriptor_def\<close>)
  show "payload_size (set_string str s) = of_nat (length (string_descriptor str))"
    using l by (simp add: set_string_def Let_def udd_set_setup_payload_def string_descriptor_def)
qed

lemma hi_byte_eq: "(ucast (drop_bit 8 v) :: u8) = k \<longleftrightarrow> drop_bit 8 v = (ucast k :: u16)" for v :: u16
proof -
  have v: "unat v < 65536" and k: "unat k < 256" using unsigned_less [of v] unsigned_less [of k] by simp_all
  then have "drop_bit 8 (unat v) < 256" "take_bit 16 (unat v) = unat v" "take_bit 16 (unat k) = unat k"
    by (simp_all add: drop_bit_eq_div take_bit_nat_eq_self)
  then show ?thesis
    by (simp add: word_unat_eq_iff unsigned_ucast_eq unsigned_drop_bit_eq take_bit_nat_eq_self)
qed

lemma lo_byte_le: "(1 :: u8) \<le> ucast (v AND 0xFF) \<longleftrightarrow> v AND 0xFF \<noteq> 0" for v :: u16
proof -
  have "v AND 0xFF = take_bit 8 v" by (simp add: take_bit_eq_mask mask_eq_exp_minus_1)
  then have "unat (v AND 0xFF) < 256" by (simp add: unsigned_take_bit_eq take_bit_nat_def)
  then show ?thesis
    by (simp add: word_le_nat_alt word_unat_eq_iff unsigned_ucast_eq take_bit_nat_eq_self Suc_le_eq)
qed

lemma udd_is_high_speed_vars:
  "req (snd (udd_is_high_speed hw s)) = req s" "serial_number (snd (udd_is_high_speed hw s)) = serial_number s"
  for s :: "'z usb_scheme"
  by (simp_all add: udd_is_high_speed_def Is_udd_full_speed_mode_def Tst_bits_def rd_def)

text \<open>\<open>offers d t\<close>: the whole descriptor \<open>d\<close> is the payload.\<close>

definition offers :: "u8 list \<Rightarrow> 'z usb_scheme \<Rightarrow> bool" where
  "offers d t \<longleftrightarrow> length d < 65536 \<and> payload_size t = of_nat (length d) \<and> payload_bytes t = d"

lemma offers_set_payload:
  assumes "obj_bytes b s = d" and "n = of_nat (length d)" and "length d < 65536"
  shows "offers d (udd_set_setup_payload (b, 0) n s)"
proof -
  have "obj_bytes b (udd_set_setup_payload p k s) = obj_bytes b s" for p k
    by (cases b) (simp_all add: udd_set_setup_payload_def obj_bytes_def udc_desc_fs_def udc_desc_hs_def)
  then show ?thesis using assms
    by (simp add: offers_def payload_bytes_def udd_set_setup_payload_def unat_of_nat)
qed

lemma take_prefix: "take m xs = ys \<Longrightarrow> n \<le> m \<Longrightarrow> take n xs = take n ys"
  by (auto simp: min_def)

lemma payload_bytes_clip:
  assumes "offers d t"
  shows "payload_bytes (if n < payload_size t then t\<lparr>payload_size := n\<rparr> else t) = take (unat n) d"
proof -
  have "obj_bytes b (t\<lparr>payload_size := n\<rparr>) = obj_bytes b t" for b
    by (cases b) (simp_all add: obj_bytes_def udc_desc_fs_def udc_desc_hs_def)
  moreover have "unat (payload_size t) = length d" "payload_bytes t = d"
    using assms by (simp_all add: offers_def unat_of_nat)
  ultimately show ?thesis
    by (auto simp: payload_bytes_def word_less_nat_alt intro: take_prefix)
qed

lemma offers_strings:
  assumes "udc_string_desc s ! 1 = 3" and "length str < 1000"
  shows "offers (string_descriptor str) (set_string str s)"
proof -
  have "length (string_descriptor str) = 2 + 2 * length str"
    unfolding string_descriptor_def by (induction str) simp_all
  then show ?thesis using set_string_bytes [OF assms] assms(2) by (simp add: offers_def)
qed

lemma offers_conf:
  "offers (conf_descriptor hs ty) (snd (get_conf_desc hs 0 ty s))" "fst (get_conf_desc hs 0 ty s)"
  by (auto simp: get_conf_desc_def offers_def conf_descriptor_def udd_set_setup_payload_def
      payload_bytes_def obj_bytes_def udc_desc_fs_def udc_desc_hs_def udc_desc_def udi_vendor_desc_def)

lemma offers_const:
  "offers udc_device_desc (udd_set_setup_payload (O_dev_desc, 0) 18 s)"
  "offers udc_device_qual (udd_set_setup_payload (O_qual_desc, 0) 10 s)"
  "offers [4, 3, 9, 4] (udd_set_setup_payload (O_langid_desc, 0) 4 s)"
  by (auto intro!: offers_set_payload simp: obj_bytes_def udc_device_desc_def udc_device_qual_def)

text \<open>The string for Windows is already cut to the length asked for.\<close>

lemma msft_string_bytes:
  assumes "extra_strings_desc s ! 1 = 3" and "wValue (req s) AND 0xFF = 0xEE"
  shows "fst (msft_string_handle s)" "payload_size (snd (msft_string_handle s)) \<le> wLength (req s)"
    "payload_bytes (snd (msft_string_handle s)) = take (unat (wLength (req s))) (string_descriptor udi_msft_magic)"
proof -
  show "fst (msft_string_handle s)" "payload_size (snd (msft_string_handle s)) \<le> wLength (req s)"
    using assms(2) by (simp_all add: msft_string_handle_def Let_def not_less)
  have p: "take 18 ([18, extra_strings_desc s ! 1] @ concat (map (\<lambda>c. [c, 0]) udi_msft_magic) @ drop 18 (extra_strings_desc s)) =
      string_descriptor udi_msft_magic"
    using assms(1) by (simp add: string_descriptor_def udi_msft_magic_def)
  have l: "length (string_descriptor udi_msft_magic) = 18"
    by (simp add: string_descriptor_def udi_msft_magic_def)
  show "payload_bytes (snd (msft_string_handle s)) = take (unat (wLength (req s))) (string_descriptor udi_msft_magic)"
    using assms(2) p l take_prefix [OF p, of "unat (wLength (req s))"]
    by (simp add: msft_string_handle_def Let_def payload_bytes_def obj_bytes_def word_less_nat_alt not_less)
qed

text \<open>\<open>answers_with d ok t\<close>: a request for the descriptor \<open>d\<close>, if there is one, is accepted with it.\<close>

definition answers_with :: "u8 list option \<Rightarrow> u16 \<Rightarrow> bool \<times> 'z usb_scheme \<Rightarrow> bool" where
  "answers_with x len y \<longleftrightarrow>
     (case x of
        None \<Rightarrow> \<not> fst y
      | Some d \<Rightarrow> fst y \<and> (offers d (snd y) \<or> payload_size (snd y) \<le> len \<and> payload_bytes (snd y) = take (unat len) d))"

lemma answers_conf:
  "answers_with (if v AND 0xFF = 0 then Some (conf_descriptor hs ty) else None) len
     (get_conf_desc hs (ucast (v AND 0xFF)) ty s)" for v :: u16
proof (cases "v AND 0xFF = 0")
  case True
  then show ?thesis using offers_conf [of hs ty s] by (simp add: answers_with_def)
next
  case False
  then show ?thesis using lo_byte_le [of v] by (simp add: answers_with_def get_conf_desc_def)
qed

lemma answers_string:
  assumes "length (serial_number s) = 33" and "udc_string_desc s ! 1 = 3" and "extra_strings_desc s ! 1 = 3"
    and "drop_bit 8 (wValue (req s)) = 3"
  shows "answers_with (descriptor hs (wValue (req s)) (serial_number s)) (wLength (req s)) (udc_req_std_dev_get_str_desc s)"
proof -
  have m: "\<not> fst (msft_string_handle s)" if "wValue (req s) AND 0xFF \<noteq> 0xEE"
    using that by (simp add: msft_string_handle_def)
  have l: "length udc_string_manufacturer_name < 1000" "length udc_string_product_name < 1000"
    by (simp_all add: udc_string_manufacturer_name_def udc_string_product_name_def)
  note st = l [THEN offers_strings [OF assms(2)]] offers_strings [OF assms(2), of "serial_number s"]
  show ?thesis using assms(1,3,4) st m msft_string_bytes [of s] offers_const(3) [of s]
    by (simp add: descriptor_def udc_req_std_dev_get_str_desc_def answers_with_def Let_def)
qed

lemma get_desc_answers:
  fixes s :: "'z usb_scheme"
  assumes "length (serial_number s) = 33" and "udc_string_desc s ! 1 = 3" and "extra_strings_desc s ! 1 = 3"
  shows "answers_with (descriptor (fst (udd_is_high_speed hw s)) (wValue (req s)) (serial_number s))
    (wLength (req s)) (get_desc hw s)"
proof (cases "drop_bit 8 (wValue (req s)) = 3")
  case True
  then show ?thesis using answers_string [OF assms True] by (simp add: get_desc_def Let_def hi_byte_eq)
next
  case False
  then show ?thesis
    by (simp add: get_desc_def Let_def split_def hi_byte_eq descriptor_def answers_conf del: if_split)
       (simp add: answers_with_def offers_const)
qed

lemma get_desc_req: "req (snd (get_desc hw s)) = req s"
  by (simp add: get_desc_def get_conf_desc_def udc_req_std_dev_get_str_desc_def set_string_def
      udd_set_setup_payload_def msft_string_handle_def Let_def split_def udd_is_high_speed_vars)



section \<open>The address\<close>

definition address_reg :: "u32 \<Rightarrow> 'z mach_scheme \<Rightarrow> u32" where
  "address_reg v0 s = reg_of UDPHS UDPHS_CTRL v0 (trace s)"

text \<open>The control register reads back what was written to it.\<close>

definition ctrl_reads_back :: "u32 \<Rightarrow> hw \<Rightarrow> bool" where
  "ctrl_reads_back v0 hw \<longleftrightarrow> (\<forall>tr. hw tr UDPHS UDPHS_CTRL = reg_of UDPHS UDPHS_CTRL v0 tr)"

lemma address_reg_access:
  "address_reg v0 (snd (rd hw p r s)) = address_reg v0 s"
  "r \<noteq> UDPHS_CTRL \<Longrightarrow> address_reg v0 (wr UDPHS r v s) = address_reg v0 s"
  by (simp_all add: address_reg_def rd_def wr_def)

lemma address_reg_fifo: "address_reg v0 (snd (fifo_read hw a n s)) = address_reg v0 s"
  by (induction n arbitrary: a s) (simp_all add: Let_def split_def address_reg_access)

lemma address_reg_set:
  assumes "ctrl_reads_back v0 hw"
  shows "address_reg v0 (udd_set_address hw a s) =
    ((address_reg v0 s AND NOT 0x80) AND NOT 0x7F OR ucast a AND 0x7F) OR 0x80"
  using assms
  by (simp add: udd_set_address_def Clr_bits_def Wr_bitfield_def Wr_bits_def Set_bits_def rmw_def rd_def wr_def
      address_reg_def ctrl_reads_back_def Let_def)

lemma address_reg_upd [simp]:
  "address_reg v0 (req_update f s) = address_reg v0 s" "address_reg v0 (payload_size_update g s) = address_reg v0 s"
  "address_reg v0 (callback_update h s) = address_reg v0 s" "address_reg v0 (over_under_run_update i s) = address_reg v0 s"
  "address_reg v0 (udd_ep_control_state_update j s) = address_reg v0 s"
  by (simp_all add: address_reg_def)

lemma ctrl_not_ept [simp]: "UDPHS_CTRL \<noteq> EPT ep r" "EPT ep r \<noteq> UDPHS_CTRL"
  by (simp_all add: EPT_def)

lemma address_bits:
  fixes x :: u32 and a :: u8
  defines "w \<equiv> ((x AND NOT 0x80) AND NOT 0x7F OR ucast (ucast (ucast a AND 0x7F :: u16) :: u8) AND 0x7F) OR 0x80"
  shows "w AND 0x7F = ucast a AND 0x7F" "bit w 7" "w AND NOT 0xFF = x AND NOT 0xFF"
proof -
  obtain k :: nat where k: "k = 7" by blast
  then have n: "(0x80 :: u32) = push_bit k 1" "(0x7F :: u32) = mask k" "(0xFF :: u32) = mask (Suc k)" "(0x7F :: u16) = mask k"
    by (simp_all add: mask_eq_exp_minus_1 push_bit_eq_mult)
  have "bit w k" using k unfolding w_def n by (simp add: bit_simps)
  then show "bit w 7" by (simp add: k)
  have "k < 8" by (simp add: k)
  then show "w AND 0x7F = ucast a AND 0x7F" unfolding w_def n
    by (intro bit_word_eqI) (auto simp: bit_simps)
  show "w AND NOT 0xFF = x AND NOT 0xFF" unfolding w_def n
    by (rule bit_word_eqI) (auto simp: bit_simps)
qed

lemma process_set_address:
  assumes "req s = \<lparr>bmRequestType = 0, bRequest = 5, wValue = v, wIndex = 0, wLength = 0\<rparr>"
  shows "udc_process_setup hw s = Some (True, s\<lparr>payload_size := 0, callback := CC_udc_valid_address, over_under_run := None\<rparr>)"
  using assms by (simp add: udc_process_setup_def Let_def or_else_def Udd_setup_is_in_def Udd_setup_type_def
      Udd_setup_recipient_def udc_reqstd_def reqstd_out_def udc_req_std_dev_set_address_def)

text \<open>
  \<^bold>\<open>C16\<close>. A new address takes effect after the status stage. On the set-up packet of
  SET_ADDRESS the device arms the handshake and leaves its address alone, so it still answers
  to the old one; only the interrupt that reports the handshake as sent writes the address the host
  gave, enables it, and keeps the other bits of the control register.\<close>

theorem set_address_after_status:
  fixes s :: "'z usb_scheme"
  assumes "udd_ep_control_state s = UDD_EPCTRL_SETUP" and "fst (udd_byte_count hw 0 s) = 8"
    and "fst (fifo_read hw 0 8 (snd (udd_byte_count hw 0 s))) = [0, 5, a, 0, 0, 0, 0, 0]"
    and "ctrl_reads_back v0 hw"
  shows "\<exists>t u. udd_ctrl_setup_received hw s = Some t \<and>
      udd_ep_control_state t = UDD_EPCTRL_HANDSHAKE_WAIT_IN_ZLP \<and> address_reg v0 t = address_reg v0 s \<and>
      udd_ctrl_in_sent hw t = Some u \<and> udd_ep_control_state u = UDD_EPCTRL_SETUP \<and>
      address_reg v0 u AND 0x7F = ucast a AND 0x7F \<and> bit (address_reg v0 u) 7 \<and>
      address_reg v0 u AND NOT 0xFF = address_reg v0 s AND NOT 0xFF"
proof -
  let ?r = "\<lparr>bmRequestType = 0, bRequest = 5, wValue = ucast a, wIndex = 0, wLength = 0\<rparr>"
  define f where "f = snd (fifo_read hw 0 8 (snd (udd_byte_count hw 0 s)))"
  have q: "req_of_bytes [0, 5, a, 0, 0, 0, 0, 0] = ?r" by (simp add: req_of_bytes_def)
  let ?p = "f\<lparr>req := ?r, payload_size := 0, callback := CC_udc_valid_address, over_under_run := None\<rparr>"
  let ?t = "udd_ctrl_send_zlp_in (ept_wr 0 EPTCLRSTA RX_SETUP ?p)"
  have t: "udd_ctrl_setup_received hw s = Some ?t"
    using assms(1-3)
    by (simp add: udd_ctrl_setup_received_def split_def f_def [symmetric] q process_set_address
        start_data_phase_def Udd_setup_is_in_def wr_def)
  have "address_reg v0 f = address_reg v0 s"
    by (simp add: f_def address_reg_fifo udd_byte_count_def Rd_bitfield_def Let_def split_def address_reg_access)
  then have ta: "address_reg v0 ?t = address_reg v0 s"
    by (simp add: udd_ctrl_send_zlp_in_def Let_def address_reg_access)
  let ?u = "udd_ctrl_init (udd_set_address hw (ucast (ucast a AND 0x7F :: u16)) (ept_wr 0 EPTCTLDIS TX_COMPLT ?t))"
  have u: "udd_ctrl_in_sent hw ?t = Some ?u"
    by (simp add: udd_ctrl_in_sent_def udd_ctrl_endofrequest_def udc_valid_address_def Let_def ctrl_vars
        udd_ctrl_send_zlp_in_def wr_def)
  have ua: "address_reg v0 ?u = ((address_reg v0 s AND NOT 0x80) AND NOT 0x7F OR ucast (ucast (ucast a AND 0x7F :: u16) :: u8) AND 0x7F) OR 0x80"
    using ta by (simp add: udd_ctrl_init_def address_reg_access address_reg_set [OF assms(4)])
  show ?thesis using t ta u ua address_bits [of "address_reg v0 s" a]
    by (intro exI [of _ ?t] exI [of _ ?u]) simp
qed

definition address_hw :: hw where
  "address_hw tr p r =
     (if p = UDPHS \<and> r = UDPHS_CTRL then reg_of UDPHS UDPHS_CTRL 0x100 tr
      else if p = UDPHS then push_bit 20 8
      else if p = UDPHS_RAM then if r = 1 then 5 else if r = 2 then 42 else 0
      else 0)"

theorem set_address_after_status_witness:
  "\<exists>t u. udd_ctrl_setup_received address_hw (usb_init []) = Some t \<and> address_reg 0x100 t = 0x100 \<and>
     udd_ctrl_in_sent address_hw t = Some u \<and> address_reg 0x100 u AND 0x7F = 42"
proof -
  have "udd_ep_control_state (usb_init []) = UDD_EPCTRL_SETUP" by (simp add: usb_init_def app.defs)
  moreover have "fst (udd_byte_count address_hw 0 (usb_init [])) = 8"
    by (simp add: udd_byte_count_def Rd_bitfield_def rd_def address_hw_def EPT_def)
  moreover have "fst (fifo_read address_hw 0 8 (snd (udd_byte_count address_hw 0 (usb_init [])))) = [0, 5, 42, 0, 0, 0, 0, 0]"
    by code_simp
  moreover have "ctrl_reads_back 0x100 address_hw" by (simp add: ctrl_reads_back_def address_hw_def)
  moreover have "address_reg 0x100 (usb_init []) = 0x100" by (simp add: address_reg_def usb_init_def app.defs app_init_def)
  ultimately show ?thesis
    using set_address_after_status [of "usb_init []" address_hw 42 "0x100"] by auto
qed

section \<open>Requests that are not checked\<close>

text \<open>A request that no stage claims is accepted, not stalled.\<close>

lemma unclaimed_request_accepted:
  "Udd_setup_type s \<noteq> USB_REQ_TYPE_VENDOR \<Longrightarrow>
     main_setup_handle hw s = Some (True, s\<lparr>payload_size := 0, callback := CC_null, over_under_run := None\<rparr>)"
  by (simp add: main_setup_handle_def)



end
