(* ===== verification/Flash_Image.thy ===== *)
theory Flash_Image
  imports Liveness
begin

text \<open>
  What the flash holds. \<open>flash_image m0 tr\<close> is the flash after the trace \<open>tr\<close>, as the data sheet describes the
  controller: a store into the flash fills a latch of one page, the command \<open>EWP\<close> erases a page
  and programs it from the latch, \<open>WP\<close> programs without erasing and so only clears bits, \<open>SLB\<close>
  and \<open>CLB\<close> lock and unlock the region of a page, and a locked page is not changed. Over this, the
  flash service and the calibration table of \<^verbatim>\<open>src/src/main.c\<close> are shown correct.
\<close>

section \<open>The flash as a function of the trace\<close>

record flash_state =
  mem :: "nat \<Rightarrow> u8"
  latch :: "nat \<Rightarrow> u8 option"
  locked :: "nat set"

abbreviation FLASH_START :: nat where "FLASH_START \<equiv> 0x80000"
abbreviation FLASH_SIZE :: nat where "FLASH_SIZE \<equiv> 0x20000"

definition page_of :: "nat \<Rightarrow> nat" where "page_of a = (a - FLASH_START) div 256"

definition in_page :: "nat \<Rightarrow> nat \<Rightarrow> bool" where
  "in_page n a \<longleftrightarrow> FLASH_START + 256 * n \<le> a \<and> a < FLASH_START + 256 * n + 256"

definition latch_word :: "nat \<Rightarrow> u32 \<Rightarrow> (nat \<Rightarrow> u8 option) \<Rightarrow> nat \<Rightarrow> u8 option" where
  "latch_word a v l =
     l(a mod 256 := Some (ucast v), (a + 1) mod 256 := Some (ucast (drop_bit 8 v)),
       (a + 2) mod 256 := Some (ucast (drop_bit 16 v)), (a + 3) mod 256 := Some (ucast (drop_bit 24 v)))"

definition latched :: "(nat \<Rightarrow> u8 option) \<Rightarrow> nat \<Rightarrow> u8" where
  "latched l i = (case l i of None \<Rightarrow> 0xFF | Some b \<Rightarrow> b)"

definition flash_command :: "u32 \<Rightarrow> flash_state \<Rightarrow> flash_state" where
  "flash_command w f =
     (let n = unat (FCR_FARG w); c = FCR_FCMD w
      in if FCR_FKEY w \<noteq> 0x5A then f
         else if c = EFC_FCMD_EWP then
           f\<lparr>mem := if n div 32 \<in> locked f then mem f
                    else (\<lambda>a. if in_page n a then latched (latch f) (a mod 256) else mem f a),
             latch := Map.empty\<rparr>
         else if c = EFC_FCMD_WP then
           f\<lparr>mem := if n div 32 \<in> locked f then mem f
                    else (\<lambda>a. if in_page n a then mem f a AND latched (latch f) (a mod 256) else mem f a),
             latch := Map.empty\<rparr>
         else if c = EFC_FCMD_SLB then f\<lparr>locked := insert (n div 32) (locked f)\<rparr>
         else if c = EFC_FCMD_CLB then f\<lparr>locked := locked f - {n div 32}\<rparr>
         else f)"

primrec flash_image :: "flash_state \<Rightarrow> event list \<Rightarrow> flash_state" where
  "flash_image f0 [] = f0"
| "flash_image f0 (e # tr) =
     (case e of
        Wr p r v \<Rightarrow>
          if p = FLASH_MEM then (flash_image f0 tr)\<lparr>latch := latch_word r v (latch (flash_image f0 tr))\<rparr>
          else if p = EFC0 \<and> r = EEFC_FCR then flash_command v (flash_image f0 tr)
          else flash_image f0 tr
      | _ \<Rightarrow> flash_image f0 tr)"

lemma flash_image_reads [simp]: "flash_image f0 (replicate n (Rd p r) @ tr) = flash_image f0 tr"
  by (induction n) simp_all

text \<open>
  What the driver relies on: the flash reads as it is programmed, except between the commands
  that start and stop reading the unique identifier, and commands report no error.
\<close>

definition reading :: "event list \<Rightarrow> bool" where
  "reading tr \<longleftrightarrow> FCR_FCMD (reg_of EFC0 EEFC_FCR 0 tr) \<noteq> EFC_FCMD_STUI"

definition flash_works :: "hw \<Rightarrow> flash_state \<Rightarrow> bool" where
  "flash_works hw f0 \<longleftrightarrow>
     (\<forall>tr a. reading tr \<longrightarrow> ucast (hw tr FLASH_MEM a) = mem (flash_image f0 tr) a) \<and>
     (\<forall>tr. hw tr EFC0 EEFC_FSR AND EEFC_ERROR_FLAGS = 0)"

lemma reading_read [simp]: "reading (Rd p r # tr) = reading tr" "reading (replicate n (Rd p r) @ tr) = reading tr"
  by (simp_all add: reading_def)

definition overwrite :: "(nat \<Rightarrow> u8) \<Rightarrow> nat \<Rightarrow> u8 list \<Rightarrow> nat \<Rightarrow> u8" where
  "overwrite m a bs x = (if a \<le> x \<and> x < a + length bs then bs ! (x - a) else m x)"

lemma overwrite_Nil [simp]: "overwrite m a [] = m"
  by (rule ext) (auto simp: overwrite_def)

lemma overwrite_append: "overwrite (overwrite m a bs) (a + length bs) cs = overwrite m a (bs @ cs)"
  by (rule ext) (auto simp: overwrite_def nth_append)

section \<open>Reading and latching\<close>

lemma flash_image_read_bytes [simp]: "flash_image f0 (trace (snd (read_bytes hw a n s))) = flash_image f0 (trace s)"
  by (induction n arbitrary: a s) (simp_all add: Let_def split_def rd_def)

lemma reading_read_bytes [simp]: "reading (trace (snd (read_bytes hw a n s))) = reading (trace s)"
  by (induction n arbitrary: a s) (simp_all add: Let_def split_def rd_def)

lemma read_bytes_eq:
  assumes "flash_works hw f0"
  shows "reading (trace s) \<Longrightarrow> fst (read_bytes hw a n s) = map (mem (flash_image f0 (trace s))) [a..<a + n]"
proof (induction n arbitrary: a s)
  case (Suc n)
  have "[a..<a + Suc n] = a # [Suc a..<Suc a + n]" by (simp add: upt_conv_Cons del: upt_Suc)
  then show ?case using Suc.IH [of "snd (rd hw FLASH_MEM a s)" "Suc a"] Suc.prems assms
    by (simp add: Let_def split_def flash_works_def rd_def del: upt_Suc)
qed simp

lemma word_le_bytes:
  "ucast (word_le a b c d) = a" "ucast (drop_bit 8 (word_le a b c d)) = b"
  "ucast (drop_bit 16 (word_le a b c d)) = c" "ucast (drop_bit 24 (word_le a b c d)) = d"
  unfolding word_le_def by (rule bit_word_eqI; auto simp: bit_simps dest: bit_imp_le_length)+

lemma latch_write_words:
  assumes "A mod 256 = 0"
  shows "4 dvd length bs \<Longrightarrow> k + length bs \<le> 256 \<Longrightarrow>
    flash_image f0 (trace (write_words (A + k) bs s)) =
    (flash_image f0 (trace s))\<lparr>latch := \<lambda>i. if k \<le> i \<and> i < k + length bs then Some (bs ! (i - k))
       else latch (flash_image f0 (trace s)) i\<rparr>"
proof (induction "A + k" bs s arbitrary: k rule: write_words.induct)
  case (1 b0 b1 b2 b3 bs s)
  let ?f = "flash_image f0 (trace s)"
  have m: "(A + k + j) mod 256 = k + j" if "j < 4" for j
    using assms 1(3) that by (simp add: mod_add_left_eq [symmetric, of A] add.assoc)
  have "flash_image f0 (trace (write_words (A + (k + 4)) bs (wr FLASH_MEM (A + k) (word_le b0 b1 b2 b3) s))) =
     (flash_image f0 (trace (wr FLASH_MEM (A + k) (word_le b0 b1 b2 b3) s)))\<lparr>latch := \<lambda>i.
       if k + 4 \<le> i \<and> i < k + 4 + length bs then Some (bs ! (i - (k + 4)))
       else latch (flash_image f0 (trace (wr FLASH_MEM (A + k) (word_le b0 b1 b2 b3) s))) i\<rparr>"
    using 1(2,3) by (intro 1(1)) (simp_all, presburger)
  moreover have "flash_image f0 (trace (wr FLASH_MEM (A + k) (word_le b0 b1 b2 b3) s)) =
      ?f\<lparr>latch := (latch ?f)(k := Some b0, k + 1 := Some b1, k + 2 := Some b2, k + 3 := Some b3)\<rparr>"
    using m [of 0] m [of 1] m [of 2] m [of 3] by (simp add: wr_def latch_word_def word_le_bytes)
  moreover have "(b0 # b1 # b2 # b3 # bs) ! (i - k) =
      (if i = k then b0 else if i = k + 1 then b1 else if i = k + 2 then b2 else if i = k + 3 then b3
       else bs ! (i - (k + 4)))" if "k \<le> i" for i
  proof -
    obtain d where "i = k + d" using \<open>k \<le> i\<close> le_Suc_ex by blast
    then show ?thesis by (auto simp: nth_Cons' diff_diff_left eval_nat_numeral)
  qed
  ultimately show ?case
    by (auto simp: add.assoc fun_eq_iff intro!: flash_state.equality)
qed (auto simp: fun_eq_iff intro!: flash_state.equality dest: dvd_imp_le)

section \<open>Commands\<close>

text \<open>The value that ends a busy wait is one the peripheral showed.\<close>

lemma poll_value: "poll hw p r m v s = Some y \<Longrightarrow> \<exists>tr. fst y = hw tr p r"
proof (induction rule: poll.raw_induct [rotated 1, consumes 1, case_names step])
  case (step f hw p r m v s y)
  then show ?case by (auto simp: rd_def split: if_splits)
qed

lemma command_image:
  assumes "efc_perform_command hw EFC0 c (ucast page) s = Some (rc, s')"
    and "c AND 0xFF = c" and "c \<noteq> EFC_FCMD_STUI" and "c \<noteq> EFC_FCMD_SPUI" and "flash_works hw f0"
  shows "rc = 0" "flash_image f0 (trace s') = flash_command (EEFC_FCR_word (ucast page) c) (flash_image f0 (trace s))"
    "reading (trace s')"
proof -
  from assms(1,3,4) obtain v where v: "poll hw EFC0 EEFC_FSR 1 1 (wr EFC0 EEFC_FCR (EEFC_FCR_word (ucast page) c) s) = Some (v, s')"
    and rc: "rc = v AND 6"
    by (auto simp: efc_perform_command_def efc_perform_fcr_def bind_eq_Some_conv)
  show "rc = 0" using poll_value [OF v] assms(5) rc by (auto simp: flash_works_def)
  show "flash_image f0 (trace s') = flash_command (EEFC_FCR_word (ucast page) c) (flash_image f0 (trace s))"
    using poll_Some [OF v] by (auto simp: wr_def)
  show "reading (trace s')" using poll_Some [OF v] assms(2,3) by (auto simp: wr_def reading_def FCR_fields)
qed

section \<open>Writing\<close>

lemma page_address: "unat page < 512 \<Longrightarrow> unat (compute_address p page 0) = FLASH_START + 256 * unat page"
  by (simp add: compute_address_def unat_word_ariths unsigned_ucast_eq take_bit_nat_eq_self)

lemma in_page_mod: "in_page n a \<Longrightarrow> a mod 256 = a - (FLASH_START + 256 * n)"
proof -
  assume "in_page n a"
  then obtain d where d: "a = d + (2048 + n) * 256" "d < 256"
    using le_Suc_ex [of "FLASH_START + 256 * n" a] by (auto simp: in_page_def)
  then have "a mod 256 = d" by (simp only: mod_mult_self1 mod_less)
  then show ?thesis using d by simp
qed

text \<open>The words of one page and the command: the page then holds the buffer.\<close>

lemma program_page:
  assumes "flash_works hw f0" and "length bs = 256" and "unat page < 512"
    and "unat page div 32 \<notin> locked (flash_image f0 (trace s))"
    and "efc_perform_command hw EFC0 EFC_FCMD_EWP (ucast page) (write_words (FLASH_START + 256 * unat page) bs s) =
      Some (rc, s')"
  shows "rc = 0" "locked (flash_image f0 (trace s')) = locked (flash_image f0 (trace s))"
    "mem (flash_image f0 (trace s')) =
       overwrite (mem (flash_image f0 (trace s))) (FLASH_START + 256 * unat page) bs"
    "reading (trace s')"
proof -
  let ?A = "FLASH_START + 256 * unat page" and ?f = "flash_image f0 (trace s)"
  have "?A = (2048 + unat page) * 256" by simp
  then have "?A mod 256 = 0" by (simp only: mod_mult_self2_is_0)
  then have l: "flash_image f0 (trace (write_words ?A bs s)) =
      ?f\<lparr>latch := \<lambda>i. if i < 256 then Some (bs ! i) else latch ?f i\<rparr>"
    using latch_write_words [of ?A bs 0 f0 s] assms(2) by (simp cong: if_cong)
  note c = command_image [OF assms(5) _ _ _ assms(1)]
  have f: "FCR_FKEY (EEFC_FCR_word (ucast page) 3) = 0x5A" "FCR_FCMD (EEFC_FCR_word (ucast page) 3) = 3"
    "unat (FCR_FARG (EEFC_FCR_word (ucast page) 3)) = unat page"
    using assms(3)
    by (simp_all add: FCR_fields masks(2) take_bit_eq_mask [symmetric] unsigned_take_bit_eq unsigned_ucast_eq
        take_bit_nat_eq_self)
  show "rc = 0" "reading (trace s')" by (rule c(1) c(3); simp)+
  have e: "flash_image f0 (trace s') = flash_command (EEFC_FCR_word (ucast page) 3)
      (?f\<lparr>latch := \<lambda>i. if i < 256 then Some (bs ! i) else latch ?f i\<rparr>)"
    using c(2) l by simp
  show "locked (flash_image f0 (trace s')) = locked ?f" by (simp add: e flash_command_def f Let_def)
  show "mem (flash_image f0 (trace s')) = overwrite (mem ?f) ?A bs"
    by (rule ext) (use assms(2,4) in \<open>auto simp: e flash_command_def f Let_def latched_def overwrite_def in_page_mod
        simp: in_page_def\<close>)
qed

text \<open>A page buffer that agrees with the flash around the new bytes changes just these.\<close>

lemma overwrite_page:
  assumes "k + length cs \<le> 256"
  shows "overwrite m A (map m [A..<A + k] @ cs @ map m [A + k + length cs..<A + k + length cs + (256 - k - length cs)]) =
    overwrite m (A + k) cs"
proof
  fix x
  let ?post = "map m [A + k + length cs..<A + k + length cs + (256 - k - length cs)]"
  consider "x < A + k" | "A + k \<le> x" "x < A + k + length cs"
    | "A + k + length cs \<le> x" "x < A + 256" | "A + k + length cs \<le> x" "A + 256 \<le> x" by linarith
  then show "overwrite m A (map m [A..<A + k] @ cs @ ?post) x = overwrite m (A + k) cs x"
    using assms by cases (auto simp: overwrite_def nth_append)
qed

lemma chunk_size:
  fixes off :: u16 and sz :: u32
  assumes "unat off < 256"
  shows "unat (min (256 - ucast off) sz) = min (256 - unat off) (unat sz)"
    "unat (256 - off - ucast (min (256 - ucast off) sz)) = 256 - unat off - min (256 - unat off) (unat sz)"
proof -
  have o: "unat (ucast off :: u32) = unat off" using assms by (simp add: unsigned_ucast_eq take_bit_nat_eq_self)
  have "unat (256 - ucast off :: u32) = 256 - unat off"
    using assms o by (subst unat_sub) (simp_all add: word_le_nat_alt)
  then show m: "unat (min (256 - ucast off) sz) = min (256 - unat off) (unat sz)"
    by (simp add: min_def word_le_nat_alt)
  have w: "unat (ucast (min (256 - ucast off) sz) :: u16) = min (256 - unat off) (unat sz)"
    by (simp add: unsigned_ucast_eq take_bit_nat_eq_self m)
  have p: "unat (256 - off) = 256 - unat off" using assms by (subst unat_sub) (simp_all add: word_le_nat_alt)
  show "unat (256 - off - ucast (min (256 - ucast off) sz)) = 256 - unat off - min (256 - unat off) (unat sz)"
    by (subst unat_sub) (simp_all add: word_le_nat_alt p w)
qed

lemma overwrite_rest:
  assumes "off < 256" and "k = min (256 - off) sz" and "sz \<le> length bs"
  shows "overwrite (overwrite m (a + 256 * page + off) (take k bs)) (a + 256 * Suc page) (take (sz - k) (drop k bs)) =
    overwrite m (a + 256 * page + off) (take sz bs)"
proof (cases "sz \<le> 256 - off")
  case False
  then have "a + 256 * page + off + length (take k bs) = a + 256 * Suc page" using assms by simp
  moreover have "take k bs @ take (sz - k) (drop k bs) = take sz bs" using False assms(2) by (simp flip: take_add)
  ultimately show ?thesis by (metis overwrite_append)
qed (simp add: assms)

lemma flash_write_page:
  assumes works: "flash_works hw f0" and loop: "flash_write_loop hw EFC0 page off bs sz 1 s = Some (rc, s')" and "sz \<noteq> 0"
    and off: "unat off < 256" and len: "unat sz \<le> length bs" and size: "256 * unat page + unat off + unat sz \<le> FLASH_SIZE"
    and lock: "unat page div 32 \<notin> locked (flash_image f0 (trace s))" and "reading (trace s)"
    and n: "n = min (256 - ucast off) sz" and k: "k = min (256 - unat off) (unat sz)"
  obtains t where "flash_write_loop hw EFC0 (page + 1) 0 (drop k bs) (sz - n) 1 t = Some (rc, s')"
    "mem (flash_image f0 (trace t)) =
       overwrite (mem (flash_image f0 (trace s))) (FLASH_START + 256 * unat page + unat off) (take k bs)"
    "locked (flash_image f0 (trace t)) = locked (flash_image f0 (trace s))" "reading (trace t)"
proof -
  let ?f = "flash_image f0 (trace s)" and ?A = "FLASH_START + 256 * unat page"
  note c = chunk_size [OF off, of sz, folded n k]
  have p: "unat page < 512" using size assms(3) unat_gt_0 [of sz] by simp
  note A = page_address [OF p, of EFC0]
  have B: "unat (compute_address EFC0 page 0 + ucast off + n) = ?A + unat off + k"
    using A c(1) off size k by (simp add: unat_word_ariths unsigned_ucast_eq take_bit_nat_eq_self)
  let ?s0 = "snd (read_bytes hw ?A (unat off) s)"
  let ?s1 = "snd (read_bytes hw (?A + unat off + k) (256 - unat off - k) ?s0)"
  let ?buf = "fst (read_bytes hw ?A (unat off) s) @ take k bs @ fst (read_bytes hw (?A + unat off + k) (256 - unat off - k) ?s0)"
  have buf: "?buf = map (mem ?f) [?A..<?A + unat off] @ take k bs @
      map (mem ?f) [?A + unat off + k..<?A + unat off + k + (256 - unat off - k)]"
    by (simp add: read_bytes_eq [OF works] assms(8))
  from loop assms(3) obtain e t where
    e: "efc_perform_command hw EFC0 EFC_FCMD_EWP (ucast page) (write_words ?A ?buf ?s1) = Some (e, t)"
    and r: "e = 0 \<Longrightarrow> flash_write_loop hw EFC0 (page + 1) 0 (drop k bs) (sz - n) 1 t = Some (rc, s')"
    by (subst (asm) flash_write_loop.simps)
      (auto simp: Let_def split_def c A B n [symmetric] bind_eq_Some_conv split: if_splits)
  have kl: "k \<le> length bs" "length (take k bs) = k" using len k by simp_all
  have l: "length ?buf = 256" using off kl k by (simp add: buf)
  have "unat page div 32 \<notin> locked (flash_image f0 (trace ?s1))" using lock by simp
  note pp = program_page [OF works l p this e]
  have "mem (flash_image f0 (trace t)) = overwrite (mem ?f) (?A + unat off) (take k bs)"
    using pp(3) overwrite_page [of "unat off" "take k bs" "mem ?f" ?A] off kl k unfolding buf by simp
  with r [OF pp(1)] pp(2,4) show thesis by (intro that [of t]) simp_all
qed

lemma flash_write_loop_image:
  assumes "flash_works hw f0"
  shows "flash_write_loop hw EFC0 page off bs sz 1 s = Some (rc, s') \<Longrightarrow> unat off < 256 \<Longrightarrow>
    unat sz \<le> length bs \<Longrightarrow> 256 * unat page + unat off + unat sz \<le> FLASH_SIZE \<Longrightarrow>
    (\<And>n. unat page \<le> n \<Longrightarrow> 256 * n < 256 * unat page + unat off + unat sz \<Longrightarrow>
       n div 32 \<notin> locked (flash_image f0 (trace s))) \<Longrightarrow> reading (trace s) \<Longrightarrow>
    rc = 0 \<and> locked (flash_image f0 (trace s')) = locked (flash_image f0 (trace s)) \<and>
    mem (flash_image f0 (trace s')) =
      overwrite (mem (flash_image f0 (trace s))) (FLASH_START + 256 * unat page + unat off) (take (unat sz) bs)"
proof (induction "unat sz" arbitrary: page off bs sz s rule: less_induct)
  case less
  show ?case
  proof (cases "sz = 0")
    case True
    then show ?thesis using less.prems(1) by (subst (asm) flash_write_loop.simps) simp
  next
    case False
    define n k where "n = min (256 - ucast off) sz" and "k = min (256 - unat off) (unat sz)"
    have z: "0 < unat sz" using False by (simp add: unat_gt_0)
    have lock: "unat page div 32 \<notin> locked (flash_image f0 (trace s))" using less.prems(5) [of "unat page"] z by simp
    obtain t where t: "flash_write_loop hw EFC0 (page + 1) 0 (drop k bs) (sz - n) 1 t = Some (rc, s')"
      "mem (flash_image f0 (trace t)) =
         overwrite (mem (flash_image f0 (trace s))) (FLASH_START + 256 * unat page + unat off) (take k bs)"
      "locked (flash_image f0 (trace t)) = locked (flash_image f0 (trace s))" "reading (trace t)"
      by (rule flash_write_page [OF assms less.prems(1) False less.prems(2-4) lock less.prems(6) n_def k_def])
    have p: "unat page < 512" using less.prems(4) z by simp
    then have p1: "unat (page + 1) = Suc (unat page)" by (simp add: unat_word_ariths)
    have sz': "unat (sz - n) = unat sz - k"
      using chunk_size(1) [OF less.prems(2), of sz] by (simp add: n_def k_def unat_sub)
    have d: "unat (sz - n) < unat sz" using z less.prems(2) sz' by (simp add: k_def)
    have "rc = 0 \<and> locked (flash_image f0 (trace s')) = locked (flash_image f0 (trace t)) \<and>
      mem (flash_image f0 (trace s')) = overwrite (mem (flash_image f0 (trace t)))
        (FLASH_START + 256 * unat (page + 1) + unat (0 :: u16)) (take (unat (sz - n)) (drop k bs))"
    proof (rule less.hyps [OF d t(1)])
      show "unat (sz - n) \<le> length (drop k bs)" using less.prems(3) sz' by (simp add: diff_le_mono)
      show "256 * unat (page + 1) + unat (0 :: u16) + unat (sz - n) \<le> FLASH_SIZE"
        using less.prems(2,4) p unfolding p1 sz' k_def by simp
      show "j div 32 \<notin> locked (flash_image f0 (trace t))"
        if "unat (page + 1) \<le> j" "256 * j < 256 * unat (page + 1) + unat (0 :: u16) + unat (sz - n)" for j
        using that less.prems(2) unfolding p1 sz' t(3) k_def by (intro less.prems(5)) simp_all
    qed (simp_all add: t(4))
    then show ?thesis
      using t overwrite_rest [OF less.prems(2) k_def less.prems(3), of "mem (flash_image f0 (trace s))" FLASH_START "unat page"]
      by (simp only: p1 sz' unat_0 add_0_right)
  qed
qed

section \<open>Locking\<close>

definition relock :: "u32 \<Rightarrow> nat set \<Rightarrow> flash_state \<Rightarrow> flash_state" where
  "relock c L f = f\<lparr>locked := if c = EFC_FCMD_SLB then locked f \<union> L else locked f - L\<rparr>"

lemma relock_comp: "relock c L (relock c M f) = relock c (L \<union> M) f"
  by (cases "c = EFC_FCMD_SLB") (simp_all add: relock_def Un_ac Diff_Un Diff_Diff_Int set_diff_eq Int_def conj_ac cong: conj_cong)

lemma u16_page:
  fixes page :: u16
  shows "unat (ucast page :: u32) = unat page" "take_bit 16 (unat page) = unat page"
  using unsigned_less [of page, where ?'a = nat] by (simp_all add: unsigned_ucast_eq take_bit_nat_eq_self)

lemma lock_command:
  assumes "flash_works hw f0" and "c = EFC_FCMD_SLB \<or> c = EFC_FCMD_CLB"
    and "efc_perform_command hw EFC0 c (ucast (page :: u16)) s = Some (rc, s')"
  shows "rc = 0" "flash_image f0 (trace s') = relock c {unat page div 32} (flash_image f0 (trace s))"
    "reading (trace s')"
proof -
  have "c AND 0xFF = c" "c \<noteq> EFC_FCMD_STUI" "c \<noteq> EFC_FCMD_SPUI" using assms(2) by auto
  note c = command_image [OF assms(3) this assms(1)]
  have "unat (FCR_FARG (EEFC_FCR_word (ucast page) c)) = unat page"
    by (simp add: FCR_fields masks(2) take_bit_eq_mask [symmetric] unsigned_take_bit_eq u16_page)
  then show "rc = 0" "flash_image f0 (trace s') = relock c {unat page div 32} (flash_image f0 (trace s))"
    using c assms(2) by (auto simp: flash_command_def FCR_fields relock_def Let_def)
qed (rule command_image(3) [OF assms(3) _ _ _ assms(1)]; use assms(2) in auto)

lemma lock_loop_image:
  assumes "flash_works hw f0" and "c = EFC_FCMD_SLB \<or> c = EFC_FCMD_CLB"
  shows "lock_loop hw EFC0 c page fin s = Some (rc, s') \<Longrightarrow> unat page = 32 * a \<Longrightarrow> unat fin \<le> 512 \<Longrightarrow>
    rc = 0 \<and> flash_image f0 (trace s') = relock c {a..<(unat fin + 31) div 32} (flash_image f0 (trace s)) \<and>
    (reading (trace s) \<longrightarrow> reading (trace s'))"
proof (induction "512 - a" arbitrary: a page s rule: less_induct)
  case less
  show ?case
  proof (cases "page < fin")
    case True
    then have a: "32 * a < unat fin" using less.prems(2) by (simp add: word_less_nat_alt)
    from True less.prems(1) obtain e t where e: "efc_perform_command hw EFC0 c (ucast page) s = Some (e, t)"
      and l: "e = 0 \<Longrightarrow> lock_loop hw EFC0 c (page + 32) fin t = Some (rc, s')"
      by (subst (asm) lock_loop.simps) (auto simp: bind_eq_Some_conv split: if_splits)
    note cmd = lock_command [OF assms e]
    have "unat (page + 32) = 32 * Suc a" using a less.prems(2,3) by (simp add: unat_word_ariths)
    then have "rc = 0 \<and> flash_image f0 (trace s') = relock c {Suc a..<(unat fin + 31) div 32} (flash_image f0 (trace t))
        \<and> (reading (trace t) \<longrightarrow> reading (trace s'))"
      using a less.prems(3) by (intro less.hyps [OF _ l [OF cmd(1)]]) simp_all
    moreover have "{Suc a..<(unat fin + 31) div 32} \<union> {a} = {a..<(unat fin + 31) div 32}" using a by auto
    ultimately show ?thesis using less.prems(2) cmd(3) by (simp add: cmd(2) relock_comp)
  next
    case False
    then have "unat fin \<le> 32 * a" using less.prems(2) by (simp add: word_less_nat_alt)
    then have "(unat fin + 31) div 32 \<le> a" by linarith
    then show ?thesis using False less.prems(1)
      by (subst (asm) lock_loop.simps) (auto simp: relock_def)
  qed
qed

definition region_of :: "u32 \<Rightarrow> nat" where "region_of a = (unat a - FLASH_START) div 8192"

definition in_flash :: "u32 \<Rightarrow> bool" where
  "in_flash a \<longleftrightarrow> FLASH_START \<le> unat a \<and> unat a < FLASH_START + FLASH_SIZE"

lemma region_bounds:
  assumes "in_flash a"
  shows "unat (a - a mod 8192) = FLASH_START + 8192 * region_of a" "region_of a < 16"
proof -
  define x where "x = unat a - FLASH_START"
  have x: "unat a = FLASH_START + x" "x < FLASH_SIZE" using assms by (auto simp: in_flash_def x_def)
  have "(FLASH_START + x) mod 8192 = x mod 8192" by (simp add: mod_add_left_eq [symmetric, of 524288])
  then have "unat (a mod 8192) = x mod 8192" by (simp add: unat_mod x)
  moreover have "a mod 8192 \<le> a" by (simp add: word_le_nat_alt unat_mod)
  moreover have "x - x mod 8192 = 8192 * (x div 8192)" by (simp add: minus_mod_eq_mult_div)
  moreover have "x mod 8192 \<le> x" by simp
  ultimately show "unat (a - a mod 8192) = FLASH_START + 8192 * region_of a"
    by (simp add: unat_sub x region_of_def)
  show "region_of a < 16" using x by (simp add: region_of_def)
qed

lemma page_translate:
  assumes "unat a = FLASH_START + x" and "x < FLASH_SIZE"
  shows "unat (fst (snd (translate_address a))) = x div 256" "unat (snd (snd (translate_address a))) = x mod 256"
proof -
  have "unat (a - 0x80000) = x" using assms by (simp add: unat_sub word_le_nat_alt)
  then show "unat (fst (snd (translate_address a))) = x div 256" "unat (snd (snd (translate_address a))) = x mod 256"
    using assms(2) by (simp_all add: translate_address_def unsigned_ucast_eq unat_div unat_mod take_bit_nat_eq_self)
qed

lemma lock_range_pages:
  assumes "in_flash a" and "in_flash b"
  shows "unat (fst (snd (translate_address (fst (compute_lock_range a b))))) = 32 * region_of a"
    "unat (fst (snd (translate_address (snd (compute_lock_range a b))))) = 32 * region_of b + 31"
proof -
  note r = region_bounds [OF assms(1)] and q = region_bounds [OF assms(2)]
  have "unat (b - b mod 8192 + 8192 - 1) = FLASH_START + (8192 * region_of b + 8191)"
    using q by (simp add: unat_word_ariths unat_sub word_le_nat_alt)
  then show "unat (fst (snd (translate_address (snd (compute_lock_range a b))))) = 32 * region_of b + 31"
    using q(2) by (simp add: compute_lock_range_def page_translate)
  show "unat (fst (snd (translate_address (fst (compute_lock_range a b))))) = 32 * region_of a"
    using r by (simp add: compute_lock_range_def page_translate)
qed

section \<open>The flash service\<close>

text \<open>
  \<open>translate_address\<close> and \<open>compute_address\<close> are inverse to each other on the flash: an address in
  it splits into a page below 512 and an offset below 256, and putting these together gives the
  address back.
\<close>

theorem flash_address_round_trip:
  assumes "in_flash a"
  shows "case translate_address a of (p, page, off) \<Rightarrow>
    compute_address p page off = a \<and> unat page < 512 \<and> unat off < 256"
proof -
  define x where "x = unat a - FLASH_START"
  have x: "unat a = FLASH_START + x" "x < FLASH_SIZE" using assms by (auto simp: in_flash_def x_def)
  note t = page_translate [OF x]
  have "unat (compute_address p (fst (snd (translate_address a))) (snd (snd (translate_address a)))) = unat a" for p
    using x t by (simp add: compute_address_def unat_word_ariths u16_page)
  then show ?thesis using t x(2) by (auto simp: split_def word_unat_eq_iff)
qed

theorem flash_address_round_trip_witness:
  "case translate_address 0x9FF00 of (p, page, off) \<Rightarrow> compute_address p page off = 0x9FF00 \<and> unat page < 512 \<and> unat off < 256"
  by (rule flash_address_round_trip) (simp add: in_flash_def)

lemma lock_image:
  assumes "flash_works hw f0" and "in_flash a" and "in_flash b"
    and "c = EFC_FCMD_SLB \<or> c = EFC_FCMD_CLB"
    and "lock_loop hw EFC0 c (fst (snd (translate_address (fst (compute_lock_range a b)))))
       (fst (snd (translate_address (snd (compute_lock_range a b))))) s = Some (rc, s')"
  shows "rc = 0 \<and> flash_image f0 (trace s') = relock c {region_of a..region_of b} (flash_image f0 (trace s)) \<and>
    (reading (trace s) \<longrightarrow> reading (trace s'))"
proof -
  note p = lock_range_pages [OF assms(2,3)]
  have "(32 * region_of b + 31 + 31) div 32 = Suc (region_of b)" by simp
  then show ?thesis
    using lock_loop_image [OF assms(1,4,5) p(1)] region_bounds(2) [OF assms(3)]
    by (simp add: p(2) atLeastLessThanSuc_atLeastAtMost)
qed

text \<open>
  \<^bold>\<open>C29\<close>. \<open>flash_lock\<close> and \<open>flash_unlock\<close> lock and unlock exactly the regions from that of the first
  address to that of the last one, and change nothing else in the flash.
\<close>

theorem flash_lock_correct:
  assumes "flash_works hw f0" and "in_flash a" and "in_flash b"
    and "flash_lock hw a b s = Some (rc, s')" and "flash_unlock hw a b s = Some (rd', s'')"
  shows "rc = FLASH_RC_OK \<and> flash_image f0 (trace s') =
      (flash_image f0 (trace s))\<lparr>locked := locked (flash_image f0 (trace s)) \<union> {region_of a..region_of b}\<rparr> \<and>
    rd' = FLASH_RC_OK \<and> flash_image f0 (trace s'') =
      (flash_image f0 (trace s))\<lparr>locked := locked (flash_image f0 (trace s)) - {region_of a..region_of b}\<rparr>"
proof -
  have l: "lock_loop hw EFC0 EFC_FCMD_SLB (fst (snd (translate_address (fst (compute_lock_range a b)))))
       (fst (snd (translate_address (snd (compute_lock_range a b))))) s = Some (rc, s')"
    using assms(4) by (simp add: flash_lock_def split_def Let_def translate_address_def)
  have u: "lock_loop hw EFC0 EFC_FCMD_CLB (fst (snd (translate_address (fst (compute_lock_range a b)))))
       (fst (snd (translate_address (snd (compute_lock_range a b))))) s = Some (rd', s'')"
    using assms(5) by (simp add: flash_unlock_def split_def Let_def translate_address_def)
  show ?thesis using lock_image [OF assms(1-3) _ l] lock_image [OF assms(1-3) _ u] by (simp add: relock_def)
qed

lemma region_page: "x div 8192 = x div 256 div (32 :: nat)"
  by (simp add: div_mult2_eq [symmetric])

lemma flash_write_image:
  assumes "flash_works hw f0" and "reading (trace s)"
    and "FLASH_START \<le> unat a" and "unat a + unat sz \<le> FLASH_START + FLASH_SIZE" and "unat sz \<le> length bs"
    and "\<And>x. unat a \<le> x \<Longrightarrow> x < unat a + unat sz \<Longrightarrow> (x - FLASH_START) div 8192 \<notin> locked (flash_image f0 (trace s))"
    and "flash_write hw a bs sz 1 s = Some (rc, s')" and "0 < unat sz"
  shows "rc = FLASH_RC_OK \<and> mem (flash_image f0 (trace s')) =
      overwrite (mem (flash_image f0 (trace s))) (unat a) (take (unat sz) bs) \<and>
    locked (flash_image f0 (trace s')) = locked (flash_image f0 (trace s))"
proof -
  define x where "x = unat a - FLASH_START"
  have x: "unat a = FLASH_START + x" "x < FLASH_SIZE" using assms(3,4,8) by (simp_all add: x_def)
  note t = page_translate [OF x]
  let ?s = "efc_set_wait_state hw EFC0 6 (snd (efc_get_wait_state hw EFC0 s))"
  have i: "flash_image f0 (trace ?s) = flash_image f0 (trace s)" "reading (trace ?s) = reading (trace s)"
    by (simp_all add: efc_set_wait_state_def efc_get_wait_state_def efc_write_fmr_def rd_def wr_def reading_def)
  from assms(7) obtain e u where
    e: "flash_write_loop hw EFC0 (fst (snd (translate_address a))) (snd (snd (translate_address a))) bs sz 1 ?s = Some (e, u)"
    and r: "e = 0 \<Longrightarrow> rc = 0 \<and> flash_image f0 (trace s') = flash_image f0 (trace u)"
    by (auto simp: flash_write_def split_def Let_def translate_address_def bind_eq_Some_conv
        efc_set_wait_state_def efc_write_fmr_def rd_def wr_def split: if_splits)
  have "e = 0 \<and> locked (flash_image f0 (trace u)) = locked (flash_image f0 (trace ?s)) \<and>
    mem (flash_image f0 (trace u)) = overwrite (mem (flash_image f0 (trace ?s)))
      (FLASH_START + 256 * (x div 256) + x mod 256) (take (unat sz) bs)"
    unfolding t [symmetric]
  proof (rule flash_write_loop_image [OF assms(1) e])
    show "unat (snd (snd (translate_address a))) < 256" by (simp add: t)
    show "256 * unat (fst (snd (translate_address a))) + unat (snd (snd (translate_address a))) + unat sz \<le> FLASH_SIZE"
      using assms(4) x by (simp add: t)
    show "n div 32 \<notin> locked (flash_image f0 (trace ?s))"
      if "unat (fst (snd (translate_address a))) \<le> n"
        "256 * n < 256 * unat (fst (snd (translate_address a))) + unat (snd (snd (translate_address a))) + unat sz" for n
    proof -
      have n: "x div 256 \<le> n" "256 * n < x + unat sz" using that by (simp_all add: t)
      define y where "y = max x (256 * n)"
      have "y div 256 = n"
        using n(1) by (cases "x \<le> 256 * n") (auto simp: y_def max_def intro!: antisym div_le_mono [of "256 * n" x 256, simplified])
      moreover have "(FLASH_START + y - FLASH_START) div 8192 \<notin> locked (flash_image f0 (trace s))"
        using n(2) x assms(8) by (intro assms(6)) (auto simp: y_def)
      ultimately show ?thesis by (simp add: region_page i)
    qed
  qed (use assms(2,5) i in simp_all)
  then show ?thesis using r x by (simp add: i add.commute)
qed

text \<open>
  \<^bold>\<open>C4\<close>. \<open>flash_write\<close> replaces exactly the bytes it is asked to. For a range inside the flash whose lock
  regions are unlocked, over any number of pages and from any offset, it returns success, the bytes
  of the range are then those of the buffer, and every other byte of the flash, and the
  lock bits, are as before. The flash is assumed to work as described by \<open>flash_works\<close>.
\<close>

theorem flash_write_correct:
  assumes "flash_works hw f0" and "reading (trace s)"
    and "FLASH_START \<le> unat a" and "unat a + unat sz \<le> FLASH_START + FLASH_SIZE" and "unat sz \<le> length bs"
    and "\<And>x. unat a \<le> x \<Longrightarrow> x < unat a + unat sz \<Longrightarrow> (x - FLASH_START) div 8192 \<notin> locked (flash_image f0 (trace s))"
    and "flash_write hw a bs sz 1 s = Some (rc, s')"
  shows "rc = FLASH_RC_OK \<and> mem (flash_image f0 (trace s')) =
      overwrite (mem (flash_image f0 (trace s))) (unat a) (take (unat sz) bs) \<and>
    locked (flash_image f0 (trace s')) = locked (flash_image f0 (trace s))"
proof (cases "sz = 0")
  case True
  then show ?thesis using assms(7)
    by (auto simp: flash_write_def translate_address_def flash_write_loop.simps [of hw EFC0 _ _ bs 0]
        efc_set_wait_state_def efc_get_wait_state_def efc_write_fmr_def rd_def wr_def Let_def)
next
  case False
  then show ?thesis using assms by (intro flash_write_image) (simp_all add: unat_gt_0)
qed

section \<open>The calibration table\<close>

lemma image_poll:
  "poll hw p r m v s = Some (x, t) \<Longrightarrow>
     flash_image f0 (trace t) = flash_image f0 (trace s) \<and> reading (trace t) = reading (trace s)"
  by (drule poll_Some) auto

lemma image_other:
  "flash_image f0 (trace (rmw hw EFC0 EEFC_FMR g s)) = flash_image f0 (trace s)"
  "reading (trace (rmw hw EFC0 EEFC_FMR g s)) = reading (trace s)"
  "flash_image f0 (trace (wr EFC0 EEFC_FCR (EEFC_FCR_word 0 EFC_FCMD_STUI) s)) = flash_image f0 (trace s)"
  "flash_image f0 (trace (wr EFC0 EEFC_FCR (EEFC_FCR_word 0 EFC_FCMD_SPUI) s)) = flash_image f0 (trace s)"
  "reading (trace (wr EFC0 EEFC_FCR (EEFC_FCR_word 0 EFC_FCMD_SPUI) s))"
  by (simp_all add: rmw_def rd_def wr_def flash_command_def FCR_fields reading_def Let_def)

lemma image_read_words: "flash_image f0 (trace (snd (read_words hw a n s))) = flash_image f0 (trace s)"
  by (induction n arbitrary: a s) (simp_all add: Let_def split_def rd_def)

lemma read_sequence_image:
  assumes "efc_perform_read_sequence hw EFC0 EFC_FCMD_STUI EFC_FCMD_SPUI n s = Some (rc, ws, s')"
  shows "flash_image f0 (trace s') = flash_image f0 (trace s) \<and> reading (trace s')"
  using assms
  by (auto simp: efc_perform_read_sequence_def Let_def split_def image_other image_read_words elim!: bind_SomeE
      dest!: image_poll [where ?f0.0 = f0])

lemma read_uid_image:
  assumes "init_build_usb_serial_number hw u s = Some s'"
  shows "flash_image f0 (trace s') = flash_image f0 (trace s) \<and> reading (trace s')" "flash_table s' = flash_table s"
proof -
  from assms obtain y where y: "flash_read_unique_id hw 4 s = Some y" and s': "trace s' = trace (snd (snd y))"
      "flash_table s' = flash_table (snd (snd y))"
    by (auto simp: init_build_usb_serial_number_def Let_def elim!: bind_SomeE)
  have "flash_image f0 (trace (snd (snd y))) = flash_image f0 (trace s) \<and> reading (trace (snd (snd y)))"
    using y by (auto simp: flash_read_unique_id_def Let_def split: if_splits elim!: bind_SomeE
        dest!: read_sequence_image [where ?f0.0 = f0])
  then show "flash_image f0 (trace s') = flash_image f0 (trace s) \<and> reading (trace s')" by (simp add: s')
  have "mach.more (snd (snd y)) = mach.more s" using frame_flash(5) [OF y] by (simp add: frame_def)
  then show "flash_table s' = flash_table s" unfolding s' by (cases "snd (snd y)"; cases s) simp
qed

lemma flash_table_frame:
  fixes s t :: "'z app_scheme"
  assumes "frame s = frame t"
  shows "flash_table s = flash_table t"
  using assms by (cases s; cases t) (simp add: frame_def)

lemma lock_of_loop:
  assumes "flash_works hw f0" and "in_flash a" and "in_flash b"
  shows "flash_lock hw a b s = Some (rc, s') \<Longrightarrow>
      rc = 0 \<and> flash_image f0 (trace s') = relock EFC_FCMD_SLB {region_of a..region_of b} (flash_image f0 (trace s))"
    and "flash_unlock hw a b s = Some (rc, s') \<Longrightarrow>
      rc = 0 \<and> flash_image f0 (trace s') = relock EFC_FCMD_CLB {region_of a..region_of b} (flash_image f0 (trace s)) \<and>
      (reading (trace s) \<longrightarrow> reading (trace s'))"
  using lock_image [OF assms, of EFC_FCMD_SLB s rc s'] lock_image [OF assms, of EFC_FCMD_CLB s rc s']
  by (auto simp: flash_lock_def flash_unlock_def split_def Let_def translate_address_def)

lemma map_overwrite: "map (overwrite m a bs) [a..<a + length bs] = bs"
  by (rule nth_equalityI) (simp_all add: overwrite_def)

lemma read_flash_table_eq:
  assumes "flash_works hw f0" and "reading (trace s)"
    and "mem (flash_image f0 (trace s)) = overwrite m 0x9FF00 bs" and "length bs = 256"
  shows "flash_table (read_flash_table hw s) = bs"
proof -
  have "fst (read_bytes hw 0x9FF00 256 s) = bs"
    using read_bytes_eq [OF assms(1,2), of "0x9FF00" "length bs"] map_overwrite [of m "0x9FF00" bs]
    by (simp only: assms(3,4))
  then show ?thesis by (simp add: read_flash_table_def Let_def split_def)
qed

lemma store_flash_table_image:
  assumes "responsive hw" and "flash_works hw f0" and "reading (trace s)" and "length (flash_table s) = 256"
  shows "\<exists>s'. store_flash_table hw u s = Some s' \<and>
    mem (flash_image f0 (trace s')) = overwrite (mem (flash_image f0 (trace s))) 0x9FF00 (flash_table s) \<and>
    locked (flash_image f0 (trace s')) = insert 15 (locked (flash_image f0 (trace s))) \<and>
    flash_table (read_flash_table hw s') = flash_table s \<and> reading (trace s')"
proof -
  let ?f = "flash_image f0 (trace s)" and ?t = "flash_table s"
  have r: "in_flash 0x9FF00" "in_flash 0x9FFFF" "region_of 0x9FF00 = 15" "region_of 0x9FFFF = 15"
    by (simp_all add: in_flash_def region_of_def)
  define s0 where "s0 = snd (flash_init 0 6 s)"
  have s0: "flash_image f0 (trace s0) = ?f" "reading (trace s0)" "flash_table s0 = ?t"
    using assms(3) by (simp_all add: s0_def flash_init_def efc_init_def efc_write_fmr_def wr_def reading_def)
  obtain s' where s': "store_flash_table hw u s = Some s'"
    using flash_table_live(1) [OF assms(1)] by blast
  then obtain e1 s1 where 1: "flash_unlock hw 0x9FF00 0x9FFFF s0 = Some (e1, s1)"
    by (auto simp: store_flash_table_def flash_init_def efc_init_def s0_def elim!: bind_SomeE)
  note i1 = lock_of_loop(2) [OF assms(2) r(1,2) 1]
  have t1: "flash_table s1 = ?t" using flash_table_frame frame_flash(3) [OF 1] s0(3) by (metis snd_conv)
  from s' 1 i1 obtain e2 s2 where 2: "flash_write hw 0x9FF00 ?t 256 1 s1 = Some (e2, s2)"
    using t1 by (auto simp: store_flash_table_def flash_init_def efc_init_def s0_def elim!: bind_SomeE)
  have l: "15 \<notin> locked (flash_image f0 (trace s1))" using i1 by (simp add: relock_def r)
  have i2: "e2 = 0 \<and> mem (flash_image f0 (trace s2)) = overwrite (mem (flash_image f0 (trace s1))) 0x9FF00 ?t \<and>
      locked (flash_image f0 (trace s2)) = locked (flash_image f0 (trace s1))"
  proof -
    have "(x - FLASH_START) div 8192 = 15" if "0x9FF00 \<le> x" "x < 0x9FF00 + 256" for x
      using that by auto
    then show ?thesis
      using flash_write_image [OF assms(2) _ _ _ _ _ 2] i1 s0(2) l assms(4) by simp
  qed
  from s' 1 2 i1 i2 t1 obtain e3 s3 where 3: "flash_lock hw 0x9FF00 0x9FFFF s2 = Some (e3, s3)"
    by (auto simp: store_flash_table_def flash_init_def efc_init_def s0_def elim!: bind_SomeE)
  note i3 = lock_of_loop(1) [OF assms(2) r(1,2) 3]
  from s' 1 2 3 i1 i2 i3 t1 have 4: "init_build_usb_serial_number hw u s3 = Some s'"
    by (simp add: store_flash_table_def flash_init_def efc_init_def s0_def)
  have m: "mem (flash_image f0 (trace s')) = overwrite (mem ?f) 0x9FF00 ?t"
    and "locked (flash_image f0 (trace s')) = insert 15 (locked ?f)"
    using read_uid_image(1) [OF 4, of f0] i1 i2 i3 s0(1) by (auto simp: relock_def r)
  moreover have "flash_table (read_flash_table hw s') = ?t"
    using read_uid_image(1) [OF 4, of f0] by (intro read_flash_table_eq [OF assms(2) _ m assms(4)]) simp
  ultimately show ?thesis using s' read_uid_image(1) [OF 4, of f0] by blast
qed

text \<open>
  \<^bold>\<open>C17\<close>. The calibration table survives a power cycle: \<open>store_flash_table\<close> returns, the last page of the flash
  then holds the table and no other byte has changed, the lock region of that page is locked
  again and no other lock bit has changed, and \<open>read_flash_table\<close>, which the start-up runs, gets the same table back. The
  peripherals are assumed to answer and the flash to work.
\<close>

theorem calibration_table_round_trip:
  assumes "responsive hw" and "flash_works hw f0" and "reading (trace s)" and "length (flash_table s) = 256"
  shows "\<exists>s'. store_flash_table hw u s = Some s' \<and>
    mem (flash_image f0 (trace s')) = overwrite (mem (flash_image f0 (trace s))) 0x9FF00 (flash_table s) \<and>
    locked (flash_image f0 (trace s')) = insert 15 (locked (flash_image f0 (trace s))) \<and>
    flash_table (read_flash_table hw s') = flash_table s"
  using store_flash_table_image [OF assms] by blast

section \<open>A working flash\<close>

definition blank :: flash_state where
  "blank = \<lparr>mem = (\<lambda>_. 0xFF), latch = Map.empty, locked = {15}\<rparr>"

definition flash_ref :: hw where
  "flash_ref tr p r = (if p = FLASH_MEM then ucast (mem (flash_image blank tr) r) else ready_hw tr p r)"

lemma flash_ref_responsive: "responsive flash_ref"
  using responsive_ready
  by (simp add: responsive_def answers_def flash_answers_def banks_killed_def busy_banks_def ctrl_packets_fit_def
      flash_ref_def)

lemma flash_ref_works: "flash_works flash_ref blank"
proof -
  have "ucast (ucast b :: u32) = b" for b :: u8
    by (rule bit_word_eqI) (auto simp: bit_simps dest: bit_imp_le_length)
  then show ?thesis by (auto simp: flash_works_def flash_ref_def ready_hw_def)
qed

theorem calibration_table_round_trip_witness:
  "\<exists>s'. store_flash_table flash_ref [] app_init = Some s' \<and>
     flash_table (read_flash_table flash_ref s') = replicate 256 0"
  using calibration_table_round_trip [OF flash_ref_responsive flash_ref_works, of app_init "[]"]
  by (auto simp: app_init_def reading_def FCR_FCMD_def)

theorem flash_lock_correct_witness:
  "\<exists>rc s' rd' s''. flash_lock flash_ref 0x80000 0x82000 \<lparr>trace = []\<rparr> = Some (rc, s') \<and>
     flash_unlock flash_ref 0x80000 0x82000 \<lparr>trace = []\<rparr> = Some (rd', s'') \<and>
     locked (flash_image blank (trace s')) = {15} \<union> {0..1}"
proof -
  have "flash_lock flash_ref 0x80000 0x82000 \<lparr>trace = []\<rparr> \<noteq> None"
    "flash_unlock flash_ref 0x80000 0x82000 \<lparr>trace = []\<rparr> \<noteq> None"
    by (simp_all add: flash_lock_def flash_unlock_def compute_lock_range_def translate_address_def
        lock_loop_live [OF flash_ref_responsive])
  then obtain rc s' rd' s'' where l: "flash_lock flash_ref 0x80000 0x82000 \<lparr>trace = []\<rparr> = Some (rc, s')"
    "flash_unlock flash_ref 0x80000 0x82000 \<lparr>trace = []\<rparr> = Some (rd', s'')" by auto
  from flash_lock_correct [OF flash_ref_works _ _ l] show ?thesis
    using l by (simp add: in_flash_def region_of_def blank_def)
qed

theorem flash_write_correct_witness:
  "\<exists>rc s'. flash_write flash_ref 0x80080 [1, 2, 3] 2 1 \<lparr>trace = []\<rparr> = Some (rc, s') \<and> rc = FLASH_RC_OK \<and>
     mem (flash_image blank (trace s')) = overwrite (\<lambda>_. 0xFF) 0x80080 [1, 2]"
proof -
  have "flash_write flash_ref 0x80080 [1, 2, 3] 2 1 \<lparr>trace = []\<rparr> \<noteq> None"
    by (simp add: flash_write_def translate_address_def live_unfold flash_write_loop_live [OF flash_ref_responsive]
        del: not_None_eq)
  then obtain rc s' where w: "flash_write flash_ref 0x80080 [1, 2, 3] 2 1 \<lparr>trace = []\<rparr> = Some (rc, s')" by auto
  have "(x - FLASH_START) div 8192 = 0" if "x < 0x80080 + 2" for x using that by auto
  with flash_write_correct [OF flash_ref_works _ _ _ _ _ w] w show ?thesis
    by (simp add: blank_def reading_def FCR_FCMD_def)
qed

end
