(* ===== verification/Calibration_Write.thy ===== *)
theory Calibration_Write
  imports Control_Transfer Flash_Image
begin

text \<open>
  The data phase of an OUT request, for the request that writes the calibration table: the
  request, the packets, the status stage and the flash, from \<open>main_setup_handle\<close> to the contents of
  the last page. What the host sends is a hypothesis on the registers of the controller.
\<close>

section \<open>Packets from the host\<close>

text \<open>
  \<open>acks\<close> counts the packets that the firmware has released. The host sends the packets \<open>ps\<close>
  after \<open>k\<close> earlier ones: the byte count and the packet memory show the packet whose turn it is.
\<close>

primrec acks :: "event list \<Rightarrow> nat" where
  "acks [] = 0"
| "acks (e # tr) =
     (case e of
        Wr p r v \<Rightarrow>
          if p = UDPHS \<and> r = EPT 0 EPTCLRSTA \<and> v AND RX_BK_RDY \<noteq> 0 then Suc (acks tr) else acks tr
      | _ \<Rightarrow> acks tr)"

definition host_sends :: "hw \<Rightarrow> nat \<Rightarrow> u8 list list \<Rightarrow> bool" where
  "host_sends hw k ps \<longleftrightarrow>
     (\<forall>tr. k \<le> acks tr \<and> acks tr < k + length ps \<longrightarrow>
        unat (drop_bit 20 (hw tr UDPHS (EPT 0 EPTSTA) AND BYTE_COUNT_Msk)) = length (ps ! (acks tr - k)) \<and>
        (\<forall>a < length (ps ! (acks tr - k)). ucast (hw tr UDPHS_RAM a) = ps ! (acks tr - k) ! a))"

primrec packets_received :: "hw \<Rightarrow> nat \<Rightarrow> 'z usb_scheme \<Rightarrow> 'z usb_scheme option" where
  "packets_received hw 0 s = Some s"
| "packets_received hw (Suc k) s = do { s \<leftarrow> udd_ctrl_out_received hw s; packets_received hw k s }"

definition patch :: "nat \<Rightarrow> 'a list \<Rightarrow> 'a list \<Rightarrow> 'a list" where
  "patch i bs xs = take i xs @ bs @ drop (i + length bs) xs"

lemma patch_Nil [simp]: "patch i [] xs = xs"
  by (simp add: patch_def)

lemma length_patch [simp]: "i + length bs \<le> length xs \<Longrightarrow> length (patch i bs xs) = length xs"
  by (simp add: patch_def)

lemma patch_Cons: "i < length xs \<Longrightarrow> patch (Suc i) bs (xs[i := b]) = patch i (b # bs) xs"
  by (simp add: patch_def take_Suc_conv_app_nth)

lemma patch_append:
  "i + length as \<le> length xs \<Longrightarrow> patch (i + length as) bs (patch i as xs) = patch i (as @ bs) xs"
  by (simp add: patch_def ac_simps)

lemma chop_nth: "k < length (chop bs) \<Longrightarrow> chop bs ! k = take 64 (drop (64 * k) bs)"
proof (induction bs arbitrary: k rule: chop.induct)
  case (1 bs)
  then show ?case by (cases k; subst chop.simps, subst (asm) (2) chop.simps) (auto simp: add.commute split: if_splits)
qed

lemma length_chop: "length (chop bs) = (length bs + 63) div 64"
proof (induction bs rule: chop.induct)
  case (1 bs)
  show ?case
  proof (cases "bs = []")
    case False
    then have "length (chop bs) = Suc ((length bs - 64 + 63) div 64)" using 1 by (subst chop.simps) simp
    also have "\<dots> = (length bs + 63) div 64" using False by (cases bs) (auto simp: le_div_geq not_le split: nat_diff_split)
    finally show ?thesis .
  qed (simp add: chop.simps)
qed

section \<open>One packet\<close>

lemma copy_out_flash:
  assumes "\<And>j tr. j < length bs \<Longrightarrow> acks tr = acks (trace s) \<Longrightarrow> ucast (hw tr UDPHS_RAM (a + j)) = bs ! j"
    and "off + length bs \<le> length (flash_table s)"
  shows "copy_out hw (O_flash_table, off) a (length bs) s =
    s\<lparr>trace := map (\<lambda>j. Rd UDPHS_RAM (a + j)) (rev [0..<length bs]) @ trace s, flash_table := patch off bs (flash_table s)\<rparr>"
  using assms
proof (induction bs arbitrary: a off s)
  case (Cons b bs)
  let ?s = "store_byte (O_flash_table, off) b (snd (rd hw UDPHS_RAM a s))"
  have s: "?s = s\<lparr>trace := Rd UDPHS_RAM a # trace s, flash_table := (flash_table s)[off := b]\<rparr>"
    using Cons.prems(2) by (simp add: store_byte_def obj_bytes_def rd_def)
  have u: "[0..<Suc (length bs)] = 0 # map Suc [0..<length bs]"
    by (simp add: upt_conv_Cons map_Suc_upt del: upt_Suc)
  have b: "ucast (fst (rd hw UDPHS_RAM a s)) = b" using Cons.prems(1) [of 0 "trace s"] by (simp add: rd_def)
  have v: "ucast (hw tr UDPHS_RAM (Suc a + j)) = bs ! j" if "j < length bs" "acks tr = acks (trace ?s)" for j tr
    using Cons.prems(1) [of "Suc j" tr] that by (simp add: s)
  have l: "Suc off + length bs \<le> length (flash_table ?s)" using Cons.prems(2) by (simp add: s)
  have "copy_out hw (O_flash_table, off) a (length (b # bs)) s = copy_out hw (O_flash_table, Suc off) (Suc a) (length bs) ?s"
    by (simp add: split_def b)
  also have "\<dots> = ?s\<lparr>trace := map (\<lambda>j. Rd UDPHS_RAM (Suc a + j)) (rev [0..<length bs]) @ trace ?s,
      flash_table := patch (Suc off) bs (flash_table ?s)\<rparr>"
    by (rule Cons.IH [OF v l])
  finally show ?case
    using Cons.prems(2) by (simp add: s u patch_Cons comp_def rev_map del: upt_Suc)
qed simp

text \<open>
  \<open>c\<close> bytes of the data have arrived, in full packets: they are in the table from index \<open>i\<close> on, which
  was \<open>ft\<close> before.
\<close>

definition arrived :: "nat \<Rightarrow> u8 list \<Rightarrow> u8 list \<Rightarrow> nat \<Rightarrow> 'z usb_scheme \<Rightarrow> bool" where
  "arrived i data ft c s \<longleftrightarrow>
     udd_ep_control_state s = UDD_EPCTRL_DATA_OUT \<and> over_under_run s = None \<and> callback s = CC_store_flash_table \<and>
     udd_ctrl_prev_payload_buf_cnt s = 0 \<and> payload s = (O_flash_table, i) \<and>
     unat (payload_size s) = length data \<and> wLength (req s) = payload_size s \<and>
     unat (udd_ctrl_payload_buf_cnt s) = c \<and> flash_table s = patch i (take c data) ft"

definition receiving :: "nat \<Rightarrow> u8 list \<Rightarrow> u8 list \<Rightarrow> nat \<Rightarrow> nat \<Rightarrow> 'z usb_scheme \<Rightarrow> bool" where
  "receiving i data ft k c s \<longleftrightarrow> arrived i data ft c s \<and> acks (trace s) = k + c div 64"

text \<open>What the flash sees of an access to the USB controller: nothing.\<close>

definition unseen :: "flash_state \<Rightarrow> event list \<Rightarrow> event list \<Rightarrow> bool" where
  "unseen f0 tr tr' \<longleftrightarrow> flash_image f0 tr' = flash_image f0 tr \<and> reading tr' = reading tr"

lemma unseen_refl [simp]: "unseen f0 tr tr"
  by (simp add: unseen_def)

lemma unseen_events [simp]:
  "unseen f0 tr (Rd p r # tr') = unseen f0 tr tr'"
  "unseen f0 tr (Wr UDPHS r v # tr') = unseen f0 tr tr'"
  "unseen f0 tr (map (\<lambda>j. Rd p (g j)) js @ tr') = unseen f0 tr tr'"
proof -
  show 1: "unseen f0 tr (Rd p r # tr') = unseen f0 tr tr'" for r tr' by (simp add: unseen_def)
  show "unseen f0 tr (Wr UDPHS r v # tr') = unseen f0 tr tr'" by (simp add: unseen_def reading_def)
  show "unseen f0 tr (map (\<lambda>j. Rd p (g j)) js @ tr') = unseen f0 tr tr'" by (induction js) (simp_all add: 1)
qed

lemma acks_reads [simp]: "acks (map (\<lambda>j. Rd p (g j)) js @ tr) = acks tr"
  by (induction js) simp_all

lemma host_packet:
  assumes "receiving i data ft k c s" and c: "64 dvd c" "c < length data" and host: "host_sends hw k (chop data)"
  shows "unat (drop_bit 20 (hw (trace s) UDPHS (EPT 0 EPTSTA) AND BYTE_COUNT_Msk)) = length (take 64 (drop c data))"
    and "\<And>j tr. j < length (take 64 (drop c data)) \<Longrightarrow> acks tr = acks (trace s) \<Longrightarrow>
      ucast (hw tr UDPHS_RAM (0 + j)) = take 64 (drop c data) ! j"
proof -
  have a: "acks (trace s) = k + c div 64" using assms(1) by (simp add: receiving_def)
  have k: "acks (trace s) - k < length (chop data)" "64 * (acks (trace s) - k) = c"
    using a c by (auto simp: length_chop)
  have p: "chop data ! (acks (trace s) - k) = take 64 (drop c data)" using chop_nth [OF k(1)] by (simp add: k(2))
  have at: "k \<le> acks tr \<and> acks tr < k + length (chop data)" "chop data ! (acks tr - k) = take 64 (drop c data)"
    if "acks tr = acks (trace s)" for tr using that k a p by auto
  show "unat (drop_bit 20 (hw (trace s) UDPHS (EPT 0 EPTSTA) AND BYTE_COUNT_Msk)) = length (take 64 (drop c data))"
    using host at [of "trace s"] by (simp add: host_sends_def)
  show "ucast (hw tr UDPHS_RAM (0 + j)) = take 64 (drop c data) ! j"
    if "j < length (take 64 (drop c data))" "acks tr = acks (trace s)" for j tr
    using host at [OF that(2)] that(1) by (simp add: host_sends_def)
qed

lemma out_received_copies:
  assumes rcv: "receiving i data ft k c s" and c: "64 dvd c" "c < length data"
    and fit: "i + length data \<le> length ft" and host: "host_sends hw k (chop data)"
    and small: "length data \<le> 256"
  shows "\<exists>nb s1. udd_ctrl_out_received hw s = Some (out_data_done hw nb s1) \<and> unat nb = min 64 (length data - c) \<and>
    arrived i data ft (min (c + 64) (length data)) s1 \<and> acks (trace s1) = k + c div 64 \<and> unseen f0 (trace s) (trace s1)"
proof -
  define bs where "bs = take 64 (drop c data)"
  note r = rcv [unfolded receiving_def arrived_def]
  have ram: "ucast (hw tr UDPHS_RAM (0 + j)) = bs ! j" if "j < length bs" "acks tr = acks (trace s)" for j tr
    using host_packet(2) [OF rcv c host] that by (simp add: bs_def)
  define n where "n = drop_bit 20 (hw (trace s) UDPHS (EPT 0 EPTSTA) AND BYTE_COUNT_Msk)"
  have n: "unat n = length bs" unfolding n_def bs_def by (rule host_packet(1) [OF rcv c host])
  have b: "length bs = min 64 (length data - c)" by (simp add: bs_def)
  have n16: "unat (ucast n :: u16) = length bs" using n b by (simp add: unsigned_ucast_eq take_bit_nat_eq_self)
  have cnt: "unat (udd_ctrl_payload_buf_cnt s + ucast n) = c + length bs"
    using r n16 b small c(2) by (simp add: unat_word_ariths)
  let ?s = "s\<lparr>trace := Rd UDPHS (EPT 0 EPTSTA) # trace s\<rparr>"
  define s1 where "s1 = udd_ctrl_payload_buf_cnt_update (\<lambda>c. c + ucast n)
    (s\<lparr>trace := map (\<lambda>j. Rd UDPHS_RAM (0 + j)) (rev [0..<length bs]) @ trace ?s,
       flash_table := patch (i + c) bs (flash_table s)\<rparr>)"
  have copy: "copy_out hw (O_flash_table, i + c) 0 (length bs) ?s = ?s\<lparr>trace := map (\<lambda>j. Rd UDPHS_RAM (0 + j))
      (rev [0..<length bs]) @ trace ?s, flash_table := patch (i + c) bs (flash_table ?s)\<rparr>"
  proof (rule copy_out_flash)
    show "i + c + length bs \<le> length (flash_table ?s)" using r fit b c(2) by simp
    show "ucast (hw tr UDPHS_RAM (0 + j)) = bs ! j" if "j < length bs" "acks tr = acks (trace ?s)" for j tr
      using that by (intro ram) simp_all
  qed
  have count: "udd_byte_count hw 0 s = (n, ?s)"
    unfolding udd_byte_count_def Rd_bitfield_def rd_def n_def by simp
  have len: "length bs \<le> 64" "c + length bs \<le> length data" using b c(2) by simp_all
  have "udd_ctrl_out_received hw s = Some (out_data_done hw (ucast n) s1)"
    using r n16 len copy by (simp add: udd_ctrl_out_received_def count Let_def s1_def word_less_nat_alt)
  moreover have "flash_table s1 = patch i (take (c + 64) data) ft"
    using r fit c(2) patch_append [of i "take c data" ft bs] by (simp add: s1_def bs_def take_add)
  then have "arrived i data ft (min (c + 64) (length data)) s1"
    using r cnt b c(2) by (simp add: s1_def arrived_def min_def split: if_splits)
  ultimately show ?thesis using n16 b r by (intro exI [of _ "ucast n"] exI [of _ s1]) (simp add: s1_def)
qed

lemma out_received_packet:
  assumes rcv: "receiving i data ft k c s" and c: "64 dvd c" "c < length data"
    and fit: "i + length data \<le> length ft" and host: "host_sends hw k (chop data)"
    and small: "length data \<le> 256"
  shows "\<exists>t. udd_ctrl_out_received hw s = Some t \<and> unseen f0 (trace s) (trace t) \<and>
    (if c + 64 < length data then receiving i data ft k (c + 64) t
     else udd_ep_control_state t = UDD_EPCTRL_HANDSHAKE_WAIT_IN_ZLP \<and> callback t = CC_store_flash_table \<and>
       flash_table t = patch i data ft)"
proof -
  obtain nb s1 where e: "udd_ctrl_out_received hw s = Some (out_data_done hw nb s1)"
    and nb: "unat nb = min 64 (length data - c)" and s1: "arrived i data ft (min (c + 64) (length data)) s1"
    and tr: "acks (trace s1) = k + c div 64" "unseen f0 (trace s) (trace s1)"
    using out_received_copies [OF assms] by blast
  show ?thesis
  proof (cases "c + 64 < length data")
    case True
    then have "nb = 64" using nb by (simp add: word_unat_eq_iff)
    then show ?thesis
      using True e s1 tr
      by (auto simp: out_data_done_def Let_def receiving_def arrived_def wr_def EPT_def word_unat_eq_iff)
  next
    case False
    then show ?thesis
      using e s1 tr
      by (simp add: out_data_done_def Let_def arrived_def wr_def udd_ctrl_send_zlp_in_def word_unat_eq_iff)
  qed
qed

section \<open>The data phase\<close>

lemma receiving_run:
  assumes "i + length data \<le> length ft" "host_sends hw k (chop data)" "length data \<le> 256"
    and "receiving i data ft k c s" "64 dvd c" "c < length data" "m = (length data - c + 63) div 64"
  shows "\<exists>t. packets_received hw m s = Some t \<and> unseen f0 (trace s) (trace t) \<and>
    udd_ep_control_state t = UDD_EPCTRL_HANDSHAKE_WAIT_IN_ZLP \<and> callback t = CC_store_flash_table \<and>
    flash_table t = patch i data ft"
  using assms(4-7)
proof (induction "length data - c" arbitrary: c s m rule: less_induct)
  case less
  obtain t where t: "udd_ctrl_out_received hw s = Some t" "unseen f0 (trace s) (trace t)"
    "if c + 64 < length data then receiving i data ft k (c + 64) t
     else udd_ep_control_state t = UDD_EPCTRL_HANDSHAKE_WAIT_IN_ZLP \<and> callback t = CC_store_flash_table \<and>
       flash_table t = patch i data ft"
    using out_received_packet [OF less.prems(1-3) assms(1-3), of f0] by blast
  show ?case
  proof (cases "c + 64 < length data")
    case True
    then have m: "m = Suc ((length data - (c + 64) + 63) div 64)" using less.prems(4) by auto
    have "length data - (c + 64) < length data - c" "64 dvd c + 64" using True less.prems(2) by simp_all
    from less.hyps [OF this(1) _ this(2) True refl, of t] True t show ?thesis
      by (auto simp: m unseen_def)
  next
    case False
    then have "m = 1" using less.prems(3,4) by auto
    then show ?thesis using False t by simp
  qed
qed

lemma calibration_request:
  assumes "req s = \<lparr>bmRequestType = 0x40, bRequest = 2, wValue = v, wIndex = i, wLength = n\<rparr>"
  shows "main_setup_handle hw s = Some (True, setup_flash_write 0 s)"
  using assms by (simp add: main_setup_handle_def vendor_request_def Udd_setup_type_def Let_def)

lemma out_data_phase_starts:
  assumes "req s = \<lparr>bmRequestType = 0x40, bRequest = 2, wValue = v, wIndex = i, wLength = n\<rparr>"
    and "unat n = length data" "n \<noteq> 0"
  shows "\<exists>t. start_data_phase hw (setup_flash_write 0 s) = Some t \<and> unseen f0 (trace s) (trace t) \<and>
    receiving (unat i) data (flash_table s) (acks (trace s)) 0 t"
  using assms
  by (simp add: start_data_phase_def setup_flash_write_def Udd_setup_is_in_def Let_def receiving_def arrived_def wr_def unseen_def
      reading_def EPT_def)

lemma status_stage_stores:
  assumes "responsive hw" and "flash_works hw f0" and "reading (trace t)" and "length (flash_table t) = 256"
    and "udd_ep_control_state t = UDD_EPCTRL_HANDSHAKE_WAIT_IN_ZLP" "callback t = CC_store_flash_table"
  shows "\<exists>u. udd_ctrl_in_sent hw t = Some u \<and> udd_ep_control_state u = UDD_EPCTRL_SETUP \<and>
    mem (flash_image f0 (trace u)) = overwrite (mem (flash_image f0 (trace t))) 0x9FF00 (flash_table t) \<and>
    flash_table (read_flash_table hw u) = flash_table t"
proof -
  let ?t = "wr UDPHS (EPT 0 EPTCTLDIS) TX_COMPLT t"
  have t: "reading (trace ?t)" "length (flash_table ?t) = 256" "flash_image f0 (trace ?t) = flash_image f0 (trace t)"
    "flash_table ?t = flash_table t"
    using assms(3,4) by (simp_all add: wr_def reading_def)
  obtain s where s: "store_flash_table hw (map (uninit hw ?t) [0..<4]) ?t = Some s"
    "mem (flash_image f0 (trace s)) = overwrite (mem (flash_image f0 (trace ?t))) 0x9FF00 (flash_table ?t)"
    "reading (trace s)"
    using store_flash_table_image [OF assms(1,2) t(1,2)] by blast
  have e: "udd_ctrl_in_sent hw t = Some (udd_ctrl_init s)"
    using s(1) assms(5,6) by (simp add: udd_ctrl_in_sent_def udd_ctrl_endofrequest_def Let_def wr_def)
  have u: "flash_image f0 (trace (udd_ctrl_init s)) = flash_image f0 (trace s)" "reading (trace (udd_ctrl_init s))"
    using s(3) by (simp_all add: udd_ctrl_init_def wr_def reading_def)
  have m: "mem (flash_image f0 (trace (udd_ctrl_init s))) = overwrite (mem (flash_image f0 (trace t))) 0x9FF00 (flash_table t)"
    using s(2) u(1) t by simp
  show ?thesis
    using e m read_flash_table_eq [OF assms(2) u(2) m assms(4)] by (simp add: udd_ctrl_init_def)
qed

text \<open>
  \<^bold>\<open>C7\<close>. Writing the calibration table, from the host to the flash. For the vendor request 2 with any
  index and any data that fit into the table, in any state, when the host sends the data in packets of
  64 bytes and the peripherals and the flash work: the request is accepted; after its packets the
  table in memory holds the data at the index asked for and is otherwise unchanged, nothing
  has been written to the flash, and the endpoint sends the empty packet of the status stage;
  when that packet has been taken, the last page of the flash holds the new table, no other byte of
  the flash has changed, the endpoint waits for the next request, and the next start-up
  reads the new table.
\<close>

theorem calibration_write_reaches_flash:
  assumes "req s = \<lparr>bmRequestType = 0x40, bRequest = 2, wValue = v, wIndex = i, wLength = n\<rparr>"
    and "unat n = length data" and "data \<noteq> []" and "unat i + length data \<le> 256" and "length (flash_table s) = 256"
    and "host_sends hw (acks (trace s)) (chop data)"
    and "responsive hw" and "flash_works hw f0" and "reading (trace s)"
  shows "\<exists>s1 t u. main_setup_handle hw s = Some (True, s1) \<and>
    start_data_phase hw s1 \<bind> packets_received hw (length (chop data)) = Some t \<and>
    udd_ep_control_state t = UDD_EPCTRL_HANDSHAKE_WAIT_IN_ZLP \<and>
    flash_table t = patch (unat i) data (flash_table s) \<and>
    flash_image f0 (trace t) = flash_image f0 (trace s) \<and>
    udd_ctrl_in_sent hw t = Some u \<and> udd_ep_control_state u = UDD_EPCTRL_SETUP \<and>
    mem (flash_image f0 (trace u)) =
      overwrite (mem (flash_image f0 (trace s))) 0x9FF00 (patch (unat i) data (flash_table s)) \<and>
    flash_table (read_flash_table hw u) = patch (unat i) data (flash_table s)"
proof -
  have n: "n \<noteq> 0" "0 < length data" "length data \<le> 256" using assms(2-4) by auto
  have fit: "unat i + length data \<le> length (flash_table s)" using assms(4,5) by simp
  obtain s2 where s2: "start_data_phase hw (setup_flash_write 0 s) = Some s2" "unseen f0 (trace s) (trace s2)"
    "receiving (unat i) data (flash_table s) (acks (trace s)) 0 s2"
    using out_data_phase_starts [OF assms(1,2) n(1)] by blast
  obtain t where t: "packets_received hw (length (chop data)) s2 = Some t" "unseen f0 (trace s2) (trace t)"
    "udd_ep_control_state t = UDD_EPCTRL_HANDSHAKE_WAIT_IN_ZLP" "callback t = CC_store_flash_table"
    "flash_table t = patch (unat i) data (flash_table s)"
    using receiving_run [OF fit assms(6) n(3) s2(3) _ n(2)] by (auto simp: length_chop)
  have "reading (trace t)" "length (flash_table t) = 256" "flash_image f0 (trace t) = flash_image f0 (trace s)"
    using t s2(2) assms(5,9) fit by (simp_all add: unseen_def)
  with status_stage_stores [OF assms(7,8) this(1,2) t(3,4)] calibration_request [OF assms(1)] s2 t show ?thesis
    by auto
qed

definition host_hw :: hw where
  "host_hw tr p r =
     (if p = UDPHS \<and> r = EPT 0 EPTSTA then push_bit 20 3
      else if p = UDPHS_RAM then of_nat (r + 1) else flash_ref tr p r)"

lemma host_hw_sends: "host_sends host_hw 0 (chop [1, 2, 3])"
proof -
  have "chop [1, 2, 3 :: u8] = [[1, 2, 3]]" by (simp add: chop.simps)
  moreover have "ucast (of_nat (a + 1) :: u32) = [1, 2, 3 :: u8] ! a" if "a < 3" for a
  proof -
    have "a = 0 \<or> a = 1 \<or> a = 2" using that by linarith
    then show ?thesis by auto
  qed
  ultimately show ?thesis by (simp add: host_sends_def host_hw_def EPT_def)
qed

theorem calibration_write_reaches_flash_witness:
  "\<exists>s1 t u. main_setup_handle host_hw ((usb_init [])\<lparr>req := \<lparr>bmRequestType = 0x40, bRequest = 2, wValue = 0,
       wIndex = 5, wLength = 3\<rparr>\<rparr>) = Some (True, s1) \<and>
     start_data_phase host_hw s1 \<bind> packets_received host_hw (length (chop [1, 2, 3 :: u8])) = Some t \<and>
     udd_ctrl_in_sent host_hw t = Some u \<and>
     take 10 (flash_table (read_flash_table host_hw u)) = [0, 0, 0, 0, 0, 1, 2, 3, 0, 0]"
proof -
  let ?s = "(usb_init [])\<lparr>req := \<lparr>bmRequestType = 0x40, bRequest = 2, wValue = 0, wIndex = 5, wLength = 3\<rparr>\<rparr>"
  have "responsive host_hw" using flash_ref_responsive
    by (simp add: responsive_def answers_def flash_answers_def banks_killed_def busy_banks_def ctrl_packets_fit_def
      host_hw_def)
  moreover have "flash_works host_hw blank" using flash_ref_works by (simp add: flash_works_def host_hw_def)
  moreover have "flash_table ?s = replicate 256 0" "trace ?s = []"
    by (simp_all add: usb_init_def app.defs app_init_def)
  moreover have "take 10 (patch 5 [1, 2, 3] (replicate 256 0)) = [0, 0, 0, 0, 0, 1, 2, 3, 0, 0 :: u8]"
    by (simp add: patch_def numeral_eq_Suc)
  ultimately show ?thesis
    using calibration_write_reaches_flash [of ?s 0 5 3 "[1, 2, 3]" host_hw blank] host_hw_sends
    by (auto simp: reading_def FCR_FCMD_def)
qed

end
