(* ===== verification/Pwm.thy ===== *)
theory Pwm
  imports Prelude
begin

text \<open>
  The driver of the pulse width modulation controller,
  \<^verbatim>\<open>src/asf/sam/drivers/pwm/pwm.c\<close> and \<^verbatim>\<open>pwm.h\<close>, as compiled for the SAM3U. The firmware
  is linked with it; every function is modelled. The structures the functions take by pointer
  and change (a channel whose period is changed, the protection status) are passed and returned.
  A shift of \<open>1\<close> by a channel number of 32 or more is 0, as it is on this processor.

  The lemmas show which clock the prescaler search of \<open>pwm_clocks_generate\<close> programs and that
  \<open>pwm_channel_init\<close> gives a channel the configuration asked for and leaves the bits of the
  other channels alone.
\<close>

section \<open>Registers and data\<close>

abbreviation (input) PWM_CLK :: nat where "PWM_CLK \<equiv> 0x0"
abbreviation (input) PWM_ENA :: nat where "PWM_ENA \<equiv> 0x4"
abbreviation (input) PWM_DIS :: nat where "PWM_DIS \<equiv> 0x8"
abbreviation (input) PWM_SR :: nat where "PWM_SR \<equiv> 0xC"
abbreviation (input) PWM_IER1 :: nat where "PWM_IER1 \<equiv> 0x10"
abbreviation (input) PWM_IDR1 :: nat where "PWM_IDR1 \<equiv> 0x14"
abbreviation (input) PWM_IMR1 :: nat where "PWM_IMR1 \<equiv> 0x18"
abbreviation (input) PWM_ISR1 :: nat where "PWM_ISR1 \<equiv> 0x1C"
abbreviation (input) PWM_SCM :: nat where "PWM_SCM \<equiv> 0x20"
abbreviation (input) PWM_SCUC :: nat where "PWM_SCUC \<equiv> 0x28"
abbreviation (input) PWM_SCUP :: nat where "PWM_SCUP \<equiv> 0x2C"
abbreviation (input) PWM_SCUPUPD :: nat where "PWM_SCUPUPD \<equiv> 0x30"
abbreviation (input) PWM_IER2 :: nat where "PWM_IER2 \<equiv> 0x34"
abbreviation (input) PWM_IDR2 :: nat where "PWM_IDR2 \<equiv> 0x38"
abbreviation (input) PWM_IMR2 :: nat where "PWM_IMR2 \<equiv> 0x3C"
abbreviation (input) PWM_ISR2 :: nat where "PWM_ISR2 \<equiv> 0x40"
abbreviation (input) PWM_OOV :: nat where "PWM_OOV \<equiv> 0x44"
abbreviation (input) PWM_OS :: nat where "PWM_OS \<equiv> 0x48"
abbreviation (input) PWM_OSS :: nat where "PWM_OSS \<equiv> 0x4C"
abbreviation (input) PWM_OSC :: nat where "PWM_OSC \<equiv> 0x50"
abbreviation (input) PWM_OSSUPD :: nat where "PWM_OSSUPD \<equiv> 0x54"
abbreviation (input) PWM_OSCUPD :: nat where "PWM_OSCUPD \<equiv> 0x58"
abbreviation (input) PWM_FMR :: nat where "PWM_FMR \<equiv> 0x5C"
abbreviation (input) PWM_FSR :: nat where "PWM_FSR \<equiv> 0x60"
abbreviation (input) PWM_FCR :: nat where "PWM_FCR \<equiv> 0x64"
abbreviation (input) PWM_FPV :: nat where "PWM_FPV \<equiv> 0x68"
abbreviation (input) PWM_FPE :: nat where "PWM_FPE \<equiv> 0x6C"
abbreviation (input) PWM_WPCR :: nat where "PWM_WPCR \<equiv> 0xE4"
abbreviation (input) PWM_WPSR :: nat where "PWM_WPSR \<equiv> 0xE8"

abbreviation (input) PWM_INVALID_ARGUMENT :: u32 where "PWM_INVALID_ARGUMENT \<equiv> 0xFFFF"
abbreviation (input) PWM_CLOCK_DIV_MAX :: u32 where "PWM_CLOCK_DIV_MAX \<equiv> 0x100"
abbreviation (input) PWM_WPCR_WPKEY_PASSWD :: u32 where "PWM_WPCR_WPKEY_PASSWD \<equiv> 0x50574D00"
abbreviation (input) PWM_OS_OSH0 :: u32 where "PWM_OS_OSH0 \<equiv> 0x1"
abbreviation (input) PWM_OS_OSL0 :: u32 where "PWM_OS_OSL0 \<equiv> 0x10000"
abbreviation (input) PWM_OOV_OOVH0 :: u32 where "PWM_OOV_OOVH0 \<equiv> 0x1"
abbreviation (input) PWM_OOV_OOVL0 :: u32 where "PWM_OOV_OOVL0 \<equiv> 0x10000"
abbreviation (input) PWM_CMPM_CEN :: u32 where "PWM_CMPM_CEN \<equiv> 0x1"
abbreviation (input) PWM_SCM_UPDM_Msk :: u32 where "PWM_SCM_UPDM_Msk \<equiv> 0x30000"
abbreviation (input) PWM_SCM_PTRM :: u32 where "PWM_SCM_PTRM \<equiv> 0x100000"
abbreviation (input) PWM_SCM_PTRCS_Msk :: u32 where "PWM_SCM_PTRCS_Msk \<equiv> 0xE00000"
abbreviation (input) PWM_SCUC_UPDULOCK :: u32 where "PWM_SCUC_UPDULOCK \<equiv> 0x1"
abbreviation (input) PWM_WPSR_WPVS :: u32 where "PWM_WPSR_WPVS \<equiv> 0x80"
abbreviation (input) PWM_WPSR_WPVSRC_Msk :: u32 where "PWM_WPSR_WPVSRC_Msk \<equiv> 0xFFFF0000"
abbreviation (input) PWM_FAULT_MAINOSC :: u32 where "PWM_FAULT_MAINOSC \<equiv> 0x1"
abbreviation (input) PWM_FAULT_PWMFI2 :: u32 where "PWM_FAULT_PWMFI2 \<equiv> 0x2"
abbreviation (input) PWM_FAULT_PWMFI0 :: u32 where "PWM_FAULT_PWMFI0 \<equiv> 0x4"
abbreviation (input) PWM_FAULT_PWMFI1 :: u32 where "PWM_FAULT_PWMFI1 \<equiv> 0x8"
abbreviation (input) PWM_GROUP_CLOCK :: u32 where "PWM_GROUP_CLOCK \<equiv> 0x1"
abbreviation (input) PWM_GROUP_DISABLE :: u32 where "PWM_GROUP_DISABLE \<equiv> 0x2"
abbreviation (input) PWM_GROUP_MODE :: u32 where "PWM_GROUP_MODE \<equiv> 0x4"
abbreviation (input) PWM_GROUP_PERIOD :: u32 where "PWM_GROUP_PERIOD \<equiv> 0x8"
abbreviation (input) PWM_GROUP_DEAD_TIME :: u32 where "PWM_GROUP_DEAD_TIME \<equiv> 0x10"
abbreviation (input) PWM_GROUP_FAULT :: u32 where "PWM_GROUP_FAULT \<equiv> 0x20"
abbreviation (input) PWM_CMP_MATCH :: u32 where "PWM_CMP_MATCH \<equiv> 0x8"
abbreviation (input) PWM_CMP_UPDATE :: u32 where "PWM_CMP_UPDATE \<equiv> 0x10"
abbreviation (input) PWM_PDC_TX_END :: u32 where "PWM_PDC_TX_END \<equiv> 0x2"
abbreviation (input) PWM_PDC_TX_EMPTY :: u32 where "PWM_PDC_TX_EMPTY \<equiv> 0x4"
abbreviation (input) PWM_SYNC_WRITE_READY :: u32 where "PWM_SYNC_WRITE_READY \<equiv> 0x1"
abbreviation (input) PWM_SYNC_UNDERRUN :: u32 where "PWM_SYNC_UNDERRUN \<equiv> 0x8"
abbreviation (input) PWM_CLOCK_PRE_MAX :: nat where "PWM_CLOCK_PRE_MAX \<equiv> 11"

definition PWM_CH_NUM :: "u32 \<Rightarrow> nat \<Rightarrow> nat" where
  "PWM_CH_NUM n r = 0x200 + 0x20 * unat n + r"

definition PWM_CMP :: "u32 \<Rightarrow> nat \<Rightarrow> nat" where
  "PWM_CMP n r = 0x130 + 0x10 * unat n + r"

definition PWM_ELMR :: "nat \<Rightarrow> nat" where
  "PWM_ELMR i = 0x7C + 4 * i"

abbreviation (input) PWM_CMR :: nat where "PWM_CMR \<equiv> 0x0"
abbreviation (input) PWM_CDTY :: nat where "PWM_CDTY \<equiv> 0x4"
abbreviation (input) PWM_CDTYUPD :: nat where "PWM_CDTYUPD \<equiv> 0x8"
abbreviation (input) PWM_CPRD :: nat where "PWM_CPRD \<equiv> 0xC"
abbreviation (input) PWM_CPRDUPD :: nat where "PWM_CPRDUPD \<equiv> 0x10"
abbreviation (input) PWM_CCNT :: nat where "PWM_CCNT \<equiv> 0x14"
abbreviation (input) PWM_DT :: nat where "PWM_DT \<equiv> 0x18"
abbreviation (input) PWM_DTUPD :: nat where "PWM_DTUPD \<equiv> 0x1C"
abbreviation (input) PWM_CMPV :: nat where "PWM_CMPV \<equiv> 0x0"
abbreviation (input) PWM_CMPVUPD :: nat where "PWM_CMPVUPD \<equiv> 0x4"
abbreviation (input) PWM_CMPM :: nat where "PWM_CMPM \<equiv> 0x8"
abbreviation (input) PWM_CMPMUPD :: nat where "PWM_CMPMUPD \<equiv> 0xC"

text \<open>Fields of a register: the value is shifted to its place and masked.\<close>

definition PWM_DT_DTH :: "u32 \<Rightarrow> u32" where "PWM_DT_DTH v = 0xFFFF AND v"
definition PWM_DT_DTL :: "u32 \<Rightarrow> u32" where "PWM_DT_DTL v = 0xFFFF0000 AND push_bit 16 v"
definition PWM_DTUPD_DTHUPD :: "u32 \<Rightarrow> u32" where "PWM_DTUPD_DTHUPD v = 0xFFFF AND v"
definition PWM_DTUPD_DTLUPD :: "u32 \<Rightarrow> u32" where "PWM_DTUPD_DTLUPD v = 0xFFFF0000 AND push_bit 16 v"
definition PWM_CMPV_CV :: "u32 \<Rightarrow> u32" where "PWM_CMPV_CV v = 0xFFFFFF AND v"
definition PWM_CMPM_CTR :: "u32 \<Rightarrow> u32" where "PWM_CMPM_CTR v = 0xF0 AND push_bit 4 v"
definition PWM_CMPM_CPR :: "u32 \<Rightarrow> u32" where "PWM_CMPM_CPR v = 0xF00 AND push_bit 8 v"
definition PWM_CMPM_CPRCNT :: "u32 \<Rightarrow> u32" where "PWM_CMPM_CPRCNT v = 0xF000 AND push_bit 12 v"
definition PWM_CMPM_CUPR :: "u32 \<Rightarrow> u32" where "PWM_CMPM_CUPR v = 0xF0000 AND push_bit 16 v"
definition PWM_CMPM_CUPRCNT :: "u32 \<Rightarrow> u32" where "PWM_CMPM_CUPRCNT v = 0xF00000 AND push_bit 20 v"
definition PWM_SCM_PTRCS :: "u32 \<Rightarrow> u32" where "PWM_SCM_PTRCS v = 0xE00000 AND push_bit 21 v"
definition PWM_SCUP_UPR :: "u32 \<Rightarrow> u32" where "PWM_SCUP_UPR v = 0xF AND v"
definition PWM_SCUP_UPRCNT :: "u32 \<Rightarrow> u32" where "PWM_SCUP_UPRCNT v = 0xF0 AND push_bit 4 v"
definition PWM_SCUPUPD_UPRUPD :: "u32 \<Rightarrow> u32" where "PWM_SCUPUPD_UPRUPD v = 0xF AND v"
definition PWM_WPCR_WPCMD :: "u32 \<Rightarrow> u32" where "PWM_WPCR_WPCMD v = 3 AND v"

datatype pwm_level_t = PWM_LOW | PWM_HIGH
datatype pwm_align_t = PWM_ALIGN_LEFT | PWM_ALIGN_CENTER
datatype pwm_counter_event_t = PWM_EVENT_PERIOD_END | PWM_EVENT_PERIOD_HALF_END
datatype pwm_sync_update_mode_t = PWM_SYNC_UPDATE_MODE_0 | PWM_SYNC_UPDATE_MODE_1 | PWM_SYNC_UPDATE_MODE_2
datatype pwm_pdc_request_mode_t = PWM_PDC_UPDATE_PERIOD_ELAPSED | PWM_PDC_COMPARISON_MATCH

primrec level_val :: "pwm_level_t \<Rightarrow> u32" where
  "level_val PWM_LOW = 0"
| "level_val PWM_HIGH = 1"

primrec align_val :: "pwm_align_t \<Rightarrow> u32" where
  "align_val PWM_ALIGN_LEFT = 0"
| "align_val PWM_ALIGN_CENTER = push_bit 8 1"

primrec counter_event_val :: "pwm_counter_event_t \<Rightarrow> u32" where
  "counter_event_val PWM_EVENT_PERIOD_END = 0"
| "counter_event_val PWM_EVENT_PERIOD_HALF_END = push_bit 10 1"

primrec update_mode_val :: "pwm_sync_update_mode_t \<Rightarrow> u32" where
  "update_mode_val PWM_SYNC_UPDATE_MODE_0 = 0"
| "update_mode_val PWM_SYNC_UPDATE_MODE_1 = push_bit 16 1"
| "update_mode_val PWM_SYNC_UPDATE_MODE_2 = push_bit 16 2"

primrec request_mode_val :: "pwm_pdc_request_mode_t \<Rightarrow> u32" where
  "request_mode_val PWM_PDC_UPDATE_PERIOD_ELAPSED = 0"
| "request_mode_val PWM_PDC_COMPARISON_MATCH = push_bit 20 1"

record pwm_clock_t =
  ul_clka :: u32
  ul_clkb :: u32
  ul_mck :: u32

record pwm_output_t =
  b_override_pwmh :: bool
  b_override_pwml :: bool
  override_level_pwmh :: pwm_level_t
  override_level_pwml :: pwm_level_t

record pwm_cmp_t =
  unit :: u32
  b_enable :: bool
  ul_value :: u32
  b_is_decrementing :: bool
  ul_trigger :: u32
  ul_period :: u32
  ul_update_period :: u32
  b_pulse_on_line_0 :: bool
  b_pulse_on_line_1 :: bool

record pwm_fault_t =
  fault_id :: u32
  polarity :: pwm_level_t
  b_clear :: bool
  b_filtered :: bool

record pwm_protect_t =
  ul_hw_status :: u32
  ul_sw_status :: u32
  ul_offset :: u32

record pwm_channel_t =
  channel :: u32
  ul_prescaler :: u32
  alignment :: pwm_align_t
  polarity :: pwm_level_t
  ul_duty :: u32
  ul_period :: u32
  counter_event :: pwm_counter_event_t
  b_deadtime_generator :: bool
  b_pwmh_output_inverted :: bool
  b_pwml_output_inverted :: bool
  us_deadtime_pwmh :: u16
  us_deadtime_pwml :: u16
  output_selection :: pwm_output_t
  b_sync_ch :: bool
  fault_id :: u32
  ul_fault_output_pwmh :: pwm_level_t
  ul_fault_output_pwml :: pwm_level_t

section \<open>Clocks\<close>

definition ul_divisors :: "u32 list" where
  "ul_divisors = [1, 2, 4, 8, 16, 32, 64, 128, 256, 512, 1024]"

text \<open>
  The loop of \<open>pwm_clocks_generate\<close>: the prescaler it stops at and the last divisor computed.
\<close>

function clocks_search :: "u32 \<Rightarrow> u32 \<Rightarrow> nat \<Rightarrow> nat \<times> u32" where
  "clocks_search ul_frequency mck ul_pre =
     (let ul_div = (mck div (ul_divisors ! ul_pre)) div ul_frequency in
      if ul_div \<le> PWM_CLOCK_DIV_MAX then (ul_pre, ul_div)
      else if ul_pre + 1 < PWM_CLOCK_PRE_MAX then clocks_search ul_frequency mck (ul_pre + 1)
      else (ul_pre + 1, ul_div))"
  by pat_completeness auto
termination by (relation "measure (\<lambda>(_, _, pre). 11 - pre)") auto

declare clocks_search.simps [simp del]

definition pwm_clocks_generate :: "u32 \<Rightarrow> u32 \<Rightarrow> u32" where
  "pwm_clocks_generate ul_frequency mck =
     (let (ul_pre, ul_div) = clocks_search ul_frequency mck 0 in
      if ul_pre < PWM_CLOCK_PRE_MAX then ul_div OR push_bit 8 (word_of_nat ul_pre)
      else PWM_INVALID_ARGUMENT)"

definition pwm_init :: "periph \<Rightarrow> pwm_clock_t \<Rightarrow> 'z mach_scheme \<Rightarrow> u32 \<times> 'z mach_scheme" where
  "pwm_init p_pwm clock_config s =
     (let a = pwm_clocks_generate (ul_clka clock_config) (ul_mck clock_config);
          b = pwm_clocks_generate (ul_clkb clock_config) (ul_mck clock_config) in
      if ul_clka clock_config \<noteq> 0 \<and> a = PWM_INVALID_ARGUMENT then (a, s)
      else let clock = (if ul_clka clock_config \<noteq> 0 then a else 0) in
      if ul_clkb clock_config \<noteq> 0 \<and> b = PWM_INVALID_ARGUMENT then (b, s)
      else let clock = (if ul_clkb clock_config \<noteq> 0 then clock OR push_bit 16 b else clock) in
      (0, wr p_pwm PWM_CLK clock s))"

section \<open>Channels\<close>

definition chan_bit :: "u32 \<Rightarrow> u32" where
  "chan_bit n = push_bit (unat n) 1"

definition both_bits :: "u32 \<Rightarrow> u32" where
  "both_bits n = push_bit (unat n) (PWM_OS_OSH0 OR PWM_OS_OSL0)"

definition channel_mode :: "pwm_channel_t \<Rightarrow> u32" where
  "channel_mode c =
     (ul_prescaler c AND 0xF) OR push_bit 9 (level_val (pwm_channel_t.polarity c)) OR
     counter_event_val (counter_event c) OR
     push_bit 16 (of_bool (b_deadtime_generator c)) OR
     push_bit 17 (of_bool (b_pwmh_output_inverted c)) OR
     push_bit 18 (of_bool (b_pwml_output_inverted c)) OR
     align_val (alignment c)"

definition init_mode :: "periph \<Rightarrow> pwm_channel_t \<Rightarrow> 'z mach_scheme \<Rightarrow> 'z mach_scheme" where
  "init_mode p_pwm c s =
     (let ch_num = channel c;
          s = wr p_pwm (PWM_CH_NUM ch_num PWM_CMR) (channel_mode c) s;
          s = wr p_pwm (PWM_CH_NUM ch_num PWM_CDTY) (ul_duty c) s;
          s = wr p_pwm (PWM_CH_NUM ch_num PWM_CPRD) (pwm_channel_t.ul_period c) s in
      if b_deadtime_generator c
      then wr p_pwm (PWM_CH_NUM ch_num PWM_DT)
             (PWM_DT_DTL (ucast (us_deadtime_pwml c)) OR PWM_DT_DTH (ucast (us_deadtime_pwmh c))) s
      else s)"

definition init_output :: "hw \<Rightarrow> periph \<Rightarrow> pwm_channel_t \<Rightarrow> 'z mach_scheme \<Rightarrow> 'z mach_scheme" where
  "init_output hw p_pwm c s =
     (let ch_num = channel c; out = output_selection c;
          s = rmw hw p_pwm PWM_OS (\<lambda>v. (v AND NOT (both_bits ch_num)) OR
                push_bit (unat ch_num) (of_bool (b_override_pwmh out)) OR
                push_bit 16 (push_bit (unat ch_num) (of_bool (b_override_pwml out)))) s in
      rmw hw p_pwm PWM_OOV (\<lambda>v. (v AND NOT (both_bits ch_num)) OR
                push_bit (unat ch_num) (level_val (override_level_pwmh out)) OR
                push_bit 16 (push_bit (unat ch_num) (level_val (override_level_pwml out)))) s)"

definition init_sync :: "hw \<Rightarrow> periph \<Rightarrow> pwm_channel_t \<Rightarrow> 'z mach_scheme \<Rightarrow> 'z mach_scheme" where
  "init_sync hw p_pwm c s =
     (let ch = chan_bit (channel c) in
      rmw hw p_pwm PWM_SCM (\<lambda>v. if b_sync_ch c then v OR ch else v AND NOT ch) s)"

definition init_fault :: "hw \<Rightarrow> periph \<Rightarrow> pwm_channel_t \<Rightarrow> 'z mach_scheme \<Rightarrow> 'z mach_scheme" where
  "init_fault hw p_pwm c s =
     (let ch = chan_bit (channel c);
          s = rmw hw p_pwm PWM_FPV (\<lambda>v.
                if ul_fault_output_pwmh c = PWM_HIGH then v OR ch else v AND NOT ch) s;
          s = rmw hw p_pwm PWM_FPV (\<lambda>v.
                if ul_fault_output_pwml c = PWM_HIGH then v OR push_bit 16 ch
                else v AND NOT (push_bit 16 ch)) s;
          ch_num = channel c * 8 in
      rmw hw p_pwm PWM_FPE (\<lambda>v.
        (v AND NOT (push_bit (unat ch_num) 0xFF)) OR
        push_bit (unat ch_num) (pwm_channel_t.fault_id c)) s)"

definition pwm_channel_init ::
    "hw \<Rightarrow> periph \<Rightarrow> pwm_channel_t \<Rightarrow> 'z mach_scheme \<Rightarrow> u32 \<times> 'z mach_scheme" where
  "pwm_channel_init hw p_pwm p_channel s =
     (0, init_fault hw p_pwm p_channel (init_sync hw p_pwm p_channel
           (init_output hw p_pwm p_channel (init_mode p_pwm p_channel s))))"

definition pwm_channel_update_period ::
    "periph \<Rightarrow> pwm_channel_t \<Rightarrow> u32 \<Rightarrow> 'z mach_scheme \<Rightarrow> u32 \<times> pwm_channel_t \<times> 'z mach_scheme" where
  "pwm_channel_update_period p_pwm p_channel period s =
     (if ul_duty p_channel > period then (PWM_INVALID_ARGUMENT, p_channel, s)
      else (0, p_channel\<lparr>pwm_channel_t.ul_period := period\<rparr>,
            wr p_pwm (PWM_CH_NUM (channel p_channel) PWM_CPRDUPD) period s))"

definition pwm_channel_update_duty ::
    "periph \<Rightarrow> pwm_channel_t \<Rightarrow> u32 \<Rightarrow> 'z mach_scheme \<Rightarrow> u32 \<times> pwm_channel_t \<times> 'z mach_scheme" where
  "pwm_channel_update_duty p_pwm p_channel duty s =
     (if pwm_channel_t.ul_period p_channel < duty then (PWM_INVALID_ARGUMENT, p_channel, s)
      else (0, p_channel\<lparr>ul_duty := duty\<rparr>,
            wr p_pwm (PWM_CH_NUM (channel p_channel) PWM_CDTYUPD) duty s))"

definition pwm_channel_get_counter ::
    "hw \<Rightarrow> periph \<Rightarrow> pwm_channel_t \<Rightarrow> 'z mach_scheme \<Rightarrow> u32 \<times> 'z mach_scheme" where
  "pwm_channel_get_counter hw p_pwm p_channel s = rd hw p_pwm (PWM_CH_NUM (channel p_channel) PWM_CCNT) s"

definition pwm_channel_enable :: "periph \<Rightarrow> u32 \<Rightarrow> 'z mach_scheme \<Rightarrow> 'z mach_scheme" where
  "pwm_channel_enable p_pwm ul_channel s = wr p_pwm PWM_ENA (chan_bit ul_channel) s"

definition pwm_channel_disable :: "periph \<Rightarrow> u32 \<Rightarrow> 'z mach_scheme \<Rightarrow> 'z mach_scheme" where
  "pwm_channel_disable p_pwm ul_channel s = wr p_pwm PWM_DIS (chan_bit ul_channel) s"

definition pwm_channel_get_status :: "hw \<Rightarrow> periph \<Rightarrow> 'z mach_scheme \<Rightarrow> u32 \<times> 'z mach_scheme" where
  "pwm_channel_get_status hw p_pwm s = rd hw p_pwm PWM_SR s"

definition pwm_channel_get_interrupt_status ::
    "hw \<Rightarrow> periph \<Rightarrow> 'z mach_scheme \<Rightarrow> u32 \<times> 'z mach_scheme" where
  "pwm_channel_get_interrupt_status hw p_pwm s = rd hw p_pwm PWM_ISR1 s"

definition pwm_channel_get_interrupt_mask ::
    "hw \<Rightarrow> periph \<Rightarrow> 'z mach_scheme \<Rightarrow> u32 \<times> 'z mach_scheme" where
  "pwm_channel_get_interrupt_mask hw p_pwm s = rd hw p_pwm PWM_IMR1 s"

definition pwm_channel_enable_interrupt ::
    "periph \<Rightarrow> u32 \<Rightarrow> u32 \<Rightarrow> 'z mach_scheme \<Rightarrow> 'z mach_scheme" where
  "pwm_channel_enable_interrupt p_pwm ul_event ul_fault s =
     wr p_pwm PWM_IER1 (chan_bit ul_event OR chan_bit (ul_fault + 16)) s"

definition pwm_channel_disable_interrupt ::
    "periph \<Rightarrow> u32 \<Rightarrow> u32 \<Rightarrow> 'z mach_scheme \<Rightarrow> 'z mach_scheme" where
  "pwm_channel_disable_interrupt p_pwm ul_event ul_fault s =
     wr p_pwm PWM_IDR1 (chan_bit ul_event OR chan_bit (ul_fault + 16)) s"

definition pwm_channel_update_output ::
    "hw \<Rightarrow> periph \<Rightarrow> pwm_channel_t \<Rightarrow> pwm_output_t \<Rightarrow> bool \<Rightarrow> 'z mach_scheme \<Rightarrow>
     pwm_channel_t \<times> 'z mach_scheme" where
  "pwm_channel_update_output hw p_pwm p_channel p_output b_sync s =
     (let ch_num = channel p_channel; ch = chan_bit ch_num;
          pwmh = level_val (override_level_pwmh p_output);
          pwml = level_val (override_level_pwml p_output);
          s = rmw hw p_pwm PWM_OOV (\<lambda>v. (v AND NOT (both_bits ch_num)) OR
                push_bit (unat ch_num) (push_bit 16 pwml OR pwmh)) s;
          both = ch OR push_bit 16 ch;
          r = (if b_override_pwml p_output \<and> b_override_pwmh p_output
               then (if b_sync then PWM_OSSUPD else PWM_OSS)
               else (if b_sync then PWM_OSCUPD else PWM_OSC)) in
      (p_channel\<lparr>output_selection := p_output\<rparr>, wr p_pwm r both s))"

definition pwm_channel_update_dead_time ::
    "periph \<Rightarrow> pwm_channel_t \<Rightarrow> u16 \<Rightarrow> u16 \<Rightarrow> 'z mach_scheme \<Rightarrow> pwm_channel_t \<times> 'z mach_scheme" where
  "pwm_channel_update_dead_time p_pwm p_channel h l s =
     (p_channel\<lparr>us_deadtime_pwmh := h, us_deadtime_pwml := l\<rparr>,
      wr p_pwm (PWM_CH_NUM (channel p_channel) PWM_DTUPD)
        (PWM_DTUPD_DTLUPD (ucast l) OR PWM_DTUPD_DTHUPD (ucast h)) s)"

section \<open>Faults\<close>

definition set_or_clear :: "bool \<Rightarrow> u32 \<Rightarrow> u32 \<Rightarrow> u32" where
  "set_or_clear b m v = (if b then v OR m else v AND NOT m)"

definition pwm_fault_init :: "hw \<Rightarrow> periph \<Rightarrow> pwm_fault_t \<Rightarrow> 'z mach_scheme \<Rightarrow> u32 \<times> 'z mach_scheme" where
  "pwm_fault_init hw p_pwm p_fault s =
     (let fid = pwm_fault_t.fault_id p_fault in
      (0, rmw hw p_pwm PWM_FMR (\<lambda>fault_reg.
            set_or_clear (b_filtered p_fault) (push_bit 16 fid)
              (set_or_clear (b_clear p_fault) (push_bit 8 fid)
                (set_or_clear (pwm_fault_t.polarity p_fault = PWM_HIGH) fid fault_reg))) s))"

definition pwm_fault_get_status :: "hw \<Rightarrow> periph \<Rightarrow> 'z mach_scheme \<Rightarrow> u32 \<times> 'z mach_scheme" where
  "pwm_fault_get_status hw p_pwm s = (let (v, s) = rd hw p_pwm PWM_FSR s in (drop_bit 8 v AND 0xFF, s))"

definition pwm_fault_get_input_level ::
    "hw \<Rightarrow> periph \<Rightarrow> u32 \<Rightarrow> 'z mach_scheme \<Rightarrow> pwm_level_t \<times> 'z mach_scheme" where
  "pwm_fault_get_input_level hw p_pwm fid s =
     (let (v, s) = rd hw p_pwm PWM_FSR s in
      (if drop_bit (unat fid) v AND 1 \<noteq> 0 then PWM_HIGH else PWM_LOW, s))"

definition pwm_fault_clear_status :: "periph \<Rightarrow> u32 \<Rightarrow> 'z mach_scheme \<Rightarrow> 'z mach_scheme" where
  "pwm_fault_clear_status p_pwm fid s = wr p_pwm PWM_FCR fid s"

section \<open>Comparison units\<close>

definition cmp_value :: "pwm_cmp_t \<Rightarrow> u32" where
  "cmp_value c = PWM_CMPV_CV (ul_value c) OR push_bit 24 (of_bool (b_is_decrementing c))"

definition cmp_mode :: "pwm_cmp_t \<Rightarrow> u32" where
  "cmp_mode c = PWM_CMPM_CTR (ul_trigger c) OR PWM_CMPM_CPR (pwm_cmp_t.ul_period c) OR
     PWM_CMPM_CUPR (ul_update_period c)"

definition cmp_pulses :: "hw \<Rightarrow> periph \<Rightarrow> pwm_cmp_t \<Rightarrow> 'z mach_scheme \<Rightarrow> 'z mach_scheme" where
  "cmp_pulses hw p_pwm c s =
     (let s = rmw hw p_pwm (PWM_ELMR 0) (set_or_clear (b_pulse_on_line_0 c) (chan_bit (unit c))) s in
      rmw hw p_pwm (PWM_ELMR 1) (set_or_clear (b_pulse_on_line_1 c) (chan_bit (unit c))) s)"

definition pwm_cmp_init :: "hw \<Rightarrow> periph \<Rightarrow> pwm_cmp_t \<Rightarrow> 'z mach_scheme \<Rightarrow> u32 \<times> 'z mach_scheme" where
  "pwm_cmp_init hw p_pwm p_cmp s =
     (let s = wr p_pwm (PWM_CMP (unit p_cmp) PWM_CMPV) (cmp_value p_cmp) s;
          s = wr p_pwm (PWM_CMP (unit p_cmp) PWM_CMPM) (cmp_mode p_cmp) s;
          s = cmp_pulses hw p_pwm p_cmp s in
      (0, rmw hw p_pwm (PWM_CMP (unit p_cmp) PWM_CMPM) (set_or_clear (b_enable p_cmp) PWM_CMPM_CEN) s))"

definition pwm_cmp_change_setting ::
    "hw \<Rightarrow> periph \<Rightarrow> pwm_cmp_t \<Rightarrow> 'z mach_scheme \<Rightarrow> u32 \<times> 'z mach_scheme" where
  "pwm_cmp_change_setting hw p_pwm p_cmp s =
     (let s = wr p_pwm (PWM_CMP (unit p_cmp) PWM_CMPVUPD) (cmp_value p_cmp) s;
          s = wr p_pwm (PWM_CMP (unit p_cmp) PWM_CMPMUPD) (cmp_mode p_cmp) s;
          s = cmp_pulses hw p_pwm p_cmp s in
      (0, rmw hw p_pwm (PWM_CMP (unit p_cmp) PWM_CMPMUPD) (set_or_clear (b_enable p_cmp) PWM_CMPM_CEN) s))"

definition pwm_cmp_get_period_counter :: "hw \<Rightarrow> periph \<Rightarrow> u32 \<Rightarrow> 'z mach_scheme \<Rightarrow> u32 \<times> 'z mach_scheme" where
  "pwm_cmp_get_period_counter hw p_pwm ul_cmp_unit s =
     (let (v, s) = rd hw p_pwm (PWM_CMP ul_cmp_unit PWM_CMPM) s in (drop_bit 12 (PWM_CMPM_CPRCNT v), s))"

definition pwm_cmp_get_update_counter :: "hw \<Rightarrow> periph \<Rightarrow> u32 \<Rightarrow> 'z mach_scheme \<Rightarrow> u32 \<times> 'z mach_scheme" where
  "pwm_cmp_get_update_counter hw p_pwm ul_cmp_unit s =
     (let (v, s) = rd hw p_pwm (PWM_CMP ul_cmp_unit PWM_CMPM) s in (drop_bit 20 (PWM_CMPM_CUPRCNT v), s))"

definition pwm_cmp_enable_interrupt :: "periph \<Rightarrow> u32 \<Rightarrow> u32 \<Rightarrow> 'z mach_scheme \<Rightarrow> 'z mach_scheme" where
  "pwm_cmp_enable_interrupt p_pwm ul_sources type s =
     (if type = PWM_CMP_MATCH then wr p_pwm PWM_IER2 (push_bit 8 (chan_bit ul_sources)) s
      else if type = PWM_CMP_UPDATE then wr p_pwm PWM_IER2 (push_bit 16 (chan_bit ul_sources)) s
      else s)"

definition pwm_cmp_disable_interrupt :: "periph \<Rightarrow> u32 \<Rightarrow> u32 \<Rightarrow> 'z mach_scheme \<Rightarrow> 'z mach_scheme" where
  "pwm_cmp_disable_interrupt p_pwm ul_sources type s =
     (if type = PWM_CMP_MATCH then wr p_pwm PWM_IDR2 (push_bit 8 (chan_bit ul_sources)) s
      else if type = PWM_CMP_UPDATE then wr p_pwm PWM_IDR2 (push_bit 16 (chan_bit ul_sources)) s
      else s)"

section \<open>Transfers, synchronous channels and write protection\<close>

definition pwm_pdc_set_request_mode ::
    "hw \<Rightarrow> periph \<Rightarrow> pwm_pdc_request_mode_t \<Rightarrow> u32 \<Rightarrow> 'z mach_scheme \<Rightarrow> 'z mach_scheme" where
  "pwm_pdc_set_request_mode hw p_pwm request_mode ul_cmp_unit s =
     rmw hw p_pwm PWM_SCM (\<lambda>sync_mode.
       (sync_mode AND NOT (PWM_SCM_PTRCS_Msk OR PWM_SCM_PTRM)) OR
       (PWM_SCM_PTRCS ul_cmp_unit OR request_mode_val request_mode)) s"

definition pwm_pdc_enable_interrupt :: "periph \<Rightarrow> u32 \<Rightarrow> 'z mach_scheme \<Rightarrow> 'z mach_scheme" where
  "pwm_pdc_enable_interrupt p_pwm ul_sources s = wr p_pwm PWM_IER2 ul_sources s"

definition pwm_pdc_disable_interrupt :: "periph \<Rightarrow> u32 \<Rightarrow> 'z mach_scheme \<Rightarrow> 'z mach_scheme" where
  "pwm_pdc_disable_interrupt p_pwm ul_sources s = wr p_pwm PWM_IDR2 ul_sources s"

definition pwm_sync_init ::
    "hw \<Rightarrow> periph \<Rightarrow> pwm_sync_update_mode_t \<Rightarrow> u32 \<Rightarrow> 'z mach_scheme \<Rightarrow> u32 \<times> 'z mach_scheme" where
  "pwm_sync_init hw p_pwm mode update_period s =
     (let s = rmw hw p_pwm PWM_SCM (\<lambda>v. (v AND NOT PWM_SCM_UPDM_Msk) OR update_mode_val mode) s in
      (0, wr p_pwm PWM_SCUP (PWM_SCUP_UPR update_period) s))"

definition pwm_sync_unlock_update :: "periph \<Rightarrow> 'z mach_scheme \<Rightarrow> 'z mach_scheme" where
  "pwm_sync_unlock_update p_pwm s = wr p_pwm PWM_SCUC PWM_SCUC_UPDULOCK s"

definition pwm_sync_change_period :: "periph \<Rightarrow> u32 \<Rightarrow> 'z mach_scheme \<Rightarrow> 'z mach_scheme" where
  "pwm_sync_change_period p_pwm update_period s =
     wr p_pwm PWM_SCUPUPD (PWM_SCUPUPD_UPRUPD update_period) s"

definition pwm_sync_get_period_counter :: "hw \<Rightarrow> periph \<Rightarrow> 'z mach_scheme \<Rightarrow> u32 \<times> 'z mach_scheme" where
  "pwm_sync_get_period_counter hw p_pwm s =
     (let (v, s) = rd hw p_pwm PWM_SCUP s in (PWM_SCUP_UPRCNT v, s))"

definition pwm_sync_enable_interrupt :: "periph \<Rightarrow> u32 \<Rightarrow> 'z mach_scheme \<Rightarrow> 'z mach_scheme" where
  "pwm_sync_enable_interrupt p_pwm ul_sources s = wr p_pwm PWM_IER2 ul_sources s"

definition pwm_sync_disable_interrupt :: "periph \<Rightarrow> u32 \<Rightarrow> 'z mach_scheme \<Rightarrow> 'z mach_scheme" where
  "pwm_sync_disable_interrupt p_pwm ul_sources s = wr p_pwm PWM_IDR2 ul_sources s"

definition pwm_enable_protect :: "periph \<Rightarrow> u32 \<Rightarrow> bool \<Rightarrow> 'z mach_scheme \<Rightarrow> 'z mach_scheme" where
  "pwm_enable_protect p_pwm ul_group b_sw s =
     wr p_pwm PWM_WPCR
       (if b_sw then PWM_WPCR_WPKEY_PASSWD OR push_bit 2 ul_group OR PWM_WPCR_WPCMD 1
        else PWM_WPCR_WPKEY_PASSWD OR push_bit 2 ul_group OR PWM_WPCR_WPCMD 2) s"

definition pwm_disable_protect :: "periph \<Rightarrow> u32 \<Rightarrow> 'z mach_scheme \<Rightarrow> 'z mach_scheme" where
  "pwm_disable_protect p_pwm ul_group s =
     wr p_pwm PWM_WPCR (PWM_WPCR_WPKEY_PASSWD OR push_bit 2 ul_group OR PWM_WPCR_WPCMD 0) s"

definition pwm_get_protect_status ::
    "hw \<Rightarrow> periph \<Rightarrow> pwm_protect_t \<Rightarrow> 'z mach_scheme \<Rightarrow> bool \<times> pwm_protect_t \<times> 'z mach_scheme" where
  "pwm_get_protect_status hw p_pwm p_protect s =
     (let (wpsr, s) = rd hw p_pwm PWM_WPSR s;
          p_protect = p_protect\<lparr>ul_hw_status := drop_bit 8 wpsr AND 0x3F,
                                ul_sw_status := wpsr AND 0x3F\<rparr> in
      if PWM_WPSR_WPVS AND wpsr = PWM_WPSR_WPVS
      then (True, p_protect\<lparr>ul_offset := drop_bit 16 (wpsr AND PWM_WPSR_WPVSRC_Msk)\<rparr>, s)
      else (False, p_protect, s))"

definition pwm_get_interrupt_status :: "hw \<Rightarrow> periph \<Rightarrow> 'z mach_scheme \<Rightarrow> u32 \<times> 'z mach_scheme" where
  "pwm_get_interrupt_status hw p_pwm s = rd hw p_pwm PWM_ISR2 s"

definition pwm_get_interrupt_mask :: "hw \<Rightarrow> periph \<Rightarrow> 'z mach_scheme \<Rightarrow> u32 \<times> 'z mach_scheme" where
  "pwm_get_interrupt_mask hw p_pwm s = rd hw p_pwm PWM_IMR2 s"

section \<open>The clock that is programmed\<close>

text \<open>Quotient of the master clock by the frequency asked for and the prescaler \<open>2 ^ k\<close>.\<close>

definition clock_quot :: "u32 \<Rightarrow> u32 \<Rightarrow> nat \<Rightarrow> nat" where
  "clock_quot f m k = unat m div (2 ^ k * unat f)"

lemma ul_divisors_nth: "k < 11 \<Longrightarrow> ul_divisors ! k = 2 ^ k"
  by (auto simp: ul_divisors_def numeral_eq_Suc less_Suc_eq)

lemma unat_clock_quot: "k < 11 \<Longrightarrow> unat (m div (ul_divisors ! k) div f) = clock_quot f m k"
proof -
  assume k: "k < 11"
  then have "2 ^ k < (2 :: nat) ^ 32" by (intro power_strict_increasing) auto
  then have "unat (word_of_nat (2 ^ k) :: u32) = 2 ^ k" 
    using k by (simp only: unsigned_of_nat) (simp add: take_bit_nat_eq_self)
  with k show ?thesis
    by (simp add: ul_divisors_nth unat_div clock_quot_def div_mult2_eq)
qed

lemma clock_quot_Suc: "clock_quot f m (Suc k) = clock_quot f m k div 2"
  by (simp add: clock_quot_def div_mult2_eq [symmetric] ac_simps)

lemma clock_quot_antimono: "i \<le> j \<Longrightarrow> clock_quot f m j \<le> clock_quot f m i"
  by (induction j rule: dec_induct) (auto simp: clock_quot_Suc)

lemma clocks_search_spec:
  "pre < 11 \<Longrightarrow> clocks_search f m pre = (k, d) \<Longrightarrow>
     pre \<le> k \<and> k \<le> 11 \<and> (\<forall>j. pre \<le> j \<and> j < k \<longrightarrow> 256 < clock_quot f m j) \<and>
     (k < 11 \<longrightarrow> unat d = clock_quot f m k \<and> clock_quot f m k \<le> 256)"
proof (induction f m pre arbitrary: k d rule: clocks_search.induct)
  case (1 f m pre)
  let ?d = "m div (ul_divisors ! pre) div f"
  have q: "unat ?d = clock_quot f m pre" by (rule unat_clock_quot) (fact 1)
  have step: "clocks_search f m pre =
      (if ?d \<le> 256 then (pre, ?d)
       else if pre + 1 < 11 then clocks_search f m (pre + 1) else (pre + 1, ?d))"
    by (subst clocks_search.simps) (simp add: Let_def)
  show ?case
  proof (cases "?d \<le> 256")
    case True
    with 1 step q show ?thesis by (auto simp: word_le_nat_alt)
  next
    case False
    then have big: "256 < clock_quot f m pre" using q by (simp add: word_le_nat_alt)
    show ?thesis
    proof (cases "pre + 1 < 11")
      case True
      with False step "1.prems" have "clocks_search f m (pre + 1) = (k, d)" by simp
      from "1.IH" [OF refl False True True this] big show ?thesis
        by (auto simp: Suc_le_eq) (metis le_neq_implies_less)+
    next
      case rest: False
      with False step "1.prems" have "k = pre + 1" "\<not> pre + 1 < 11" by auto
      with "1.prems"(1) big show ?thesis by (auto simp: less_Suc_eq_le le_antisym)
    qed
  qed
qed

text \<open>The two fields of a clock in \<open>PWM_CLK\<close>: an eight-bit divider and a four-bit prescaler.\<close>

definition clk_div :: "u32 \<Rightarrow> nat" where
  "clk_div r = unat (r AND 0xFF)"

definition clk_pre :: "u32 \<Rightarrow> nat" where
  "clk_pre r = unat (drop_bit 8 r AND 0xF)"

lemma clk_fields:
  assumes "d < 256" and "k < 16"
  shows "clk_div (d OR push_bit 8 (word_of_nat k)) = unat d"
    and "clk_pre (d OR push_bit 8 (word_of_nat k)) = k"
proof -
  have "unat d < 2 ^ 8" using assms(1) by (simp add: word_less_nat_alt)
  then have d: "take_bit 8 d = d" "drop_bit 8 d = 0"
    by (simp_all add: word_eq_iff_unsigned [where ?'a = nat] unsigned_take_bit_eq
        unsigned_drop_bit_eq take_bit_nat_eq_self drop_bit_eq_div unat_div)
  have k: "unat (word_of_nat k :: u32) = k"
    using assms(2) by (simp only: unsigned_of_nat) (simp add: take_bit_nat_eq_self)
  have ff: "(0xFF :: u32) = mask 8" and f: "(0xF :: u32) = mask 4" by (simp_all add: mask_eq_exp_minus_1)
  show "clk_div (d OR push_bit 8 (word_of_nat k)) = unat d"
    by (simp only: clk_div_def ff take_bit_eq_mask [symmetric] take_bit_or d take_bit_push_bit) simp
  have "drop_bit 8 (push_bit 8 (word_of_nat k :: u32)) = take_bit 24 (word_of_nat k)"
    by (rule bit_word_eqI) (auto simp: bit_simps)
  then have "unat (drop_bit 8 (push_bit 8 (word_of_nat k :: u32)) AND 0xF) = k"
    using assms(2) by (simp only: f take_bit_eq_mask [symmetric] take_bit_take_bit
        unsigned_take_bit_eq k) (simp add: take_bit_nat_eq_self)
  then show "clk_pre (d OR push_bit 8 (word_of_nat k)) = k"
    by (simp only: clk_pre_def drop_bit_or d) simp
qed

lemma pwm_clocks_generate_cases:
  obtains (invalid) "pwm_clocks_generate f m = PWM_INVALID_ARGUMENT" "256 < clock_quot f m 10"
  | (found) k d where "k < 11" "unat d = clock_quot f m k" "clock_quot f m k \<le> 256"
      "\<forall>j < k. 256 < clock_quot f m j"
      "pwm_clocks_generate f m = d OR push_bit 8 (word_of_nat k)"
proof -
  obtain k d where kd: "clocks_search f m 0 = (k, d)" by fastforce
  note spec = clocks_search_spec [OF _ kd]
  show thesis
  proof (cases "k < 11")
    case True
    with spec kd found [of k d] show thesis by (auto simp: pwm_clocks_generate_def)
  next
    case False
    with spec kd invalid show thesis by (auto simp: pwm_clocks_generate_def)
  qed
qed

lemma clock_quot_Suc_256: "clock_quot f m k = 256 \<Longrightarrow> j < k \<Longrightarrow> 256 < clock_quot f m j"
  using clock_quot_antimono [of "Suc j" k f m] by (auto simp: clock_quot_Suc)

lemma clock_quot_unique: "clock_quot f m i = 256 \<Longrightarrow> clock_quot f m j = 256 \<Longrightarrow> i = j"
  using clock_quot_Suc_256 [of f m i j] clock_quot_Suc_256 [of f m j i] by (metis nat_neq_iff)

lemma clock_generate_256: "clk_div (256 OR push_bit 8 (word_of_nat k)) = 0"
proof -
  have ff: "(0xFF :: u32) = mask 8" by (simp add: mask_eq_exp_minus_1)
  show ?thesis
    by (simp only: clk_div_def ff take_bit_eq_mask [symmetric] take_bit_or take_bit_push_bit) simp
qed

lemma clock_word_small:
  assumes "k < 11" and "unat d \<le> 256"
  shows "d OR push_bit 8 (word_of_nat k) \<noteq> (0xFFFF :: u32)"
proof
  assume "d OR push_bit 8 (word_of_nat k) = (0xFFFF :: u32)"
  then have "bit (d OR push_bit 8 (word_of_nat k)) 12" by simp
  then have "bit (unat d) 12 \<or> bit k 4" by (simp add: bit_simps)
  then show False using assms by (auto simp: bit_iff_odd)
qed

lemma clock_quot_bounds:
  assumes "f \<noteq> 0"
  shows "unat f * 2 ^ k * clock_quot f m k \<le> unat m \<and> unat m < unat f * 2 ^ k * (clock_quot f m k + 1)"
proof -
  have "0 < 2 ^ k * unat f" using assms by (simp add: unat_gt_0)
  then show ?thesis
    using times_div_less_eq_dividend [of "2 ^ k * unat f" "unat m"]
      dividend_less_times_div [of "2 ^ k * unat f" "unat m"]
    by (simp add: clock_quot_def ac_simps)
qed

lemma clk_div_zero_iff:
  assumes "f \<noteq> 0" and "k < 11" "unat d = clock_quot f m k" "clock_quot f m k \<le> 256"
    "\<forall>j < k. 256 < clock_quot f m j"
  shows "clk_div (d OR push_bit 8 (word_of_nat k)) = 0 \<longleftrightarrow>
    m < f \<or> (\<exists>i < 11. clock_quot f m i = 256)"
proof (cases "clock_quot f m k = 256")
  case True
  then have "d = 256" using assms(3) by (simp add: word_eq_iff_unsigned [where ?'a = nat])
  with True assms(2) show ?thesis by (auto simp: clock_generate_256)
next
  case False
  have none: "clock_quot f m i \<noteq> 256" for i
  proof (cases i k rule: linorder_cases)
    case greater
    then show ?thesis using clock_quot_antimono [of "Suc k" i f m] assms(4) by (auto simp: clock_quot_Suc)
  qed (use False assms(5) in auto)
  have "k = 0" if "m < f"
  proof -
    have "clock_quot f m 0 = 0" using that by (simp add: clock_quot_def word_less_nat_alt)
    then show ?thesis using assms(5) by (cases k) auto
  qed
  moreover have "clock_quot f m k \<noteq> 0" if "\<not> m < f"
  proof (cases k)
    case 0
    then show ?thesis using that assms(1)
      by (simp add: clock_quot_def word_less_nat_alt div_eq_0_iff unat_gt_0 not_less)
  next
    case (Suc j)
    then show ?thesis using assms(5) clock_quot_Suc [of f m j] by auto
  qed
  moreover have "clock_quot f m 0 = 0" if "m < f"
    using that by (simp add: clock_quot_def word_less_nat_alt)
  moreover have "clk_div (d OR push_bit 8 (word_of_nat k)) = clock_quot f m k"
    using clk_fields(1) [of d k] False assms by (simp add: word_less_nat_alt)
  ultimately show ?thesis using none by metis
qed



section \<open>The configuration of a channel\<close>

text \<open>Bits of the values that \<open>pwm_channel_init\<close> writes.\<close>

lemma bit_of_bool_push: "n < 32 \<Longrightarrow> bit (push_bit n (of_bool b) :: u32) i \<longleftrightarrow> i = n \<and> b"
  by (auto simp: bit_simps)

lemma level_val_of_bool: "level_val l = of_bool (l = PWM_HIGH)"
  by (cases l) simp_all

lemma align_val_of_bool: "align_val a = push_bit 8 (of_bool (a = PWM_ALIGN_CENTER))"
  by (cases a) simp_all

lemma counter_event_val_of_bool:
  "counter_event_val e = push_bit 10 (of_bool (e = PWM_EVENT_PERIOD_HALF_END))"
  by (cases e) simp_all

lemmas enum_vals = level_val_of_bool align_val_of_bool counter_event_val_of_bool

lemma bit_low4: "bit (x AND 0xF) i \<longleftrightarrow> i < 4 \<and> bit x i" for x :: u32
proof -
  have "(0xF :: u32) = mask 4" by (simp add: mask_eq_exp_minus_1)
  then have "x AND 0xF = take_bit 4 x" by (simp only: take_bit_eq_mask)
  then show ?thesis by (simp add: bit_simps)
qed

lemma bit_channel_mode:
  "bit (channel_mode c) i \<longleftrightarrow>
     i < 4 \<and> bit (ul_prescaler c) i \<or>
     i = 8 \<and> alignment c = PWM_ALIGN_CENTER \<or>
     i = 9 \<and> pwm_channel_t.polarity c = PWM_HIGH \<or>
     i = 10 \<and> counter_event c = PWM_EVENT_PERIOD_HALF_END \<or>
     i = 16 \<and> b_deadtime_generator c \<or>
     i = 17 \<and> b_pwmh_output_inverted c \<or>
     i = 18 \<and> b_pwml_output_inverted c"
proof -
  have "(8 :: nat) < 32" "(9 :: nat) < 32" "(10 :: nat) < 32" "(16 :: nat) < 32" "(17 :: nat) < 32" "(18 :: nat) < 32"
    by simp_all
  note bits = this [THEN bit_of_bool_push]
  show ?thesis unfolding channel_mode_def enum_vals bit_or_iff bit_low4 bits by blast
qed

lemma bit_both_bits: "unat n < 4 \<Longrightarrow> bit (both_bits n) i \<longleftrightarrow> i = unat n \<or> i = unat n + 16"
proof -
  have "(1 :: u32) OR 0x10000 = push_bit 0 (of_bool True) OR push_bit 16 (of_bool True)" by simp
  moreover assume "unat n < 4"
  ultimately show ?thesis
    unfolding both_bits_def
    by (simp only: push_bit_or push_bit_push_bit bit_or_iff bit_of_bool_push) auto
qed

text \<open>
  Registers that read back what was written to them: \<open>v0\<close> gives their values at reset.
\<close>

definition rw_regs :: "hw \<Rightarrow> (nat \<Rightarrow> u32) \<Rightarrow> bool" where
  "rw_regs hw v0 \<longleftrightarrow>
     (\<forall>tr. \<forall>r \<in> {PWM_OS, PWM_OOV, PWM_SCM, PWM_FPV, PWM_FPE}. hw tr PWM r = reg_of PWM r (v0 r) tr)"

lemma PWM_CH_NUM_neq [simp]:
  "x < 0x200 \<Longrightarrow> PWM_CH_NUM n r \<noteq> x" "x < 0x200 \<Longrightarrow> x \<noteq> PWM_CH_NUM n r"
  by (auto simp: PWM_CH_NUM_def)

lemma PWM_CH_NUM_eq [simp]:
  assumes "r < 0x20" and "q < 0x20"
  shows "PWM_CH_NUM n r = PWM_CH_NUM m q \<longleftrightarrow> n = m \<and> r = q"
proof
  assume eq: "PWM_CH_NUM n r = PWM_CH_NUM m q"
  have "(0x20 * unat n + r) div 0x20 = (0x20 * unat m + q) div 0x20"
    using eq by (simp only: PWM_CH_NUM_def)
  with assms have "unat n = unat m" by simp
  with eq show "n = m \<and> r = q" by (simp add: PWM_CH_NUM_def word_eq_iff_unsigned [where ?'a = nat])
qed simp

lemmas channel_init_defs = pwm_channel_init_def init_fault_def init_sync_def init_output_def init_mode_def

lemma channel_init_own_regs:
  fixes hw v0 c s
  defines "new r \<equiv> reg_of PWM r (v0 r) (trace (snd (pwm_channel_init hw PWM c s)))"
  shows "new (PWM_CH_NUM (channel c) PWM_CMR) = channel_mode c"
    and "new (PWM_CH_NUM (channel c) PWM_CDTY) = ul_duty c"
    and "new (PWM_CH_NUM (channel c) PWM_CPRD) = pwm_channel_t.ul_period c"
    and "b_deadtime_generator c \<Longrightarrow> new (PWM_CH_NUM (channel c) PWM_DT) =
           PWM_DT_DTL (ucast (us_deadtime_pwml c)) OR PWM_DT_DTH (ucast (us_deadtime_pwmh c))"
    and "k \<noteq> channel c \<Longrightarrow> r < 0x20 \<Longrightarrow>
           new (PWM_CH_NUM k r) = reg_of PWM (PWM_CH_NUM k r) (v0 (PWM_CH_NUM k r)) (trace s)"
  unfolding new_def by (simp_all add: channel_init_defs driver_defs)

lemma channel_init_shared_regs:
  fixes hw v0 c s
  assumes "rw_regs hw v0"
  defines "new r \<equiv> reg_of PWM r (v0 r) (trace (snd (pwm_channel_init hw PWM c s)))"
    and "old r \<equiv> reg_of PWM r (v0 r) (trace s)"
    and "n \<equiv> channel c" and "out \<equiv> output_selection c"
  shows "new PWM_OS = (old PWM_OS AND NOT (both_bits n)) OR
           push_bit (unat n) (of_bool (b_override_pwmh out)) OR
           push_bit 16 (push_bit (unat n) (of_bool (b_override_pwml out)))"
    and "new PWM_OOV = (old PWM_OOV AND NOT (both_bits n)) OR
           push_bit (unat n) (level_val (override_level_pwmh out)) OR
           push_bit 16 (push_bit (unat n) (level_val (override_level_pwml out)))"
    and "new PWM_SCM = set_or_clear (b_sync_ch c) (chan_bit n) (old PWM_SCM)"
    and "new PWM_FPV = set_or_clear (ul_fault_output_pwml c = PWM_HIGH) (push_bit 16 (chan_bit n))
           (set_or_clear (ul_fault_output_pwmh c = PWM_HIGH) (chan_bit n) (old PWM_FPV))"
    and "new PWM_FPE = (old PWM_FPE AND NOT (push_bit (unat (n * 8)) 0xFF)) OR
           push_bit (unat (n * 8)) (pwm_channel_t.fault_id c)"
  using assms(1) unfolding new_def old_def n_def out_def
  by (simp_all add: channel_init_defs driver_defs rw_regs_def set_or_clear_def)

lemma bit_set_or_clear: "bit (set_or_clear b m v) i \<longleftrightarrow> (if bit m i then b else bit v i)" if "i < 32"
  using that by (simp add: set_or_clear_def bit_simps)

lemma bit_chan_bit: "unat n < 4 \<Longrightarrow> bit (chan_bit n) i \<longleftrightarrow> i = unat n"
    and bit_chan_bit_high: "unat n < 4 \<Longrightarrow> bit (push_bit 16 (chan_bit n)) i \<longleftrightarrow> i = unat n + 16"
  by (auto simp: chan_bit_def bit_simps)

lemma bit_pair_update:
  assumes "unat n < 4" and "i < 32"
  shows "bit ((v AND NOT (both_bits n)) OR push_bit (unat n) (of_bool h) OR
      push_bit 16 (push_bit (unat n) (of_bool l))) i \<longleftrightarrow>
    (if i = unat n then h else if i = unat n + 16 then l else bit v i)"
proof -
  have "16 + unat n < 32" "unat n < 32" using assms by simp_all
  with assms show ?thesis
    by (simp add: bit_or_iff bit_and_iff bit_not_iff bit_both_bits push_bit_push_bit bit_of_bool_push)
qed

lemma dead_time_fields:
  fixes l h :: u16
  shows "ucast (PWM_DT_DTL (ucast l) OR PWM_DT_DTH (ucast h)) = h"
    and "ucast (drop_bit 16 (PWM_DT_DTL (ucast l) OR PWM_DT_DTH (ucast h))) = l"
proof -
  have lo: "PWM_DT_DTH v = take_bit 16 v" and hi: "PWM_DT_DTL v = push_bit 16 (take_bit 16 v)" for v
  proof -
    have "(0xFFFF :: u32) = mask 16" "(0xFFFF0000 :: u32) = push_bit 16 (mask 16)"
      by (simp_all add: mask_eq_exp_minus_1 push_bit_eq_mult)
    then show "PWM_DT_DTH v = take_bit 16 v" "PWM_DT_DTL v = push_bit 16 (take_bit 16 v)"
      by (simp_all only: PWM_DT_DTH_def PWM_DT_DTL_def take_bit_eq_mask push_bit_and and.commute)
  qed
  show "ucast (PWM_DT_DTL (ucast l) OR PWM_DT_DTH (ucast h)) = h"
    and "ucast (drop_bit 16 (PWM_DT_DTL (ucast l) OR PWM_DT_DTH (ucast h))) = l"
    unfolding lo hi by (rule bit_word_eqI, simp add: bit_simps)+
qed

lemma bit_byte_update:
  fixes n fid :: u32
  assumes "n < 4" and "i < 32" and "fid < 256"
  shows "bit ((v AND NOT (push_bit (unat (n * 8)) 0xFF)) OR push_bit (unat (n * 8)) fid) i \<longleftrightarrow>
    (if i div 8 = unat n then bit fid (i mod 8) else bit v i)"
proof -
  have n: "unat n < 4" using assms(1) by (simp add: word_less_nat_alt)
  then have sh: "unat (n * 8) = 8 * unat n" by (simp add: unat_word_ariths)
  have "(0xFF :: u32) = mask 8" by (simp add: mask_eq_exp_minus_1)
  then have "bit (0xFF :: u32) j \<longleftrightarrow> j < 8" for j by (simp only: bit_mask_iff) auto
  moreover have hi: "\<not> bit fid j" if "8 \<le> j" for j
  proof
    assume "bit fid j"
    then have "bit (unat fid) j" by (simp add: bit_simps)
    moreover have "unat fid div 2 ^ j = 0"
      using assms(3) that power_increasing [of 8 j "2 :: nat"] by (simp add: word_less_nat_alt)
    ultimately show False by (simp add: bit_iff_odd)
  qed
  moreover have "i div 8 = unat n \<longleftrightarrow> 8 * unat n \<le> i \<and> i - 8 * unat n < 8"
    and "8 * unat n \<le> i \<Longrightarrow> i - 8 * unat n < 8 \<Longrightarrow> i mod 8 = i - 8 * unat n"
    by arith+
  ultimately show ?thesis
    using assms(2) unfolding sh
    by (auto simp: bit_or_iff bit_and_iff bit_not_iff bit_push_bit_iff not_less)
qed

text \<open>
  \<open>pwm_channel_init\<close> on one of the four channels, with registers that read back what
  was written: the mode register holds the prescaler, alignment, polarity, event and dead-time
  bits asked for, the duty cycle, period and dead times are the ones given, and in the registers
  that the channels share (output selection and override level, synchronous channels, fault
  value, fault enable) exactly the bits of this channel take the values asked for. The other bits
  of these registers and all registers of the other channels keep their values.
\<close>

theorem pwm_channel_init_correct:
  assumes "channel c < 4" and "pwm_channel_t.fault_id c < 256" and "rw_regs hw v0"
  shows "let new = (\<lambda>r. reg_of PWM r (v0 r) (trace (snd (pwm_channel_init hw PWM c s))));
             old = (\<lambda>r. reg_of PWM r (v0 r) (trace s));
             n = unat (channel c); out = output_selection c in
    fst (pwm_channel_init hw PWM c s) = 0 \<and>
    (\<forall>i < 32. bit (new (PWM_CH_NUM (channel c) PWM_CMR)) i \<longleftrightarrow>
       i < 4 \<and> bit (ul_prescaler c) i \<or> i = 8 \<and> alignment c = PWM_ALIGN_CENTER \<or>
       i = 9 \<and> pwm_channel_t.polarity c = PWM_HIGH \<or>
       i = 10 \<and> counter_event c = PWM_EVENT_PERIOD_HALF_END \<or>
       i = 16 \<and> b_deadtime_generator c \<or> i = 17 \<and> b_pwmh_output_inverted c \<or>
       i = 18 \<and> b_pwml_output_inverted c) \<and>
    new (PWM_CH_NUM (channel c) PWM_CDTY) = ul_duty c \<and>
    new (PWM_CH_NUM (channel c) PWM_CPRD) = pwm_channel_t.ul_period c \<and>
    (b_deadtime_generator c \<longrightarrow>
       ucast (new (PWM_CH_NUM (channel c) PWM_DT)) = us_deadtime_pwmh c \<and>
       ucast (drop_bit 16 (new (PWM_CH_NUM (channel c) PWM_DT))) = us_deadtime_pwml c) \<and>
    (\<forall>i < 32. bit (new PWM_OS) i \<longleftrightarrow> (if i = n then b_override_pwmh out
       else if i = n + 16 then b_override_pwml out else bit (old PWM_OS) i)) \<and>
    (\<forall>i < 32. bit (new PWM_OOV) i \<longleftrightarrow> (if i = n then override_level_pwmh out = PWM_HIGH
       else if i = n + 16 then override_level_pwml out = PWM_HIGH else bit (old PWM_OOV) i)) \<and>
    (\<forall>i < 32. bit (new PWM_SCM) i \<longleftrightarrow> (if i = n then b_sync_ch c else bit (old PWM_SCM) i)) \<and>
    (\<forall>i < 32. bit (new PWM_FPV) i \<longleftrightarrow> (if i = n then ul_fault_output_pwmh c = PWM_HIGH
       else if i = n + 16 then ul_fault_output_pwml c = PWM_HIGH else bit (old PWM_FPV) i)) \<and>
    (\<forall>i < 32. bit (new PWM_FPE) i \<longleftrightarrow>
       (if i div 8 = n then bit (pwm_channel_t.fault_id c) (i mod 8) else bit (old PWM_FPE) i)) \<and>
    (\<forall>k r. k \<noteq> channel c \<longrightarrow> r < 0x20 \<longrightarrow> new (PWM_CH_NUM k r) = old (PWM_CH_NUM k r))"
proof -
  have n: "unat (channel c) < 4" using assms(1) by (simp add: word_less_nat_alt)
  show ?thesis
    unfolding Let_def channel_init_own_regs bit_channel_mode channel_init_shared_regs [OF assms(3)]
      level_val_of_bool
    by (intro conjI allI impI;
        (simp only: channel_init_own_regs dead_time_fields bit_pair_update [OF n] bit_set_or_clear
          bit_chan_bit [OF n] bit_chan_bit_high [OF n] bit_byte_update [OF assms(1) _ assms(2)]
          not_False_eq_True)?)
      (simp_all add: pwm_channel_init_def)
qed

definition pwm_example :: pwm_channel_t where
  "pwm_example = \<lparr>channel = 2, ul_prescaler = 0xB, alignment = PWM_ALIGN_CENTER, polarity = PWM_HIGH,
     ul_duty = 50, ul_period = 100, counter_event = PWM_EVENT_PERIOD_END, b_deadtime_generator = True,
     b_pwmh_output_inverted = False, b_pwml_output_inverted = True, us_deadtime_pwmh = 3,
     us_deadtime_pwml = 5, output_selection = \<lparr>b_override_pwmh = True, b_override_pwml = False,
     override_level_pwmh = PWM_HIGH, override_level_pwml = PWM_LOW\<rparr>, b_sync_ch = True,
     fault_id = PWM_FAULT_PWMFI0, ul_fault_output_pwmh = PWM_LOW, ul_fault_output_pwml = PWM_HIGH\<rparr>"

theorem pwm_channel_init_correct_witness:
  "let hw = (\<lambda>tr p r. if p = PWM then reg_of PWM r 0 tr else 0); s = \<lparr>trace = []\<rparr> in
   channel pwm_example < 4 \<and> rw_regs hw (\<lambda>_. 0) \<and>
   bit (reg_of PWM PWM_OS 0 (trace (snd (pwm_channel_init hw PWM pwm_example s)))) 2"
proof -
  let ?hw = "\<lambda>tr p r. if p = PWM then reg_of PWM r 0 tr else 0"
  have rw: "rw_regs ?hw (\<lambda>_. 0)" by (simp add: rw_regs_def)
  have "channel pwm_example < 4" "pwm_channel_t.fault_id pwm_example < 256"
    by (simp_all add: pwm_example_def)
  from pwm_channel_init_correct [OF this rw, of "\<lparr>trace = []\<rparr>"] this(1) rw show ?thesis
    by (simp add: Let_def) (simp add: pwm_example_def)
qed

end
