(* ===== verification/Interrupt.thy ===== *)
theory Interrupt
  imports Prelude
begin

text \<open>
  Interrupt masking and the interrupt controller: the inline functions on the NVIC and on the
  priority register of \<^verbatim>\<open>src/asf/thirdparty/CMSIS/Include/core_cm3.h\<close>, and the global mask
  with its critical sections, \<^verbatim>\<open>src/asf/common/utils/interrupt/interrupt_sam_nvic.h\<close> and
  \<^verbatim>\<open>interrupt_sam_nvic.c\<close>. An interrupt number is an \<open>int\<close>: system exceptions are negative.
  A byte register is written at its byte offset.

  The lemmas show that sections that are nested in any way mask the interrupts from the first
  entry to the last exit and then put the mask back as it was.
\<close>

section \<open>The interrupt controller\<close>

abbreviation (input) NVIC_ISER :: nat where "NVIC_ISER \<equiv> 0"
abbreviation (input) NVIC_ICER :: nat where "NVIC_ICER \<equiv> 0x80"
abbreviation (input) NVIC_ISPR :: nat where "NVIC_ISPR \<equiv> 0x100"
abbreviation (input) NVIC_ICPR :: nat where "NVIC_ICPR \<equiv> 0x180"
abbreviation (input) NVIC_IABR :: nat where "NVIC_IABR \<equiv> 0x200"
abbreviation (input) NVIC_IP :: nat where "NVIC_IP \<equiv> 0x300"
abbreviation (input) SCB_AIRCR :: nat where "SCB_AIRCR \<equiv> 0xC"
abbreviation (input) SCB_SHP :: nat where "SCB_SHP \<equiv> 0x18"
abbreviation (input) SCB_AIRCR_VECTKEY_Msk :: u32 where "SCB_AIRCR_VECTKEY_Msk \<equiv> 0xFFFF0000"
abbreviation (input) SCB_AIRCR_PRIGROUP_Msk :: u32 where "SCB_AIRCR_PRIGROUP_Msk \<equiv> 0x700"
abbreviation (input) NVIC_PRIO_BITS :: nat where "NVIC_PRIO_BITS \<equiv> 4"

type_synonym IRQn_Type = int

definition irq_word :: "IRQn_Type \<Rightarrow> nat" where
  "irq_word IRQn = 4 * unat (drop_bit 5 (word_of_int IRQn :: u32))"

definition irq_bit :: "IRQn_Type \<Rightarrow> u32" where
  "irq_bit IRQn = push_bit (unat (word_of_int IRQn AND 0x1F :: u32)) 1"

definition NVIC_SetPriorityGrouping :: "hw \<Rightarrow> u32 \<Rightarrow> 'z mach_scheme \<Rightarrow> 'z mach_scheme" where
  "NVIC_SetPriorityGrouping hw PriorityGroup s =
     rmw hw SCB SCB_AIRCR (\<lambda>v. (v AND NOT (SCB_AIRCR_VECTKEY_Msk OR SCB_AIRCR_PRIGROUP_Msk)) OR
       push_bit 16 0x5FA OR push_bit 8 (PriorityGroup AND 7)) s"

definition NVIC_GetPriorityGrouping :: "hw \<Rightarrow> 'z mach_scheme \<Rightarrow> u32 \<times> 'z mach_scheme" where
  "NVIC_GetPriorityGrouping hw s =
     (let (v, s) = rd hw SCB SCB_AIRCR s in (drop_bit 8 (v AND SCB_AIRCR_PRIGROUP_Msk), s))"

definition NVIC_EnableIRQ :: "IRQn_Type \<Rightarrow> 'z mach_scheme \<Rightarrow> 'z mach_scheme" where
  "NVIC_EnableIRQ IRQn s = wr NVIC (NVIC_ISER + irq_word IRQn) (irq_bit IRQn) s"

definition NVIC_DisableIRQ :: "IRQn_Type \<Rightarrow> 'z mach_scheme \<Rightarrow> 'z mach_scheme" where
  "NVIC_DisableIRQ IRQn s = wr NVIC (NVIC_ICER + irq_word IRQn) (irq_bit IRQn) s"

definition NVIC_GetPendingIRQ :: "hw \<Rightarrow> IRQn_Type \<Rightarrow> 'z mach_scheme \<Rightarrow> u32 \<times> 'z mach_scheme" where
  "NVIC_GetPendingIRQ hw IRQn s =
     (let (v, s) = rd hw NVIC (NVIC_ISPR + irq_word IRQn) s
      in (if v AND irq_bit IRQn \<noteq> 0 then 1 else 0, s))"

definition NVIC_SetPendingIRQ :: "IRQn_Type \<Rightarrow> 'z mach_scheme \<Rightarrow> 'z mach_scheme" where
  "NVIC_SetPendingIRQ IRQn s = wr NVIC (NVIC_ISPR + irq_word IRQn) (irq_bit IRQn) s"

definition NVIC_ClearPendingIRQ :: "IRQn_Type \<Rightarrow> 'z mach_scheme \<Rightarrow> 'z mach_scheme" where
  "NVIC_ClearPendingIRQ IRQn s = wr NVIC (NVIC_ICPR + irq_word IRQn) (irq_bit IRQn) s"

definition NVIC_GetActive :: "hw \<Rightarrow> IRQn_Type \<Rightarrow> 'z mach_scheme \<Rightarrow> u32 \<times> 'z mach_scheme" where
  "NVIC_GetActive hw IRQn s =
     (let (v, s) = rd hw NVIC (NVIC_IABR + irq_word IRQn) s
      in (if v AND irq_bit IRQn \<noteq> 0 then 1 else 0, s))"

text \<open>The priority byte of an interrupt: in the SCB for a system exception, in the NVIC otherwise.\<close>

definition prio_reg :: "IRQn_Type \<Rightarrow> periph \<times> nat" where
  "prio_reg IRQn =
     (if IRQn < 0 then (SCB, SCB_SHP + unat ((word_of_int IRQn AND 0xF) - 4 :: u32))
      else (NVIC, NVIC_IP + unat (word_of_int IRQn :: u32)))"

definition NVIC_SetPriority :: "IRQn_Type \<Rightarrow> u32 \<Rightarrow> 'z mach_scheme \<Rightarrow> 'z mach_scheme" where
  "NVIC_SetPriority IRQn priority s =
     (case prio_reg IRQn of (p, r) \<Rightarrow> wr p r (push_bit (8 - NVIC_PRIO_BITS) priority AND 0xFF) s)"

definition NVIC_GetPriority :: "hw \<Rightarrow> IRQn_Type \<Rightarrow> 'z mach_scheme \<Rightarrow> u32 \<times> 'z mach_scheme" where
  "NVIC_GetPriority hw IRQn s =
     (case prio_reg IRQn of (p, r) \<Rightarrow>
        let (v, s) = rd hw p r s in (drop_bit (8 - NVIC_PRIO_BITS) (v AND 0xFF), s))"

text \<open>How many of the four priority bits select preemption and how many the sub-priority.\<close>

definition preempt_bits :: "u32 \<Rightarrow> nat" where
  "preempt_bits PriorityGroup =
     (let g = unat (PriorityGroup AND 7) in if 7 - g > NVIC_PRIO_BITS then NVIC_PRIO_BITS else 7 - g)"

definition sub_bits :: "u32 \<Rightarrow> nat" where
  "sub_bits PriorityGroup =
     (let g = unat (PriorityGroup AND 7) in if g + NVIC_PRIO_BITS < 7 then 0 else g + NVIC_PRIO_BITS - 7)"

definition NVIC_EncodePriority :: "u32 \<Rightarrow> u32 \<Rightarrow> u32 \<Rightarrow> u32" where
  "NVIC_EncodePriority PriorityGroup PreemptPriority SubPriority =
     push_bit (sub_bits PriorityGroup) (PreemptPriority AND (push_bit (preempt_bits PriorityGroup) 1 - 1)) OR
     (SubPriority AND (push_bit (sub_bits PriorityGroup) 1 - 1))"

definition NVIC_DecodePriority :: "u32 \<Rightarrow> u32 \<Rightarrow> u32 \<times> u32" where
  "NVIC_DecodePriority Priority PriorityGroup =
     (drop_bit (sub_bits PriorityGroup) Priority AND (push_bit (preempt_bits PriorityGroup) 1 - 1),
      Priority AND (push_bit (sub_bits PriorityGroup) 1 - 1))"

definition irq_register_handler :: "IRQn_Type \<Rightarrow> u32 \<Rightarrow> 'z mach_scheme \<Rightarrow> 'z mach_scheme" where
  "irq_register_handler int_num int_prio s =
     NVIC_EnableIRQ int_num (NVIC_SetPriority int_num int_prio (NVIC_ClearPendingIRQ int_num s))"

section \<open>The global mask\<close>

text \<open>
  \<open>primask\<close> is the mask bit of the processor; the other fields are the variables of the module.
  The barriers around a change of the mask order accesses and have no effect of their own.
\<close>

record irq = mach +
  primask :: bool
  g_interrupt_enabled :: bool
  cpu_irq_critical_section_counter :: u32
  cpu_irq_prev_interrupt_state :: bool

definition irq_init :: irq where
  "irq_init = \<lparr>trace = [], primask = False, g_interrupt_enabled = True,
     cpu_irq_critical_section_counter = 0, cpu_irq_prev_interrupt_state = False\<rparr>"

definition cpu_irq_enable :: "'z irq_scheme \<Rightarrow> 'z irq_scheme" where
  "cpu_irq_enable s =
     (let s = s\<lparr>g_interrupt_enabled := True\<rparr>
      in trace_update (\<lambda>t. Cpsie # t) (s\<lparr>primask := False\<rparr>))"

definition cpu_irq_disable :: "'z irq_scheme \<Rightarrow> 'z irq_scheme" where
  "cpu_irq_disable s =
     (let s = trace_update (\<lambda>t. Cpsid # t) (s\<lparr>primask := True\<rparr>)
      in s\<lparr>g_interrupt_enabled := False\<rparr>)"

definition cpu_irq_is_enabled :: "'z irq_scheme \<Rightarrow> bool" where
  "cpu_irq_is_enabled s \<longleftrightarrow> \<not> primask s"

definition cpu_irq_save :: "'z irq_scheme \<Rightarrow> bool \<times> 'z irq_scheme" where
  "cpu_irq_save s = (cpu_irq_is_enabled s, cpu_irq_disable s)"

definition cpu_irq_is_enabled_flags :: "bool \<Rightarrow> bool" where
  "cpu_irq_is_enabled_flags flags = flags"

definition cpu_irq_restore :: "bool \<Rightarrow> 'z irq_scheme \<Rightarrow> 'z irq_scheme" where
  "cpu_irq_restore flags s = (if cpu_irq_is_enabled_flags flags then cpu_irq_enable s else s)"

definition cpu_irq_enter_critical :: "'z irq_scheme \<Rightarrow> 'z irq_scheme" where
  "cpu_irq_enter_critical s =
     (let s = (if cpu_irq_critical_section_counter s = 0 then
                 if cpu_irq_is_enabled s
                 then (cpu_irq_disable s)\<lparr>cpu_irq_prev_interrupt_state := True\<rparr>
                 else s\<lparr>cpu_irq_prev_interrupt_state := False\<rparr>
               else s)
      in s\<lparr>cpu_irq_critical_section_counter := cpu_irq_critical_section_counter s + 1\<rparr>)"

definition cpu_irq_leave_critical :: "'z irq_scheme \<Rightarrow> 'z irq_scheme" where
  "cpu_irq_leave_critical s =
     (let s = s\<lparr>cpu_irq_critical_section_counter := cpu_irq_critical_section_counter s - 1\<rparr>
      in if cpu_irq_critical_section_counter s = 0 \<and> cpu_irq_prev_interrupt_state s
         then cpu_irq_enable s else s)"

lemmas irq_defs = cpu_irq_enable_def cpu_irq_disable_def cpu_irq_is_enabled_def cpu_irq_save_def
  cpu_irq_is_enabled_flags_def cpu_irq_restore_def cpu_irq_enter_critical_def cpu_irq_leave_critical_def

section \<open>Priorities\<close>

lemma priority_bits: "preempt_bits g \<le> 4" "sub_bits g \<le> 4" "preempt_bits g + sub_bits g \<le> 32"
proof -
  have "(7 :: u32) = mask 3" by (simp add: mask_eq_exp_minus_1)
  then have "unat (g AND 7) < 2 ^ 3"
    by (simp only: take_bit_eq_mask [symmetric] unsigned_take_bit_eq take_bit_nat_less_exp)
  then show "preempt_bits g \<le> 4" "sub_bits g \<le> 4" "preempt_bits g + sub_bits g \<le> 32"
    by (auto simp: preempt_bits_def sub_bits_def Let_def)
qed

lemma NVIC_DecodePriority_Encode:
  assumes "p < 2 ^ preempt_bits g" and "q < 2 ^ sub_bits g"
  shows "NVIC_DecodePriority (NVIC_EncodePriority g p q) g = (p, q)"
proof -
  define m n where "m = preempt_bits g" and "n = sub_bits g"
  have small: "take_bit k w = w" if "w < 2 ^ k" "k \<le> 4" for k and w :: u32
  proof -
    have "2 ^ k = (word_of_nat (2 ^ k) :: u32)" by simp
    moreover have "unat (word_of_nat (2 ^ k) :: u32) = 2 ^ k"
      using that(2) by (simp only: unsigned_of_nat) (simp add: take_bit_nat_eq_self)
    ultimately have "unat w < 2 ^ k" using that(1) by (simp add: word_less_nat_alt)
    then show ?thesis
      by (simp add: word_eq_iff_unsigned [where ?'a = nat] unsigned_take_bit_eq take_bit_nat_eq_self)
  qed
  have le: "m \<le> 4" "n \<le> 4" using priority_bits [of g] by (simp_all add: m_def n_def)
  have p: "take_bit m p = p" and q: "take_bit n q = q"
    using small assms le by (simp_all add: m_def n_def)
  have mk: "push_bit k 1 - 1 = (mask k :: u32)" for k
    by (simp add: mask_eq_exp_minus_1 push_bit_of_1)
  have bq: "i < n" if "bit q i" for i
    using that q bit_take_bit_iff [of n q i] by simp
  have bp: "i < m" if "bit p i" for i
    using that p bit_take_bit_iff [of m p i] by simp
  have "take_bit m (drop_bit n (push_bit n p OR q)) = p"
  proof (rule bit_word_eqI)
    fix i
    show "bit (take_bit m (drop_bit n (push_bit n p OR q))) i \<longleftrightarrow> bit p i"
      using le bp [of i] bq [of "n + i"] by (auto simp: bit_simps)
  qed
  moreover have "take_bit n (push_bit n p OR q) = q"
    using q by (simp add: take_bit_or take_bit_push_bit)
  ultimately show ?thesis
    by (simp only: NVIC_DecodePriority_def NVIC_EncodePriority_def mk take_bit_eq_mask [symmetric]
        p q m_def [symmetric] n_def [symmetric])
qed

section \<open>Nested sections\<close>

text \<open>
  A program that brackets code with \<open>cpu_irq_save\<close> and \<open>cpu_irq_restore\<close> or with
  \<open>cpu_irq_enter_critical\<close> and \<open>cpu_irq_leave_critical\<close>, nested in any way. \<open>Code n\<close> is a piece
  of code that does not touch the mask; its run is the event \<open>Call n\<close>.
\<close>

datatype irq_prog = Code nat | Saved "irq_prog list" | Critical "irq_prog list"

fun run :: "irq_prog \<Rightarrow> 'z irq_scheme \<Rightarrow> 'z irq_scheme"
  and runs :: "irq_prog list \<Rightarrow> 'z irq_scheme \<Rightarrow> 'z irq_scheme" where
  "run (Code n) s = trace_update (\<lambda>t. Call n # t) s"
| "run (Saved ps) s = (case cpu_irq_save s of (flags, s) \<Rightarrow> cpu_irq_restore flags (runs ps s))"
| "run (Critical ps) s = cpu_irq_leave_critical (runs ps (cpu_irq_enter_critical s))"
| "runs [] s = s"
| "runs (p # ps) s = runs ps (run p s)"

text \<open>Depth of the nesting of critical sections, and the code outside of all sections.\<close>

fun depth :: "irq_prog \<Rightarrow> nat"
  and depths :: "irq_prog list \<Rightarrow> nat" where
  "depth (Code n) = 0"
| "depth (Saved ps) = depths ps"
| "depth (Critical ps) = Suc (depths ps)"
| "depths [] = 0"
| "depths (p # ps) = max (depth p) (depths ps)"

fun outer :: "irq_prog list \<Rightarrow> nat list" where
  "outer [] = []"
| "outer (Code n # ps) = n # outer ps"
| "outer (_ # ps) = outer ps"

text \<open>What the trace shows: whether interrupts are masked, and the code run while they are not.\<close>

primrec masked_of :: "event list \<Rightarrow> bool" where
  "masked_of [] = False"
| "masked_of (e # tr) = (case e of Cpsid \<Rightarrow> True | Cpsie \<Rightarrow> False | _ \<Rightarrow> masked_of tr)"

primrec open_calls :: "event list \<Rightarrow> nat list" where
  "open_calls [] = []"
| "open_calls (e # tr) =
     (case e of Call n \<Rightarrow> if masked_of tr then open_calls tr else n # open_calls tr
      | _ \<Rightarrow> open_calls tr)"

definition irq_inv :: "'z irq_scheme \<Rightarrow> bool" where
  "irq_inv s \<longleftrightarrow> (primask s \<longleftrightarrow> masked_of (trace s)) \<and> (g_interrupt_enabled s \<longleftrightarrow> \<not> primask s) \<and>
     (cpu_irq_critical_section_counter s \<noteq> 0 \<longrightarrow> primask s)"

text \<open>The mask and the state of the sections around the current point are the same.\<close>

definition same_mask :: "'z irq_scheme \<Rightarrow> 'z irq_scheme \<Rightarrow> bool" where
  "same_mask s t \<longleftrightarrow> primask t = primask s \<and>
     cpu_irq_critical_section_counter t = cpu_irq_critical_section_counter s \<and>
     (cpu_irq_critical_section_counter s \<noteq> 0 \<longrightarrow>
        cpu_irq_prev_interrupt_state t = cpu_irq_prev_interrupt_state s)"

text \<open>
  What a pair of entry and exit functions promises: the entry masks interrupts, and the exit,
  after code that leaves the mask as it found it, undoes the entry. Neither runs other code.
\<close>

locale irq_section =
  fixes enter :: "'z irq_scheme \<Rightarrow> 'f \<times> 'z irq_scheme" and leave :: "'f \<Rightarrow> 'z irq_scheme \<Rightarrow> 'z irq_scheme"
    and room :: "nat \<Rightarrow> nat"
  assumes enter_inv: "irq_inv s \<Longrightarrow> unat (cpu_irq_critical_section_counter s) + room d < 2 ^ 32 \<Longrightarrow>
      irq_inv (snd (enter s)) \<and> primask (snd (enter s)) \<and>
      unat (cpu_irq_critical_section_counter (snd (enter s))) + d < 2 ^ 32"
    and enter_calls: "open_calls (trace (snd (enter s))) = open_calls (trace s)"
    and leave_inv: "irq_inv s \<Longrightarrow> unat (cpu_irq_critical_section_counter s) + room d < 2 ^ 32 \<Longrightarrow>
      irq_inv t \<Longrightarrow> same_mask (snd (enter s)) t \<Longrightarrow>
      irq_inv (leave (fst (enter s)) t) \<and> same_mask s (leave (fst (enter s)) t)"
    and leave_calls: "open_calls (trace (leave f t)) = open_calls (trace t)"
begin

lemma section_masks:
  assumes inv: "irq_inv s" and room: "unat (cpu_irq_critical_section_counter s) + room d < 2 ^ 32"
    and body: "irq_inv t \<and> same_mask (snd (enter s)) t \<and>
      open_calls (trace t) = open_calls (trace (snd (enter s)))"
  shows "irq_inv (leave (fst (enter s)) t) \<and> same_mask s (leave (fst (enter s)) t) \<and>
    open_calls (trace (leave (fst (enter s)) t)) = open_calls (trace s)"
  using leave_inv [OF inv room] body by (auto simp: leave_calls enter_calls)

end

interpretation save: irq_section cpu_irq_save cpu_irq_restore "\<lambda>d. d"
  by unfold_locales
    (auto simp: irq_defs irq_inv_def same_mask_def Let_def split: if_splits)

lemma counter_succ:
  "unat w + Suc d < 2 ^ 32 \<Longrightarrow> w + 1 \<noteq> 0 \<and> unat (w + 1) = Suc (unat w)" for w :: u32
  by (auto simp: unat_word_ariths word_eq_iff_unsigned [where ?'a = nat])

lemma leave_after_enter:
  assumes "irq_inv s" and room: "unat (cpu_irq_critical_section_counter s) + Suc d < 2 ^ 32"
    and "irq_inv t" and "same_mask (cpu_irq_enter_critical s) t"
  shows "irq_inv (cpu_irq_leave_critical t) \<and> same_mask s (cpu_irq_leave_critical t)"
proof -
  have "cpu_irq_critical_section_counter s + 1 \<noteq> 0" using counter_succ [OF room] by simp
  with assms show ?thesis
    by (cases "cpu_irq_critical_section_counter s = 0"; cases "primask s")
      (auto simp: irq_defs irq_inv_def same_mask_def Let_def)
qed

interpretation critical: irq_section "\<lambda>s. ((), cpu_irq_enter_critical s)" "\<lambda>_. cpu_irq_leave_critical" Suc
proof unfold_locales
  fix s :: "'a irq_scheme" and d
  assume "irq_inv s" and room: "unat (cpu_irq_critical_section_counter s) + Suc d < 2 ^ 32"
  with counter_succ [OF room] show "irq_inv (snd ((), cpu_irq_enter_critical s)) \<and>
      primask (snd ((), cpu_irq_enter_critical s)) \<and>
      unat (cpu_irq_critical_section_counter (snd ((), cpu_irq_enter_critical s))) + d < 2 ^ 32"
    by (auto simp: irq_defs irq_inv_def Let_def)
next
  fix s t :: "'a irq_scheme" and d
  assume "irq_inv s" "unat (cpu_irq_critical_section_counter s) + Suc d < 2 ^ 32" "irq_inv t"
    "same_mask (snd ((), cpu_irq_enter_critical s)) t"
  then show "irq_inv (cpu_irq_leave_critical t) \<and> same_mask s (cpu_irq_leave_critical t)"
    using leave_after_enter by simp
qed (simp_all add: irq_defs Let_def)

text \<open>
  By induction over the program: a run keeps the invariant and the mask, and the code that runs
  unmasked is the code outside of all sections.
\<close>

lemma run_masks:
  "irq_inv s \<Longrightarrow> unat (cpu_irq_critical_section_counter s) + depth p < 2 ^ 32 \<Longrightarrow>
     irq_inv (run p s) \<and> same_mask s (run p s) \<and>
     open_calls (trace (run p s)) = (if primask s then [] else rev (outer [p])) @ open_calls (trace s)"
  and runs_masks:
  "irq_inv s \<Longrightarrow> unat (cpu_irq_critical_section_counter s) + depths ps < 2 ^ 32 \<Longrightarrow>
     irq_inv (runs ps s) \<and> same_mask s (runs ps s) \<and>
     open_calls (trace (runs ps s)) = (if primask s then [] else rev (outer ps)) @ open_calls (trace s)"
proof (induction p s and ps s rule: run_runs.induct)
  case (1 n s)
  then show ?case by (auto simp: irq_inv_def same_mask_def)
next
  case (2 ps s)
  let ?e = "cpu_irq_save s"
  have room: "unat (cpu_irq_critical_section_counter s) + depths ps < 2 ^ 32" using 2 by simp
  note e = save.enter_inv [OF "2.prems"(1) room]
  have "irq_inv (runs ps (snd ?e)) \<and> same_mask (snd ?e) (runs ps (snd ?e)) \<and>
      open_calls (trace (runs ps (snd ?e))) = open_calls (trace (snd ?e))"
    using "2.IH" [OF prod.collapse] e by simp
  from save.section_masks [OF "2.prems"(1) room this] show ?case by (simp add: case_prod_beta)
next
  case (3 ps s)
  let ?e = "((), cpu_irq_enter_critical s)"
  have room: "unat (cpu_irq_critical_section_counter s) + Suc (depths ps) < 2 ^ 32" using 3 by simp
  note e = critical.enter_inv [OF "3.prems"(1) room]
  have "irq_inv (runs ps (snd ?e)) \<and> same_mask (snd ?e) (runs ps (snd ?e)) \<and>
      open_calls (trace (runs ps (snd ?e))) = open_calls (trace (snd ?e))"
    using "3.IH" e by simp
  from critical.section_masks [OF "3.prems"(1) room this] show ?case by simp
next
  case (4 s)
  then show ?case by (simp add: same_mask_def)
next
  case (5 p ps s)
  have "outer (p # ps) = outer [p] @ outer ps" by (cases p) simp_all
  moreover have "irq_inv (run p s) \<and> same_mask s (run p s) \<and>
      open_calls (trace (run p s)) = (if primask s then [] else rev (outer [p])) @ open_calls (trace s)"
    using 5 by simp
  moreover have "irq_inv (runs ps (run p s)) \<and> same_mask (run p s) (runs ps (run p s)) \<and>
      open_calls (trace (runs ps (run p s))) =
        (if primask (run p s) then [] else rev (outer ps)) @ open_calls (trace (run p s))"
    using 5 calculation by (simp add: same_mask_def)
  ultimately show ?case by (auto simp: same_mask_def)
qed

text \<open>
  \<^bold>\<open>C26\<close>. Sections that mask interrupts nest correctly. For every program made of
  \<open>cpu_irq_save\<close>/\<open>cpu_irq_restore\<close> and \<open>cpu_irq_enter_critical\<close>/\<open>cpu_irq_leave_critical\<close> pairs
  nested in any way, less than \<open>2 ^ 32\<close> deep: the invariant of the module is kept (the flag
  \<open>g_interrupt_enabled\<close> mirrors the mask of the processor, and a nonzero counter means that
  interrupts are masked), the mask and the counter end as they started, and the code that runs
  with interrupts enabled is exactly the code outside of all sections, in order, or none if
  interrupts were masked at the start.
\<close>

theorem critical_sections_mask:
  assumes "irq_inv s" and "unat (cpu_irq_critical_section_counter s) + depths ps < 2 ^ 32"
  shows "irq_inv (runs ps s) \<and> primask (runs ps s) = primask s \<and>
    cpu_irq_critical_section_counter (runs ps s) = cpu_irq_critical_section_counter s \<and>
    open_calls (trace (runs ps s)) = (if primask s then [] else rev (outer ps)) @ open_calls (trace s)"
  using runs_masks [OF assms] by (simp add: same_mask_def)

theorem critical_sections_mask_witness:
  "let ps = [Code 1, Critical [Code 2, Saved [Code 3, Critical [Code 4]]], Code 5] in
   irq_inv irq_init \<and> open_calls (trace (runs ps irq_init)) = [5, 1] \<and>
   trace (runs ps irq_init) = [Call 5, Cpsie, Call 4, Call 3, Cpsid, Call 2, Cpsid, Call 1]"
proof -
  have "irq_inv irq_init" by (simp add: irq_inv_def irq_init_def)
  moreover note critical_sections_mask [OF this,
      of "[Code 1, Critical [Code 2, Saved [Code 3, Critical [Code 4]]], Code 5]"]
  ultimately show ?thesis
    by (simp add: Let_def irq_init_def) (simp add: irq_defs Let_def)
qed

end
