(* ===== verification/Pio_Handler.thy ===== *)
theory Pio_Handler
  imports Pio Interrupt
begin

text \<open>
  The dispatcher of pin interrupts, \<^verbatim>\<open>src/asf/sam/drivers/pio/pio_handler.c\<close>: a table of
  sources (controller, pins, attribute, handler), the registration of a handler and the search
  that runs when a PIO controller raises an interrupt. The handlers are functions of the
  application; the parameter \<open>hdl\<close> of the model gives the effect of each on the state, and may
  itself register further sources. A null handler is \<open>None\<close>; calling it is the event
  \<open>Oob (O_null, 0)\<close>.
\<close>

abbreviation (input) MAX_INTERRUPT_SOURCES :: nat where "MAX_INTERRUPT_SOURCES \<equiv> 7"
abbreviation (input) ID_PIOB :: u32 where "ID_PIOB \<equiv> 11"

record s_interrupt_source =
  src_id :: u32
  src_mask :: u32
  src_attr :: u32
  src_handler :: "nat option"

record pio_irq = mach +
  gs_interrupt_sources :: "s_interrupt_source list"
  gs_ul_nb_sources :: u32

type_synonym 'z handlers = "nat \<Rightarrow> u32 \<Rightarrow> u32 \<Rightarrow> 'z pio_irq_scheme \<Rightarrow> 'z pio_irq_scheme"

definition null_source :: s_interrupt_source where
  "null_source = \<lparr>src_id = 0, src_mask = 0, src_attr = 0, src_handler = None\<rparr>"

definition pio_irq_init :: pio_irq where
  "pio_irq_init = \<lparr>trace = [], gs_interrupt_sources = replicate MAX_INTERRUPT_SOURCES null_source,
     gs_ul_nb_sources = 0\<rparr>"

section \<open>Operations\<close>

definition call_handler ::
    "'z handlers \<Rightarrow> s_interrupt_source \<Rightarrow> 'z pio_irq_scheme \<Rightarrow> 'z pio_irq_scheme" where
  "call_handler hdl src s =
     (case src_handler src of
        None \<Rightarrow> oob (O_null, 0) s
      | Some h \<Rightarrow> hdl h (src_id src) (src_mask src) s)"

text \<open>The search through the table: \<open>i\<close> and \<open>status\<close> are the local variables.\<close>

function process_loop ::
    "'z handlers \<Rightarrow> u32 \<Rightarrow> nat \<Rightarrow> u32 \<Rightarrow> 'z pio_irq_scheme \<Rightarrow> 'z pio_irq_scheme" where
  "process_loop hdl ul_id i status s =
     (if status = 0 then s
      else
        let src = gs_interrupt_sources s ! i;
            (status, s) =
              (if src_id src = ul_id \<and> status AND src_mask src \<noteq> 0 then
                 let s = call_handler hdl src s
                 in (status AND NOT (src_mask (gs_interrupt_sources s ! i)), s)
               else (status, s))
        in if i + 1 \<ge> MAX_INTERRUPT_SOURCES then s else process_loop hdl ul_id (i + 1) status s)"
  by pat_completeness auto
termination by (relation "measure (\<lambda>(_, _, i, _, _). MAX_INTERRUPT_SOURCES - i)") auto

declare process_loop.simps [simp del]

definition pio_handler_process ::
    "'z handlers \<Rightarrow> hw \<Rightarrow> periph \<Rightarrow> u32 \<Rightarrow> 'z pio_irq_scheme \<Rightarrow> 'z pio_irq_scheme" where
  "pio_handler_process hdl hw p_pio ul_id s =
     (let (status, s) = pio_get_interrupt_status hw p_pio s;
          (m, s) = pio_get_interrupt_mask hw p_pio s;
          status = status AND m
      in if status \<noteq> 0 then process_loop hdl ul_id 0 status s else s)"

definition pio_handler_set ::
    "periph \<Rightarrow> u32 \<Rightarrow> u32 \<Rightarrow> u32 \<Rightarrow> nat option \<Rightarrow> 'z pio_irq_scheme \<Rightarrow> u32 \<times> 'z pio_irq_scheme" where
  "pio_handler_set p_pio ul_id ul_mask ul_attr p_handler s =
     (if unat (gs_ul_nb_sources s) \<ge> MAX_INTERRUPT_SOURCES then (1, s)
      else
        let s = s\<lparr>gs_interrupt_sources := (gs_interrupt_sources s)
                   [unat (gs_ul_nb_sources s) := \<lparr>src_id = ul_id, src_mask = ul_mask,
                      src_attr = ul_attr, src_handler = p_handler\<rparr>],
                  gs_ul_nb_sources := gs_ul_nb_sources s + 1\<rparr>
        in (0, pio_configure_interrupt p_pio ul_mask ul_attr s))"

definition pio_handler_set_pin ::
    "u32 \<Rightarrow> u32 \<Rightarrow> nat option \<Rightarrow> 'z pio_irq_scheme \<Rightarrow> u32 \<times> 'z pio_irq_scheme" where
  "pio_handler_set_pin ul_pin ul_flag p_handler s =
     pio_handler_set (pio_get_pin_group ul_pin) (pio_get_pin_group_id ul_pin)
       (pio_get_pin_group_mask ul_pin) ul_flag p_handler s"

definition PIOA_Handler :: "'z handlers \<Rightarrow> hw \<Rightarrow> 'z pio_irq_scheme \<Rightarrow> 'z pio_irq_scheme" where
  "PIOA_Handler hdl hw s = pio_handler_process hdl hw PIOA ID_PIOA s"

definition PIOB_Handler :: "'z handlers \<Rightarrow> hw \<Rightarrow> 'z pio_irq_scheme \<Rightarrow> 'z pio_irq_scheme" where
  "PIOB_Handler hdl hw s = pio_handler_process hdl hw PIOB ID_PIOB s"

definition pio_handler_set_priority ::
    "hw \<Rightarrow> periph \<Rightarrow> IRQn_Type \<Rightarrow> u32 \<Rightarrow> 'z mach_scheme \<Rightarrow> 'z mach_scheme" where
  "pio_handler_set_priority hw p_pio ul_irqn ul_priority s =
     (let (bitmask, s) = pio_get_interrupt_mask hw p_pio s;
          s = pio_disable_interrupt p_pio 0xFFFFFFFF s;
          (_, s) = pio_get_interrupt_status hw p_pio s;
          s = NVIC_DisableIRQ ul_irqn s;
          s = NVIC_ClearPendingIRQ ul_irqn s;
          s = NVIC_SetPriority ul_irqn ul_priority s;
          s = NVIC_EnableIRQ ul_irqn s
      in pio_enable_interrupt hw p_pio bitmask s)"

section \<open>The table\<close>

text \<open>
  The entries in use come first and have a handler and the number of a peripheral, which is not 0; the
  others are empty. No null handler has been called.
\<close>

definition sources_ok :: "'z pio_irq_scheme \<Rightarrow> bool" where
  "sources_ok s \<longleftrightarrow>
     length (gs_interrupt_sources s) = MAX_INTERRUPT_SOURCES \<and>
     unat (gs_ul_nb_sources s) \<le> MAX_INTERRUPT_SOURCES \<and>
     (\<forall>i < unat (gs_ul_nb_sources s).
        src_id (gs_interrupt_sources s ! i) \<noteq> 0 \<and> src_handler (gs_interrupt_sources s ! i) \<noteq> None) \<and>
     (\<forall>i. unat (gs_ul_nb_sources s) \<le> i \<and> i < MAX_INTERRUPT_SOURCES \<longrightarrow>
        src_id (gs_interrupt_sources s ! i) = 0) \<and>
     Oob (O_null, 0) \<notin> set (trace s)"

definition handlers_ok :: "'z handlers \<Rightarrow> bool" where
  "handlers_ok hdl \<longleftrightarrow> (\<forall>h i m s. sources_ok s \<longrightarrow> sources_ok (hdl h i m s))"

inductive pio_reach :: "'z handlers \<Rightarrow> 'z pio_irq_scheme \<Rightarrow> 'z pio_irq_scheme \<Rightarrow> bool"
  for hdl :: "'z handlers" and s0 :: "'z pio_irq_scheme" where
  start: "pio_reach hdl s0 s0"
| set: "pio_reach hdl s0 s \<Longrightarrow> ul_id \<noteq> 0 \<Longrightarrow>
    pio_reach hdl s0 (snd (pio_handler_set p ul_id m a (Some h) s))"
| set_pin: "pio_reach hdl s0 s \<Longrightarrow> pio_reach hdl s0 (snd (pio_handler_set_pin pin f (Some h) s))"
| prio: "pio_reach hdl s0 s \<Longrightarrow> pio_reach hdl s0 (pio_handler_set_priority hw p n l s)"
| irq_A: "pio_reach hdl s0 s \<Longrightarrow> pio_reach hdl s0 (PIOA_Handler hdl hw s)"
| irq_B: "pio_reach hdl s0 s \<Longrightarrow> pio_reach hdl s0 (PIOB_Handler hdl hw s)"

lemma sources_ok_wr [simp]: "sources_ok (wr p r v s) = sources_ok s"
  and sources_ok_rd [simp]: "sources_ok (snd (rd hw p r s)) = sources_ok s"
  by (simp_all add: sources_ok_def wr_def rd_def)

lemma call_handler_ok:
  assumes "handlers_ok hdl" and "sources_ok s" and "i < 7"
    and "src_id (gs_interrupt_sources s ! i) = ul_id" and "ul_id \<noteq> 0"
  shows "sources_ok (call_handler hdl (gs_interrupt_sources s ! i) s)"
proof -
  have "src_handler (gs_interrupt_sources s ! i) \<noteq> None"
    using assms(2-5) by (cases "i < unat (gs_ul_nb_sources s)") (auto simp: sources_ok_def)
  then show ?thesis using assms(1,2) by (auto simp: call_handler_def handlers_ok_def)
qed

lemma process_loop_ok:
  assumes "handlers_ok hdl" and "ul_id \<noteq> 0"
  shows "i < 7 \<Longrightarrow> sources_ok s \<Longrightarrow> sources_ok (process_loop hdl ul_id i status s)"
  using assms
proof (induction hdl ul_id i status s rule: process_loop.induct)
  case (1 hdl ul_id i status s)
  show ?case
    by (subst process_loop.simps)
      (use 1 in \<open>auto simp: Let_def call_handler_ok split: if_splits\<close>)
qed

lemma pio_handler_process_ok:
  "handlers_ok hdl \<Longrightarrow> ul_id \<noteq> 0 \<Longrightarrow> sources_ok s \<Longrightarrow> sources_ok (pio_handler_process hdl hw p ul_id s)"
  by (auto simp: pio_handler_process_def pio_get_interrupt_status_def pio_get_interrupt_mask_def
      case_prod_beta Let_def intro: process_loop_ok)

lemma pio_configure_interrupt_sources [simp]:
  "sources_ok (pio_configure_interrupt p m a s) = sources_ok s"
  by (simp add: pio_configure_interrupt_def Let_def)

lemma pio_handler_set_ok:
  assumes "sources_ok s" and "ul_id \<noteq> 0"
  shows "sources_ok (snd (pio_handler_set p ul_id m a (Some h) s))"
proof (cases "unat (gs_ul_nb_sources s) \<ge> 7")
  case False
  let ?n = "unat (gs_ul_nb_sources s)"
  have n: "unat (gs_ul_nb_sources s + 1) = Suc ?n"
    using False by (intro unat_succ [of _ 7]) (simp add: word_less_nat_alt)
  define new where "new = \<lparr>src_id = ul_id, src_mask = m, src_attr = a, src_handler = Some h\<rparr>"
  let ?s = "s\<lparr>gs_interrupt_sources := (gs_interrupt_sources s)[?n := new],
      gs_ul_nb_sources := gs_ul_nb_sources s + 1\<rparr>"
  have len: "length (gs_interrupt_sources s) = 7" using assms(1) by (simp add: sources_ok_def)
  have "sources_ok ?s" unfolding sources_ok_def
  proof (intro conjI allI impI)
    fix i assume "i < unat (gs_ul_nb_sources ?s)"
    then have "i < Suc ?n" using n by simp
    then show "src_id (gs_interrupt_sources ?s ! i) \<noteq> 0" "src_handler (gs_interrupt_sources ?s ! i) \<noteq> None"
      using assms False len by (auto simp: sources_ok_def less_Suc_eq new_def)
  next
    fix i assume "unat (gs_ul_nb_sources ?s) \<le> i \<and> i < 7"
    then have "Suc ?n \<le> i" "i < 7" using n by simp_all
    then show "src_id (gs_interrupt_sources ?s ! i) = 0"
      using assms(1) by (simp add: sources_ok_def)
  qed (use n False assms(1) in \<open>simp_all add: sources_ok_def\<close>)
  then show ?thesis using False by (simp add: pio_handler_set_def new_def Let_def)
qed (use assms in \<open>simp add: pio_handler_set_def\<close>)

lemma pio_get_pin_group_id_neq_0: "pio_get_pin_group_id pin \<noteq> 0"
proof
  assume "pio_get_pin_group_id pin = 0"
  then have "drop_bit 5 pin = - 10"
    by (simp add: pio_get_pin_group_id_def eq_neg_iff_add_eq_0 add.commute)
  then have "unat (drop_bit 5 pin) = unat (- 10 :: u32)" by (rule arg_cong)
  moreover have "unat (drop_bit 5 pin) = unat pin div 32"
    by (simp add: unat_drop_bit_eq drop_bit_eq_div unat_div)
  moreover have "unat pin < 4294967296" using unsigned_less [of pin, where ?'a = nat] by simp
  ultimately show False by simp
qed

lemma pio_handler_set_priority_ok [simp]:
  "sources_ok (pio_handler_set_priority hw p n l s) = sources_ok s"
  by (simp add: pio_handler_set_priority_def pio_get_interrupt_mask_def pio_disable_interrupt_def
      pio_get_interrupt_status_def NVIC_DisableIRQ_def NVIC_ClearPendingIRQ_def NVIC_SetPriority_def
      NVIC_EnableIRQ_def pio_enable_interrupt_def case_prod_beta Let_def)



section \<open>Dispatch\<close>

text \<open>
  The sources to serve when the pins \<open>pending\<close> of controller \<open>ul_id\<close> have changed, and the
  run of their handlers one after the other.
\<close>

definition to_serve :: "u32 \<Rightarrow> u32 \<Rightarrow> s_interrupt_source list \<Rightarrow> s_interrupt_source list" where
  "to_serve ul_id pending = filter (\<lambda>src. src_id src = ul_id \<and> pending AND src_mask src \<noteq> 0)"

definition serve :: "'z handlers \<Rightarrow> s_interrupt_source list \<Rightarrow> 'z pio_irq_scheme \<Rightarrow> 'z pio_irq_scheme" where
  "serve hdl = fold (\<lambda>src. hdl (the (src_handler src)) (src_id src) (src_mask src))"

text \<open>No pin belongs to two sources of the controller.\<close>

definition disjoint_sources :: "u32 \<Rightarrow> s_interrupt_source list \<Rightarrow> bool" where
  "disjoint_sources ul_id xs \<longleftrightarrow>
     (\<forall>i < length xs. \<forall>j < i. src_id (xs ! i) = ul_id \<longrightarrow> src_id (xs ! j) = ul_id \<longrightarrow>
        src_mask (xs ! i) AND src_mask (xs ! j) = 0)"

lemma process_loop_0: "process_loop hdl ul_id i 0 s = s"
  by (subst process_loop.simps) simp

lemma process_loop_serves:
  assumes keeps: "\<And>h i m t. gs_interrupt_sources (hdl h i m t) = gs_interrupt_sources t"
    and ok: "\<And>j. j < 7 \<Longrightarrow> src_id (xs ! j) = ul_id \<Longrightarrow> src_handler (xs ! j) \<noteq> None"
    and len: "length xs = 7" and disj: "disjoint_sources ul_id xs"
  shows "i < 7 \<Longrightarrow> gs_interrupt_sources s = xs \<Longrightarrow>
    \<forall>j < 7. i \<le> j \<longrightarrow> src_id (xs ! j) = ul_id \<longrightarrow> status AND src_mask (xs ! j) = pending AND src_mask (xs ! j) \<Longrightarrow>
    process_loop hdl ul_id i status s = serve hdl (to_serve ul_id pending (drop i xs)) s"
proof (induction "7 - i" arbitrary: i status s)
  case 0
  then show ?case by simp
next
  case (Suc n)
  let ?src = "xs ! i"
  let ?hit = "src_id ?src = ul_id \<and> status AND src_mask ?src \<noteq> 0"
  have drop: "drop i xs = ?src # drop (Suc i) xs" using Suc.prems len by (simp add: Cons_nth_drop_Suc)
  have last: "drop (Suc i) xs = []" if "\<not> Suc i < 7" using that len by simp
  have hit: "?hit \<longleftrightarrow> src_id ?src = ul_id \<and> pending AND src_mask ?src \<noteq> 0"
    using Suc.prems by auto
  show ?case
  proof (cases "status = 0")
    case True
    have "to_serve ul_id pending (drop i xs) = []"
      unfolding to_serve_def filter_empty_conv
    proof (intro ballI notI, elim conjE)
      fix src assume "src \<in> set (drop i xs)" "src_id src = ul_id" "pending AND src_mask src \<noteq> 0"
      then show False using Suc.prems(3) True len
        by (auto simp: in_set_conv_nth)
    qed
    with True show ?thesis by (subst process_loop.simps) (simp add: serve_def)
  next
    case False
    define s' where "s' = (if ?hit then call_handler hdl ?src s else s)"
    define status' where "status' = (if ?hit then status AND NOT (src_mask ?src) else status)"
    have call: "?hit \<Longrightarrow> call_handler hdl ?src s = hdl (the (src_handler ?src)) (src_id ?src) (src_mask ?src) s"
      using ok [of i] Suc.prems(1) by (auto simp: call_handler_def)
    have xs': "gs_interrupt_sources s' = xs" using Suc.prems(2) call keeps by (simp add: s'_def)
    have step: "process_loop hdl ul_id i status s =
        (if Suc i < 7 then process_loop hdl ul_id (Suc i) status' s' else s')"
      using False Suc.prems(2) xs' by (subst process_loop.simps)
        (auto simp: Let_def s'_def status'_def not_less)
    have "\<forall>j < 7. Suc i \<le> j \<longrightarrow> src_id (xs ! j) = ul_id \<longrightarrow>
        status' AND src_mask (xs ! j) = pending AND src_mask (xs ! j)"
      using Suc.prems(3) disj len
      by (auto simp: status'_def disjoint_sources_def and_not_disjoint)
    then have "process_loop hdl ul_id i status s = serve hdl (to_serve ul_id pending (drop (Suc i) xs)) s'"
      using Suc.hyps(1) [of "Suc i" s' status'] Suc.hyps(2) xs' step last by (auto simp: to_serve_def serve_def)
    then show ?thesis using call hit by (auto simp: drop to_serve_def serve_def s'_def)
  qed
qed

text \<open>
  \<^bold>\<open>C39\<close>. Dispatch of a pin interrupt: when the sources of the controller have no pin in common
  and the handlers do not change the table, the interrupt runs the handler of exactly those
  sources in use that belong to the controller and have a pin that has changed and is enabled, each
  once, in the order of registration and with the pins of the source as argument; it reads the
  status, which clears it, once.
\<close>

theorem pio_handler_process_dispatches:
  assumes "sources_ok s" and "ul_id \<noteq> 0"
    and "disjoint_sources ul_id (gs_interrupt_sources s)"
    and "\<And>h i m t. gs_interrupt_sources (hdl h i m t) = gs_interrupt_sources t"
  shows "pio_handler_process hdl hw p ul_id s =
    serve hdl
      (to_serve ul_id (hw (trace s) p PIO_ISR AND hw (Rd p PIO_ISR # trace s) p PIO_IMR)
        (take (unat (gs_ul_nb_sources s)) (gs_interrupt_sources s)))
      (trace_update (\<lambda>t. Rd p PIO_IMR # Rd p PIO_ISR # t) s)"
proof -
  define pending where "pending = hw (trace s) p PIO_ISR AND hw (Rd p PIO_ISR # trace s) p PIO_IMR"
  define xs where "xs = gs_interrupt_sources s"
  let ?s = "trace_update (\<lambda>t. Rd p PIO_IMR # Rd p PIO_ISR # t) s"
  have len: "length xs = 7" using assms(1) by (simp add: sources_ok_def xs_def)
  have h: "src_handler (xs ! j) \<noteq> None" if "j < 7" "src_id (xs ! j) = ul_id" for j
    using assms(1,2) that by (cases "j < unat (gs_ul_nb_sources s)") (auto simp: sources_ok_def xs_def)
  have empty: "src_id src = 0" if "src \<in> set (drop (unat (gs_ul_nb_sources s)) xs)" for src
    using that assms(1) by (auto simp: in_set_conv_nth sources_ok_def xs_def)
  have "to_serve ul_id pending (drop (unat (gs_ul_nb_sources s)) xs) = []"
    using assms(2) by (auto simp: to_serve_def filter_empty_conv dest: empty)
  then have used: "to_serve ul_id pending xs = to_serve ul_id pending (take (unat (gs_ul_nb_sources s)) xs)"
    using filter_append [of _ "take (unat (gs_ul_nb_sources s)) xs" "drop (unat (gs_ul_nb_sources s)) xs"]
    by (simp add: to_serve_def)
  have "process_loop hdl ul_id 0 pending ?s = serve hdl (to_serve ul_id pending (drop 0 xs)) ?s"
    by (rule process_loop_serves [OF assms(4) h len]) (use assms(3) in \<open>simp_all add: xs_def\<close>)
  moreover have "pio_handler_process hdl hw p ul_id s = process_loop hdl ul_id 0 pending ?s"
    unfolding pio_handler_process_def pio_get_interrupt_status_def pio_get_interrupt_mask_def rd_def
      Let_def prod.case pending_def
    by (auto simp: process_loop_0 comp_def)
  ultimately show ?thesis using used by (simp add: pending_def xs_def)
qed

theorem pio_handler_process_dispatches_witness:
  "let hdl = (\<lambda>h i m s. trace_update (\<lambda>t. Call h # t) s);
       s = snd (pio_handler_set_pin 4 PIO_IT_EDGE (Some 8)
             (snd (pio_handler_set_pin 3 PIO_IT_EDGE (Some 7) pio_irq_init)));
       hw = (\<lambda>tr p r. 0x10)
   in sources_ok s \<and> trace (PIOA_Handler hdl hw s) = Call 8 # Rd PIOA PIO_IMR # Rd PIOA PIO_ISR # trace s"
proof -
  let ?hdl = "\<lambda>h i m s. trace_update (\<lambda>t. Call h # t) (s :: pio_irq)"
  let ?s = "snd (pio_handler_set_pin 4 PIO_IT_EDGE (Some 8)
      (snd (pio_handler_set_pin 3 PIO_IT_EDGE (Some 7) pio_irq_init)))"
  have init: "sources_ok pio_irq_init"
    by (simp add: sources_ok_def pio_irq_init_def null_source_def)
  have ok: "sources_ok ?s"
    using init by (simp add: pio_handler_set_pin_def pio_handler_set_ok pio_get_pin_group_id_neq_0)
  have pins: "pio_get_pin_group_id 3 = 10" "pio_get_pin_group_id 4 = 10"
    "pio_get_pin_group_mask 3 = 8" "pio_get_pin_group_mask 4 = 0x10"
    by (simp_all add: pio_get_pin_group_id_def pio_get_pin_group_mask_def)
  have rep: "replicate 7 null_source = null_source # null_source # replicate 5 null_source"
    by (simp add: numeral_eq_Suc)
  have xs: "gs_interrupt_sources ?s =
      \<lparr>src_id = 10, src_mask = 8, src_attr = PIO_IT_EDGE, src_handler = Some 7\<rparr> #
      \<lparr>src_id = 10, src_mask = 0x10, src_attr = PIO_IT_EDGE, src_handler = Some 8\<rparr> #
      replicate 5 null_source" and n: "gs_ul_nb_sources ?s = 2"
    by (simp_all add: pio_handler_set_pin_def pio_handler_set_def pio_irq_init_def wr_def Let_def
        pio_configure_interrupt_def pins rep)
  have "disjoint_sources ID_PIOA (gs_interrupt_sources ?s)"
    unfolding xs by (auto simp: disjoint_sources_def less_Suc_eq numeral_eq_Suc null_source_def)
  from pio_handler_process_dispatches [OF ok _ this, of ?hdl "\<lambda>tr p r. 0x10" PIOA] ok
  show ?thesis
    by (simp add: Let_def PIOA_Handler_def xs n) (simp add: to_serve_def serve_def)
qed

end
