(* ===== verification/Sleep.thy ===== *)
theory Sleep
  imports Pmc Efc Interrupt
begin

text \<open>
  The sleep modes, \<^verbatim>\<open>src/asf/sam/drivers/pmc/sleep.c\<close>, as compiled for the SAM3U, and
  \<open>sleepmgr_sleep\<close> of \<^verbatim>\<open>src/asf/common/services/sleepmgr/sam/sleepmgr.h\<close>, which only enables
  interrupts because the sleep manager is not configured. The wait modes save the clock settings,
  run the processor from the internal oscillator while it waits, and restore the settings. The
  saved settings are a record: the pointers that \<open>pmc_save_clock_settings\<close> takes are never null.
  The callback that is told when the clocks are back is a function of the application; the
  parameter \<open>cb\<close> gives its effect.
\<close>

abbreviation (input) SAM_PM_SMODE_ACTIVE :: int where "SAM_PM_SMODE_ACTIVE \<equiv> 0"
abbreviation (input) SAM_PM_SMODE_SLEEP_WFE :: int where "SAM_PM_SMODE_SLEEP_WFE \<equiv> 1"
abbreviation (input) SAM_PM_SMODE_SLEEP_WFI :: int where "SAM_PM_SMODE_SLEEP_WFI \<equiv> 2"
abbreviation (input) SAM_PM_SMODE_WAIT_FAST :: int where "SAM_PM_SMODE_WAIT_FAST \<equiv> 3"
abbreviation (input) SAM_PM_SMODE_WAIT :: int where "SAM_PM_SMODE_WAIT \<equiv> 4"
abbreviation (input) SAM_PM_SMODE_BACKUP :: int where "SAM_PM_SMODE_BACKUP \<equiv> 5"
abbreviation (input) SCR_SLEEPDEEP :: u32 where "SCR_SLEEPDEEP \<equiv> 4"
abbreviation (input) EEFC_FMR_FWS_Msk :: u32 where "EEFC_FMR_FWS_Msk \<equiv> 0xF00"
abbreviation (input) CKGR_PLLAR_MULA_Msk :: u32 where "CKGR_PLLAR_MULA_Msk \<equiv> 0x7FF0000"

record clock_settings =
  osc_setting :: u32
  pll0_setting :: u32
  pll1_setting :: u32
  mck_setting :: u32
  fmr_setting :: u32
  fmr_setting1 :: u32

record sleep = irq +
  b_is_sleep_clock_used :: bool
  callback_clocks_restored :: "nat option"

section \<open>Saving the clock settings\<close>

text \<open>Master clock to the main clock if it runs from a PLL, and prescaler to 1.\<close>

definition save_mck :: "hw \<Rightarrow> u32 \<Rightarrow> 'z mach_scheme \<Rightarrow> 'z mach_scheme option" where
  "save_mck hw mckr s =
     do {
       (mckr, s) \<leftarrow>
         (if mckr AND PMC_MCKR_CSS_Msk > PMC_MCKR_CSS_MAIN_CLK then
            let mckr = (mckr AND NOT PMC_MCKR_CSS_Msk) OR PMC_MCKR_CSS_MAIN_CLK
            in map_option (Pair mckr) (pmc_wait_for hw PMC_SR_MCKRDY (wr PMC PMC_MCKR mckr s))
          else Some (mckr, s));
       if mckr AND PMC_MCKR_PRES_Msk \<noteq> 0
       then pmc_wait_for hw PMC_SR_MCKRDY (wr PMC PMC_MCKR (mckr AND NOT PMC_MCKR_PRES_Msk) s)
       else Some s
     }"

text \<open>PLLs off, main clock to the internal oscillator, no flash wait states, crystal off.\<close>

definition save_main :: "hw \<Rightarrow> u32 \<Rightarrow> u32 \<Rightarrow> bool \<Rightarrow> 'z mach_scheme \<Rightarrow> 'z mach_scheme option" where
  "save_main hw fmr fmr1 disable_xtal s =
     do {
       s \<leftarrow> pmc_wait_for hw PMC_SR_MOSCRCS (pmc_disable_upll_clock hw (pmc_disable_pllack s));
       s \<leftarrow> pmc_wait_for hw PMC_SR_MOSCSELS
              (rmw hw PMC CKGR_MOR (\<lambda>v. (v AND NOT CKGR_MOR_MOSCSEL) OR CKGR_MOR_KEY_PASSWD) s);
       let s = wr EFC0 EEFC_FMR (fmr AND NOT EEFC_FMR_FWS_Msk) s;
       let s = wr EFC1 EEFC_FMR (fmr1 AND NOT EEFC_FMR_FWS_Msk) s;
       Some (if disable_xtal
             then rmw hw PMC CKGR_MOR (\<lambda>v. (v AND NOT CKGR_MOR_MOSCXTEN) OR CKGR_MOR_KEY_PASSWD) s
             else s)
     }"

definition pmc_save_clock_settings ::
    "hw \<Rightarrow> bool \<Rightarrow> 'z mach_scheme \<Rightarrow> (clock_settings \<times> 'z mach_scheme) option" where
  "pmc_save_clock_settings hw disable_xtal s =
     (let (mor, s) = rd hw PMC CKGR_MOR s;
          (mckr, s) = rd hw PMC PMC_MCKR s;
          (fmr, s) = rd hw EFC0 EEFC_FMR s;
          (fmr1, s) = rd hw EFC1 EEFC_FMR s;
          (pll0, s) = rd hw PMC CKGR_PLLAR s;
          (pll1, s) = rd hw PMC CKGR_UCKR s;
          s = wr PMC CKGR_MOR (CKGR_MOR_KEY_PASSWD OR mor OR CKGR_MOR_MOSCRCEN) s
      in do {
        s \<leftarrow> save_mck hw mckr s;
        s \<leftarrow> save_main hw fmr fmr1 disable_xtal s;
        Some (\<lparr>osc_setting = mor, pll0_setting = pll0, pll1_setting = pll1, mck_setting = mckr,
               fmr_setting = fmr, fmr_setting1 = fmr1\<rparr>, s)
      })"

section \<open>Restoring them\<close>

text \<open>Main clock back to the external source, internal oscillator off.\<close>

definition restore_osc :: "hw \<Rightarrow> u32 \<Rightarrow> 'z mach_scheme \<Rightarrow> 'z mach_scheme option" where
  "restore_osc hw osc s =
     (if CKGR_MOR_MOSCXTBY = osc AND CKGR_MOR_MOSCXTBY then
        let s = rmw hw PMC CKGR_MOR (\<lambda>v. (v AND NOT CKGR_MOR_MOSCXTEN) OR
                  CKGR_MOR_KEY_PASSWD OR CKGR_MOR_MOSCXTBY OR CKGR_MOR_MOSCSEL) s
        in Some (rmw hw PMC CKGR_MOR (\<lambda>v. (v AND NOT CKGR_MOR_MOSCRCEN AND NOT CKGR_MOR_MOSCRCF_Msk) OR
                   CKGR_MOR_KEY_PASSWD) s)
      else if CKGR_MOR_MOSCXTEN = osc AND CKGR_MOR_MOSCXTEN then
        do {
          let (v, s) = rd hw PMC CKGR_MOR s;
          s \<leftarrow> (if v AND CKGR_MOR_MOSCXTEN = 0
                 then pmc_wait_for hw PMC_SR_MOSCXTS
                        (rmw hw PMC CKGR_MOR (\<lambda>v. (v AND NOT CKGR_MOR_MOSCXTBY) OR
                           CKGR_MOR_KEY_PASSWD OR CKGR_MOR_MOSCXTEN) s)
                 else Some s);
          let (v, s) = rd hw PMC CKGR_MOR s;
          s \<leftarrow> (if v AND CKGR_MOR_MOSCSEL = 0
                 then pmc_wait_for hw PMC_SR_MOSCSELS
                        (rmw hw PMC CKGR_MOR (\<lambda>v. v OR (CKGR_MOR_KEY_PASSWD OR CKGR_MOR_MOSCSEL)) s)
                 else Some s);
          Some (rmw hw PMC CKGR_MOR (\<lambda>v. (v AND NOT CKGR_MOR_MOSCRCEN AND NOT CKGR_MOR_MOSCRCF_Msk) OR
                  CKGR_MOR_KEY_PASSWD) s)
        }
      else Some s)"

text \<open>The PLLs that were on; the result is the set of their lock bits.\<close>

definition restore_plls :: "u32 \<Rightarrow> u32 \<Rightarrow> 'z mach_scheme \<Rightarrow> u32 \<times> 'z mach_scheme" where
  "restore_plls pll0 pll1 s =
     (let (pll_sr, s) =
            (if pll0 AND CKGR_PLLAR_MULA_Msk \<noteq> 0
             then (PMC_SR_LOCKA, wr PMC CKGR_PLLAR (CKGR_PLLAR_ONE OR pll0) s) else (0, s))
      in if pll1 AND CKGR_UCKR_UPLLEN \<noteq> 0
         then (pll_sr OR PMC_SR_LOCKU, wr PMC CKGR_UCKR pll1 s) else (pll_sr, s))"

definition wait_mck_source :: "hw \<Rightarrow> u32 \<Rightarrow> 'z mach_scheme \<Rightarrow> 'z mach_scheme option" where
  "wait_mck_source hw mck s =
     (if mck AND PMC_MCKR_CSS_Msk = PMC_MCKR_CSS_PLLA_CLK then pmc_wait_for hw PMC_SR_LOCKA s
      else if mck AND PMC_MCKR_CSS_Msk = PMC_MCKR_CSS_UPLL_CLK then pmc_wait_for hw PMC_SR_LOCKU s
      else Some s)"

text \<open>Prescaler, then flash wait states, then the source of the master clock.\<close>

definition restore_mck :: "hw \<Rightarrow> clock_settings \<Rightarrow> 'z mach_scheme \<Rightarrow> 'z mach_scheme option" where
  "restore_mck hw c s =
     do {
       let (mckr, s) = rd hw PMC PMC_MCKR s;
       s \<leftarrow> pmc_wait_for hw PMC_SR_MCKRDY
              (wr PMC PMC_MCKR ((mckr AND NOT PMC_MCKR_PRES_Msk) OR (mck_setting c AND PMC_MCKR_PRES_Msk)) s);
       let s = wr EFC0 EEFC_FMR (fmr_setting c) s;
       let s = wr EFC1 EEFC_FMR (fmr_setting1 c) s;
       pmc_wait_for hw PMC_SR_MCKRDY (wr PMC PMC_MCKR (mck_setting c) s)
     }"

text \<open>A loop that ends when any of the bits \<open>m\<close> is read as set.\<close>

partial_function (option) poll_any :: "hw \<Rightarrow> periph \<Rightarrow> nat \<Rightarrow> u32 \<Rightarrow> 'z mach_scheme \<Rightarrow> 'z mach_scheme option" where
  "poll_any hw p r m s =
     (if fst (rd hw p r s) AND m \<noteq> 0 then Some (snd (rd hw p r s))
      else poll_any hw p r m (snd (rd hw p r s)))"

definition pmc_restore_clock_setting ::
    "hw \<Rightarrow> clock_settings \<Rightarrow> 'z mach_scheme \<Rightarrow> 'z mach_scheme option" where
  "pmc_restore_clock_setting hw c s =
     do {
       s \<leftarrow> restore_osc hw (osc_setting c) s;
       let (pll_sr, s) = restore_plls (pll0_setting c) (pll1_setting c) s;
       s \<leftarrow> wait_mck_source hw (mck_setting c) s;
       s \<leftarrow> restore_mck hw c s;
       poll_any hw PMC PMC_SR pll_sr s
     }"

section \<open>Sleeping\<close>

definition sleep_wait :: "(nat \<Rightarrow> 'z sleep_scheme \<Rightarrow> 'z sleep_scheme) \<Rightarrow> hw \<Rightarrow> bool \<Rightarrow>
    'z sleep_scheme \<Rightarrow> 'z sleep_scheme option" where
  "sleep_wait cb hw disable_xtal s =
     do {
       let s = cpu_irq_disable s;
       let s = s\<lparr>b_is_sleep_clock_used := True\<rparr>;
       (c, s) \<leftarrow> pmc_save_clock_settings hw disable_xtal s;
       let s = cpu_irq_enable s;
       s \<leftarrow> pmc_enable_waitmode hw s;
       let s = cpu_irq_disable s;
       s \<leftarrow> pmc_restore_clock_setting hw c s;
       let s = s\<lparr>b_is_sleep_clock_used := False\<rparr>;
       let s = (case callback_clocks_restored s of
                  None \<Rightarrow> s
                | Some f \<Rightarrow> (cb f s)\<lparr>callback_clocks_restored := None\<rparr>);
       Some (cpu_irq_enable s)
     }"

definition pmc_sleep :: "(nat \<Rightarrow> 'z sleep_scheme \<Rightarrow> 'z sleep_scheme) \<Rightarrow> hw \<Rightarrow> int \<Rightarrow>
    'z sleep_scheme \<Rightarrow> 'z sleep_scheme option" where
  "pmc_sleep cb hw sleep_mode s =
     (if sleep_mode = SAM_PM_SMODE_SLEEP_WFI \<or> sleep_mode = SAM_PM_SMODE_SLEEP_WFE then
        let s = rmw hw PMC PMC_FSMR (\<lambda>v. v AND NOT PMC_FSMR_LPM) s;
            s = rmw hw SCB SCB_SCR (\<lambda>v. v AND NOT SCR_SLEEPDEEP) s;
            s = cpu_irq_enable s
        in Some (if sleep_mode = SAM_PM_SMODE_SLEEP_WFI then instr Wfi s else instr Wfe s)
      else if sleep_mode = SAM_PM_SMODE_WAIT_FAST \<or> sleep_mode = SAM_PM_SMODE_WAIT then
        sleep_wait cb hw (sleep_mode = SAM_PM_SMODE_WAIT) s
      else if sleep_mode = SAM_PM_SMODE_BACKUP then
        let s = rmw hw SCB SCB_SCR (\<lambda>v. v OR SCR_SLEEPDEEP) s;
            s = cpu_irq_enable s
        in Some (instr Wfe s)
      else Some s)"

definition pmc_is_wakeup_clocks_restored :: "'z sleep_scheme \<Rightarrow> bool" where
  "pmc_is_wakeup_clocks_restored s \<longleftrightarrow> \<not> b_is_sleep_clock_used s"

definition pmc_wait_wakeup_clocks_restore ::
    "(nat \<Rightarrow> 'z sleep_scheme \<Rightarrow> 'z sleep_scheme) \<Rightarrow> nat option \<Rightarrow> 'z sleep_scheme \<Rightarrow> 'z sleep_scheme" where
  "pmc_wait_wakeup_clocks_restore cb callback s =
     (if b_is_sleep_clock_used s then (cpu_irq_disable s)\<lparr>callback_clocks_restored := callback\<rparr>
      else case callback of None \<Rightarrow> s | Some f \<Rightarrow> cb f s)"

definition sleepmgr_sleep :: "'z irq_scheme \<Rightarrow> 'z irq_scheme" where
  "sleepmgr_sleep s = cpu_irq_enable s"

section \<open>The clock registers over time\<close>

text \<open>The value of a register that holds what was last written to it, and \<open>v\<close> before that.\<close>

definition val :: "(periph \<Rightarrow> nat \<Rightarrow> u32) \<Rightarrow> periph \<Rightarrow> nat \<Rightarrow> 'z mach_scheme \<Rightarrow> u32" where
  "val v p r s = reg_of p r (v p r) (trace s)"

text \<open>
  Hardware that shows its clock registers as they were written, except for the key field of the
  oscillator register, and in which every status bit waited for is set at some time.
\<close>

definition clock_hw :: "hw \<Rightarrow> (periph \<Rightarrow> nat \<Rightarrow> u32) \<Rightarrow> bool" where
  "clock_hw hw v \<longleftrightarrow>
     (\<forall>tr. \<forall>(p, r) \<in> {(PMC, PMC_MCKR), (PMC, CKGR_PLLAR), (PMC, CKGR_UCKR), (EFC0, EEFC_FMR), (EFC1, EEFC_FMR)}.
        hw tr p r = reg_of p r (v p r) tr) \<and>
     (\<forall>tr n. n < 16 \<or> 24 \<le> n \<longrightarrow>
        bit (hw tr PMC CKGR_MOR) n = bit (reg_of PMC CKGR_MOR (v PMC CKGR_MOR) tr) n) \<and>
     (\<forall>tr. \<forall>m \<in> {PMC_SR_MOSCXTS, PMC_SR_LOCKA, PMC_SR_MCKRDY, PMC_SR_LOCKU, PMC_SR_MOSCSELS, PMC_SR_MOSCRCS}.
        \<exists>k. ready_after hw PMC PMC_SR m m k tr)"

text \<open>
  The flash is read with enough wait states if these are the original ones or the processor
  does not run from a PLL; \<open>since n P tr\<close> says that \<open>P\<close> held from the time when \<open>n\<close> accesses
  had been made until now.
\<close>

definition flash_ok :: "(periph \<Rightarrow> nat \<Rightarrow> u32) \<Rightarrow> u32 \<Rightarrow> u32 \<Rightarrow> event list \<Rightarrow> bool" where
  "flash_ok v f0 f1 tr \<longleftrightarrow>
     reg_of EFC0 EEFC_FMR (v EFC0 EEFC_FMR) tr = f0 \<and> reg_of EFC1 EEFC_FMR (v EFC1 EEFC_FMR) tr = f1 \<or>
     reg_of PMC PMC_MCKR (v PMC PMC_MCKR) tr AND PMC_MCKR_CSS_Msk \<le> PMC_MCKR_CSS_MAIN_CLK"

primrec since :: "nat \<Rightarrow> (event list \<Rightarrow> bool) \<Rightarrow> event list \<Rightarrow> bool" where
  "since n P [] = (n = 0 \<longrightarrow> P [])"
| "since n P (e # tr) = ((n \<le> Suc (length tr) \<longrightarrow> P (e # tr)) \<and> since n P tr)"

definition calm :: "(periph \<Rightarrow> nat \<Rightarrow> u32) \<Rightarrow> nat \<Rightarrow> u32 \<Rightarrow> u32 \<Rightarrow> 'z mach_scheme \<Rightarrow> bool" where
  "calm v n f0 f1 s \<longleftrightarrow> since n (flash_ok v f0 f1) (trace s) \<and> flash_ok v f0 f1 (trace s)"

lemma since_future: "length tr < n \<Longrightarrow> since n P tr"
  by (induction tr) auto

lemma since_start: "P tr \<Longrightarrow> since (length tr) P tr"
  by (cases tr) (auto simp: since_future)

lemma val_simps [simp]:
  "val v p r (wr q x w s) = (if q = p \<and> x = r then w else val v p r s)"
  "val v p r (snd (rd hw q x s)) = val v p r s"
  "val v p r (rmw hw q x f s) = (if q = p \<and> x = r then f (hw (trace s) p r) else val v p r s)"
  "val v p r (instr Wfe s) = val v p r s" "val v p r (instr (Nops k) s) = val v p r s"
  by (auto simp: val_def wr_def rd_def rmw_def instr_def)

lemma rd_more: "mach.more (snd (rd hw p r s)) = mach.more s"
  by (simp add: rd_def)

lemma instr_more: "mach.more (instr e s) = mach.more s"
  by (simp add: instr_def)

lemma calm_simps [simp]:
  "calm v n f0 f1 (snd (rd hw q x s)) = calm v n f0 f1 s"
  "calm v n f0 f1 (instr Wfe s) = calm v n f0 f1 s" "calm v n f0 f1 (instr (Nops k) s) = calm v n f0 f1 s"
  "(q, x) \<notin> {(PMC, PMC_MCKR), (EFC0, EEFC_FMR), (EFC1, EEFC_FMR)} \<Longrightarrow>
     calm v n f0 f1 (wr q x w s) = calm v n f0 f1 s"
  "(q, x) \<notin> {(PMC, PMC_MCKR), (EFC0, EEFC_FMR), (EFC1, EEFC_FMR)} \<Longrightarrow>
     calm v n f0 f1 (rmw hw q x f s) = calm v n f0 f1 s"
  by (auto simp: calm_def wr_def rd_def rmw_def instr_def flash_ok_def)

lemma calm_wr_mckr:
  "calm v n f0 f1 s \<Longrightarrow>
     w AND PMC_MCKR_CSS_Msk \<le> PMC_MCKR_CSS_MAIN_CLK \<or> val v EFC0 EEFC_FMR s = f0 \<and> val v EFC1 EEFC_FMR s = f1 \<Longrightarrow>
     calm v n f0 f1 (wr PMC PMC_MCKR w s)"
  by (auto simp: calm_def wr_def flash_ok_def val_def)

lemma calm_wr_fmr:
  "calm v n f0 f1 s \<Longrightarrow> val v PMC PMC_MCKR s AND PMC_MCKR_CSS_Msk \<le> PMC_MCKR_CSS_MAIN_CLK \<Longrightarrow>
     q = EFC0 \<or> q = EFC1 \<Longrightarrow> calm v n f0 f1 (wr q EEFC_FMR w s)"
  by (auto simp: calm_def wr_def flash_ok_def val_def)

text \<open>A wait returns after some reads of the status register, which change nothing else.\<close>

definition silent :: "'z mach_scheme \<Rightarrow> 'z mach_scheme \<Rightarrow> bool" where
  "silent s s' \<longleftrightarrow> (\<exists>k. s' = trace_update (\<lambda>t. replicate k (Rd PMC PMC_SR) @ t) s)"

lemma since_reads:
  "since n P tr \<Longrightarrow> (\<And>k. P (replicate k (Rd p r) @ tr)) \<Longrightarrow> since n P (replicate k (Rd p r) @ tr)"
proof (induction k)
  case (Suc k)
  then show ?case using Suc.prems(2) [of "Suc k"] by simp
qed simp

lemma silent_val: "silent s s' \<Longrightarrow> val v p r s' = val v p r s"
  by (auto simp: silent_def val_def)

lemma silent_calm: "silent s s' \<Longrightarrow> calm v n f0 f1 s \<Longrightarrow> calm v n f0 f1 s'"
  by (auto simp: silent_def calm_def flash_ok_def intro!: since_reads)

lemma silent_more: "silent s s' \<Longrightarrow> mach.more s' = mach.more s"
  by (auto simp: silent_def)

lemma wait_returns:
  assumes "clock_hw hw v"
    and "m \<in> {PMC_SR_MOSCXTS, PMC_SR_LOCKA, PMC_SR_MCKRDY, PMC_SR_LOCKU, PMC_SR_MOSCSELS, PMC_SR_MOSCRCS}"
  obtains s' where "pmc_wait_for hw m s = Some s'" "silent s s'"
proof -
  from assms obtain k where "ready_after hw PMC PMC_SR m m k (trace s)"
    unfolding clock_hw_def by blast
  note poll = poll_ready [OF this]
  show thesis
  proof (rule that)
    show "pmc_wait_for hw m s = Some (trace_update (\<lambda>t. replicate (Suc k) (Rd PMC PMC_SR) @ t) s)"
      by (simp only: pmc_wait_for_def poll option.map prod.sel)
  qed (unfold silent_def, rule exI, rule refl)
qed

lemma waits:
  assumes "clock_hw hw v"
  shows "\<exists>s'. pmc_wait_for hw PMC_SR_MOSCXTS s = Some s' \<and> silent s s'"
    "\<exists>s'. pmc_wait_for hw PMC_SR_LOCKA s = Some s' \<and> silent s s'"
    "\<exists>s'. pmc_wait_for hw PMC_SR_MCKRDY s = Some s' \<and> silent s s'"
    "\<exists>s'. pmc_wait_for hw PMC_SR_LOCKU s = Some s' \<and> silent s s'"
    "\<exists>s'. pmc_wait_for hw PMC_SR_MOSCSELS s = Some s' \<and> silent s s'"
    "\<exists>s'. pmc_wait_for hw PMC_SR_MOSCRCS s = Some s' \<and> silent s s'"
  by (rule wait_returns [OF assms, of PMC_SR_MOSCXTS], simp, blast)
    (rule wait_returns [OF assms, of PMC_SR_LOCKA], simp, blast,
     rule wait_returns [OF assms, of PMC_SR_MCKRDY], simp, blast,
     rule wait_returns [OF assms, of PMC_SR_LOCKU], simp, blast,
     rule wait_returns [OF assms, of PMC_SR_MOSCSELS], simp, blast,
     rule wait_returns [OF assms, of PMC_SR_MOSCRCS], simp, blast)

section \<open>Each stage\<close>

abbreviation css_main :: "u32 \<Rightarrow> bool" where
  "css_main w \<equiv> w AND PMC_MCKR_CSS_Msk \<le> PMC_MCKR_CSS_MAIN_CLK"

lemma css_of_main: "css_main ((w AND NOT PMC_MCKR_CSS_Msk) OR PMC_MCKR_CSS_MAIN_CLK)"
  by (simp add: and.assoc bit.conj_disj_distrib2 word_ao_dist)

lemma css_of_pres: "(w AND NOT PMC_MCKR_PRES_Msk) AND PMC_MCKR_CSS_Msk = w AND PMC_MCKR_CSS_Msk"
  by (rule and_not_disjoint) simp

lemma css_of_pres_set:
  "((w AND NOT PMC_MCKR_PRES_Msk) OR (m AND PMC_MCKR_PRES_Msk)) AND PMC_MCKR_CSS_Msk = w AND PMC_MCKR_CSS_Msk"
  by (simp add: word_ao_dist css_of_pres and.assoc)

text \<open>Writing the master clock register and waiting until it is ready.\<close>

lemma mckr_wait:
  assumes hw: "clock_hw hw v" and calm: "calm v n f0 f1 s"
    and w: "css_main w \<or> val v EFC0 EEFC_FMR s = f0 \<and> val v EFC1 EEFC_FMR s = f1"
  obtains s' where "pmc_wait_for hw PMC_SR_MCKRDY (wr PMC PMC_MCKR w s) = Some s'"
    "val v PMC PMC_MCKR s' = w" "calm v n f0 f1 s'"
    "\<And>p r. (p, r) \<noteq> (PMC, PMC_MCKR) \<Longrightarrow> val v p r s' = val v p r s" "mach.more s' = mach.more s"
proof -
  obtain t where t: "pmc_wait_for hw PMC_SR_MCKRDY (wr PMC PMC_MCKR w s) = Some t"
    "silent (wr PMC PMC_MCKR w s) t"
    using waits(3) [OF hw] by blast
  have "calm v n f0 f1 t" using t(2) calm w by (blast intro: silent_calm calm_wr_mckr)
  moreover have "mach.more t = mach.more s" using silent_more [OF t(2)] by (simp add: wr.more_kept)
  ultimately show thesis using t(1) silent_val [OF t(2), of v] by (intro that [of t]) auto
qed

lemma save_mck_main:
  assumes hw: "clock_hw hw v" and m: "val v PMC PMC_MCKR s = m" and calm: "calm v n f0 f1 s"
  obtains s' where "save_mck hw m s = Some s'" "css_main (val v PMC PMC_MCKR s')" "calm v n f0 f1 s'"
    "\<And>p r. (p, r) \<noteq> (PMC, PMC_MCKR) \<Longrightarrow> val v p r s' = val v p r s" "mach.more s' = mach.more s"
proof -
  define m1 where "m1 = (if css_main m then m else (m AND NOT PMC_MCKR_CSS_Msk) OR PMC_MCKR_CSS_MAIN_CLK)"
  have css1: "css_main m1" using css_of_main by (simp add: m1_def)
  obtain s1 where s1: "(if m AND PMC_MCKR_CSS_Msk > PMC_MCKR_CSS_MAIN_CLK then
        let m = (m AND NOT PMC_MCKR_CSS_Msk) OR PMC_MCKR_CSS_MAIN_CLK
        in map_option (Pair m) (pmc_wait_for hw PMC_SR_MCKRDY (wr PMC PMC_MCKR m s))
      else Some (m, s)) = Some (m1, s1)" "val v PMC PMC_MCKR s1 = m1" "calm v n f0 f1 s1"
    "\<And>p r. (p, r) \<noteq> (PMC, PMC_MCKR) \<Longrightarrow> val v p r s1 = val v p r s" "mach.more s1 = mach.more s"
  proof (cases "css_main m")
    case True
    with m calm show ?thesis by (intro that [of s]) (auto simp: m1_def dest: leD)
  next
    case False
    obtain t where t: "pmc_wait_for hw PMC_SR_MCKRDY (wr PMC PMC_MCKR m1 s) = Some t"
      "val v PMC PMC_MCKR t = m1" "calm v n f0 f1 t"
      "\<And>p r. (p, r) \<noteq> (PMC, PMC_MCKR) \<Longrightarrow> val v p r t = val v p r s" "mach.more t = mach.more s"
      using mckr_wait [OF hw calm, of m1] css1 by blast
    moreover from False have "1 < m AND 3" by (simp add: not_le)
    moreover have "m1 = (m AND NOT PMC_MCKR_CSS_Msk) OR PMC_MCKR_CSS_MAIN_CLK"
      using False by (simp only: m1_def if_False)
    ultimately show ?thesis unfolding Let_def by (intro that [of t]) simp_all
  qed
  show thesis
  proof (cases "m1 AND PMC_MCKR_PRES_Msk = 0")
    case True
    with s1 css1 show thesis by (intro that [of s1]) (simp_all add: save_mck_def)
  next
    case False
    have css2: "css_main (m1 AND NOT PMC_MCKR_PRES_Msk)" using css1 by (simp only: css_of_pres)
    then obtain t where t: "pmc_wait_for hw PMC_SR_MCKRDY (wr PMC PMC_MCKR (m1 AND NOT PMC_MCKR_PRES_Msk) s1) = Some t"
      "val v PMC PMC_MCKR t = m1 AND NOT PMC_MCKR_PRES_Msk" "calm v n f0 f1 t"
      "\<And>p r. (p, r) \<noteq> (PMC, PMC_MCKR) \<Longrightarrow> val v p r t = val v p r s1" "mach.more t = mach.more s1"
      using mckr_wait [OF hw s1(3)] by blast
    with False css2 s1 show thesis by (intro that [of t]) (simp_all add: save_mck_def)
  qed
qed

text \<open>Bits of the oscillator register outside of its key field.\<close>

lemma mor_bit:
  "clock_hw hw v \<Longrightarrow> n < 16 \<or> 24 \<le> n \<Longrightarrow> bit (hw (trace s) PMC CKGR_MOR) n = bit (val v PMC CKGR_MOR s) n"
  by (auto simp: clock_hw_def val_def)

lemma save_main_calm:
  assumes hw: "clock_hw hw v" and calm: "calm v n f0 f1 s" and css: "css_main (val v PMC PMC_MCKR s)"
    and rc: "bit (val v PMC CKGR_MOR s) 3"
  obtains s' where "save_main hw fmr fmr1 dis s = Some s'" "css_main (val v PMC PMC_MCKR s')"
    "calm v n f0 f1 s'" "bit (val v PMC CKGR_MOR s') 3" "mach.more s' = mach.more s"
proof -
  let ?s1 = "pmc_disable_upll_clock hw (pmc_disable_pllack s)"
  obtain s2 where s2: "pmc_wait_for hw PMC_SR_MOSCRCS ?s1 = Some s2" "silent ?s1 s2"
    using waits(6) [OF hw] by blast
  let ?s3 = "rmw hw PMC CKGR_MOR (\<lambda>v. (v AND NOT CKGR_MOR_MOSCSEL) OR CKGR_MOR_KEY_PASSWD) s2"
  obtain s4 where s4: "pmc_wait_for hw PMC_SR_MOSCSELS ?s3 = Some s4" "silent ?s3 s4"
    using waits(5) [OF hw] by blast
  let ?s5 = "wr EFC1 EEFC_FMR (fmr1 AND NOT EEFC_FMR_FWS_Msk) (wr EFC0 EEFC_FMR (fmr AND NOT EEFC_FMR_FWS_Msk) s4)"
  note off = pmc_disable_upll_clock_def pmc_disable_pllack_def
  have calm2: "calm v n f0 f1 s2"
    using silent_calm [OF s2(2)] calm by (simp add: off)
  have calm4: "calm v n f0 f1 s4"
    using silent_calm [OF s4(2)] calm2 by simp
  have mckr4: "val v PMC PMC_MCKR s4 = val v PMC PMC_MCKR s"
    by (simp add: silent_val [OF s4(2)] silent_val [OF s2(2)] off)
  have calm5: "calm v n f0 f1 ?s5" using calm4 css mckr4 by (intro calm_wr_fmr) simp_all
  have rc2: "bit (val v PMC CKGR_MOR s2) 3" using rc by (simp add: silent_val [OF s2(2)] off)
  have rc4: "bit (val v PMC CKGR_MOR s4) 3"
    using rc2 mor_bit [OF hw, of 3 s2] by (simp add: silent_val [OF s4(2)] bit_simps)
  have more: "mach.more s4 = mach.more s"
    using silent_more [OF s4(2)] silent_more [OF s2(2)] by (simp add: off wr.more_kept rmw.more_kept)
  show thesis
    using s2(1) s4(1) calm5 css mckr4 rc4 more mor_bit [OF hw, of 3 ?s5]
    by (intro that [of "if dis then rmw hw PMC CKGR_MOR (\<lambda>v. (v AND NOT CKGR_MOR_MOSCXTEN) OR CKGR_MOR_KEY_PASSWD) ?s5
          else ?s5"])
      (simp_all add: save_main_def Let_def bit_simps wr.more_kept rmw.more_kept)
qed

lemma exp_eq_and_iff:
  fixes w :: u32
  assumes "k < 32"
  shows "2 ^ k = w AND 2 ^ k \<longleftrightarrow> bit w k"
proof
  assume "2 ^ k = w AND 2 ^ k"
  then have "bit (2 ^ k :: u32) k = bit (w AND 2 ^ k) k" by simp
  with assms show "bit w k" by (simp add: bit_simps)
next
  assume "bit w k"
  then show "2 ^ k = w AND 2 ^ k" by (intro bit_word_eqI) (auto simp: bit_simps)
qed

lemma mor_tests:
  "CKGR_MOR_MOSCXTBY = w AND CKGR_MOR_MOSCXTBY \<longleftrightarrow> bit w 1"
  "CKGR_MOR_MOSCXTEN = w AND CKGR_MOR_MOSCXTEN \<longleftrightarrow> bit w 0"
  "w AND CKGR_MOR_MOSCXTEN = 0 \<longleftrightarrow> \<not> bit w 0" "w AND CKGR_MOR_MOSCSEL = 0 \<longleftrightarrow> \<not> bit w 24"
proof -
  note eq = exp_eq_and_iff [of _ w]
  show "CKGR_MOR_MOSCXTBY = w AND CKGR_MOR_MOSCXTBY \<longleftrightarrow> bit w 1"
    "CKGR_MOR_MOSCXTEN = w AND CKGR_MOR_MOSCXTEN \<longleftrightarrow> bit w 0"
    "w AND CKGR_MOR_MOSCXTEN = 0 \<longleftrightarrow> \<not> bit w 0" "w AND CKGR_MOR_MOSCSEL = 0 \<longleftrightarrow> \<not> bit w 24"
    using eq [of 1] eq [of 0] and_exp_eq_0_iff [of w 0] and_exp_eq_0_iff [of w 24] by simp_all
qed

lemma mor_stage:
  assumes hw: "clock_hw hw v" and calm: "calm v n f0 f1 s"
    and wait: "\<And>t :: 'a mach_scheme. \<exists>t'. pmc_wait_for hw m t = Some t' \<and> silent t t'"
  obtains s' where "(if b then pmc_wait_for hw m (rmw hw PMC CKGR_MOR f s) else Some (s :: 'a mach_scheme)) = Some s'"
    "calm v n f0 f1 s'" "\<And>p r. (p, r) \<noteq> (PMC, CKGR_MOR) \<Longrightarrow> val v p r s' = val v p r s"
    "mach.more s' = mach.more s"
    "val v PMC CKGR_MOR s' = (if b then f (hw (trace s) PMC CKGR_MOR) else val v PMC CKGR_MOR s)"
proof (cases b)
  case True
  let ?s = "rmw hw PMC CKGR_MOR f s"
  obtain t where t: "pmc_wait_for hw m ?s = Some t" "silent ?s t" using wait by blast
  have "calm v n f0 f1 t" using silent_calm [OF t(2)] calm by simp
  moreover have "mach.more t = mach.more s" using silent_more [OF t(2)] by (simp add: rmw.more_kept)
  ultimately show thesis using True t(1) silent_val [OF t(2), of v] by (intro that [of t]) auto
next
  case False
  with calm show thesis by (intro that [of s]) auto
qed

text \<open>The last step of both branches turns the internal oscillator off.\<close>

definition osc_bits :: "u32 \<Rightarrow> u32 \<Rightarrow> bool" where
  "osc_bits osc mor \<longleftrightarrow> bit mor 24 \<and> \<not> bit mor 3 \<and> (if bit osc 1 then bit mor 1 else bit mor 0)"

lemma select_xtal:
  fixes s :: "'a mach_scheme"
  assumes hw: "clock_hw hw v" and calm: "calm v n f0 f1 s" and osc: "\<not> bit osc 1" "bit osc 0"
  obtains s3 where "restore_osc hw osc s =
      Some (rmw hw PMC CKGR_MOR (\<lambda>v. (v AND NOT CKGR_MOR_MOSCRCEN AND NOT CKGR_MOR_MOSCRCF_Msk) OR CKGR_MOR_KEY_PASSWD) s3)"
    "calm v n f0 f1 s3" "\<forall>p r. (p, r) \<noteq> (PMC, CKGR_MOR) \<longrightarrow> val v p r s3 = val v p r s" "mach.more s3 = mach.more s"
    "bit (val v PMC CKGR_MOR s3) 24" "bit (val v PMC CKGR_MOR s3) 0"
proof -
  let ?on = "\<lambda>v. (v AND NOT CKGR_MOR_MOSCXTBY) OR CKGR_MOR_KEY_PASSWD OR CKGR_MOR_MOSCXTEN"
  let ?sel = "\<lambda>v. v OR (CKGR_MOR_KEY_PASSWD OR CKGR_MOR_MOSCSEL)"
  define s0 where "s0 = snd (rd hw PMC CKGR_MOR s)"
  define b0 where "b0 = (hw (trace s) PMC CKGR_MOR AND CKGR_MOR_MOSCXTEN = 0)"
  have calm0: "calm v n f0 f1 s0" using calm by (simp add: s0_def)
  obtain s1 where s1: "(if b0 then pmc_wait_for hw PMC_SR_MOSCXTS (rmw hw PMC CKGR_MOR ?on s0) else Some s0) = Some s1"
    "calm v n f0 f1 s1" "\<And>p r. (p, r) \<noteq> (PMC, CKGR_MOR) \<Longrightarrow> val v p r s1 = val v p r s0"
    "mach.more s1 = mach.more s0"
    "val v PMC CKGR_MOR s1 = (if b0 then ?on (hw (trace s0) PMC CKGR_MOR) else val v PMC CKGR_MOR s0)"
    using mor_stage [OF hw calm0 waits(1) [OF hw], where b = b0 and f = ?on] by blast
  have on: "bit (val v PMC CKGR_MOR s1) 0"
    using mor_bit [OF hw, of 0 s] by (simp add: s1(5) b0_def s0_def mor_tests bit_simps)
  define s2 where "s2 = snd (rd hw PMC CKGR_MOR s1)"
  define b2 where "b2 = (hw (trace s1) PMC CKGR_MOR AND CKGR_MOR_MOSCSEL = 0)"
  have calm2: "calm v n f0 f1 s2" using s1(2) by (simp add: s2_def)
  obtain s3 where s3: "(if b2 then pmc_wait_for hw PMC_SR_MOSCSELS (rmw hw PMC CKGR_MOR ?sel s2) else Some s2) = Some s3"
    "calm v n f0 f1 s3" "\<And>p r. (p, r) \<noteq> (PMC, CKGR_MOR) \<Longrightarrow> val v p r s3 = val v p r s2"
    "mach.more s3 = mach.more s2"
    "val v PMC CKGR_MOR s3 = (if b2 then ?sel (hw (trace s2) PMC CKGR_MOR) else val v PMC CKGR_MOR s2)"
    using mor_stage [OF hw calm2 waits(5) [OF hw], where b = b2 and f = ?sel] by blast
  have sel: "bit (val v PMC CKGR_MOR s3) 24" "bit (val v PMC CKGR_MOR s3) 0"
    using mor_bit [OF hw, of 24 s1] mor_bit [OF hw, of 0 s2] on
    by (simp_all add: s3(5) b2_def s2_def mor_tests bit_simps)
  have fst: "rd hw PMC CKGR_MOR s = (hw (trace s) PMC CKGR_MOR, s0)"
    "rd hw PMC CKGR_MOR s1 = (hw (trace s1) PMC CKGR_MOR, s2)"
    by (simp_all add: s0_def s2_def rd_def)
  show thesis
  proof (rule that [OF _ s3(2) _ _ sel])
    show "restore_osc hw osc s =
        Some (rmw hw PMC CKGR_MOR (\<lambda>v. (v AND NOT CKGR_MOR_MOSCRCEN AND NOT CKGR_MOR_MOSCRCF_Msk) OR CKGR_MOR_KEY_PASSWD) s3)"
      using osc s1(1) s3(1) unfolding restore_osc_def fst Let_def prod.case b0_def b2_def
      by (simp only: mor_tests if_False if_True bind.bind_lunit fst prod.case)
  qed (use s1 s3 in \<open>auto simp: s0_def s2_def rd_more\<close>)
qed

lemma restore_osc_ok:
  assumes hw: "clock_hw hw v" and calm: "calm v n f0 f1 s"
  obtains s' where "restore_osc hw osc s = Some s'" "calm v n f0 f1 s'"
    "\<And>p r. (p, r) \<noteq> (PMC, CKGR_MOR) \<Longrightarrow> val v p r s' = val v p r s" "mach.more s' = mach.more s"
    "bit osc 0 \<or> bit osc 1 \<longrightarrow> osc_bits osc (val v PMC CKGR_MOR s')"
proof -
  let ?off = "rmw hw PMC CKGR_MOR (\<lambda>v. (v AND NOT CKGR_MOR_MOSCRCEN AND NOT CKGR_MOR_MOSCRCF_Msk) OR CKGR_MOR_KEY_PASSWD)"
  have off: "osc_bits osc (val v PMC CKGR_MOR (?off t)) \<longleftrightarrow>
      bit (val v PMC CKGR_MOR t) 24 \<and> (if bit osc 1 then bit (val v PMC CKGR_MOR t) 1 else bit (val v PMC CKGR_MOR t) 0)"
    for t :: "'a mach_scheme"
    using mor_bit [OF hw, of 24 t] mor_bit [OF hw, of 0 t] mor_bit [OF hw, of 1 t]
    by (simp add: osc_bits_def bit_simps)
  consider (bypass) "bit osc 1" | (xtal) "\<not> bit osc 1" "bit osc 0" | (rc) "\<not> bit osc 1" "\<not> bit osc 0" by blast
  then show thesis
  proof cases
    case bypass
    let ?t = "rmw hw PMC CKGR_MOR (\<lambda>v. (v AND NOT CKGR_MOR_MOSCXTEN) OR
        CKGR_MOR_KEY_PASSWD OR CKGR_MOR_MOSCXTBY OR CKGR_MOR_MOSCSEL) s"
    show thesis
    proof (rule that [of "?off ?t"])
      show "restore_osc hw osc s = Some (?off ?t)" using bypass by (simp only: restore_osc_def mor_tests Let_def if_True)
      show "bit osc 0 \<or> bit osc 1 \<longrightarrow> osc_bits osc (val v PMC CKGR_MOR (?off ?t))"
        unfolding off using bypass by (simp add: bit_simps)
    qed (use calm in \<open>auto simp: rmw.more_kept\<close>)
  next
    case rc
    with calm show thesis by (intro that [of s]) (simp_all add: restore_osc_def mor_tests)
  next
    case xtal
    obtain s3 where s3: "restore_osc hw osc s = Some (?off s3)" "calm v n f0 f1 s3"
      "\<forall>p r. (p, r) \<noteq> (PMC, CKGR_MOR) \<longrightarrow> val v p r s3 = val v p r s" "mach.more s3 = mach.more s"
      "bit (val v PMC CKGR_MOR s3) 24" "bit (val v PMC CKGR_MOR s3) 0"
      by (rule select_xtal [OF hw calm xtal])
    show thesis
    proof (rule that [OF s3(1)])
      show "bit osc 0 \<or> bit osc 1 \<longrightarrow> osc_bits osc (val v PMC CKGR_MOR (?off s3))"
        unfolding off using xtal s3 by simp
    qed (use s3 in \<open>auto simp: rmw.more_kept\<close>)
  qed
qed

lemma restore_plls_ok:
  assumes "calm v n f0 f1 s"
  obtains s' where
    "restore_plls pll0 pll1 s =
       ((if pll0 AND CKGR_PLLAR_MULA_Msk \<noteq> 0 then PMC_SR_LOCKA else 0) OR
        (if pll1 AND CKGR_UCKR_UPLLEN \<noteq> 0 then PMC_SR_LOCKU else 0), s')"
    "calm v n f0 f1 s'" "\<And>p r. (p, r) \<notin> {(PMC, CKGR_PLLAR), (PMC, CKGR_UCKR)} \<Longrightarrow> val v p r s' = val v p r s"
    "mach.more s' = mach.more s"
    "pll0 AND CKGR_PLLAR_MULA_Msk \<noteq> 0 \<longrightarrow> val v PMC CKGR_PLLAR s' = CKGR_PLLAR_ONE OR pll0"
    "pll1 AND CKGR_UCKR_UPLLEN \<noteq> 0 \<longrightarrow> val v PMC CKGR_UCKR s' = pll1"
  by (rule that [of "snd (restore_plls pll0 pll1 s)"])
    (use assms in \<open>auto simp: restore_plls_def wr.more_kept Let_def\<close>)

lemma wait_mck_source_ok:
  assumes "clock_hw hw v" and "calm v n f0 f1 s"
  obtains s' where "wait_mck_source hw mck s = Some s'" "calm v n f0 f1 s'"
    "\<And>p r. val v p r s' = val v p r s" "mach.more s' = mach.more s"
proof -
  have "\<exists>s'. wait_mck_source hw mck s = Some s' \<and> silent s s'"
    using waits(2,4) [OF assms(1), of s] by (auto simp: wait_mck_source_def silent_def intro: exI [of _ 0])
  then show thesis using that silent_calm silent_val silent_more assms(2) by metis
qed

lemma restore_mck_ok:
  assumes hw: "clock_hw hw v" and calm: "calm v n f0 f1 s" and css: "css_main (val v PMC PMC_MCKR s)"
    and f: "fmr_setting c = f0" "fmr_setting1 c = f1"
  obtains s' where "restore_mck hw c s = Some s'" "calm v n f0 f1 s'"
    "\<And>p r. (p, r) \<notin> {(PMC, PMC_MCKR), (EFC0, EEFC_FMR), (EFC1, EEFC_FMR)} \<Longrightarrow> val v p r s' = val v p r s"
    "val v PMC PMC_MCKR s' = mck_setting c" "val v EFC0 EEFC_FMR s' = f0" "val v EFC1 EEFC_FMR s' = f1"
    "mach.more s' = mach.more s"
proof -
  define m where "m = val v PMC PMC_MCKR s"
  define s0 where "s0 = snd (rd hw PMC PMC_MCKR s)"
  define w where "w = (m AND NOT PMC_MCKR_PRES_Msk) OR (mck_setting c AND PMC_MCKR_PRES_Msk)"
  have rd: "rd hw PMC PMC_MCKR s = (m, s0)" using hw by (simp add: rd_def s0_def clock_hw_def m_def val_def)
  have cssw: "css_main w" using css unfolding w_def css_of_pres_set m_def .
  have calm0: "calm v n f0 f1 s0" using calm by (simp add: s0_def)
  obtain s1 where s1: "pmc_wait_for hw PMC_SR_MCKRDY (wr PMC PMC_MCKR w s0) = Some s1"
    "val v PMC PMC_MCKR s1 = w" "calm v n f0 f1 s1"
    "\<And>p r. (p, r) \<noteq> (PMC, PMC_MCKR) \<Longrightarrow> val v p r s1 = val v p r s0" "mach.more s1 = mach.more s0"
    using mckr_wait [OF hw calm0, of w] cssw by blast
  let ?s2 = "wr EFC1 EEFC_FMR (fmr_setting1 c) (wr EFC0 EEFC_FMR (fmr_setting c) s1)"
  have calm2: "calm v n f0 f1 ?s2" using s1(2,3) cssw by (intro calm_wr_fmr) simp_all
  obtain s3 where s3: "pmc_wait_for hw PMC_SR_MCKRDY (wr PMC PMC_MCKR (mck_setting c) ?s2) = Some s3"
    "val v PMC PMC_MCKR s3 = mck_setting c" "calm v n f0 f1 s3"
    "\<And>p r. (p, r) \<noteq> (PMC, PMC_MCKR) \<Longrightarrow> val v p r s3 = val v p r ?s2" "mach.more s3 = mach.more ?s2"
    using mckr_wait [OF hw calm2, of "mck_setting c"] f by auto
  show thesis
  proof (rule that [of s3])
    show "restore_mck hw c s = Some s3"
      unfolding restore_mck_def rd Let_def prod.case w_def [symmetric] by (simp only: s1(1) s3(1) bind.bind_lunit)
  qed (use s1 s3 f in \<open>auto simp: s0_def wr.more_kept rd_more\<close>)
qed

lemma poll_any_returns:
  assumes "hw (replicate k (Rd p r) @ trace s) p r AND m \<noteq> 0"
  shows "\<exists>j. poll_any hw p r m s = Some (trace_update (\<lambda>t. replicate j (Rd p r) @ t) s)"
  using assms
proof (induction k arbitrary: s)
  case 0
  then show ?case by (subst poll_any.simps) (auto simp: rd_def intro!: exI [of _ 1])
next
  case (Suc k)
  show ?case
  proof (cases "hw (trace s) p r AND m = 0")
    case True
    let ?s = "snd (rd hw p r s)"
    have "replicate k (Rd p r) @ trace ?s = replicate (Suc k) (Rd p r) @ trace s"
      by (simp add: rd_def replicate_app_Cons_same)
    with Suc.prems have "hw (replicate k (Rd p r) @ trace ?s) p r AND m \<noteq> 0" by (simp only:) simp
    from Suc.IH [OF this] obtain j where
      "poll_any hw p r m ?s = Some (trace_update (\<lambda>t. replicate j (Rd p r) @ t) ?s)" by blast
    then show ?thesis using True
      by (subst poll_any.simps)
        (auto simp: rd_def comp_def replicate_app_Cons_same intro!: exI [of _ "Suc j"])
  next
    case False
    then show ?thesis by (subst poll_any.simps) (auto simp: rd_def intro!: exI [of _ 1])
  qed
qed

lemma poll_any_nothing: "poll_any hw p r 0 s = None"
proof -
  have "m \<noteq> 0" if "poll_any hw p r m s = Some y" for m and y :: "'a mach_scheme"
    using that by (induction rule: poll_any.raw_induct [rotated 1, consumes 1, case_names step])
      (auto split: if_splits)
  then show ?thesis by (cases "poll_any hw p r 0 s") auto
qed

section \<open>Saving, waiting and restoring\<close>

text \<open>The settings \<open>c\<close> are those of the registers in state \<open>s\<close>.\<close>

definition settings_of :: "(periph \<Rightarrow> nat \<Rightarrow> u32) \<Rightarrow> clock_settings \<Rightarrow> 'z mach_scheme \<Rightarrow> bool" where
  "settings_of v c s \<longleftrightarrow>
     (\<forall>n < 16. bit (osc_setting c) n = bit (val v PMC CKGR_MOR s) n) \<and>
     pll0_setting c = val v PMC CKGR_PLLAR s \<and> pll1_setting c = val v PMC CKGR_UCKR s \<and>
     mck_setting c = val v PMC PMC_MCKR s \<and>
     fmr_setting c = val v EFC0 EEFC_FMR s \<and> fmr_setting1 c = val v EFC1 EEFC_FMR s"

lemma rd_val:
  assumes "clock_hw hw v"
  shows "rd hw PMC PMC_MCKR s = (val v PMC PMC_MCKR s, snd (rd hw PMC PMC_MCKR s))"
    "rd hw PMC CKGR_PLLAR s = (val v PMC CKGR_PLLAR s, snd (rd hw PMC CKGR_PLLAR s))"
    "rd hw PMC CKGR_UCKR s = (val v PMC CKGR_UCKR s, snd (rd hw PMC CKGR_UCKR s))"
    "rd hw EFC0 EEFC_FMR s = (val v EFC0 EEFC_FMR s, snd (rd hw EFC0 EEFC_FMR s))"
    "rd hw EFC1 EEFC_FMR s = (val v EFC1 EEFC_FMR s, snd (rd hw EFC1 EEFC_FMR s))"
  using assms by (simp_all add: rd_def val_def clock_hw_def)

lemma save_ok:
  assumes hw: "clock_hw hw v" and calm: "calm v n f0 f1 s"
  obtains c s' where "pmc_save_clock_settings hw dis s = Some (c, s')" "settings_of v c s"
    "css_main (val v PMC PMC_MCKR s')" "calm v n f0 f1 s'" "bit (val v PMC CKGR_MOR s') 3"
    "mach.more s' = mach.more s"
proof -
  define mor where "mor = hw (trace s) PMC CKGR_MOR"
  define s0 where "s0 = snd (rd hw PMC CKGR_UCKR (snd (rd hw PMC CKGR_PLLAR (snd (rd hw EFC1 EEFC_FMR
    (snd (rd hw EFC0 EEFC_FMR (snd (rd hw PMC PMC_MCKR (snd (rd hw PMC CKGR_MOR s)))))))))))"
  define s1 where "s1 = wr PMC CKGR_MOR (CKGR_MOR_KEY_PASSWD OR mor OR CKGR_MOR_MOSCRCEN) s0"
  have calm1: "calm v n f0 f1 s1" using calm by (simp add: s1_def s0_def)
  have m1: "val v PMC PMC_MCKR s1 = val v PMC PMC_MCKR s" by (simp add: s1_def s0_def)
  obtain s2 where s2: "save_mck hw (val v PMC PMC_MCKR s) s1 = Some s2" "css_main (val v PMC PMC_MCKR s2)"
    "calm v n f0 f1 s2" "\<And>p r. (p, r) \<noteq> (PMC, PMC_MCKR) \<Longrightarrow> val v p r s2 = val v p r s1"
    "mach.more s2 = mach.more s1"
    using save_mck_main [OF hw m1 calm1] by blast
  have rc: "bit (val v PMC CKGR_MOR s2) 3" by (simp add: s2(4) s1_def bit_simps)
  obtain s3 where s3: "save_main hw (val v EFC0 EEFC_FMR s) (val v EFC1 EEFC_FMR s) dis s2 = Some s3"
    "css_main (val v PMC PMC_MCKR s3)" "calm v n f0 f1 s3" "bit (val v PMC CKGR_MOR s3) 3"
    "mach.more s3 = mach.more s2"
    using save_main_calm [OF hw s2(3,2) rc] by blast
  have r: "rd hw PMC CKGR_MOR s = (mor, snd (rd hw PMC CKGR_MOR s))" by (simp add: rd_def mor_def)
  show thesis
  proof (rule that)
    show "pmc_save_clock_settings hw dis s = Some (\<lparr>osc_setting = mor, pll0_setting = val v PMC CKGR_PLLAR s,
        pll1_setting = val v PMC CKGR_UCKR s, mck_setting = val v PMC PMC_MCKR s,
        fmr_setting = val v EFC0 EEFC_FMR s, fmr_setting1 = val v EFC1 EEFC_FMR s\<rparr>, s3)"
      unfolding pmc_save_clock_settings_def
      by (subst r, subst rd_val [OF hw], subst rd_val [OF hw], subst rd_val [OF hw], subst rd_val [OF hw], subst rd_val [OF hw])
        (simp only: Let_def prod.case val_simps s0_def [symmetric] s1_def [symmetric] s2(1) s3(1) bind.bind_lunit)
  qed (use s2 s3 mor_bit [OF hw, of _ s] in
      \<open>auto simp: settings_of_def mor_def s1_def s0_def wr.more_kept rd_more\<close>)
qed

lemma waitmode_ok:
  assumes hw: "clock_hw hw v" and calm: "calm v n f0 f1 s" and rc: "bit (val v PMC CKGR_MOR s) 3"
  obtains s' where "pmc_enable_waitmode hw s = Some s'" "calm v n f0 f1 s'"
    "\<And>p r. (p, r) \<notin> {(PMC, PMC_FSMR), (SCB, SCB_SCR)} \<Longrightarrow> val v p r s' = val v p r s"
    "mach.more s' = mach.more s"
proof -
  let ?s = "instr (Nops 500) (instr Wfe (rmw hw SCB SCB_SCR (\<lambda>v. v AND NOT SCB_SCR_SLEEPDEEP_Msk)
    (rmw hw PMC PMC_FSMR (\<lambda>v. v OR PMC_FSMR_LPM) s)))"
  have "bit (hw (trace ?s) PMC CKGR_MOR) 3" using rc mor_bit [OF hw, of 3 ?s] by simp
  then have "hw (trace ?s) PMC CKGR_MOR AND 2 ^ 3 = 2 ^ 3" by (simp only: exp_eq_and_iff [symmetric])
  then have "ready_after hw PMC CKGR_MOR CKGR_MOR_MOSCRCEN CKGR_MOR_MOSCRCEN 0 (trace ?s)"
    by (simp add: ready_after_def)
  from poll_ready [OF this] have "pmc_enable_waitmode hw s = Some (snd (rd hw PMC CKGR_MOR ?s))"
    by (simp add: pmc_enable_waitmode_def Let_def rd_def)
  then show thesis
    by (rule that) (use calm in \<open>auto simp: rd_more rmw.more_kept instr_more\<close>)
qed

definition pll_on :: "clock_settings \<Rightarrow> bool" where
  "pll_on c \<longleftrightarrow> pll0_setting c AND CKGR_PLLAR_MULA_Msk \<noteq> 0 \<or> pll1_setting c AND CKGR_UCKR_UPLLEN \<noteq> 0"

lemma and_subset_neq_0: "x AND m = m \<Longrightarrow> m AND k = m \<Longrightarrow> m \<noteq> 0 \<Longrightarrow> x AND k \<noteq> 0" for x m k :: u32
proof
  assume "x AND m = m" "m AND k = m" "m \<noteq> 0" and z: "x AND k = 0"
  then have "m = m AND (x AND k)" by (metis and.assoc and.commute)
  with z \<open>m \<noteq> 0\<close> show False by simp
qed

lemma restore_ok:
  assumes hw: "clock_hw hw v" and calm: "calm v n f0 f1 s" and css: "css_main (val v PMC PMC_MCKR s)"
    and f: "fmr_setting c = f0" "fmr_setting1 c = f1"
  shows "pll_on c \<Longrightarrow> \<exists>s'. pmc_restore_clock_setting hw c s = Some s' \<and> calm v n f0 f1 s' \<and>
      val v PMC PMC_MCKR s' = mck_setting c \<and> val v EFC0 EEFC_FMR s' = f0 \<and> val v EFC1 EEFC_FMR s' = f1 \<and>
      (pll0_setting c AND CKGR_PLLAR_MULA_Msk \<noteq> 0 \<longrightarrow> val v PMC CKGR_PLLAR s' = CKGR_PLLAR_ONE OR pll0_setting c) \<and>
      (pll1_setting c AND CKGR_UCKR_UPLLEN \<noteq> 0 \<longrightarrow> val v PMC CKGR_UCKR s' = pll1_setting c) \<and>
      (bit (osc_setting c) 0 \<or> bit (osc_setting c) 1 \<longrightarrow> osc_bits (osc_setting c) (val v PMC CKGR_MOR s')) \<and>
      mach.more s' = mach.more s"
    and "\<not> pll_on c \<Longrightarrow> pmc_restore_clock_setting hw c s = None"
proof -
  obtain s1 where s1: "restore_osc hw (osc_setting c) s = Some s1" "calm v n f0 f1 s1"
    "\<And>p r. (p, r) \<noteq> (PMC, CKGR_MOR) \<Longrightarrow> val v p r s1 = val v p r s" "mach.more s1 = mach.more s"
    "bit (osc_setting c) 0 \<or> bit (osc_setting c) 1 \<longrightarrow> osc_bits (osc_setting c) (val v PMC CKGR_MOR s1)"
    using restore_osc_ok [OF hw calm] by blast
  define sr where "sr = (if pll0_setting c AND CKGR_PLLAR_MULA_Msk \<noteq> 0 then PMC_SR_LOCKA else 0) OR
    (if pll1_setting c AND CKGR_UCKR_UPLLEN \<noteq> 0 then PMC_SR_LOCKU else 0)"
  obtain s2 where s2: "restore_plls (pll0_setting c) (pll1_setting c) s1 = (sr, s2)" "calm v n f0 f1 s2"
    "\<And>p r. (p, r) \<notin> {(PMC, CKGR_PLLAR), (PMC, CKGR_UCKR)} \<Longrightarrow> val v p r s2 = val v p r s1"
    "mach.more s2 = mach.more s1"
    "pll0_setting c AND CKGR_PLLAR_MULA_Msk \<noteq> 0 \<longrightarrow> val v PMC CKGR_PLLAR s2 = CKGR_PLLAR_ONE OR pll0_setting c"
    "pll1_setting c AND CKGR_UCKR_UPLLEN \<noteq> 0 \<longrightarrow> val v PMC CKGR_UCKR s2 = pll1_setting c"
    using restore_plls_ok [OF s1(2)] unfolding sr_def by blast
  obtain s3 where s3: "wait_mck_source hw (mck_setting c) s2 = Some s3" "calm v n f0 f1 s3"
    "\<And>p r. val v p r s3 = val v p r s2" "mach.more s3 = mach.more s2"
    using wait_mck_source_ok [OF hw s2(2)] by blast
  have css3: "css_main (val v PMC PMC_MCKR s3)" using css s1(3) s2(3) s3(3) by simp
  obtain s4 where s4: "restore_mck hw c s3 = Some s4" "calm v n f0 f1 s4"
    "\<And>p r. (p, r) \<notin> {(PMC, PMC_MCKR), (EFC0, EEFC_FMR), (EFC1, EEFC_FMR)} \<Longrightarrow> val v p r s4 = val v p r s3"
    "val v PMC PMC_MCKR s4 = mck_setting c" "val v EFC0 EEFC_FMR s4 = f0" "val v EFC1 EEFC_FMR s4 = f1"
    "mach.more s4 = mach.more s3"
    using restore_mck_ok [OF hw s3(2) css3 f] by blast
  have run: "pmc_restore_clock_setting hw c s = poll_any hw PMC PMC_SR sr s4"
    unfolding pmc_restore_clock_setting_def
    by (simp only: s1(1) s2(1) s3(1) s4(1) bind.bind_lunit Let_def prod.case)
  show "pmc_restore_clock_setting hw c s = None" if "\<not> pll_on c"
    using that by (simp add: run sr_def pll_on_def poll_any_nothing)
  assume "pll_on c"
  then have "PMC_SR_LOCKA AND sr = PMC_SR_LOCKA \<or> PMC_SR_LOCKU AND sr = PMC_SR_LOCKU"
    by (auto simp: pll_on_def sr_def)
  then obtain m where m: "m \<in> {PMC_SR_LOCKA, PMC_SR_LOCKU}" "m AND sr = m" by blast
  obtain k where "hw (replicate k (Rd PMC PMC_SR) @ trace s4) PMC PMC_SR AND m = m"
    using hw m(1) unfolding clock_hw_def ready_after_def by blast
  then have "hw (replicate k (Rd PMC PMC_SR) @ trace s4) PMC PMC_SR AND sr \<noteq> 0"
    by (rule and_subset_neq_0 [OF _ m(2)]) (use m(1) in auto)
  from poll_any_returns [of hw k PMC PMC_SR s4 sr, OF this] obtain s5 where s5: "poll_any hw PMC PMC_SR sr s4 = Some s5" "silent s4 s5"
    by (auto simp: silent_def)
  show "\<exists>s'. pmc_restore_clock_setting hw c s = Some s' \<and> calm v n f0 f1 s' \<and>
      val v PMC PMC_MCKR s' = mck_setting c \<and> val v EFC0 EEFC_FMR s' = f0 \<and> val v EFC1 EEFC_FMR s' = f1 \<and>
      (pll0_setting c AND CKGR_PLLAR_MULA_Msk \<noteq> 0 \<longrightarrow> val v PMC CKGR_PLLAR s' = CKGR_PLLAR_ONE OR pll0_setting c) \<and>
      (pll1_setting c AND CKGR_UCKR_UPLLEN \<noteq> 0 \<longrightarrow> val v PMC CKGR_UCKR s' = pll1_setting c) \<and>
      (bit (osc_setting c) 0 \<or> bit (osc_setting c) 1 \<longrightarrow> osc_bits (osc_setting c) (val v PMC CKGR_MOR s')) \<and>
      mach.more s' = mach.more s"
    using run s5(1) silent_calm [OF s5(2) s4(2)] silent_val [OF s5(2), of v] silent_more [OF s5(2)] s4 s3 s2 s1
    by (intro exI [of _ s5]) auto
qed

lemma val_irq [simp]:
  "val v p r (cpu_irq_disable s) = val v p r s" "val v p r (cpu_irq_enable s) = val v p r s"
  "val v p r (b_is_sleep_clock_used_update f t) = val v p r t"
  by (simp_all add: val_def irq_defs Let_def)

lemma calm_irq [simp]:
  "calm v n f0 f1 (cpu_irq_disable s) = calm v n f0 f1 s" "calm v n f0 f1 (cpu_irq_enable s) = calm v n f0 f1 s"
  "calm v n f0 f1 (b_is_sleep_clock_used_update f t) = calm v n f0 f1 t"
  by (auto simp: calm_def irq_defs Let_def flash_ok_def)

lemma same_more_sleep:
  "mach.more s' = mach.more s \<Longrightarrow> callback_clocks_restored s' = callback_clocks_restored s"
  for s s' :: "'z sleep_scheme"
  by (cases s, cases s') simp

lemma callback_irq [simp]:
  "callback_clocks_restored (cpu_irq_disable s) = callback_clocks_restored s"
  "callback_clocks_restored (cpu_irq_enable s) = callback_clocks_restored s" for s :: "'z sleep_scheme"
  by (simp_all add: irq_defs Let_def)

text \<open>The part up to the restoration: the settings saved, and the state in which it starts.\<close>

lemma sleep_until_restore:
  fixes s :: "'z sleep_scheme"
  assumes hw: "clock_hw hw v" and mode: "mode = SAM_PM_SMODE_WAIT \<or> mode = SAM_PM_SMODE_WAIT_FAST"
    and cb: "callback_clocks_restored s = None" and calm: "calm v n f0 f1 s"
  obtains c s5 where "settings_of v c s" "calm v n f0 f1 s5" "css_main (val v PMC PMC_MCKR s5)"
    "callback_clocks_restored s5 = None"
    "pmc_sleep cb hw mode s = do {
      s \<leftarrow> pmc_restore_clock_setting hw c s5;
      let s = s\<lparr>b_is_sleep_clock_used := False\<rparr>;
      let s = (case callback_clocks_restored s of None \<Rightarrow> s
        | Some f \<Rightarrow> (cb f s)\<lparr>callback_clocks_restored := None\<rparr>);
      Some (cpu_irq_enable s)}"
proof -
  define s1 where "s1 = (cpu_irq_disable s)\<lparr>b_is_sleep_clock_used := True\<rparr>"
  have calm1: "calm v n f0 f1 s1" using calm by (simp add: s1_def)
  obtain c s2 where s2: "pmc_save_clock_settings hw (mode = SAM_PM_SMODE_WAIT) s1 = Some (c, s2)" "settings_of v c s1"
    "css_main (val v PMC PMC_MCKR s2)" "calm v n f0 f1 s2" "bit (val v PMC CKGR_MOR s2) 3"
    "mach.more s2 = mach.more s1"
    using save_ok [OF hw calm1] by blast
  define s3 where "s3 = cpu_irq_enable s2"
  have s3: "calm v n f0 f1 s3" "bit (val v PMC CKGR_MOR s3) 3" using s2 by (simp_all add: s3_def)
  obtain s4 where s4: "pmc_enable_waitmode hw s3 = Some s4" "calm v n f0 f1 s4"
    "\<And>p r. (p, r) \<notin> {(PMC, PMC_FSMR), (SCB, SCB_SCR)} \<Longrightarrow> val v p r s4 = val v p r s3"
    "mach.more s4 = mach.more s3"
    using waitmode_ok [OF hw s3] by blast
  define s5 where "s5 = cpu_irq_disable s4"
  have s5: "calm v n f0 f1 s5" "css_main (val v PMC PMC_MCKR s5)"
    using s4 s2(3) by (simp_all add: s5_def s3_def)
  have cb5: "callback_clocks_restored s5 = None"
    using same_more_sleep [OF s4(4)] same_more_sleep [OF s2(6)] cb by (simp add: s5_def s3_def s1_def)
  have run: "pmc_sleep cb hw mode s = do {
      s \<leftarrow> pmc_restore_clock_setting hw c s5;
      let s = s\<lparr>b_is_sleep_clock_used := False\<rparr>;
      let s = (case callback_clocks_restored s of None \<Rightarrow> s
        | Some f \<Rightarrow> (cb f s)\<lparr>callback_clocks_restored := None\<rparr>);
      Some (cpu_irq_enable s)}"
    using mode s2(1) s4(1) by (auto simp: pmc_sleep_def sleep_wait_def s1_def s3_def s5_def Let_def)
  have "settings_of v c s" using s2(2) by (simp add: settings_of_def s1_def)
  then show thesis using s5 cb5 run by (rule that)
qed

lemma wake_up:
  assumes run: "pmc_sleep cb hw mode s = do {
      s \<leftarrow> pmc_restore_clock_setting hw c s5;
      let s = s\<lparr>b_is_sleep_clock_used := False\<rparr>;
      let s = (case callback_clocks_restored s of None \<Rightarrow> s
        | Some f \<Rightarrow> (cb f s)\<lparr>callback_clocks_restored := None\<rparr>);
      Some (cpu_irq_enable s)}"
    and "callback_clocks_restored s5 = None" and s6: "pmc_restore_clock_setting hw c s5 = Some s6"
    "mach.more s6 = mach.more s5" "calm v n f0 f1 s6"
  obtains s7 where "pmc_sleep cb hw mode s = Some s7" "\<forall>p r. val v p r s7 = val v p r s6"
    "\<not> primask s7" "pmc_is_wakeup_clocks_restored s7" "since n (flash_ok v f0 f1) (trace s7)"
proof
  let ?s7 = "cpu_irq_enable (s6\<lparr>b_is_sleep_clock_used := False\<rparr>)"
  have "callback_clocks_restored s6 = None" using same_more_sleep [OF s6(2)] assms(2) by simp
  then show "pmc_sleep cb hw mode s = Some ?s7" by (simp add: run s6(1) Let_def)
  have "calm v n f0 f1 ?s7" using s6(3) by simp
  then show "since n (flash_ok v f0 f1) (trace ?s7)" by (simp add: calm_def)
  show "\<not> primask ?s7" "pmc_is_wakeup_clocks_restored ?s7"
    by (simp_all add: irq_defs Let_def pmc_is_wakeup_clocks_restored_def)
qed simp

text \<open>
  \<^bold>\<open>C23\<close>. The wait modes, with hardware whose clock registers hold what is written to them and
  whose status bits come on, and no callback registered. If a PLL was running, \<open>pmc_sleep\<close>
  returns, with interrupts enabled and the sleep flag off; the master clock register and the flash
  wait states are what they were, each PLL that was on has its setting back, and if the main
  clock had an external source, that source is on and selected again and the internal oscillator
  is off. At every moment in between, the flash has its original wait states or the processor
  does not run from a PLL. If no PLL was running, the last loop waits for a bit of the empty set
  and \<open>pmc_sleep\<close> never returns.
\<close>

theorem pmc_sleep_restores_clocks:
  fixes s :: "'z sleep_scheme"
  assumes hw: "clock_hw hw v" and mode: "mode = SAM_PM_SMODE_WAIT \<or> mode = SAM_PM_SMODE_WAIT_FAST"
    and cb: "callback_clocks_restored s = None"
  shows "let pll = val v PMC CKGR_PLLAR s; upll = val v PMC CKGR_UCKR s; mor = val v PMC CKGR_MOR s;
      f0 = val v EFC0 EEFC_FMR s; f1 = val v EFC1 EEFC_FMR s in
    if pll AND CKGR_PLLAR_MULA_Msk \<noteq> 0 \<or> upll AND CKGR_UCKR_UPLLEN \<noteq> 0 then
      (\<exists>s'. pmc_sleep cb hw mode s = Some s' \<and>
         \<not> primask s' \<and> pmc_is_wakeup_clocks_restored s' \<and>
         val v PMC PMC_MCKR s' = val v PMC PMC_MCKR s \<and>
         val v EFC0 EEFC_FMR s' = f0 \<and> val v EFC1 EEFC_FMR s' = f1 \<and>
         (pll AND CKGR_PLLAR_MULA_Msk \<noteq> 0 \<longrightarrow> val v PMC CKGR_PLLAR s' = CKGR_PLLAR_ONE OR pll) \<and>
         (upll AND CKGR_UCKR_UPLLEN \<noteq> 0 \<longrightarrow> val v PMC CKGR_UCKR s' = upll) \<and>
         (bit mor 0 \<or> bit mor 1 \<longrightarrow> osc_bits mor (val v PMC CKGR_MOR s')) \<and>
         since (length (trace s)) (flash_ok v f0 f1) (trace s'))
    else pmc_sleep cb hw mode s = None"
proof -
  define n f0 f1 where "n = length (trace s)" and "f0 = val v EFC0 EEFC_FMR s" and "f1 = val v EFC1 EEFC_FMR s"
  have "flash_ok v f0 f1 (trace s)" by (simp add: flash_ok_def f0_def f1_def val_def)
  then have calm: "calm v n f0 f1 s" by (simp add: calm_def n_def since_start)
  obtain c s5 where set: "settings_of v c s" and s5: "calm v n f0 f1 s5" "css_main (val v PMC PMC_MCKR s5)"
    and cb5: "callback_clocks_restored s5 = None"
    and run: "pmc_sleep cb hw mode s = do {
      s \<leftarrow> pmc_restore_clock_setting hw c s5;
      let s = s\<lparr>b_is_sleep_clock_used := False\<rparr>;
      let s = (case callback_clocks_restored s of None \<Rightarrow> s
        | Some f \<Rightarrow> (cb f s)\<lparr>callback_clocks_restored := None\<rparr>);
      Some (cpu_irq_enable s)}"
    by (rule sleep_until_restore [OF hw mode cb calm])
  have c: "fmr_setting c = f0" "fmr_setting1 c = f1" "mck_setting c = val v PMC PMC_MCKR s"
    "pll0_setting c = val v PMC CKGR_PLLAR s" "pll1_setting c = val v PMC CKGR_UCKR s"
    "bit (osc_setting c) 0 = bit (val v PMC CKGR_MOR s) 0" "bit (osc_setting c) 1 = bit (val v PMC CKGR_MOR s) 1"
    using set by (simp_all add: settings_of_def f0_def f1_def)
  have on: "pll_on c \<longleftrightarrow> val v PMC CKGR_PLLAR s AND CKGR_PLLAR_MULA_Msk \<noteq> 0 \<or>
      val v PMC CKGR_UCKR s AND CKGR_UCKR_UPLLEN \<noteq> 0"
    by (simp only: pll_on_def c)
  note restore = restore_ok [OF hw s5 c(1,2)]
  show ?thesis
  proof (cases "pll_on c")
    case False
    with run restore(2) on show ?thesis by (simp add: Let_def)
  next
    case True
    from restore(1) [OF this] obtain s6 where s6: "pmc_restore_clock_setting hw c s5 = Some s6"
      "calm v n f0 f1 s6" "val v PMC PMC_MCKR s6 = mck_setting c" "val v EFC0 EEFC_FMR s6 = f0"
      "val v EFC1 EEFC_FMR s6 = f1"
      "pll0_setting c AND CKGR_PLLAR_MULA_Msk \<noteq> 0 \<longrightarrow> val v PMC CKGR_PLLAR s6 = CKGR_PLLAR_ONE OR pll0_setting c"
      "pll1_setting c AND CKGR_UCKR_UPLLEN \<noteq> 0 \<longrightarrow> val v PMC CKGR_UCKR s6 = pll1_setting c"
      "bit (osc_setting c) 0 \<or> bit (osc_setting c) 1 \<longrightarrow> osc_bits (osc_setting c) (val v PMC CKGR_MOR s6)"
      "mach.more s6 = mach.more s5" by blast
    obtain s7 where s7: "pmc_sleep cb hw mode s = Some s7" "\<forall>p r. val v p r s7 = val v p r s6"
      "\<not> primask s7" "pmc_is_wakeup_clocks_restored s7" "since n (flash_ok v f0 f1) (trace s7)"
      by (rule wake_up [OF run cb5 s6(1,9,2)])
    have "bit mor 0 \<or> bit mor 1 \<longrightarrow> osc_bits mor (val v PMC CKGR_MOR s6)" if "mor = val v PMC CKGR_MOR s" for mor
      using s6(8) c(6,7) that by (simp add: osc_bits_def)
    then show ?thesis
      unfolding Let_def on [symmetric] f0_def [symmetric] f1_def [symmetric] n_def [symmetric]
      using True s7 s6 c by auto
  qed
qed

definition clock_ref :: "periph \<Rightarrow> nat \<Rightarrow> u32" where
  "clock_ref p r = (if p = PMC \<and> r = PMC_MCKR then PMC_MCKR_CSS_PLLA_CLK
     else if p = PMC \<and> r = CKGR_PLLAR then 0x20073F01 else if p = PMC \<and> r = CKGR_MOR then 0x1000001 else 0)"

theorem pmc_sleep_restores_clocks_witness:
  "let hw = (\<lambda>tr p r. if p = PMC \<and> r = PMC_SR then -1 else reg_of p r (clock_ref p r) tr);
       s = \<lparr>trace = [], primask = False, g_interrupt_enabled = True, cpu_irq_critical_section_counter = 0,
            cpu_irq_prev_interrupt_state = False, b_is_sleep_clock_used = False, callback_clocks_restored = None\<rparr>
   in clock_hw hw clock_ref \<and>
      (\<exists>s'. pmc_sleep (\<lambda>f s. s) hw SAM_PM_SMODE_WAIT s = Some s' \<and> val clock_ref PMC PMC_MCKR s' = 2)"
proof -
  let ?hw = "\<lambda>tr p r. if p = PMC \<and> r = PMC_SR then -1 else reg_of p r (clock_ref p r) tr"
  let ?s = "\<lparr>trace = [], primask = False, g_interrupt_enabled = True, cpu_irq_critical_section_counter = 0,
    cpu_irq_prev_interrupt_state = False, b_is_sleep_clock_used = False, callback_clocks_restored = None\<rparr> :: sleep"
  have hw: "clock_hw ?hw clock_ref"
    by (auto simp: clock_hw_def ready_after_def intro: exI [of _ 0])
  from pmc_sleep_restores_clocks [OF hw, of SAM_PM_SMODE_WAIT ?s "\<lambda>f s. s"] hw show ?thesis
    by (auto simp: Let_def val_def clock_ref_def)
qed

end
