(* ===== verification/Startup.thy ===== *)
theory Startup
  imports Interrupt
begin

text \<open>
  What runs before \<open>main\<close>: the vector table and \<open>Reset_Handler\<close> of
  \<^verbatim>\<open>src/asf/sam/utils/cmsis/sam3u/source/templates/gcc/startup_sam3u.c\<close>, the default handlers of
  \<^verbatim>\<open>exceptions.c\<close> beside it, and the stubs for the C library,
  \<^verbatim>\<open>src/asf/sam/utils/syscalls/gcc/syscalls.c\<close>. The addresses that the linker supplies are a
  record. Memory is a function from the addresses of words to words. The initialisation of the C
  library is not part of the sources: it is the parameter \<open>libc\<close>.
\<close>

record link_map =
  sfixed :: u32
  etext :: u32
  srelocate :: u32
  erelocate :: u32
  szero :: u32
  ezero :: u32
  estack :: u32

record boot = mach +
  mem :: "u32 \<Rightarrow> u32"

section \<open>Vectors\<close>

datatype vector = V_stack u32 | V_reserved | V_handler string

definition exception_table :: "link_map \<Rightarrow> vector list" where
  "exception_table L =
     [V_stack (estack L), V_handler ''Reset_Handler'', V_handler ''NMI_Handler'', V_handler ''HardFault_Handler'',
      V_handler ''MemManage_Handler'', V_handler ''BusFault_Handler'', V_handler ''UsageFault_Handler'',
      V_reserved, V_reserved, V_reserved, V_reserved, V_handler ''SVC_Handler'', V_handler ''DebugMon_Handler'',
      V_reserved, V_handler ''PendSV_Handler'', V_handler ''SysTick_Handler'',
      V_handler ''SUPC_Handler'', V_handler ''RSTC_Handler'', V_handler ''RTC_Handler'', V_handler ''RTT_Handler'',
      V_handler ''WDT_Handler'', V_handler ''PMC_Handler'', V_handler ''EFC0_Handler'', V_handler ''EFC1_Handler'',
      V_handler ''UART_Handler'', V_handler ''SMC_Handler'', V_handler ''PIOA_Handler'', V_handler ''PIOB_Handler'',
      V_handler ''Dummy_Handler'', V_handler ''USART0_Handler'', V_handler ''USART1_Handler'',
      V_handler ''USART2_Handler'', V_handler ''Dummy_Handler'', V_handler ''HSMCI_Handler'',
      V_handler ''TWI0_Handler'', V_handler ''TWI1_Handler'', V_handler ''SPI_Handler'', V_handler ''SSC_Handler'',
      V_handler ''TC0_Handler'', V_handler ''TC1_Handler'', V_handler ''TC2_Handler'', V_handler ''PWM_Handler'',
      V_handler ''ADC12B_Handler'', V_handler ''ADC_Handler'', V_handler ''DMAC_Handler'',
      V_handler ''UDPHS_Handler'', V_handler ''Dummy_Handler'']"

text \<open>
  The handlers that the firmware defines replace the weak aliases; every other name is an alias
  of \<open>Dummy_Handler\<close>, which loops for ever.
\<close>

definition defined_handlers :: "string list" where
  "defined_handlers = [''Reset_Handler'', ''PIOA_Handler'', ''PIOB_Handler'', ''TC2_Handler'', ''UDPHS_Handler'']"

definition resolve :: "string \<Rightarrow> string" where
  "resolve h = (if h \<in> set defined_handlers then h else ''Dummy_Handler'')"

text \<open>The function that the processor enters for an interrupt.\<close>

definition irq_handler :: "link_map \<Rightarrow> IRQn_Type \<Rightarrow> string option" where
  "irq_handler L IRQn =
     (case exception_table L ! nat (16 + IRQn) of V_handler h \<Rightarrow> Some (resolve h) | _ \<Rightarrow> None)"

section \<open>Reset\<close>

abbreviation (input) SCB_VTOR :: nat where "SCB_VTOR \<equiv> 8"
abbreviation (input) SCB_VTOR_TBLOFF_Msk :: u32 where "SCB_VTOR_TBLOFF_Msk \<equiv> 0x1FFFFF80"
abbreviation (input) IRAM0_ADDR :: u32 where "IRAM0_ADDR \<equiv> 0x20000000"
abbreviation (input) IRAM_SIZE :: u32 where "IRAM_SIZE \<equiv> 0x8000"

partial_function (option) copy_loop :: "u32 \<Rightarrow> u32 \<Rightarrow> u32 \<Rightarrow> (u32 \<Rightarrow> u32) \<Rightarrow> (u32 \<Rightarrow> u32) option" where
  "copy_loop pSrc pDest e m =
     (if pDest < e then copy_loop (pSrc + 4) (pDest + 4) e (m(pDest := m pSrc)) else Some m)"

partial_function (option) zero_loop :: "u32 \<Rightarrow> u32 \<Rightarrow> (u32 \<Rightarrow> u32) \<Rightarrow> (u32 \<Rightarrow> u32) option" where
  "zero_loop pDest e m = (if pDest < e then zero_loop (pDest + 4) e (m(pDest := 0)) else Some m)"

text \<open>The state in which \<open>Reset_Handler\<close> calls \<open>main\<close>.\<close>

definition Reset_Handler ::
    "('z boot_scheme \<Rightarrow> 'z boot_scheme) \<Rightarrow> hw \<Rightarrow> link_map \<Rightarrow> 'z boot_scheme \<Rightarrow> 'z boot_scheme option" where
  "Reset_Handler libc hw L s =
     do {
       m \<leftarrow> (if etext L \<noteq> srelocate L then copy_loop (etext L) (srelocate L) (erelocate L) (mem s)
             else Some (mem s));
       m \<leftarrow> zero_loop (szero L) (ezero L) m;
       let s = s\<lparr>mem := m\<rparr>;
       let s = wr SCB SCB_VTOR (sfixed L AND SCB_VTOR_TBLOFF_Msk) s;
       let s = (if sfixed L \<ge> IRAM0_ADDR \<and> sfixed L < IRAM0_ADDR + IRAM_SIZE
                then rmw hw SCB SCB_VTOR (\<lambda>v. v OR push_bit 29 1) s else s);
       Some (libc s)
     }"

section \<open>Stubs for the C library\<close>

text \<open>\<open>heap\<close> is the static pointer of \<open>_sbrk\<close>, 0 before the first call.\<close>

definition sbrk :: "u32 \<Rightarrow> u32 \<Rightarrow> u32 \<Rightarrow> u32 \<Rightarrow> u32 \<times> u32" where
  "sbrk end_addr ram_end incr heap =
     (let heap = (if heap = 0 then end_addr else heap); prev_heap = heap
      in if sint (prev_heap + incr) > sint ram_end then (-1, heap) else (prev_heap, heap + incr))"

definition sys_link :: int where "sys_link = -1"
definition sys_close :: int where "sys_close = -1"
definition sys_isatty :: int where "sys_isatty = 1"
definition sys_lseek :: int where "sys_lseek = 0"
definition sys_getpid :: int where "sys_getpid = -1"

section \<open>The memory image\<close>

text \<open>The addresses of \<open>n\<close> words from \<open>a\<close> on.\<close>

definition waddr :: "u32 \<Rightarrow> nat \<Rightarrow> u32" where
  "waddr a i = a + 4 * word_of_nat i"

lemma waddr_0 [simp]: "waddr a 0 = a" and waddr_Suc: "waddr a (Suc i) = waddr (a + 4) i"
  by (simp_all add: waddr_def algebra_simps)

lemma unat_word_of_nat: "k < 2 ^ 32 \<Longrightarrow> unat (word_of_nat k :: u32) = k"
  by (simp add: unsigned_of_nat take_bit_nat_eq_self)

lemma unat_waddr:
  assumes "unat a + 4 * i < 2 ^ 32"
  shows "unat (waddr a i) = unat a + 4 * i"
proof -
  have "waddr a i = word_of_nat (unat a + 4 * i)" by (simp add: waddr_def)
  then show ?thesis by (simp only: unat_word_of_nat [OF assms])
qed

lemma waddr_inj: "unat a + 4 * i < 2 ^ 32 \<Longrightarrow> unat a + 4 * j < 2 ^ 32 \<Longrightarrow> waddr a i = waddr a j \<longleftrightarrow> i = j"
proof -
  assume "unat a + 4 * i < 2 ^ 32" "unat a + 4 * j < 2 ^ 32"
  note u = this [THEN unat_waddr]
  have "waddr a i = waddr a j \<longleftrightarrow> unat (waddr a i) = unat (waddr a j)"
    by (rule word_eq_iff_unsigned)
  also have "\<dots> \<longleftrightarrow> i = j" unfolding u by simp
  finally show ?thesis .
qed

lemma copy_loop_copies:
  assumes "unat a + 4 * n < 2 ^ 32" and "\<And>i j. i < n \<Longrightarrow> j < n \<Longrightarrow> waddr src i \<noteq> waddr a j"
  shows "\<exists>m'. copy_loop src a (waddr a n) m = Some m' \<and> (\<forall>i < n. m' (waddr a i) = m (waddr src i)) \<and>
    (\<forall>x. (\<forall>i < n. x \<noteq> waddr a i) \<longrightarrow> m' x = m x)"
  using assms
proof (induction n arbitrary: src a m)
  case 0
  then show ?case by (subst copy_loop.simps) simp
next
  case (Suc n)
  have a4: "unat (a + 4) = unat a + 4" using unat_waddr [of a 1] Suc.prems(1) by (simp add: waddr_def)
  let ?m = "m(a := m src)"
  have "\<exists>m'. copy_loop (src + 4) (a + 4) (waddr (a + 4) n) ?m = Some m' \<and>
      (\<forall>i < n. m' (waddr (a + 4) i) = ?m (waddr (src + 4) i)) \<and>
      (\<forall>x. (\<forall>i < n. x \<noteq> waddr (a + 4) i) \<longrightarrow> m' x = ?m x)"
  proof (rule Suc.IH)
    show "unat (a + 4) + 4 * n < 2 ^ 32" using Suc.prems(1) a4 by simp
    show "waddr (src + 4) i \<noteq> waddr (a + 4) j" if "i < n" "j < n" for i j
      using Suc.prems(2) [of "Suc i" "Suc j"] that by (simp add: waddr_Suc)
  qed
  then obtain m' where m': "copy_loop (src + 4) (a + 4) (waddr (a + 4) n) ?m = Some m'"
    "\<And>i. i < n \<Longrightarrow> m' (waddr (a + 4) i) = ?m (waddr (src + 4) i)"
    "\<And>x. (\<And>i. i < n \<Longrightarrow> x \<noteq> waddr (a + 4) i) \<Longrightarrow> m' x = ?m x" by blast
  have less: "a < waddr a (Suc n)" using unat_waddr [OF Suc.prems(1)] by (simp add: word_less_nat_alt)
  have run: "copy_loop src a (waddr a (Suc n)) m = Some m'"
    using less m'(1) by (subst copy_loop.simps) (simp add: waddr_Suc)
  have fresh: "a \<noteq> waddr (a + 4) i" if "i < n" for i
    using waddr_inj [of a 0 "Suc i"] that Suc.prems(1) by (simp add: waddr_Suc)
  have "m' (waddr a i) = m (waddr src i)" if "i < Suc n" for i
  proof (cases i)
    case 0
    then show ?thesis using m'(3) [of a] fresh by auto
  next
    case (Suc k)
    then show ?thesis using m'(2) [of k] that Suc.prems(2) [of "Suc k" 0] by (simp add: waddr_Suc)
  qed
  moreover have "m' x = m x" if "\<forall>i < Suc n. x \<noteq> waddr a i" for x
    using m'(3) [of x] that by (metis Suc_mono fun_upd_other waddr_0 waddr_Suc zero_less_Suc)
  ultimately show ?case using run by blast
qed

lemma zero_loop_clears:
  assumes "unat a + 4 * n < 2 ^ 32"
  shows "\<exists>m'. zero_loop a (waddr a n) m = Some m' \<and> (\<forall>i < n. m' (waddr a i) = 0) \<and>
    (\<forall>x. (\<forall>i < n. x \<noteq> waddr a i) \<longrightarrow> m' x = m x)"
  using assms
proof (induction n arbitrary: a m)
  case 0
  then show ?case by (subst zero_loop.simps) simp
next
  case (Suc n)
  have "unat (a + 4) = unat a + 4" using unat_waddr [of a 1] Suc.prems by (simp add: waddr_def)
  with Suc.prems have "unat (a + 4) + 4 * n < 2 ^ 32" by simp
  from Suc.IH [OF this, of "m(a := 0)"] obtain m' where
    m': "zero_loop (a + 4) (waddr (a + 4) n) (m(a := 0)) = Some m'"
    "\<And>i. i < n \<Longrightarrow> m' (waddr (a + 4) i) = 0"
    "\<And>x. (\<And>i. i < n \<Longrightarrow> x \<noteq> waddr (a + 4) i) \<Longrightarrow> m' x = (m(a := 0)) x" by blast
  have less: "a < waddr a (Suc n)" using unat_waddr [OF Suc.prems] by (simp add: word_less_nat_alt)
  have run: "zero_loop a (waddr a (Suc n)) m = Some m'"
    using less m'(1) by (subst zero_loop.simps) (simp add: waddr_Suc)
  have fresh: "a \<noteq> waddr (a + 4) i" if "i < n" for i
    using waddr_inj [of a 0 "Suc i"] that Suc.prems by (simp add: waddr_Suc)
  have "m' (waddr a i) = 0" if "i < Suc n" for i
    using m'(2) [of "i - 1"] m'(3) [of a] fresh that by (cases i) (auto simp: waddr_Suc)
  moreover have "m' x = m x" if "\<forall>i < Suc n. x \<noteq> waddr a i" for x
    using m'(3) [of x] that by (metis Suc_mono fun_upd_other waddr_0 waddr_Suc zero_less_Suc)
  ultimately show ?case using run by blast
qed

text \<open>
  What the linker script promises: the segments are made of whole words and do not wrap around,
  and the initialised data, their image in flash and the zeroed data do not overlap. \<open>n\<close> and
  \<open>k\<close> are the numbers of words of the two segments.
\<close>

definition link_ok :: "link_map \<Rightarrow> nat \<Rightarrow> nat \<Rightarrow> bool" where
  "link_ok L n k \<longleftrightarrow>
     unat (srelocate L) + 4 * n < 2 ^ 32 \<and> erelocate L = waddr (srelocate L) n \<and>
     unat (szero L) + 4 * k < 2 ^ 32 \<and> ezero L = waddr (szero L) k \<and>
     waddr (etext L) ` {..<n} \<inter> waddr (srelocate L) ` {..<n} = {} \<and>
     waddr (szero L) ` {..<k} \<inter> waddr (srelocate L) ` {..<n} = {}"

lemma relocate_segment:
  assumes "link_ok L n k"
  obtains m1 where "(if etext L \<noteq> srelocate L then copy_loop (etext L) (srelocate L) (erelocate L) m
      else Some m) = Some m1"
    "\<forall>i < n. m1 (waddr (srelocate L) i) = m (waddr (etext L) i)"
    "\<forall>x. (\<forall>i < n. x \<noteq> waddr (srelocate L) i) \<longrightarrow> m1 x = m x"
proof (cases "etext L = srelocate L")
  case True
  with assms have "n = 0" unfolding link_ok_def by auto
  with True show ?thesis by (intro that [of m]) auto
next
  case False
  have ok: "unat (srelocate L) + 4 * n < 2 ^ 32" "erelocate L = waddr (srelocate L) n"
    "\<And>i j. i < n \<Longrightarrow> j < n \<Longrightarrow> waddr (etext L) i \<noteq> waddr (srelocate L) j"
    using assms unfolding link_ok_def by blast+
  with False copy_loop_copies [OF ok(1,3), of m] that show ?thesis by auto
qed

lemma vectors_lead_to_handlers:
  "\<forall>irqn \<in> {0..30}. irq_handler L irqn =
       Some (if irqn = 24 then ''TC2_Handler'' else if irqn = 29 then ''UDPHS_Handler''
             else if irqn = 10 then ''PIOA_Handler'' else if irqn = 11 then ''PIOB_Handler''
             else ''Dummy_Handler'')"
  unfolding set_upto [symmetric]
  by (simp add: upto.simps irq_handler_def exception_table_def resolve_def defined_handlers_def)

text \<open>
  \<^bold>\<open>C20\<close>. Reset, with a memory layout as the linker script makes it: the loops of
  \<open>Reset_Handler\<close> end, and when \<open>main\<close> is called (after the initialisation \<open>libc\<close> of the C library) each
  word of the initialised data holds the corresponding word of its image in flash, each word of
  the zeroed data is 0, every other word of memory is as it was, and the vector table is the one
  at \<open>_sfixed\<close>. In that table the interrupts of the sampling timer, the USB controller and the two
  PIO controllers lead to the handlers of the firmware, and every other one to the default handler.
\<close>

theorem reset_initialises_memory:
  assumes "link_ok L n k"
  shows "\<exists>s'. Reset_Handler libc hw L s = Some (libc s') \<and>
    (\<forall>i < n. mem s' (waddr (srelocate L) i) = mem s (waddr (etext L) i)) \<and>
    (\<forall>i < k. mem s' (waddr (szero L) i) = 0) \<and>
    (\<forall>x. x \<notin> waddr (srelocate L) ` {..<n} \<and> x \<notin> waddr (szero L) ` {..<k} \<longrightarrow> mem s' x = mem s x) \<and>
    (sfixed L < IRAM0_ADDR \<longrightarrow>
       trace s' = Wr SCB SCB_VTOR (sfixed L AND SCB_VTOR_TBLOFF_Msk) # trace s) \<and>
    (\<forall>irqn \<in> {0..30}. irq_handler L irqn =
       Some (if irqn = 24 then ''TC2_Handler'' else if irqn = 29 then ''UDPHS_Handler''
             else if irqn = 10 then ''PIOA_Handler'' else if irqn = 11 then ''PIOB_Handler''
             else ''Dummy_Handler''))"
proof -
  have ok: "unat (szero L) + 4 * k < 2 ^ 32" "ezero L = waddr (szero L) k"
    and disj: "\<And>i j. i < k \<Longrightarrow> j < n \<Longrightarrow> waddr (szero L) i \<noteq> waddr (srelocate L) j"
    using assms unfolding link_ok_def by blast+
  obtain m1 where m1: "(if etext L \<noteq> srelocate L then copy_loop (etext L) (srelocate L) (erelocate L) (mem s)
      else Some (mem s)) = Some m1"
    "\<forall>i < n. m1 (waddr (srelocate L) i) = mem s (waddr (etext L) i)"
    "\<forall>x. (\<forall>i < n. x \<noteq> waddr (srelocate L) i) \<longrightarrow> m1 x = mem s x"
    by (rule relocate_segment [OF assms, of "mem s"])
  obtain m2 where m2: "zero_loop (szero L) (ezero L) m1 = Some m2" "\<And>i. i < k \<Longrightarrow> m2 (waddr (szero L) i) = 0"
    "\<And>x. \<forall>i < k. x \<noteq> waddr (szero L) i \<Longrightarrow> m2 x = m1 x"
    using zero_loop_clears [OF ok(1), of m1] ok(2) by auto
  let ?s = "wr SCB SCB_VTOR (sfixed L AND SCB_VTOR_TBLOFF_Msk) (s\<lparr>mem := m2\<rparr>)"
  define s' where "s' = (if sfixed L \<ge> IRAM0_ADDR \<and> sfixed L < IRAM0_ADDR + IRAM_SIZE
    then rmw hw SCB SCB_VTOR (\<lambda>v. v OR push_bit 29 1) ?s else ?s)"
  have run: "Reset_Handler libc hw L s = Some (libc s')"
    unfolding Reset_Handler_def s'_def by (simp only: m1(1) m2(1) bind.bind_lunit Let_def)
  have mem: "mem s' = m2" by (simp add: s'_def rmw_def rd_def wr_def)
  have "mem s' (waddr (srelocate L) i) = mem s (waddr (etext L) i)" if "i < n" for i
    using m2(3) [of "waddr (srelocate L) i"] m1(2) disj that unfolding mem by metis
  moreover have "mem s' x = mem s x" if "x \<notin> waddr (srelocate L) ` {..<n}" "x \<notin> waddr (szero L) ` {..<k}" for x
    using m1(3) [rule_format, of x] m2(3) [of x] that unfolding mem by (auto simp: image_iff)
  moreover have "trace s' = Wr SCB SCB_VTOR (sfixed L AND SCB_VTOR_TBLOFF_Msk) # trace s" if "sfixed L < IRAM0_ADDR"
    using that by (auto simp: s'_def wr_def dest: leD)
  moreover have "mem s' (waddr (szero L) i) = 0" if "i < k" for i
    using m2(2) [OF that] unfolding mem .
  ultimately show ?thesis using run vectors_lead_to_handlers [of L] by blast
qed

definition link_example :: link_map where
  "link_example = \<lparr>sfixed = 0x80000, etext = 0x8A000, srelocate = 0x20000000, erelocate = 0x20000008,
     szero = 0x20000008, ezero = 0x20000014, estack = 0x20082000\<rparr>"

theorem reset_initialises_memory_witness:
  "link_ok link_example 2 3 \<and>
   (\<exists>s'. Reset_Handler (\<lambda>s. s) (\<lambda>_ _ _. 0) link_example \<lparr>trace = [], mem = (\<lambda>a. a)\<rparr> = Some s' \<and>
      mem s' 0x20000004 = 0x8A004 \<and> mem s' 0x20000010 = 0 \<and> mem s' 0x20000014 = 0x20000014)"
proof -
  have two: "{..<2 :: nat} = {0, 1}" and three: "{..<3 :: nat} = {0, 1, 2}" by auto
  have ok: "link_ok link_example 2 3"
    unfolding link_ok_def two three by (simp add: link_example_def waddr_def)
  obtain s' where s': "Reset_Handler (\<lambda>s. s) (\<lambda>_ _ _. 0) link_example \<lparr>trace = [], mem = (\<lambda>a. a)\<rparr> = Some s'"
    "\<forall>i < 2. mem s' (waddr (srelocate link_example) i) = waddr (etext link_example) i"
    "\<forall>i < 3. mem s' (waddr (szero link_example) i) = 0"
    "\<forall>x. x \<notin> waddr (srelocate link_example) ` {..<2} \<and> x \<notin> waddr (szero link_example) ` {..<3} \<longrightarrow> mem s' x = x"
    using reset_initialises_memory [OF ok, of "\<lambda>s. s" "\<lambda>_ _ _. 0" "\<lparr>trace = [], mem = (\<lambda>a. a)\<rparr>"] by auto
  have "mem s' 0x20000004 = 0x8A004" "mem s' 0x20000010 = 0"
    using s'(2) [rule_format, of 1] s'(3) [rule_format, of 2] by (simp_all add: link_example_def waddr_def)
  moreover have "mem s' 0x20000014 = 0x20000014"
    using s'(4) [rule_format, of "0x20000014"] unfolding two three by (simp add: link_example_def waddr_def)
  ultimately show ?thesis using ok s'(1) by blast
qed

text \<open>
  A request to extend the heap, from a heap between \<open>_end\<close> and the end of memory: it is refused
  and the heap is unchanged, or the block returned lies above the heap so far and below the end.
\<close>

lemma sbrk_block:
  assumes "0 < sint b" "sint b \<le> sint heap" "sint heap \<le> sint e" "0 \<le> sint incr" "sint e + sint incr < 2 ^ 31"
  shows "case sbrk b e incr heap of (r, heap') \<Rightarrow>
    if sint heap + sint incr > sint e then r = -1 \<and> heap' = heap
    else r = heap \<and> sint heap' = sint heap + sint incr \<and> sint heap' \<le> sint e"
proof -
  have "sint (heap + incr) = sint heap + sint incr"
    using assms by (simp add: sint_word_ariths signed_take_bit_int_eq_self)
  moreover have "heap \<noteq> 0" using assms by auto
  ultimately show ?thesis by (simp add: sbrk_def Let_def)
qed

end
