(* ===== verification/Ioport.thy ===== *)
theory Ioport
  imports Pio Pmc
begin

text \<open>
  The I/O port service, \<^verbatim>\<open>src/asf/common/services/ioport/ioport.h\<close>, and its implementation on the
  PIO controllers, \<^verbatim>\<open>src/asf/common/services/ioport/sam/ioport_pio.h\<close>, as compiled for the
  SAM3U: pins are numbered through all ports, 32 to a port, and ports are found by their number.
  The lemmas relate it to the PIO driver, which numbers pins in the same way.
\<close>

abbreviation (input) IOPORT_MODE_MUX_BIT0 :: u32 where "IOPORT_MODE_MUX_BIT0 \<equiv> 1"
abbreviation (input) IOPORT_MODE_PULLUP :: u32 where "IOPORT_MODE_PULLUP \<equiv> 8"
abbreviation (input) IOPORT_MODE_OPEN_DRAIN :: u32 where "IOPORT_MODE_OPEN_DRAIN \<equiv> 0x20"
abbreviation (input) IOPORT_MODE_GLITCH_FILTER :: u32 where "IOPORT_MODE_GLITCH_FILTER \<equiv> 0x40"
abbreviation (input) IOPORT_MODE_DEBOUNCE :: u32 where "IOPORT_MODE_DEBOUNCE \<equiv> 0x80"

datatype ioport_direction = IOPORT_DIR_INPUT | IOPORT_DIR_OUTPUT
datatype ioport_sense = IOPORT_SENSE_BOTHEDGES | IOPORT_SENSE_FALLING | IOPORT_SENSE_RISING
  | IOPORT_SENSE_LEVEL_LOW | IOPORT_SENSE_LEVEL_HIGH

section \<open>Implementation\<close>

definition arch_ioport_pin_to_port_id :: "u32 \<Rightarrow> u32" where
  "arch_ioport_pin_to_port_id pin = drop_bit 5 pin"

definition arch_ioport_port_to_base :: "u32 \<Rightarrow> periph" where
  "arch_ioport_port_to_base port =
     (let a = 0x400E0C00 + 0x200 * port
      in if a = 0x400E0C00 then PIOA else if a = 0x400E0E00 then PIOB else AT a)"

definition arch_ioport_pin_to_base :: "u32 \<Rightarrow> periph" where
  "arch_ioport_pin_to_base pin = arch_ioport_port_to_base (arch_ioport_pin_to_port_id pin)"

definition arch_ioport_pin_to_mask :: "u32 \<Rightarrow> u32" where
  "arch_ioport_pin_to_mask pin = push_bit (unat (pin AND 0x1F)) 1"

definition arch_ioport_init :: "hw \<Rightarrow> 'z mach_scheme \<Rightarrow> 'z mach_scheme" where
  "arch_ioport_init hw s =
     (let (_, s) = pmc_enable_periph_clk hw 10 s; (_, s) = pmc_enable_periph_clk hw 11 s in s)"

definition arch_ioport_enable_port :: "u32 \<Rightarrow> u32 \<Rightarrow> 'z mach_scheme \<Rightarrow> 'z mach_scheme" where
  "arch_ioport_enable_port port msk s = wr (arch_ioport_port_to_base port) PIO_PER msk s"

definition arch_ioport_disable_port :: "u32 \<Rightarrow> u32 \<Rightarrow> 'z mach_scheme \<Rightarrow> 'z mach_scheme" where
  "arch_ioport_disable_port port msk s = wr (arch_ioport_port_to_base port) PIO_PDR msk s"

definition arch_ioport_enable_pin :: "u32 \<Rightarrow> 'z mach_scheme \<Rightarrow> 'z mach_scheme" where
  "arch_ioport_enable_pin pin s =
     arch_ioport_enable_port (arch_ioport_pin_to_port_id pin) (arch_ioport_pin_to_mask pin) s"

definition arch_ioport_disable_pin :: "u32 \<Rightarrow> 'z mach_scheme \<Rightarrow> 'z mach_scheme" where
  "arch_ioport_disable_pin pin s =
     arch_ioport_disable_port (arch_ioport_pin_to_port_id pin) (arch_ioport_pin_to_mask pin) s"

definition arch_ioport_set_port_mode :: "hw \<Rightarrow> u32 \<Rightarrow> u32 \<Rightarrow> u32 \<Rightarrow> 'z mach_scheme \<Rightarrow> 'z mach_scheme" where
  "arch_ioport_set_port_mode hw port msk mode s =
     (let base = arch_ioport_port_to_base port;
          s = wr base (if mode AND IOPORT_MODE_PULLUP \<noteq> 0 then PIO_PUER else PIO_PUDR) msk s;
          s = wr base (if mode AND IOPORT_MODE_OPEN_DRAIN \<noteq> 0 then PIO_MDER else PIO_MDDR) msk s;
          s = wr base (if mode AND (IOPORT_MODE_GLITCH_FILTER OR IOPORT_MODE_DEBOUNCE) \<noteq> 0
                       then PIO_IFER else PIO_IFDR) msk s;
          s = wr base (if mode AND IOPORT_MODE_DEBOUNCE \<noteq> 0 then PIO_DIFSR else PIO_SCIFSR) msk s
      in rmw hw base PIO_ABSR (\<lambda>v. if mode AND IOPORT_MODE_MUX_BIT0 \<noteq> 0 then v OR msk else v AND NOT msk) s)"

definition arch_ioport_set_pin_mode :: "hw \<Rightarrow> u32 \<Rightarrow> u32 \<Rightarrow> 'z mach_scheme \<Rightarrow> 'z mach_scheme" where
  "arch_ioport_set_pin_mode hw pin mode s =
     arch_ioport_set_port_mode hw (arch_ioport_pin_to_port_id pin) (arch_ioport_pin_to_mask pin) mode s"

definition arch_ioport_set_port_dir :: "u32 \<Rightarrow> u32 \<Rightarrow> ioport_direction \<Rightarrow> 'z mach_scheme \<Rightarrow> 'z mach_scheme" where
  "arch_ioport_set_port_dir port msk group_direction s =
     (let base = arch_ioport_port_to_base port;
          s = (case group_direction of
                 IOPORT_DIR_OUTPUT \<Rightarrow> wr base PIO_OER msk s
               | IOPORT_DIR_INPUT \<Rightarrow> wr base PIO_ODR msk s)
      in wr base PIO_OWER msk s)"

definition arch_ioport_set_pin_dir :: "u32 \<Rightarrow> ioport_direction \<Rightarrow> 'z mach_scheme \<Rightarrow> 'z mach_scheme" where
  "arch_ioport_set_pin_dir pin dir s =
     (let base = arch_ioport_pin_to_base pin;
          s = (case dir of
                 IOPORT_DIR_OUTPUT \<Rightarrow> wr base PIO_OER (arch_ioport_pin_to_mask pin) s
               | IOPORT_DIR_INPUT \<Rightarrow> wr base PIO_ODR (arch_ioport_pin_to_mask pin) s)
      in wr base PIO_OWER (arch_ioport_pin_to_mask pin) s)"

definition arch_ioport_set_pin_level :: "u32 \<Rightarrow> bool \<Rightarrow> 'z mach_scheme \<Rightarrow> 'z mach_scheme" where
  "arch_ioport_set_pin_level pin level s =
     (let base = arch_ioport_pin_to_base pin
      in if level then wr base PIO_SODR (arch_ioport_pin_to_mask pin) s
         else wr base PIO_CODR (arch_ioport_pin_to_mask pin) s)"

definition arch_ioport_set_port_level :: "u32 \<Rightarrow> u32 \<Rightarrow> u32 \<Rightarrow> 'z mach_scheme \<Rightarrow> 'z mach_scheme" where
  "arch_ioport_set_port_level port msk level s =
     (let base = arch_ioport_port_to_base port;
          s = wr base PIO_SODR (msk AND level) s
      in wr base PIO_CODR (msk AND NOT level) s)"

definition arch_ioport_get_pin_level :: "hw \<Rightarrow> u32 \<Rightarrow> 'z mach_scheme \<Rightarrow> bool \<times> 'z mach_scheme" where
  "arch_ioport_get_pin_level hw pin s =
     (let (v, s) = rd hw (arch_ioport_pin_to_base pin) PIO_PDSR s
      in (v AND arch_ioport_pin_to_mask pin \<noteq> 0, s))"

definition arch_ioport_get_port_level :: "hw \<Rightarrow> u32 \<Rightarrow> u32 \<Rightarrow> 'z mach_scheme \<Rightarrow> u32 \<times> 'z mach_scheme" where
  "arch_ioport_get_port_level hw port msk s =
     (let (v, s) = rd hw (arch_ioport_port_to_base port) PIO_PDSR s in (v AND msk, s))"

definition arch_ioport_toggle_pin_level :: "hw \<Rightarrow> u32 \<Rightarrow> 'z mach_scheme \<Rightarrow> 'z mach_scheme" where
  "arch_ioport_toggle_pin_level hw pin s =
     (let port = arch_ioport_pin_to_base pin; msk = arch_ioport_pin_to_mask pin;
          (v, s) = rd hw port PIO_PDSR s
      in if v AND msk \<noteq> 0 then wr port PIO_CODR msk s else wr port PIO_SODR msk s)"

definition arch_ioport_toggle_port_level :: "hw \<Rightarrow> u32 \<Rightarrow> u32 \<Rightarrow> 'z mach_scheme \<Rightarrow> 'z mach_scheme" where
  "arch_ioport_toggle_port_level hw port msk s =
     rmw hw (arch_ioport_port_to_base port) PIO_ODSR (\<lambda>v. v XOR msk) s"

definition arch_ioport_set_port_sense_mode :: "u32 \<Rightarrow> u32 \<Rightarrow> ioport_sense \<Rightarrow> 'z mach_scheme \<Rightarrow> 'z mach_scheme" where
  "arch_ioport_set_port_sense_mode port msk pin_sense s =
     (let base = arch_ioport_port_to_base port
      in case pin_sense of
           IOPORT_SENSE_LEVEL_LOW \<Rightarrow>
             wr base PIO_AIMER msk (wr base PIO_FELLSR msk (wr base PIO_LSR msk s))
         | IOPORT_SENSE_LEVEL_HIGH \<Rightarrow>
             wr base PIO_AIMER msk (wr base PIO_REHLSR msk (wr base PIO_LSR msk s))
         | IOPORT_SENSE_FALLING \<Rightarrow>
             wr base PIO_AIMER msk (wr base PIO_FELLSR msk (wr base PIO_ESR msk s))
         | IOPORT_SENSE_RISING \<Rightarrow>
             wr base PIO_AIMER msk (wr base PIO_REHLSR msk (wr base PIO_ESR msk s))
         | IOPORT_SENSE_BOTHEDGES \<Rightarrow> wr base PIO_AIMDR msk s)"

definition arch_ioport_set_pin_sense_mode :: "u32 \<Rightarrow> ioport_sense \<Rightarrow> 'z mach_scheme \<Rightarrow> 'z mach_scheme" where
  "arch_ioport_set_pin_sense_mode pin pin_sense s =
     arch_ioport_set_port_sense_mode (arch_ioport_pin_to_port_id pin) (arch_ioport_pin_to_mask pin) pin_sense s"

section \<open>The service\<close>

definition ioport_init :: "hw \<Rightarrow> 'z mach_scheme \<Rightarrow> 'z mach_scheme" where
  "ioport_init hw s = arch_ioport_init hw s"

definition ioport_enable_pin :: "u32 \<Rightarrow> 'z mach_scheme \<Rightarrow> 'z mach_scheme" where
  "ioport_enable_pin pin s = arch_ioport_enable_pin pin s"

definition ioport_enable_port :: "u32 \<Rightarrow> u32 \<Rightarrow> 'z mach_scheme \<Rightarrow> 'z mach_scheme" where
  "ioport_enable_port port msk s = arch_ioport_enable_port port msk s"

definition ioport_disable_pin :: "u32 \<Rightarrow> 'z mach_scheme \<Rightarrow> 'z mach_scheme" where
  "ioport_disable_pin pin s = arch_ioport_disable_pin pin s"

definition ioport_disable_port :: "u32 \<Rightarrow> u32 \<Rightarrow> 'z mach_scheme \<Rightarrow> 'z mach_scheme" where
  "ioport_disable_port port msk s = arch_ioport_disable_port port msk s"

definition ioport_set_port_mode :: "hw \<Rightarrow> u32 \<Rightarrow> u32 \<Rightarrow> u32 \<Rightarrow> 'z mach_scheme \<Rightarrow> 'z mach_scheme" where
  "ioport_set_port_mode hw port msk mode s = arch_ioport_set_port_mode hw port msk mode s"

definition ioport_set_pin_mode :: "hw \<Rightarrow> u32 \<Rightarrow> u32 \<Rightarrow> 'z mach_scheme \<Rightarrow> 'z mach_scheme" where
  "ioport_set_pin_mode hw pin mode s = arch_ioport_set_pin_mode hw pin mode s"

definition ioport_reset_port_mode :: "hw \<Rightarrow> u32 \<Rightarrow> u32 \<Rightarrow> 'z mach_scheme \<Rightarrow> 'z mach_scheme" where
  "ioport_reset_port_mode hw port msk s = arch_ioport_set_port_mode hw port msk 0 s"

definition ioport_reset_pin_mode :: "hw \<Rightarrow> u32 \<Rightarrow> 'z mach_scheme \<Rightarrow> 'z mach_scheme" where
  "ioport_reset_pin_mode hw pin s = arch_ioport_set_pin_mode hw pin 0 s"

definition ioport_set_port_dir :: "u32 \<Rightarrow> u32 \<Rightarrow> ioport_direction \<Rightarrow> 'z mach_scheme \<Rightarrow> 'z mach_scheme" where
  "ioport_set_port_dir port msk dir s = arch_ioport_set_port_dir port msk dir s"

definition ioport_set_pin_dir :: "u32 \<Rightarrow> ioport_direction \<Rightarrow> 'z mach_scheme \<Rightarrow> 'z mach_scheme" where
  "ioport_set_pin_dir pin dir s = arch_ioport_set_pin_dir pin dir s"

definition ioport_set_pin_level :: "u32 \<Rightarrow> bool \<Rightarrow> 'z mach_scheme \<Rightarrow> 'z mach_scheme" where
  "ioport_set_pin_level pin level s = arch_ioport_set_pin_level pin level s"

definition ioport_set_port_level :: "u32 \<Rightarrow> u32 \<Rightarrow> u32 \<Rightarrow> 'z mach_scheme \<Rightarrow> 'z mach_scheme" where
  "ioport_set_port_level port msk level s = arch_ioport_set_port_level port msk level s"

definition ioport_get_pin_level :: "hw \<Rightarrow> u32 \<Rightarrow> 'z mach_scheme \<Rightarrow> bool \<times> 'z mach_scheme" where
  "ioport_get_pin_level hw pin s = arch_ioport_get_pin_level hw pin s"

definition ioport_get_port_level :: "hw \<Rightarrow> u32 \<Rightarrow> u32 \<Rightarrow> 'z mach_scheme \<Rightarrow> u32 \<times> 'z mach_scheme" where
  "ioport_get_port_level hw port msk s = arch_ioport_get_port_level hw port msk s"

definition ioport_toggle_pin_level :: "hw \<Rightarrow> u32 \<Rightarrow> 'z mach_scheme \<Rightarrow> 'z mach_scheme" where
  "ioport_toggle_pin_level hw pin s = arch_ioport_toggle_pin_level hw pin s"

definition ioport_toggle_port_level :: "hw \<Rightarrow> u32 \<Rightarrow> u32 \<Rightarrow> 'z mach_scheme \<Rightarrow> 'z mach_scheme" where
  "ioport_toggle_port_level hw port msk s = arch_ioport_toggle_port_level hw port msk s"

definition ioport_set_pin_sense_mode :: "u32 \<Rightarrow> ioport_sense \<Rightarrow> 'z mach_scheme \<Rightarrow> 'z mach_scheme" where
  "ioport_set_pin_sense_mode pin pin_sense s = arch_ioport_set_pin_sense_mode pin pin_sense s"

definition ioport_set_port_sense_mode :: "u32 \<Rightarrow> u32 \<Rightarrow> ioport_sense \<Rightarrow> 'z mach_scheme \<Rightarrow> 'z mach_scheme" where
  "ioport_set_port_sense_mode port msk pin_sense s = arch_ioport_set_port_sense_mode port msk pin_sense s"

definition ioport_pin_to_port_id :: "u32 \<Rightarrow> u32" where
  "ioport_pin_to_port_id pin = arch_ioport_pin_to_port_id pin"

definition ioport_pin_to_mask :: "u32 \<Rightarrow> u32" where
  "ioport_pin_to_mask pin = arch_ioport_pin_to_mask pin"

lemmas ioport_defs = ioport_set_pin_level_def ioport_toggle_pin_level_def ioport_get_pin_level_def
  ioport_set_port_mode_def ioport_set_port_dir_def ioport_set_port_sense_mode_def ioport_set_port_level_def
  arch_ioport_set_pin_level_def arch_ioport_toggle_pin_level_def arch_ioport_get_pin_level_def
  arch_ioport_set_port_mode_def arch_ioport_set_port_dir_def arch_ioport_set_port_sense_mode_def
  arch_ioport_set_port_level_def

section \<open>What the port shows\<close>

lemma pin_to_base: "arch_ioport_pin_to_base pin = pio_get_pin_group pin"
  and pin_to_mask: "arch_ioport_pin_to_mask pin = pio_get_pin_group_mask pin"
  by (simp_all add: arch_ioport_pin_to_base_def arch_ioport_port_to_base_def arch_ioport_pin_to_port_id_def
      pio_get_pin_group_def arch_ioport_pin_to_mask_def pio_get_pin_group_mask_def)

text \<open>A bit of a status word after its set or clear register was written with a mask.\<close>

lemma bit_or_mask: "bit (w OR msk) i \<longleftrightarrow> (if bit msk i then True else bit w i)"
  and bit_and_not_mask: "i < 32 \<Longrightarrow> bit (w AND NOT msk) i \<longleftrightarrow> (if bit msk i then False else bit w i)"
  for w msk :: u32
  by (auto simp: bit_simps)

text \<open>
  Configuration of a port, for every port, mask, mode and sense, in terms of the status that
  the controller derives from the set and clear registers. Exactly the pins of the mask are
  changed: their pull-up, open drain and input filter follow the mode bits (the filter is on for the
  glitch filter and for debouncing, and is the slow one for debouncing), their direction is the
  one given and their output can be written as a whole, and the sense mode is the row of the table in
  the comment of the code: additional modes off for both edges, otherwise on, with level or edge and high
  or low as named. Setting the level of a pin is the same as \<open>pio_set_pin_high\<close> or
  \<open>pio_set_pin_low\<close> of the PIO driver, so both drivers number pins in the same way.
\<close>

theorem ioport_configuration:
  assumes "i < 32"
  shows "let b = arch_ioport_port_to_base port; new = (\<lambda>set clr s. bit (status_of set clr b (trace s)) i);
      old = (\<lambda>set clr x. if bit msk i then x else bit (status_of set clr b (trace s)) i);
      m = ioport_set_port_mode hw port msk mode s; d = ioport_set_port_dir port msk dir s;
      e = ioport_set_port_sense_mode port msk sense s in
    new PIO_PUER PIO_PUDR m = old PIO_PUER PIO_PUDR (mode AND IOPORT_MODE_PULLUP \<noteq> 0) \<and>
    new PIO_MDER PIO_MDDR m = old PIO_MDER PIO_MDDR (mode AND IOPORT_MODE_OPEN_DRAIN \<noteq> 0) \<and>
    new PIO_IFER PIO_IFDR m =
      old PIO_IFER PIO_IFDR (mode AND (IOPORT_MODE_GLITCH_FILTER OR IOPORT_MODE_DEBOUNCE) \<noteq> 0) \<and>
    new PIO_DIFSR PIO_SCIFSR m = old PIO_DIFSR PIO_SCIFSR (mode AND IOPORT_MODE_DEBOUNCE \<noteq> 0) \<and>
    new PIO_OER PIO_ODR d = old PIO_OER PIO_ODR (dir = IOPORT_DIR_OUTPUT) \<and>
    new PIO_OWER PIO_OWDR d = old PIO_OWER PIO_OWDR True \<and>
    new PIO_AIMER PIO_AIMDR e = old PIO_AIMER PIO_AIMDR (sense \<noteq> IOPORT_SENSE_BOTHEDGES) \<and>
    (sense \<noteq> IOPORT_SENSE_BOTHEDGES \<longrightarrow>
       new PIO_LSR PIO_ESR e =
         old PIO_LSR PIO_ESR (sense = IOPORT_SENSE_LEVEL_LOW \<or> sense = IOPORT_SENSE_LEVEL_HIGH) \<and>
       new PIO_REHLSR PIO_FELLSR e =
         old PIO_REHLSR PIO_FELLSR (sense = IOPORT_SENSE_RISING \<or> sense = IOPORT_SENSE_LEVEL_HIGH)) \<and>
    ioport_set_pin_level pin level s = (if level then pio_set_pin_high pin s else pio_set_pin_low pin s)"
proof -
  note bits = bit_or_mask bit_and_not_mask [OF assms]
  have "ioport_set_pin_level pin level s = (if level then pio_set_pin_high pin s else pio_set_pin_low pin s)"
    by (simp add: ioport_defs pin_to_base pin_to_mask pio_set_pin_high_def pio_set_pin_low_def Let_def
        pio_get_pin_group_mask_def)
  then show ?thesis
    unfolding Let_def
    by (intro conjI impI; cases sense; cases dir) (simp_all add: ioport_defs wr_def rmw_def rd_def Let_def bits)
qed

theorem ioport_configuration_witness:
  "(3 :: nat) < 32 \<and>
   bit (status_of PIO_AIMER PIO_AIMDR PIOB (trace (ioport_set_port_sense_mode 1 8 IOPORT_SENSE_RISING \<lparr>trace = []\<rparr>))) 3 \<and>
   \<not> bit (status_of PIO_LSR PIO_ESR PIOB (trace (ioport_set_port_sense_mode 1 8 IOPORT_SENSE_RISING \<lparr>trace = []\<rparr>))) 3"
  using ioport_configuration [where i = 3 and port = 1 and msk = 8 and s = "\<lparr>trace = []\<rparr>" and sense = IOPORT_SENSE_RISING]
  by (simp add: Let_def arch_ioport_port_to_base_def)

end
