(* ===== verification/Genclk.thy ===== *)
theory Genclk
  imports Clock
begin

text \<open>
  The programmable clock outputs, \<^verbatim>\<open>src/asf/common/services/clock/sam3u/genclk.h\<close>: the word that
  configures a clock is built in a structure, whose one field is the word itself here, and written
  when the clock is enabled. Oscillators and PLLs that serve as sources are started by the
  functions of \<open>Clock\<close>.
\<close>

abbreviation (input) PMC_PCK_CSS_SLOW_CLK :: u32 where "PMC_PCK_CSS_SLOW_CLK \<equiv> 0"
abbreviation (input) PMC_PCK_CSS_MAIN_CLK :: u32 where "PMC_PCK_CSS_MAIN_CLK \<equiv> 1"
abbreviation (input) PMC_PCK_CSS_PLLA_CLK :: u32 where "PMC_PCK_CSS_PLLA_CLK \<equiv> 2"
abbreviation (input) PMC_PCK_CSS_UPLL_CLK :: u32 where "PMC_PCK_CSS_UPLL_CLK \<equiv> 3"
abbreviation (input) PMC_PCK_CSS_MCK :: u32 where "PMC_PCK_CSS_MCK \<equiv> 4"

datatype genclk_source = GENCLK_PCK_SRC_SLCK_RC | GENCLK_PCK_SRC_SLCK_XTAL | GENCLK_PCK_SRC_SLCK_BYPASS
  | GENCLK_PCK_SRC_MAINCK_4M_RC | GENCLK_PCK_SRC_MAINCK_8M_RC | GENCLK_PCK_SRC_MAINCK_12M_RC
  | GENCLK_PCK_SRC_MAINCK_XTAL | GENCLK_PCK_SRC_MAINCK_BYPASS | GENCLK_PCK_SRC_PLLACK
  | GENCLK_PCK_SRC_PLLBCK | GENCLK_PCK_SRC_MCK

definition genclk_config_defaults :: "u32 \<Rightarrow> u32" where
  "genclk_config_defaults ul_id = 0"

definition genclk_config_read :: "hw \<Rightarrow> u32 \<Rightarrow> 'z mach_scheme \<Rightarrow> u32 \<times> 'z mach_scheme" where
  "genclk_config_read hw ul_id s = rd hw PMC (PMC_PCK ul_id) s"

definition genclk_config_write :: "u32 \<Rightarrow> u32 \<Rightarrow> 'z mach_scheme \<Rightarrow> 'z mach_scheme" where
  "genclk_config_write ctrl ul_id s = wr PMC (PMC_PCK ul_id) ctrl s"

primrec source_bits :: "genclk_source \<Rightarrow> u32" where
  "source_bits GENCLK_PCK_SRC_SLCK_RC = PMC_PCK_CSS_SLOW_CLK"
| "source_bits GENCLK_PCK_SRC_SLCK_XTAL = PMC_PCK_CSS_SLOW_CLK"
| "source_bits GENCLK_PCK_SRC_SLCK_BYPASS = PMC_PCK_CSS_SLOW_CLK"
| "source_bits GENCLK_PCK_SRC_MAINCK_4M_RC = PMC_PCK_CSS_MAIN_CLK"
| "source_bits GENCLK_PCK_SRC_MAINCK_8M_RC = PMC_PCK_CSS_MAIN_CLK"
| "source_bits GENCLK_PCK_SRC_MAINCK_12M_RC = PMC_PCK_CSS_MAIN_CLK"
| "source_bits GENCLK_PCK_SRC_MAINCK_XTAL = PMC_PCK_CSS_MAIN_CLK"
| "source_bits GENCLK_PCK_SRC_MAINCK_BYPASS = PMC_PCK_CSS_MAIN_CLK"
| "source_bits GENCLK_PCK_SRC_PLLACK = PMC_PCK_CSS_PLLA_CLK"
| "source_bits GENCLK_PCK_SRC_PLLBCK = PMC_PCK_CSS_UPLL_CLK"
| "source_bits GENCLK_PCK_SRC_MCK = PMC_PCK_CSS_MCK"

definition genclk_config_set_source :: "genclk_source \<Rightarrow> u32 \<Rightarrow> u32" where
  "genclk_config_set_source e_src ctrl = (ctrl AND NOT PMC_PCK_CSS_Msk) OR source_bits e_src"

definition genclk_config_set_divider :: "u32 \<Rightarrow> u32 \<Rightarrow> u32" where
  "genclk_config_set_divider e_divider ctrl = (ctrl AND NOT PMC_PCK_PRES_Msk) OR e_divider"

definition genclk_enable :: "u32 \<Rightarrow> u32 \<Rightarrow> 'z mach_scheme \<Rightarrow> 'z mach_scheme" where
  "genclk_enable ctrl ul_id s = pmc_enable_pck ul_id (wr PMC (PMC_PCK ul_id) ctrl s)"

definition genclk_disable :: "u32 \<Rightarrow> 'z mach_scheme \<Rightarrow> 'z mach_scheme" where
  "genclk_disable ul_id s = pmc_disable_pck ul_id s"

definition start_osc :: "hw \<Rightarrow> u32 \<Rightarrow> 'z mach_scheme \<Rightarrow> 'z mach_scheme option" where
  "start_osc hw osc s =
     (let (ready, s) = osc_is_ready hw osc s
      in if ready then Some s else do { s \<leftarrow> osc_enable hw osc s; osc_wait_ready hw osc s })"

primrec genclk_enable_source :: "genclk_source \<Rightarrow> hw \<Rightarrow> 'z mach_scheme \<Rightarrow> 'z mach_scheme option" where
  "genclk_enable_source GENCLK_PCK_SRC_SLCK_RC hw s = start_osc hw OSC_SLCK_32K_RC s"
| "genclk_enable_source GENCLK_PCK_SRC_SLCK_XTAL hw s = start_osc hw OSC_SLCK_32K_XTAL s"
| "genclk_enable_source GENCLK_PCK_SRC_SLCK_BYPASS hw s = start_osc hw OSC_SLCK_32K_BYPASS s"
| "genclk_enable_source GENCLK_PCK_SRC_MAINCK_4M_RC hw s = start_osc hw OSC_MAINCK_4M_RC s"
| "genclk_enable_source GENCLK_PCK_SRC_MAINCK_8M_RC hw s = start_osc hw OSC_MAINCK_8M_RC s"
| "genclk_enable_source GENCLK_PCK_SRC_MAINCK_12M_RC hw s = start_osc hw OSC_MAINCK_12M_RC s"
| "genclk_enable_source GENCLK_PCK_SRC_MAINCK_XTAL hw s = start_osc hw OSC_MAINCK_XTAL s"
| "genclk_enable_source GENCLK_PCK_SRC_MAINCK_BYPASS hw s = start_osc hw OSC_MAINCK_BYPASS s"
| "genclk_enable_source GENCLK_PCK_SRC_PLLACK hw s = pll_enable_config_defaults hw 0 s"
| "genclk_enable_source GENCLK_PCK_SRC_PLLBCK hw s = pll_enable_config_defaults hw 1 s"
| "genclk_enable_source GENCLK_PCK_SRC_MCK hw s = Some s"

text \<open>
  The source and the divider are independent fields of the word: setting one keeps the other,
  in any order, for a divider that stays in its field.
\<close>

lemma pck_masks: "PMC_PCK_CSS_Msk = mask 3" "PMC_PCK_PRES_Msk = push_bit 4 (mask 3)"
  by (simp_all add: mask_eq_exp_minus_1 push_bit_eq_mult)

lemma source_bits_in_field: "source_bits src AND PMC_PCK_CSS_Msk = source_bits src"
  "source_bits src AND PMC_PCK_PRES_Msk = 0"
  by (cases src; simp)+

lemma two_fields:
  fixes w c p d e :: "'a::len word"
  assumes "c AND p = 0" "d AND p = d" "e AND c = e"
  shows "(((w AND NOT c) OR e) AND NOT p OR d) AND c = e"
    and "(((w AND NOT c) OR e) AND NOT p OR d) AND p = d"
    and "(((w AND NOT p) OR d) AND NOT c) OR e = (((w AND NOT c) OR e) AND NOT p) OR d"
  using assms by (auto simp: bit_eq_iff bit_simps)

lemma genclk_config_fields:
  assumes "d AND PMC_PCK_PRES_Msk = d"
  shows "genclk_config_set_divider d (genclk_config_set_source src w) AND PMC_PCK_CSS_Msk = source_bits src"
    and "genclk_config_set_divider d (genclk_config_set_source src w) AND PMC_PCK_PRES_Msk = d"
    and "genclk_config_set_source src (genclk_config_set_divider d w) =
      genclk_config_set_divider d (genclk_config_set_source src w)"
proof -
  have disjoint: "PMC_PCK_CSS_Msk AND PMC_PCK_PRES_Msk = (0 :: u32)" by simp
  note fields = two_fields [OF disjoint assms source_bits_in_field(1)]
  show "genclk_config_set_divider d (genclk_config_set_source src w) AND PMC_PCK_CSS_Msk = source_bits src"
    unfolding genclk_config_set_divider_def genclk_config_set_source_def by (rule fields(1))
  show "genclk_config_set_divider d (genclk_config_set_source src w) AND PMC_PCK_PRES_Msk = d"
    unfolding genclk_config_set_divider_def genclk_config_set_source_def by (rule fields(2))
  show "genclk_config_set_source src (genclk_config_set_divider d w) =
      genclk_config_set_divider d (genclk_config_set_source src w)"
    unfolding genclk_config_set_divider_def genclk_config_set_source_def by (rule fields(3))
qed

end
