(* ===== verification/Compiler_Macros.thy ===== *)
theory Compiler_Macros
  imports Udd_Dev
begin

text \<open>
  The arithmetic and byte-order macros of \<^verbatim>\<open>src/asf/sam/utils/compiler.h\<close> that the drivers do not
  already carry in their own theories, and its functions on byte arrays. A value in memory is
  little-endian on this processor. The bit counts of the compiler are compared with the chains of tests that
  the header has for compilers without them.
\<close>

section \<open>Counting zeros\<close>

text \<open>
  The chains of conditional expressions, as a recursion on the bit that is tested next. \<open>clz\<close>, which
  \<open>Usb_State\<close> has, is the count of the processor; \<open>ctz\<close> is the count of trailing zeros.
\<close>

function clz_chain :: "u32 \<Rightarrow> nat \<Rightarrow> nat" where
  "clz_chain u k =
     (if u = 0 then 32 else if k = 0 then 31
      else if u AND push_bit k 1 \<noteq> 0 then 31 - k else clz_chain u (k - 1))"
  by pat_completeness auto
termination by (relation "measure (\<lambda>(_, k). k)") auto

function ctz_chain :: "u32 \<Rightarrow> nat \<Rightarrow> nat" where
  "ctz_chain u k =
     (if k \<ge> 32 then 32 else if u AND push_bit k 1 \<noteq> 0 then k else ctz_chain u (k + 1))"
  by pat_completeness auto
termination by (relation "measure (\<lambda>(_, k). 32 - k)") auto

declare clz_chain.simps [simp del] ctz_chain.simps [simp del]

definition ctz :: "u32 \<Rightarrow> nat" where
  "ctz u = length (takeWhile (\<lambda>i. \<not> bit u i) [0..<32])"

lemma and_push_bit_1: "u AND push_bit k 1 \<noteq> 0 \<longleftrightarrow> bit u k" for u :: "'a::len word"
  by (simp add: push_bit_eq_mult)

lemma ctz_chain_eq: "k \<le> 32 \<Longrightarrow> ctz_chain u k = k + length (takeWhile (\<lambda>i. \<not> bit u i) [k..<32])"
proof (induction u k rule: ctz_chain.induct)
  case (1 u k)
  show ?case
  proof (cases "k = 32")
    case False
    then have "[k..<32] = k # [Suc k..<32]" using 1(2) by (simp add: upt_conv_Cons)
    then show ?thesis using 1 False by (subst ctz_chain.simps) (simp add: and_push_bit_1)
  qed (simp add: ctz_chain.simps)
qed

lemma ctz_chain_ctz: "ctz_chain u 0 = ctz u"
  by (simp add: ctz_chain_eq ctz_def)

lemma clz_chain_eq:
  "u \<noteq> 0 \<Longrightarrow> \<forall>i > k. \<not> bit u i \<Longrightarrow> k < 32 \<Longrightarrow>
     clz_chain u k = 31 - k + length (takeWhile (\<lambda>i. \<not> bit u i) (rev [0..<Suc k]))"
proof (induction u k rule: clz_chain.induct)
  case (1 u k)
  show ?case
  proof (cases "bit u k")
    case True
    then show ?thesis using 1(2) by (subst clz_chain.simps) (auto simp: and_push_bit_1)
  next
    case False
    have "k \<noteq> 0"
    proof
      assume "k = 0"
      then have "\<not> bit u i" for i using False 1(3) by (cases i) auto
      then show False using 1(2) by (simp add: bit_eq_iff)
    qed
    have "\<not> bit u i" if "i > k - 1" for i
      using that 1(3) False by (cases "i = k") auto
    then have "clz_chain u (k - 1) = 31 - (k - 1) + length (takeWhile (\<lambda>i. \<not> bit u i) (rev [0..<Suc (k - 1)]))"
      using 1(1,2,4) False \<open>k \<noteq> 0\<close> by (simp add: and_push_bit_1)
    then show ?thesis using 1(2,4) False \<open>k \<noteq> 0\<close>
      by (subst clz_chain.simps) (simp add: and_push_bit_1)
  qed
qed

lemma clz_chain_clz: "clz_chain u 31 = clz u"
proof (cases "u = 0")
  case False
  have "\<forall>i > 31. \<not> bit u i" by (auto dest: bit_imp_le_length)
  from clz_chain_eq [OF False this] show ?thesis by (simp add: clz_def)
qed (simp add: clz_chain.simps clz_def takeWhile_eq_all_conv [THEN iffD2])

text \<open>The positions at which the USB driver reads and writes bit-fields are the ones that the macros compute.\<close>

lemma bitfield_positions:
  "ctz BYTE_COUNT_Msk = 20" "ctz EPT_TYPE_Msk = 4" "ctz BK_NUMBER_Msk = 6" "ctz DEV_ADDR_Msk = 0" "ctz (push_bit 3 0x7FF) = 3"
  by (simp_all add: ctz_def upt_rec)

section \<open>Bits and alignment\<close>

definition Rd_bits :: "u32 \<Rightarrow> u32 \<Rightarrow> u32" where "Rd_bits value m = value AND m"
definition Tgl_bits :: "u32 \<Rightarrow> u32 \<Rightarrow> u32" where "Tgl_bits lvalue m = lvalue XOR m"
definition Test_align :: "u32 \<Rightarrow> u32 \<Rightarrow> bool" where "Test_align v n = (v AND (n - 1) = 0)"
definition Get_align :: "u32 \<Rightarrow> u32 \<Rightarrow> u32" where "Get_align v n = v AND (n - 1)"
definition Set_align :: "u32 \<Rightarrow> u32 \<Rightarrow> u32 \<Rightarrow> u32" where
  "Set_align lval n alg = (lval AND NOT (n - 1)) OR (alg AND (n - 1))"
definition Align_up :: "u32 \<Rightarrow> u32 \<Rightarrow> u32" where "Align_up v n = (v + (n - 1)) AND NOT (n - 1)"
definition Align_down :: "u32 \<Rightarrow> u32 \<Rightarrow> u32" where "Align_down v n = v AND NOT (n - 1)"
definition Abs_val :: "u32 \<Rightarrow> u32" where "Abs_val a = (if sint a < 0 then - a else a)"
definition Min_val :: "u32 \<Rightarrow> u32 \<Rightarrow> u32" where "Min_val a b = (if a < b then a else b)"
definition Max_val :: "u32 \<Rightarrow> u32 \<Rightarrow> u32" where "Max_val a b = (if a > b then a else b)"
definition div_ceil :: "u32 \<Rightarrow> u32 \<Rightarrow> u32" where "div_ceil a b = (a + b - 1) div b"

lemma mask_of_power: "(2 ^ k :: u32) - 1 = mask k"
  by (simp add: mask_eq_exp_minus_1)

lemma unat_clear_low: "unat (v AND NOT (mask k)) = unat v div 2 ^ k * 2 ^ k" for v :: u32
proof -
  have t: "unat (take_bit k v) = unat v mod 2 ^ k"
    by (subst unsigned_take_bit_eq, subst take_bit_eq_mod, rule refl)
  have "v AND NOT (mask k) = push_bit k (drop_bit k v)"
    by (rule bit_word_eqI) (auto simp: bit_simps)
  also have "\<dots> = v - take_bit k v" by (metis add_diff_cancel_left' bits_ident add.commute)
  finally have e: "v AND NOT (mask k) = v - take_bit k v" .
  have "take_bit k v \<le> v" unfolding word_le_nat_alt t by simp
  then show ?thesis unfolding e by (simp only: unat_sub t minus_mod_eq_div_mult)
qed

text \<open>
  For a power of two, \<open>Align_down\<close> gives the largest multiple that is not above the value and
  \<open>Align_up\<close> the smallest that is not below it, unless the sum leaves the 32 bits.
\<close>

lemma unat_Align_down: "unat (Align_down v (2 ^ k)) = unat v div 2 ^ k * 2 ^ k"
  unfolding Align_down_def mask_of_power by (rule unat_clear_low)

lemma unat_Align_up:
  assumes "k < 32" and "unat v + 2 ^ k - 1 < 2 ^ 32"
  shows "unat (Align_up v (2 ^ k)) = (unat v + 2 ^ k - 1) div 2 ^ k * 2 ^ k"
proof -
  have "unat (mask k :: u32) = mask k" using assms(1) by (intro bit_eqI) (auto simp: bit_simps)
  then have m: "unat (mask k :: u32) = 2 ^ k - 1" by (simp only: mask_eq_exp_minus_1)
  have "(0 :: nat) < 2 ^ k" by simp
  then have "unat (v + mask k) = unat v + 2 ^ k - 1"
    using assms(2) unfolding unat_word_ariths m by simp
  then show ?thesis unfolding Align_up_def mask_of_power by (simp only: unat_clear_low)
qed

lemma Test_align_iff: "k < 32 \<Longrightarrow> Test_align v (2 ^ k) \<longleftrightarrow> 2 ^ k dvd unat v"
proof -
  have "unat (take_bit k v) = unat v mod 2 ^ k"
    by (subst unsigned_take_bit_eq, subst take_bit_eq_mod, rule refl)
  then show ?thesis unfolding Test_align_def mask_of_power take_bit_eq_mask [symmetric]
    by (metis dvd_eq_mod_eq_0 unat_eq_zero)
qed

lemma unat_div_ceil:
  assumes "b \<noteq> 0" and "unat a + unat b - 1 < 2 ^ 32"
  shows "unat a \<le> unat (div_ceil a b) * unat b" and "unat (div_ceil a b) * unat b < unat a + unat b"
proof -
  have b: "0 < unat b" using assms(1) by (simp add: unat_gt_0)
  have w: "a + b - 1 = a + (b - 1)" by simp
  have "unat (a + (b - 1)) = unat a + unat b - 1"
    using assms b unfolding unat_word_ariths by simp
  then have e: "unat (div_ceil a b) = (unat a + unat b - 1) div unat b"
    unfolding div_ceil_def unat_div w by simp
  have "(unat a + unat b - 1) div unat b * unat b + (unat a + unat b - 1) mod unat b = unat a + unat b - 1"
    by (rule div_mult_mod_eq)
  moreover have "(unat a + unat b - 1) mod unat b < unat b" using b by simp
  ultimately show "unat a \<le> unat (div_ceil a b) * unat b" "unat (div_ceil a b) * unat b < unat a + unat b"
    unfolding e using b by linarith+
qed

text \<open>The absolute value of a signed number is right except for the least one, which is its own negative.\<close>

lemma sint_Abs_val:
  assumes "a \<noteq> 0x80000000"
  shows "sint (Abs_val a) = \<bar>sint a\<bar>"
proof (cases "sint a < 0")
  case True
  have "- (2 ^ 31) \<le> sint a" using sint_ge [of a] by simp
  moreover have "sint a \<noteq> - (2 ^ 31)"
  proof
    assume "sint a = - (2 ^ 31)"
    then have "word_of_int (sint a) = (word_of_int (- (2 ^ 31)) :: u32)" by simp
    then show False using assms by simp
  qed
  ultimately have "- sint a < 2 ^ 31" by linarith
  then have "sint (- a) = - sint a" using True
    by (simp add: sint_word_ariths signed_take_bit_int_eq_self)
  then show ?thesis using True by (simp add: Abs_val_def)
qed (simp add: Abs_val_def)

section \<open>Byte order\<close>

type_synonym u64 = "64 word"

text \<open>The parts of a value in memory: the element with index \<open>i\<close>, the least significant first.\<close>

definition MSB :: "u16 \<Rightarrow> u8" where "MSB w = ucast (drop_bit 8 w)"
definition LSB :: "u16 \<Rightarrow> u8" where "LSB w = ucast w"
definition MSH :: "u32 \<Rightarrow> u16" where "MSH w = ucast (drop_bit 16 w)"
definition LSH :: "u32 \<Rightarrow> u16" where "LSH w = ucast w"
definition MSB0W :: "u32 \<Rightarrow> u8" where "MSB0W w = ucast (drop_bit 24 w)"
definition MSB1W :: "u32 \<Rightarrow> u8" where "MSB1W w = ucast (drop_bit 16 w)"
definition MSB2W :: "u32 \<Rightarrow> u8" where "MSB2W w = ucast (drop_bit 8 w)"
definition MSB3W :: "u32 \<Rightarrow> u8" where "MSB3W w = ucast w"
definition MSW :: "u64 \<Rightarrow> u32" where "MSW w = ucast (drop_bit 32 w)"
definition LSW :: "u64 \<Rightarrow> u32" where "LSW w = ucast w"

definition Swap16 :: "u16 \<Rightarrow> u16" where
  "Swap16 x = drop_bit 8 x OR push_bit 8 x"

definition Swap32 :: "u32 \<Rightarrow> u32" where
  "Swap32 x = ucast (Swap16 (ucast (drop_bit 16 x))) OR push_bit 16 (ucast (Swap16 (ucast x)))"

definition Swap64 :: "u64 \<Rightarrow> u64" where
  "Swap64 x = ucast (Swap32 (ucast (drop_bit 32 x))) OR push_bit 32 (ucast (Swap32 (ucast x)))"

lemma Swap16_bytes: "MSB (Swap16 x) = LSB x" "LSB (Swap16 x) = MSB x"
  by (rule bit_word_eqI; auto simp: Swap16_def MSB_def LSB_def bit_simps)+

lemma Swap32_bytes:
  "MSB0W (Swap32 x) = MSB3W x" "MSB1W (Swap32 x) = MSB2W x" "MSB2W (Swap32 x) = MSB1W x" "MSB3W (Swap32 x) = MSB0W x"
  by (rule bit_word_eqI; auto simp: Swap32_def Swap16_def MSB0W_def MSB1W_def MSB2W_def MSB3W_def bit_simps)+

lemma join_parts16:
  fixes lo hi :: u16 and w :: u32
  shows "LSH (ucast lo OR push_bit 16 (ucast hi)) = lo" "MSH (ucast lo OR push_bit 16 (ucast hi)) = hi"
    "ucast (LSH w) OR push_bit 16 (ucast (MSH w)) = w"
proof -
  show "LSH (ucast lo OR push_bit 16 (ucast hi)) = lo" "MSH (ucast lo OR push_bit 16 (ucast hi)) = hi"
    by (rule bit_word_eqI; auto simp: LSH_def MSH_def bit_simps dest: bit_imp_le_length)+
  show "ucast (LSH w) OR push_bit 16 (ucast (MSH w)) = w"
  proof (rule bit_word_eqI)
    fix n assume "n < LENGTH(32)"
    then show "bit (ucast (LSH w) OR push_bit 16 (ucast (MSH w)) :: u32) n = bit w n"
      by (cases "n < 16") (simp_all add: LSH_def MSH_def bit_simps less_diff_conv2)
  qed
qed

lemma join_parts32:
  fixes lo hi :: u32 and w :: u64
  shows "LSW (ucast lo OR push_bit 32 (ucast hi)) = lo" "MSW (ucast lo OR push_bit 32 (ucast hi)) = hi"
    "ucast (LSW w) OR push_bit 32 (ucast (MSW w)) = w"
proof -
  show "LSW (ucast lo OR push_bit 32 (ucast hi)) = lo" "MSW (ucast lo OR push_bit 32 (ucast hi)) = hi"
    by (rule bit_word_eqI; auto simp: LSW_def MSW_def bit_simps dest: bit_imp_le_length)+
  show "ucast (LSW w) OR push_bit 32 (ucast (MSW w)) = w"
  proof (rule bit_word_eqI)
    fix n assume "n < LENGTH(64)"
    then show "bit (ucast (LSW w) OR push_bit 32 (ucast (MSW w)) :: u64) n = bit w n"
      by (cases "n < 32") (simp_all add: LSW_def MSW_def bit_simps less_diff_conv2)
  qed
qed

lemma Swap_parts:
  "Swap32 y = ucast (Swap16 (MSH y)) OR push_bit 16 (ucast (Swap16 (LSH y)))"
  "Swap64 z = ucast (Swap32 (MSW z)) OR push_bit 32 (ucast (Swap32 (LSW z)))"
  by (simp_all add: Swap32_def Swap64_def MSH_def LSH_def MSW_def LSW_def)

lemma Swap16_Swap16 [simp]: "Swap16 (Swap16 x) = x"
proof (rule bit_word_eqI)
  fix n assume "n < LENGTH(16)"
  then show "bit (Swap16 (Swap16 x)) n = bit x n"
    by (cases "n < 8") (simp_all add: Swap16_def bit_simps)
qed

lemma Swap32_Swap32 [simp]: "Swap32 (Swap32 y) = y"
  by (simp add: Swap_parts(1) [of "Swap32 y"]) (simp add: Swap_parts(1) [of y] join_parts16)

lemma Swap64_Swap64 [simp]: "Swap64 (Swap64 z) = z"
  by (simp add: Swap_parts(2) [of "Swap64 z"]) (simp add: Swap_parts(2) [of z] join_parts32)

section \<open>Bit order\<close>

text \<open>The processor's \<open>RBIT\<close> is the reversal of a word.\<close>

definition bit_reverse32 :: "u32 \<Rightarrow> u32" where "bit_reverse32 x = word_reverse x"
definition bit_reverse8 :: "u8 \<Rightarrow> u8" where
  "bit_reverse8 x = ucast (drop_bit 24 (bit_reverse32 (ucast x)))"
definition bit_reverse16 :: "u16 \<Rightarrow> u16" where
  "bit_reverse16 x = ucast (drop_bit 16 (bit_reverse32 (ucast x)))"
definition bit_reverse64 :: "u64 \<Rightarrow> u64" where
  "bit_reverse64 x = ucast (bit_reverse32 (ucast (drop_bit 32 x))) OR push_bit 32 (ucast (bit_reverse32 (ucast x)))"

lemma bit_reverse_eq:
  "bit_reverse8 a = word_reverse a" "bit_reverse16 b = word_reverse b" "bit_reverse64 c = word_reverse c"
proof -
  show "bit_reverse8 a = word_reverse a" "bit_reverse16 b = word_reverse b"
    by (rule bit_word_eqI; auto simp: bit_reverse8_def bit_reverse16_def bit_reverse32_def bit_simps)+
  show "bit_reverse64 c = word_reverse c"
  proof (rule bit_word_eqI)
    fix n assume "n < LENGTH(64)"
    then have i: "n < 32 \<longrightarrow> 32 + (31 - n) = 63 - n \<and> 31 - n < 32"
      "\<not> n < 32 \<longrightarrow> 31 - (n - 32) = 63 - n \<and> n - 32 < 64 \<and> n - 32 < 32 \<and> 63 - n < 32" by auto
    then show "bit (bit_reverse64 c) n = bit (word_reverse c) n"
      using \<open>n < LENGTH(64)\<close> by (cases "n < 32") (simp_all add: bit_reverse64_def bit_reverse32_def bit_simps)
  qed
qed

section \<open>Byte arrays\<close>

text \<open>
  The conversions write and read the first bytes of an array; \<open>None\<close> stands for an access outside of it.
\<close>

fun put_bytes :: "nat \<Rightarrow> nat \<Rightarrow> u64 \<Rightarrow> u8 list \<Rightarrow> u8 list option" where
  "put_bytes i 0 v data = Some data"
| "put_bytes i (Suc n) v data =
     (if i < length data then put_bytes (Suc i) n (drop_bit 8 v) (data[i := ucast (v AND 0xFF)]) else None)"

definition convert_64_bit_to_byte_array :: "u64 \<Rightarrow> u8 list \<Rightarrow> u8 list option" where
  "convert_64_bit_to_byte_array v data = put_bytes 0 8 v data"

definition convert_16_bit_to_byte_array :: "u16 \<Rightarrow> u8 list \<Rightarrow> u8 list option" where
  "convert_16_bit_to_byte_array v data =
     (if length data < 2 then None
      else Some (data[0 := ucast (v AND 0xFF), 1 := ucast (drop_bit 8 v AND 0xFF)]))"

definition convert_spec_16_bit_to_byte_array :: "u16 \<Rightarrow> u8 list \<Rightarrow> u8 list option" where
  "convert_spec_16_bit_to_byte_array v data =
     (if length data < 2 then None
      else Some (data[0 := ucast (v AND 0xFF), 1 := ucast (drop_bit 8 v AND 0xFF)]))"

definition convert_16_bit_to_byte_address :: "u16 \<Rightarrow> u8 list \<Rightarrow> u8 list option" where
  "convert_16_bit_to_byte_address v data =
     (if length data < 2 then None
      else Some (data[0 := ucast (v AND 0xFF), 1 := ucast (drop_bit 8 v AND 0xFF)]))"

definition convert_byte_array_to_16_bit :: "u8 list \<Rightarrow> u16 option" where
  "convert_byte_array_to_16_bit data =
     (if length data < 2 then None else Some (ucast (data ! 0) OR push_bit 8 (ucast (data ! 1))))"

text \<open>The value of a union whose bytes are \<open>bs\<close>.\<close>

primrec union_value :: "u8 list \<Rightarrow> u64" where
  "union_value [] = 0"
| "union_value (b # bs) = ucast b OR push_bit 8 (union_value bs)"

definition convert_byte_array_to_32_bit :: "u8 list \<Rightarrow> u32 option" where
  "convert_byte_array_to_32_bit data =
     (if length data < 4 then None else Some (ucast (union_value (take 4 data))))"

definition convert_byte_array_to_64_bit :: "u8 list \<Rightarrow> u64 option" where
  "convert_byte_array_to_64_bit data =
     (if length data < 8 then None else Some (union_value (take 8 data)))"

lemma low_byte: "(ucast (v AND 0xFF) :: u8) = ucast v" "(ucast (w AND 0xFF) :: u8) = ucast w"
  for v :: u64 and w :: u16
proof -
  have m: "(0xFF :: u64) = mask 8" "(0xFF :: u16) = mask 8" by (simp_all add: mask_eq_exp_minus_1)
  show "(ucast (v AND 0xFF) :: u8) = ucast v" "(ucast (w AND 0xFF) :: u8) = ucast w"
    unfolding m by (rule bit_word_eqI; simp add: bit_simps)+
qed

lemma put_bytes_eq:
  "i + n \<le> length data \<Longrightarrow>
     put_bytes i n v data = Some (take i data @ map (\<lambda>j. ucast (drop_bit (8 * j) v)) [0..<n] @ drop (i + n) data)"
proof (induction n arbitrary: i v data)
  case (Suc n)
  have u: "[0..<Suc n] = 0 # map Suc [0..<n]" by (simp add: upt_conv_Cons map_Suc_upt del: upt_Suc)
  note b = low_byte(1) [of v]
  show ?case
    using Suc.prems Suc.IH [of "Suc i" "data[i := ucast v]" "drop_bit 8 v"]
    by (simp add: u b take_Suc_conv_app_nth comp_def add.commute [of 8] del: upt_Suc)
qed simp

lemma bit_union_value:
  "length bs \<le> 8 \<Longrightarrow> bit (union_value bs) n \<longleftrightarrow> n < 8 * length bs \<and> bit (bs ! (n div 8)) (n mod 8)"
proof (induction bs arbitrary: n)
  case (Cons b bs)
  show ?case
  proof (cases "n < 8")
    case False
    then have "n div 8 = Suc ((n - 8) div 8)" "(n - 8) mod 8 = n mod 8" by (simp_all add: le_div_geq le_mod_geq)
    moreover have "n < 64" if "n - 8 < 8 * length bs" using that Cons.prems by simp
    ultimately show ?thesis using Cons.IH [of "n - 8"] Cons.prems False
      by (simp add: bit_simps) (auto dest: bit_imp_le_length)
  next
    case True
    then show ?thesis by (simp add: bit_simps)
  qed
qed simp

text \<open>What one conversion writes, the other reads back.\<close>

lemma convert_16_round_trip:
  assumes "2 \<le> length data"
  shows "convert_16_bit_to_byte_array v data \<bind> convert_byte_array_to_16_bit = Some v"
proof -
  have "(ucast (ucast v :: u8) OR push_bit 8 (ucast (ucast (drop_bit 8 v) :: u8)) :: u16) = v"
  proof (rule bit_word_eqI)
    fix n assume "n < LENGTH(16)"
    then show "bit (ucast (ucast v :: u8) OR push_bit 8 (ucast (ucast (drop_bit 8 v) :: u8)) :: u16) n = bit v n"
      by (cases "n < 8") (simp_all add: bit_simps less_diff_conv2)
  qed
  moreover obtain a b rest where "data = a # b # rest" using assms by (metis Suc_le_length_iff numeral_2_eq_2)
  ultimately show ?thesis by (simp add: convert_16_bit_to_byte_array_def convert_byte_array_to_16_bit_def low_byte)
qed

lemma convert_64_round_trip:
  assumes "8 \<le> length data"
  shows "convert_64_bit_to_byte_array v data \<bind> convert_byte_array_to_64_bit = Some v"
proof -
  let ?bs = "map (\<lambda>j. ucast (drop_bit (8 * j) v)) [0..<8] :: u8 list"
  have "union_value ?bs = v"
  proof (rule bit_word_eqI)
    fix n assume "n < LENGTH(64)"
    then have "n div 8 < 8" "8 * (n div 8) + n mod 8 = n" by auto
    then show "bit (union_value ?bs) n = bit v n"
      using \<open>n < LENGTH(64)\<close> by (subst bit_union_value) (simp_all add: bit_simps)
  qed
  then show ?thesis
    using assms put_bytes_eq [of 0 8 data v]
    by (simp add: convert_64_bit_to_byte_array_def convert_byte_array_to_64_bit_def del: upt_Suc)
qed

end
