(* ===== verification/Udphs_Endpoints.thy ===== *)
theory Udphs_Endpoints
  imports Udphs_Macros Compiler_Macros
begin

text \<open>
  What the endpoint macros of \<^verbatim>\<open>src/asf/sam/drivers/udphs/udphs_device.h\<close> promise to the
  driver. The configuration word of an endpoint packs five fields, and what the macros configure they read
  back, one field at a time. The events of the endpoints are flags: a family of three macros enables,
  disables and tests each, through a pair of registers of which one sets bits and the other clears them.
\<close>

section \<open>Counting zeros of a bounded word\<close>

lemma takeWhile_rev_upt:
  "j < n \<Longrightarrow> bit w j \<Longrightarrow> \<forall>i > j. \<not> bit w i \<Longrightarrow>
     length (takeWhile (\<lambda>i. \<not> bit w i) (rev [0..<n])) = n - Suc j" for w :: "'a::len word"
proof (induction n)
  case (Suc n)
  show ?case
  proof (cases "j = n")
    case False
    then show ?thesis using Suc by simp
  qed (use Suc.prems in simp)
qed simp

lemma bit_top_between:
  fixes w :: "'a::len word"
  assumes "2 ^ j \<le> unat w" "unat w < 2 ^ Suc j"
  shows "bit w j" "\<forall>i > j. \<not> bit w i"
proof -
  have b: "bit w i \<longleftrightarrow> odd (unat w div 2 ^ i)" for i
    by (metis bit_iff_odd bit_unsigned_iff bit_imp_possible_bit possible_bit_nat)
  have "unat w div 2 ^ j = 1"
    using assms by (intro div_nat_eqI) auto
  then show "bit w j"
    by (simp add: b)
  show "\<forall>i > j. \<not> bit w i"
  proof (intro allI impI)
    fix i assume "i > j"
    then have "(2::nat) ^ Suc j \<le> 2 ^ i" by (intro power_increasing) auto
    then have "unat w div 2 ^ i = 0" using assms(2) by simp
    then show "\<not> bit w i" by (simp add: b)
  qed
qed

lemma clz_between: "2 ^ j \<le> unat w \<Longrightarrow> unat w < 2 ^ Suc j \<Longrightarrow> j < 32 \<Longrightarrow> clz w = 31 - j"
  using takeWhile_rev_upt [of j 32 w] bit_top_between [of j w] by (simp add: clz_def)

text \<open>The size code is the logarithm of the smallest size from 8 to 1024 that the packets fit in.\<close>

lemma size_code:
  assumes "k \<le> 7" "unat sz \<le> 2 ^ (k + 3)" "k = 0 \<or> 2 ^ (k + 2) < unat sz"
  shows "udd_format_endpoint_size sz = of_nat k"
proof -
  define m where "m = min (max sz 8) (1024::u32)"
  have b: "(2::nat) ^ (k + 3) \<le> 1024"
    using power_increasing [of "k + 3" 10 "2::nat"] assms(1) by simp
  have s: "unat sz \<le> 1024" using assms(2) b by simp
  have m: "unat m = max (unat sz) 8" using s
    by (auto simp: m_def min_def max_def word_le_nat_alt not_le)
  have m': "unat m \<le> 2 ^ (k + 3)" "2 ^ (k + 2) < unat m" "unat m \<le> 1024"
    using assms m s by (auto simp: power_add max_def)
  have d: "unat (push_bit 1 m) = 2 * unat m"
    using m'(3) by (simp add: push_bit_eq_mult unat_mult_lem [THEN iffD1])
  have n: "unat (push_bit 1 m - 1) = 2 * unat m - 1"
  proof -
    have "push_bit 1 m \<noteq> 0" using d m'(2) by (metis gr_implies_not0 mult_is_0 unat_0 zero_neq_numeral)
    then show ?thesis using d by simp
  qed
  have "clz (push_bit 1 m - 1) = 31 - (k + 3)"
  proof (rule clz_between)
    show "2 ^ (k + 3) \<le> unat (push_bit 1 m - 1)" using m'(2) unfolding n by (simp add: power_add)
    show "unat (push_bit 1 m - 1) < 2 ^ Suc (k + 3)" using m'(1,2) unfolding n by (simp add: power_add)
    show "k + 3 < 32" using assms(1) by simp
  qed
  then have "udd_format_endpoint_size sz = 32 - of_nat (28 - k) - 1 - 3"
    by (simp add: udd_format_endpoint_size_def m_def)
  also have "\<dots> = of_nat k" using assms(1) by (simp add: of_nat_diff)
  finally show ?thesis .
qed

lemma size_code_exists:
  assumes "unat sz \<le> 1024"
  obtains k where "k \<le> 7" "unat sz \<le> 2 ^ (k + 3)" "k = 0 \<or> 2 ^ (k + 2) < unat sz"
proof -
  define k where "k = (LEAST k. unat sz \<le> 2 ^ (k + 3))"
  have 7: "unat sz \<le> 2 ^ (7 + 3)" using assms by simp
  have "k = 0 \<or> 2 ^ (k + 2) < unat sz"
  proof (cases k)
    case (Suc l)
    then have "\<not> unat sz \<le> 2 ^ (l + 3)" using not_less_Least [of l "\<lambda>k. unat sz \<le> 2 ^ (k + 3)"]
      unfolding k_def by simp
    then show ?thesis using Suc by (simp add: power_add)
  qed simp
  then show ?thesis
    using that [of k] LeastI [of "\<lambda>k. unat sz \<le> 2 ^ (k + 3)", OF 7]
      Least_le [of "\<lambda>k. unat sz \<le> 2 ^ (k + 3)", OF 7] unfolding k_def by blast
qed

section \<open>The configuration word\<close>

text \<open>
  \<open>cfg_hw hw ep\<close>: the five fields of the configuration word of endpoint \<open>ep\<close>, its ten lowest
  bits, read back as they were written last. The rest of the word belongs to the controller.
\<close>

definition cfg_hw :: "hw \<Rightarrow> u8 \<Rightarrow> bool" where
  "cfg_hw hw ep \<longleftrightarrow> (\<forall>t. hw t UDPHS (EPT ep EPTCFG) AND mask 10 = reg_of UDPHS (EPT ep EPTCFG) 0 t AND mask 10)"

text \<open>The word that \<open>udd_configure_endpoint\<close> packs, and a change of one field.\<close>

definition cfg_word :: "u32 \<Rightarrow> u32 \<Rightarrow> u32 \<Rightarrow> u32 \<Rightarrow> u32 \<Rightarrow> u32" where
  "cfg_word type dir code bank nb =
     push_bit 4 type OR push_bit 3 dir OR code OR push_bit 6 bank OR push_bit 8 nb"

lemma cfg_mask: "(EPT_TYPE_Msk OR EPT_DIR OR EPT_SIZE_Msk OR BK_NUMBER_Msk OR NB_TRANS_Msk :: u32) = mask 10"
  by (simp add: mask_eq_exp_minus_1)

lemma small_bits: "x < 2 ^ k \<Longrightarrow> bit x i \<Longrightarrow> i < k" for x :: u32
proof (rule ccontr)
  assume a: "x < 2 ^ k" "bit x i" "\<not> i < k"
  have "i < 32" using bit_imp_le_length [OF a(2)] by simp
  then have "(2::nat) ^ k < 2 ^ 32" using a(3) by (intro power_strict_increasing) auto
  then have "unat (of_nat (2 ^ k) :: u32) = 2 ^ k" by (simp only: unat_of_nat len_bit0 len_num1) (simp add: take_bit_nat_eq_self)
  then have "unat (2 ^ k :: u32) = 2 ^ k" by simp
  then have "unat x < 2 ^ k" using a(1) by (simp add: word_less_nat_alt)
  then have "unat x < 2 ^ i" using a(3) by (meson less_le_trans not_less one_le_numeral power_increasing)
  moreover have "odd (unat x div 2 ^ i)"
    using a(2) by (metis bit_iff_odd bit_unsigned_iff bit_imp_possible_bit possible_bit_nat)
  ultimately show False by simp
qed

text \<open>A field of a word, by its position and its width.\<close>

definition field :: "nat \<Rightarrow> nat \<Rightarrow> u32 \<Rightarrow> u32" where
  "field p n w = take_bit n (drop_bit p w)"

lemma bit32: "bit w i \<Longrightarrow> i < 32" for w :: u32
  using bit_imp_le_length [of w i] by simp

lemma field_mask: "drop_bit p (w AND push_bit p (mask n)) = field p n w"
  by (auto simp: field_def bit_eq_iff bit_simps dest: bit32)

lemma field_or: "field p n (v OR w) = field p n v OR field p n w"
  by (simp add: field_def)

lemma field_push: "x < 2 ^ n \<Longrightarrow> p + n \<le> 32 \<Longrightarrow> field p n (push_bit p x) = x"
  by (auto simp: field_def bit_eq_iff bit_simps dest: small_bits)

lemma field_push_other:
  "x < 2 ^ k \<Longrightarrow> q + k \<le> p \<or> p + n \<le> q \<Longrightarrow> field p n (push_bit q x) = 0"
  by (auto simp: field_def bit_eq_iff bit_simps dest!: small_bits)

lemma field_other:
  "q + k \<le> p \<or> p + n \<le> q \<Longrightarrow>
     field q k (w AND NOT (push_bit p (mask n)) OR y AND push_bit p (mask n)) = field q k w"
  by (auto simp: field_def bit_eq_iff bit_simps dest: bit32)

lemma field_set:
  "x < 2 ^ n \<Longrightarrow> p + n \<le> 32 \<Longrightarrow>
     field p n (w AND NOT (push_bit p (mask n)) OR push_bit p x AND push_bit p (mask n)) = x"
  by (auto simp: field_def bit_eq_iff bit_simps dest: small_bits)

lemma field_cong:
  assumes "w AND mask 10 = w' AND mask 10" "p + n \<le> 10"
  shows "field p n w = field p n w'"
proof -
  have "bit w i = bit w' i" if "i < 10" for i
    using arg_cong [OF assms(1), of "\<lambda>x. bit x i"] that by (simp add: bit_simps)
  then show ?thesis using assms(2) by (auto simp: field_def bit_eq_iff bit_simps)
qed

lemma cfg_fields:
  assumes "type < 4" "dir < 2" "code < 8" "bank < 4" "nb < 4"
  shows "field 4 2 (cfg_word type dir code bank nb) = type"
    "field 3 (Suc 0) (cfg_word type dir code bank nb) = dir"
    "field 0 3 (cfg_word type dir code bank nb) = code"
    "field 6 2 (cfg_word type dir code bank nb) = bank"
    "field 8 2 (cfg_word type dir code bank nb) = nb"
  using field_push_other [of type 2 4] field_push_other [of dir 1 3] field_push_other [of code 3 0]
    field_push_other [of bank 2 6] field_push_other [of nb 2 8] field_push [of type 2 4] field_push [of dir 1 3]
    field_push [of code 3 0] field_push [of bank 2 6] field_push [of nb 2 8] assms
  by (simp_all add: cfg_word_def field_or)

section \<open>Reading and writing the configuration\<close>

definition cfg_of :: "u8 \<Rightarrow> 'z mach_scheme \<Rightarrow> u32" where
  "cfg_of ep s = reg_of UDPHS (EPT ep EPTCFG) 0 (trace s)"

lemma field_masks:
  "(EPT_TYPE_Msk :: u32) = push_bit 4 (mask 2)" "(EPT_DIR :: u32) = push_bit 3 (mask 1)"
  "(EPT_SIZE_Msk :: u32) = push_bit 0 (mask 3)" "(BK_NUMBER_Msk :: u32) = push_bit 6 (mask 2)"
  "(NB_TRANS_Msk :: u32) = push_bit 8 (mask 2)"
  by (simp_all add: mask_eq_exp_minus_1 push_bit_eq_mult)

lemma fit_mask: "x < 2 ^ n \<Longrightarrow> push_bit p x AND push_bit p (mask n) = push_bit p x" for x :: u32
  by (auto simp: bit_eq_iff bit_simps dest: small_bits)

lemma cfg_read:
  assumes "cfg_hw hw ep" "p + n \<le> 10"
  shows "fst (Rd_bitfield hw (EPT ep EPTCFG) (push_bit p (mask n)) p s) = field p n (cfg_of ep s)"
  unfolding Rd_bitfield_def rd_def Let_def split_conv fst_conv field_mask
  using assms by (intro field_cong) (simp_all add: cfg_hw_def cfg_of_def)

lemma EPT_div: "r < 0x20 \<Longrightarrow> EPT ep r div 0x20 = 8 + unat ep" "r < 0x20 \<Longrightarrow> EPT ep r mod 0x20 = r"
proof -
  have e: "EPT ep r = 0x20 * (8 + unat ep) + r" by (simp add: EPT_def)
  show "r < 0x20 \<Longrightarrow> EPT ep r div 0x20 = 8 + unat ep" "r < 0x20 \<Longrightarrow> EPT ep r mod 0x20 = r"
    unfolding e by (simp_all del: distrib_left_numeral)
qed

lemma EPT_inj: "r < 0x20 \<Longrightarrow> r' < 0x20 \<Longrightarrow> EPT ep r = EPT ep' r' \<longleftrightarrow> ep = ep' \<and> r = r'"
  by (metis EPT_div add_left_cancel word_unat_eq_iff)

lemma dir_bit: "drop_bit 3 (v AND EPT_DIR) \<noteq> 0 \<longleftrightarrow> v AND EPT_DIR \<noteq> 0"
proof -
  have "drop_bit 3 (v AND EPT_DIR) = of_bool (bit v 3)"
    unfolding field_masks field_mask by (auto simp: field_def bit_eq_iff bit_simps bit_iff_odd_drop_bit [of v 3])
  moreover have "v AND EPT_DIR \<noteq> 0 \<longleftrightarrow> bit v 3" using and_exp_eq_0_iff [of v 3] by simp
  ultimately show ?thesis by simp
qed

lemma cfg_of_Wr_bits:
  "cfg_of ep' (Wr_bits hw (EPT ep EPTCFG) m x s) =
     (if ep' = ep then hw (trace s) UDPHS (EPT ep EPTCFG) AND NOT m OR x AND m else cfg_of ep' s)"
  by (auto simp: cfg_of_def Wr_bits_def rmw_def rd_def wr_def EPT_inj)

lemma cfg_of_configure:
  assumes "type < 4" "dir < 2" "bank < 4" "nb < 4" "udd_format_endpoint_size sz < 8" "p + n \<le> 10"
  shows "field p n (cfg_of ep (udd_configure_endpoint hw ep type dir sz bank nb s)) =
    field p n (cfg_word type dir (udd_format_endpoint_size sz) bank nb)"
proof (rule field_cong [OF _ assms(6)])
  have "(push_bit 4 type AND EPT_TYPE_Msk) OR (push_bit 3 dir AND EPT_DIR) OR udd_format_endpoint_size sz
        OR (push_bit 6 bank AND BK_NUMBER_Msk) OR (push_bit 8 nb AND NB_TRANS_Msk)
      = cfg_word type dir (udd_format_endpoint_size sz) bank nb"
    unfolding field_masks cfg_word_def using assms fit_mask [of dir 1 3] by (simp add: fit_mask)
  then have "cfg_of ep (udd_configure_endpoint hw ep type dir sz bank nb s) =
      hw (trace s) UDPHS (EPT ep EPTCFG) AND NOT (mask 10) OR
      cfg_word type dir (udd_format_endpoint_size sz) bank nb AND mask 10"
    unfolding udd_configure_endpoint_def cfg_mask by (simp add: cfg_of_Wr_bits)
  then show "cfg_of ep (udd_configure_endpoint hw ep type dir sz bank nb s) AND mask 10 =
      cfg_word type dir (udd_format_endpoint_size sz) bank nb AND mask 10"
    by (auto simp: bit_eq_iff bit_simps)
qed

lemma cfg_of_bank:
  assumes "cfg_hw hw ep" "bank < 4"
  shows "field 6 2 (cfg_of ep (udd_configure_endpoint_bank hw ep bank s)) = bank"
    "q + k \<le> 6 \<or> 8 \<le> q \<Longrightarrow> q + k \<le> 10 \<Longrightarrow>
       field q k (cfg_of ep (udd_configure_endpoint_bank hw ep bank s)) = field q k (cfg_of ep s)"
  unfolding udd_configure_endpoint_bank_def Wr_bitfield_def cfg_of_Wr_bits field_masks
  using assms field_set [of bank 2 6] field_other [of q k 6 2]
    field_cong [of "hw (trace s) UDPHS (EPT ep EPTCFG)" "cfg_of ep s" q k]
  by (simp_all add: cfg_hw_def cfg_of_def)

text \<open>
  \<^bold>\<open>C27\<close>. The configuration of an endpoint, on a controller whose configuration fields read back as
  they were written: after \<open>udd_configure_endpoint\<close>, and again after
  \<open>udd_configure_endpoint_bank\<close> changes the number of banks, the macros that read the
  configuration return the type, the direction, the banks and the transactions that were given, and as size the
  smallest power of two from 8 to 1024 that a packet of the requested size fits in. The
  configuration of every other endpoint is as it was.\<close>

theorem endpoint_configuration_round_trip:
  assumes "\<forall>t. hw t UDPHS (EPT ep EPTCFG) AND mask 10 = reg_of UDPHS (EPT ep EPTCFG) 0 t AND mask 10"
    and "type < 4" "dir < 2" "bank < 4" "bank' < 4" "nb < 4" "unat sz \<le> 1024"
    and s1: "s1 = udd_configure_endpoint hw ep type dir sz bank nb s"
    and s2: "s2 = udd_configure_endpoint_bank hw ep bank' s1"
  shows "fst (udd_get_endpoint_bank hw ep s1) = bank \<and> fst (udd_get_endpoint_bank hw ep s2) = bank' \<and>
    (\<forall>u \<in> {s1, s2}. fst (udd_get_endpoint_type hw ep u) = type \<and>
       fst (udd_get_endpoint_direction hw ep u) = dir \<and> fst (udd_get_endpoint_nb_tran hw ep u) = nb \<and>
       fst (Is_udd_endpoint_in hw ep u) = (dir = 1) \<and>
       (\<exists>k \<le> 7. fst (udd_get_endpoint_size hw ep u) = 2 ^ (k + 3) \<and>
          unat sz \<le> 2 ^ (k + 3) \<and> (k = 0 \<or> 2 ^ (k + 2) < unat sz)) \<and>
       (\<forall>e. e \<noteq> ep \<longrightarrow> cfg_of e u = cfg_of e s))"
proof -
  have h: "cfg_hw hw ep" using assms(1) by (simp add: cfg_hw_def)
  obtain k where k: "k \<le> 7" "unat sz \<le> 2 ^ (k + 3)" "k = 0 \<or> 2 ^ (k + 2) < unat sz"
    using size_code_exists [OF assms(7)] .
  note c = size_code [OF k]
  have 8: "udd_format_endpoint_size sz < 8" using k(1) unfolding c
    by (simp add: word_less_nat_alt unat_of_nat take_bit_nat_eq_self)
  have f: "field p n (cfg_of ep s1) = field p n (cfg_word type dir (of_nat k) bank nb)" if "p + n \<le> 10" for p n
    using cfg_of_configure [OF assms(2-4,6) 8 that] unfolding s1 c .
  note w = cfg_fields [OF assms(2,3) 8 [unfolded c] assms(4,6)]
  have f2: "field q j (cfg_of ep s2) = field q j (cfg_of ep s1)" if "q + j \<le> 6 \<or> 8 \<le> q" "q + j \<le> 10" for q j
    using cfg_of_bank(2) [OF h assms(5) that] unfolding s2 .
  note rd = cfg_read [OF h, of 4 2, folded field_masks, simplified] cfg_read [OF h, of 3 1, folded field_masks, simplified]
    cfg_read [OF h, of 0 3, folded field_masks, simplified] cfg_read [OF h, of 6 2, folded field_masks, simplified]
    cfg_read [OF h, of 8 2, folded field_masks, simplified]
  have b: "fst (udd_get_endpoint_bank hw ep s1) = bank" "fst (udd_get_endpoint_bank hw ep s2) = bank'"
    using cfg_of_bank(1) [OF h assms(5), of s1] by (simp_all add: rd f w s2)
  have o: "cfg_of e u = cfg_of e s" if "e \<noteq> ep" "u \<in> {s1, s2}" for e u
    using that by (auto simp: s1 s2 udd_configure_endpoint_def udd_configure_endpoint_bank_def Wr_bitfield_def cfg_of_Wr_bits)
  have g: "field 4 2 (cfg_of ep u) = type \<and> field 3 1 (cfg_of ep u) = dir \<and> field 0 3 (cfg_of ep u) = of_nat k \<and>
      field 8 2 (cfg_of ep u) = nb" if "u \<in> {s1, s2}" for u
    using that by (auto simp: f2 f w)
  have z: "fst (udd_get_endpoint_size hw ep u) = 2 ^ (k + 3)" if "u \<in> {s1, s2}" for u
    using g [OF that] k(1)
    by (simp add: udd_get_endpoint_size_def split_def rd unat_of_nat take_bit_nat_eq_self push_bit_eq_mult power_add)
  have i: "fst (Is_udd_endpoint_in hw ep u) = (dir = 1)" if "u \<in> {s1, s2}" for u
  proof -
    have "fst (Is_udd_endpoint_in hw ep u) \<longleftrightarrow> fst (udd_get_endpoint_direction hw ep u) \<noteq> 0"
      unfolding Is_udd_endpoint_in_def Tst_bits_def Rd_bitfield_def rd_def Let_def split_conv fst_conv dir_bit ..
    moreover have "unat dir = 0 \<or> unat dir = 1" using assms(3) by (auto simp: word_less_nat_alt)
    then have "dir = 0 \<or> dir = 1" by (metis unat_0 unat_1 word_unat_eq_iff)
    ultimately show ?thesis using g [OF that] by (auto simp: rd)
  qed
  show ?thesis using b o g z i k by (auto simp: rd)
qed

lemma endpoint_configuration_witness:
  "let hw = \<lambda>t p r. reg_of p r 0 t; s1 = udd_configure_endpoint hw 1 2 1 600 2 0 \<lparr>trace = []\<rparr>
   in fst (udd_get_endpoint_bank hw 1 s1) = 2 \<and>
     fst (udd_get_endpoint_bank hw 1 (udd_configure_endpoint_bank hw 1 1 s1)) = 1 \<and>
     (\<exists>k \<le> 7. fst (udd_get_endpoint_size hw 1 s1) = 2 ^ (k + 3) \<and>
        (600::nat) \<le> 2 ^ (k + 3) \<and> (k = 0 \<or> 2 ^ (k + 2) < (600::nat)))"
  using endpoint_configuration_round_trip [of "\<lambda>t p r. reg_of p r 0 t" 1 2 1 2 1 0 600 _ "\<lparr>trace = []\<rparr>", OF _ _ _ _ _ _ _ refl refl]
  unfolding Let_def by simp

section \<open>Flags of the endpoints\<close>

text \<open>
  \<open>ep_flags\<close> lists the families: the macro that enables, the one that disables, the one that
  tests, and the bit. \<open>NYET\<close> is inverted: the register says that it is disabled.
\<close>

type_synonym 'z family = "(u8 \<Rightarrow> 'z mach_scheme \<Rightarrow> 'z mach_scheme) \<times> (u8 \<Rightarrow> 'z mach_scheme \<Rightarrow> 'z mach_scheme) \<times>
  (u8 \<Rightarrow> 'z mach_scheme \<Rightarrow> bool \<times> 'z mach_scheme) \<times> nat"

definition ep_flags :: "hw \<Rightarrow> 'z family list" where
  "ep_flags hw =
     [(udd_enable_endpoint, udd_disable_endpoint, Is_udd_endpoint_enabled hw, 0),
      (udd_enable_endpoint_int_dis_hdma_req, udd_disable_endpoint_int_dis_hdma_req,
       Is_udd_endpoint_int_dis_hdma_req_enabled hw, 3),
      (udd_disable_nyet, udd_enable_nyet, Is_udd_nyet_disabled hw, 4),
      (udd_enable_out_received_interrupt, udd_disable_out_received_interrupt, Is_udd_out_received_interrupt_enabled hw, 9),
      (udd_enable_in_send_interrupt, udd_disable_in_send_interrupt, Is_udd_in_send_interrupt_enabled hw, 10),
      (udd_enable_tx_complt_interrupt, udd_disable_tx_complt_interrupt, Is_udd_tx_complt_interrupt_enabled hw, 10),
      (udd_enable_tx_pkt_ready_interrupt, udd_disable_tx_pkt_ready_interrupt, Is_udd_tx_pkt_ready_interrupt_enabled hw, 11),
      (udd_enable_errtran_interrupt, udd_disable_errtran_interrupt, Is_udd_errtran_interrupt_enabled hw, 11),
      (udd_enable_setup_received_interrupt, udd_disable_setup_received_interrupt,
       Is_udd_setup_received_interrupt_enabled hw, 12),
      (udd_enable_errflow_interrupt, udd_disable_errflow_interrupt, Is_udd_errflow_interrupt_enabled hw, 12),
      (udd_enable_stall_interrupt, udd_disable_stall_interrupt, Is_udd_stall_interrupt_enabled hw, 13),
      (udd_enable_crc_error_interrupt, udd_disable_crc_error_interrupt, Is_udd_crc_error_interrupt_enabled hw, 13),
      (udd_enable_nb_tran_interrupt, udd_disable_nb_tran_interrupt, Is_udd_nb_tran_interrupt_enabled hw, 13),
      (udd_enable_nak_in_interrupt, udd_disable_nak_in_interrupt, Is_udd_nak_in_interrupt_enabled hw, 14),
      (udd_enable_flush_error_interrupt, udd_disable_flush_error_interrupt, Is_udd_flush_error_interrupt_enabled hw, 14),
      (udd_enable_nak_out_interrupt, udd_disable_nak_out_interrupt, Is_udd_nak_out_interrupt_enabled hw, 15),
      (udd_enable_bank_interrupt, udd_disable_bank_interrupt, Is_udd_bank_interrupt_enabled hw, 18),
      (udd_enable_short_packet_interrupt, udd_disable_short_packet_interrupt, Is_udd_short_packet_interrupt_enabled hw, 31)]"

lemma family_writes:
  assumes "(e, d, t, b) \<in> set (ep_flags hw)"
  shows "e ep s = wr UDPHS (EPT ep EPTCTLENB) (2 ^ b) s" "d ep s = wr UDPHS (EPT ep EPTCTLDIS) (2 ^ b) s"
    "t ep s = Tst_bits hw (EPT ep EPTCTL) (2 ^ b) s" "b < 32"
  using assms by (auto simp: ep_flags_def Is_udd_endpoint_enabled_def)

definition flags_of :: "'z mach_scheme \<Rightarrow> (u8 \<times> nat) set" where
  "flags_of s = {(ep, b). bit (status_of (EPT ep EPTCTLENB) (EPT ep EPTCTLDIS) UDPHS (trace s)) b}"

definition switch :: "('z family \<times> bool \<times> u8) list \<Rightarrow> 'z mach_scheme \<Rightarrow> 'z mach_scheme" where
  "switch ops = fold (\<lambda>((e, d, _, _), on, ep). if on then e ep else d ep) ops"

definition switched :: "('z family \<times> bool \<times> u8) list \<Rightarrow> (u8 \<times> nat) set \<Rightarrow> (u8 \<times> nat) set" where
  "switched ops = fold (\<lambda>((_, _, _, b), on, ep) F. if on then insert (ep, b) F else F - {(ep, b)}) ops"

lemma flags_of_wr:
  "b < 32 \<Longrightarrow> flags_of (wr UDPHS (EPT ep EPTCTLENB) (2 ^ b) s) = insert (ep, b) (flags_of s)"
  "b < 32 \<Longrightarrow> flags_of (wr UDPHS (EPT ep EPTCTLDIS) (2 ^ b) s) = flags_of s - {(ep, b)}"
  by (auto simp: flags_of_def wr_def EPT_inj bit_simps split: if_splits dest: bit32)

lemma switch_simps:
  "switch [] s = s" "switch (((e, d, t, b), on, ep) # ops) s = switch ops (if on then e ep s else d ep s)"
  "switched [] F = F" "switched (((e, d, t, b), on, ep) # ops) F = switched ops (if on then insert (ep, b) F else F - {(ep, b)})"
  by (simp_all add: switch_def switched_def)

lemma flags_of_switch: "set (map fst ops) \<subseteq> set (ep_flags hw) \<Longrightarrow> flags_of (switch ops s) = switched ops (flags_of s)"
proof (induction ops arbitrary: s)
  case (Cons x ops)
  obtain e d t b on ep where x: "x = ((e, d, t, b), on, ep)" by (cases x) auto
  then have f: "(e, d, t, b) \<in> set (ep_flags hw)" using Cons.prems by auto
  show ?case using Cons by (simp add: x switch_simps family_writes [OF f] flags_of_wr)
qed (simp add: switch_simps)

text \<open>
  \<open>udd_disable_endpoint_bank_autoswitch\<close> reads and rewrites the register that clears flags, where a
  bit has to be written as 1. Whatever the register reads as, the flag for automatic switching of banks
  is afterwards what it was.
\<close>

lemma bank_autoswitch_not_disabled:
  "(ep, 1) \<in> flags_of (udd_disable_endpoint_bank_autoswitch hw ep s) \<longleftrightarrow> (ep, 1) \<in> flags_of s"
  "(ep, 1) \<in> flags_of (udd_enable_endpoint_bank_autoswitch hw ep s)"
  using bit_exp_iff [of 1 1, where 'a = "32 word"]
  by (simp_all add: flags_of_def udd_disable_endpoint_bank_autoswitch_def udd_enable_endpoint_bank_autoswitch_def
      Clr_bits_def Set_bits_def rmw_def rd_def wr_def EPT_inj bit_simps)

text \<open>
  \<^bold>\<open>C28\<close>. The flags of the endpoints, on a controller whose control registers set and clear bits as
  documented: whatever endpoints and interrupts the macros enable and disable, in any order, the
  flags that are set afterwards are those of a set to which enabling adds a pair of an endpoint and a bit,
  and from which disabling removes it; every test macro answers whether its pair is in the set, and
  changes nothing. Endpoints do not disturb one another, and neither do families, save those that share a bit
  because they belong to different types of endpoint. One macro is left out of the families, because
  it does not do what it says: \<open>udd_disable_endpoint_bank_autoswitch\<close> leaves its flag as it was.\<close>

theorem endpoint_flags_refine_set:
  assumes "\<forall>ep t. hw t UDPHS (EPT ep EPTCTL) = status_of (EPT ep EPTCTLENB) (EPT ep EPTCTLDIS) UDPHS t"
    and "set (map fst ops) \<subseteq> set (ep_flags hw)"
  shows "flags_of (switch ops s) = switched ops (flags_of s) \<and>
    (\<forall>(e, d, t, b) \<in> set (ep_flags hw). \<forall>ep.
       fst (t ep (switch ops s)) = ((ep, b) \<in> switched ops (flags_of s)) \<and>
       flags_of (snd (t ep (switch ops s))) = flags_of (switch ops s)) \<and>
    (\<forall>ep. (ep, 1) \<in> flags_of (udd_disable_endpoint_bank_autoswitch hw ep s) \<longleftrightarrow> (ep, 1) \<in> flags_of s)"
proof -
  have t: "fst (t ep u) = ((ep, b) \<in> flags_of u) \<and> flags_of (snd (t ep u)) = flags_of u"
    if "(e, d, t, b) \<in> set (ep_flags hw)" for e d t b ep u
    unfolding family_writes(3) [OF that] using assms(1)
    by (simp add: Tst_bits_def rd_def flags_of_def)
  show ?thesis unfolding flags_of_switch [OF assms(2)] bank_autoswitch_not_disabled
    by (auto simp: t flags_of_switch [OF assms(2)])
qed

lemma endpoint_flags_witness:
  "let hw = \<lambda>t p r. status_of (r - 8) (r - 4) p t;
       ops = [(ep_flags hw ! 4, True, 1), (ep_flags hw ! 4, True, 2), (ep_flags hw ! 10, True, 1), (ep_flags hw ! 4, False, 1)]
   in flags_of (switch ops \<lparr>trace = []\<rparr>) = switched ops {} \<and>
      \<not> fst (Is_udd_in_send_interrupt_enabled hw 1 (switch ops \<lparr>trace = []\<rparr>))"
proof -
  define hw :: hw where "hw = (\<lambda>t p r. status_of (r - 8) (r - 4) p t)"
  define ops :: "(unit family \<times> bool \<times> u8) list" where
    "ops = [(ep_flags hw ! 4, True, 1), (ep_flags hw ! 4, True, 2), (ep_flags hw ! 10, True, 1), (ep_flags hw ! 4, False, 1)]"
  have h: "\<forall>ep t. hw t UDPHS (EPT ep EPTCTL) = status_of (EPT ep EPTCTLENB) (EPT ep EPTCTLDIS) UDPHS t"
    by (simp add: hw_def EPT_def)
  have o: "set (map fst ops) \<subseteq> set (ep_flags hw)" by (simp add: ops_def ep_flags_def)
  have f: "flags_of \<lparr>trace = []\<rparr> = {}" by (simp add: flags_of_def)
  note r = endpoint_flags_refine_set [OF h o, of "\<lparr>trace = []\<rparr>", unfolded f]
  have m: "ep_flags hw ! 4 \<in> set (ep_flags hw)" by (simp add: ep_flags_def)
  show ?thesis unfolding Let_def hw_def [symmetric] ops_def [symmetric] using r
    by (simp add: ep_flags_def switched_def ops_def)
qed

end
