(* ===== verification/Usb_Descriptors.thy ===== *)
theory Usb_Descriptors
  imports Liveness
begin

text \<open>
  The descriptors of the device as the structures that the sources declare: the types of
  \<^verbatim>\<open>src/asf/common/services/usb/usb_protocol.h\<close>, the initialisers of \<^verbatim>\<open>udi_vendor.h\<close> and
  \<^verbatim>\<open>udi_vendor_desc.c\<close> for every choice of endpoints that \<^verbatim>\<open>conf_usb.h\<close> can make, and the
  bytes of these structures. Shown: the bytes of this firmware's choice are the lists that \<open>Udi_Vendor\<close> has;
  every choice gives a well-formed configuration; the searches of \<open>Udc\<close> find in any list of
  descriptors what a search of the list finds; and enabling the interface allocates the endpoints of the structure.
\<close>

section \<open>The device descriptor and the qualifier\<close>

text \<open>
  The structures are packed, and their 16-bit fields are stored with the low byte first. Field names
  recur from structure to structure, so each structure is followed by what uses its fields.
\<close>

definition le16 :: "u16 \<Rightarrow> u8 list" where "le16 w = [ucast w, ucast (drop_bit 8 w)]"

record usb_dev_desc_t =
  bLength :: u8
  bDescriptorType :: u8
  bcdUSB :: u16
  bDeviceClass :: u8
  bDeviceSubClass :: u8
  bDeviceProtocol :: u8
  bMaxPacketSize0 :: u8
  idVendor :: u16
  idProduct :: u16
  bcdDevice :: u16
  iManufacturer :: u8
  iProduct :: u8
  iSerialNumber :: u8
  bNumConfigurations :: u8

definition dev_bytes :: "usb_dev_desc_t \<Rightarrow> u8 list" where
  "dev_bytes d = [bLength d, bDescriptorType d] @ le16 (bcdUSB d) @
     [bDeviceClass d, bDeviceSubClass d, bDeviceProtocol d, bMaxPacketSize0 d] @
     le16 (idVendor d) @ le16 (idProduct d) @ le16 (bcdDevice d) @
     [iManufacturer d, iProduct d, iSerialNumber d, bNumConfigurations d]"

definition udc_device_desc_t :: usb_dev_desc_t where
  "udc_device_desc_t =
     \<lparr>bLength = 18, bDescriptorType = 1, bcdUSB = 0x200, bDeviceClass = 0, bDeviceSubClass = 0,
      bDeviceProtocol = 0, bMaxPacketSize0 = 64, idVendor = 0x064B, idProduct = 0x784C,
      bcdDevice = push_bit 8 1 OR 0, iManufacturer = 1, iProduct = 2, iSerialNumber = 3, bNumConfigurations = 1\<rparr>"

record usb_dev_qual_desc_t =
  bLength :: u8
  bDescriptorType :: u8
  bcdUSB :: u16
  bDeviceClass :: u8
  bDeviceSubClass :: u8
  bDeviceProtocol :: u8
  bMaxPacketSize0 :: u8
  bNumConfigurations :: u8
  bReserved :: u8

definition qual_bytes :: "usb_dev_qual_desc_t \<Rightarrow> u8 list" where
  "qual_bytes d = [bLength d, bDescriptorType d] @ le16 (bcdUSB d) @
     [bDeviceClass d, bDeviceSubClass d, bDeviceProtocol d, bMaxPacketSize0 d, bNumConfigurations d, bReserved d]"

definition udc_device_qual_t :: usb_dev_qual_desc_t where
  "udc_device_qual_t =
     \<lparr>bLength = 10, bDescriptorType = 6, bcdUSB = 0x200, bDeviceClass = 0, bDeviceSubClass = 0,
      bDeviceProtocol = 0, bMaxPacketSize0 = 64, bNumConfigurations = 1, bReserved = 0\<rparr>"

lemma device_bytes: "dev_bytes udc_device_desc_t = udc_device_desc" "qual_bytes udc_device_qual_t = udc_device_qual"
  by (simp_all add: dev_bytes_def qual_bytes_def udc_device_desc_t_def udc_device_qual_t_def le16_def
      udc_device_desc_def udc_device_qual_def)

section \<open>The configuration\<close>

text \<open>
  \<open>usb_sizes\<close>: the packet sizes of the three kinds of endpoints at one speed. A kind is present if its size at
  full speed is not 0.
\<close>

record usb_sizes =
  EPS_SIZE_INT :: u16
  EPS_SIZE_BULK :: u16
  EPS_SIZE_ISO :: u16

definition UDI_VENDOR_EPS_SIZE_FS :: usb_sizes where
  "UDI_VENDOR_EPS_SIZE_FS = \<lparr>EPS_SIZE_INT = 0, EPS_SIZE_BULK = 64, EPS_SIZE_ISO = 0\<rparr>"

definition UDI_VENDOR_EPS_SIZE_HS :: usb_sizes where
  "UDI_VENDOR_EPS_SIZE_HS = \<lparr>EPS_SIZE_INT = 0, EPS_SIZE_BULK = 512, EPS_SIZE_ISO = 0\<rparr>"

text \<open>The number of endpoints, which \<^verbatim>\<open>udi_vendor_conf.h\<close> also makes the highest endpoint that the driver serves.\<close>

definition UDI_VENDOR_EP_NB :: "usb_sizes \<Rightarrow> nat" where
  "UDI_VENDOR_EP_NB fs =
     (if EPS_SIZE_INT fs \<noteq> 0 then 2 else 0) + (if EPS_SIZE_BULK fs \<noteq> 0 then 2 else 0) + (if EPS_SIZE_ISO fs \<noteq> 0 then 2 else 0)"

record usb_conf_desc_t =
  bLength :: u8
  bDescriptorType :: u8
  wTotalLength :: u16
  bNumInterfaces :: u8
  bConfigurationValue :: u8
  iConfiguration :: u8
  bmAttributes :: u8
  bMaxPower :: u8

definition conf_bytes :: "usb_conf_desc_t \<Rightarrow> u8 list" where
  "conf_bytes d = [bLength d, bDescriptorType d] @ le16 (wTotalLength d) @
     [bNumInterfaces d, bConfigurationValue d, iConfiguration d, bmAttributes d, bMaxPower d]"

text \<open>\<open>sizeof (udc_desc_t)\<close> is 9 for the configuration, 9 for each interface and 7 for each endpoint. The type is a parameter, because the core rewrites it.\<close>

definition USB_CONFIG_MAX_POWER :: "nat \<Rightarrow> nat" where "USB_CONFIG_MAX_POWER mA = (mA + 1) div 2"

definition udc_conf :: "u8 \<Rightarrow> usb_sizes \<Rightarrow> usb_conf_desc_t" where
  "udc_conf ty fs =
     \<lparr>bLength = 9, bDescriptorType = ty, wTotalLength = of_nat (9 + 9 + 9 + 7 * UDI_VENDOR_EP_NB fs),
      bNumInterfaces = 1, bConfigurationValue = 1, iConfiguration = 0, bmAttributes = push_bit 7 1 OR push_bit 6 0,
      bMaxPower = of_nat (USB_CONFIG_MAX_POWER 500)\<rparr>"

record usb_iface_desc_t =
  bLength :: u8
  bDescriptorType :: u8
  bInterfaceNumber :: u8
  bAlternateSetting :: u8
  bNumEndpoints :: u8
  bInterfaceClass :: u8
  bInterfaceSubClass :: u8
  bInterfaceProtocol :: u8
  iInterface :: u8

definition iface_bytes :: "usb_iface_desc_t \<Rightarrow> u8 list" where
  "iface_bytes d = [bLength d, bDescriptorType d, bInterfaceNumber d, bAlternateSetting d, bNumEndpoints d,
     bInterfaceClass d, bInterfaceSubClass d, bInterfaceProtocol d, iInterface d]"

definition vendor_iface0 :: usb_iface_desc_t where
  "vendor_iface0 =
     \<lparr>bLength = 9, bDescriptorType = USB_DT_INTERFACE, bInterfaceNumber = 0, bAlternateSetting = 0, bNumEndpoints = 0,
      bInterfaceClass = 0xFF, bInterfaceSubClass = 0xFF, bInterfaceProtocol = 0xFF, iInterface = 0\<rparr>"

definition vendor_iface1 :: "usb_sizes \<Rightarrow> usb_iface_desc_t" where
  "vendor_iface1 fs =
     \<lparr>bLength = 9, bDescriptorType = USB_DT_INTERFACE, bInterfaceNumber = 0, bAlternateSetting = 1,
      bNumEndpoints = of_nat (UDI_VENDOR_EP_NB fs),
      bInterfaceClass = 0xFF, bInterfaceSubClass = 0xFF, bInterfaceProtocol = 0xFF, iInterface = 0\<rparr>"

record usb_ep_desc_t =
  bLength :: u8
  bDescriptorType :: u8
  bEndpointAddress :: u8
  bmAttributes :: u8
  wMaxPacketSize :: u16
  bInterval :: u8

definition ep_bytes :: "usb_ep_desc_t \<Rightarrow> u8 list" where
  "ep_bytes d = [bLength d, bDescriptorType d, bEndpointAddress d, bmAttributes d] @ le16 (wMaxPacketSize d) @ [bInterval d]"

definition UDI_VENDOR_EPS_INT_DESC :: "u16 \<Rightarrow> usb_ep_desc_t list" where
  "UDI_VENDOR_EPS_INT_DESC sz =
     [\<lparr>bLength = 7, bDescriptorType = USB_DT_ENDPOINT, bEndpointAddress = 3 OR 0x80, bmAttributes = 3, wMaxPacketSize = sz, bInterval = 1\<rparr>,
      \<lparr>bLength = 7, bDescriptorType = USB_DT_ENDPOINT, bEndpointAddress = 4 OR 0, bmAttributes = 3, wMaxPacketSize = sz, bInterval = 1\<rparr>]"

definition UDI_VENDOR_EPS_BULK_DESC :: "u16 \<Rightarrow> usb_ep_desc_t list" where
  "UDI_VENDOR_EPS_BULK_DESC sz =
     [\<lparr>bLength = 7, bDescriptorType = USB_DT_ENDPOINT, bEndpointAddress = UDI_VENDOR_EP_BULK_IN, bmAttributes = 2, wMaxPacketSize = sz, bInterval = 0\<rparr>,
      \<lparr>bLength = 7, bDescriptorType = USB_DT_ENDPOINT, bEndpointAddress = UDI_VENDOR_EP_BULK_OUT, bmAttributes = 2, wMaxPacketSize = sz, bInterval = 0\<rparr>]"

definition UDI_VENDOR_EPS_ISO_DESC :: "u16 \<Rightarrow> usb_ep_desc_t list" where
  "UDI_VENDOR_EPS_ISO_DESC sz =
     [\<lparr>bLength = 7, bDescriptorType = USB_DT_ENDPOINT, bEndpointAddress = 5 OR 0x80, bmAttributes = 1, wMaxPacketSize = sz, bInterval = 1\<rparr>,
      \<lparr>bLength = 7, bDescriptorType = USB_DT_ENDPOINT, bEndpointAddress = 6 OR 0, bmAttributes = 1, wMaxPacketSize = sz, bInterval = 1\<rparr>]"

text \<open>The endpoints of the vendor interface are a list here: which fields the structure has is a compile-time choice.\<close>

record udi_vendor_desc_t =
  iface0 :: usb_iface_desc_t
  iface1 :: usb_iface_desc_t
  eps :: "usb_ep_desc_t list"

definition UDI_VENDOR_DESC :: "usb_sizes \<Rightarrow> usb_sizes \<Rightarrow> udi_vendor_desc_t" where
  "UDI_VENDOR_DESC fs sp =
     \<lparr>iface0 = vendor_iface0, iface1 = vendor_iface1 fs,
      eps = (if EPS_SIZE_INT fs \<noteq> 0 then UDI_VENDOR_EPS_INT_DESC (EPS_SIZE_INT sp) else []) @
            (if EPS_SIZE_BULK fs \<noteq> 0 then UDI_VENDOR_EPS_BULK_DESC (EPS_SIZE_BULK sp) else []) @
            (if EPS_SIZE_ISO fs \<noteq> 0 then UDI_VENDOR_EPS_ISO_DESC (EPS_SIZE_ISO sp) else [])\<rparr>"

record udc_desc_t =
  conf :: usb_conf_desc_t
  udi_vendor :: udi_vendor_desc_t

text \<open>The configuration for a speed: \<open>fs\<close> says which endpoints there are, \<open>sp\<close> how large they are at this speed.\<close>

definition udc_desc_struct :: "u8 \<Rightarrow> usb_sizes \<Rightarrow> usb_sizes \<Rightarrow> udc_desc_t" where
  "udc_desc_struct ty fs sp = \<lparr>conf = udc_conf ty fs, udi_vendor = UDI_VENDOR_DESC fs sp\<rparr>"

definition pieces :: "udc_desc_t \<Rightarrow> u8 list list" where
  "pieces d = conf_bytes (conf d) # iface_bytes (iface0 (udi_vendor d)) # iface_bytes (iface1 (udi_vendor d)) #
     map ep_bytes (eps (udi_vendor d))"

lemmas desc_defs = pieces_def udc_desc_struct_def UDI_VENDOR_DESC_def UDI_VENDOR_EPS_INT_DESC_def
  UDI_VENDOR_EPS_BULK_DESC_def UDI_VENDOR_EPS_ISO_DESC_def ep_bytes_def vendor_iface0_def vendor_iface1_def
  iface_bytes_def udc_conf_def conf_bytes_def USB_CONFIG_MAX_POWER_def UDI_VENDOR_EP_NB_def le16_def

lemma configuration_bytes:
  "concat (pieces (udc_desc_struct ty UDI_VENDOR_EPS_SIZE_FS UDI_VENDOR_EPS_SIZE_FS)) = udc_desc ty 64 0"
  "concat (pieces (udc_desc_struct ty UDI_VENDOR_EPS_SIZE_FS UDI_VENDOR_EPS_SIZE_HS)) = udc_desc ty 0 2"
  by (simp_all add: desc_defs UDI_VENDOR_EPS_SIZE_FS_def UDI_VENDOR_EPS_SIZE_HS_def udc_desc_def udi_vendor_desc_def)

section \<open>Lists of descriptors\<close>

text \<open>
  A descriptor in a list: its first byte is its length, at least 2, and interfaces and endpoints have the bytes that
  the core reads. \<open>cut\<close> is how a host takes the bytes of a configuration apart.
\<close>

definition piece :: "u8 list \<Rightarrow> bool" where
  "piece d \<longleftrightarrow> 2 \<le> length d \<and> unat (d ! 0) = length d \<and> (d ! 1 = USB_DT_INTERFACE \<longrightarrow> 4 \<le> length d) \<and>
     (d ! 1 = USB_DT_ENDPOINT \<longrightarrow> 6 \<le> length d)"

function cut :: "u8 list \<Rightarrow> u8 list list option" where
  "cut [] = Some []"
| "cut (b # bs) =
     (if unat b < 2 \<or> length bs < unat b - 1 then None
      else map_option ((#) (take (unat b) (b # bs))) (cut (drop (unat b) (b # bs))))"
  by pat_completeness auto
termination by (relation "measure length") auto

lemma cut_piece: "piece d \<Longrightarrow> cut (d @ bs) = map_option ((#) d) (cut bs)"
  by (cases d) (auto simp: piece_def)

lemma cut_concat: "list_all piece ds \<Longrightarrow> cut (concat ds) = Some ds"
  by (induction ds) (simp_all add: cut_piece)

text \<open>The settings of the interfaces, each with the descriptors that follow it.\<close>

fun settings :: "u8 list list \<Rightarrow> (u8 list \<times> u8 list list) list" where
  "settings [] = []"
| "settings (d # ds) =
     (if d ! 1 = USB_DT_INTERFACE then (d, takeWhile (\<lambda>x. x ! 1 \<noteq> USB_DT_INTERFACE) ds) # settings ds else settings ds)"

text \<open>
  What a host requires of a configuration: the whole can be taken apart, starts with the header, is as long as the header
  says, has as many interfaces as it says, and each setting has as many endpoints as it says, with different
  numbers from 1 to 15 and directions.
\<close>

definition well_formed_conf :: "u8 list \<Rightarrow> bool" where
  "well_formed_conf bs =
     (case cut bs of
        Some (c # ds) \<Rightarrow>
          length c = 9 \<and> c ! 1 \<in> {2, 7} \<and> unat (c ! 2) + 256 * unat (c ! 3) = length bs \<and>
          card (set (map (\<lambda>(i, _). i ! 2) (settings ds))) = unat (c ! 4) \<and>
          distinct (map (\<lambda>(i, _). (i ! 2, i ! 3)) (settings ds)) \<and>
          (\<forall>(i, es) \<in> set (settings ds). length i = 9 \<and> unat (i ! 4) = length es \<and>
             (\<forall>e \<in> set es. length e = 7 \<and> e ! 1 = USB_DT_ENDPOINT \<and> e ! 2 AND 0x70 = 0 \<and> e ! 2 AND 0xF \<noteq> 0) \<and>
             distinct (map (\<lambda>e. e ! 2) es))
      | _ \<Rightarrow> False)"

lemma pieces_ok: "ty \<noteq> 4 \<Longrightarrow> list_all piece (pieces (udc_desc_struct ty fs sp))"
  by (simp add: desc_defs piece_def)

section \<open>The searches of the core\<close>

definition is_iface :: "u8 \<Rightarrow> u8 \<Rightarrow> u8 list \<Rightarrow> bool" where
  "is_iface i a d \<longleftrightarrow> d ! 1 = USB_DT_INTERFACE \<and> d ! 2 = i \<and> d ! 3 = a"

lemma piece_nth:
  "piece d \<Longrightarrow> (pre @ d @ bs) ! length pre = d ! 0"
  "piece d \<Longrightarrow> (pre @ d @ bs) ! Suc (length pre) = d ! 1"
  "piece d \<Longrightarrow> d ! 1 = USB_DT_INTERFACE \<Longrightarrow> (pre @ d @ bs) ! Suc (Suc (length pre)) = d ! 2"
  "piece d \<Longrightarrow> d ! 1 = USB_DT_INTERFACE \<Longrightarrow> (pre @ d @ bs) ! Suc (Suc (Suc (length pre))) = d ! 3"
  "piece d \<Longrightarrow> d ! 1 = USB_DT_INTERFACE \<Longrightarrow> (d @ bs) ! 3 = d ! 3"
  by (auto simp: piece_def nth_append numeral_eq_Suc)

lemma piece_length: "piece d \<Longrightarrow> unat (d ! 0) = length d" "piece d \<Longrightarrow> 0 < length d"
  by (auto simp: piece_def)

lemma find_iface_pieces:
  "list_all piece ds \<Longrightarrow>
     find_iface (pre @ concat ds) (length pre + length (concat ds)) i a (length pre) =
     Some (list_ex (is_iface i a) ds, length pre + length (concat (takeWhile (\<lambda>d. \<not> is_iface i a d) ds)))"
proof (induction ds arbitrary: pre)
  case Nil
  show ?case by (subst find_iface.simps) simp
next
  case (Cons d ds)
  then have d: "piece d" by simp
  have step: "find_iface (pre @ d @ concat ds) (length pre + length (d @ concat ds)) i a (length pre) =
      (if is_iface i a d then Some (True, length pre)
       else find_iface (pre @ d @ concat ds) (length pre + length (d @ concat ds)) i a (length (pre @ d)))"
    using piece_length [OF d] piece_nth [OF d]
    by (subst find_iface.simps) (cases "d ! 1 = USB_DT_INTERFACE"; simp add: is_iface_def)
  show ?case
    using Cons.prems Cons.IH [of "pre @ d"] step by (cases "is_iface i a d") (simp_all add: add.assoc)
qed

lemma next_desc_pieces:
  "list_all piece ds \<Longrightarrow>
     next_desc (pre @ concat ds) (length pre + length (concat ds)) USB_DT_ENDPOINT (length pre) =
     Some (case dropWhile (\<lambda>d. d ! 1 \<noteq> USB_DT_INTERFACE \<and> d ! 1 \<noteq> USB_DT_ENDPOINT) ds of
         [] \<Rightarrow> None
       | d # _ \<Rightarrow> if d ! 1 = USB_DT_INTERFACE then None
           else Some (length pre + length (concat (takeWhile (\<lambda>d. d ! 1 \<noteq> USB_DT_INTERFACE \<and> d ! 1 \<noteq> USB_DT_ENDPOINT) ds))))"
proof (induction ds arbitrary: pre)
  case Nil
  show ?case by (subst next_desc.simps) simp
next
  case (Cons d ds)
  then have d: "piece d" by simp
  let ?n = "next_desc (pre @ d @ concat ds) (length pre + length (d @ concat ds)) USB_DT_ENDPOINT"
  have step: "?n (length pre) =
      (if d ! 1 = USB_DT_INTERFACE then Some None else if d ! 1 = USB_DT_ENDPOINT then Some (Some (length pre))
       else ?n (length (pre @ d)))"
    using piece_length [OF d] piece_nth [OF d] by (subst next_desc.simps) simp
  have IH: "?n (length (pre @ d)) = Some (case dropWhile (\<lambda>d. d ! 1 \<noteq> USB_DT_INTERFACE \<and> d ! 1 \<noteq> USB_DT_ENDPOINT) ds of
         [] \<Rightarrow> None
       | x # _ \<Rightarrow> if x ! 1 = USB_DT_INTERFACE then None
           else Some (length (pre @ d) + length (concat (takeWhile (\<lambda>d. d ! 1 \<noteq> USB_DT_INTERFACE \<and> d ! 1 \<noteq> USB_DT_ENDPOINT) ds))))"
    using Cons.IH [of "pre @ d"] Cons.prems by (simp add: add.assoc)
  show ?case
  proof (cases "d ! 1 = USB_DT_INTERFACE \<or> d ! 1 = USB_DT_ENDPOINT")
    case True
    then show ?thesis using step by auto
  next
    case False
    then show ?thesis using step IH
      by (cases "dropWhile (\<lambda>d. d ! 1 \<noteq> USB_DT_INTERFACE \<and> d ! 1 \<noteq> USB_DT_ENDPOINT) ds")
        (simp_all add: add.assoc del: dropWhile_eq_Nil_conv)
  qed
qed

text \<open>The endpoints of a setting: those among the descriptors after it, up to the next interface.\<close>

definition eps_after :: "u8 list list \<Rightarrow> u8 list list" where
  "eps_after ds = filter (\<lambda>d. d ! 1 = USB_DT_ENDPOINT) (takeWhile (\<lambda>d. d ! 1 \<noteq> USB_DT_INTERFACE) ds)"

lemma eps_after_skip:
  "\<forall>x \<in> set xs. x ! 1 \<noteq> USB_DT_INTERFACE \<and> x ! 1 \<noteq> USB_DT_ENDPOINT \<Longrightarrow> eps_after (xs @ ds) = eps_after ds"
  by (induction xs) (simp_all add: eps_after_def)

lemma eps_after_Cons:
  "eps_after (d # ds) = (if d ! 1 = USB_DT_INTERFACE then [] else if d ! 1 = USB_DT_ENDPOINT then d # eps_after ds else eps_after ds)"
  by (simp add: eps_after_def)

lemma next_desc_eps:
  assumes "list_all piece ds"
  shows "next_desc (pre @ concat ds) (length (pre @ concat ds)) USB_DT_ENDPOINT (length pre) = Some None \<and> eps_after ds = [] \<or>
    (\<exists>xs e es. ds = xs @ e # es \<and> eps_after ds = e # eps_after es \<and> e ! 1 = USB_DT_ENDPOINT \<and>
       next_desc (pre @ concat ds) (length (pre @ concat ds)) USB_DT_ENDPOINT (length pre) = Some (Some (length (pre @ concat xs))))"
proof -
  let ?P = "\<lambda>d :: u8 list. d ! 1 \<noteq> USB_DT_INTERFACE \<and> d ! 1 \<noteq> USB_DT_ENDPOINT"
  let ?xs = "takeWhile ?P ds"
  have x: "\<forall>x \<in> set ?xs. x ! 1 \<noteq> USB_DT_INTERFACE \<and> x ! 1 \<noteq> USB_DT_ENDPOINT" by (auto dest: set_takeWhileD)
  have s: "eps_after ds = eps_after (dropWhile ?P ds)"
    using eps_after_skip [OF x, of "dropWhile ?P ds"] by simp
  note n = next_desc_pieces [OF assms, of pre]
  show ?thesis
  proof (cases "dropWhile ?P ds")
    case Nil
    then show ?thesis using n s by (simp add: eps_after_def del: dropWhile_eq_Nil_conv)
  next
    case (Cons e es)
    have "dropWhile ?P ds \<noteq> []" unfolding Cons by simp
    from hd_dropWhile [OF this] have e: "\<not> ?P e" unfolding Cons list.sel .
    have d: "ds = ?xs @ e # es" using takeWhile_dropWhile_id [of ?P ds] unfolding Cons by (rule sym)
    show ?thesis
    proof (cases "e ! 1 = USB_DT_INTERFACE")
      case True
      then show ?thesis using n s unfolding Cons by (simp add: eps_after_Cons)
    next
      case False
      then have "e ! 1 = USB_DT_ENDPOINT" "eps_after ds = e # eps_after es"
        using e s unfolding Cons by (simp_all add: eps_after_Cons)
      moreover have "next_desc (pre @ concat ds) (length (pre @ concat ds)) USB_DT_ENDPOINT (length pre) =
          Some (Some (length (pre @ concat ?xs)))"
        using n False unfolding Cons by simp
      ultimately show ?thesis using d by blast
    qed
  qed
qed

section \<open>Enabling and disabling the interface\<close>

text \<open>The endpoints of a structure, allocated in their order until one fails, and freed.\<close>

primrec alloc_structs :: "hw \<Rightarrow> usb_ep_desc_t list \<Rightarrow> 'z usb_scheme \<Rightarrow> (bool \<times> 'z usb_scheme) option" where
  "alloc_structs hw [] s = Some (True, s)"
| "alloc_structs hw (e # es) s =
     do {
       (ok, s) \<leftarrow> udd_ep_alloc hw (bEndpointAddress e) (bmAttributes e) (wMaxPacketSize e) s;
       if ok then alloc_structs hw es s else Some (False, s)
     }"

definition free_structs :: "hw \<Rightarrow> usb_ep_desc_t list \<Rightarrow> 'z usb_scheme \<Rightarrow> 'z usb_scheme" where
  "free_structs hw es s = fold (\<lambda>e. udd_ep_free hw (bEndpointAddress e)) es s"

lemma le16_value: "ucast (ucast w :: u8) OR push_bit 8 (ucast (ucast (drop_bit 8 w) :: u8)) = w" for w :: u16
  by (rule bit_eqI) (auto simp: bit_simps not_less dest: bit_imp_le_length)

lemma ep_bytes_nth:
  "(pre @ ep_bytes e @ bs) ! Suc (Suc (length pre)) = bEndpointAddress e"
  "(ep_bytes e @ bs) ! 3 = bmAttributes e"
  "ucast ((ep_bytes e @ bs) ! 4) OR push_bit 8 (ucast ((ep_bytes e @ bs) ! 5)) = wMaxPacketSize e"
  using le16_value [of "wMaxPacketSize e"] by (simp_all add: ep_bytes_def le16_def nth_append numeral_eq_Suc)

lemma next_in_iface:
  assumes "list_all piece (d # ds)" "conf_desc s = pre @ d @ concat ds" "udc_get_eof_conf s = length (conf_desc s)"
    "eps_after ds = map ep_bytes es"
  shows "es = [] \<and> udc_next_desc_in_iface (length pre) USB_DT_ENDPOINT s = Some None \<or>
    (\<exists>q e es' xs ds'. es = e # es' \<and> eps_after ds' = map ep_bytes es' \<and> list_all piece (ep_bytes e # ds') \<and>
       conf_desc s = xs @ ep_bytes e @ concat ds' \<and> q = length xs \<and>
       udc_next_desc_in_iface (length pre) USB_DT_ENDPOINT s = Some (Some q))"
proof -
  have p: "piece d" "list_all piece ds" using assms(1) by simp_all
  have c: "udc_next_desc_in_iface (length pre) USB_DT_ENDPOINT s =
      next_desc ((pre @ d) @ concat ds) (length ((pre @ d) @ concat ds)) USB_DT_ENDPOINT (length (pre @ d))"
    using piece_nth(1) [OF p(1), of pre "concat ds"] piece_length(1) [OF p(1)]
    by (simp add: udc_next_desc_in_iface_def assms(2,3))
  show ?thesis
  proof (rule disjE [OF next_desc_eps [OF p(2), of "pre @ d", folded c]])
    assume "\<exists>xs e es. ds = xs @ e # es \<and> eps_after ds = e # eps_after es \<and> e ! 1 = USB_DT_ENDPOINT \<and>
       udc_next_desc_in_iface (length pre) USB_DT_ENDPOINT s = Some (Some (length ((pre @ d) @ concat xs)))"
    then obtain xs b bs where x: "ds = xs @ b # bs" "eps_after ds = b # eps_after bs"
      "udc_next_desc_in_iface (length pre) USB_DT_ENDPOINT s = Some (Some (length ((pre @ d) @ concat xs)))" by blast
    then obtain e es' where "es = e # es'" "b = ep_bytes e" "eps_after bs = map ep_bytes es'"
      using assms(4) by (cases es) auto
    moreover from this have "conf_desc s = ((pre @ d) @ concat xs) @ ep_bytes e @ concat bs" "list_all piece (ep_bytes e # bs)"
      using assms(2) p(2) x(1) by simp_all
    ultimately show ?thesis using x(3) by blast
  qed (use assms(4) in auto)
qed

lemma alloc_eps_structs:
  "list_all piece (d # ds) \<Longrightarrow> conf_desc s = pre @ d @ concat ds \<Longrightarrow> udc_get_eof_conf s = length (conf_desc s) \<Longrightarrow>
     eps_after ds = map ep_bytes es \<Longrightarrow> alloc_eps hw (length pre) s = alloc_structs hw es s"
proof (induction es arbitrary: d ds pre s)
  case Nil
  then show ?case using next_in_iface [OF Nil.prems] by (subst alloc_eps.simps) auto
next
  case (Cons e es)
  from next_in_iface [OF Cons.prems] obtain xs ds' where n:
      "eps_after ds' = map ep_bytes es" "list_all piece (ep_bytes e # ds')" "conf_desc s = xs @ ep_bytes e @ concat ds'"
      "udc_next_desc_in_iface (length pre) USB_DT_ENDPOINT s = Some (Some (length xs))" by auto
  have IH: "alloc_eps hw (length xs) t = alloc_structs hw es t"
    if "udd_ep_alloc hw (bEndpointAddress e) (bmAttributes e) (wMaxPacketSize e) s = Some (ok, t)" for ok t
  proof (rule Cons.IH [OF n(2) _ _ n(1)])
    have k: "conf_desc t = conf_desc s" using core_fields(8) [OF core_alloc [OF that]] by simp
    then show "conf_desc t = xs @ ep_bytes e @ concat ds'" using n(3) by simp
    show "udc_get_eof_conf t = length (conf_desc t)" using Cons.prems(3) k by (simp add: udc_get_eof_conf_def)
  qed
  show ?case
    by (subst alloc_eps.simps) (auto simp: n(3,4) ep_bytes_nth IH split: bind_splits)
qed

lemma free_eps_structs:
  "list_all piece (d # ds) \<Longrightarrow> conf_desc s = pre @ d @ concat ds \<Longrightarrow> udc_get_eof_conf s = length (conf_desc s) \<Longrightarrow>
     eps_after ds = map ep_bytes es \<Longrightarrow> free_eps hw (length pre) s = Some (free_structs hw es s)"
proof (induction es arbitrary: d ds pre s)
  case Nil
  then show ?case using next_in_iface [OF Nil.prems] by (subst free_eps.simps) (auto simp: free_structs_def)
next
  case (Cons e es)
  from next_in_iface [OF Cons.prems] obtain xs ds' where n:
      "eps_after ds' = map ep_bytes es" "list_all piece (ep_bytes e # ds')" "conf_desc s = xs @ ep_bytes e @ concat ds'"
      "udc_next_desc_in_iface (length pre) USB_DT_ENDPOINT s = Some (Some (length xs))" by auto
  let ?t = "udd_ep_free hw (bEndpointAddress e) s"
  have k: "conf_desc ?t = conf_desc s" by (rule core_fields(8) [OF core_free])
  have "free_eps hw (length xs) ?t = Some (free_structs hw es ?t)"
    by (rule Cons.IH [OF n(2) _ _ n(1)]) (use n(3) k Cons.prems(3) in \<open>simp_all add: udc_get_eof_conf_def\<close>)
  then show ?case
    by (subst free_eps.simps) (simp add: n(3,4) ep_bytes_nth free_structs_def)
qed

text \<open>The structure behind the current configuration.\<close>

definition current_sizes :: "'z usb_scheme \<Rightarrow> usb_sizes" where
  "current_sizes s = (case udc_ptr_conf s of FullSpeed \<Rightarrow> UDI_VENDOR_EPS_SIZE_FS | HighSpeed \<Rightarrow> UDI_VENDOR_EPS_SIZE_HS)"

definition setting_eps :: "u8 \<Rightarrow> 'z usb_scheme \<Rightarrow> usb_ep_desc_t list" where
  "setting_eps a s = (if a = 1 then eps (UDI_VENDOR_DESC UDI_VENDOR_EPS_SIZE_FS (current_sizes s)) else [])"

lemma conf_desc_pieces:
  assumes "conf_fs_type s \<noteq> 4" "conf_hs_type s \<noteq> 4"
  obtains ty where "ty \<noteq> 4" "conf_desc s = concat (pieces (udc_desc_struct ty UDI_VENDOR_EPS_SIZE_FS (current_sizes s)))"
  using that assms
  by (cases "udc_ptr_conf s")
    (simp_all add: conf_desc_def udc_desc_fs_def udc_desc_hs_def current_sizes_def configuration_bytes)

text \<open>\<open>setting_offset a\<close>: where the search for setting \<open>a\<close> of the interface ends, found or not.\<close>

definition setting_offset :: "u8 \<Rightarrow> nat" where
  "setting_offset a = (if a = 0 then 9 else if a = 1 then 18 else 41)"

lemma u8_le_1: "a \<le> 1 \<longleftrightarrow> a = 0 \<or> a = 1" for a :: u8
  by (auto simp: word_le_nat_alt word_unat_eq_iff)

lemma firmware_pieces:
  "pieces (udc_desc_struct ty UDI_VENDOR_EPS_SIZE_FS sp) =
     [[9, ty, 41, 0, 1, 1, 0, 0x80, 250], [9, 4, 0, 0, 0, 0xFF, 0xFF, 0xFF, 0], [9, 4, 0, 1, 2, 0xFF, 0xFF, 0xFF, 0],
      [7, 5, 0x81, 2] @ le16 (EPS_SIZE_BULK sp) @ [0], [7, 5, 2, 2] @ le16 (EPS_SIZE_BULK sp) @ [0]]"
  by (simp add: desc_defs UDI_VENDOR_EPS_SIZE_FS_def)

lemma length_le16 [simp]: "length (le16 w) = 2"
  by (simp add: le16_def)

lemma update_iface_pieces:
  assumes "conf_desc s = concat (pieces (udc_desc_struct ty UDI_VENDOR_EPS_SIZE_FS sp))" "ty \<noteq> 4"
    "udc_num_configuration s \<noteq> 0"
  shows "udc_update_iface_desc 0 a s = Some (a \<le> 1, s\<lparr>udc_ptr_iface := setting_offset a\<rparr>)"
    and "udc_get_eof_conf s = length (conf_desc s)"
proof -
  let ?ds = "pieces (udc_desc_struct ty UDI_VENDOR_EPS_SIZE_FS sp)"
  have l: "length (concat ?ds) = 41"
    by (simp add: firmware_pieces)
  have b: "concat ?ds ! 4 = 1" "concat ?ds ! 2 = 41" "concat ?ds ! 3 = 0"
    by (simp_all add: firmware_pieces)
  show e: "udc_get_eof_conf s = length (conf_desc s)" using l b by (simp add: udc_get_eof_conf_def assms(1))
  have f: "find_iface (concat ?ds) 41 0 a 0 = Some (a \<le> 1, setting_offset a)"
    using find_iface_pieces [OF pieces_ok [OF assms(2)], of "[]" UDI_VENDOR_EPS_SIZE_FS sp 0 a] assms(2) l
    by (auto simp: firmware_pieces is_iface_def setting_offset_def u8_le_1)
  show "udc_update_iface_desc 0 a s = Some (a \<le> 1, s\<lparr>udc_ptr_iface := setting_offset a\<rparr>)"
    using assms(3) f e l b by (simp add: udc_update_iface_desc_def assms(1))
qed

lemma setting_eps_eq: "setting_eps a s = (if a = 1 then UDI_VENDOR_EPS_BULK_DESC (EPS_SIZE_BULK (current_sizes s)) else [])"
  by (simp add: setting_eps_def UDI_VENDOR_DESC_def UDI_VENDOR_EPS_SIZE_FS_def)

text \<open>Where the endpoints of a setting are in the bytes of the configuration.\<close>

lemma setting_pieces:
  assumes "conf_desc s = concat (pieces (udc_desc_struct ty UDI_VENDOR_EPS_SIZE_FS (current_sizes s)))" "ty \<noteq> 4" "a \<le> 1"
  obtains pre d ds where "list_all piece (d # ds)" "conf_desc s = pre @ d @ concat ds" "length pre = setting_offset a"
    "eps_after ds = map ep_bytes (setting_eps a s)"
proof -
  let ?ds = "pieces (udc_desc_struct ty UDI_VENDOR_EPS_SIZE_FS (current_sizes s))"
  let ?k = "if a = 1 then 2 else 1"
  have n: "?ds = take ?k ?ds @ ?ds ! ?k # drop (Suc ?k) ?ds"
    by (intro id_take_nth_drop) (simp add: firmware_pieces)
  have p: "list_all piece (?ds ! ?k # drop (Suc ?k) ?ds)"
    using pieces_ok [OF assms(2), of UDI_VENDOR_EPS_SIZE_FS "current_sizes s"] by (subst (asm) n) simp
  have c: "conf_desc s = concat (take ?k ?ds) @ (?ds ! ?k) @ concat (drop (Suc ?k) ?ds)"
    unfolding assms(1) by (subst n) (simp only: concat_append concat.simps)
  have "length (concat (take ?k ?ds)) = setting_offset a"
    using assms(3) by (auto simp: firmware_pieces setting_offset_def u8_le_1)
  moreover have "eps_after (drop (Suc ?k) ?ds) = map ep_bytes (setting_eps a s)"
    using assms(3) by (auto simp: firmware_pieces setting_eps_eq eps_after_def u8_le_1 UDI_VENDOR_EPS_BULK_DESC_def ep_bytes_def)
  ultimately show ?thesis using that [OF p c] by blast
qed

text \<open>
  \<^bold>\<open>C13\<close>. Enabling and disabling the vendor interface, for every hardware. Enabling setting 0 or 1 allocates
  the endpoints that the structure of the current speed declares for the setting, in their order,
  each with its address, attributes and packet size, until one is refused; only then, and only if all are there, the
  interface is started. Another setting is refused. Disabling frees the endpoints of
  the setting in use, each once, and stops the interface. So the searches through the bytes of the configuration
  miss no endpoint, and end.\<close>

theorem interface_endpoints_allocated:
  assumes "udc_num_configuration s \<noteq> 0" "conf_fs_type s \<noteq> 4" "conf_hs_type s \<noteq> 4"
  shows "udc_iface_enable hw 0 a s =
      (if a \<le> 1 then
         do {
           (ok, t) \<leftarrow> alloc_structs hw (setting_eps a s) (s\<lparr>udc_ptr_iface := setting_offset a\<rparr>);
           Some (if ok then udi_vendor_enable t else (False, t))
         }
       else Some (False, s\<lparr>udc_ptr_iface := 41\<rparr>)) \<and>
    (udi_vendor_alternate_setting s \<le> 1 \<longrightarrow>
      udc_iface_disable hw 0 s =
        Some (True, udi_vendor_disable (free_structs hw (setting_eps (udi_vendor_alternate_setting s) s)
          (s\<lparr>udc_ptr_iface := setting_offset (udi_vendor_alternate_setting s)\<rparr>))))"
proof -
  obtain ty where ty: "ty \<noteq> 4" "conf_desc s = concat (pieces (udc_desc_struct ty UDI_VENDOR_EPS_SIZE_FS (current_sizes s)))"
    using conf_desc_pieces [OF assms(2,3)] .
  let ?s = "\<lambda>a. s\<lparr>udc_ptr_iface := setting_offset a\<rparr>"
  have c: "conf_desc (s\<lparr>udc_ptr_iface := p\<rparr>) = conf_desc s" for p
    by (simp add: conf_desc_def udc_desc_fs_def udc_desc_hs_def split: usb_speed.splits)
  have u: "udc_update_iface_desc 0 b s = Some (b \<le> 1, ?s b)" for b
    by (rule update_iface_pieces(1) [OF ty(2,1) assms(1)])
  have u': "udc_update_iface_desc 0 b (s\<lparr>udc_ptr_iface := p\<rparr>) = Some (b \<le> 1, ?s b)" for b p
    using update_iface_pieces(1) [of "s\<lparr>udc_ptr_iface := p\<rparr>", OF _ ty(1), unfolded c, OF ty(2)] assms(1) by simp
  have e: "udc_get_eof_conf (?s b) = length (conf_desc (?s b))" for b
    using update_iface_pieces(2) [OF ty(2,1) assms(1)] by (simp add: c udc_get_eof_conf_def)
  have w: "alloc_eps hw (setting_offset b) (?s b) = alloc_structs hw (setting_eps b s) (?s b)"
    "free_eps hw (setting_offset b) (?s b) = Some (free_structs hw (setting_eps b s) (?s b))" if b: "b \<le> 1" for b
  proof -
    obtain pre d ds where p: "list_all piece (d # ds)" "conf_desc s = pre @ d @ concat ds" "length pre = setting_offset b"
      "eps_after ds = map ep_bytes (setting_eps b s)" using setting_pieces [OF ty(2,1) b] .
    show "alloc_eps hw (setting_offset b) (?s b) = alloc_structs hw (setting_eps b s) (?s b)"
      "free_eps hw (setting_offset b) (?s b) = Some (free_structs hw (setting_eps b s) (?s b))"
      using alloc_eps_structs [of d ds "?s b" pre "setting_eps b s" hw]
        free_eps_structs [of d ds "?s b" pre "setting_eps b s" hw] p e [of b] by (simp_all add: c)
  qed
  have "\<not> a \<le> 1 \<Longrightarrow> setting_offset a = 41" by (auto simp: setting_offset_def u8_le_1)
  then have "udc_iface_enable hw 0 a s =
      (if a \<le> 1 then
         do {
           (ok, t) \<leftarrow> alloc_structs hw (setting_eps a s) (?s a);
           Some (if ok then udi_vendor_enable t else (False, t))
         }
       else Some (False, s\<lparr>udc_ptr_iface := 41\<rparr>))"
    using w(1) [of a] by (auto simp: udc_iface_enable_def u intro!: arg_cong [of _ _ "Option.bind _"] split: if_splits)
  moreover have "udi_vendor_alternate_setting s \<le> 1 \<longrightarrow>
      udc_iface_disable hw 0 s =
        Some (True, udi_vendor_disable (free_structs hw (setting_eps (udi_vendor_alternate_setting s) s)
          (?s (udi_vendor_alternate_setting s))))"
    using w(2) [of "udi_vendor_alternate_setting s"]
    by (simp add: udc_iface_disable_def u u' udi_vendor_getsetting_def setting_offset_def)
  ultimately show ?thesis by blast
qed

lemma interface_endpoints_witness:
  "let s = (usb_init [])\<lparr>udc_num_configuration := 1\<rparr>
   in udc_iface_disable (\<lambda>_ _ _. 0) 0 s = Some (True, udi_vendor_disable (s\<lparr>udc_ptr_iface := 9\<rparr>)) \<and>
      udc_iface_enable (\<lambda>_ _ _. 0) 0 2 s = Some (False, s\<lparr>udc_ptr_iface := 41\<rparr>) \<and>
      map bEndpointAddress (setting_eps 1 s) = [0x81, 2] \<and> map wMaxPacketSize (setting_eps 1 s) = [64, 64]"
proof -
  define s :: usb where "s = (usb_init [])\<lparr>udc_num_configuration := 1\<rparr>"
  have f: "udc_num_configuration s = 1" "conf_fs_type s = 2" "conf_hs_type s = 2" "udc_ptr_conf s = FullSpeed"
    "udi_vendor_alternate_setting s = 0"
    by (simp_all add: s_def usb_init_def app.defs app_init_def)
  show ?thesis unfolding Let_def s_def [symmetric]
    using interface_endpoints_allocated [of s "\<lambda>_ _ _. 0" 2] f
    by (simp add: setting_eps_eq setting_offset_def free_structs_def UDI_VENDOR_EPS_BULK_DESC_def
        current_sizes_def UDI_VENDOR_EPS_SIZE_FS_def u8_le_1)
qed

section \<open>Well-formed configurations\<close>

lemma cut_pieces: "ty \<noteq> 4 \<Longrightarrow> cut (concat (pieces (udc_desc_struct ty fs sp))) = Some (pieces (udc_desc_struct ty fs sp))"
  by (rule cut_concat [OF pieces_ok])

text \<open>
  \<^bold>\<open>C15\<close>. The configurations that the sources can declare, for every choice of endpoints and sizes in
  \<^verbatim>\<open>conf_usb.h\<close>, and for both descriptor types: the configuration is well formed, that is, its length, its number of
  interfaces and the number of endpoints of each setting are those that its headers state, and no two endpoints
  of a setting share an address. The driver, however, serves only endpoints up to their number: that
  includes all endpoints of the configuration exactly when no lower kind is left out, so
  interrupt endpoints need bulk endpoints, and isochronous endpoints need both. The choice of this
  firmware is such a one, and its bytes are those that the device sends.\<close>

theorem configurations_well_formed:
  assumes "ty = 2 \<or> ty = 7"
  shows "well_formed_conf (concat (pieces (udc_desc_struct ty fs sp))) \<and>
    ((\<forall>e \<in> set (eps (UDI_VENDOR_DESC fs sp)). unat (bEndpointAddress e AND 0xF) \<le> UDI_VENDOR_EP_NB fs) \<longleftrightarrow>
       (EPS_SIZE_INT fs \<noteq> 0 \<longrightarrow> EPS_SIZE_BULK fs \<noteq> 0) \<and>
       (EPS_SIZE_ISO fs \<noteq> 0 \<longrightarrow> EPS_SIZE_INT fs \<noteq> 0 \<and> EPS_SIZE_BULK fs \<noteq> 0)) \<and>
    concat (pieces (udc_desc_struct ty UDI_VENDOR_EPS_SIZE_FS UDI_VENDOR_EPS_SIZE_FS)) = udc_desc ty 64 0 \<and>
    concat (pieces (udc_desc_struct ty UDI_VENDOR_EPS_SIZE_FS UDI_VENDOR_EPS_SIZE_HS)) = udc_desc ty 0 2 \<and>
    dev_bytes udc_device_desc_t = udc_device_desc \<and> qual_bytes udc_device_qual_t = udc_device_qual"
proof -
  have ty: "ty \<noteq> 4" using assms by auto
  have "well_formed_conf (concat (pieces (udc_desc_struct ty fs sp)))"
    unfolding well_formed_conf_def cut_pieces [OF ty] option.case
    using assms
    by (cases "EPS_SIZE_INT fs = 0"; cases "EPS_SIZE_BULK fs = 0"; cases "EPS_SIZE_ISO fs = 0")
      (auto simp: desc_defs card_insert_if)
  moreover have "(\<forall>e \<in> set (eps (UDI_VENDOR_DESC fs sp)). unat (bEndpointAddress e AND 0xF) \<le> UDI_VENDOR_EP_NB fs) \<longleftrightarrow>
       (EPS_SIZE_INT fs \<noteq> 0 \<longrightarrow> EPS_SIZE_BULK fs \<noteq> 0) \<and>
       (EPS_SIZE_ISO fs \<noteq> 0 \<longrightarrow> EPS_SIZE_INT fs \<noteq> 0 \<and> EPS_SIZE_BULK fs \<noteq> 0)"
    by (cases "EPS_SIZE_INT fs = 0"; cases "EPS_SIZE_BULK fs = 0"; cases "EPS_SIZE_ISO fs = 0")
      (auto simp: desc_defs)
  ultimately show ?thesis using configuration_bytes device_bytes by blast
qed

lemma configurations_witness:
  "well_formed_conf (udc_desc 2 64 0) \<and> well_formed_conf (udc_desc 7 0 2) \<and>
   \<not> (\<forall>e \<in> set (eps (UDI_VENDOR_DESC \<lparr>EPS_SIZE_INT = 8, EPS_SIZE_BULK = 0, EPS_SIZE_ISO = 0\<rparr> UDI_VENDOR_EPS_SIZE_FS)).
        unat (bEndpointAddress e AND 0xF) \<le> UDI_VENDOR_EP_NB \<lparr>EPS_SIZE_INT = 8, EPS_SIZE_BULK = 0, EPS_SIZE_ISO = 0\<rparr>)"
  using configurations_well_formed [of 2 UDI_VENDOR_EPS_SIZE_FS UDI_VENDOR_EPS_SIZE_FS]
    configurations_well_formed [of 7 UDI_VENDOR_EPS_SIZE_FS UDI_VENDOR_EPS_SIZE_HS]
    configurations_well_formed [of 2 "\<lparr>EPS_SIZE_INT = 8, EPS_SIZE_BULK = 0, EPS_SIZE_ISO = 0\<rparr>" UDI_VENDOR_EPS_SIZE_FS]
  by (simp add: configuration_bytes)

text \<open>
  \<^bold>\<open>C14\<close>. The searches of the core through the bytes of a configuration, for every list of
  descriptors whose first bytes are their lengths: they end, and find what a search of the list finds. The
  search for a setting of an interface finds the first one with both numbers; the search for an endpoint, from
  any descriptor on, finds the next endpoint if it comes before the next interface, and nothing otherwise.
  A host takes the same list from the bytes.\<close>

theorem descriptor_searches_correct:
  assumes "list_all piece (xs @ d # ds)"
  shows "cut (concat (xs @ d # ds)) = Some (xs @ d # ds) \<and>
    find_iface (concat ds) (length (concat ds)) i a 0 =
      Some (list_ex (is_iface i a) ds, length (concat (takeWhile (\<lambda>d. \<not> is_iface i a d) ds))) \<and>
    next_desc (concat (xs @ d # ds)) (length (concat (xs @ d # ds))) USB_DT_ENDPOINT (length (concat (xs @ [d]))) =
      Some (case dropWhile (\<lambda>d. d ! 1 \<noteq> USB_DT_INTERFACE \<and> d ! 1 \<noteq> USB_DT_ENDPOINT) ds of
         [] \<Rightarrow> None
       | e # _ \<Rightarrow> if e ! 1 = USB_DT_INTERFACE then None
           else Some (length (concat (xs @ d # takeWhile (\<lambda>d. d ! 1 \<noteq> USB_DT_INTERFACE \<and> d ! 1 \<noteq> USB_DT_ENDPOINT) ds))))"
proof -
  have d: "list_all piece ds" using assms by simp
  have e: "concat (xs @ d # ys) = concat (xs @ [d]) @ concat ys" for ys by simp
  show ?thesis
    using cut_concat [OF assms] find_iface_pieces [OF d, of "[]" i a] next_desc_pieces [OF d, of "concat (xs @ [d])"]
    unfolding e [of ds] e [of "takeWhile (\<lambda>d. d ! 1 \<noteq> USB_DT_INTERFACE \<and> d ! 1 \<noteq> USB_DT_ENDPOINT) ds"] length_append by simp
qed

lemma descriptor_searches_witness:
  "next_desc (udc_desc 2 64 0) 41 USB_DT_ENDPOINT 27 = Some (Some 27) \<and>
   find_iface (udc_desc 2 64 0) 41 0 1 0 = Some (True, 18)"
proof -
  let ?c = "[9, 2, 41, 0, 1, 1, 0, 0x80, 250] :: u8 list"
  let ?i = "[9, 4, 0, 0, 0, 0xFF, 0xFF, 0xFF, 0] :: u8 list" and ?j = "[9, 4, 0, 1, 2, 0xFF, 0xFF, 0xFF, 0] :: u8 list"
  let ?e = "[7, 5, 0x81, 2, 64, 0, 0] :: u8 list" and ?f = "[7, 5, 2, 2, 64, 0, 0] :: u8 list"
  have p: "list_all piece ([?c, ?i] @ ?j # [?e, ?f])" "list_all piece ([] @ [2, 0] # [?c, ?i, ?j, ?e, ?f])"
    by (simp_all add: piece_def)
  show ?thesis
    using descriptor_searches_correct [OF p(1), of 0 1] descriptor_searches_correct [OF p(2), of 0 1]
    by (simp add: is_iface_def udc_desc_def udi_vendor_desc_def eval_nat_numeral)
qed

end
