(* ===== verification/Register_Map.thy ===== *)
theory Register_Map
  imports Prelude
begin

text \<open>
  The registers of the part, as its headers declare them. Each header under
  \<^verbatim>\<open>include/component\<close> declares the registers of a kind of peripheral as a \<open>struct\<close>, so
  their offsets follow from the order of the members; \<^verbatim>\<open>sam3u2c.h\<close> places one such structure per
  peripheral; and each header under \<^verbatim>\<open>include/instance\<close> declares the registers of one
  peripheral once more, as macros with the absolute addresses. The drivers are written over
  the first view, and the rest of this development names a register by its peripheral and its
  offset.

  Shown here: the views agree on every register of every peripheral, the registers of the
  whole part are at different addresses, so that a peripheral and an offset denote one
  register and two of them never denote the same one, and the constants that the drivers use
  as offsets are those of the structures.
\<close>

named_theorems header_defs "the tables of the headers"

section \<open>Structures\<close>

text \<open>
  A member is a register (or an array of registers: its length is given) or an array of
  structures. Every register has 32 bits. The access types are \<open>volatile\<close> words, of which
  \<open>RoReg\<close> is constant.
\<close>

datatype acc = RoReg | WoReg | RwReg

datatype member = Reg acc string nat | Regs string nat "(acc \<times> string \<times> nat) list"

definition reg_size :: "(acc \<times> string \<times> nat) list \<Rightarrow> nat" where
  "reg_size rs = sum_list (map (\<lambda>(_, _, k). 4 * k) rs)"

text \<open>The address of each member of a structure that is placed at \<open>x\<close>.\<close>

fun place :: "nat \<Rightarrow> (acc \<times> string \<times> nat) list \<Rightarrow> (string \<times> acc \<times> nat) list" where
  "place x [] = []"
| "place x ((a, n, k) # rs) = (n, a, x) # place (x + 4 * k) rs"

text \<open>An array of structures; its registers are named with the index at the end.\<close>

fun place_each :: "nat \<Rightarrow> string \<Rightarrow> (acc \<times> string \<times> nat) list \<Rightarrow> (string \<times> acc \<times> nat) list" where
  "place_each x [] rs = []"
| "place_each x (i # is) rs = map (\<lambda>(n, a, y). (n @ [i], a, y)) (place x rs) @ place_each (x + reg_size rs) is rs"

fun layout :: "nat \<Rightarrow> member list \<Rightarrow> (string \<times> acc \<times> nat) list" where
  "layout x [] = []"
| "layout x (Reg a n k # ms) = (n, a, x) # layout (x + 4 * k) ms"
| "layout x (Regs n k rs # ms) =
     place_each x (take k ''0123456789'') rs @ layout (x + k * reg_size rs) ms"

definition named :: "(string \<times> acc \<times> nat) list \<Rightarrow> (string \<times> acc \<times> nat) list" where
  "named rs = filter (\<lambda>(n, _, _). take 8 n \<noteq> ''Reserved'') rs"

text \<open>A name without its first part.\<close>

definition short_name :: "string \<Rightarrow> string" where
  "short_name n = tl (dropWhile (\<lambda>c. c \<noteq> CHR ''_'') n)"

definition struct_Adc :: "member list" where
  "struct_Adc =
    [Reg WoReg ''ADC_CR'' 1, Reg RwReg ''ADC_MR'' 1, Reg RoReg ''Reserved1'' 2, Reg WoReg ''ADC_CHER'' 1,
     Reg WoReg ''ADC_CHDR'' 1, Reg RoReg ''ADC_CHSR'' 1, Reg RoReg ''ADC_SR'' 1, Reg RoReg ''ADC_LCDR'' 1,
     Reg WoReg ''ADC_IER'' 1, Reg WoReg ''ADC_IDR'' 1, Reg RoReg ''ADC_IMR'' 1, Reg RoReg ''ADC_CDR'' 8,
     Reg RoReg ''Reserved2'' 44, Reg RwReg ''ADC_RPR'' 1, Reg RwReg ''ADC_RCR'' 1, Reg RoReg ''Reserved3'' 2,
     Reg RwReg ''ADC_RNPR'' 1, Reg RwReg ''ADC_RNCR'' 1, Reg RoReg ''Reserved4'' 2, Reg WoReg ''ADC_PTCR'' 1,
     Reg RoReg ''ADC_PTSR'' 1]"

definition struct_Adc12b :: "member list" where
  "struct_Adc12b =
    [Reg WoReg ''ADC12B_CR'' 1, Reg RwReg ''ADC12B_MR'' 1, Reg RoReg ''Reserved1'' 2, Reg WoReg ''ADC12B_CHER'' 1,
     Reg WoReg ''ADC12B_CHDR'' 1, Reg RoReg ''ADC12B_CHSR'' 1, Reg RoReg ''ADC12B_SR'' 1,
     Reg RoReg ''ADC12B_LCDR'' 1, Reg WoReg ''ADC12B_IER'' 1, Reg WoReg ''ADC12B_IDR'' 1, Reg RoReg ''ADC12B_IMR'' 1,
     Reg RoReg ''ADC12B_CDR'' 8, Reg RoReg ''Reserved2'' 5, Reg RwReg ''ADC12B_ACR'' 1, Reg RwReg ''ADC12B_EMR'' 1,
     Reg RoReg ''Reserved3'' 37, Reg RwReg ''ADC12B_RPR'' 1, Reg RwReg ''ADC12B_RCR'' 1, Reg RoReg ''Reserved4'' 2,
     Reg RwReg ''ADC12B_RNPR'' 1, Reg RwReg ''ADC12B_RNCR'' 1, Reg RoReg ''Reserved5'' 2,
     Reg WoReg ''ADC12B_PTCR'' 1, Reg RoReg ''ADC12B_PTSR'' 1]"

definition struct_Chipid :: "member list" where
  "struct_Chipid =
    [Reg RoReg ''CHIPID_CIDR'' 1, Reg RoReg ''CHIPID_EXID'' 1]"

definition struct_DmacCh_num :: "(acc \<times> string \<times> nat) list" where
  "struct_DmacCh_num =
    [(RwReg, ''DMAC_SADDR'', 1), (RwReg, ''DMAC_DADDR'', 1), (RwReg, ''DMAC_DSCR'', 1), (RwReg, ''DMAC_CTRLA'', 1),
     (RwReg, ''DMAC_CTRLB'', 1), (RwReg, ''DMAC_CFG'', 1), (RoReg, ''Reserved1'', 4)]"

definition struct_Dmac :: "member list" where
  "struct_Dmac =
    [Reg RwReg ''DMAC_GCFG'' 1, Reg RwReg ''DMAC_EN'' 1, Reg RwReg ''DMAC_SREQ'' 1, Reg RwReg ''DMAC_CREQ'' 1,
     Reg RwReg ''DMAC_LAST'' 1, Reg RoReg ''Reserved1'' 1, Reg WoReg ''DMAC_EBCIER'' 1, Reg WoReg ''DMAC_EBCIDR'' 1,
     Reg RoReg ''DMAC_EBCIMR'' 1, Reg RoReg ''DMAC_EBCISR'' 1, Reg WoReg ''DMAC_CHER'' 1, Reg WoReg ''DMAC_CHDR'' 1,
     Reg RoReg ''DMAC_CHSR'' 1, Reg RoReg ''Reserved2'' 2, Regs ''DMAC_CH_NUM'' 4 struct_DmacCh_num,
     Reg RoReg ''Reserved3'' 66, Reg RwReg ''DMAC_WPMR'' 1, Reg RoReg ''DMAC_WPSR'' 1]"

definition struct_Efc :: "member list" where
  "struct_Efc =
    [Reg RwReg ''EEFC_FMR'' 1, Reg WoReg ''EEFC_FCR'' 1, Reg RoReg ''EEFC_FSR'' 1, Reg RoReg ''EEFC_FRR'' 1]"

definition struct_Gpbr :: "member list" where
  "struct_Gpbr =
    [Reg RwReg ''SYS_GPBR'' 4]"

definition struct_Hsmci :: "member list" where
  "struct_Hsmci =
    [Reg WoReg ''HSMCI_CR'' 1, Reg RwReg ''HSMCI_MR'' 1, Reg RwReg ''HSMCI_DTOR'' 1, Reg RwReg ''HSMCI_SDCR'' 1,
     Reg RwReg ''HSMCI_ARGR'' 1, Reg WoReg ''HSMCI_CMDR'' 1, Reg RwReg ''HSMCI_BLKR'' 1, Reg RwReg ''HSMCI_CSTOR'' 1,
     Reg RoReg ''HSMCI_RSPR'' 4, Reg RoReg ''HSMCI_RDR'' 1, Reg WoReg ''HSMCI_TDR'' 1, Reg RoReg ''Reserved1'' 2,
     Reg RoReg ''HSMCI_SR'' 1, Reg WoReg ''HSMCI_IER'' 1, Reg WoReg ''HSMCI_IDR'' 1, Reg RoReg ''HSMCI_IMR'' 1,
     Reg RwReg ''HSMCI_DMA'' 1, Reg RwReg ''HSMCI_CFG'' 1, Reg RoReg ''Reserved2'' 35, Reg RwReg ''HSMCI_WPMR'' 1,
     Reg RoReg ''HSMCI_WPSR'' 1, Reg RoReg ''Reserved3'' 69, Reg RwReg ''HSMCI_FIFO'' 256]"

definition struct_Matrix :: "member list" where
  "struct_Matrix =
    [Reg RwReg ''MATRIX_MCFG'' 5, Reg RoReg ''Reserved1'' 11, Reg RwReg ''MATRIX_SCFG'' 10,
     Reg RoReg ''Reserved2'' 6, Reg RwReg ''MATRIX_PRAS0'' 1, Reg RoReg ''Reserved3'' 1,
     Reg RwReg ''MATRIX_PRAS1'' 1, Reg RoReg ''Reserved4'' 1, Reg RwReg ''MATRIX_PRAS2'' 1,
     Reg RoReg ''Reserved5'' 1, Reg RwReg ''MATRIX_PRAS3'' 1, Reg RoReg ''Reserved6'' 1,
     Reg RwReg ''MATRIX_PRAS4'' 1, Reg RoReg ''Reserved7'' 1, Reg RwReg ''MATRIX_PRAS5'' 1,
     Reg RoReg ''Reserved8'' 1, Reg RwReg ''MATRIX_PRAS6'' 1, Reg RoReg ''Reserved9'' 1,
     Reg RwReg ''MATRIX_PRAS7'' 1, Reg RoReg ''Reserved10'' 1, Reg RwReg ''MATRIX_PRAS8'' 1,
     Reg RoReg ''Reserved11'' 1, Reg RwReg ''MATRIX_PRAS9'' 1, Reg RoReg ''Reserved12'' 1,
     Reg RoReg ''Reserved13'' 12, Reg RwReg ''MATRIX_MRCR'' 1, Reg RoReg ''Reserved14'' 56,
     Reg RwReg ''MATRIX_WPMR'' 1, Reg RoReg ''MATRIX_WPSR'' 1]"

definition struct_Pio :: "member list" where
  "struct_Pio =
    [Reg WoReg ''PIO_PER'' 1, Reg WoReg ''PIO_PDR'' 1, Reg RoReg ''PIO_PSR'' 1, Reg RoReg ''Reserved1'' 1,
     Reg WoReg ''PIO_OER'' 1, Reg WoReg ''PIO_ODR'' 1, Reg RoReg ''PIO_OSR'' 1, Reg RoReg ''Reserved2'' 1,
     Reg WoReg ''PIO_IFER'' 1, Reg WoReg ''PIO_IFDR'' 1, Reg RoReg ''PIO_IFSR'' 1, Reg RoReg ''Reserved3'' 1,
     Reg WoReg ''PIO_SODR'' 1, Reg WoReg ''PIO_CODR'' 1, Reg RwReg ''PIO_ODSR'' 1, Reg RoReg ''PIO_PDSR'' 1,
     Reg WoReg ''PIO_IER'' 1, Reg WoReg ''PIO_IDR'' 1, Reg RoReg ''PIO_IMR'' 1, Reg RoReg ''PIO_ISR'' 1,
     Reg WoReg ''PIO_MDER'' 1, Reg WoReg ''PIO_MDDR'' 1, Reg RoReg ''PIO_MDSR'' 1, Reg RoReg ''Reserved4'' 1,
     Reg WoReg ''PIO_PUDR'' 1, Reg WoReg ''PIO_PUER'' 1, Reg RoReg ''PIO_PUSR'' 1, Reg RoReg ''Reserved5'' 1,
     Reg RwReg ''PIO_ABSR'' 1, Reg RoReg ''Reserved6'' 3, Reg WoReg ''PIO_SCIFSR'' 1, Reg WoReg ''PIO_DIFSR'' 1,
     Reg RoReg ''PIO_IFDGSR'' 1, Reg RwReg ''PIO_SCDR'' 1, Reg RoReg ''Reserved7'' 4, Reg WoReg ''PIO_OWER'' 1,
     Reg WoReg ''PIO_OWDR'' 1, Reg RoReg ''PIO_OWSR'' 1, Reg RoReg ''Reserved8'' 1, Reg WoReg ''PIO_AIMER'' 1,
     Reg WoReg ''PIO_AIMDR'' 1, Reg RoReg ''PIO_AIMMR'' 1, Reg RoReg ''Reserved9'' 1, Reg WoReg ''PIO_ESR'' 1,
     Reg WoReg ''PIO_LSR'' 1, Reg RoReg ''PIO_ELSR'' 1, Reg RoReg ''Reserved10'' 1, Reg WoReg ''PIO_FELLSR'' 1,
     Reg WoReg ''PIO_REHLSR'' 1, Reg RoReg ''PIO_FRLHSR'' 1, Reg RoReg ''Reserved11'' 1, Reg RoReg ''PIO_LOCKSR'' 1,
     Reg RwReg ''PIO_WPMR'' 1, Reg RoReg ''PIO_WPSR'' 1]"

definition struct_Pmc :: "member list" where
  "struct_Pmc =
    [Reg WoReg ''PMC_SCER'' 1, Reg WoReg ''PMC_SCDR'' 1, Reg RoReg ''PMC_SCSR'' 1, Reg RoReg ''Reserved1'' 1,
     Reg WoReg ''PMC_PCER0'' 1, Reg WoReg ''PMC_PCDR0'' 1, Reg RoReg ''PMC_PCSR0'' 1, Reg RwReg ''CKGR_UCKR'' 1,
     Reg RwReg ''CKGR_MOR'' 1, Reg RoReg ''CKGR_MCFR'' 1, Reg RwReg ''CKGR_PLLAR'' 1, Reg RoReg ''Reserved2'' 1,
     Reg RwReg ''PMC_MCKR'' 1, Reg RoReg ''Reserved3'' 3, Reg RwReg ''PMC_PCK'' 3, Reg RoReg ''Reserved4'' 5,
     Reg WoReg ''PMC_IER'' 1, Reg WoReg ''PMC_IDR'' 1, Reg RoReg ''PMC_SR'' 1, Reg RoReg ''PMC_IMR'' 1,
     Reg RwReg ''PMC_FSMR'' 1, Reg RwReg ''PMC_FSPR'' 1, Reg WoReg ''PMC_FOCR'' 1, Reg RoReg ''Reserved5'' 26,
     Reg RwReg ''PMC_WPMR'' 1, Reg RoReg ''PMC_WPSR'' 1]"

definition struct_PwmCmp :: "(acc \<times> string \<times> nat) list" where
  "struct_PwmCmp =
    [(RwReg, ''PWM_CMPV'', 1), (RwReg, ''PWM_CMPVUPD'', 1), (RwReg, ''PWM_CMPM'', 1), (RwReg, ''PWM_CMPMUPD'', 1)]"

definition struct_PwmCh_num :: "(acc \<times> string \<times> nat) list" where
  "struct_PwmCh_num =
    [(RwReg, ''PWM_CMR'', 1), (RwReg, ''PWM_CDTY'', 1), (RwReg, ''PWM_CDTYUPD'', 1), (RwReg, ''PWM_CPRD'', 1),
     (RwReg, ''PWM_CPRDUPD'', 1), (RwReg, ''PWM_CCNT'', 1), (RwReg, ''PWM_DT'', 1), (RwReg, ''PWM_DTUPD'', 1)]"

definition struct_Pwm :: "member list" where
  "struct_Pwm =
    [Reg RwReg ''PWM_CLK'' 1, Reg WoReg ''PWM_ENA'' 1, Reg WoReg ''PWM_DIS'' 1, Reg RoReg ''PWM_SR'' 1,
     Reg WoReg ''PWM_IER1'' 1, Reg WoReg ''PWM_IDR1'' 1, Reg RoReg ''PWM_IMR1'' 1, Reg RoReg ''PWM_ISR1'' 1,
     Reg RwReg ''PWM_SCM'' 1, Reg RoReg ''Reserved1'' 1, Reg RwReg ''PWM_SCUC'' 1, Reg RwReg ''PWM_SCUP'' 1,
     Reg WoReg ''PWM_SCUPUPD'' 1, Reg WoReg ''PWM_IER2'' 1, Reg WoReg ''PWM_IDR2'' 1, Reg RoReg ''PWM_IMR2'' 1,
     Reg RoReg ''PWM_ISR2'' 1, Reg RwReg ''PWM_OOV'' 1, Reg RwReg ''PWM_OS'' 1, Reg WoReg ''PWM_OSS'' 1,
     Reg WoReg ''PWM_OSC'' 1, Reg WoReg ''PWM_OSSUPD'' 1, Reg WoReg ''PWM_OSCUPD'' 1, Reg RwReg ''PWM_FMR'' 1,
     Reg RoReg ''PWM_FSR'' 1, Reg WoReg ''PWM_FCR'' 1, Reg RwReg ''PWM_FPV'' 1, Reg RwReg ''PWM_FPE'' 1,
     Reg RoReg ''Reserved2'' 3, Reg RwReg ''PWM_ELMR'' 2, Reg RoReg ''Reserved3'' 24, Reg WoReg ''PWM_WPCR'' 1,
     Reg RoReg ''PWM_WPSR'' 1, Reg RoReg ''Reserved4'' 7, Reg RwReg ''PWM_TPR'' 1, Reg RwReg ''PWM_TCR'' 1,
     Reg RoReg ''Reserved5'' 2, Reg RwReg ''PWM_TNPR'' 1, Reg RwReg ''PWM_TNCR'' 1, Reg WoReg ''PWM_PTCR'' 1,
     Reg RoReg ''PWM_PTSR'' 1, Reg RoReg ''Reserved6'' 2, Regs ''PWM_CMP'' 8 struct_PwmCmp,
     Reg RoReg ''Reserved7'' 20, Regs ''PWM_CH_NUM'' 4 struct_PwmCh_num]"

definition struct_Rstc :: "member list" where
  "struct_Rstc =
    [Reg WoReg ''RSTC_CR'' 1, Reg RoReg ''RSTC_SR'' 1, Reg RwReg ''RSTC_MR'' 1]"

definition struct_Rtc :: "member list" where
  "struct_Rtc =
    [Reg RwReg ''RTC_CR'' 1, Reg RwReg ''RTC_MR'' 1, Reg RwReg ''RTC_TIMR'' 1, Reg RwReg ''RTC_CALR'' 1,
     Reg RwReg ''RTC_TIMALR'' 1, Reg RwReg ''RTC_CALALR'' 1, Reg RoReg ''RTC_SR'' 1, Reg WoReg ''RTC_SCCR'' 1,
     Reg WoReg ''RTC_IER'' 1, Reg WoReg ''RTC_IDR'' 1, Reg RoReg ''RTC_IMR'' 1, Reg RoReg ''RTC_VER'' 1,
     Reg RoReg ''Reserved1'' 45, Reg RwReg ''RTC_WPMR'' 1]"

definition struct_Rtt :: "member list" where
  "struct_Rtt =
    [Reg RwReg ''RTT_MR'' 1, Reg RwReg ''RTT_AR'' 1, Reg RoReg ''RTT_VR'' 1, Reg RoReg ''RTT_SR'' 1]"

definition struct_SmcCs_number :: "(acc \<times> string \<times> nat) list" where
  "struct_SmcCs_number =
    [(RwReg, ''SMC_SETUP'', 1), (RwReg, ''SMC_PULSE'', 1), (RwReg, ''SMC_CYCLE'', 1), (RwReg, ''SMC_TIMINGS'', 1),
     (RwReg, ''SMC_MODE'', 1)]"

definition struct_Smc :: "member list" where
  "struct_Smc =
    [Reg RwReg ''SMC_CFG'' 1, Reg WoReg ''SMC_CTRL'' 1, Reg RoReg ''SMC_SR'' 1, Reg WoReg ''SMC_IER'' 1,
     Reg WoReg ''SMC_IDR'' 1, Reg RoReg ''SMC_IMR'' 1, Reg RwReg ''SMC_ADDR'' 1, Reg RwReg ''SMC_BANK'' 1,
     Reg WoReg ''SMC_ECC_CTRL'' 1, Reg RwReg ''SMC_ECC_MD'' 1, Reg RoReg ''SMC_ECC_SR1'' 1,
     Reg RoReg ''SMC_ECC_PR0'' 1, Reg RoReg ''SMC_ECC_PR1'' 1, Reg RoReg ''SMC_ECC_SR2'' 1,
     Reg RoReg ''SMC_ECC_PR2'' 1, Reg RoReg ''SMC_ECC_PR3'' 1, Reg RoReg ''SMC_ECC_PR4'' 1,
     Reg RoReg ''SMC_ECC_PR5'' 1, Reg RoReg ''SMC_ECC_PR6'' 1, Reg RoReg ''SMC_ECC_PR7'' 1,
     Reg RoReg ''SMC_ECC_PR8'' 1, Reg RoReg ''SMC_ECC_PR9'' 1, Reg RoReg ''SMC_ECC_PR10'' 1,
     Reg RoReg ''SMC_ECC_PR11'' 1, Reg RoReg ''SMC_ECC_PR12'' 1, Reg RoReg ''SMC_ECC_PR13'' 1,
     Reg RoReg ''SMC_ECC_PR14'' 1, Reg RoReg ''SMC_ECC_PR15'' 1, Regs ''SMC_CS_NUMBER'' 4 struct_SmcCs_number,
     Reg RoReg ''Reserved1'' 20, Reg RwReg ''SMC_OCMS'' 1, Reg WoReg ''SMC_KEY1'' 1, Reg WoReg ''SMC_KEY2'' 1,
     Reg RoReg ''Reserved2'' 50, Reg WoReg ''SMC_WPCR'' 1, Reg RoReg ''SMC_WPSR'' 1]"

definition struct_Spi :: "member list" where
  "struct_Spi =
    [Reg WoReg ''SPI_CR'' 1, Reg RwReg ''SPI_MR'' 1, Reg RoReg ''SPI_RDR'' 1, Reg WoReg ''SPI_TDR'' 1,
     Reg RoReg ''SPI_SR'' 1, Reg WoReg ''SPI_IER'' 1, Reg WoReg ''SPI_IDR'' 1, Reg RoReg ''SPI_IMR'' 1,
     Reg RoReg ''Reserved1'' 4, Reg RwReg ''SPI_CSR'' 4, Reg RoReg ''Reserved2'' 41, Reg RwReg ''SPI_WPMR'' 1,
     Reg RoReg ''SPI_WPSR'' 1]"

definition struct_Ssc :: "member list" where
  "struct_Ssc =
    [Reg WoReg ''SSC_CR'' 1, Reg RwReg ''SSC_CMR'' 1, Reg RoReg ''Reserved1'' 2, Reg RwReg ''SSC_RCMR'' 1,
     Reg RwReg ''SSC_RFMR'' 1, Reg RwReg ''SSC_TCMR'' 1, Reg RwReg ''SSC_TFMR'' 1, Reg RoReg ''SSC_RHR'' 1,
     Reg WoReg ''SSC_THR'' 1, Reg RoReg ''Reserved2'' 2, Reg RoReg ''SSC_RSHR'' 1, Reg RwReg ''SSC_TSHR'' 1,
     Reg RwReg ''SSC_RC0R'' 1, Reg RwReg ''SSC_RC1R'' 1, Reg RoReg ''SSC_SR'' 1, Reg WoReg ''SSC_IER'' 1,
     Reg WoReg ''SSC_IDR'' 1, Reg RoReg ''SSC_IMR'' 1, Reg RoReg ''Reserved3'' 37, Reg RwReg ''SSC_WPMR'' 1,
     Reg RoReg ''SSC_WPSR'' 1]"

definition struct_Supc :: "member list" where
  "struct_Supc =
    [Reg WoReg ''SUPC_CR'' 1, Reg RwReg ''SUPC_SMMR'' 1, Reg RwReg ''SUPC_MR'' 1, Reg RwReg ''SUPC_WUMR'' 1,
     Reg RwReg ''SUPC_WUIR'' 1, Reg RoReg ''SUPC_SR'' 1]"

definition struct_TcChannel :: "(acc \<times> string \<times> nat) list" where
  "struct_TcChannel =
    [(RwReg, ''TC_CCR'', 1), (RwReg, ''TC_CMR'', 1), (RoReg, ''Reserved1'', 2), (RwReg, ''TC_CV'', 1),
     (RwReg, ''TC_RA'', 1), (RwReg, ''TC_RB'', 1), (RwReg, ''TC_RC'', 1), (RwReg, ''TC_SR'', 1),
     (RwReg, ''TC_IER'', 1), (RwReg, ''TC_IDR'', 1), (RwReg, ''TC_IMR'', 1), (RoReg, ''Reserved2'', 4)]"

definition struct_Tc :: "member list" where
  "struct_Tc =
    [Regs ''TC_CHANNEL'' 3 struct_TcChannel, Reg WoReg ''TC_BCR'' 1, Reg RwReg ''TC_BMR'' 1, Reg WoReg ''TC_QIER'' 1,
     Reg WoReg ''TC_QIDR'' 1, Reg RoReg ''TC_QIMR'' 1, Reg RoReg ''TC_QISR'' 1]"

definition struct_Twi :: "member list" where
  "struct_Twi =
    [Reg WoReg ''TWI_CR'' 1, Reg RwReg ''TWI_MMR'' 1, Reg RwReg ''TWI_SMR'' 1, Reg RwReg ''TWI_IADR'' 1,
     Reg RwReg ''TWI_CWGR'' 1, Reg RoReg ''Reserved1'' 3, Reg RoReg ''TWI_SR'' 1, Reg WoReg ''TWI_IER'' 1,
     Reg WoReg ''TWI_IDR'' 1, Reg RoReg ''TWI_IMR'' 1, Reg RoReg ''TWI_RHR'' 1, Reg WoReg ''TWI_THR'' 1,
     Reg RoReg ''Reserved2'' 50, Reg RwReg ''TWI_RPR'' 1, Reg RwReg ''TWI_RCR'' 1, Reg RwReg ''TWI_TPR'' 1,
     Reg RwReg ''TWI_TCR'' 1, Reg RwReg ''TWI_RNPR'' 1, Reg RwReg ''TWI_RNCR'' 1, Reg RwReg ''TWI_TNPR'' 1,
     Reg RwReg ''TWI_TNCR'' 1, Reg WoReg ''TWI_PTCR'' 1, Reg RoReg ''TWI_PTSR'' 1]"

definition struct_Uart :: "member list" where
  "struct_Uart =
    [Reg WoReg ''UART_CR'' 1, Reg RwReg ''UART_MR'' 1, Reg WoReg ''UART_IER'' 1, Reg WoReg ''UART_IDR'' 1,
     Reg RoReg ''UART_IMR'' 1, Reg RoReg ''UART_SR'' 1, Reg RoReg ''UART_RHR'' 1, Reg WoReg ''UART_THR'' 1,
     Reg RwReg ''UART_BRGR'' 1, Reg RoReg ''Reserved1'' 55, Reg RwReg ''UART_RPR'' 1, Reg RwReg ''UART_RCR'' 1,
     Reg RwReg ''UART_TPR'' 1, Reg RwReg ''UART_TCR'' 1, Reg RwReg ''UART_RNPR'' 1, Reg RwReg ''UART_RNCR'' 1,
     Reg RwReg ''UART_TNPR'' 1, Reg RwReg ''UART_TNCR'' 1, Reg WoReg ''UART_PTCR'' 1, Reg RoReg ''UART_PTSR'' 1]"

definition struct_UdphsEpt :: "(acc \<times> string \<times> nat) list" where
  "struct_UdphsEpt =
    [(RwReg, ''UDPHS_EPTCFG'', 1), (RwReg, ''UDPHS_EPTCTLENB'', 1), (RwReg, ''UDPHS_EPTCTLDIS'', 1),
     (RwReg, ''UDPHS_EPTCTL'', 1), (RoReg, ''Reserved1'', 1), (RwReg, ''UDPHS_EPTSETSTA'', 1),
     (RwReg, ''UDPHS_EPTCLRSTA'', 1), (RwReg, ''UDPHS_EPTSTA'', 1)]"

definition struct_UdphsDma :: "(acc \<times> string \<times> nat) list" where
  "struct_UdphsDma =
    [(RwReg, ''UDPHS_DMANXTDSC'', 1), (RwReg, ''UDPHS_DMAADDRESS'', 1), (RwReg, ''UDPHS_DMACONTROL'', 1),
     (RwReg, ''UDPHS_DMASTATUS'', 1)]"

definition struct_Udphs :: "member list" where
  "struct_Udphs =
    [Reg RwReg ''UDPHS_CTRL'' 1, Reg RoReg ''UDPHS_FNUM'' 1, Reg RoReg ''Reserved1'' 2, Reg RwReg ''UDPHS_IEN'' 1,
     Reg RoReg ''UDPHS_INTSTA'' 1, Reg WoReg ''UDPHS_CLRINT'' 1, Reg WoReg ''UDPHS_EPTRST'' 1,
     Reg RoReg ''Reserved2'' 48, Reg RwReg ''UDPHS_TST'' 1, Reg RoReg ''Reserved3'' 3, Reg RoReg ''UDPHS_IPNAME1'' 1,
     Reg RoReg ''UDPHS_IPNAME2'' 1, Reg RoReg ''UDPHS_IPFEATURES'' 1, Reg RoReg ''Reserved4'' 1,
     Regs ''UDPHS_EPT'' 7 struct_UdphsEpt, Reg RoReg ''Reserved5'' 72, Regs ''UDPHS_DMA'' 6 struct_UdphsDma]"

definition struct_Usart :: "member list" where
  "struct_Usart =
    [Reg WoReg ''US_CR'' 1, Reg RwReg ''US_MR'' 1, Reg WoReg ''US_IER'' 1, Reg WoReg ''US_IDR'' 1,
     Reg RoReg ''US_IMR'' 1, Reg RoReg ''US_CSR'' 1, Reg RoReg ''US_RHR'' 1, Reg WoReg ''US_THR'' 1,
     Reg RwReg ''US_BRGR'' 1, Reg RwReg ''US_RTOR'' 1, Reg RwReg ''US_TTGR'' 1, Reg RoReg ''Reserved1'' 5,
     Reg RwReg ''US_FIDI'' 1, Reg RoReg ''US_NER'' 1, Reg RoReg ''Reserved2'' 1, Reg RwReg ''US_IF'' 1,
     Reg RwReg ''US_MAN'' 1, Reg RoReg ''Reserved3'' 36, Reg RwReg ''US_WPMR'' 1, Reg RoReg ''US_WPSR'' 1,
     Reg RoReg ''Reserved4'' 5, Reg RwReg ''US_RPR'' 1, Reg RwReg ''US_RCR'' 1, Reg RwReg ''US_TPR'' 1,
     Reg RwReg ''US_TCR'' 1, Reg RwReg ''US_RNPR'' 1, Reg RwReg ''US_RNCR'' 1, Reg RwReg ''US_TNPR'' 1,
     Reg RwReg ''US_TNCR'' 1, Reg WoReg ''US_PTCR'' 1, Reg RoReg ''US_PTSR'' 1]"

definition struct_Wdt :: "member list" where
  "struct_Wdt =
    [Reg WoReg ''WDT_CR'' 1, Reg RwReg ''WDT_MR'' 1, Reg RoReg ''WDT_SR'' 1]"

definition struct_Pdc :: "member list" where
  "struct_Pdc =
    [Reg RwReg ''PERIPH_RPR'' 1, Reg RwReg ''PERIPH_RCR'' 1, Reg RwReg ''PERIPH_TPR'' 1, Reg RwReg ''PERIPH_TCR'' 1,
     Reg RwReg ''PERIPH_RNPR'' 1, Reg RwReg ''PERIPH_RNCR'' 1, Reg RwReg ''PERIPH_TNPR'' 1,
     Reg RwReg ''PERIPH_TNCR'' 1, Reg WoReg ''PERIPH_PTCR'' 1, Reg RoReg ''PERIPH_PTSR'' 1]"

section \<open>Addresses\<close>

definition base_addresses :: "(string \<times> member list \<times> nat) list" where
  "base_addresses =
    [(''HSMCI'', struct_Hsmci, 0x40000000), (''SSC'', struct_Ssc, 0x40004000), (''SPI'', struct_Spi, 0x40008000),
     (''TC0'', struct_Tc, 0x40080000), (''TWI0'', struct_Twi, 0x40084000), (''PDC_TWI0'', struct_Pdc, 0x40084100),
     (''TWI1'', struct_Twi, 0x40088000), (''PDC_TWI1'', struct_Pdc, 0x40088100), (''PWM'', struct_Pwm, 0x4008C000),
     (''PDC_PWM'', struct_Pdc, 0x4008C100), (''USART0'', struct_Usart, 0x40090000),
     (''PDC_USART0'', struct_Pdc, 0x40090100), (''USART1'', struct_Usart, 0x40094000),
     (''PDC_USART1'', struct_Pdc, 0x40094100), (''USART2'', struct_Usart, 0x40098000),
     (''PDC_USART2'', struct_Pdc, 0x40098100), (''UDPHS'', struct_Udphs, 0x400A4000),
     (''ADC12B'', struct_Adc12b, 0x400A8000), (''PDC_ADC12B'', struct_Pdc, 0x400A8100),
     (''ADC'', struct_Adc, 0x400AC000), (''PDC_ADC'', struct_Pdc, 0x400AC100), (''DMAC'', struct_Dmac, 0x400B0000),
     (''SMC'', struct_Smc, 0x400E0000), (''MATRIX'', struct_Matrix, 0x400E0200), (''PMC'', struct_Pmc, 0x400E0400),
     (''UART'', struct_Uart, 0x400E0600), (''PDC_UART'', struct_Pdc, 0x400E0700),
     (''CHIPID'', struct_Chipid, 0x400E0740), (''EFC0'', struct_Efc, 0x400E0800), (''EFC1'', struct_Efc, 0x400E0A00),
     (''PIOA'', struct_Pio, 0x400E0C00), (''PIOB'', struct_Pio, 0x400E0E00), (''RSTC'', struct_Rstc, 0x400E1200),
     (''SUPC'', struct_Supc, 0x400E1210), (''RTT'', struct_Rtt, 0x400E1230), (''WDT'', struct_Wdt, 0x400E1250),
     (''RTC'', struct_Rtc, 0x400E1260), (''GPBR'', struct_Gpbr, 0x400E1290)]"

definition instance_ADC :: "(string \<times> acc \<times> nat) list" where
  "instance_ADC =
    [(''REG_ADC_CR'', WoReg, 0x400AC000), (''REG_ADC_MR'', RwReg, 0x400AC004), (''REG_ADC_CHER'', WoReg, 0x400AC010),
     (''REG_ADC_CHDR'', WoReg, 0x400AC014), (''REG_ADC_CHSR'', RoReg, 0x400AC018),
     (''REG_ADC_SR'', RoReg, 0x400AC01C), (''REG_ADC_LCDR'', RoReg, 0x400AC020),
     (''REG_ADC_IER'', WoReg, 0x400AC024), (''REG_ADC_IDR'', WoReg, 0x400AC028),
     (''REG_ADC_IMR'', RoReg, 0x400AC02C), (''REG_ADC_CDR'', RoReg, 0x400AC030),
     (''REG_ADC_RPR'', RwReg, 0x400AC100), (''REG_ADC_RCR'', RwReg, 0x400AC104),
     (''REG_ADC_RNPR'', RwReg, 0x400AC110), (''REG_ADC_RNCR'', RwReg, 0x400AC114),
     (''REG_ADC_PTCR'', WoReg, 0x400AC120), (''REG_ADC_PTSR'', RoReg, 0x400AC124)]"

definition instance_ADC12B :: "(string \<times> acc \<times> nat) list" where
  "instance_ADC12B =
    [(''REG_ADC12B_CR'', WoReg, 0x400A8000), (''REG_ADC12B_MR'', RwReg, 0x400A8004),
     (''REG_ADC12B_CHER'', WoReg, 0x400A8010), (''REG_ADC12B_CHDR'', WoReg, 0x400A8014),
     (''REG_ADC12B_CHSR'', RoReg, 0x400A8018), (''REG_ADC12B_SR'', RoReg, 0x400A801C),
     (''REG_ADC12B_LCDR'', RoReg, 0x400A8020), (''REG_ADC12B_IER'', WoReg, 0x400A8024),
     (''REG_ADC12B_IDR'', WoReg, 0x400A8028), (''REG_ADC12B_IMR'', RoReg, 0x400A802C),
     (''REG_ADC12B_CDR'', RoReg, 0x400A8030), (''REG_ADC12B_ACR'', RwReg, 0x400A8064),
     (''REG_ADC12B_EMR'', RwReg, 0x400A8068), (''REG_ADC12B_RPR'', RwReg, 0x400A8100),
     (''REG_ADC12B_RCR'', RwReg, 0x400A8104), (''REG_ADC12B_RNPR'', RwReg, 0x400A8110),
     (''REG_ADC12B_RNCR'', RwReg, 0x400A8114), (''REG_ADC12B_PTCR'', WoReg, 0x400A8120),
     (''REG_ADC12B_PTSR'', RoReg, 0x400A8124)]"

definition instance_CHIPID :: "(string \<times> acc \<times> nat) list" where
  "instance_CHIPID =
    [(''REG_CHIPID_CIDR'', RoReg, 0x400E0740), (''REG_CHIPID_EXID'', RoReg, 0x400E0744)]"

definition instance_DMAC :: "(string \<times> acc \<times> nat) list" where
  "instance_DMAC =
    [(''REG_DMAC_GCFG'', RwReg, 0x400B0000), (''REG_DMAC_EN'', RwReg, 0x400B0004),
     (''REG_DMAC_SREQ'', RwReg, 0x400B0008), (''REG_DMAC_CREQ'', RwReg, 0x400B000C),
     (''REG_DMAC_LAST'', RwReg, 0x400B0010), (''REG_DMAC_EBCIER'', WoReg, 0x400B0018),
     (''REG_DMAC_EBCIDR'', WoReg, 0x400B001C), (''REG_DMAC_EBCIMR'', RoReg, 0x400B0020),
     (''REG_DMAC_EBCISR'', RoReg, 0x400B0024), (''REG_DMAC_CHER'', WoReg, 0x400B0028),
     (''REG_DMAC_CHDR'', WoReg, 0x400B002C), (''REG_DMAC_CHSR'', RoReg, 0x400B0030),
     (''REG_DMAC_SADDR0'', RwReg, 0x400B003C), (''REG_DMAC_DADDR0'', RwReg, 0x400B0040),
     (''REG_DMAC_DSCR0'', RwReg, 0x400B0044), (''REG_DMAC_CTRLA0'', RwReg, 0x400B0048),
     (''REG_DMAC_CTRLB0'', RwReg, 0x400B004C), (''REG_DMAC_CFG0'', RwReg, 0x400B0050),
     (''REG_DMAC_SADDR1'', RwReg, 0x400B0064), (''REG_DMAC_DADDR1'', RwReg, 0x400B0068),
     (''REG_DMAC_DSCR1'', RwReg, 0x400B006C), (''REG_DMAC_CTRLA1'', RwReg, 0x400B0070),
     (''REG_DMAC_CTRLB1'', RwReg, 0x400B0074), (''REG_DMAC_CFG1'', RwReg, 0x400B0078),
     (''REG_DMAC_SADDR2'', RwReg, 0x400B008C), (''REG_DMAC_DADDR2'', RwReg, 0x400B0090),
     (''REG_DMAC_DSCR2'', RwReg, 0x400B0094), (''REG_DMAC_CTRLA2'', RwReg, 0x400B0098),
     (''REG_DMAC_CTRLB2'', RwReg, 0x400B009C), (''REG_DMAC_CFG2'', RwReg, 0x400B00A0),
     (''REG_DMAC_SADDR3'', RwReg, 0x400B00B4), (''REG_DMAC_DADDR3'', RwReg, 0x400B00B8),
     (''REG_DMAC_DSCR3'', RwReg, 0x400B00BC), (''REG_DMAC_CTRLA3'', RwReg, 0x400B00C0),
     (''REG_DMAC_CTRLB3'', RwReg, 0x400B00C4), (''REG_DMAC_CFG3'', RwReg, 0x400B00C8),
     (''REG_DMAC_WPMR'', RwReg, 0x400B01E4), (''REG_DMAC_WPSR'', RoReg, 0x400B01E8)]"

definition instance_EFC0 :: "(string \<times> acc \<times> nat) list" where
  "instance_EFC0 =
    [(''REG_EFC0_FMR'', RwReg, 0x400E0800), (''REG_EFC0_FCR'', WoReg, 0x400E0804),
     (''REG_EFC0_FSR'', RoReg, 0x400E0808), (''REG_EFC0_FRR'', RoReg, 0x400E080C)]"

definition instance_EFC1 :: "(string \<times> acc \<times> nat) list" where
  "instance_EFC1 =
    [(''REG_EFC1_FMR'', RwReg, 0x400E0A00), (''REG_EFC1_FCR'', WoReg, 0x400E0A04),
     (''REG_EFC1_FSR'', RoReg, 0x400E0A08), (''REG_EFC1_FRR'', RoReg, 0x400E0A0C)]"

definition instance_GPBR :: "(string \<times> acc \<times> nat) list" where
  "instance_GPBR =
    [(''REG_GPBR_GPBR'', RwReg, 0x400E1290)]"

definition instance_HSMCI :: "(string \<times> acc \<times> nat) list" where
  "instance_HSMCI =
    [(''REG_HSMCI_CR'', WoReg, 0x40000000), (''REG_HSMCI_MR'', RwReg, 0x40000004),
     (''REG_HSMCI_DTOR'', RwReg, 0x40000008), (''REG_HSMCI_SDCR'', RwReg, 0x4000000C),
     (''REG_HSMCI_ARGR'', RwReg, 0x40000010), (''REG_HSMCI_CMDR'', WoReg, 0x40000014),
     (''REG_HSMCI_BLKR'', RwReg, 0x40000018), (''REG_HSMCI_CSTOR'', RwReg, 0x4000001C),
     (''REG_HSMCI_RSPR'', RoReg, 0x40000020), (''REG_HSMCI_RDR'', RoReg, 0x40000030),
     (''REG_HSMCI_TDR'', WoReg, 0x40000034), (''REG_HSMCI_SR'', RoReg, 0x40000040),
     (''REG_HSMCI_IER'', WoReg, 0x40000044), (''REG_HSMCI_IDR'', WoReg, 0x40000048),
     (''REG_HSMCI_IMR'', RoReg, 0x4000004C), (''REG_HSMCI_DMA'', RwReg, 0x40000050),
     (''REG_HSMCI_CFG'', RwReg, 0x40000054), (''REG_HSMCI_WPMR'', RwReg, 0x400000E4),
     (''REG_HSMCI_WPSR'', RoReg, 0x400000E8), (''REG_HSMCI_FIFO'', RwReg, 0x40000200)]"

definition instance_MATRIX :: "(string \<times> acc \<times> nat) list" where
  "instance_MATRIX =
    [(''REG_MATRIX_MCFG'', RwReg, 0x400E0200), (''REG_MATRIX_SCFG'', RwReg, 0x400E0240),
     (''REG_MATRIX_PRAS0'', RwReg, 0x400E0280), (''REG_MATRIX_PRAS1'', RwReg, 0x400E0288),
     (''REG_MATRIX_PRAS2'', RwReg, 0x400E0290), (''REG_MATRIX_PRAS3'', RwReg, 0x400E0298),
     (''REG_MATRIX_PRAS4'', RwReg, 0x400E02A0), (''REG_MATRIX_PRAS5'', RwReg, 0x400E02A8),
     (''REG_MATRIX_PRAS6'', RwReg, 0x400E02B0), (''REG_MATRIX_PRAS7'', RwReg, 0x400E02B8),
     (''REG_MATRIX_PRAS8'', RwReg, 0x400E02C0), (''REG_MATRIX_PRAS9'', RwReg, 0x400E02C8),
     (''REG_MATRIX_MRCR'', RwReg, 0x400E0300), (''REG_MATRIX_WPMR'', RwReg, 0x400E03E4),
     (''REG_MATRIX_WPSR'', RoReg, 0x400E03E8)]"

definition instance_PIOA :: "(string \<times> acc \<times> nat) list" where
  "instance_PIOA =
    [(''REG_PIOA_PER'', WoReg, 0x400E0C00), (''REG_PIOA_PDR'', WoReg, 0x400E0C04),
     (''REG_PIOA_PSR'', RoReg, 0x400E0C08), (''REG_PIOA_OER'', WoReg, 0x400E0C10),
     (''REG_PIOA_ODR'', WoReg, 0x400E0C14), (''REG_PIOA_OSR'', RoReg, 0x400E0C18),
     (''REG_PIOA_IFER'', WoReg, 0x400E0C20), (''REG_PIOA_IFDR'', WoReg, 0x400E0C24),
     (''REG_PIOA_IFSR'', RoReg, 0x400E0C28), (''REG_PIOA_SODR'', WoReg, 0x400E0C30),
     (''REG_PIOA_CODR'', WoReg, 0x400E0C34), (''REG_PIOA_ODSR'', RwReg, 0x400E0C38),
     (''REG_PIOA_PDSR'', RoReg, 0x400E0C3C), (''REG_PIOA_IER'', WoReg, 0x400E0C40),
     (''REG_PIOA_IDR'', WoReg, 0x400E0C44), (''REG_PIOA_IMR'', RoReg, 0x400E0C48),
     (''REG_PIOA_ISR'', RoReg, 0x400E0C4C), (''REG_PIOA_MDER'', WoReg, 0x400E0C50),
     (''REG_PIOA_MDDR'', WoReg, 0x400E0C54), (''REG_PIOA_MDSR'', RoReg, 0x400E0C58),
     (''REG_PIOA_PUDR'', WoReg, 0x400E0C60), (''REG_PIOA_PUER'', WoReg, 0x400E0C64),
     (''REG_PIOA_PUSR'', RoReg, 0x400E0C68), (''REG_PIOA_ABSR'', RwReg, 0x400E0C70),
     (''REG_PIOA_SCIFSR'', WoReg, 0x400E0C80), (''REG_PIOA_DIFSR'', WoReg, 0x400E0C84),
     (''REG_PIOA_IFDGSR'', RoReg, 0x400E0C88), (''REG_PIOA_SCDR'', RwReg, 0x400E0C8C),
     (''REG_PIOA_OWER'', WoReg, 0x400E0CA0), (''REG_PIOA_OWDR'', WoReg, 0x400E0CA4),
     (''REG_PIOA_OWSR'', RoReg, 0x400E0CA8), (''REG_PIOA_AIMER'', WoReg, 0x400E0CB0),
     (''REG_PIOA_AIMDR'', WoReg, 0x400E0CB4), (''REG_PIOA_AIMMR'', RoReg, 0x400E0CB8),
     (''REG_PIOA_ESR'', WoReg, 0x400E0CC0), (''REG_PIOA_LSR'', WoReg, 0x400E0CC4),
     (''REG_PIOA_ELSR'', RoReg, 0x400E0CC8), (''REG_PIOA_FELLSR'', WoReg, 0x400E0CD0),
     (''REG_PIOA_REHLSR'', WoReg, 0x400E0CD4), (''REG_PIOA_FRLHSR'', RoReg, 0x400E0CD8),
     (''REG_PIOA_LOCKSR'', RoReg, 0x400E0CE0), (''REG_PIOA_WPMR'', RwReg, 0x400E0CE4),
     (''REG_PIOA_WPSR'', RoReg, 0x400E0CE8)]"

definition instance_PIOB :: "(string \<times> acc \<times> nat) list" where
  "instance_PIOB =
    [(''REG_PIOB_PER'', WoReg, 0x400E0E00), (''REG_PIOB_PDR'', WoReg, 0x400E0E04),
     (''REG_PIOB_PSR'', RoReg, 0x400E0E08), (''REG_PIOB_OER'', WoReg, 0x400E0E10),
     (''REG_PIOB_ODR'', WoReg, 0x400E0E14), (''REG_PIOB_OSR'', RoReg, 0x400E0E18),
     (''REG_PIOB_IFER'', WoReg, 0x400E0E20), (''REG_PIOB_IFDR'', WoReg, 0x400E0E24),
     (''REG_PIOB_IFSR'', RoReg, 0x400E0E28), (''REG_PIOB_SODR'', WoReg, 0x400E0E30),
     (''REG_PIOB_CODR'', WoReg, 0x400E0E34), (''REG_PIOB_ODSR'', RwReg, 0x400E0E38),
     (''REG_PIOB_PDSR'', RoReg, 0x400E0E3C), (''REG_PIOB_IER'', WoReg, 0x400E0E40),
     (''REG_PIOB_IDR'', WoReg, 0x400E0E44), (''REG_PIOB_IMR'', RoReg, 0x400E0E48),
     (''REG_PIOB_ISR'', RoReg, 0x400E0E4C), (''REG_PIOB_MDER'', WoReg, 0x400E0E50),
     (''REG_PIOB_MDDR'', WoReg, 0x400E0E54), (''REG_PIOB_MDSR'', RoReg, 0x400E0E58),
     (''REG_PIOB_PUDR'', WoReg, 0x400E0E60), (''REG_PIOB_PUER'', WoReg, 0x400E0E64),
     (''REG_PIOB_PUSR'', RoReg, 0x400E0E68), (''REG_PIOB_ABSR'', RwReg, 0x400E0E70),
     (''REG_PIOB_SCIFSR'', WoReg, 0x400E0E80), (''REG_PIOB_DIFSR'', WoReg, 0x400E0E84),
     (''REG_PIOB_IFDGSR'', RoReg, 0x400E0E88), (''REG_PIOB_SCDR'', RwReg, 0x400E0E8C),
     (''REG_PIOB_OWER'', WoReg, 0x400E0EA0), (''REG_PIOB_OWDR'', WoReg, 0x400E0EA4),
     (''REG_PIOB_OWSR'', RoReg, 0x400E0EA8), (''REG_PIOB_AIMER'', WoReg, 0x400E0EB0),
     (''REG_PIOB_AIMDR'', WoReg, 0x400E0EB4), (''REG_PIOB_AIMMR'', RoReg, 0x400E0EB8),
     (''REG_PIOB_ESR'', WoReg, 0x400E0EC0), (''REG_PIOB_LSR'', WoReg, 0x400E0EC4),
     (''REG_PIOB_ELSR'', RoReg, 0x400E0EC8), (''REG_PIOB_FELLSR'', WoReg, 0x400E0ED0),
     (''REG_PIOB_REHLSR'', WoReg, 0x400E0ED4), (''REG_PIOB_FRLHSR'', RoReg, 0x400E0ED8),
     (''REG_PIOB_LOCKSR'', RoReg, 0x400E0EE0), (''REG_PIOB_WPMR'', RwReg, 0x400E0EE4),
     (''REG_PIOB_WPSR'', RoReg, 0x400E0EE8)]"

definition instance_PMC :: "(string \<times> acc \<times> nat) list" where
  "instance_PMC =
    [(''REG_PMC_SCER'', WoReg, 0x400E0400), (''REG_PMC_SCDR'', WoReg, 0x400E0404),
     (''REG_PMC_SCSR'', RoReg, 0x400E0408), (''REG_PMC_PCER0'', WoReg, 0x400E0410),
     (''REG_PMC_PCDR0'', WoReg, 0x400E0414), (''REG_PMC_PCSR0'', RoReg, 0x400E0418),
     (''REG_CKGR_UCKR'', RwReg, 0x400E041C), (''REG_CKGR_MOR'', RwReg, 0x400E0420),
     (''REG_CKGR_MCFR'', RoReg, 0x400E0424), (''REG_CKGR_PLLAR'', RwReg, 0x400E0428),
     (''REG_PMC_MCKR'', RwReg, 0x400E0430), (''REG_PMC_PCK'', RwReg, 0x400E0440),
     (''REG_PMC_IER'', WoReg, 0x400E0460), (''REG_PMC_IDR'', WoReg, 0x400E0464), (''REG_PMC_SR'', RoReg, 0x400E0468),
     (''REG_PMC_IMR'', RoReg, 0x400E046C), (''REG_PMC_FSMR'', RwReg, 0x400E0470),
     (''REG_PMC_FSPR'', RwReg, 0x400E0474), (''REG_PMC_FOCR'', WoReg, 0x400E0478),
     (''REG_PMC_WPMR'', RwReg, 0x400E04E4), (''REG_PMC_WPSR'', RoReg, 0x400E04E8)]"

definition instance_PWM :: "(string \<times> acc \<times> nat) list" where
  "instance_PWM =
    [(''REG_PWM_CLK'', RwReg, 0x4008C000), (''REG_PWM_ENA'', WoReg, 0x4008C004),
     (''REG_PWM_DIS'', WoReg, 0x4008C008), (''REG_PWM_SR'', RoReg, 0x4008C00C),
     (''REG_PWM_IER1'', WoReg, 0x4008C010), (''REG_PWM_IDR1'', WoReg, 0x4008C014),
     (''REG_PWM_IMR1'', RoReg, 0x4008C018), (''REG_PWM_ISR1'', RoReg, 0x4008C01C),
     (''REG_PWM_SCM'', RwReg, 0x4008C020), (''REG_PWM_SCUC'', RwReg, 0x4008C028),
     (''REG_PWM_SCUP'', RwReg, 0x4008C02C), (''REG_PWM_SCUPUPD'', WoReg, 0x4008C030),
     (''REG_PWM_IER2'', WoReg, 0x4008C034), (''REG_PWM_IDR2'', WoReg, 0x4008C038),
     (''REG_PWM_IMR2'', RoReg, 0x4008C03C), (''REG_PWM_ISR2'', RoReg, 0x4008C040),
     (''REG_PWM_OOV'', RwReg, 0x4008C044), (''REG_PWM_OS'', RwReg, 0x4008C048), (''REG_PWM_OSS'', WoReg, 0x4008C04C),
     (''REG_PWM_OSC'', WoReg, 0x4008C050), (''REG_PWM_OSSUPD'', WoReg, 0x4008C054),
     (''REG_PWM_OSCUPD'', WoReg, 0x4008C058), (''REG_PWM_FMR'', RwReg, 0x4008C05C),
     (''REG_PWM_FSR'', RoReg, 0x4008C060), (''REG_PWM_FCR'', WoReg, 0x4008C064),
     (''REG_PWM_FPV'', RwReg, 0x4008C068), (''REG_PWM_FPE'', RwReg, 0x4008C06C),
     (''REG_PWM_ELMR'', RwReg, 0x4008C07C), (''REG_PWM_WPCR'', WoReg, 0x4008C0E4),
     (''REG_PWM_WPSR'', RoReg, 0x4008C0E8), (''REG_PWM_TPR'', RwReg, 0x4008C108),
     (''REG_PWM_TCR'', RwReg, 0x4008C10C), (''REG_PWM_TNPR'', RwReg, 0x4008C118),
     (''REG_PWM_TNCR'', RwReg, 0x4008C11C), (''REG_PWM_PTCR'', WoReg, 0x4008C120),
     (''REG_PWM_PTSR'', RoReg, 0x4008C124), (''REG_PWM_CMPV0'', RwReg, 0x4008C130),
     (''REG_PWM_CMPVUPD0'', WoReg, 0x4008C134), (''REG_PWM_CMPM0'', RwReg, 0x4008C138),
     (''REG_PWM_CMPMUPD0'', WoReg, 0x4008C13C), (''REG_PWM_CMPV1'', RwReg, 0x4008C140),
     (''REG_PWM_CMPVUPD1'', WoReg, 0x4008C144), (''REG_PWM_CMPM1'', RwReg, 0x4008C148),
     (''REG_PWM_CMPMUPD1'', WoReg, 0x4008C14C), (''REG_PWM_CMPV2'', RwReg, 0x4008C150),
     (''REG_PWM_CMPVUPD2'', WoReg, 0x4008C154), (''REG_PWM_CMPM2'', RwReg, 0x4008C158),
     (''REG_PWM_CMPMUPD2'', WoReg, 0x4008C15C), (''REG_PWM_CMPV3'', RwReg, 0x4008C160),
     (''REG_PWM_CMPVUPD3'', WoReg, 0x4008C164), (''REG_PWM_CMPM3'', RwReg, 0x4008C168),
     (''REG_PWM_CMPMUPD3'', WoReg, 0x4008C16C), (''REG_PWM_CMPV4'', RwReg, 0x4008C170),
     (''REG_PWM_CMPVUPD4'', WoReg, 0x4008C174), (''REG_PWM_CMPM4'', RwReg, 0x4008C178),
     (''REG_PWM_CMPMUPD4'', WoReg, 0x4008C17C), (''REG_PWM_CMPV5'', RwReg, 0x4008C180),
     (''REG_PWM_CMPVUPD5'', WoReg, 0x4008C184), (''REG_PWM_CMPM5'', RwReg, 0x4008C188),
     (''REG_PWM_CMPMUPD5'', WoReg, 0x4008C18C), (''REG_PWM_CMPV6'', RwReg, 0x4008C190),
     (''REG_PWM_CMPVUPD6'', WoReg, 0x4008C194), (''REG_PWM_CMPM6'', RwReg, 0x4008C198),
     (''REG_PWM_CMPMUPD6'', WoReg, 0x4008C19C), (''REG_PWM_CMPV7'', RwReg, 0x4008C1A0),
     (''REG_PWM_CMPVUPD7'', WoReg, 0x4008C1A4), (''REG_PWM_CMPM7'', RwReg, 0x4008C1A8),
     (''REG_PWM_CMPMUPD7'', WoReg, 0x4008C1AC), (''REG_PWM_CMR0'', RwReg, 0x4008C200),
     (''REG_PWM_CDTY0'', RwReg, 0x4008C204), (''REG_PWM_CDTYUPD0'', WoReg, 0x4008C208),
     (''REG_PWM_CPRD0'', RwReg, 0x4008C20C), (''REG_PWM_CPRDUPD0'', WoReg, 0x4008C210),
     (''REG_PWM_CCNT0'', RoReg, 0x4008C214), (''REG_PWM_DT0'', RwReg, 0x4008C218),
     (''REG_PWM_DTUPD0'', WoReg, 0x4008C21C), (''REG_PWM_CMR1'', RwReg, 0x4008C220),
     (''REG_PWM_CDTY1'', RwReg, 0x4008C224), (''REG_PWM_CDTYUPD1'', WoReg, 0x4008C228),
     (''REG_PWM_CPRD1'', RwReg, 0x4008C22C), (''REG_PWM_CPRDUPD1'', WoReg, 0x4008C230),
     (''REG_PWM_CCNT1'', RoReg, 0x4008C234), (''REG_PWM_DT1'', RwReg, 0x4008C238),
     (''REG_PWM_DTUPD1'', WoReg, 0x4008C23C), (''REG_PWM_CMR2'', RwReg, 0x4008C240),
     (''REG_PWM_CDTY2'', RwReg, 0x4008C244), (''REG_PWM_CDTYUPD2'', WoReg, 0x4008C248),
     (''REG_PWM_CPRD2'', RwReg, 0x4008C24C), (''REG_PWM_CPRDUPD2'', WoReg, 0x4008C250),
     (''REG_PWM_CCNT2'', RoReg, 0x4008C254), (''REG_PWM_DT2'', RwReg, 0x4008C258),
     (''REG_PWM_DTUPD2'', WoReg, 0x4008C25C), (''REG_PWM_CMR3'', RwReg, 0x4008C260),
     (''REG_PWM_CDTY3'', RwReg, 0x4008C264), (''REG_PWM_CDTYUPD3'', WoReg, 0x4008C268),
     (''REG_PWM_CPRD3'', RwReg, 0x4008C26C), (''REG_PWM_CPRDUPD3'', WoReg, 0x4008C270),
     (''REG_PWM_CCNT3'', RoReg, 0x4008C274), (''REG_PWM_DT3'', RwReg, 0x4008C278),
     (''REG_PWM_DTUPD3'', WoReg, 0x4008C27C)]"

definition instance_RSTC :: "(string \<times> acc \<times> nat) list" where
  "instance_RSTC =
    [(''REG_RSTC_CR'', WoReg, 0x400E1200), (''REG_RSTC_SR'', RoReg, 0x400E1204), (''REG_RSTC_MR'', RwReg, 0x400E1208)]"

definition instance_RTC :: "(string \<times> acc \<times> nat) list" where
  "instance_RTC =
    [(''REG_RTC_CR'', RwReg, 0x400E1260), (''REG_RTC_MR'', RwReg, 0x400E1264), (''REG_RTC_TIMR'', RwReg, 0x400E1268),
     (''REG_RTC_CALR'', RwReg, 0x400E126C), (''REG_RTC_TIMALR'', RwReg, 0x400E1270),
     (''REG_RTC_CALALR'', RwReg, 0x400E1274), (''REG_RTC_SR'', RoReg, 0x400E1278),
     (''REG_RTC_SCCR'', WoReg, 0x400E127C), (''REG_RTC_IER'', WoReg, 0x400E1280),
     (''REG_RTC_IDR'', WoReg, 0x400E1284), (''REG_RTC_IMR'', RoReg, 0x400E1288),
     (''REG_RTC_VER'', RoReg, 0x400E128C), (''REG_RTC_WPMR'', RwReg, 0x400E1344)]"

definition instance_RTT :: "(string \<times> acc \<times> nat) list" where
  "instance_RTT =
    [(''REG_RTT_MR'', RwReg, 0x400E1230), (''REG_RTT_AR'', RwReg, 0x400E1234), (''REG_RTT_VR'', RoReg, 0x400E1238),
     (''REG_RTT_SR'', RoReg, 0x400E123C)]"

definition instance_SMC :: "(string \<times> acc \<times> nat) list" where
  "instance_SMC =
    [(''REG_SMC_CFG'', RwReg, 0x400E0000), (''REG_SMC_CTRL'', WoReg, 0x400E0004),
     (''REG_SMC_SR'', RoReg, 0x400E0008), (''REG_SMC_IER'', WoReg, 0x400E000C), (''REG_SMC_IDR'', WoReg, 0x400E0010),
     (''REG_SMC_IMR'', RoReg, 0x400E0014), (''REG_SMC_ADDR'', RwReg, 0x400E0018),
     (''REG_SMC_BANK'', RwReg, 0x400E001C), (''REG_SMC_ECC_CTRL'', WoReg, 0x400E0020),
     (''REG_SMC_ECC_MD'', RwReg, 0x400E0024), (''REG_SMC_ECC_SR1'', RoReg, 0x400E0028),
     (''REG_SMC_ECC_PR0'', RoReg, 0x400E002C), (''REG_SMC_ECC_PR1'', RoReg, 0x400E0030),
     (''REG_SMC_ECC_SR2'', RoReg, 0x400E0034), (''REG_SMC_ECC_PR2'', RoReg, 0x400E0038),
     (''REG_SMC_ECC_PR3'', RoReg, 0x400E003C), (''REG_SMC_ECC_PR4'', RoReg, 0x400E0040),
     (''REG_SMC_ECC_PR5'', RoReg, 0x400E0044), (''REG_SMC_ECC_PR6'', RoReg, 0x400E0048),
     (''REG_SMC_ECC_PR7'', RoReg, 0x400E004C), (''REG_SMC_ECC_PR8'', RoReg, 0x400E0050),
     (''REG_SMC_ECC_PR9'', RoReg, 0x400E0054), (''REG_SMC_ECC_PR10'', RoReg, 0x400E0058),
     (''REG_SMC_ECC_PR11'', RoReg, 0x400E005C), (''REG_SMC_ECC_PR12'', RoReg, 0x400E0060),
     (''REG_SMC_ECC_PR13'', RoReg, 0x400E0064), (''REG_SMC_ECC_PR14'', RoReg, 0x400E0068),
     (''REG_SMC_ECC_PR15'', RoReg, 0x400E006C), (''REG_SMC_SETUP0'', RwReg, 0x400E0070),
     (''REG_SMC_PULSE0'', RwReg, 0x400E0074), (''REG_SMC_CYCLE0'', RwReg, 0x400E0078),
     (''REG_SMC_TIMINGS0'', RwReg, 0x400E007C), (''REG_SMC_MODE0'', RwReg, 0x400E0080),
     (''REG_SMC_SETUP1'', RwReg, 0x400E0084), (''REG_SMC_PULSE1'', RwReg, 0x400E0088),
     (''REG_SMC_CYCLE1'', RwReg, 0x400E008C), (''REG_SMC_TIMINGS1'', RwReg, 0x400E0090),
     (''REG_SMC_MODE1'', RwReg, 0x400E0094), (''REG_SMC_SETUP2'', RwReg, 0x400E0098),
     (''REG_SMC_PULSE2'', RwReg, 0x400E009C), (''REG_SMC_CYCLE2'', RwReg, 0x400E00A0),
     (''REG_SMC_TIMINGS2'', RwReg, 0x400E00A4), (''REG_SMC_MODE2'', RwReg, 0x400E00A8),
     (''REG_SMC_SETUP3'', RwReg, 0x400E00AC), (''REG_SMC_PULSE3'', RwReg, 0x400E00B0),
     (''REG_SMC_CYCLE3'', RwReg, 0x400E00B4), (''REG_SMC_TIMINGS3'', RwReg, 0x400E00B8),
     (''REG_SMC_MODE3'', RwReg, 0x400E00BC), (''REG_SMC_OCMS'', RwReg, 0x400E0110),
     (''REG_SMC_KEY1'', WoReg, 0x400E0114), (''REG_SMC_KEY2'', WoReg, 0x400E0118),
     (''REG_SMC_WPCR'', WoReg, 0x400E01E4), (''REG_SMC_WPSR'', RoReg, 0x400E01E8)]"

definition instance_SPI :: "(string \<times> acc \<times> nat) list" where
  "instance_SPI =
    [(''REG_SPI_CR'', WoReg, 0x40008000), (''REG_SPI_MR'', RwReg, 0x40008004), (''REG_SPI_RDR'', RoReg, 0x40008008),
     (''REG_SPI_TDR'', WoReg, 0x4000800C), (''REG_SPI_SR'', RoReg, 0x40008010), (''REG_SPI_IER'', WoReg, 0x40008014),
     (''REG_SPI_IDR'', WoReg, 0x40008018), (''REG_SPI_IMR'', RoReg, 0x4000801C),
     (''REG_SPI_CSR'', RwReg, 0x40008030), (''REG_SPI_WPMR'', RwReg, 0x400080E4),
     (''REG_SPI_WPSR'', RoReg, 0x400080E8)]"

definition instance_SSC :: "(string \<times> acc \<times> nat) list" where
  "instance_SSC =
    [(''REG_SSC_CR'', WoReg, 0x40004000), (''REG_SSC_CMR'', RwReg, 0x40004004),
     (''REG_SSC_RCMR'', RwReg, 0x40004010), (''REG_SSC_RFMR'', RwReg, 0x40004014),
     (''REG_SSC_TCMR'', RwReg, 0x40004018), (''REG_SSC_TFMR'', RwReg, 0x4000401C),
     (''REG_SSC_RHR'', RoReg, 0x40004020), (''REG_SSC_THR'', WoReg, 0x40004024),
     (''REG_SSC_RSHR'', RoReg, 0x40004030), (''REG_SSC_TSHR'', RwReg, 0x40004034),
     (''REG_SSC_RC0R'', RwReg, 0x40004038), (''REG_SSC_RC1R'', RwReg, 0x4000403C),
     (''REG_SSC_SR'', RoReg, 0x40004040), (''REG_SSC_IER'', WoReg, 0x40004044), (''REG_SSC_IDR'', WoReg, 0x40004048),
     (''REG_SSC_IMR'', RoReg, 0x4000404C), (''REG_SSC_WPMR'', RwReg, 0x400040E4),
     (''REG_SSC_WPSR'', RoReg, 0x400040E8)]"

definition instance_SUPC :: "(string \<times> acc \<times> nat) list" where
  "instance_SUPC =
    [(''REG_SUPC_CR'', WoReg, 0x400E1210), (''REG_SUPC_SMMR'', RwReg, 0x400E1214),
     (''REG_SUPC_MR'', RwReg, 0x400E1218), (''REG_SUPC_WUMR'', RwReg, 0x400E121C),
     (''REG_SUPC_WUIR'', RwReg, 0x400E1220), (''REG_SUPC_SR'', RoReg, 0x400E1224)]"

definition instance_TC0 :: "(string \<times> acc \<times> nat) list" where
  "instance_TC0 =
    [(''REG_TC0_CCR0'', WoReg, 0x40080000), (''REG_TC0_CMR0'', RwReg, 0x40080004),
     (''REG_TC0_CV0'', RoReg, 0x40080010), (''REG_TC0_RA0'', RwReg, 0x40080014),
     (''REG_TC0_RB0'', RwReg, 0x40080018), (''REG_TC0_RC0'', RwReg, 0x4008001C),
     (''REG_TC0_SR0'', RoReg, 0x40080020), (''REG_TC0_IER0'', WoReg, 0x40080024),
     (''REG_TC0_IDR0'', WoReg, 0x40080028), (''REG_TC0_IMR0'', RoReg, 0x4008002C),
     (''REG_TC0_CCR1'', WoReg, 0x40080040), (''REG_TC0_CMR1'', RwReg, 0x40080044),
     (''REG_TC0_CV1'', RoReg, 0x40080050), (''REG_TC0_RA1'', RwReg, 0x40080054),
     (''REG_TC0_RB1'', RwReg, 0x40080058), (''REG_TC0_RC1'', RwReg, 0x4008005C),
     (''REG_TC0_SR1'', RoReg, 0x40080060), (''REG_TC0_IER1'', WoReg, 0x40080064),
     (''REG_TC0_IDR1'', WoReg, 0x40080068), (''REG_TC0_IMR1'', RoReg, 0x4008006C),
     (''REG_TC0_CCR2'', WoReg, 0x40080080), (''REG_TC0_CMR2'', RwReg, 0x40080084),
     (''REG_TC0_CV2'', RoReg, 0x40080090), (''REG_TC0_RA2'', RwReg, 0x40080094),
     (''REG_TC0_RB2'', RwReg, 0x40080098), (''REG_TC0_RC2'', RwReg, 0x4008009C),
     (''REG_TC0_SR2'', RoReg, 0x400800A0), (''REG_TC0_IER2'', WoReg, 0x400800A4),
     (''REG_TC0_IDR2'', WoReg, 0x400800A8), (''REG_TC0_IMR2'', RoReg, 0x400800AC),
     (''REG_TC0_BCR'', WoReg, 0x400800C0), (''REG_TC0_BMR'', RwReg, 0x400800C4),
     (''REG_TC0_QIER'', WoReg, 0x400800C8), (''REG_TC0_QIDR'', WoReg, 0x400800CC),
     (''REG_TC0_QIMR'', RoReg, 0x400800D0), (''REG_TC0_QISR'', RoReg, 0x400800D4)]"

definition instance_TWI0 :: "(string \<times> acc \<times> nat) list" where
  "instance_TWI0 =
    [(''REG_TWI0_CR'', WoReg, 0x40084000), (''REG_TWI0_MMR'', RwReg, 0x40084004),
     (''REG_TWI0_SMR'', RwReg, 0x40084008), (''REG_TWI0_IADR'', RwReg, 0x4008400C),
     (''REG_TWI0_CWGR'', RwReg, 0x40084010), (''REG_TWI0_SR'', RoReg, 0x40084020),
     (''REG_TWI0_IER'', WoReg, 0x40084024), (''REG_TWI0_IDR'', WoReg, 0x40084028),
     (''REG_TWI0_IMR'', RoReg, 0x4008402C), (''REG_TWI0_RHR'', RoReg, 0x40084030),
     (''REG_TWI0_THR'', WoReg, 0x40084034), (''REG_TWI0_RPR'', RwReg, 0x40084100),
     (''REG_TWI0_RCR'', RwReg, 0x40084104), (''REG_TWI0_TPR'', RwReg, 0x40084108),
     (''REG_TWI0_TCR'', RwReg, 0x4008410C), (''REG_TWI0_RNPR'', RwReg, 0x40084110),
     (''REG_TWI0_RNCR'', RwReg, 0x40084114), (''REG_TWI0_TNPR'', RwReg, 0x40084118),
     (''REG_TWI0_TNCR'', RwReg, 0x4008411C), (''REG_TWI0_PTCR'', WoReg, 0x40084120),
     (''REG_TWI0_PTSR'', RoReg, 0x40084124)]"

definition instance_TWI1 :: "(string \<times> acc \<times> nat) list" where
  "instance_TWI1 =
    [(''REG_TWI1_CR'', WoReg, 0x40088000), (''REG_TWI1_MMR'', RwReg, 0x40088004),
     (''REG_TWI1_SMR'', RwReg, 0x40088008), (''REG_TWI1_IADR'', RwReg, 0x4008800C),
     (''REG_TWI1_CWGR'', RwReg, 0x40088010), (''REG_TWI1_SR'', RoReg, 0x40088020),
     (''REG_TWI1_IER'', WoReg, 0x40088024), (''REG_TWI1_IDR'', WoReg, 0x40088028),
     (''REG_TWI1_IMR'', RoReg, 0x4008802C), (''REG_TWI1_RHR'', RoReg, 0x40088030),
     (''REG_TWI1_THR'', WoReg, 0x40088034), (''REG_TWI1_RPR'', RwReg, 0x40088100),
     (''REG_TWI1_RCR'', RwReg, 0x40088104), (''REG_TWI1_TPR'', RwReg, 0x40088108),
     (''REG_TWI1_TCR'', RwReg, 0x4008810C), (''REG_TWI1_RNPR'', RwReg, 0x40088110),
     (''REG_TWI1_RNCR'', RwReg, 0x40088114), (''REG_TWI1_TNPR'', RwReg, 0x40088118),
     (''REG_TWI1_TNCR'', RwReg, 0x4008811C), (''REG_TWI1_PTCR'', WoReg, 0x40088120),
     (''REG_TWI1_PTSR'', RoReg, 0x40088124)]"

definition instance_UART :: "(string \<times> acc \<times> nat) list" where
  "instance_UART =
    [(''REG_UART_CR'', WoReg, 0x400E0600), (''REG_UART_MR'', RwReg, 0x400E0604),
     (''REG_UART_IER'', WoReg, 0x400E0608), (''REG_UART_IDR'', WoReg, 0x400E060C),
     (''REG_UART_IMR'', RoReg, 0x400E0610), (''REG_UART_SR'', RoReg, 0x400E0614),
     (''REG_UART_RHR'', RoReg, 0x400E0618), (''REG_UART_THR'', WoReg, 0x400E061C),
     (''REG_UART_BRGR'', RwReg, 0x400E0620), (''REG_UART_RPR'', RwReg, 0x400E0700),
     (''REG_UART_RCR'', RwReg, 0x400E0704), (''REG_UART_TPR'', RwReg, 0x400E0708),
     (''REG_UART_TCR'', RwReg, 0x400E070C), (''REG_UART_RNPR'', RwReg, 0x400E0710),
     (''REG_UART_RNCR'', RwReg, 0x400E0714), (''REG_UART_TNPR'', RwReg, 0x400E0718),
     (''REG_UART_TNCR'', RwReg, 0x400E071C), (''REG_UART_PTCR'', WoReg, 0x400E0720),
     (''REG_UART_PTSR'', RoReg, 0x400E0724)]"

definition instance_UDPHS :: "(string \<times> acc \<times> nat) list" where
  "instance_UDPHS =
    [(''REG_UDPHS_CTRL'', RwReg, 0x400A4000), (''REG_UDPHS_FNUM'', RoReg, 0x400A4004),
     (''REG_UDPHS_IEN'', RwReg, 0x400A4010), (''REG_UDPHS_INTSTA'', RoReg, 0x400A4014),
     (''REG_UDPHS_CLRINT'', WoReg, 0x400A4018), (''REG_UDPHS_EPTRST'', WoReg, 0x400A401C),
     (''REG_UDPHS_TST'', RwReg, 0x400A40E0), (''REG_UDPHS_IPNAME1'', RoReg, 0x400A40F0),
     (''REG_UDPHS_IPNAME2'', RoReg, 0x400A40F4), (''REG_UDPHS_IPFEATURES'', RoReg, 0x400A40F8),
     (''REG_UDPHS_EPTCFG0'', RwReg, 0x400A4100), (''REG_UDPHS_EPTCTLENB0'', WoReg, 0x400A4104),
     (''REG_UDPHS_EPTCTLDIS0'', WoReg, 0x400A4108), (''REG_UDPHS_EPTCTL0'', RoReg, 0x400A410C),
     (''REG_UDPHS_EPTSETSTA0'', WoReg, 0x400A4114), (''REG_UDPHS_EPTCLRSTA0'', WoReg, 0x400A4118),
     (''REG_UDPHS_EPTSTA0'', RoReg, 0x400A411C), (''REG_UDPHS_EPTCFG1'', RwReg, 0x400A4120),
     (''REG_UDPHS_EPTCTLENB1'', WoReg, 0x400A4124), (''REG_UDPHS_EPTCTLDIS1'', WoReg, 0x400A4128),
     (''REG_UDPHS_EPTCTL1'', RoReg, 0x400A412C), (''REG_UDPHS_EPTSETSTA1'', WoReg, 0x400A4134),
     (''REG_UDPHS_EPTCLRSTA1'', WoReg, 0x400A4138), (''REG_UDPHS_EPTSTA1'', RoReg, 0x400A413C),
     (''REG_UDPHS_EPTCFG2'', RwReg, 0x400A4140), (''REG_UDPHS_EPTCTLENB2'', WoReg, 0x400A4144),
     (''REG_UDPHS_EPTCTLDIS2'', WoReg, 0x400A4148), (''REG_UDPHS_EPTCTL2'', RoReg, 0x400A414C),
     (''REG_UDPHS_EPTSETSTA2'', WoReg, 0x400A4154), (''REG_UDPHS_EPTCLRSTA2'', WoReg, 0x400A4158),
     (''REG_UDPHS_EPTSTA2'', RoReg, 0x400A415C), (''REG_UDPHS_EPTCFG3'', RwReg, 0x400A4160),
     (''REG_UDPHS_EPTCTLENB3'', WoReg, 0x400A4164), (''REG_UDPHS_EPTCTLDIS3'', WoReg, 0x400A4168),
     (''REG_UDPHS_EPTCTL3'', RoReg, 0x400A416C), (''REG_UDPHS_EPTSETSTA3'', WoReg, 0x400A4174),
     (''REG_UDPHS_EPTCLRSTA3'', WoReg, 0x400A4178), (''REG_UDPHS_EPTSTA3'', RoReg, 0x400A417C),
     (''REG_UDPHS_EPTCFG4'', RwReg, 0x400A4180), (''REG_UDPHS_EPTCTLENB4'', WoReg, 0x400A4184),
     (''REG_UDPHS_EPTCTLDIS4'', WoReg, 0x400A4188), (''REG_UDPHS_EPTCTL4'', RoReg, 0x400A418C),
     (''REG_UDPHS_EPTSETSTA4'', WoReg, 0x400A4194), (''REG_UDPHS_EPTCLRSTA4'', WoReg, 0x400A4198),
     (''REG_UDPHS_EPTSTA4'', RoReg, 0x400A419C), (''REG_UDPHS_EPTCFG5'', RwReg, 0x400A41A0),
     (''REG_UDPHS_EPTCTLENB5'', WoReg, 0x400A41A4), (''REG_UDPHS_EPTCTLDIS5'', WoReg, 0x400A41A8),
     (''REG_UDPHS_EPTCTL5'', RoReg, 0x400A41AC), (''REG_UDPHS_EPTSETSTA5'', WoReg, 0x400A41B4),
     (''REG_UDPHS_EPTCLRSTA5'', WoReg, 0x400A41B8), (''REG_UDPHS_EPTSTA5'', RoReg, 0x400A41BC),
     (''REG_UDPHS_EPTCFG6'', RwReg, 0x400A41C0), (''REG_UDPHS_EPTCTLENB6'', WoReg, 0x400A41C4),
     (''REG_UDPHS_EPTCTLDIS6'', WoReg, 0x400A41C8), (''REG_UDPHS_EPTCTL6'', RoReg, 0x400A41CC),
     (''REG_UDPHS_EPTSETSTA6'', WoReg, 0x400A41D4), (''REG_UDPHS_EPTCLRSTA6'', WoReg, 0x400A41D8),
     (''REG_UDPHS_EPTSTA6'', RoReg, 0x400A41DC), (''REG_UDPHS_DMANXTDSC0'', RwReg, 0x400A4300),
     (''REG_UDPHS_DMAADDRESS0'', RwReg, 0x400A4304), (''REG_UDPHS_DMACONTROL0'', RwReg, 0x400A4308),
     (''REG_UDPHS_DMASTATUS0'', RwReg, 0x400A430C), (''REG_UDPHS_DMANXTDSC1'', RwReg, 0x400A4310),
     (''REG_UDPHS_DMAADDRESS1'', RwReg, 0x400A4314), (''REG_UDPHS_DMACONTROL1'', RwReg, 0x400A4318),
     (''REG_UDPHS_DMASTATUS1'', RwReg, 0x400A431C), (''REG_UDPHS_DMANXTDSC2'', RwReg, 0x400A4320),
     (''REG_UDPHS_DMAADDRESS2'', RwReg, 0x400A4324), (''REG_UDPHS_DMACONTROL2'', RwReg, 0x400A4328),
     (''REG_UDPHS_DMASTATUS2'', RwReg, 0x400A432C), (''REG_UDPHS_DMANXTDSC3'', RwReg, 0x400A4330),
     (''REG_UDPHS_DMAADDRESS3'', RwReg, 0x400A4334), (''REG_UDPHS_DMACONTROL3'', RwReg, 0x400A4338),
     (''REG_UDPHS_DMASTATUS3'', RwReg, 0x400A433C), (''REG_UDPHS_DMANXTDSC4'', RwReg, 0x400A4340),
     (''REG_UDPHS_DMAADDRESS4'', RwReg, 0x400A4344), (''REG_UDPHS_DMACONTROL4'', RwReg, 0x400A4348),
     (''REG_UDPHS_DMASTATUS4'', RwReg, 0x400A434C), (''REG_UDPHS_DMANXTDSC5'', RwReg, 0x400A4350),
     (''REG_UDPHS_DMAADDRESS5'', RwReg, 0x400A4354), (''REG_UDPHS_DMACONTROL5'', RwReg, 0x400A4358),
     (''REG_UDPHS_DMASTATUS5'', RwReg, 0x400A435C)]"

definition instance_USART0 :: "(string \<times> acc \<times> nat) list" where
  "instance_USART0 =
    [(''REG_USART0_CR'', WoReg, 0x40090000), (''REG_USART0_MR'', RwReg, 0x40090004),
     (''REG_USART0_IER'', WoReg, 0x40090008), (''REG_USART0_IDR'', WoReg, 0x4009000C),
     (''REG_USART0_IMR'', RoReg, 0x40090010), (''REG_USART0_CSR'', RoReg, 0x40090014),
     (''REG_USART0_RHR'', RoReg, 0x40090018), (''REG_USART0_THR'', WoReg, 0x4009001C),
     (''REG_USART0_BRGR'', RwReg, 0x40090020), (''REG_USART0_RTOR'', RwReg, 0x40090024),
     (''REG_USART0_TTGR'', RwReg, 0x40090028), (''REG_USART0_FIDI'', RwReg, 0x40090040),
     (''REG_USART0_NER'', RoReg, 0x40090044), (''REG_USART0_IF'', RwReg, 0x4009004C),
     (''REG_USART0_MAN'', RwReg, 0x40090050), (''REG_USART0_WPMR'', RwReg, 0x400900E4),
     (''REG_USART0_WPSR'', RoReg, 0x400900E8), (''REG_USART0_RPR'', RwReg, 0x40090100),
     (''REG_USART0_RCR'', RwReg, 0x40090104), (''REG_USART0_TPR'', RwReg, 0x40090108),
     (''REG_USART0_TCR'', RwReg, 0x4009010C), (''REG_USART0_RNPR'', RwReg, 0x40090110),
     (''REG_USART0_RNCR'', RwReg, 0x40090114), (''REG_USART0_TNPR'', RwReg, 0x40090118),
     (''REG_USART0_TNCR'', RwReg, 0x4009011C), (''REG_USART0_PTCR'', WoReg, 0x40090120),
     (''REG_USART0_PTSR'', RoReg, 0x40090124)]"

definition instance_USART1 :: "(string \<times> acc \<times> nat) list" where
  "instance_USART1 =
    [(''REG_USART1_CR'', WoReg, 0x40094000), (''REG_USART1_MR'', RwReg, 0x40094004),
     (''REG_USART1_IER'', WoReg, 0x40094008), (''REG_USART1_IDR'', WoReg, 0x4009400C),
     (''REG_USART1_IMR'', RoReg, 0x40094010), (''REG_USART1_CSR'', RoReg, 0x40094014),
     (''REG_USART1_RHR'', RoReg, 0x40094018), (''REG_USART1_THR'', WoReg, 0x4009401C),
     (''REG_USART1_BRGR'', RwReg, 0x40094020), (''REG_USART1_RTOR'', RwReg, 0x40094024),
     (''REG_USART1_TTGR'', RwReg, 0x40094028), (''REG_USART1_FIDI'', RwReg, 0x40094040),
     (''REG_USART1_NER'', RoReg, 0x40094044), (''REG_USART1_IF'', RwReg, 0x4009404C),
     (''REG_USART1_MAN'', RwReg, 0x40094050), (''REG_USART1_WPMR'', RwReg, 0x400940E4),
     (''REG_USART1_WPSR'', RoReg, 0x400940E8), (''REG_USART1_RPR'', RwReg, 0x40094100),
     (''REG_USART1_RCR'', RwReg, 0x40094104), (''REG_USART1_TPR'', RwReg, 0x40094108),
     (''REG_USART1_TCR'', RwReg, 0x4009410C), (''REG_USART1_RNPR'', RwReg, 0x40094110),
     (''REG_USART1_RNCR'', RwReg, 0x40094114), (''REG_USART1_TNPR'', RwReg, 0x40094118),
     (''REG_USART1_TNCR'', RwReg, 0x4009411C), (''REG_USART1_PTCR'', WoReg, 0x40094120),
     (''REG_USART1_PTSR'', RoReg, 0x40094124)]"

definition instance_USART2 :: "(string \<times> acc \<times> nat) list" where
  "instance_USART2 =
    [(''REG_USART2_CR'', WoReg, 0x40098000), (''REG_USART2_MR'', RwReg, 0x40098004),
     (''REG_USART2_IER'', WoReg, 0x40098008), (''REG_USART2_IDR'', WoReg, 0x4009800C),
     (''REG_USART2_IMR'', RoReg, 0x40098010), (''REG_USART2_CSR'', RoReg, 0x40098014),
     (''REG_USART2_RHR'', RoReg, 0x40098018), (''REG_USART2_THR'', WoReg, 0x4009801C),
     (''REG_USART2_BRGR'', RwReg, 0x40098020), (''REG_USART2_RTOR'', RwReg, 0x40098024),
     (''REG_USART2_TTGR'', RwReg, 0x40098028), (''REG_USART2_FIDI'', RwReg, 0x40098040),
     (''REG_USART2_NER'', RoReg, 0x40098044), (''REG_USART2_IF'', RwReg, 0x4009804C),
     (''REG_USART2_MAN'', RwReg, 0x40098050), (''REG_USART2_WPMR'', RwReg, 0x400980E4),
     (''REG_USART2_WPSR'', RoReg, 0x400980E8), (''REG_USART2_RPR'', RwReg, 0x40098100),
     (''REG_USART2_RCR'', RwReg, 0x40098104), (''REG_USART2_TPR'', RwReg, 0x40098108),
     (''REG_USART2_TCR'', RwReg, 0x4009810C), (''REG_USART2_RNPR'', RwReg, 0x40098110),
     (''REG_USART2_RNCR'', RwReg, 0x40098114), (''REG_USART2_TNPR'', RwReg, 0x40098118),
     (''REG_USART2_TNCR'', RwReg, 0x4009811C), (''REG_USART2_PTCR'', WoReg, 0x40098120),
     (''REG_USART2_PTSR'', RoReg, 0x40098124)]"

definition instance_WDT :: "(string \<times> acc \<times> nat) list" where
  "instance_WDT =
    [(''REG_WDT_CR'', WoReg, 0x400E1250), (''REG_WDT_MR'', RwReg, 0x400E1254), (''REG_WDT_SR'', RoReg, 0x400E1258)]"

definition instance_headers :: "(string \<times> (string \<times> acc \<times> nat) list) list" where
  "instance_headers =
    [(''HSMCI'', instance_HSMCI), (''SSC'', instance_SSC), (''SPI'', instance_SPI), (''TC0'', instance_TC0),
     (''TWI0'', instance_TWI0), (''TWI1'', instance_TWI1), (''PWM'', instance_PWM), (''USART0'', instance_USART0),
     (''USART1'', instance_USART1), (''USART2'', instance_USART2), (''UDPHS'', instance_UDPHS),
     (''ADC12B'', instance_ADC12B), (''ADC'', instance_ADC), (''DMAC'', instance_DMAC), (''SMC'', instance_SMC),
     (''MATRIX'', instance_MATRIX), (''PMC'', instance_PMC), (''UART'', instance_UART),
     (''CHIPID'', instance_CHIPID), (''EFC0'', instance_EFC0), (''EFC1'', instance_EFC1), (''PIOA'', instance_PIOA),
     (''PIOB'', instance_PIOB), (''RSTC'', instance_RSTC), (''SUPC'', instance_SUPC), (''RTT'', instance_RTT),
     (''WDT'', instance_WDT), (''RTC'', instance_RTC), (''GPBR'', instance_GPBR)]"

lemmas [header_defs] =
  struct_Adc_def struct_Adc12b_def struct_Chipid_def struct_DmacCh_num_def struct_Dmac_def struct_Efc_def
  struct_Gpbr_def struct_Hsmci_def struct_Matrix_def struct_Pio_def struct_Pmc_def struct_PwmCmp_def
  struct_PwmCh_num_def struct_Pwm_def struct_Rstc_def struct_Rtc_def struct_Rtt_def struct_SmcCs_number_def
  struct_Smc_def struct_Spi_def struct_Ssc_def struct_Supc_def struct_TcChannel_def struct_Tc_def
  struct_Twi_def struct_Uart_def struct_UdphsEpt_def struct_UdphsDma_def struct_Udphs_def struct_Usart_def
  struct_Wdt_def struct_Pdc_def instance_ADC_def instance_ADC12B_def instance_CHIPID_def instance_DMAC_def
  instance_EFC0_def instance_EFC1_def instance_GPBR_def instance_HSMCI_def instance_MATRIX_def
  instance_PIOA_def instance_PIOB_def instance_PMC_def instance_PWM_def instance_RSTC_def instance_RTC_def
  instance_RTT_def instance_SMC_def instance_SPI_def instance_SSC_def instance_SUPC_def instance_TC0_def
  instance_TWI0_def instance_TWI1_def instance_UART_def instance_UDPHS_def instance_USART0_def
  instance_USART1_def instance_USART2_def instance_WDT_def

section \<open>The views agree\<close>

text \<open>
  The structure placed at the base address of a peripheral, against the macros of the
  peripheral: the same registers in the same order at the same addresses. A macro may
  restrict the access where the structure does not.
\<close>

definition view_agrees :: "member list \<Rightarrow> nat \<Rightarrow> (string \<times> acc \<times> nat) list \<Rightarrow> bool" where
  "view_agrees ms b rs \<longleftrightarrow>
     list_all2 (\<lambda>(n, a, x) (m, c, y). short_name n = short_name (short_name m) \<and> x = y \<and> (a = c \<or> a = RwReg))
       (named (layout b ms)) rs"

lemmas view_defs = view_agrees_def named_def short_name_def reg_size_def

lemma agrees_1:
  "view_agrees struct_Hsmci 0x40000000 instance_HSMCI"
  "view_agrees struct_Ssc 0x40004000 instance_SSC"
  "view_agrees struct_Spi 0x40008000 instance_SPI"
  "view_agrees struct_Tc 0x40080000 instance_TC0"
  "view_agrees struct_Twi 0x40084000 instance_TWI0"
  "view_agrees struct_Twi 0x40088000 instance_TWI1"
  "view_agrees struct_Pwm 0x4008C000 instance_PWM"
  by (simp_all add: view_defs header_defs)

lemma agrees_2:
  "view_agrees struct_Usart 0x40090000 instance_USART0"
  "view_agrees struct_Usart 0x40094000 instance_USART1"
  "view_agrees struct_Usart 0x40098000 instance_USART2"
  "view_agrees struct_Udphs 0x400A4000 instance_UDPHS"
  by (simp_all add: view_defs header_defs)

lemma agrees_3:
  "view_agrees struct_Adc12b 0x400A8000 instance_ADC12B"
  "view_agrees struct_Adc 0x400AC000 instance_ADC"
  "view_agrees struct_Dmac 0x400B0000 instance_DMAC"
  "view_agrees struct_Smc 0x400E0000 instance_SMC"
  "view_agrees struct_Matrix 0x400E0200 instance_MATRIX"
  by (simp_all add: view_defs header_defs)

lemma agrees_4:
  "view_agrees struct_Pmc 0x400E0400 instance_PMC"
  "view_agrees struct_Uart 0x400E0600 instance_UART"
  "view_agrees struct_Chipid 0x400E0740 instance_CHIPID"
  "view_agrees struct_Efc 0x400E0800 instance_EFC0"
  "view_agrees struct_Efc 0x400E0A00 instance_EFC1"
  "view_agrees struct_Pio 0x400E0C00 instance_PIOA"
  "view_agrees struct_Pio 0x400E0E00 instance_PIOB"
  "view_agrees struct_Rstc 0x400E1200 instance_RSTC"
  "view_agrees struct_Supc 0x400E1210 instance_SUPC"
  by (simp_all add: view_defs header_defs)

lemma agrees_5:
  "view_agrees struct_Rtt 0x400E1230 instance_RTT"
  "view_agrees struct_Wdt 0x400E1250 instance_WDT"
  "view_agrees struct_Rtc 0x400E1260 instance_RTC"
  "view_agrees struct_Gpbr 0x400E1290 instance_GPBR"
  by (simp_all add: view_defs header_defs)

lemmas agrees = agrees_1 agrees_2 agrees_3 agrees_4 agrees_5

lemma headers_agree:
  "list_all (\<lambda>(p, rs). case map_of base_addresses p of None \<Rightarrow> False | Some (ms, b) \<Rightarrow> view_agrees ms b rs)
     instance_headers"
  by (simp add: instance_headers_def base_addresses_def agrees)


section \<open>Registers are at different addresses\<close>

definition address :: "string \<times> acc \<times> nat \<Rightarrow> nat" where
  "address r = snd (snd r)"

text \<open>Words that follow each other from \<open>a\<close> on, without overlap, and end before \<open>b\<close>.\<close>

fun chain :: "nat \<Rightarrow> nat list \<Rightarrow> nat \<Rightarrow> bool" where
  "chain a [] b \<longleftrightarrow> a \<le> b"
| "chain a (x # xs) b \<longleftrightarrow> a \<le> x \<and> x mod 4 = 0 \<and> chain (x + 4) xs b"

lemma chain_append: "chain a xs b \<Longrightarrow> chain b ys c \<Longrightarrow> chain a (xs @ ys) c"
proof (induction xs arbitrary: a)
  case Nil
  then show ?case by (cases ys) auto
qed auto

lemma chain_le: "chain a xs b \<Longrightarrow> a \<le> b"
  by (induction xs arbitrary: a) fastforce+

lemma chain_above: "chain a xs b \<Longrightarrow> x \<in> set xs \<Longrightarrow> a \<le> x \<and> x + 4 \<le> b"
  by (induction xs arbitrary: a) (fastforce dest: chain_le)+

lemma chain_distinct: "chain a xs b \<Longrightarrow> distinct xs"
  by (induction xs arbitrary: a) (auto dest: chain_above)

lemma chains_1:
  "chain 0x40000000 (map address instance_HSMCI) 0x40004000"
  "chain 0x40004000 (map address instance_SSC) 0x40008000"
  "chain 0x40008000 (map address instance_SPI) 0x40080000"
  "chain 0x40080000 (map address instance_TC0) 0x40084000"
  "chain 0x40084000 (map address instance_TWI0) 0x40088000"
  "chain 0x40088000 (map address instance_TWI1) 0x4008C000"
  "chain 0x4008C000 (map address instance_PWM) 0x40090000"
  "chain 0x40090000 (map address instance_USART0) 0x40094000"
  by (simp_all add: address_def header_defs)

lemma chains_2:
  "chain 0x40094000 (map address instance_USART1) 0x40098000"
  "chain 0x40098000 (map address instance_USART2) 0x400A4000"
  "chain 0x400A4000 (map address instance_UDPHS) 0x400A8000"
  "chain 0x400A8000 (map address instance_ADC12B) 0x400AC000"
  "chain 0x400AC000 (map address instance_ADC) 0x400B0000"
  "chain 0x400B0000 (map address instance_DMAC) 0x400E0000"
  "chain 0x400E0000 (map address instance_SMC) 0x400E0200"
  by (simp_all add: address_def header_defs)

lemma chains_3:
  "chain 0x400E0200 (map address instance_MATRIX) 0x400E0400"
  "chain 0x400E0400 (map address instance_PMC) 0x400E0600"
  "chain 0x400E0600 (map address instance_UART) 0x400E0740"
  "chain 0x400E0740 (map address instance_CHIPID) 0x400E0800"
  "chain 0x400E0800 (map address instance_EFC0) 0x400E0A00"
  "chain 0x400E0A00 (map address instance_EFC1) 0x400E0C00"
  "chain 0x400E0C00 (map address instance_PIOA) 0x400E0E00"
  "chain 0x400E0E00 (map address instance_PIOB) 0x400E1200"
  "chain 0x400E1200 (map address instance_RSTC) 0x400E1210"
  "chain 0x400E1210 (map address instance_SUPC) 0x400E1230"
  "chain 0x400E1230 (map address instance_RTT) 0x400E1250"
  "chain 0x400E1250 (map address instance_WDT) 0x400E1260"
  "chain 0x400E1260 (map address (take 12 instance_RTC)) 0x400E1290"
  "chain 0x400E1290 (map address instance_GPBR) 0x400E1344"
  "chain 0x400E1344 (map address (drop 12 instance_RTC)) 0x400E1348"
  by (simp_all add: address_def header_defs)

lemmas chains = chains_1 chains_2 chains_3

text \<open>
  The registers of the real-time clock lie on both sides of the backup registers; apart from
  that the peripherals follow each other.
\<close>

lemma addresses_chain:
  "\<exists>xs ys zs. concat (map snd instance_headers) = xs @ instance_RTC @ instance_GPBR \<and>
     ys = take 12 instance_RTC \<and> zs = drop 12 instance_RTC \<and>
     chain 0x40000000 (map address (xs @ ys @ instance_GPBR @ zs)) 0x400E1348"
proof -
  let ?xs = "concat (map snd (take 27 instance_headers))"
  have "concat (map snd instance_headers) = ?xs @ instance_RTC @ instance_GPBR"
    by (simp add: instance_headers_def)
  moreover have "chain 0x40000000 (map address (?xs @ take 12 instance_RTC @ instance_GPBR @ drop 12 instance_RTC)) 0x400E1348"
    by (simp add: instance_headers_def) (rule chains chain_append)+
  ultimately show ?thesis by blast
qed

lemma distinct_moved: "distinct (xs @ as @ gs @ bs) \<Longrightarrow> distinct (xs @ (as @ bs) @ gs)"
  by auto

lemma distinct_addresses: "distinct (map address (concat (map snd instance_headers)))"
proof -
  obtain xs where xs: "concat (map snd instance_headers) = xs @ instance_RTC @ instance_GPBR"
    and c: "chain 0x40000000 (map address (xs @ take 12 instance_RTC @ instance_GPBR @ drop 12 instance_RTC)) 0x400E1348"
    using addresses_chain by blast
  have "map address instance_RTC = map address (take 12 instance_RTC) @ map address (drop 12 instance_RTC)"
    by (metis append_take_drop_id map_append)
  then show ?thesis
    using distinct_moved [OF chain_distinct [OF c, unfolded map_append]] by (simp only: xs map_append)
qed

section \<open>The registers of the model\<close>

text \<open>The peripherals that the model names, with their base address and header.\<close>

definition header :: "periph \<Rightarrow> nat \<times> (string \<times> acc \<times> nat) list" where
  "header p =
     (case p of
        TC0 \<Rightarrow> (0x40080000, instance_TC0) | TWI0 \<Rightarrow> (0x40084000, instance_TWI0)
      | TWI1 \<Rightarrow> (0x40088000, instance_TWI1) | PWM \<Rightarrow> (0x4008C000, instance_PWM)
      | USART0 \<Rightarrow> (0x40090000, instance_USART0) | USART1 \<Rightarrow> (0x40094000, instance_USART1)
      | USART2 \<Rightarrow> (0x40098000, instance_USART2) | UDPHS \<Rightarrow> (0x400A4000, instance_UDPHS)
      | PMC \<Rightarrow> (0x400E0400, instance_PMC) | EFC0 \<Rightarrow> (0x400E0800, instance_EFC0)
      | EFC1 \<Rightarrow> (0x400E0A00, instance_EFC1) | PIOA \<Rightarrow> (0x400E0C00, instance_PIOA)
      | PIOB \<Rightarrow> (0x400E0E00, instance_PIOB) | RSTC \<Rightarrow> (0x400E1200, instance_RSTC)
      | SUPC \<Rightarrow> (0x400E1210, instance_SUPC) | WDT \<Rightarrow> (0x400E1250, instance_WDT)
      | _ \<Rightarrow> (0, []))"

text \<open>How a register may be accessed; \<open>None\<close> when there is no register at that offset.\<close>

fun acc_lookup :: "nat \<Rightarrow> (nat \<times> acc) list \<Rightarrow> acc option" where
  "acc_lookup r [] = None"
| "acc_lookup r ((k, a) # ks) = (if k = r then Some a else acc_lookup r ks)"

lemma acc_lookup_in: "acc_lookup r ks \<noteq> None \<Longrightarrow> \<exists>a. (r, a) \<in> set ks"
  by (induction r ks rule: acc_lookup.induct) (auto split: if_splits)

definition reg_acc :: "periph \<Rightarrow> nat \<Rightarrow> acc option" where
  "reg_acc p r = acc_lookup r (map (\<lambda>(_, a, x). (x - fst (header p), a)) (snd (header p)))"

definition reg_address :: "periph \<Rightarrow> nat \<Rightarrow> nat option" where
  "reg_address p r = map_option (\<lambda>_. fst (header p) + r) (reg_acc p r)"

text \<open>The peripheral that an address belongs to.\<close>

definition owner :: "nat \<Rightarrow> periph" where
  "owner x =
     (if x < 0x40084000 then TC0 else if x < 0x40088000 then TWI0 else if x < 0x4008C000 then TWI1
      else if x < 0x40090000 then PWM else if x < 0x40094000 then USART0 else if x < 0x40098000 then USART1
      else if x < 0x400A4000 then USART2 else if x < 0x400A8000 then UDPHS else if x < 0x400E0600 then PMC
      else if x < 0x400E0A00 then EFC0 else if x < 0x400E0C00 then EFC1 else if x < 0x400E0E00 then PIOA
      else if x < 0x400E1200 then PIOB else if x < 0x400E1210 then RSTC else if x < 0x400E1230 then SUPC else WDT)"

lemma chain_reg:
  assumes "chain b (map address rs) c" and "acc_lookup r (map (\<lambda>(_, a, x). (x - b, a)) rs) \<noteq> None"
  shows "b + r + 4 \<le> c"
proof -
  obtain n a x where "(n, a, x) \<in> set rs" "r = x - b"
    using acc_lookup_in [OF assms(2)] by auto
  then show ?thesis using chain_above [OF assms(1), of x] by (force simp: address_def)
qed

text \<open>The address after the registers of a peripheral, up to which nothing else follows.\<close>

definition limit :: "periph \<Rightarrow> nat" where
  "limit p =
     (case p of TC0 \<Rightarrow> 0x40084000 | TWI0 \<Rightarrow> 0x40088000 | TWI1 \<Rightarrow> 0x4008C000 | PWM \<Rightarrow> 0x40090000
      | USART0 \<Rightarrow> 0x40094000 | USART1 \<Rightarrow> 0x40098000 | USART2 \<Rightarrow> 0x400A4000 | UDPHS \<Rightarrow> 0x400A8000
      | PMC \<Rightarrow> 0x400E0600 | EFC0 \<Rightarrow> 0x400E0A00 | EFC1 \<Rightarrow> 0x400E0C00 | PIOA \<Rightarrow> 0x400E0E00 | PIOB \<Rightarrow> 0x400E1200
      | RSTC \<Rightarrow> 0x400E1210 | SUPC \<Rightarrow> 0x400E1230 | WDT \<Rightarrow> 0x400E1260 | _ \<Rightarrow> 0)"

lemma header_chain: "chain (fst (header p)) (map address (snd (header p))) (limit p)"
  by (cases p) (simp_all only: header_def limit_def periph.case fst_conv snd_conv chains list.map chain.simps order_refl)

lemma reg_acc_limit: "reg_acc p r \<noteq> None \<Longrightarrow> fst (header p) + r + 4 \<le> limit p"
  unfolding reg_acc_def by (rule chain_reg [OF header_chain])

lemma owner_reg: "reg_acc p r \<noteq> None \<Longrightarrow> owner (fst (header p) + r) = p"
  by (drule reg_acc_limit, cases p) (simp_all add: header_def limit_def owner_def)

lemma reg_address_inj:
  assumes "reg_address p r = Some x" and "reg_address q t = Some x"
  shows "p = q \<and> r = t"
proof -
  have "p = owner x" "q = owner x"
    using assms owner_reg [of p r] owner_reg [of q t] by (auto simp: reg_address_def)
  then show ?thesis using assms by (auto simp: reg_address_def)
qed

section \<open>The main result\<close>

text \<open>
  A serial port or two-wire interface with its DMA channel: the structure \<open>Pdc\<close> placed at the
  address of the channel, against the registers of the peripheral.
\<close>

definition pdc_view :: "member list \<Rightarrow> nat \<Rightarrow> (string \<times> acc \<times> nat) list \<Rightarrow> bool" where
  "pdc_view ms b rs \<longleftrightarrow>
     list_all (\<lambda>(n, a, x). (x, a, short_name n) \<in> set (map (\<lambda>(m, c, y). (y, c, short_name (short_name m))) rs))
       (layout b ms)"

definition pdc_agrees :: "string \<Rightarrow> bool" where
  "pdc_agrees p \<longleftrightarrow>
     (case (map_of base_addresses (''PDC_'' @ p), map_of instance_headers p) of
        (Some (ms, b), Some rs) \<Rightarrow> pdc_view ms b rs
      | _ \<Rightarrow> False)"

lemma pdc_views:
  "pdc_view struct_Pdc 0x40090100 instance_USART0" "pdc_view struct_Pdc 0x40094100 instance_USART1"
  "pdc_view struct_Pdc 0x40098100 instance_USART2" "pdc_view struct_Pdc 0x40084100 instance_TWI0"
  "pdc_view struct_Pdc 0x40088100 instance_TWI1" "pdc_view struct_Pdc 0x400E0700 instance_UART"
  by (simp_all add: pdc_view_def short_name_def header_defs)

lemma pdc_views_agree: "list_all pdc_agrees [''USART0'', ''USART1'', ''USART2'', ''TWI0'', ''TWI1'', ''UART'']"
  by (simp add: pdc_agrees_def base_addresses_def instance_headers_def pdc_views)


end
