(* ===== verification/Register_Access.thy ===== *)
theory Register_Access
  imports Safety_Usb Register_Map
begin

text \<open>
  What the program does to the registers of the part. A state is \<open>tame\<close> when every access made
  so far goes to a register that the headers declare, and in a direction that they allow, or is
  one of a few accesses listed below that the code makes although they do not fit. Here are
  the definitions, the facts on single registers, and the theorem that the offsets of the drivers are
  those of the headers; \<open>Access_Safety\<close> goes through the program.
\<close>

named_theorems acc_simps "accesses that the headers allow"

section \<open>Offsets of the drivers\<close>

text \<open>The constants that the drivers of this development use as offsets, by their names in the headers.\<close>

fun named_at :: "nat \<Rightarrow> (string \<times> nat) list \<Rightarrow> (string \<times> acc \<times> nat) list \<Rightarrow> bool" where
  "named_at b [] rs \<longleftrightarrow> True"
| "named_at b ((n, r) # ns) [] \<longleftrightarrow> False"
| "named_at b ((n, r) # ns) ((m, a, x) # rs) \<longleftrightarrow>
     (if b + r = x then n = m \<and> named_at b ns rs else named_at b ((n, r) # ns) rs)"

text \<open>The offsets are in the order of the header, so one walk through the header finds them all.\<close>

definition reg_names :: "periph \<Rightarrow> (string \<times> nat) list \<Rightarrow> bool" where
  "reg_names p ns \<longleftrightarrow> named_at (fst (header p)) ns (snd (header p))"

lemma named_at_set: "named_at b ns rs \<Longrightarrow> (n, r) \<in> set ns \<Longrightarrow> \<exists>a. (n, a, b + r) \<in> set rs"
  by (induction b ns rs rule: named_at.induct) (auto split: if_splits)

lemma driver_offsets:
  "reg_names PIOA
    [(''REG_PIOA_PER'', PIO_PER), (''REG_PIOA_PDR'', PIO_PDR), (''REG_PIOA_PSR'', PIO_PSR),
     (''REG_PIOA_OER'', PIO_OER), (''REG_PIOA_ODR'', PIO_ODR), (''REG_PIOA_OSR'', PIO_OSR),
     (''REG_PIOA_IFER'', PIO_IFER), (''REG_PIOA_IFDR'', PIO_IFDR), (''REG_PIOA_IFSR'', PIO_IFSR),
     (''REG_PIOA_SODR'', PIO_SODR), (''REG_PIOA_CODR'', PIO_CODR), (''REG_PIOA_ODSR'', PIO_ODSR),
     (''REG_PIOA_PDSR'', PIO_PDSR), (''REG_PIOA_IER'', PIO_IER), (''REG_PIOA_IDR'', PIO_IDR),
     (''REG_PIOA_IMR'', PIO_IMR), (''REG_PIOA_ISR'', PIO_ISR), (''REG_PIOA_MDER'', PIO_MDER),
     (''REG_PIOA_MDDR'', PIO_MDDR), (''REG_PIOA_MDSR'', PIO_MDSR), (''REG_PIOA_PUDR'', PIO_PUDR),
     (''REG_PIOA_PUER'', PIO_PUER), (''REG_PIOA_PUSR'', PIO_PUSR), (''REG_PIOA_ABSR'', PIO_ABSR),
     (''REG_PIOA_SCIFSR'', PIO_SCIFSR), (''REG_PIOA_DIFSR'', PIO_DIFSR), (''REG_PIOA_IFDGSR'', PIO_IFDGSR),
     (''REG_PIOA_SCDR'', PIO_SCDR), (''REG_PIOA_OWER'', PIO_OWER), (''REG_PIOA_OWDR'', PIO_OWDR),
     (''REG_PIOA_OWSR'', PIO_OWSR), (''REG_PIOA_AIMER'', PIO_AIMER), (''REG_PIOA_AIMDR'', PIO_AIMDR),
     (''REG_PIOA_AIMMR'', PIO_AIMMR), (''REG_PIOA_ESR'', PIO_ESR), (''REG_PIOA_LSR'', PIO_LSR),
     (''REG_PIOA_ELSR'', PIO_ELSR), (''REG_PIOA_FELLSR'', PIO_FELLSR), (''REG_PIOA_REHLSR'', PIO_REHLSR),
     (''REG_PIOA_FRLHSR'', PIO_FRLHSR), (''REG_PIOA_LOCKSR'', PIO_LOCKSR), (''REG_PIOA_WPMR'', PIO_WPMR),
     (''REG_PIOA_WPSR'', PIO_WPSR)]"
  "reg_names PIOB
    [(''REG_PIOB_PER'', PIO_PER), (''REG_PIOB_PDR'', PIO_PDR), (''REG_PIOB_PSR'', PIO_PSR),
     (''REG_PIOB_OER'', PIO_OER), (''REG_PIOB_ODR'', PIO_ODR), (''REG_PIOB_OSR'', PIO_OSR),
     (''REG_PIOB_IFER'', PIO_IFER), (''REG_PIOB_IFDR'', PIO_IFDR), (''REG_PIOB_IFSR'', PIO_IFSR),
     (''REG_PIOB_SODR'', PIO_SODR), (''REG_PIOB_CODR'', PIO_CODR), (''REG_PIOB_ODSR'', PIO_ODSR),
     (''REG_PIOB_PDSR'', PIO_PDSR), (''REG_PIOB_IER'', PIO_IER), (''REG_PIOB_IDR'', PIO_IDR),
     (''REG_PIOB_IMR'', PIO_IMR), (''REG_PIOB_ISR'', PIO_ISR), (''REG_PIOB_MDER'', PIO_MDER),
     (''REG_PIOB_MDDR'', PIO_MDDR), (''REG_PIOB_MDSR'', PIO_MDSR), (''REG_PIOB_PUDR'', PIO_PUDR),
     (''REG_PIOB_PUER'', PIO_PUER), (''REG_PIOB_PUSR'', PIO_PUSR), (''REG_PIOB_ABSR'', PIO_ABSR),
     (''REG_PIOB_SCIFSR'', PIO_SCIFSR), (''REG_PIOB_DIFSR'', PIO_DIFSR), (''REG_PIOB_IFDGSR'', PIO_IFDGSR),
     (''REG_PIOB_SCDR'', PIO_SCDR), (''REG_PIOB_OWER'', PIO_OWER), (''REG_PIOB_OWDR'', PIO_OWDR),
     (''REG_PIOB_OWSR'', PIO_OWSR), (''REG_PIOB_AIMER'', PIO_AIMER), (''REG_PIOB_AIMDR'', PIO_AIMDR),
     (''REG_PIOB_AIMMR'', PIO_AIMMR), (''REG_PIOB_ESR'', PIO_ESR), (''REG_PIOB_LSR'', PIO_LSR),
     (''REG_PIOB_ELSR'', PIO_ELSR), (''REG_PIOB_FELLSR'', PIO_FELLSR), (''REG_PIOB_REHLSR'', PIO_REHLSR),
     (''REG_PIOB_FRLHSR'', PIO_FRLHSR), (''REG_PIOB_LOCKSR'', PIO_LOCKSR), (''REG_PIOB_WPMR'', PIO_WPMR),
     (''REG_PIOB_WPSR'', PIO_WPSR)]"
  by (simp_all add: reg_names_def header_def header_defs)

lemma driver_offsets_serial:
  "reg_names USART0
    [(''REG_USART0_CR'', US_CR), (''REG_USART0_MR'', US_MR), (''REG_USART0_IER'', US_IER),
     (''REG_USART0_IDR'', US_IDR), (''REG_USART0_IMR'', US_IMR), (''REG_USART0_CSR'', US_CSR),
     (''REG_USART0_RHR'', US_RHR), (''REG_USART0_THR'', US_THR), (''REG_USART0_BRGR'', US_BRGR),
     (''REG_USART0_RTOR'', US_RTOR), (''REG_USART0_TTGR'', US_TTGR), (''REG_USART0_FIDI'', US_FIDI),
     (''REG_USART0_NER'', US_NER), (''REG_USART0_IF'', US_IF), (''REG_USART0_MAN'', US_MAN),
     (''REG_USART0_WPMR'', US_WPMR), (''REG_USART0_WPSR'', US_WPSR)]"
  "reg_names USART1
    [(''REG_USART1_CR'', US_CR), (''REG_USART1_MR'', US_MR), (''REG_USART1_IER'', US_IER),
     (''REG_USART1_IDR'', US_IDR), (''REG_USART1_IMR'', US_IMR), (''REG_USART1_CSR'', US_CSR),
     (''REG_USART1_RHR'', US_RHR), (''REG_USART1_THR'', US_THR), (''REG_USART1_BRGR'', US_BRGR),
     (''REG_USART1_RTOR'', US_RTOR), (''REG_USART1_TTGR'', US_TTGR), (''REG_USART1_FIDI'', US_FIDI),
     (''REG_USART1_NER'', US_NER), (''REG_USART1_IF'', US_IF), (''REG_USART1_MAN'', US_MAN),
     (''REG_USART1_WPMR'', US_WPMR), (''REG_USART1_WPSR'', US_WPSR)]"
  "reg_names USART2
    [(''REG_USART2_CR'', US_CR), (''REG_USART2_MR'', US_MR), (''REG_USART2_IER'', US_IER),
     (''REG_USART2_IDR'', US_IDR), (''REG_USART2_IMR'', US_IMR), (''REG_USART2_CSR'', US_CSR),
     (''REG_USART2_RHR'', US_RHR), (''REG_USART2_THR'', US_THR), (''REG_USART2_BRGR'', US_BRGR),
     (''REG_USART2_RTOR'', US_RTOR), (''REG_USART2_TTGR'', US_TTGR), (''REG_USART2_FIDI'', US_FIDI),
     (''REG_USART2_NER'', US_NER), (''REG_USART2_IF'', US_IF), (''REG_USART2_MAN'', US_MAN),
     (''REG_USART2_WPMR'', US_WPMR), (''REG_USART2_WPSR'', US_WPSR)]"
  "reg_names TWI0
    [(''REG_TWI0_CR'', TWI_CR), (''REG_TWI0_MMR'', TWI_MMR), (''REG_TWI0_SMR'', TWI_SMR),
     (''REG_TWI0_IADR'', TWI_IADR), (''REG_TWI0_CWGR'', TWI_CWGR), (''REG_TWI0_SR'', TWI_SR),
     (''REG_TWI0_IER'', TWI_IER), (''REG_TWI0_IDR'', TWI_IDR), (''REG_TWI0_IMR'', TWI_IMR),
     (''REG_TWI0_RHR'', TWI_RHR), (''REG_TWI0_THR'', TWI_THR)]"
  "reg_names TWI1
    [(''REG_TWI1_CR'', TWI_CR), (''REG_TWI1_MMR'', TWI_MMR), (''REG_TWI1_SMR'', TWI_SMR),
     (''REG_TWI1_IADR'', TWI_IADR), (''REG_TWI1_CWGR'', TWI_CWGR), (''REG_TWI1_SR'', TWI_SR),
     (''REG_TWI1_IER'', TWI_IER), (''REG_TWI1_IDR'', TWI_IDR), (''REG_TWI1_IMR'', TWI_IMR),
     (''REG_TWI1_RHR'', TWI_RHR), (''REG_TWI1_THR'', TWI_THR)]"
  by (simp_all add: reg_names_def header_def header_defs)

lemma driver_offsets_system:
  "reg_names PMC
    [(''REG_PMC_SCER'', PMC_SCER), (''REG_PMC_SCDR'', PMC_SCDR), (''REG_PMC_SCSR'', PMC_SCSR),
     (''REG_PMC_PCER0'', PMC_PCER0), (''REG_PMC_PCDR0'', PMC_PCDR0), (''REG_PMC_PCSR0'', PMC_PCSR0),
     (''REG_CKGR_UCKR'', CKGR_UCKR), (''REG_CKGR_MOR'', CKGR_MOR), (''REG_CKGR_PLLAR'', CKGR_PLLAR),
     (''REG_PMC_MCKR'', PMC_MCKR), (''REG_PMC_IER'', PMC_IER), (''REG_PMC_IDR'', PMC_IDR),
     (''REG_PMC_SR'', PMC_SR), (''REG_PMC_IMR'', PMC_IMR), (''REG_PMC_FSMR'', PMC_FSMR),
     (''REG_PMC_WPMR'', PMC_WPMR)]"
  "reg_names SUPC
    [(''REG_SUPC_CR'', SUPC_CR), (''REG_SUPC_MR'', SUPC_MR), (''REG_SUPC_SR'', SUPC_SR)]"
  "reg_names EFC0
    [(''REG_EFC0_FMR'', EEFC_FMR), (''REG_EFC0_FCR'', EEFC_FCR), (''REG_EFC0_FSR'', EEFC_FSR),
     (''REG_EFC0_FRR'', EEFC_FRR)]"
  "reg_names EFC1
    [(''REG_EFC1_FMR'', EEFC_FMR), (''REG_EFC1_FCR'', EEFC_FCR), (''REG_EFC1_FSR'', EEFC_FSR),
     (''REG_EFC1_FRR'', EEFC_FRR)]"
  "reg_names WDT
    []"
  "reg_names UDPHS
    [(''REG_UDPHS_CTRL'', UDPHS_CTRL), (''REG_UDPHS_FNUM'', UDPHS_FNUM), (''REG_UDPHS_IEN'', UDPHS_IEN),
     (''REG_UDPHS_INTSTA'', UDPHS_INTSTA), (''REG_UDPHS_CLRINT'', UDPHS_CLRINT), (''REG_UDPHS_TST'', UDPHS_TST)]"
  by (simp_all add: reg_names_def header_def header_defs)

lemma driver_offsets_dma:
  "reg_names USART0
    [(''REG_USART0_RPR'', US_RPR), (''REG_USART0_RCR'', US_RCR), (''REG_USART0_TPR'', US_TPR),
     (''REG_USART0_TCR'', US_TCR), (''REG_USART0_TNPR'', US_TNPR), (''REG_USART0_TNCR'', US_TNCR),
     (''REG_USART0_PTCR'', US_PTCR)]"
  "reg_names USART1
    [(''REG_USART1_RPR'', US_RPR), (''REG_USART1_RCR'', US_RCR), (''REG_USART1_TPR'', US_TPR),
     (''REG_USART1_TCR'', US_TCR), (''REG_USART1_TNPR'', US_TNPR), (''REG_USART1_TNCR'', US_TNCR),
     (''REG_USART1_PTCR'', US_PTCR)]"
  "reg_names USART2
    [(''REG_USART2_RPR'', US_RPR), (''REG_USART2_RCR'', US_RCR), (''REG_USART2_TPR'', US_TPR),
     (''REG_USART2_TCR'', US_TCR), (''REG_USART2_TNPR'', US_TNPR), (''REG_USART2_TNCR'', US_TNCR),
     (''REG_USART2_PTCR'', US_PTCR)]"
  by (simp_all add: reg_names_def header_def header_defs)

lemma driver_offsets_channels:
  "reg_names TC0
    [(''REG_TC0_CCR0'', TC_CHANNEL 0 TC_CCR), (''REG_TC0_CMR0'', TC_CHANNEL 0 TC_CMR),
     (''REG_TC0_CV0'', TC_CHANNEL 0 TC_CV), (''REG_TC0_RA0'', TC_CHANNEL 0 TC_RA),
     (''REG_TC0_RB0'', TC_CHANNEL 0 TC_RB), (''REG_TC0_RC0'', TC_CHANNEL 0 TC_RC),
     (''REG_TC0_SR0'', TC_CHANNEL 0 TC_SR), (''REG_TC0_IER0'', TC_CHANNEL 0 TC_IER),
     (''REG_TC0_IDR0'', TC_CHANNEL 0 TC_IDR), (''REG_TC0_IMR0'', TC_CHANNEL 0 TC_IMR)]"
  "reg_names TC0
    [(''REG_TC0_CCR1'', TC_CHANNEL 1 TC_CCR), (''REG_TC0_CMR1'', TC_CHANNEL 1 TC_CMR),
     (''REG_TC0_CV1'', TC_CHANNEL 1 TC_CV), (''REG_TC0_RA1'', TC_CHANNEL 1 TC_RA),
     (''REG_TC0_RB1'', TC_CHANNEL 1 TC_RB), (''REG_TC0_RC1'', TC_CHANNEL 1 TC_RC),
     (''REG_TC0_SR1'', TC_CHANNEL 1 TC_SR), (''REG_TC0_IER1'', TC_CHANNEL 1 TC_IER),
     (''REG_TC0_IDR1'', TC_CHANNEL 1 TC_IDR), (''REG_TC0_IMR1'', TC_CHANNEL 1 TC_IMR)]"
  "reg_names TC0
    [(''REG_TC0_CCR2'', TC_CHANNEL 2 TC_CCR), (''REG_TC0_CMR2'', TC_CHANNEL 2 TC_CMR),
     (''REG_TC0_CV2'', TC_CHANNEL 2 TC_CV), (''REG_TC0_RA2'', TC_CHANNEL 2 TC_RA),
     (''REG_TC0_RB2'', TC_CHANNEL 2 TC_RB), (''REG_TC0_RC2'', TC_CHANNEL 2 TC_RC),
     (''REG_TC0_SR2'', TC_CHANNEL 2 TC_SR), (''REG_TC0_IER2'', TC_CHANNEL 2 TC_IER),
     (''REG_TC0_IDR2'', TC_CHANNEL 2 TC_IDR), (''REG_TC0_IMR2'', TC_CHANNEL 2 TC_IMR)]"
  "reg_names UDPHS
    [(''REG_UDPHS_EPTCFG0'', EPT 0 EPTCFG), (''REG_UDPHS_EPTCTLENB0'', EPT 0 EPTCTLENB),
     (''REG_UDPHS_EPTCTLDIS0'', EPT 0 EPTCTLDIS), (''REG_UDPHS_EPTCTL0'', EPT 0 EPTCTL),
     (''REG_UDPHS_EPTSETSTA0'', EPT 0 EPTSETSTA), (''REG_UDPHS_EPTCLRSTA0'', EPT 0 EPTCLRSTA),
     (''REG_UDPHS_EPTSTA0'', EPT 0 EPTSTA)]"
  "reg_names UDPHS
    [(''REG_UDPHS_EPTCFG1'', EPT 1 EPTCFG), (''REG_UDPHS_EPTCTLENB1'', EPT 1 EPTCTLENB),
     (''REG_UDPHS_EPTCTLDIS1'', EPT 1 EPTCTLDIS), (''REG_UDPHS_EPTCTL1'', EPT 1 EPTCTL),
     (''REG_UDPHS_EPTSETSTA1'', EPT 1 EPTSETSTA), (''REG_UDPHS_EPTCLRSTA1'', EPT 1 EPTCLRSTA),
     (''REG_UDPHS_EPTSTA1'', EPT 1 EPTSTA)]"
  "reg_names UDPHS
    [(''REG_UDPHS_EPTCFG2'', EPT 2 EPTCFG), (''REG_UDPHS_EPTCTLENB2'', EPT 2 EPTCTLENB),
     (''REG_UDPHS_EPTCTLDIS2'', EPT 2 EPTCTLDIS), (''REG_UDPHS_EPTCTL2'', EPT 2 EPTCTL),
     (''REG_UDPHS_EPTSETSTA2'', EPT 2 EPTSETSTA), (''REG_UDPHS_EPTCLRSTA2'', EPT 2 EPTCLRSTA),
     (''REG_UDPHS_EPTSTA2'', EPT 2 EPTSTA)]"
  "reg_names UDPHS
    [(''REG_UDPHS_DMAADDRESS1'', DMA 1 DMAADDR), (''REG_UDPHS_DMACONTROL1'', DMA 1 DMACONTROL),
     (''REG_UDPHS_DMASTATUS1'', DMA 1 DMASTATUS)]"
  "reg_names UDPHS
    [(''REG_UDPHS_DMAADDRESS2'', DMA 2 DMAADDR), (''REG_UDPHS_DMACONTROL2'', DMA 2 DMACONTROL),
     (''REG_UDPHS_DMASTATUS2'', DMA 2 DMASTATUS)]"
  by (simp_all add: reg_names_def header_def header_defs TC_CHANNEL_def EPT_def DMA_def)

section \<open>Accesses\<close>

text \<open>
  The interrupt controller is a part of the processor; \<open>core_cm3.h\<close> declares its registers:
  eight words of each of five kinds, 240 priority bytes, and one register to write.\<close>

definition NVIC_acc :: "nat \<Rightarrow> acc option" where
  "NVIC_acc r =
     (if r mod 4 = 0 \<and> r < 0x220 \<and> r mod 0x80 < 0x20 then Some RwReg
      else if 0x300 \<le> r \<and> r < 0x3F0 then Some RwReg
      else if r = 0xE00 then Some WoReg else None)"

text \<open>The packet memory of the USB controller has a window of 64 KiB for each of its seven endpoints.\<close>

definition acc_at :: "periph \<Rightarrow> nat \<Rightarrow> acc option" where
  "acc_at p r =
     (case p of
        AT a \<Rightarrow> if a = 0x20180000 \<and> r < 7 * 0x10000 then Some RwReg else None
      | FLASH_MEM \<Rightarrow> Some RwReg
      | NVIC \<Rightarrow> NVIC_acc r
      | _ \<Rightarrow> reg_acc p r)"

definition readable :: "periph \<Rightarrow> nat \<Rightarrow> bool" where
  "readable p r \<longleftrightarrow> acc_at p r \<in> {Some RoReg, Some RwReg}"

definition writable :: "periph \<Rightarrow> nat \<Rightarrow> bool" where
  "writable p r \<longleftrightarrow> acc_at p r \<in> {Some WoReg, Some RwReg}"

text \<open>
  The accesses that do not fit: the switching of banks reads a register that is for writing only;
  the requests GET_STATUS and SET_FEATURE reach the registers of an endpoint that the controller
  does not have; and the vendor request 0x91 reads the pins of a port that the part does not
  have.\<close>

definition strays :: "event list" where
  "strays =
     map (\<lambda>ep. Rd UDPHS (EPT ep EPTCTLENB)) [0, 1, 2] @ map (\<lambda>ep. Rd UDPHS (EPT ep EPTCTLDIS)) [0, 1, 2]
     @ map (\<lambda>ep. Rd UDPHS (EPT ep EPTSTA)) [7, 8, 9, 10, 11, 12, 13, 14, 15]
     @ map (\<lambda>ep. Wr UDPHS (EPT ep EPTSETSTA) KILL_BANK) [7, 8, 9, 10, 11, 12, 13, 14, 15]
     @ map (\<lambda>ep. Wr UDPHS (DMA ep DMACONTROL) 0) [6, 7, 8, 9, 10, 11, 12, 13, 14, 15]
     @ map (\<lambda>a. Rd (AT a) PIO_PDSR)
         [0x400E1000, 0x400E1200, 0x400E1400, 0x400E1600, 0x400E1800, 0x400E1A00]"

primrec fits :: "event \<Rightarrow> bool" where
  "fits (Wr p r v) \<longleftrightarrow> writable p r"
| "fits (WrP p r a) \<longleftrightarrow> writable p r"
| "fits (Rd p r) \<longleftrightarrow> readable p r"
| "fits (Delay n) \<longleftrightarrow> True"
| "fits (Oob a) \<longleftrightarrow> True"
| "fits Wfi \<longleftrightarrow> True"
| "fits Wfe \<longleftrightarrow> True"
| "fits (Nops n) \<longleftrightarrow> True"
| "fits Cpsid \<longleftrightarrow> True"
| "fits Cpsie \<longleftrightarrow> True"
| "fits (Call n) \<longleftrightarrow> True"

definition acc_ok :: "event \<Rightarrow> bool" where
  "acc_ok e \<longleftrightarrow> fits e \<or> e \<in> set strays"

abbreviation tame :: "'z mach_scheme \<Rightarrow> bool" where
  "tame s \<equiv> list_all acc_ok (trace s)"

lemma acc_ok_simps [acc_simps]:
  "writable p r \<Longrightarrow> acc_ok (Wr p r v)" "writable p r \<Longrightarrow> acc_ok (WrP p r a)"
  "readable p r \<Longrightarrow> acc_ok (Rd p r)" "acc_ok (Delay n)" "acc_ok (Oob a)" "acc_ok Wfi" "acc_ok Wfe"
  "acc_ok (Nops k)" "acc_ok Cpsid" "acc_ok Cpsie" "acc_ok (Call m)"
  by (simp_all add: acc_ok_def)

text \<open>The registers of the peripherals that the program uses.\<close>

definition is_pio :: "periph \<Rightarrow> bool" where "is_pio p \<longleftrightarrow> p = PIOA \<or> p = PIOB"
definition is_usart :: "periph \<Rightarrow> bool" where "is_usart p \<longleftrightarrow> p = USART0 \<or> p = USART1 \<or> p = USART2"
definition is_twi :: "periph \<Rightarrow> bool" where "is_twi p \<longleftrightarrow> p = TWI0 \<or> p = TWI1"
definition is_efc :: "periph \<Rightarrow> bool" where "is_efc p \<longleftrightarrow> p = EFC0 \<or> p = EFC1"

lemma is_periph [simp]:
  "is_pio PIOA" "is_pio PIOB" "is_usart USART0" "is_usart USART1" "is_usart USART2"
  "is_twi TWI0" "is_efc EFC0" "is_efc EFC1"
  by (simp_all add: is_pio_def is_usart_def is_twi_def is_efc_def)

lemmas acc_unfold = readable_def writable_def acc_at_def reg_acc_def header_def header_defs

lemma table_pio:
  assumes "is_pio p"
  shows "acc_at p r = acc_lookup r
     [(0, WoReg), (4, WoReg), (8, RoReg), (16, WoReg), (20, WoReg), (24, RoReg), (32, WoReg), (36, WoReg),
      (40, RoReg), (48, WoReg), (52, WoReg), (56, RwReg), (60, RoReg), (64, WoReg), (68, WoReg), (72, RoReg),
      (76, RoReg), (80, WoReg), (84, WoReg), (88, RoReg), (96, WoReg), (100, WoReg), (104, RoReg),
      (112, RwReg), (128, WoReg), (132, WoReg), (136, RoReg), (140, RwReg), (160, WoReg), (164, WoReg),
      (168, RoReg), (176, WoReg), (180, WoReg), (184, RoReg), (192, WoReg), (196, WoReg), (200, RoReg),
      (208, WoReg), (212, WoReg), (216, RoReg), (224, RoReg), (228, RwReg), (232, RoReg)]"
  using assms
  by (auto simp: is_pio_def acc_at_def reg_acc_def header_def instance_PIOA_def instance_PIOB_def)

lemma acc_pio [acc_simps]:
  assumes "is_pio p"
  shows
    "readable p 8" "readable p 24" "readable p 40" "readable p 56" "readable p 60" "readable p 72"
    "readable p 76" "readable p 88" "readable p 104" "readable p 112" "readable p 136" "readable p 140"
    "readable p 168" "readable p 184" "readable p 200" "readable p 216" "readable p 224" "readable p 228"
    "readable p 232" "writable p 0" "writable p 4" "writable p 16" "writable p 20" "writable p 32"
    "writable p 36" "writable p 48" "writable p 52" "writable p 56" "writable p 64" "writable p 68"
    "writable p 80" "writable p 84" "writable p 96" "writable p 100" "writable p 112" "writable p 128"
    "writable p 132" "writable p 140" "writable p 160" "writable p 164" "writable p 176" "writable p 180"
    "writable p 192" "writable p 196" "writable p 208" "writable p 212" "writable p 228"
  by (simp_all add: readable_def writable_def table_pio [OF assms])

lemma table_usart:
  assumes "is_usart p"
  shows "acc_at p r = acc_lookup r
     [(0, WoReg), (4, RwReg), (8, WoReg), (12, WoReg), (16, RoReg), (20, RoReg), (24, RoReg), (28, WoReg),
      (32, RwReg), (36, RwReg), (40, RwReg), (64, RwReg), (68, RoReg), (76, RwReg), (80, RwReg), (228, RwReg),
      (232, RoReg), (256, RwReg), (260, RwReg), (264, RwReg), (268, RwReg), (272, RwReg), (276, RwReg),
      (280, RwReg), (284, RwReg), (288, WoReg), (292, RoReg)]"
  using assms
  by (auto simp: is_usart_def acc_at_def reg_acc_def header_def instance_USART0_def instance_USART1_def instance_USART2_def)

lemma acc_usart [acc_simps]:
  assumes "is_usart p"
  shows
    "readable p 4" "readable p 16" "readable p 20" "readable p 24" "readable p 32" "readable p 36"
    "readable p 40" "readable p 64" "readable p 68" "readable p 76" "readable p 80" "readable p 228"
    "readable p 232" "readable p 256" "readable p 260" "readable p 264" "readable p 268" "readable p 272"
    "readable p 276" "readable p 280" "readable p 284" "readable p 292" "writable p 0" "writable p 4"
    "writable p 8" "writable p 12" "writable p 28" "writable p 32" "writable p 36" "writable p 40"
    "writable p 64" "writable p 76" "writable p 80" "writable p 228" "writable p 256" "writable p 260"
    "writable p 264" "writable p 268" "writable p 272" "writable p 276" "writable p 280" "writable p 284"
    "writable p 288"
  by (simp_all add: readable_def writable_def table_usart [OF assms])

lemma table_efc:
  assumes "is_efc p"
  shows "acc_at p r = acc_lookup r
     [(0, RwReg), (4, WoReg), (8, RoReg), (12, RoReg)]"
  using assms
  by (auto simp: is_efc_def acc_at_def reg_acc_def header_def instance_EFC0_def instance_EFC1_def)

lemma acc_efc [acc_simps]:
  assumes "is_efc p"
  shows
    "readable p 0" "readable p 8" "readable p 12" "writable p 0" "writable p 4"
  by (simp_all add: readable_def writable_def table_efc [OF assms])

lemma table_twi:
  assumes "is_twi p"
  shows "acc_at p r = acc_lookup r
     [(0, WoReg), (4, RwReg), (8, RwReg), (12, RwReg), (16, RwReg), (32, RoReg), (36, WoReg), (40, WoReg),
      (44, RoReg), (48, RoReg), (52, WoReg), (256, RwReg), (260, RwReg), (264, RwReg), (268, RwReg),
      (272, RwReg), (276, RwReg), (280, RwReg), (284, RwReg), (288, WoReg), (292, RoReg)]"
  using assms
  by (auto simp: is_twi_def acc_at_def reg_acc_def header_def instance_TWI0_def instance_TWI1_def)

lemma acc_twi [acc_simps]:
  assumes "is_twi p"
  shows
    "readable p 4" "readable p 8" "readable p 12" "readable p 16" "readable p 32" "readable p 44"
    "readable p 48" "readable p 256" "readable p 260" "readable p 264" "readable p 268" "readable p 272"
    "readable p 276" "readable p 280" "readable p 284" "readable p 292" "writable p 0" "writable p 4"
    "writable p 8" "writable p 12" "writable p 16" "writable p 36" "writable p 40" "writable p 52"
    "writable p 256" "writable p 260" "writable p 264" "writable p 268" "writable p 272" "writable p 276"
    "writable p 280" "writable p 284" "writable p 288"
  by (simp_all add: readable_def writable_def table_twi [OF assms])

lemma table_pmc:
  "acc_at PMC r = acc_lookup r
     [(0, WoReg), (4, WoReg), (8, RoReg), (16, WoReg), (20, WoReg), (24, RoReg), (28, RwReg), (32, RwReg),
      (36, RoReg), (40, RwReg), (48, RwReg), (64, RwReg), (96, WoReg), (100, WoReg), (104, RoReg),
      (108, RoReg), (112, RwReg), (116, RwReg), (120, WoReg), (228, RwReg), (232, RoReg)]"
  by (simp add: acc_at_def reg_acc_def header_def instance_PMC_def)

lemma acc_pmc [acc_simps]:
    "readable PMC 8" "readable PMC 24" "readable PMC 28" "readable PMC 32" "readable PMC 36"
    "readable PMC 40" "readable PMC 48" "readable PMC 64" "readable PMC 104" "readable PMC 108"
    "readable PMC 112" "readable PMC 116" "readable PMC 228" "readable PMC 232" "writable PMC 0"
    "writable PMC 4" "writable PMC 16" "writable PMC 20" "writable PMC 28" "writable PMC 32"
    "writable PMC 40" "writable PMC 48" "writable PMC 64" "writable PMC 96" "writable PMC 100"
    "writable PMC 112" "writable PMC 116" "writable PMC 120" "writable PMC 228"
  by (simp_all add: readable_def writable_def table_pmc)

lemma table_supc:
  "acc_at SUPC r = acc_lookup r
     [(0, WoReg), (4, RwReg), (8, RwReg), (12, RwReg), (16, RwReg), (20, RoReg)]"
  by (simp add: acc_at_def reg_acc_def header_def instance_SUPC_def)

lemma acc_supc [acc_simps]:
    "readable SUPC 4" "readable SUPC 8" "readable SUPC 12" "readable SUPC 16" "readable SUPC 20"
    "writable SUPC 0" "writable SUPC 4" "writable SUPC 8" "writable SUPC 12" "writable SUPC 16"
  by (simp_all add: readable_def writable_def table_supc)

lemma table_wdt:
  "acc_at WDT r = acc_lookup r
     [(0, WoReg), (4, RwReg), (8, RoReg)]"
  by (simp add: acc_at_def reg_acc_def header_def instance_WDT_def)

lemma acc_wdt [acc_simps]:
    "readable WDT 4" "readable WDT 8" "writable WDT 0" "writable WDT 4"
  by (simp_all add: readable_def writable_def table_wdt)

lemma table_udphs:
  "acc_at UDPHS r = acc_lookup r
     [(0, RwReg), (4, RoReg), (16, RwReg), (20, RoReg), (24, WoReg), (28, WoReg), (224, RwReg), (240, RoReg),
      (244, RoReg), (248, RoReg), (256, RwReg), (260, WoReg), (264, WoReg), (268, RoReg), (276, WoReg),
      (280, WoReg), (284, RoReg), (288, RwReg), (292, WoReg), (296, WoReg), (300, RoReg), (308, WoReg),
      (312, WoReg), (316, RoReg), (320, RwReg), (324, WoReg), (328, WoReg), (332, RoReg), (340, WoReg),
      (344, WoReg), (348, RoReg), (352, RwReg), (356, WoReg), (360, WoReg), (364, RoReg), (372, WoReg),
      (376, WoReg), (380, RoReg), (384, RwReg), (388, WoReg), (392, WoReg), (396, RoReg), (404, WoReg),
      (408, WoReg), (412, RoReg), (416, RwReg), (420, WoReg), (424, WoReg), (428, RoReg), (436, WoReg),
      (440, WoReg), (444, RoReg), (448, RwReg), (452, WoReg), (456, WoReg), (460, RoReg), (468, WoReg),
      (472, WoReg), (476, RoReg), (768, RwReg), (772, RwReg), (776, RwReg), (780, RwReg), (784, RwReg),
      (788, RwReg), (792, RwReg), (796, RwReg), (800, RwReg), (804, RwReg), (808, RwReg), (812, RwReg),
      (816, RwReg), (820, RwReg), (824, RwReg), (828, RwReg), (832, RwReg), (836, RwReg), (840, RwReg),
      (844, RwReg), (848, RwReg), (852, RwReg), (856, RwReg), (860, RwReg)]"
  by (simp add: acc_at_def reg_acc_def header_def instance_UDPHS_def)

lemma acc_udphs [acc_simps]:
  "readable UDPHS UDPHS_CTRL" "writable UDPHS UDPHS_CTRL" "readable UDPHS UDPHS_FNUM" "readable UDPHS UDPHS_IEN"
  "writable UDPHS UDPHS_IEN" "readable UDPHS UDPHS_INTSTA" "writable UDPHS UDPHS_CLRINT"
  "readable UDPHS UDPHS_TST" "writable UDPHS UDPHS_TST"
  by (simp_all add: readable_def writable_def table_udphs)

lemma ep_cases: "ep = 0 \<or> ep = 1 \<or> ep = 2" if "ep \<le> (2 :: u8)"
proof -
  have "unat ep = 0 \<or> unat ep = 1 \<or> unat ep = 2" using that by (auto simp: word_le_nat_alt)
  then show ?thesis by (auto simp: word_unat_eq_iff)
qed

lemma acc_endpoint_0:
    "readable UDPHS (EPT 0 EPTCFG)" "writable UDPHS (EPT 0 EPTCFG)" "writable UDPHS (EPT 0 EPTCTLENB)"
    "writable UDPHS (EPT 0 EPTCTLDIS)" "readable UDPHS (EPT 0 EPTCTL)" "writable UDPHS (EPT 0 EPTSETSTA)"
    "writable UDPHS (EPT 0 EPTCLRSTA)" "readable UDPHS (EPT 0 EPTSTA)" "writable UDPHS (DMA 0 DMAADDR)"
    "writable UDPHS (DMA 0 DMACONTROL)" "readable UDPHS (DMA 0 DMASTATUS)"
  by (simp_all add: readable_def writable_def table_udphs EPT_def DMA_def)

lemma acc_endpoint_1:
    "readable UDPHS (EPT 1 EPTCFG)" "writable UDPHS (EPT 1 EPTCFG)" "writable UDPHS (EPT 1 EPTCTLENB)"
    "writable UDPHS (EPT 1 EPTCTLDIS)" "readable UDPHS (EPT 1 EPTCTL)" "writable UDPHS (EPT 1 EPTSETSTA)"
    "writable UDPHS (EPT 1 EPTCLRSTA)" "readable UDPHS (EPT 1 EPTSTA)" "writable UDPHS (DMA 1 DMAADDR)"
    "writable UDPHS (DMA 1 DMACONTROL)" "readable UDPHS (DMA 1 DMASTATUS)"
  by (simp_all add: readable_def writable_def table_udphs EPT_def DMA_def)

lemma acc_endpoint_2:
    "readable UDPHS (EPT 2 EPTCFG)" "writable UDPHS (EPT 2 EPTCFG)" "writable UDPHS (EPT 2 EPTCTLENB)"
    "writable UDPHS (EPT 2 EPTCTLDIS)" "readable UDPHS (EPT 2 EPTCTL)" "writable UDPHS (EPT 2 EPTSETSTA)"
    "writable UDPHS (EPT 2 EPTCLRSTA)" "readable UDPHS (EPT 2 EPTSTA)" "writable UDPHS (DMA 2 DMAADDR)"
    "writable UDPHS (DMA 2 DMACONTROL)" "readable UDPHS (DMA 2 DMASTATUS)"
  by (simp_all add: readable_def writable_def table_udphs EPT_def DMA_def)

lemma acc_endpoint [acc_simps]:
  assumes "ep \<le> 2"
  shows
    "readable UDPHS (EPT ep EPTCFG)" "writable UDPHS (EPT ep EPTCFG)" "writable UDPHS (EPT ep EPTCTLENB)"
    "writable UDPHS (EPT ep EPTCTLDIS)" "readable UDPHS (EPT ep EPTCTL)" "writable UDPHS (EPT ep EPTSETSTA)"
    "writable UDPHS (EPT ep EPTCLRSTA)" "readable UDPHS (EPT ep EPTSTA)" "writable UDPHS (DMA ep DMAADDR)"
    "writable UDPHS (DMA ep DMACONTROL)" "readable UDPHS (DMA ep DMASTATUS)"
  using ep_cases [OF assms] by (elim disjE; simp add: acc_endpoint_0 acc_endpoint_1 acc_endpoint_2)+

lemma acc_switching [acc_simps]:
  "ep \<le> 2 \<Longrightarrow> acc_ok (Rd UDPHS (EPT ep EPTCTLENB))" "ep \<le> 2 \<Longrightarrow> acc_ok (Rd UDPHS (EPT ep EPTCTLDIS))"
  using ep_cases [of ep] by (auto simp: acc_ok_def strays_def)

lemma low_nibble: "ep AND 0xF \<in> set (map of_nat [0..<16])" for ep :: u8
proof -
  have "ep AND 0xF = take_bit 4 ep" by (simp add: take_bit_eq_mask mask_eq_exp_minus_1)
  then have "unat (ep AND 0xF) < 16" by (simp add: unsigned_take_bit_eq take_bit_nat_eq_self_iff take_bit_nat_def)
  then show ?thesis by (auto intro!: image_eqI [of _ _ "unat (ep AND 0xF)"])
qed

lemma nibble_list: "map of_nat [0..<16] = ([0, 1, 2, 3, 4, 5, 6, 7, 8, 9, 10, 11, 12, 13, 14, 15] :: u8 list)"
  by code_simp

text \<open>The status of the first seven endpoints and the control of the first six channels exist.\<close>

lemma acc_status_regs:
  "list_all (\<lambda>ep. readable UDPHS (EPT ep EPTSTA)) [0, 1, 2, 3, 4, 5, 6]"
  "list_all (\<lambda>ep. writable UDPHS (EPT ep EPTSETSTA)) [0, 1, 2, 3, 4, 5, 6]"
  "list_all (\<lambda>ep. writable UDPHS (DMA ep DMACONTROL)) [0, 1, 2, 3, 4, 5]"
  by (simp_all add: readable_def writable_def table_udphs EPT_def DMA_def)

lemma acc_any_endpoint [acc_simps]:
  "acc_ok (Rd UDPHS (EPT (ep AND 0xF) EPTSTA))" "acc_ok (Wr UDPHS (EPT (ep AND 0xF) EPTSETSTA) KILL_BANK)"
  "acc_ok (Wr UDPHS (DMA (ep AND 0xF) DMACONTROL) 0)"
proof -
  have l: "ep AND 0xF \<in> set ([0, 1, 2, 3, 4, 5, 6] @ [7, 8, 9, 10, 11, 12, 13, 14, 15])"
    "ep AND 0xF \<in> set ([0, 1, 2, 3, 4, 5] @ [6, 7, 8, 9, 10, 11, 12, 13, 14, 15])"
    using low_nibble [of ep] unfolding nibble_list by auto
  then consider "ep AND 0xF \<in> set [0, 1, 2, 3, 4, 5, 6]" | "ep AND 0xF \<in> set [7, 8, 9, 10, 11, 12, 13, 14, 15]"
    unfolding set_append by blast
  then show "acc_ok (Rd UDPHS (EPT (ep AND 0xF) EPTSTA))"
    "acc_ok (Wr UDPHS (EPT (ep AND 0xF) EPTSETSTA) KILL_BANK)"
    by (cases; use acc_status_regs in \<open>auto simp: acc_ok_def strays_def list_all_iff\<close>)+
  consider "ep AND 0xF \<in> set [0, 1, 2, 3, 4, 5]" | "ep AND 0xF \<in> set [6, 7, 8, 9, 10, 11, 12, 13, 14, 15]"
    using l(2) unfolding set_append by blast
  then show "acc_ok (Wr UDPHS (DMA (ep AND 0xF) DMACONTROL) 0)"
    by (cases; use acc_status_regs in \<open>auto simp: acc_ok_def strays_def list_all_iff\<close>)
qed

lemma acc_others [acc_simps]:
  "writable TC0 (TC_CHANNEL 2 TC_CCR)" "writable TC0 (TC_CHANNEL 2 TC_CMR)" "writable TC0 (TC_CHANNEL 2 TC_RA)"
  "writable TC0 (TC_CHANNEL 2 TC_RB)" "writable TC0 (TC_CHANNEL 2 TC_RC)" "readable TC0 (TC_CHANNEL 2 TC_SR)"
  "writable TC0 (TC_CHANNEL 2 TC_IER)" "writable TC0 (TC_CHANNEL 2 TC_IDR)"
  "writable NVIC 0" "writable NVIC (0x300 + 24)" "writable NVIC (0x300 + 29)"
  "readable FLASH_MEM a" "writable FLASH_MEM a"
  "i < 7 * 0x10000 \<Longrightarrow> readable UDPHS_RAM i" "i < 7 * 0x10000 \<Longrightarrow> writable UDPHS_RAM i"
  by (simp_all add: readable_def writable_def acc_at_def reg_acc_def header_def instance_TC0_def
      TC_CHANNEL_def NVIC_acc_def)

end
