(* ===== verification/Access_Safety.thy ===== *)
theory Access_Safety
  imports Register_Access
begin

text \<open>
  Every operation of the program keeps a state tame: what it adds to the trace are accesses
  that fit the headers, or one of the listed ones. The lemmas follow \<open>Frame\<close> and \<open>Safety\<close>, from the
  drivers up to the main loop, and end with the theorem on the reachable states. They are
  equations (for a partial operation, under the premise that it returns), so that a proof
  is a rewriting with those of the operations below.
\<close>

named_theorems tame_simps "operations keep a state tame"
named_theorems tameD "partial operations keep a state tame"

lemma tame_access [tame_simps]:
  "acc_ok (Wr p r v) \<Longrightarrow> tame (wr p r v s) = tame s" "acc_ok (WrP p r a) \<Longrightarrow> tame (wrp p r a s) = tame s"
  "acc_ok (Rd p r) \<Longrightarrow> tame (snd (rd hw p r s)) = tame s"
  "tame (delay_cycles n s) = tame s" "tame (oob a s) = tame s" "acc_ok e \<Longrightarrow> tame (instr e s) = tame s"
  by (simp_all add: wr_def wrp_def rd_def delay_cycles_def oob_def instr_def acc_simps)

lemma tame_rmw [tame_simps]: "acc_ok (Rd p r) \<Longrightarrow> writable p r \<Longrightarrow> tame (rmw hw p r f s) = tame s"
  by (simp add: rmw_def split_def Let_def tame_simps acc_simps)

lemma tame_poll [tameD]: "poll hw p r m v s = Some (x, s') \<Longrightarrow> acc_ok (Rd p r) \<longrightarrow> tame s' = tame s"
  by (drule poll_Some) (auto simp: list_all_iff)

lemmas tame_unfold = Let_def split_def

section \<open>Pins, timer, watchdog\<close>

lemma tame_pio [tame_simps]:
  assumes "is_pio p"
  shows "tame (pio_pull_up p m b s) = tame s" "tame (pio_set p m s) = tame s"
    "tame (pio_clear p m s) = tame s" "tame (pio_disable_interrupt p m s) = tame s"
  using assms
  by (simp_all add: pio_pull_up_def pio_set_def pio_clear_def pio_disable_interrupt_def tame_simps acc_simps)

lemma tame_pio_dirs [tame_simps]:
  assumes "is_pio p"
  shows "tame (pio_set_input p m a s) = tame s" "tame (pio_set_output p m l d u s) = tame s"
    "tame (pio_set_peripheral hw p t m s) = tame s"
  using assms
  by (simp_all add: pio_set_input_def pio_set_output_def pio_set_peripheral_def
      tame_unfold tame_simps acc_simps split: pio_type_t.split)

lemma tame_pio_configure [tame_simps]: "is_pio p \<Longrightarrow> tame (snd (pio_configure hw p t m a s)) = tame s"
  by (simp add: pio_configure_def tame_unfold tame_simps acc_simps)

lemma tame_tc [tame_simps]:
  "tame (tc_init hw TC0 2 m s) = tame s" "tame (tc_start TC0 2 s) = tame s"
  "tame (tc_stop TC0 2 s) = tame s" "tame (tc_write_ra TC0 2 v s) = tame s"
  "tame (tc_write_rb TC0 2 v s) = tame s" "tame (tc_write_rc TC0 2 v s) = tame s"
  "tame (tc_enable_interrupt TC0 2 v s) = tame s"
  by (simp_all add: tc_init_def tc_start_def tc_stop_def tc_write_ra_def tc_write_rb_def
      tc_write_rc_def tc_enable_interrupt_def tame_unfold tame_simps acc_simps)

lemma tame_wdt [tame_simps]:
  "tame (wdt_init WDT m c d s) = tame s" "tame (wdt_restart WDT s) = tame s"
  by (simp_all add: wdt_init_def wdt_restart_def tame_simps acc_simps)

section \<open>Two-wire interface\<close>

lemma tame_twi [tame_simps]:
  assumes "is_twi p"
  shows "tame (twi_reset hw p s) = tame s" "tame (twi_enable_master_mode p s) = tame s"
    "tame (snd (twi_set_speed p v m s)) = tame s"
    "tame (twi_start_read p k s) = tame s" "tame (twi_start_write p k s) = tame s"
  using assms
  by (simp_all add: twi_reset_def twi_enable_master_mode_def twi_set_speed_def twi_start_read_def
      twi_start_write_def tame_unfold tame_simps acc_simps)

lemma tame_twi_master_init [tame_simps]: "is_twi p \<Longrightarrow> tame (snd (twi_master_init hw p k s)) = tame s"
  by (simp add: twi_master_init_def tame_unfold tame_simps acc_simps)

lemma tame_twi_receive [tame_simps]:
  "is_twi p \<Longrightarrow> tame (snd (snd (twi_receive hw p cnt st t s))) = tame s"
proof (induction hw p cnt st t s rule: twi_receive.induct)
  case (1 hw p cnt st t s)
  note IH = "1.IH"(1) [OF _ refl surjective_pairing [symmetric] _ _ refl refl refl refl]
    "1.IH"(2) [OF _ refl surjective_pairing [symmetric] _ _ refl refl refl refl _ refl
      surjective_pairing [symmetric]]
  show ?case
    by (subst twi_receive.simps) (simp add: split_def Let_def tame_simps acc_simps IH "1.prems")
qed

lemma tame_twi_send [tameD]: "twi_send hw p b i cnt s = Some y \<Longrightarrow> is_twi p \<longrightarrow> tame (snd y) = tame s"
proof (induction rule: twi_send.raw_induct [rotated 1, consumes 1, case_names step])
  case (step f hw p b i cnt s y)
  then show ?case by (auto simp: split_def Let_def tame_simps acc_simps split: if_splits)
qed

lemma tame_twi_wait_sent [tameD]: "twi_wait_sent hw p s = Some y \<Longrightarrow> is_twi p \<longrightarrow> tame (snd y) = tame s"
proof (induction rule: twi_wait_sent.raw_induct [rotated 1, consumes 1, case_names step])
  case (step f hw p s y)
  then show ?case by (auto simp: split_def Let_def tame_simps acc_simps split: if_splits)
qed

lemma tame_twi_master_write [tameD]: "twi_master_write hw TWI0 k s = Some y \<Longrightarrow> tame (snd y) = tame s"
  by (auto simp: twi_master_write_def tame_unfold tame_simps acc_simps split: if_splits
      elim!: bind_SomeE dest!: tameD)

lemma tame_twi_master_read [tameD]:
  "twi_master_read hw TWI0 k s = Some y \<Longrightarrow> tame (snd (snd y)) = tame s"
  by (auto simp: twi_master_read_def tame_unfold tame_simps acc_simps split: if_splits
      elim!: bind_SomeE dest!: tameD)

section \<open>Serial ports\<close>

lemma tame_usart [tame_simps]:
  assumes "is_usart p"
  shows "tame (usart_enable_tx p s) = tame s" "tame (usart_enable_rx p s) = tame s"
    "tame (usart_reset p s) = tame s"
  using assms
  by (simp_all add: usart_enable_tx_def usart_enable_rx_def usart_reset_def
      usart_disable_writeprotect_def usart_reset_tx_def usart_reset_rx_def usart_reset_status_def
      usart_drive_RTS_pin_high_def usart_drive_DTR_pin_high_def tame_simps acc_simps)

lemma tame_usart_spi [tame_simps]:
  "is_usart p \<Longrightarrow> tame (snd (usart_init_spi_master hw p opt m s)) = tame s"
  by (simp add: usart_init_spi_master_def usart_set_spi_master_baudrate_def tame_unfold tame_simps acc_simps
      split: option.split)

section \<open>Flash controller\<close>

lemma tame_efc [tame_simps]:
  assumes "is_efc p"
  shows "tame (efc_write_fmr p v s) = tame s" "tame (snd (efc_init p m w s)) = tame s"
    "tame (efc_set_wait_state hw p w s) = tame s" "tame (snd (efc_get_wait_state hw p s)) = tame s"
    "tame (snd (efc_get_result hw p s)) = tame s"
  using assms
  by (simp_all add: efc_write_fmr_def efc_init_def efc_set_wait_state_def efc_get_wait_state_def
      efc_get_result_def tame_unfold tame_simps acc_simps)

lemma tame_efc_command [tameD]:
  "efc_perform_command hw p c a s = Some y \<Longrightarrow> is_efc p \<longrightarrow> tame (snd y) = tame s"
  by (auto simp: efc_perform_command_def efc_perform_fcr_def tame_unfold tame_simps acc_simps
      split: if_splits elim!: bind_SomeE dest!: tameD)

lemma tame_flash_memory [tame_simps]:
  "tame (snd (read_words hw a n s)) = tame s" "tame (snd (read_bytes hw a n s)) = tame s"
  "tame (write_words a bs s) = tame s"
proof -
  show "tame (snd (read_words hw a n s)) = tame s" "tame (snd (read_bytes hw a n s)) = tame s"
    by (induction n arbitrary: a s) (simp_all add: tame_unfold tame_simps acc_simps)
  show "tame (write_words a bs s) = tame s"
    by (induction a bs s rule: write_words.induct) (simp_all add: tame_simps acc_simps)
qed

lemma tame_efc_sequence [tameD]:
  "efc_perform_read_sequence hw p c d n s = Some y \<Longrightarrow> is_efc p \<longrightarrow> tame (snd (snd y)) = tame s"
  by (auto simp: efc_perform_read_sequence_def tame_unfold tame_simps acc_simps elim!: bind_SomeE dest!: tameD)

lemma tame_flash_write_loop [tameD]:
  "flash_write_loop hw p pg off b n e s = Some y \<Longrightarrow> is_efc p \<longrightarrow> tame (snd y) = tame s"
proof (induction rule: flash_write_loop.raw_induct [rotated 1, consumes 1, case_names step])
  case (step f hw p pg off b n e s y)
  then show ?case
    by (auto simp: tame_unfold tame_simps acc_simps split: if_splits elim!: bind_SomeE dest!: tameD step.IH)
qed

lemma tame_lock_loop [tameD]: "lock_loop hw p c a e s = Some y \<Longrightarrow> is_efc p \<longrightarrow> tame (snd y) = tame s"
proof (induction rule: lock_loop.raw_induct [rotated 1, consumes 1, case_names step])
  case (step f hw p c a e s y)
  then show ?case
    by (auto simp: tame_unfold tame_simps acc_simps split: if_splits elim!: bind_SomeE dest!: tameD step.IH)
qed

lemma tame_flash_init [tame_simps]: "tame (snd (flash_init m w s)) = tame s"
  by (simp add: flash_init_def tame_unfold tame_simps acc_simps)

lemma is_efc_translate [simp]: "is_efc (fst (translate_address a))"
  by (simp add: translate_address_def Let_def is_efc_def)

lemma tame_flash [tameD]:
  "flash_write hw a b n e s = Some y \<Longrightarrow> tame (snd y) = tame s"
  "flash_lock hw a c s = Some y \<Longrightarrow> tame (snd y) = tame s"
  "flash_unlock hw a c s = Some y \<Longrightarrow> tame (snd y) = tame s"
  "flash_is_gpnvm_set hw g s = Some y \<Longrightarrow> tame (snd y) = tame s"
  "flash_read_unique_id hw n s = Some z \<Longrightarrow> tame (snd (snd z)) = tame s"
  by (auto simp: flash_write_def flash_lock_def flash_unlock_def flash_is_gpnvm_set_def
      flash_read_unique_id_def tame_unfold tame_simps acc_simps split: if_splits elim!: bind_SomeE dest!: tameD)

lemma tame_flash_gpnvm [tameD]: "flash_clear_gpnvm hw g s = Some y \<Longrightarrow> tame (snd y) = tame s"
  by (auto simp: flash_clear_gpnvm_def tame_unfold tame_simps acc_simps split: if_splits
      elim!: bind_SomeE dest!: tameD)

section \<open>Clocks\<close>

lemma tame_pmc_wait [tame_simps]: "tame (snd (pmc_wait hw m n s)) = tame s"
  by (induction n arbitrary: s) (simp_all add: tame_unfold tame_simps acc_simps)

lemma tame_pmc_wait_for [tameD]: "pmc_wait_for hw m s = Some s' \<Longrightarrow> tame s' = tame s"
  by (auto simp: pmc_wait_for_def acc_simps elim!: bind_SomeE dest!: tameD)

lemma tame_mck [tame_simps]:
  "tame (mckr_update hw m v s) = tame s" "tame (snd (mck_step hw m v s)) = tame s"
  by (simp_all add: mckr_update_def mck_step_def tame_simps acc_simps)

lemma tame_pmc [tame_simps]:
  "tame (snd (pmc_switch_mck_to_sclk hw v s)) = tame s"
  "tame (snd (pmc_switch_mck_to_mainck hw v s)) = tame s"
  "tame (snd (pmc_switch_mck_to_pllack hw v s)) = tame s"
  "tame (snd (pmc_switch_mck_to_upllck hw v s)) = tame s"
  "tame (pmc_switch_sclk_to_32kxtal hw v s) = tame s"
  "tame (pmc_osc_bypass_main_xtal hw s) = tame s"
  "tame (pmc_mainck_osc_select hw v s) = tame s"
  "tame (pmc_disable_pllack s) = tame s"
  "tame (snd (pmc_enable_periph_clk hw v s)) = tame s"
  "tame (snd (pmc_disable_periph_clk hw v s)) = tame s"
  "tame (pmc_set_fast_startup_input hw v s) = tame s"
  by (simp_all add: pmc_switch_mck_to_sclk_def pmc_switch_mck_to_mainck_def
      pmc_switch_mck_to_pllack_def pmc_switch_mck_to_upllck_def pmc_switch_sclk_to_32kxtal_def
      pmc_osc_bypass_main_xtal_def pmc_mainck_osc_select_def pmc_disable_pllack_def
      pmc_enable_periph_clk_def pmc_disable_periph_clk_def pmc_set_fast_startup_input_def
      tame_unfold tame_simps acc_simps)

lemma tame_osc [tame_simps]:
  "tame (snd (osc_is_ready hw v s)) = tame s" "tame (snd (pll_is_locked hw v s)) = tame s"
  "tame (snd (pmc_osc_is_ready_mainck hw s)) = tame s" "tame (pll_enable c v s) = tame s"
  "tame (pll_disable hw v s) = tame s"
  by (simp_all add: osc_is_ready_def pll_is_locked_def pmc_osc_is_ready_mainck_def pll_enable_def
      pll_disable_def pmc_osc_is_ready_32kxtal_def pmc_osc_is_ready_fastrc_def
      pmc_osc_is_ready_main_xtal_def pmc_is_locked_pllack_def pmc_is_locked_upll_def
      tame_unfold tame_simps acc_simps)

lemma tame_osc_enable [tameD]: "osc_enable hw v s = Some s' \<Longrightarrow> tame s' = tame s"
  by (auto simp: osc_enable_def pmc_osc_enable_fastrc_def pmc_osc_enable_main_xtal_def
      tame_unfold tame_simps acc_simps split: if_splits elim!: bind_SomeE dest!: tameD)

lemma tame_osc_wait_ready [tameD]: "osc_wait_ready hw v s = Some s' \<Longrightarrow> tame s' = tame s"
proof (induction rule: osc_wait_ready.raw_induct [rotated 1, consumes 1, case_names step])
  case (step f hw v s s')
  then show ?case by (auto simp: split_def Let_def tame_simps split: if_splits)
qed

lemma tame_pll_wait_for_lock [tameD]: "pll_wait_for_lock hw v s = Some s' \<Longrightarrow> tame s' = tame s"
proof (induction rule: pll_wait_for_lock.raw_induct [rotated 1, consumes 1, case_names step])
  case (step f hw v s s')
  then show ?case by (auto simp: split_def Let_def tame_simps split: if_splits)
qed

lemma tame_wait_mainck [tameD]: "wait_mainck hw s = Some s' \<Longrightarrow> tame s' = tame s"
proof (induction rule: wait_mainck.raw_induct [rotated 1, consumes 1, case_names step])
  case (step f hw s s')
  then show ?case by (auto simp: split_def Let_def tame_simps split: if_splits)
qed

lemma tame_pll [tameD]:
  "pll_enable_source hw v s = Some s' \<Longrightarrow> tame s' = tame s"
  "select_mainck hw v s = Some s' \<Longrightarrow> tame s' = tame s"
  by (auto simp: pll_enable_source_def select_mainck_def tame_unfold tame_simps acc_simps
      split: if_splits elim!: bind_SomeE dest!: tameD)

lemma tame_read_hz [tame_simps]:
  "tame (snd (read_mainck_hz hw s)) = tame s" "tame (snd (read_source_hz hw s)) = tame s"
  by (simp_all add: read_mainck_hz_def read_source_hz_def tame_unfold tame_simps acc_simps)

lemma tame_sysclk [tame_simps]:
  "tame (snd (SystemCoreClockUpdate hw s)) = tame s" "tame (system_init_flash v s) = tame s"
  "tame (sysclk_disable_usb hw s) = tame s"
  by (simp_all add: SystemCoreClockUpdate_def system_init_flash_def sysclk_disable_usb_def
      tame_unfold tame_simps acc_simps)

lemma tame_sysclk_switch [tameD]: "sysclk_switch hw v s = Some s' \<Longrightarrow> tame s' = tame s"
  by (auto simp: sysclk_switch_def tame_unfold tame_simps acc_simps split: if_splits elim!: bind_SomeE dest!: tameD)

lemma tame_sysclk_init [tameD]:
  "sysclk_init hw s = Some y \<Longrightarrow> tame (snd y) = tame s"
  "sysclk_enable_usb hw s = Some s' \<Longrightarrow> tame s' = tame s"
  by (auto simp: sysclk_init_def sysclk_enable_usb_def tame_unfold tame_simps acc_simps elim!: bind_SomeE dest!: tameD)

section \<open>USB controller registers\<close>

lemma tame_bits [tame_simps]:
  "acc_ok (Rd UDPHS r) \<Longrightarrow> tame (snd (Tst_bits hw r m s)) = tame s"
  "acc_ok (Rd UDPHS r) \<Longrightarrow> tame (snd (Rd_bitfield hw r m k s)) = tame s"
  "acc_ok (Rd UDPHS r) \<Longrightarrow> writable UDPHS r \<Longrightarrow> tame (Set_bits hw r m s) = tame s"
  "acc_ok (Rd UDPHS r) \<Longrightarrow> writable UDPHS r \<Longrightarrow> tame (Clr_bits hw r m s) = tame s"
  "acc_ok (Rd UDPHS r) \<Longrightarrow> writable UDPHS r \<Longrightarrow> tame (Wr_bits hw r m b s) = tame s"
  "acc_ok (Rd UDPHS r) \<Longrightarrow> writable UDPHS r \<Longrightarrow> tame (Wr_bitfield hw r m k v s) = tame s"
  by (simp_all add: Tst_bits_def Set_bits_def Clr_bits_def Wr_bits_def Rd_bitfield_def
      Wr_bitfield_def tame_unfold tame_simps)

lemma tame_status [tame_simps]:
  "tame (snd (Is_udd_endpoint_stall_requested hw (ep AND 0xF) s)) = tame s"
  "tame (snd (udd_nb_busy_bank hw (ep AND 0xF) s)) = tame s"
  by (simp_all add: Is_udd_endpoint_stall_requested_def udd_nb_busy_bank_def tame_unfold tame_simps acc_simps)

lemma tame_endpoint [tame_simps]:
  assumes "ep \<le> 2"
  shows "tame (snd (Is_udd_endpoint_enabled hw ep s)) = tame s"
    "tame (snd (Is_udd_endpoint_stall_requested hw ep s)) = tame s"
    "tame (snd (Is_udd_endpoint_in hw ep s)) = tame s"
    "tame (snd (udd_nb_busy_bank hw ep s)) = tame s"
    "tame (snd (udd_get_endpoint_size hw ep s)) = tame s"
    "tame (udd_enable_endpoint_bank_autoswitch hw ep s) = tame s"
    "tame (udd_disable_endpoint_bank_autoswitch hw ep s) = tame s"
    "tame (udd_configure_endpoint hw ep t d n b k s) = tame s"
    "tame (udd_configure_endpoint_bank hw ep b s) = tame s"
    "tame (snd (udd_byte_count hw ep s)) = tame s"
  using assms
  by (simp_all add: Is_udd_endpoint_enabled_def Is_udd_endpoint_stall_requested_def
      Is_udd_endpoint_in_def udd_nb_busy_bank_def udd_get_endpoint_size_def
      udd_enable_endpoint_bank_autoswitch_def udd_disable_endpoint_bank_autoswitch_def
      udd_configure_endpoint_def udd_configure_endpoint_bank_def udd_byte_count_def
      tame_unfold tame_simps acc_simps)

lemma tame_endpoint_interrupt [tame_simps]:
  "tame (udd_enable_endpoint_interrupt hw ep s) = tame s"
  "tame (udd_disable_endpoint_interrupt hw ep s) = tame s"
  by (simp_all add: udd_enable_endpoint_interrupt_def udd_disable_endpoint_interrupt_def tame_simps acc_simps)

lemma tame_kill_banks:
  "kill_banks hw e s = Some s' \<Longrightarrow> e = ep AND 0xF \<longrightarrow> tame s' = tame s"
proof (induction rule: kill_banks.raw_induct [rotated 1, consumes 1, case_names step])
  case (step f hw e s s')
  then show ?case
    by (auto simp: tame_unfold tame_simps acc_simps split: if_splits elim!: bind_SomeE dest!: tameD step.IH)
qed

text \<open>For endpoint 0 the loop would not end; otherwise its counter stays between 1 and 2.\<close>

lemma unalloc_not_0: "unalloc_eps hw ep i a s = Some y \<Longrightarrow> ep \<noteq> 0"
proof (induction rule: unalloc_eps.raw_induct [rotated 1, consumes 1, case_names step])
  case (step f hw ep i a s y)
  then show ?case by (auto simp: tame_unfold split: if_splits)
qed

lemma tame_unalloc_loop:
  "unalloc_eps hw ep i a s = Some y \<Longrightarrow> ep \<noteq> 0 \<and> i \<le> 2 \<longrightarrow> tame (snd y) = tame s"
proof (induction rule: unalloc_eps.raw_induct [rotated 1, consumes 1, case_names step])
  case (step f hw ep i a s y)
  have "i - 1 \<le> 2" if "ep \<le> i" "ep \<noteq> 0" "i \<le> 2"
    using ep_cases [OF that(3)] that by auto
  with step show ?case by (auto simp: tame_unfold tame_simps acc_simps split: if_splits)
qed

lemma tame_unalloc_eps [tameD]:
  "unalloc_eps hw ep i a s = Some y \<Longrightarrow> ep \<noteq> 0 \<and> (i \<le> 2 \<longrightarrow> tame (snd y) = tame s)"
  using unalloc_not_0 tame_unalloc_loop by blast

lemma tame_udd [tame_simps]:
  "tame (udd_enable_periph_ck hw s) = tame s" "tame (udd_disable_periph_ck hw s) = tame s"
  "tame (snd (Is_udd_full_speed_mode hw s)) = tame s" "tame (snd (udd_is_high_speed hw s)) = tame s"
  "tame (udd_set_address hw a s) = tame s" "tame (snd (udd_getaddress hw s)) = tame s"
  by (simp_all add: udd_enable_periph_ck_def udd_disable_periph_ck_def Is_udd_full_speed_mode_def
      udd_is_high_speed_def udd_set_address_def udd_getaddress_def tame_unfold tame_simps acc_simps)

lemma tame_fifo [tame_simps]:
  "a + length bs \<le> 7 * 0x10000 \<Longrightarrow> tame (fifo_write a bs s) = tame s"
  "a + n \<le> 7 * 0x10000 \<Longrightarrow> tame (snd (fifo_read hw a n s)) = tame s"
proof -
  show "a + length bs \<le> 7 * 0x10000 \<Longrightarrow> tame (fifo_write a bs s) = tame s"
    by (induction bs arbitrary: a s) (simp_all add: tame_simps acc_simps)
  show "a + n \<le> 7 * 0x10000 \<Longrightarrow> tame (snd (fifo_read hw a n s)) = tame s"
    by (induction n arbitrary: a s) (simp_all add: tame_unfold tame_simps acc_simps)
qed

lemma tame_test_modes [tame_simps]:
  "tame (udd_test_mode_j hw s) = tame s" "tame (udd_test_mode_k hw s) = tame s"
  "tame (udd_test_mode_se0_nak hw s) = tame s" "tame (udd_test_mode_packet hw s) = tame s"
  by (simp_all add: udd_test_mode_j_def udd_test_mode_k_def udd_test_mode_se0_nak_def
      udd_test_mode_packet_def udd_enable_hs_test_mode_def test_packet_def tame_unfold tame_simps acc_simps)

section \<open>Bulk endpoints\<close>

text \<open>Only an endpoint of the device has a job; the job of another one is idle.\<close>

lemma job_ok_le: "job_ok ep \<Longrightarrow> ep \<le> 2" "busy (fst (get_job ep s)) \<Longrightarrow> ep \<le> 2"
  by (auto simp: job_ok_def get_job_def job0_def split: if_splits)

lemma tame_job [tame_simps]:
  "tame (snd (get_job ep s)) = tame s" "tame (upd_job ep f s) = tame s"
  by (simp_all add: get_job_def upd_job_def tame_simps)

lemma tame_run_callback [tame_simps]: "tame (run_callback cb st s) = tame s"
  by (cases cb) (simp_all add: run_callback_def main_vendor_bulk_in_received_def
      main_vendor_bulk_out_received_def main_vendor_bulk_out_received_first_def Let_def tame_simps acc_simps)

lemma tame_finish_job [tame_simps]: "tame (udd_ep_finish_job hw ep ab s) = tame s"
proof (cases "busy (fst (get_job ep s))")
  case True
  then show ?thesis using job_ok_le(2) [OF True]
    by (simp add: udd_ep_finish_job_def tame_unfold tame_simps acc_simps)
qed (simp add: udd_ep_finish_job_def tame_unfold tame_simps)

lemma tame_job_table [tame_simps]:
  "tame (udd_ep_job_table_kill hw s) = tame s" "tame (udd_ep_abort_job hw ep s) = tame s"
  "tame (udd_ep_job_table_reset s) = tame s"
  by (simp_all add: udd_ep_job_table_kill_def udd_ep_abort_job_def udd_ep_job_table_reset_def tame_simps)

lemma tame_dma [tame_simps]:
  assumes "ep \<le> 2"
  shows "tame (snd (dma_ctrl hw ep s)) = tame s" "tame (trans_end hw ep s) = tame s"
  using assms
  by (simp_all add: dma_ctrl_def trans_end_def tame_unfold tame_simps acc_simps)

lemma tame_dma_start [tame_simps]: "ep \<le> 2 \<Longrightarrow> tame (snd (dma_start hw ep s)) = tame s"
  by (simp add: dma_start_def tame_unfold tame_simps acc_simps)

lemma tame_trans_done [tame_simps]: "tame (udd_ep_trans_done hw ep s) = tame s"
proof (cases "busy (fst (get_job ep s))")
  case True
  then show ?thesis using job_ok_le(2) [OF True]
    by (simp add: udd_ep_trans_done_def tame_unfold tame_simps acc_simps)
qed (simp add: udd_ep_trans_done_def tame_unfold tame_simps)

lemma tame_run [tame_simps]: "tame (snd (udd_ep_run hw ep sh b n cb s)) = tame s"
  by (simp add: udd_ep_run_def not_less tame_unfold tame_simps acc_simps)

lemma tame_abort [tameD]: "udd_ep_abort hw ep s = Some s' \<Longrightarrow> tame s' = tame s"
  by (auto simp: udd_ep_abort_def tame_unfold tame_simps acc_simps split: if_splits
      elim!: bind_SomeE dest!: tame_kill_banks)

lemma tame_clear [tame_simps]:
  assumes "ep \<le> 2"
  shows "tame (snd (clear_stall_request hw ep s)) = tame s" "tame (snd (clear_stall hw ep s)) = tame s"
  using assms
  by (simp_all add: clear_stall_request_def clear_stall_def tame_unfold tame_simps acc_simps)

lemma tame_halt [tame_simps]:
  "tame (snd (udd_ep_is_halted hw ep s)) = tame s" "tame (snd (udd_ep_set_halt hw ep s)) = tame s"
  "tame (snd (udd_ep_clear_halt hw ep s)) = tame s" "tame (snd (udd_ep_wait_stall_clear hw ep cb s)) = tame s"
  by (simp_all add: udd_ep_is_halted_def udd_ep_set_halt_def udd_ep_clear_halt_def
      udd_ep_wait_stall_clear_def not_less tame_unfold tame_simps acc_simps)

lemma tame_free [tame_simps]: "tame (udd_ep_free hw ep s) = tame s"
  by (simp add: udd_ep_free_def not_less tame_unfold tame_simps acc_simps)

lemma tame_realloc_eps [tame_simps]:
  "list_all (\<lambda>i. i \<le> 2) is \<Longrightarrow> tame (snd (realloc_eps hw a is s)) = tame s"
proof (induction "is" arbitrary: s)
  case (Cons i "is")
  obtain r t where e: "realloc_ep hw a i s = (r, t)" by fastforce
  have "tame (snd (realloc_ep hw a i s)) = tame s"
    using Cons.prems by (simp add: realloc_ep_def tame_unfold tame_simps acc_simps)
  then show ?case using Cons by (cases r) (simp_all add: e)
qed simp

lemma eps_le: "list_all (\<lambda>i. i \<le> (2 :: u8)) (map of_nat [k..<3])"
proof -
  have "of_nat i \<le> (2 :: u8)" if "i < 3" for i
  proof -
    have "i = 0 \<or> i = 1 \<or> i = 2" using that by auto
    then show ?thesis by auto
  qed
  then show ?thesis by (simp add: list_all_iff)
qed

lemma tame_alloc [tameD]: "udd_ep_alloc hw ep att mx s = Some y \<Longrightarrow> tame (snd y) = tame s"
  by (auto simp: udd_ep_alloc_def not_less tame_unfold tame_simps acc_simps tame_realloc_eps [OF eps_le]
      split: if_splits option.splits elim!: bind_SomeE dest!: tameD)

lemma tame_ep_interrupt [tame_simps]: "tame (snd (udd_ep_interrupt hw s)) = tame s"
proof -
  have "tame (dma_interrupt hw ep s) = tame s" if "ep \<le> 2" for ep and s :: "'a usb_scheme"
    using that by (simp add: dma_interrupt_def tame_unfold tame_simps acc_simps)
  then have "tame (snd (ep_events hw ep s)) = tame s" if "ep \<le> 2" for ep and s :: "'a usb_scheme"
    using that by (simp add: ep_events_def tame_unfold tame_simps acc_simps)
  then show ?thesis by (simp add: udd_ep_interrupt_def tame_unfold)
qed

section \<open>The board\<close>

lemma acc_priorities [acc_simps]: "writable NVIC 792" "writable NVIC 797"
  by (simp_all add: writable_def acc_at_def NVIC_acc_def)

lemma tame_delay [tame_simps]: "tame (cpu_delay_us n s) = tame s" "tame (cpu_delay_ms n s) = tame s"
  by (simp_all add: cpu_delay_us_def cpu_delay_ms_def tame_simps)

lemma tame_write_ad5663 [tameD]: "write_ad5663 hw c d s = Some s' \<Longrightarrow> tame s' = tame s"
  by (auto simp: write_ad5663_def tame_unfold tame_simps acc_simps elim!: bind_SomeE dest!: tameD)

lemma is_usart_port [simp]: "is_usart (ad7682_port ch)"
  by (simp add: ad7682_port_def)

lemma tame_get_sample [tameD]: "get_sample_ad7682 hw ch cfg d s = Some y \<Longrightarrow> tame (snd y) = tame s"
proof -
  have "tame t' = tame t" if "ad7682_convert hw ch cfg d t = Some t'" for t t' :: "'a mach_scheme"
    using that by (auto simp: ad7682_convert_def tame_unfold tame_simps acc_simps elim!: bind_SomeE dest!: tameD)
  then show "get_sample_ad7682 hw ch cfg d s = Some y \<Longrightarrow> tame (snd y) = tame s"
    by (auto simp: get_sample_ad7682_def tame_unfold tame_simps elim!: bind_SomeE)
qed

lemma tame_bus_devices [tameD]:
  "write_ad5122 hw c ch a b s = Some s' \<Longrightarrow> tame s' = tame s"
  "write_adm1177 hw bf ct s = Some s' \<Longrightarrow> tame s' = tame s"
  "read_adm1177 hw ct s = Some y \<Longrightarrow> tame (snd y) = tame s"
  by (auto simp: write_ad5122_def write_adm1177_def read_adm1177_def tame_unfold elim!: bind_SomeE dest!: tameD)

lemma tame_set_mode [tameD]: "set_mode hw ch m s = Some s' \<Longrightarrow> tame s' = tame s"
  by (auto simp: set_mode_def set_mode_pins_def tame_unfold tame_simps split: if_splits dest!: tameD)

text \<open>
  The pins that the program reads: pin 53 of the board, and pin \<open>v AND 0xFF\<close> that a request
  names. The division by 32 gives one of eight ports, two of which exist.\<close>

lemma tame_pin_value [tame_simps]:
  assumes "unat n < 256"
  shows "tame (snd (pio_get_pin_value hw n s)) = tame s"
proof -
  have "unat (drop_bit 5 n) = drop_bit 5 (unat n)" by (rule unat_drop_bit_eq)
  then have "unat (drop_bit 5 n) < 8" using assms by (simp only: drop_bit_eq_div) simp
  then have "unat (drop_bit 5 n) \<in> {0, 1, 2, 3, 4, 5, 6, 7}" by auto
  then have "drop_bit 5 n \<in> {0, 1, 2, 3, 4, 5, 6, 7}" by (auto simp: word_unat_eq_iff)
  then have "acc_ok (Rd (pio_get_pin_group n) PIO_PDSR)"
    by (auto simp: pio_get_pin_group_def acc_simps) (simp_all add: acc_ok_def strays_def)
  then show ?thesis by (simp add: pio_get_pin_value_def tame_unfold tame_simps)
qed

lemma low_byte_bound [simp]: "unat (ucast (v AND 0xFF :: u16) :: u32) < 256"
proof -
  have "v AND 0xFF = take_bit 8 v" by (simp add: take_bit_eq_mask mask_eq_exp_minus_1)
  then have "unat (v AND 0xFF) < 2 ^ 8"
    using take_bit_nat_less_exp [of 8 "unat v"] by (simp add: unsigned_take_bit_eq)
  then show ?thesis by (simp add: unsigned_ucast_eq take_bit_nat_eq_self)
qed

lemma tame_get_hwversion [tame_simps]: "tame (get_hwversion hw s) = tame s"
  by (simp add: get_hwversion_def tame_unfold tame_simps)

lemma tame_read_flash_table [tame_simps]: "tame (read_flash_table hw s) = tame s"
  by (simp add: read_flash_table_def tame_unfold tame_simps)

lemma tame_init_serial [tameD]: "init_build_usb_serial_number hw u s = Some s' \<Longrightarrow> tame s' = tame s"
  by (auto simp: init_build_usb_serial_number_def tame_unfold elim!: bind_SomeE dest!: tameD)

lemma tame_store_flash_table [tameD]: "store_flash_table hw u s = Some s' \<Longrightarrow> tame s' = tame s"
  by (auto simp: store_flash_table_def tame_unfold tame_simps split: if_splits elim!: bind_SomeE dest!: tameD)

lemma tame_set_up [tame_simps]:
  "tame (enable_clocks hw is s) = tame s"
  "list_all (\<lambda>(p, ty, m). is_pio p) cs \<Longrightarrow> tame (configure_pins hw cs s) = tame s"
proof -
  show "tame (enable_clocks hw is s) = tame s"
    by (induction "is" arbitrary: s) (simp_all add: tame_simps)
  show "list_all (\<lambda>(p, ty, m). is_pio p) cs \<Longrightarrow> tame (configure_pins hw cs s) = tame s"
  proof (induction cs arbitrary: s)
    case (Cons c cs)
    then show ?case by (cases c) (simp add: tame_simps)
  qed simp
qed

lemma tame_init_parts [tame_simps]:
  "tame (init_leds s) = tame s" "tame (init_serial_ports hw s) = tame s"
  "tame (init_sample_timer hw s) = tame s"
  by (simp_all add: init_leds_def init_serial_ports_def init_sample_timer_def tame_unfold tame_simps acc_simps)

lemma tame_init_hardware [tameD]: "init_hardware hw jk s = Some s' \<Longrightarrow> tame s' = tame s"
  by (auto simp: init_hardware_def board_pins_def tame_unfold tame_simps elim!: bind_SomeE dest!: tameD)

lemma tame_config_hardware [tameD]: "config_hardware hw s = Some s' \<Longrightarrow> tame s' = tame s"
  by (auto simp: config_hardware_def tame_unfold tame_simps elim!: bind_SomeE dest!: tameD)

section \<open>Vendor requests\<close>

lemma tame_store_ret_data [tame_simps]: "tame (store_ret_data bs s) = tame s"
  by (simp add: store_ret_data_def tame_unfold tame_simps)

lemma is_pio_setup [simp]: "is_pio (setup_pio v)"
  by (simp add: setup_pio_def)

lemma tame_setup [tame_simps]:
  "tame (setup_flash_write b s) = tame s" "tame (setup_leds s) = tame s" "tame (setup_vars s) = tame s"
  "tame (setup_pin_input hw s) = tame s"
  by (simp_all add: setup_flash_write_def setup_leds_def setup_vars_def setup_pin_input_def
      tame_unfold tame_simps)

lemma tame_setup_partial [tameD]:
  "setup_adm1177 hw s = Some y \<Longrightarrow> tame (snd y) = tame s"
  "setup_temperature hw s = Some y \<Longrightarrow> tame (snd y) = tame s"
  by (auto simp: setup_adm1177_def setup_temperature_def tame_unfold tame_simps elim!: bind_SomeE dest!: tameD)

lemma tame_bulk_run [tame_simps]:
  "tame (snd (udi_vendor_bulk_in_run hw b n cb s)) = tame s"
  "tame (snd (udi_vendor_bulk_out_run hw b n cb s)) = tame s"
  by (simp_all add: udi_vendor_bulk_in_run_def udi_vendor_bulk_out_run_def tame_simps)

lemma tame_setup_sampling [tameD]: "setup_sampling hw s = Some s' \<Longrightarrow> tame s' = tame s"
  by (auto simp: setup_sampling_def tame_unfold tame_simps split: if_splits elim!: bind_SomeE dest!: tameD)

lemma tame_vendor_request [tameD]: "vendor_request hw s = Some y \<Longrightarrow> tame (snd y) = tame s"
  by (auto simp: vendor_request_def tame_unfold tame_simps split: if_splits elim!: bind_SomeE dest!: tameD)

lemma tame_main_setup_handle [tameD]: "main_setup_handle hw s = Some y \<Longrightarrow> tame (snd y) = tame s"
  by (auto simp: main_setup_handle_def split: if_splits setup_result.splits elim!: bind_SomeE dest!: tameD)

section \<open>The device core\<close>

lemma tame_device [tame_simps]:
  "tame (udd_sleep_mode b s) = tame s" "tame (udd_set_setup_payload p n s) = tame s"
  "tame (udd_attach hw s) = tame s" "tame (udd_detach hw s) = tame s" "tame (udd_disable hw s) = tame s"
  by (simp_all add: udd_sleep_mode_def udd_set_setup_payload_def udd_attach_def udd_detach_def
      udd_disable_def tame_unfold tame_simps acc_simps)

lemma tame_udd_enable [tameD]: "udd_enable hw s = Some s' \<Longrightarrow> tame s' = tame s"
  by (auto simp: udd_enable_def tame_unfold tame_simps acc_simps elim!: bind_SomeE dest!: tameD)

lemma tame_vendor_interface [tame_simps]:
  "tame (udi_vendor_disable s) = tame s" "tame (snd (udi_vendor_enable s)) = tame s"
  by (simp_all add: udi_vendor_disable_def main_vendor_disable_def udi_vendor_enable_def
      main_vendor_enable_def main_vendor_bulk_in_received_def Let_def)

lemma tame_update_iface [tameD]: "udc_update_iface_desc i a s = Some y \<Longrightarrow> tame (snd y) = tame s"
  by (auto simp: udc_update_iface_desc_def elim!: bind_SomeE split: if_splits)

lemma tame_free_eps [tameD]: "free_eps hw p s = Some s' \<Longrightarrow> tame s' = tame s"
proof (induction rule: free_eps.raw_induct [rotated 1, consumes 1, case_names step])
  case (step f hw p s s')
  from step.hyps show ?case
    by (auto simp: tame_simps elim!: bind_SomeE split: option.splits dest!: step.IH)
qed

lemma tame_alloc_eps [tameD]: "alloc_eps hw p s = Some y \<Longrightarrow> tame (snd y) = tame s"
proof (induction rule: alloc_eps.raw_induct [rotated 1, consumes 1, case_names step])
  case (step f hw p s y)
  from step.hyps show ?case
    by (auto elim!: bind_SomeE split: option.splits if_splits dest!: tameD step.IH)
qed

lemma tame_iface [tameD]:
  "udc_iface_disable hw i s = Some y \<Longrightarrow> tame (snd y) = tame s"
  "udc_iface_enable hw i a s = Some y \<Longrightarrow> tame (snd y) = tame s"
  by (auto simp: udc_iface_disable_def udc_iface_enable_def tame_simps elim!: bind_SomeE split: if_splits
      dest!: tameD)

lemma tame_ifaces [tameD]:
  "disable_ifaces hw is s = Some s' \<Longrightarrow> tame s' = tame s"
  "enable_ifaces hw is s = Some y \<Longrightarrow> tame (snd y) = tame s"
proof -
  show "disable_ifaces hw is s = Some s' \<Longrightarrow> tame s' = tame s"
    by (induction "is" arbitrary: s) (auto elim!: bind_SomeE dest!: tameD)
  show "enable_ifaces hw is s = Some y \<Longrightarrow> tame (snd y) = tame s"
  proof (induction "is" arbitrary: s)
    case (Cons i "is")
    from Cons.prems show ?case by (auto elim!: bind_SomeE split: if_splits dest!: tameD Cons.IH)
  qed auto
qed

lemma tame_udc_reset [tameD]: "udc_reset hw s = Some s' \<Longrightarrow> tame s' = tame s"
  by (auto simp: udc_reset_def elim!: bind_SomeE split: if_splits dest!: tameD)

lemma tame_get_desc [tame_simps]: "tame (snd (get_desc hw s)) = tame s"
  by (simp add: get_desc_def get_conf_desc_def udc_req_std_dev_get_str_desc_def set_string_def
      msft_string_handle_def tame_unfold tame_simps)

lemma tame_std [tame_simps]:
  "tame (snd (udc_req_std_dev_get_status s)) = tame s" "tame (snd (udc_req_std_ep_get_status hw s)) = tame s"
  "tame (snd (udc_req_std_dev_clear_feature s)) = tame s"
  "tame (snd (udc_req_std_ep_clear_feature hw s)) = tame s"
  "tame (snd (udc_req_std_dev_set_address s)) = tame s"
  "tame (snd (udc_req_std_dev_get_descriptor hw s)) = tame s"
  "tame (snd (udc_req_std_dev_get_configuration s)) = tame s"
  by (simp_all add: udc_req_std_dev_get_status_def udc_req_std_ep_get_status_def
      udc_req_std_dev_clear_feature_def udc_req_std_ep_clear_feature_def udc_req_std_dev_set_address_def
      udc_req_std_dev_get_descriptor_def udc_req_std_dev_get_configuration_def tame_unfold tame_simps)

lemma tame_std_partial [tameD]:
  "udc_req_std_dev_set_feature hw s = Some y \<Longrightarrow> tame (snd y) = tame s"
  "udc_req_std_ep_set_feature hw s = Some y \<Longrightarrow> tame (snd y) = tame s"
  "udc_req_std_dev_set_configuration hw s = Some y \<Longrightarrow> tame (snd y) = tame s"
  "udc_req_std_iface_get_setting s = Some y \<Longrightarrow> tame (snd y) = tame s"
  "udc_req_std_iface_set_setting hw s = Some y \<Longrightarrow> tame (snd y) = tame s"
  by (auto simp: udc_req_std_dev_set_feature_def udc_req_std_ep_set_feature_def
      udc_req_std_dev_set_configuration_def udc_req_std_iface_get_setting_def
      udc_req_std_iface_set_setting_def tame_unfold tame_simps elim!: bind_SomeE split: if_splits dest!: tameD)

lemma tame_reqstd [tameD]: "udc_reqstd hw s = Some y \<Longrightarrow> tame (snd y) = tame s"
  by (auto simp: udc_reqstd_def reqstd_in_def reqstd_out_def Let_def tame_simps split: if_splits dest!: tameD)

lemma tame_req_iface [tameD]: "udc_req_iface s = Some y \<Longrightarrow> tame (snd y) = tame s"
  by (auto simp: udc_req_iface_def Let_def elim!: bind_SomeE split: if_splits dest!: tameD)

lemma tame_req_ep [tameD]: "udc_req_ep s = Some y \<Longrightarrow> tame (snd y) = tame s"
proof -
  have "req_ep_ifaces is t = Some y \<Longrightarrow> tame (snd y) = tame t" for "is" t
  proof (induction "is" arbitrary: t)
    case (Cons i "is")
    from Cons.prems show ?case by (auto elim!: bind_SomeE split: if_splits dest!: tameD Cons.IH)
  qed auto
  then show "udc_req_ep s = Some y \<Longrightarrow> tame (snd y) = tame s"
    by (auto simp: udc_req_ep_def split: if_splits)
qed

lemma tame_process_setup [tameD]: "udc_process_setup hw s = Some y \<Longrightarrow> tame (snd y) = tame s"
  by (auto simp: udc_process_setup_def or_else_def Let_def split: if_splits elim!: bind_SomeE dest!: tameD)

section \<open>The control endpoint\<close>

lemma tame_bytes [tame_simps]:
  "tame (snd (load_byte hw p s)) = tame s" "tame (store_byte p b s) = tame s"
  by (simp_all add: load_byte_def store_byte_def tame_simps split: obj.split)

lemma tame_copy [tame_simps]:
  "a + n \<le> 7 * 0x10000 \<Longrightarrow> tame (copy_in hw p a n s) = tame s"
  "a + n \<le> 7 * 0x10000 \<Longrightarrow> tame (copy_out hw p a n s) = tame s"
proof -
  show "a + n \<le> 7 * 0x10000 \<Longrightarrow> tame (copy_in hw p a n s) = tame s"
    by (induction n arbitrary: p a s) (simp_all add: tame_unfold tame_simps acc_simps)
  show "a + n \<le> 7 * 0x10000 \<Longrightarrow> tame (copy_out hw p a n s) = tame s"
    by (induction n arbitrary: p a s) (simp_all add: tame_unfold tame_simps acc_simps)
qed

lemma u16_small: "unat n \<le> 0x70000" for n :: u16
proof -
  have "unat n < 2 ^ LENGTH(16)" by (rule unsigned_less)
  then show ?thesis by simp
qed

lemma tame_ctrl [tame_simps]:
  "tame (udd_reset_ep_ctrl hw s) = tame s" "tame (udd_ctrl_init s) = tame s"
  "tame (udd_ctrl_stall_data s) = tame s" "tame (udd_ctrl_send_zlp_in s) = tame s"
  "tame (udd_ctrl_send_zlp_out s) = tame s"
  by (simp_all add: udd_reset_ep_ctrl_def udd_ctrl_init_def udd_ctrl_stall_data_def
      udd_ctrl_send_zlp_in_def udd_ctrl_send_zlp_out_def tame_unfold tame_simps acc_simps)

lemma tame_ctrl_packets [tame_simps]:
  "tame (udd_ctrl_underflow hw s) = tame s" "tame (udd_ctrl_overflow hw s) = tame s"
  "tame (send_packet hw k s) = tame s" "tame (out_data_done hw n s) = tame s"
  by (simp_all add: udd_ctrl_underflow_def udd_ctrl_overflow_def send_packet_def out_data_done_def
      u16_small tame_unfold tame_simps acc_simps)

lemma tame_ctrl_naks [tame_simps]: "tame (snd (ctrl_naks hw st s)) = tame s"
  by (simp add: ctrl_naks_def tame_unfold tame_simps acc_simps)

lemma tame_endofrequest [tameD]: "udd_ctrl_endofrequest hw s = Some s' \<Longrightarrow> tame s' = tame s"
  by (auto simp: udd_ctrl_endofrequest_def udc_valid_address_def tame_simps split: ctrl_callback.splits
      dest!: tameD)

lemma tame_in_sent [tameD]: "udd_ctrl_in_sent hw s = Some s' \<Longrightarrow> tame s' = tame s"
  by (auto simp: udd_ctrl_in_sent_def tame_unfold tame_simps acc_simps split: if_splits dest!: tameD)

lemma tame_start_data_phase [tameD]: "start_data_phase hw s = Some s' \<Longrightarrow> tame s' = tame s"
  by (auto simp: start_data_phase_def tame_unfold tame_simps acc_simps split: if_splits dest!: tameD)

lemma tame_setup_received [tameD]: "udd_ctrl_setup_received hw s = Some s' \<Longrightarrow> tame s' = tame s"
  by (auto simp: udd_ctrl_setup_received_def tame_unfold tame_simps acc_simps elim!: bind_SomeE
      split: if_splits dest!: tameD)

lemma tame_out_received [tameD]: "udd_ctrl_out_received hw s = Some s' \<Longrightarrow> tame s' = tame s"
  by (auto simp: udd_ctrl_out_received_def u16_small tame_unfold tame_simps acc_simps
      split: if_splits dest!: tameD)

lemma tame_ctrl_interrupt [tameD]: "udd_ctrl_interrupt hw s = Some y \<Longrightarrow> tame (snd y) = tame s"
  by (auto simp: udd_ctrl_interrupt_def tame_unfold tame_simps acc_simps split: if_splits dest!: tameD)

section \<open>Interrupt handlers and main program\<close>

lemma tame_bus_events [tameD]: "bus_events hw s = Some s' \<Longrightarrow> tame s' = tame s"
  by (auto simp: bus_events_def bus_reset_def bus_suspend_def bus_wake_up_def tame_unfold tame_simps acc_simps
      elim!: bind_SomeE split: if_splits dest!: tameD)

lemma tame_main_sof [tame_simps]: "tame (main_sof_action hw s) = tame s"
  by (simp add: main_sof_action_def tame_unfold tame_simps acc_simps)

lemma tame_UDPHS_Handler [tameD]: "UDPHS_Handler hw s = Some s' \<Longrightarrow> tame s' = tame s"
  by (auto simp: UDPHS_Handler_def udc_sof_notify_def tame_unfold tame_simps acc_simps
      elim!: bind_SomeE split: if_splits dest!: tameD)

lemma tame_TC2_Handler [tame_simps]: "tame (TC2_Handler hw s) = tame s"
  by (cases "current_chan s")
    (simp_all add: TC2_Handler_A TC2_Handler_B events_A_def events_B_def acc_simps)

lemma tame_main_init [tameD]: "main_init hw s = Some s' \<Longrightarrow> tame s' = tame s"
  by (auto simp: main_init_def main_init_board_def main_init_usb_def udc_stop_def udc_start_def
      tame_unfold tame_simps acc_simps elim!: bind_SomeE dest!: tameD)

lemma tame_main_step [tameD]: "main_step hw p s = Some c \<Longrightarrow> tame (snd c) = tame s"
  by (cases p) (auto simp: main_step_def main_pots_def tame_simps split: if_splits dest!: tameD)

lemma tame_fw_step: "fw_step c c' \<Longrightarrow> tame (snd c') = tame (snd c)"
  by (erule fw_stepE) (auto simp: tame_simps dest!: tameD)

lemma tame_reachable: "reachable fw c \<Longrightarrow> tame (snd c)"
proof (induction rule: reachable.induct)
  case (start hw s)
  then show ?case by (auto simp: usb_init_def app_init_def app.defs dest!: tameD)
qed (simp add: tame_fw_step)

end
