(* ===== verification/Spec2Isabelle.thy ===== *)
theory Spec2Isabelle
  imports Bulk_Transfer Start_Transfer Calibration_Write
    Pwm Pio_Handler Sleep Startup Ioport Genclk Udphs_Endpoints Usb_Descriptors Access_Safety
begin

text \<open>
  The firmware of the ADALM1000, a two-channel source-measure unit on USB: an Atmel SAM3U2C
  that plays two streams of samples from the host on its converters and records four streams for
  the host. This development models the firmware, from the register drivers up to \<open>main\<close>, and
  proves its theorems about that model.

  \<^bold>\<open>The program.\<close> \<open>main\<close> (\<^verbatim>\<open>src/src/main.c\<close>) sets up the clocks, the converters, the timer and
  the watchdog, attaches to the bus and then runs a loop that starts bulk transfers. A timer
  interrupt, \<open>TC2_Handler\<close>, fires twice per sample and hands the addresses of the samples to the
  DMA channels of the serial ports. The USB interrupt runs the stack of Atmel's framework: the
  controller driver (\<^verbatim>\<open>udphs_device.c\<close>) with its control endpoint and its bulk endpoints, the
  device core (\<^verbatim>\<open>udc.c\<close>), the vendor interface (\<^verbatim>\<open>udi_vendor.c\<close>), and at last the application's
  \<open>main_setup_handle\<close>, through which the host calibrates, configures and starts the
  sampling. Below are the drivers of the pins, timers, serial ports, flash and clocks.

  \<^bold>\<open>State and accesses.\<close> Every operation of the code is one definition that passes a state. The state
  is a record that grows with the layers: \<open>mach\<close> is the trace of register accesses (newest first),
  \<open>app\<close> adds the variables of the application, \<open>usb\<close> those of the stack. What a read returns
  is decided by the parameter \<open>hw\<close>, a function of the whole history of accesses; theorems hold for
  every \<open>hw\<close>, or for those that satisfy a named hypothesis on the hardware. Pointers are an
  object and an offset; an access outside its object is recorded as \<open>Oob\<close>. C integers are
  words of their width, so wrap-around is part of the model. A loop that waits for hardware is a
  partial function: \<open>None\<close> means that it never ends, and no fuel is used anywhere.

  \<^bold>\<open>Theories\<close>, in the order of their imports:

  \<^item> \<open>Prelude\<close>: words, traces, reads and writes, waiting loops; the locale \<open>io_op\<close> of straight-line
    register code.
  \<^item> \<open>Pio\<close>, \<open>Tc\<close>, \<open>Wdt\<close>, \<open>Twi\<close>, \<open>Usart\<close>, \<open>Efc\<close>, \<open>Pmc\<close>: the drivers under \<^verbatim>\<open>src/asf/sam/drivers\<close>, one
    definition per function. Shown: pins are configured as asked and others are left alone,
    the divider and timeout computations are correct, a master write sends its bytes in order, a
    read takes a bounded number of polls, the clock is switched in the safe order, command words
    decode. The locales \<open>pio_hw\<close> and \<open>pmc_hw\<close> state what the drivers rely on in a register
    bank and are interpreted on the registers as the trace of writes defines them.
  \<^item> \<open>Clock\<close>: oscillators, PLLs and \<open>sysclk_init\<close> (\<^verbatim>\<open>src/asf/common/services/clock/sam3u\<close>, \<^verbatim>\<open>system_sam3u.c\<close>);
    the processor runs at the frequency that the rest of the code assumes.
  \<^item> \<open>Flash_Efc\<close>: the flash service, \<^verbatim>\<open>flash_efc.c\<close>. \<open>Flash_Image\<close>: what its commands do to the contents
    of the flash, on a controller that works as documented: \<open>flash_write\<close> replaces exactly its
    range, locks cover exactly their regions, the calibration table survives a power cycle.
  \<^item> \<open>App_State\<close>, \<open>Sampling\<close>: the variables and the sampling interrupt. Shown: the interrupt refines the
    two sample streams for an unbounded number of slots, the double buffering is respected, and
    its pointers are safe in any state.
  \<^item> \<open>Front_End\<close>: converters, potentiometers, hot-swap controller, channel modes, serial number,
    calibration table, pin set-up (\<^verbatim>\<open>src/src/main.c\<close>).
  \<^item> \<open>Usb_State\<close>, \<open>Udphs_Macros\<close>, \<open>Udd_Ep\<close>, \<open>Udi_Vendor\<close>, \<open>Udd_Dev\<close>, \<open>Vendor_Requests\<close>, \<open>Udc\<close>, \<open>Udd_Ctrl\<close>: the USB
    stack, in the order of its calls, up to the interrupt handler \<open>UDPHS_Handler\<close>. \<open>Udphs_Macros\<close> holds the
    register macros of \<^verbatim>\<open>udphs_device.h\<close>, each as an abbreviation, so that the driver reads like the code.
    \<open>Udphs_Endpoints\<close>: what they promise, as a round trip of the configuration of an endpoint and a
    refinement of sets by the flags of the endpoints. \<open>Usb_Descriptors\<close>: the descriptors as structures
    (\<^verbatim>\<open>usb_protocol.h\<close>, \<^verbatim>\<open>udi_vendor_desc.c\<close>) for every choice of endpoints. Shown: they are well formed,
    the searches of the core end and find what is there, and the interface allocates the endpoints of its structure.
  \<^item> \<open>Firmware\<close>: \<open>main\<close> as a step relation. One step is a statement of \<open>main\<close> or a run of one of the two
    handlers, so the reachable states contain every interleaving of the loop with the interrupts.
  \<^item> \<open>Frame\<close>, \<open>Safety\<close>, \<open>Safety_Usb\<close>: what driver code leaves alone; the invariant \<open>fw_inv\<close>, kept by every operation,
    and so true in every reachable state, for every hardware and every host.
  \<^item> \<open>Liveness\<close>: under \<open>responsive hw\<close>, which collects the bits of the data sheet that the code
    waits for, start-up, main loop and handlers return.
  \<^item> \<open>Bulk_Transfer\<close>: a bulk transfer against its reference, the buffer in parts of 64 KiB.
    \<open>Control_Transfer\<close>: the data phase of IN requests against a reference that cuts the payload into packets, the
    descriptors against a table of descriptors, the address change after the status stage, and
    two requests that are not checked. \<open>Start_Transfer\<close>: the request that starts the sampling
    leads to the state that the stream theorems start from. \<open>Calibration_Write\<close>: the request that
    writes the calibration table, with its OUT data phase and its status stage, down to the
    contents of the flash.
  \<^item> \<open>Startup\<close>: what runs before \<open>main\<close>: the reset code, the vector table, and stubs for the C library.
    Shown: memory is as C promises when \<open>main\<close> is entered, and the vectors lead to the handlers.
    \<open>Interrupt\<close>: the interrupt controller (\<^verbatim>\<open>core_cm3.h\<close>) and the global mask with its two kinds of
    sections (\<^verbatim>\<open>interrupt_sam_nvic.h\<close>), which are interpretations of one locale, \<open>irq_section\<close>; sections nest.
  \<^item> \<open>Pio_Handler\<close>, \<open>Pwm\<close>, \<open>Sleep\<close>, \<open>Ioport\<close>, \<open>Genclk\<close>: the rest of the framework that is part of the
    repository, though \<open>main\<close> does not call it: the dispatcher of pin interrupts with the invariant
    of its table, PWM channels and their clocks, the sleep modes with what they save and restore,
    the port service against the PIO driver, the programmable clocks. \<open>Compiler_Macros\<close>: the macros and
    conversions of \<^verbatim>\<open>compiler.h\<close>, with round trips and their equivalence to reference definitions.
  \<^item> \<open>Register_Map\<close>: the registers of the part as \<^verbatim>\<open>sam3u2c.h\<close> and the headers under
    \<^verbatim>\<open>cmsis/sam3u/include/component\<close> and \<^verbatim>\<open>instance\<close> declare them, as tables that are generated from the
    headers line by line. Shown: the two views agree on every register, and a peripheral and an offset,
    by which the model names a register, denote one address. \<open>Register_Access\<close>: the offsets that the
    drivers use are those of the headers, and which accesses the headers allow. \<open>Access_Safety\<close>: every
    operation of the program makes only such accesses, or one of a list of exceptions.
  \<^item> This theory: the properties of the whole program.

  \<^bold>\<open>Limits.\<close> A handler runs to completion: the timer interrupt, which has the higher priority, may in
  fact preempt the USB handler, and interrupts may arrive inside a delay or a waiting loop of
  \<open>main\<close>; the model has interrupts only between statements. In \<open>Firmware\<close> interrupt masking therefore has no
  counterpart beyond the recorded instructions; \<open>Interrupt\<close> treats it by itself. Local variables that the code leaves
  uninitialised are arbitrary values taken from \<open>hw\<close>. The part is the SAM3U2C with high speed
  support, assertions compiled out and an empty sleep manager, as the build has it.

  \<^bold>\<open>Not modelled.\<close> The initialisation of the C library (a parameter of \<open>Reset_Handler\<close>) and the
  stubs \<open>_fstat\<close>, \<open>_exit\<close> and \<open>_kill\<close>; the sleep manager, which is compiled out; code for other parts of
  the SAM family, or for other compilers, that the build leaves out; the time that a delay
  takes: its rounds are counted in \<open>Front_End\<close>, and it is one event of the trace; the masks and values of the
  fields of registers that no code uses. Accesses outside an object end the claims of the model: they are
  recorded, and \<open>Control_Transfer\<close> shows a request that causes one.
\<close>

section \<open>Reachable states\<close>

lemma start_up_ends:
  assumes "responsive hw"
  obtains s where "main_init hw (usb_init fw) = Some s"
  using main_init_live [OF inv_usb_init assms, of fw] by auto

lemma reachable_ready: "\<exists>s. reachable fw (Dac_a, s)"
  using start_up_ends [OF responsive_ready] reachable.start by metis

lemma job_safeD:
  "job_safe b j \<Longrightarrow> busy j \<longrightarrow> fst (buf j) = b \<and> snd (buf j) + unat (buf_size j) \<le> obj_size b \<and> buf_cnt j \<le> buf_size j"
  by (auto simp: job_safe_def job_fits_def)

lemma jobs_okD:
  assumes "jobs_ok js"
  shows "\<exists>j k. js = [j, k] \<and>
    (busy j \<longrightarrow> fst (buf j) = O_packets_in \<and> snd (buf j) + unat (buf_size j) \<le> obj_size O_packets_in \<and> buf_cnt j \<le> buf_size j) \<and>
    (busy k \<longrightarrow> fst (buf k) = O_packets_out \<and> snd (buf k) + unat (buf_size k) \<le> obj_size O_packets_out \<and> buf_cnt k \<le> buf_size k)"
  using assms job_safeD unfolding jobs_ok_def by blast











end
